(* ===== verification/Prelude.thy ===== *)
theory Prelude imports Main "HOL-Library.Word" begin

text \<open>
  What every theory of the development shares: the machine types of Go as words, byte strings,
  the errors the modelled packages return, the fact collections, and the generic lemmas on words,
  lists and maps.

  Go's fixed-width integers are words of their width; int64 and uint64 share the
  type of 64-bit words, so that a conversion between the two is the identity on bits, and a signed
  comparison is written with sint. A Go string is its bytes.
\<close>

unbundle bit_operations_syntax

section \<open>Types\<close>

type_synonym u8 = "8 word"
type_synonym u16 = "16 word"
type_synonym u32 = "32 word"
type_synonym u64 = "64 word"
type_synonym i64 = "64 word"
type_synonym bytes = "u8 list"
type_synonym gostring = "u8 list"

text \<open>A string literal of the source, as its bytes.\<close>

definition lit :: "string \<Rightarrow> gostring" where
  "lit s = map of_char s"

text \<open>
  time.Time is an instant: nanoseconds since the Unix epoch. The location of a
  time.Time only matters to formatting and is left out. UnixMilli rounds
  down to the millisecond and wraps to 64 bits, time.UnixMilli is its inverse
  on millisecond instants.
\<close>

type_synonym gotime = int

definition UnixMilli :: "gotime \<Rightarrow> i64" where
  "UnixMilli t = word_of_int (t div 1000000)"

definition time_of_millis :: "i64 \<Rightarrow> gotime" where
  "time_of_millis ms = sint ms * 1000000"

text \<open>"time.Time{}": the first of January of the year 1.\<close>

definition zero_time :: gotime where
  "zero_time = - 62135596800 * 1000000000"

section \<open>Errors\<close>

text \<open>
  The sentinel errors of "pkg/protocol" and of the standard library's readers.
  WriteErr stands for whatever error a writer other than a buffer returns.
\<close>

datatype go_error =
    ErrStringTooLong | ErrInvalidUTF8
  | ErrFrameTooLarge | ErrInvalidVersion | ErrInvalidFrameLength
  | ErrNicknameTooShort | ErrNicknameTooLong | ErrMessageTooLong | ErrEmptyContent
  | io_EOF | io_ErrUnexpectedEOF
  | WriteErr nat

section \<open>Fact collections\<close>

named_theorems codec \<open>rewriting of readers and writers on byte strings\<close>
named_theorems type_code \<open>the values of the message type codes\<close>
named_theorems msg_def \<open>definitions of the message encoders and decoders\<close>

section \<open>Instants\<close>

lemma UnixMilli_time_of_millis [simp]: "UnixMilli (time_of_millis ms) = ms"
  by (simp add: UnixMilli_def time_of_millis_def)

text \<open>The millisecond an instant falls into: what a timestamp keeps of it on the wire.\<close>

definition trunc_millis :: "gotime \<Rightarrow> gotime" where
  "trunc_millis t = time_of_millis (UnixMilli t)"

lemma trunc_millis_idem [simp]: "trunc_millis (trunc_millis t) = trunc_millis t"
  by (simp add: trunc_millis_def)

lemma trunc_millis_in_range:
  assumes "- (2 ^ 63) \<le> t div 1000000" and "t div 1000000 < 2 ^ 63"
  shows "trunc_millis t = t - t mod 1000000"
proof -
  have "sint (word_of_int (t div 1000000) :: i64) = t div 1000000"
    using assms by (simp add: signed_of_int signed_take_bit_int_eq_self)
  then show ?thesis
    by (simp add: trunc_millis_def time_of_millis_def UnixMilli_def minus_mod_eq_div_mult)
qed

end
