(* ===== verification/GoIO.thy ===== *)
theory GoIO imports Prelude begin

text \<open>
  The parts of Go's io and bytes packages that the protocol code uses.

  An io.Writer is its Write method over a state of any type, together with the
  Flush method the writer may also have. A piece of code that writes is a step from the
  writer's state to its next state and the error it returned; the idiom
  "if err := A; err != nil { return err }; B" is "steps [A, B]".
  bytes.Buffer is the writer that appends and never fails.

  An io.Reader over a byte slice (bytes.Reader, and a connection whose peer
  has sent these bytes and closed it) is the bytes not yet read. A read returns its error or its
  value with the rest. The decoders assign their receiver as they go; read_then returns
  the receiver as it stands when a read fails.
\<close>

section \<open>Writers\<close>

record 'w io_writer =
  Write :: "'w \<Rightarrow> bytes \<Rightarrow> 'w \<times> go_error option"
  Flush :: "('w \<Rightarrow> 'w \<times> go_error option) option"

type_synonym 'w wr = "'w \<Rightarrow> 'w \<times> go_error option"

definition no_error :: "'w wr" where
  "no_error w = (w, None)"

definition fails :: "go_error \<Rightarrow> 'w wr" where
  "fails e w = (w, Some e)"

fun steps :: "'w wr list \<Rightarrow> 'w wr" where
  "steps [] w = (w, None)"
| "steps (s # ss) w =
     (case s w of
        (w', None) \<Rightarrow> steps ss w'
      | (w', Some e) \<Rightarrow> (w', Some e))"

lemma steps_append: "steps (ss @ ts) w =
    (case steps ss w of (w', None) \<Rightarrow> steps ts w' | (w', Some e) \<Rightarrow> (w', Some e))"
  by (induction ss arbitrary: w) (auto split: prod.splits option.splits)

subsection \<open>The contract of a writer\<close>

text \<open>
  What io.Writer documents: a write that returns no error has taken all the bytes, a
  write that fails has taken some first part of them. sent is what the writer has taken.
\<close>

locale writer_contract =
  fixes w :: "'w io_writer" and sent :: "'w \<Rightarrow> bytes"
  assumes write_ok: "Write w s p = (s', None) \<Longrightarrow> sent s' = sent s @ p"
    and write_fail: "Write w s p = (s', Some e) \<Longrightarrow> \<exists>q r. p = q @ r \<and> sent s' = sent s @ q"
    and flush_sent: "Flush w = Some f \<Longrightarrow> f s = (s', r) \<Longrightarrow> sent s' = sent s"
begin

text \<open>A step writes p: all of it, or a first part of it and an error.\<close>

definition writes :: "'w wr \<Rightarrow> bytes \<Rightarrow> bool" where
  "writes c p \<longleftrightarrow> (\<forall>s s' r. c s = (s', r) \<longrightarrow>
     (case r of None \<Rightarrow> sent s' = sent s @ p
      | Some e \<Rightarrow> \<exists>q t. p = q @ t \<and> sent s' = sent s @ q))"

lemma writes_Write: "writes (\<lambda>s. Write w s p) p"
  using write_ok write_fail by (auto simp: writes_def split: option.splits)

lemma writes_no_error: "writes no_error []"
  by (auto simp: writes_def no_error_def)

lemma writes_steps_Nil: "writes (steps []) []"
  by (auto simp: writes_def)

lemma writes_steps_Cons:
  assumes c: "writes c p" and cs: "writes (steps cs) ps"
  shows "writes (steps (c # cs)) (p @ ps)"
  unfolding writes_def
proof (intro allI impI)
  fix s s' r assume run: "steps (c # cs) s = (s', r)"
  obtain s1 r1 where c1: "c s = (s1, r1)" by force
  show "case r of None \<Rightarrow> sent s' = sent s @ p @ ps
        | Some e \<Rightarrow> \<exists>q t. p @ ps = q @ t \<and> sent s' = sent s @ q"
  proof (cases r1)
    case None
    with c c1 have s1: "sent s1 = sent s @ p" by (fastforce simp: writes_def)
    from run c1 None have "steps cs s1 = (s', r)" by simp
    with cs have "case r of None \<Rightarrow> sent s' = sent s1 @ ps
        | Some e \<Rightarrow> \<exists>q t. ps = q @ t \<and> sent s' = sent s1 @ q"
      by (auto simp: writes_def)
    with s1 show ?thesis by (fastforce split: option.splits)
  next
    case (Some e)
    with c c1 have "\<exists>q t. p = q @ t \<and> sent s1 = sent s @ q" by (fastforce simp: writes_def)
    with run c1 Some show ?thesis by auto
  qed
qed

lemma writes_ok: "writes c p \<Longrightarrow> c s = (s', None) \<Longrightarrow> sent s' = sent s @ p"
  by (fastforce simp: writes_def)

lemma writes_fail:
  "writes c p \<Longrightarrow> c s = (s', Some e) \<Longrightarrow> \<exists>q t. p = q @ t \<and> sent s' = sent s @ q"
  by (fastforce simp: writes_def)

end

subsection \<open>bytes.Buffer\<close>

definition buffer :: "bytes io_writer" where
  "buffer = \<lparr>Write = (\<lambda>b p. (b @ p, None)), Flush = None\<rparr>"

interpretation buf: writer_contract buffer "\<lambda>b. b"
  by unfold_locales (auto simp: buffer_def)

text \<open>"buf := new(bytes.Buffer)", the writing, then "buf.Bytes()" or the error.\<close>

definition to_bytes :: "bytes wr \<Rightarrow> go_error + bytes" where
  "to_bytes c = (case c [] of (b, None) \<Rightarrow> Inr b | (b, Some e) \<Rightarrow> Inl e)"

text \<open>A step on a buffer that appends p, whatever the buffer holds already.\<close>

definition emit :: "bytes \<Rightarrow> bytes wr" where
  "emit p b = (b @ p, None)"

lemma Write_buffer [codec]: "Write buffer b p = (b @ p, None)"
  by (simp add: buffer_def)

lemma Flush_buffer [codec]: "Flush buffer = None"
  by (simp add: buffer_def)

lemma emit_eq [codec]: "(\<lambda>b. (b @ p, None)) = emit p"
  by (simp add: fun_eq_iff emit_def)

lemma no_error_emit [codec]: "(no_error :: bytes wr) = emit []"
  by (simp add: fun_eq_iff emit_def no_error_def)

lemma to_bytes_emit [codec]: "to_bytes (emit p) = Inr p"
  by (simp add: to_bytes_def emit_def)

lemma to_bytes_fails [codec]: "to_bytes (fails e) = Inl e"
  by (simp add: to_bytes_def fails_def)

lemma to_bytes_if [codec]: "to_bytes (if b then c else d) = (if b then to_bytes c else to_bytes d)"
  by simp

text \<open>
  The code never looks at the buffer it writes to, so what a step appends and the error it
  returns do not depend on what the buffer holds: the step is uniform.
\<close>

definition uniform :: "bytes wr \<Rightarrow> bool" where
  "uniform c \<longleftrightarrow> (\<forall>b. c b = apfst (append b) (c []))"

lemma uniform_emit [codec]: "uniform (emit p)"
  by (simp add: uniform_def emit_def)

lemma uniform_fails [codec]: "uniform (fails e)"
  by (simp add: uniform_def fails_def)

lemma uniform_if [codec]: "uniform c \<Longrightarrow> uniform d \<Longrightarrow> uniform (if b then c else d)"
  by simp

lemma uniform_steps_Cons:
  assumes c: "uniform c" and cs: "uniform (steps cs)"
  shows "uniform (steps (c # cs))"
  unfolding uniform_def
proof (intro allI)
  fix b
  obtain p r where p: "c [] = (p, r)" by force
  with c have cb: "c b = (b @ p, r)" by (simp add: uniform_def)
  obtain q t where q: "steps cs [] = (q, t)" by force
  with cs have "\<And>x. steps cs x = (x @ q, t)" by (simp add: uniform_def)
  then show "steps (c # cs) b = apfst (append b) (steps (c # cs) [])"
    using p cb by (cases r) auto
qed

lemma uniform_steps [codec]: "\<forall>c \<in> set cs. uniform c \<Longrightarrow> uniform (steps cs)"
proof (induction cs)
  case Nil
  then show ?case by (simp add: uniform_def)
next
  case (Cons c cs)
  then show ?case by (intro uniform_steps_Cons) auto
qed

text \<open>What a sequence of uniform steps appends is what its steps append, one after the other.\<close>

lemma to_bytes_steps_Nil [codec]: "to_bytes (steps []) = Inr []"
  by (simp add: to_bytes_def)

lemma to_bytes_steps_Cons:
  assumes "uniform (steps cs)"
  shows "to_bytes (steps (c # cs)) =
    (case to_bytes c of Inl e \<Rightarrow> Inl e | Inr p \<Rightarrow> map_sum id (\<lambda>q. p @ q) (to_bytes (steps cs)))"
proof -
  obtain p r where p: "c [] = (p, r)" by force
  obtain q t where q: "steps cs [] = (q, t)" by force
  with assms have "\<And>x. steps cs x = (x @ q, t)" by (simp add: uniform_def)
  with p q show ?thesis by (cases r; cases t) (auto simp: to_bytes_def)
qed

lemma to_bytes_steps_Cons_Inr [codec]:
  assumes "\<forall>d \<in> set cs. uniform d"
  shows "to_bytes (steps (c # cs)) = Inr bs \<longleftrightarrow>
    (\<exists>p q. to_bytes c = Inr p \<and> to_bytes (steps cs) = Inr q \<and> bs = p @ q)"
proof -
  have "uniform (steps cs)" using assms by (rule uniform_steps)
  then show ?thesis
    by (cases "to_bytes c"; cases "to_bytes (steps cs)") (auto simp: to_bytes_steps_Cons)
qed

declare steps.simps [simp del]

section \<open>Readers\<close>

type_synonym 'a rd = "bytes \<Rightarrow> go_error + ('a \<times> bytes)"

text \<open>
  "io.ReadFull(r, make([]byte, n))": nothing left is io.EOF, too little left is
  io.ErrUnexpectedEOF; an empty destination reads nothing and succeeds.
\<close>

definition ReadFull :: "nat \<Rightarrow> bytes rd" where
  "ReadFull n r =
     (if n = 0 then Inr ([], r)
      else if r = [] then Inl io_EOF
      else if length r < n then Inl io_ErrUnexpectedEOF
      else Inr (take n r, drop n r))"

lemma ReadFull_append: "length p = n \<Longrightarrow> ReadFull n (p @ r) = Inr (p, r)"
  by (auto simp: ReadFull_def)

lemma ReadFull_Inr:
  "ReadFull n r = Inr (p, r') \<Longrightarrow> r = p @ r' \<and> length p = n"
  by (auto simp: ReadFull_def split: if_splits)

text \<open>Reading one value after another inside a helper that returns a value.\<close>

definition rd_bind :: "'a rd \<Rightarrow> ('a \<Rightarrow> 'b rd) \<Rightarrow> 'b rd" where
  "rd_bind rd k r = (case rd r of Inl e \<Rightarrow> Inl e | Inr (v, r') \<Rightarrow> k v r')"

definition rd_return :: "'a \<Rightarrow> 'a rd" where
  "rd_return v r = Inr (v, r)"

lemma rd_bind_Inr [codec]: "rd r = Inr (v, r') \<Longrightarrow> rd_bind rd k r = k v r'"
  by (simp add: rd_bind_def)

lemma rd_return_apply [codec]: "rd_return v r = Inr (v, r)"
  by (simp add: rd_return_def)

lemma rd_bind_InrE:
  assumes "rd_bind rd k r = Inr (w, r'')"
  obtains v r' where "rd r = Inr (v, r')" and "k v r' = Inr (w, r'')"
  using assms by (auto simp: rd_bind_def split: sum.splits)

text \<open>
  "v, err := rd(buf); if err != nil { return err }" in a decoder whose receiver is
  m at this point.
\<close>

definition read_then ::
  "'a rd \<Rightarrow> bytes \<Rightarrow> 'm \<Rightarrow> ('a \<Rightarrow> bytes \<Rightarrow> 'm \<times> go_error option) \<Rightarrow> 'm \<times> go_error option" where
  "read_then rd r m k = (case rd r of Inl e \<Rightarrow> (m, Some e) | Inr (v, r') \<Rightarrow> k v r')"

lemma read_then_Inr [codec]: "rd r = Inr (v, r') \<Longrightarrow> read_then rd r m k = k v r'"
  by (simp add: read_then_def)

text \<open>
  The loop "for i := 0; i < n; i++ { x, err := rd(buf); ...; xs[i] = x }": the slice with
  what has been assigned so far, and the error or the rest of the input.
\<close>

function fill_loop :: "'a rd \<Rightarrow> nat \<Rightarrow> nat \<Rightarrow> 'a list \<Rightarrow> bytes \<Rightarrow> 'a list \<times> (go_error + bytes)" where
  "fill_loop rd i n xs r =
     (if i < n then
        (case rd r of
           Inl e \<Rightarrow> (xs, Inl e)
         | Inr (x, r') \<Rightarrow> fill_loop rd (Suc i) n (xs[i := x]) r')
      else (xs, Inr r))"
  by pat_completeness auto
termination
  by (relation "measure (\<lambda>(rd, i, n, xs, r). n - i)") auto

declare fill_loop.simps [simp del]

lemma fill_loop_done: "n \<le> i \<Longrightarrow> fill_loop rd i n xs r = (xs, Inr r)"
  by (simp add: fill_loop.simps)

lemma fill_loop_step:
  "i < n \<Longrightarrow> rd r = Inr (x, r') \<Longrightarrow> fill_loop rd i n xs r = fill_loop rd (Suc i) n (xs[i := x]) r'"
  by (simp add: fill_loop.simps [of rd i])

lemma fill_loop_length: "length (fst (fill_loop rd i n xs r)) = length xs"
proof (induction rd i n xs r rule: fill_loop.induct)
  case (1 rd i n xs r)
  then show ?case by (auto simp: fill_loop.simps [of rd i n xs r] split: sum.splits prod.splits)
qed

section \<open>Slices of encoded elements\<close>

text \<open>
  An element of a slice field is written by a sequence of steps and read back by a reader. The
  contract: an element that is ok is written as "wire x", any other makes the
  write fail, and the reader returns the element as it travels, "carried x", leaving what
  follows. Then the whole slice travels, in order.
\<close>

locale element_codec =
  fixes put :: "bytes io_writer \<Rightarrow> 'a \<Rightarrow> bytes wr"
    and get :: "'a rd"
    and ok :: "'a \<Rightarrow> bool"
    and wire :: "'a \<Rightarrow> bytes"
    and carried :: "'a \<Rightarrow> 'a"
  assumes put_uniform: "uniform (put buffer x)"
    and put_ok: "to_bytes (put buffer x) = Inr p \<longleftrightarrow> ok x \<and> p = wire x"
    and get_wire: "ok x \<Longrightarrow> get (wire x @ r) = Inr (carried x, r)"
begin

lemma put_all_uniform: "uniform (steps (map (put buffer) xs))"
  by (intro uniform_steps) (auto simp: put_uniform)

lemma put_all:
  "to_bytes (steps (map (put buffer) xs)) = Inr p \<longleftrightarrow> list_all ok xs \<and> p = concat (map wire xs)"
proof (induction xs arbitrary: p)
  case Nil
  then show ?case by (auto simp: to_bytes_steps_Nil)
next
  case (Cons x xs)
  have "\<forall>d \<in> set (map (put buffer) xs). uniform d" by (auto simp: put_uniform)
  from to_bytes_steps_Cons_Inr [OF this] show ?case by (auto simp: put_ok Cons.IH)
qed

lemma fill_all:
  assumes "list_all ok xs" and "length zs = length ys + length xs" and "take (length ys) zs = ys"
  shows "fill_loop get (length ys) (length zs) zs (concat (map wire xs) @ r) =
    (ys @ map carried xs, Inr r)"
  using assms
proof (induction xs arbitrary: ys zs)
  case Nil
  then show ?case by (simp add: fill_loop_done)
next
  case (Cons x xs)
  let ?zs = "zs[length ys := carried x]"
  from Cons.prems have read: "get (wire x @ (concat (map wire xs) @ r)) =
      Inr (carried x, concat (map wire xs) @ r)"
    by (intro get_wire) simp
  have "take (Suc (length ys)) ?zs = ys @ [carried x]"
    using Cons.prems by (simp add: take_Suc_conv_app_nth)
  with Cons.IH [of ?zs "ys @ [carried x]"] Cons.prems
  have "fill_loop get (Suc (length ys)) (length zs) ?zs (concat (map wire xs) @ r) =
      (ys @ carried x # map carried xs, Inr r)"
    by simp
  moreover have "fill_loop get (length ys) (length zs) zs (concat (map wire (x # xs)) @ r) =
      fill_loop get (Suc (length ys)) (length zs) ?zs (concat (map wire xs) @ r)"
    using Cons.prems read by (intro fill_loop_step) auto
  ultimately show ?case by simp
qed

lemma fill_slice:
  "list_all ok xs \<Longrightarrow> length zs = length xs \<Longrightarrow>
   fill_loop get 0 (length xs) zs (concat (map wire xs) @ r) = (map carried xs, Inr r)"
  using fill_all [of xs zs "[]" r] by simp

lemma fill_slice_end:
  "list_all ok xs \<Longrightarrow> length zs = length xs \<Longrightarrow>
   fill_loop get 0 (length xs) zs (concat (map wire xs)) = (map carried xs, Inr [])"
  using fill_slice [of xs zs "[]"] by simp

end

end
