(* ===== verification/WireTypes.thy ===== *)
theory WireTypes imports GoIO begin

text \<open>
  "pkg/protocol/types.go": the primitive values of the wire format, one writer and one
  reader each, over any io.Writer and over the bytes still to be read. The lemmas in the
  collection codec say what each writer puts into a buffer and that the reader takes it
  back, so that every message's encoder and decoder is computed by rewriting.
\<close>

section \<open>Big-endian integers ("encoding/binary")\<close>

definition PutUint16 :: "u16 \<Rightarrow> bytes" where
  "PutUint16 v = [ucast (drop_bit 8 v), ucast v]"

definition PutUint32 :: "u32 \<Rightarrow> bytes" where
  "PutUint32 v = [ucast (drop_bit 24 v), ucast (drop_bit 16 v), ucast (drop_bit 8 v), ucast v]"

definition PutUint64 :: "u64 \<Rightarrow> bytes" where
  "PutUint64 v =
    [ucast (drop_bit 56 v), ucast (drop_bit 48 v), ucast (drop_bit 40 v), ucast (drop_bit 32 v),
     ucast (drop_bit 24 v), ucast (drop_bit 16 v), ucast (drop_bit 8 v), ucast v]"

definition Uint16 :: "bytes \<Rightarrow> u16" where
  "Uint16 b = ucast (b ! 1) OR push_bit 8 (ucast (b ! 0))"

definition Uint32 :: "bytes \<Rightarrow> u32" where
  "Uint32 b = ucast (b ! 3) OR push_bit 8 (ucast (b ! 2)) OR push_bit 16 (ucast (b ! 1))
     OR push_bit 24 (ucast (b ! 0))"

definition Uint64 :: "bytes \<Rightarrow> u64" where
  "Uint64 b = ucast (b ! 7) OR push_bit 8 (ucast (b ! 6)) OR push_bit 16 (ucast (b ! 5))
     OR push_bit 24 (ucast (b ! 4)) OR push_bit 32 (ucast (b ! 3)) OR push_bit 40 (ucast (b ! 2))
     OR push_bit 48 (ucast (b ! 1)) OR push_bit 56 (ucast (b ! 0))"

lemma length_PutUint [simp]:
  "length (PutUint16 v) = 2" "length (PutUint32 x) = 4" "length (PutUint64 y) = 8"
  by (simp_all add: PutUint16_def PutUint32_def PutUint64_def)

lemma ucast_u8_ucast:
  fixes v :: "'a::len word"
  assumes "8 \<le> LENGTH('a)"
  shows "(ucast (ucast v :: u8) :: 'a word) = take_bit 8 v"
  by (rule bit_word_eqI) (use assms in \<open>auto simp: bit_simps\<close>)

lemma join_byte:
  fixes v :: "'a::len word"
  shows "take_bit k v OR push_bit k (take_bit 8 (drop_bit k v)) = take_bit (k + 8) v"
  by (rule bit_word_eqI) (auto simp: bit_simps)

lemma word_eq_take_bit: "LENGTH('a) \<le> n \<Longrightarrow> take_bit n v = (v :: 'a::len word)"
  by (rule bit_word_eqI) (auto simp: bit_simps)

lemma Uint16_PutUint16 [simp]: "Uint16 (PutUint16 v) = v"
  using join_byte [of 8 v]
  by (simp add: Uint16_def PutUint16_def ucast_u8_ucast word_eq_take_bit del: push_bit_numeral)

lemma Uint32_PutUint32 [simp]: "Uint32 (PutUint32 v) = v"
proof -
  have "Uint32 (PutUint32 v) = ((take_bit 8 v OR push_bit 8 (take_bit 8 (drop_bit 8 v)))
      OR push_bit 16 (take_bit 8 (drop_bit 16 v))) OR push_bit 24 (take_bit 8 (drop_bit 24 v))"
    by (simp add: Uint32_def PutUint32_def ucast_u8_ucast or.assoc)
  also have "\<dots> = v"
    unfolding join_byte by (simp only: join_byte numeral_plus_numeral add_num_simps)
      (simp add: word_eq_take_bit)
  finally show ?thesis .
qed

lemma Uint64_PutUint64 [simp]: "Uint64 (PutUint64 v) = v"
proof -
  have "Uint64 (PutUint64 v) = ((((((take_bit 8 v OR push_bit 8 (take_bit 8 (drop_bit 8 v)))
      OR push_bit 16 (take_bit 8 (drop_bit 16 v))) OR push_bit 24 (take_bit 8 (drop_bit 24 v)))
      OR push_bit 32 (take_bit 8 (drop_bit 32 v))) OR push_bit 40 (take_bit 8 (drop_bit 40 v)))
      OR push_bit 48 (take_bit 8 (drop_bit 48 v))) OR push_bit 56 (take_bit 8 (drop_bit 56 v))"
    by (simp add: Uint64_def PutUint64_def ucast_u8_ucast or.assoc)
  also have "\<dots> = v"
    unfolding join_byte by (simp only: join_byte numeral_plus_numeral add_num_simps)
      (simp add: word_eq_take_bit)
  finally show ?thesis .
qed

text \<open>And the other way round: four bytes are what their value is written as.\<close>

lemma PutUint32_Uint32:
  assumes "length b = 4"
  shows "PutUint32 (Uint32 b) = b"
proof -
  obtain b0 b1 b2 b3 where b: "b = [b0, b1, b2, b3]"
    using assms by (auto simp: length_Suc_conv numeral_eq_Suc)
  have v: "Uint32 b = ucast b3 OR push_bit 8 (ucast b2) OR push_bit 16 (ucast b1)
     OR push_bit 24 (ucast b0)"
    by (simp add: b Uint32_def)
  have "ucast (Uint32 b) = b3" "ucast (drop_bit 8 (Uint32 b)) = b2"
    "ucast (drop_bit 16 (Uint32 b)) = b1" "ucast (drop_bit 24 (Uint32 b)) = b0"
    unfolding v by (rule bit_word_eqI; auto simp: bit_simps dest: bit_imp_le_length)+
  then show ?thesis by (simp add: PutUint32_def b)
qed

section \<open>Writers and readers\<close>

definition WriteUint8 :: "'w io_writer \<Rightarrow> u8 \<Rightarrow> 'w wr" where
  "WriteUint8 w v = (\<lambda>s. Write w s [v])"

definition ReadUint8 :: "u8 rd" where
  "ReadUint8 = rd_bind (ReadFull 1) (\<lambda>buf. rd_return (buf ! 0))"

definition WriteUint16 :: "'w io_writer \<Rightarrow> u16 \<Rightarrow> 'w wr" where
  "WriteUint16 w v = (\<lambda>s. Write w s (PutUint16 v))"

definition ReadUint16 :: "u16 rd" where
  "ReadUint16 = rd_bind (ReadFull 2) (\<lambda>buf. rd_return (Uint16 buf))"

definition WriteUint32 :: "'w io_writer \<Rightarrow> u32 \<Rightarrow> 'w wr" where
  "WriteUint32 w v = (\<lambda>s. Write w s (PutUint32 v))"

definition ReadUint32 :: "u32 rd" where
  "ReadUint32 = rd_bind (ReadFull 4) (\<lambda>buf. rd_return (Uint32 buf))"

definition WriteUint64 :: "'w io_writer \<Rightarrow> u64 \<Rightarrow> 'w wr" where
  "WriteUint64 w v = (\<lambda>s. Write w s (PutUint64 v))"

definition ReadUint64 :: "u64 rd" where
  "ReadUint64 = rd_bind (ReadFull 8) (\<lambda>buf. rd_return (Uint64 buf))"

definition WriteInt64 :: "'w io_writer \<Rightarrow> i64 \<Rightarrow> 'w wr" where
  "WriteInt64 w v = WriteUint64 w v"

definition ReadInt64 :: "i64 rd" where
  "ReadInt64 = ReadUint64"

definition WriteBool :: "'w io_writer \<Rightarrow> bool \<Rightarrow> 'w wr" where
  "WriteBool w v = (if v then WriteUint8 w 1 else WriteUint8 w 0)"

definition ReadBool :: "bool rd" where
  "ReadBool = rd_bind ReadUint8 (\<lambda>b. rd_return (b \<noteq> 0))"

definition WriteString :: "'w io_writer \<Rightarrow> gostring \<Rightarrow> 'w wr" where
  "WriteString w s =
     (if length s > 65535 then fails ErrStringTooLong
      else steps
        [WriteUint16 w (of_nat (length s)),
         if length s > 0 then (\<lambda>st. Write w st s) else no_error])"

definition ReadString :: "gostring rd" where
  "ReadString = rd_bind ReadUint16 (\<lambda>len.
     if len = 0 then rd_return []
     else rd_bind (ReadFull (unat len)) (\<lambda>data. rd_return data))"

definition WriteTimestamp :: "'w io_writer \<Rightarrow> gotime \<Rightarrow> 'w wr" where
  "WriteTimestamp w t = WriteInt64 w (UnixMilli t)"

definition ReadTimestamp :: "gotime rd" where
  "ReadTimestamp = rd_bind ReadInt64 (\<lambda>millis. rd_return (time_of_millis millis))"

definition WriteOptionalUint64 :: "'w io_writer \<Rightarrow> u64 option \<Rightarrow> 'w wr" where
  "WriteOptionalUint64 w v =
     (case v of None \<Rightarrow> WriteBool w False
      | Some x \<Rightarrow> steps [WriteBool w True, WriteUint64 w x])"

definition ReadOptionalUint64 :: "u64 option rd" where
  "ReadOptionalUint64 = rd_bind ReadBool (\<lambda>present.
     if \<not> present then rd_return None
     else rd_bind ReadUint64 (\<lambda>value. rd_return (Some value)))"

definition WriteOptionalString :: "'w io_writer \<Rightarrow> gostring option \<Rightarrow> 'w wr" where
  "WriteOptionalString w s =
     (case s of None \<Rightarrow> WriteBool w False
      | Some x \<Rightarrow> steps [WriteBool w True, WriteString w x])"

definition ReadOptionalString :: "gostring option rd" where
  "ReadOptionalString = rd_bind ReadBool (\<lambda>present.
     if \<not> present then rd_return None
     else rd_bind ReadString (\<lambda>value. rd_return (Some value)))"

definition WriteOptionalTimestamp :: "'w io_writer \<Rightarrow> gotime option \<Rightarrow> 'w wr" where
  "WriteOptionalTimestamp w t =
     (case t of None \<Rightarrow> WriteBool w False
      | Some x \<Rightarrow> steps [WriteBool w True, WriteTimestamp w x])"

definition ReadOptionalTimestamp :: "gotime option rd" where
  "ReadOptionalTimestamp = rd_bind ReadBool (\<lambda>present.
     if \<not> present then rd_return None
     else rd_bind ReadTimestamp (\<lambda>value. rd_return (Some value)))"

definition WriteOptionalInt64 :: "'w io_writer \<Rightarrow> i64 option \<Rightarrow> 'w wr" where
  "WriteOptionalInt64 w v =
     (case v of None \<Rightarrow> WriteBool w False
      | Some x \<Rightarrow> steps [WriteBool w True, WriteInt64 w x])"

definition ReadOptionalInt64 :: "i64 option rd" where
  "ReadOptionalInt64 = rd_bind ReadBool (\<lambda>present.
     if \<not> present then rd_return None
     else rd_bind ReadInt64 (\<lambda>value. rd_return (Some value)))"

section \<open>The wire format\<close>

text \<open>
  The bytes a value has on the wire, as the comments of the source lay them out: the reference
  the writers are proved against.
\<close>

definition bool_wire :: "bool \<Rightarrow> bytes" where
  "bool_wire v = [if v then 1 else 0]"

definition string_wire :: "gostring \<Rightarrow> bytes" where
  "string_wire s = PutUint16 (of_nat (length s)) @ s"

definition string_ok :: "gostring \<Rightarrow> bool" where
  "string_ok s \<longleftrightarrow> length s \<le> 65535"

definition option_wire :: "('a \<Rightarrow> bytes) \<Rightarrow> 'a option \<Rightarrow> bytes" where
  "option_wire f v = (case v of None \<Rightarrow> bool_wire False | Some x \<Rightarrow> bool_wire True @ f x)"

subsection \<open>What the writers append\<close>

lemma WriteUint_buffer [codec]:
  "WriteUint8 buffer a = emit [a]"
  "WriteUint16 buffer b = emit (PutUint16 b)"
  "WriteUint32 buffer c = emit (PutUint32 c)"
  "WriteUint64 buffer d = emit (PutUint64 d)"
  "WriteInt64 buffer d = emit (PutUint64 d)"
  "WriteTimestamp buffer t = emit (PutUint64 (UnixMilli t))"
  "WriteBool buffer v = emit (bool_wire v)"
  by (simp_all add: fun_eq_iff emit_def buffer_def WriteUint8_def WriteUint16_def
      WriteUint32_def WriteUint64_def WriteInt64_def WriteTimestamp_def WriteBool_def bool_wire_def)

lemma steps_emit2: "steps [emit p, emit q] = emit (p @ q)"
  by (simp add: fun_eq_iff emit_def steps.simps)

lemma WriteString_buffer [codec]:
  "WriteString buffer s =
    (if string_ok s then emit (string_wire s) else fails ErrStringTooLong)"
  by (auto simp: WriteString_def string_ok_def string_wire_def codec steps_emit2)

lemma WriteOptional_buffer [codec]:
  "WriteOptionalUint64 buffer a = emit (option_wire PutUint64 a)"
  "WriteOptionalInt64 buffer b = emit (option_wire PutUint64 b)"
  "WriteOptionalTimestamp buffer t = emit (option_wire (\<lambda>t. PutUint64 (UnixMilli t)) t)"
  by (auto simp: WriteOptionalUint64_def WriteOptionalInt64_def WriteOptionalTimestamp_def
      option_wire_def codec steps_emit2 split: option.splits)

lemma WriteOptionalString_uniform [codec]: "uniform (WriteOptionalString buffer s)"
  by (auto simp: WriteOptionalString_def codec split: option.splits)

lemma WriteOptionalString_Inr [codec]:
  "to_bytes (WriteOptionalString buffer s) = Inr p \<longleftrightarrow>
    pred_option string_ok s \<and> p = option_wire string_wire s"
  by (auto simp: WriteOptionalString_def option_wire_def codec split: option.splits)

subsection \<open>What the readers take back\<close>

lemma ReadUint_append [codec]:
  "ReadUint8 (a # r) = Inr (a, r)"
  "ReadUint16 (PutUint16 b @ r) = Inr (b, r)"
  "ReadUint32 (PutUint32 c @ r) = Inr (c, r)"
  "ReadUint64 (PutUint64 d @ r) = Inr (d, r)"
  "ReadInt64 (PutUint64 d @ r) = Inr (d, r)"
  "ReadTimestamp (PutUint64 (UnixMilli t) @ r) = Inr (trunc_millis t, r)"
  "ReadBool (bool_wire v @ r) = Inr (v, r)"
proof -
  show "ReadUint8 (a # r) = Inr (a, r)"
    using ReadFull_append [of "[a]" 1 r] by (simp add: ReadUint8_def rd_bind_def rd_return_def)
  then show "ReadBool (bool_wire v @ r) = Inr (v, r)"
    using ReadFull_append [of "[if v then 1 else 0 :: u8]" 1 r]
    by (simp add: ReadBool_def ReadUint8_def bool_wire_def rd_bind_def rd_return_def)
qed (simp_all add: ReadUint16_def ReadUint32_def ReadUint64_def ReadInt64_def ReadTimestamp_def
      rd_bind_def rd_return_def ReadFull_append trunc_millis_def)

lemma unat_of_nat_16 [codec]: "n < 65536 \<Longrightarrow> unat (of_nat n :: u16) = n"
  by (simp add: unat_of_nat take_bit_nat_eq_self)

lemma unat_of_nat_32 [codec]: "n < 4294967296 \<Longrightarrow> unat (of_nat n :: u32) = n"
  by (simp add: unat_of_nat take_bit_nat_eq_self)

lemma ReadString_append [codec]:
  assumes "string_ok s"
  shows "ReadString (string_wire s @ r) = Inr (s, r)"
proof -
  have u: "unat (of_nat (length s) :: u16) = length s"
    using assms by (simp add: string_ok_def unat_of_nat_16)
  have z: "(of_nat (length s) :: u16) = 0 \<longleftrightarrow> s = []"
    using u by (auto simp: unat_eq_zero [symmetric])
  have len: "ReadUint16 (string_wire s @ r) = Inr (of_nat (length s), s @ r)"
    by (simp add: string_wire_def ReadUint_append)
  show ?thesis
    by (simp add: ReadString_def rd_bind_def len z u rd_return_def ReadFull_append)
qed

lemma ReadOptional_append [codec]:
  "ReadOptionalUint64 (option_wire PutUint64 a @ r) = Inr (a, r)"
  "ReadOptionalInt64 (option_wire PutUint64 b @ r) = Inr (b, r)"
  "ReadOptionalTimestamp (option_wire (\<lambda>t. PutUint64 (UnixMilli t)) t @ r) =
     Inr (map_option trunc_millis t, r)"
  "pred_option string_ok s \<Longrightarrow> ReadOptionalString (option_wire string_wire s @ r) = Inr (s, r)"
  by (auto simp: ReadOptionalUint64_def ReadOptionalInt64_def ReadOptionalTimestamp_def
      ReadOptionalString_def option_wire_def codec rd_bind_def rd_return_def split: option.splits)

text \<open>The same readers at the end of the payload.\<close>

lemmas read_append_rules = ReadUint_append ReadString_append ReadOptional_append

lemmas read_end [codec] = read_append_rules [where r = "[]", simplified append_Nil2]

end
