(* ===== verification/Frame.thy ===== *)
theory Frame imports WireTypes begin

text \<open>
  "pkg/protocol/frame.go": the frame every message travels in,
  "[Length (4)] [Version (1)] [Type (1)] [Flags (1)] [Payload (N)]", its writer, its
  reader, and the loop of the server that reads one frame after another.

  The interface message_codec is what a message type promises to the transport: what its
  Encode makes, its Decode takes back. Every message of the protocol is shown to
  keep that promise in the theory that models it.
\<close>

section \<open>Frames\<close>

definition MaxFrameSize :: u32 where
  "MaxFrameSize = 1024 * 1024"

definition ProtocolVersion :: u8 where
  "ProtocolVersion = 1"

record Frame =
  Frame_Version :: u8
  Frame_Type :: u8
  Frame_Flags :: u8
  Frame_Payload :: bytes

definition EncodeFrame :: "'w io_writer \<Rightarrow> Frame \<Rightarrow> 'w wr" where
  "EncodeFrame w f =
    (let len = of_nat (1 + 1 + 1 + length (Frame_Payload f)) :: u32 in
     if len > MaxFrameSize then fails ErrFrameTooLarge
     else steps
       [WriteUint32 w len,
        WriteUint8 w (Frame_Version f),
        WriteUint8 w (Frame_Type f),
        WriteUint8 w (Frame_Flags f),
        if length (Frame_Payload f) > 0 then (\<lambda>s. Write w s (Frame_Payload f)) else no_error,
        case Flush w of Some flush \<Rightarrow> flush | None \<Rightarrow> no_error])"

definition DecodeFrame :: "Frame rd" where
  "DecodeFrame = rd_bind ReadUint32 (\<lambda>len r.
     if len > MaxFrameSize then Inl ErrFrameTooLarge
     else if len < 3 then Inl ErrInvalidFrameLength
     else rd_bind ReadUint8 (\<lambda>version.
          rd_bind ReadUint8 (\<lambda>msgType.
          rd_bind ReadUint8 (\<lambda>flags.
          rd_bind (\<lambda>r. if len - 3 > 0 then ReadFull (unat (len - 3)) r else Inr ([], r)) (\<lambda>payload.
          rd_return \<lparr>Frame_Version = version, Frame_Type = msgType, Frame_Flags = flags,
            Frame_Payload = payload\<rparr>)))) r)"

definition EncodeMessage :: "u8 \<Rightarrow> u8 \<Rightarrow> u8 \<Rightarrow> bytes \<Rightarrow> go_error + bytes" where
  "EncodeMessage version msgType flags payload =
     to_bytes (EncodeFrame buffer
       \<lparr>Frame_Version = version, Frame_Type = msgType, Frame_Flags = flags, Frame_Payload = payload\<rparr>)"

definition DecodeMessage :: "bytes \<Rightarrow> go_error + Frame" where
  "DecodeMessage data = (case DecodeFrame data of Inl e \<Rightarrow> Inl e | Inr (f, rest) \<Rightarrow> Inr f)"

section \<open>The bytes of a frame\<close>

definition frame_wire :: "Frame \<Rightarrow> bytes" where
  "frame_wire f = PutUint32 (of_nat (3 + length (Frame_Payload f))) @
     [Frame_Version f, Frame_Type f, Frame_Flags f] @ Frame_Payload f"

definition frame_fits :: "Frame \<Rightarrow> bool" where
  "frame_fits f \<longleftrightarrow> 3 + length (Frame_Payload f) \<le> 1024 * 1024"

lemma MaxFrameSize_less:
  "n < 2 ^ 32 \<Longrightarrow> MaxFrameSize < (of_nat n :: u32) \<longleftrightarrow> 1024 * 1024 < n"
  by (simp add: MaxFrameSize_def word_less_nat_alt unat_of_nat take_bit_nat_eq_self)

lemma length_frame_wire: "length (frame_wire f) = 7 + length (Frame_Payload f)"
  by (simp add: frame_wire_def)

lemma EncodeFrame_buffer:
  assumes "3 + length (Frame_Payload f) < 2 ^ 32"
  shows "EncodeFrame buffer f =
    (if frame_fits f then emit (frame_wire f) else fails ErrFrameTooLarge)"
proof -
  have big: "MaxFrameSize < (of_nat (3 + length (Frame_Payload f)) :: u32) \<longleftrightarrow> \<not> frame_fits f"
    using MaxFrameSize_less [OF assms] by (auto simp: frame_fits_def)
  have pl: "(if 0 < length (Frame_Payload f) then (\<lambda>s. Write buffer s (Frame_Payload f)) else no_error)
      = emit (Frame_Payload f)"
    by (auto simp: fun_eq_iff emit_def no_error_def buffer_def)
  have "steps [emit a, emit b, emit c, emit d, emit e, emit []] = emit (a @ b @ c @ d @ e)"
    for a b c d e
    by (simp add: fun_eq_iff emit_def steps.simps)
  then show ?thesis
    unfolding EncodeFrame_def Let_def pl using big
    by (simp add: codec frame_wire_def)
qed

text \<open>DecodeFrame succeeds on exactly the bytes of a frame that fits, and consumes them.\<close>

lemma DecodeFrame_wire:
  assumes "frame_fits f"
  shows "DecodeFrame (frame_wire f @ r) = Inr (f, r)"
proof -
  let ?n = "3 + length (Frame_Payload f)"
  let ?len = "of_nat ?n :: u32"
  have n: "?n < 2 ^ 32" using assms by (simp add: frame_fits_def)
  have u: "unat ?len = ?n" using n by (intro unat_of_nat_32) simp
  have big: "\<not> MaxFrameSize < ?len"
    using MaxFrameSize_less [OF n] assms by (auto simp: frame_fits_def)
  have small: "\<not> ?len < 3"
    using u by (simp add: word_less_nat_alt)
  have "unat (?len - 3) = unat ?len - unat (3 :: u32)"
    using small by (intro unat_sub) simp
  with u have sub: "unat (?len - 3) = length (Frame_Payload f)" by simp
  then have pos: "?len - 3 = 0 \<longleftrightarrow> Frame_Payload f = []"
    by (metis length_0_conv unat_eq_zero)
  have 1: "ReadUint32 (frame_wire f @ r) = Inr (?len,
      Frame_Version f # Frame_Type f # Frame_Flags f # Frame_Payload f @ r)"
    by (simp add: frame_wire_def ReadUint_append)
  define l where "l = ?len"
  note lsub = sub [folded l_def] and lpos = pos [folded l_def]
  have payload: "(if l - 3 > 0 then ReadFull (unat (l - 3)) (Frame_Payload f @ r)
      else Inr ([], Frame_Payload f @ r)) = Inr (Frame_Payload f, r)"
  proof (cases "Frame_Payload f = []")
    case True
    with lpos show ?thesis by simp
  next
    case False
    with lpos have "0 < l - 3" by (simp only: word_greater_zero_iff) simp
    with lsub show ?thesis by (simp add: ReadFull_append)
  qed
  show ?thesis
    using big [folded l_def] small [folded l_def]
    unfolding DecodeFrame_def rd_bind_def 1 [folded l_def]
    by (simp add: ReadUint_append payload rd_return_def)
qed

lemma ReadUint8_Inr: "ReadUint8 r = Inr (v, r') \<Longrightarrow> r = v # r'"
  by (auto simp: ReadUint8_def rd_return_def length_Suc_conv dest!: ReadFull_Inr elim!: rd_bind_InrE)

lemma ReadUint32_Inr: "ReadUint32 r = Inr (v, r') \<Longrightarrow> r = PutUint32 v @ r'"
  by (auto simp: ReadUint32_def rd_return_def PutUint32_Uint32 dest!: ReadFull_Inr elim!: rd_bind_InrE)

lemma DecodeFrame_Inr:
  assumes "DecodeFrame r = Inr (f, r')"
  shows "frame_fits f \<and> r = frame_wire f @ r'"
proof -
  obtain len r1 where len: "ReadUint32 r = Inr (len, r1)" and big: "\<not> len > MaxFrameSize"
    and small: "\<not> len < 3"
    and rest: "rd_bind ReadUint8 (\<lambda>version.
          rd_bind ReadUint8 (\<lambda>msgType.
          rd_bind ReadUint8 (\<lambda>flags.
          rd_bind (\<lambda>r. if len - 3 > 0 then ReadFull (unat (len - 3)) r else Inr ([], r)) (\<lambda>payload.
          rd_return \<lparr>Frame_Version = version, Frame_Type = msgType, Frame_Flags = flags,
            Frame_Payload = payload\<rparr>)))) r1 = Inr (f, r')"
    using assms unfolding DecodeFrame_def by (auto elim!: rd_bind_InrE split: if_splits)
  obtain v t fl pl where r1: "r1 = v # t # fl # pl @ r'" and pl: "length pl = unat (len - 3)"
    and f: "f = \<lparr>Frame_Version = v, Frame_Type = t, Frame_Flags = fl, Frame_Payload = pl\<rparr>"
    using rest by (auto elim!: rd_bind_InrE dest!: ReadUint8_Inr ReadFull_Inr
        simp: rd_return_def word_greater_zero_iff split: if_splits)
  have "unat (len - 3) = unat len - 3"
    using small unat_sub [of 3 len] by simp
  with pl small have u: "unat len = 3 + length pl" by (simp add: word_less_nat_alt)
  then have "of_nat (3 + length pl) = len" by (metis of_nat_unat ucast_id)
  moreover have "3 + length pl \<le> 1024 * 1024"
    using big u by (simp add: MaxFrameSize_def word_less_nat_alt)
  ultimately show ?thesis
    using ReadUint32_Inr [OF len] r1 by (simp add: f frame_fits_def frame_wire_def)
qed

section \<open>Frames over any writer\<close>

text \<open>
  A frame handed to a writer that keeps io.Writer's contract is on its way in full when
  EncodeFrame returns no error, and only a first part of it is when an error is returned.
\<close>

context writer_contract begin

lemma writes_fails: "writes (fails e) p"
  by (auto simp: writes_def fails_def)

lemma writes_flush: "writes (case Flush w of Some flush \<Rightarrow> flush | None \<Rightarrow> no_error) []"
  using flush_sent by (auto simp: writes_def no_error_def split: option.splits)

lemma writes_cat:
  "list_all2 writes cs ps \<Longrightarrow> writes (steps cs) (concat ps)"
proof (induction cs ps rule: list_all2_induct)
  case Nil
  then show ?case by (simp add: writes_steps_Nil)
next
  case (Cons c cs p ps)
  then show ?case by (simp add: writes_steps_Cons)
qed

lemma writes_EncodeFrame: "writes (EncodeFrame w f) (frame_wire f)"
proof -
  let ?n = "of_nat (3 + length (Frame_Payload f)) :: u32"
  have "writes (steps
       [WriteUint32 w ?n, WriteUint8 w (Frame_Version f), WriteUint8 w (Frame_Type f),
        WriteUint8 w (Frame_Flags f),
        if length (Frame_Payload f) > 0 then (\<lambda>s. Write w s (Frame_Payload f)) else no_error,
        case Flush w of Some flush \<Rightarrow> flush | None \<Rightarrow> no_error])
     (concat [PutUint32 ?n, [Frame_Version f], [Frame_Type f], [Frame_Flags f], Frame_Payload f, []])"
    by (intro writes_cat)
       (auto simp: WriteUint32_def WriteUint8_def writes_Write writes_no_error writes_flush)
  then show ?thesis
    by (simp add: EncodeFrame_def Let_def frame_wire_def writes_fails)
qed

end

section \<open>Reading a connection\<close>

text \<open>
  The reading half of the server's messageLoop: frame after frame, until the first error
  of DecodeFrame. The result is the frames handed to handleMessage and that error.
\<close>

function frames_of :: "bytes \<Rightarrow> Frame list \<times> go_error" where
  "frames_of r =
     (case DecodeFrame r of
        Inl e \<Rightarrow> ([], e)
      | Inr (f, r') \<Rightarrow> (case frames_of r' of (fs, e) \<Rightarrow> (f # fs, e)))"
  by pat_completeness auto
termination
  by (relation "measure length") (auto dest!: DecodeFrame_Inr simp: length_frame_wire)

declare frames_of.simps [simp del]

lemma DecodeFrame_Nil: "DecodeFrame [] = Inl io_EOF"
  by (simp add: DecodeFrame_def rd_bind_def ReadUint32_def ReadFull_def)

lemma frames_of_Nil: "frames_of [] = ([], io_EOF)"
  by (simp add: frames_of.simps DecodeFrame_Nil)

lemma frames_of_wire:
  "frame_fits f \<Longrightarrow> frames_of (frame_wire f @ r) = (case frames_of r of (fs, e) \<Rightarrow> (f # fs, e))"
  by (simp add: frames_of.simps [of "frame_wire f @ r"] DecodeFrame_wire)

lemma frames_of_append:
  "list_all frame_fits fs \<Longrightarrow>
   frames_of (concat (map frame_wire fs) @ r) = (case frames_of r of (gs, e) \<Rightarrow> (fs @ gs, e))"
  by (induction fs) (auto simp: frames_of_wire split: prod.splits)

lemma frames_of_sound: "frames_of r = (fs, e) \<Longrightarrow>
   \<exists>r'. r = concat (map frame_wire fs) @ r' \<and> list_all frame_fits fs \<and> DecodeFrame r' = Inl e"
proof (induction r arbitrary: fs rule: frames_of.induct)
  case (1 r)
  show ?case
  proof (cases "DecodeFrame r")
    case (Inl e')
    with 1 show ?thesis by (auto simp: frames_of.simps [of r])
  next
    case (Inr p)
    obtain f r1 where p: "p = (f, r1)" by force
    obtain gs e1 where gs: "frames_of r1 = (gs, e1)" by force
    have "fs = f # gs" "e = e1"
      using 1(2) Inr p gs by (auto simp: frames_of.simps [of r])
    moreover from 1(1) [OF Inr p [symmetric]] gs
    obtain r2 where "r1 = concat (map frame_wire gs) @ r2" "list_all frame_fits gs"
      "DecodeFrame r2 = Inl e1"
      using \<open>e = e1\<close> p by auto
    moreover have "frame_fits f \<and> r = frame_wire f @ r1"
      using DecodeFrame_Inr Inr p by blast
    ultimately show ?thesis by auto
  qed
qed

section \<open>Messages over frames\<close>

text \<open>
  What a message type promises: a payload made by Encode of a sendable message
  decodes, into any receiver m0, to "received m0 m", with no error. For most
  types every message is sendable and "received m0 m" is m; a message with fields
  that only travel in some cases keeps the receiver's in the others, instants travel as
  milliseconds, and a slice travels when its length fits its length prefix.
\<close>

locale message_codec =
  fixes Enc :: "'m \<Rightarrow> go_error + bytes"
    and Dec :: "'m \<Rightarrow> bytes \<Rightarrow> 'm \<times> go_error option"
    and received :: "'m \<Rightarrow> 'm \<Rightarrow> 'm"
    and sendable :: "'m \<Rightarrow> bool"
  assumes decode_encode: "Enc m = Inr p \<Longrightarrow> sendable m \<Longrightarrow> Dec m0 p = (received m0 m, None)"
begin

text \<open>The wire format is unambiguous.\<close>

lemma encode_unambiguous:
  assumes "Enc m = Inr p" and "Enc m' = Inr p" and "sendable m" and "sendable m'"
  shows "received m0 m = received m0 m'"
  using decode_encode [OF assms(1,3), of m0] decode_encode [OF assms(2,4), of m0] by simp

text \<open>
  A message sent in a frame of type t: the peer's next frame has this type, its payload
  decodes to the message, and the bytes that follow are left to be read.
\<close>

lemma delivered:
  assumes enc: "Enc m = Inr p" and s: "sendable m" and len: "3 + length p < 2 ^ 32"
    and frame: "EncodeMessage v t fl p = Inr fb"
  shows "\<exists>f. DecodeFrame (fb @ r) = Inr (f, r) \<and> Frame_Type f = t \<and>
     Dec m0 (Frame_Payload f) = (received m0 m, None)"
proof -
  let ?f = "\<lparr>Frame_Version = v, Frame_Type = t, Frame_Flags = fl, Frame_Payload = p\<rparr>"
  have "EncodeFrame buffer ?f = (if frame_fits ?f then emit (frame_wire ?f) else fails ErrFrameTooLarge)"
    using len by (intro EncodeFrame_buffer) simp
  with frame have "frame_fits ?f" and "fb = frame_wire ?f"
    by (auto simp: EncodeMessage_def codec split: if_splits)
  then have "DecodeFrame (fb @ r) = Inr (?f, r)" by (simp add: DecodeFrame_wire)
  then show ?thesis using decode_encode [OF enc s] by auto
qed

end

end
