(* ===== verification/UserFlags.thy ===== *)
theory UserFlags imports Prelude begin

text \<open>
  "pkg/protocol/user_flags.go": the permission bits of a user and the prefix they give a
  displayed nickname.
\<close>

type_synonym UserFlags = u8

definition UserFlagAdmin :: UserFlags where
  "UserFlagAdmin = push_bit 0 1"

definition UserFlagModerator :: UserFlags where
  "UserFlagModerator = push_bit 1 1"

definition IsAdmin :: "UserFlags \<Rightarrow> bool" where
  "IsAdmin f \<longleftrightarrow> f AND UserFlagAdmin \<noteq> 0"

definition IsModerator :: "UserFlags \<Rightarrow> bool" where
  "IsModerator f \<longleftrightarrow> f AND UserFlagModerator \<noteq> 0"

definition IsSystem :: "UserFlags \<Rightarrow> bool" where
  "IsSystem f \<longleftrightarrow> f AND (UserFlagAdmin OR UserFlagModerator) \<noteq> 0"

definition DisplayPrefix :: "UserFlags \<Rightarrow> gostring" where
  "DisplayPrefix f =
     (if IsAdmin f then lit ''$''
      else if IsModerator f then lit ''@''
      else lit '''')"

lemma IsAdmin_bit: "IsAdmin f \<longleftrightarrow> bit f 0"
  by (simp only: IsAdmin_def UserFlagAdmin_def bit_iff_and_push_bit_not_eq_0)

lemma IsModerator_bit: "IsModerator f \<longleftrightarrow> bit f 1"
  by (simp only: IsModerator_def UserFlagModerator_def bit_iff_and_push_bit_not_eq_0)

text \<open>A nickname is shown with a prefix exactly when one of the two system flags is set.\<close>

lemma IsSystem_iff: "IsSystem f \<longleftrightarrow> IsAdmin f \<or> IsModerator f"
  by (simp only: IsSystem_def IsAdmin_def IsModerator_def bit.conj_disj_distrib or_eq_0_iff) blast

end
