(* ===== verification/MsgAuth.thy ===== *)
theory MsgAuth imports Frame UserFlags begin

text \<open>
  "pkg/protocol/messages.go": the messages of authentication: login, nicknames, registration and logout.
  Each has its struct, its zero value (what "&T{}" makes), EncodeTo over any writer,
  Encode, and Decode into a receiver, as the source writes them; then the round trip and
  the interpretation of message_codec.
\<close>

section \<open>AuthRequest\<close>

text \<open>AuthRequestMessage (0x01) - Authenticate with password\<close>

record AuthRequestMessage =
  AuthRequest_Nickname :: "gostring"
  AuthRequest_Password :: "gostring"

definition AuthRequestMessage_zero :: AuthRequestMessage where
  "AuthRequestMessage_zero = \<lparr>AuthRequest_Nickname = [],
    AuthRequest_Password = []\<rparr>"

definition AuthRequestMessage_EncodeTo :: "'w io_writer \<Rightarrow> AuthRequestMessage \<Rightarrow> 'w wr" where
  [msg_def]: "AuthRequestMessage_EncodeTo w m =
    steps
      [WriteString w (AuthRequest_Nickname m),
       WriteString w (AuthRequest_Password m)]"

definition AuthRequestMessage_Encode :: "AuthRequestMessage \<Rightarrow> go_error + bytes" where
  [msg_def]: "AuthRequestMessage_Encode m = to_bytes (AuthRequestMessage_EncodeTo buffer m)"

definition AuthRequestMessage_Decode :: "AuthRequestMessage \<Rightarrow> bytes \<Rightarrow> AuthRequestMessage \<times> go_error option" where
  [msg_def]: "AuthRequestMessage_Decode m buf =
    read_then ReadString buf m (\<lambda>nickname buf.
    read_then ReadString buf m (\<lambda>password buf.
    (m\<lparr>AuthRequest_Nickname := nickname,
        AuthRequest_Password := password\<rparr>, None)))"

lemma AuthRequestMessage_roundtrip:
  "AuthRequestMessage_Encode m = Inr p \<Longrightarrow> AuthRequestMessage_Decode m0 p = (m, None)"
  by (cases m; cases m0) (auto simp: msg_def codec split: if_splits)

interpretation AuthRequest: message_codec AuthRequestMessage_Encode AuthRequestMessage_Decode
  "\<lambda>m0 m. m" "\<lambda>m. True"
  by unfold_locales (rule AuthRequestMessage_roundtrip)

section \<open>AuthResponse\<close>

text \<open>AuthResponseMessage (0x81) - Authentication result\<close>

record AuthResponseMessage =
  AuthResponse_Success :: "bool"
  AuthResponse_UserID :: "u64"
  AuthResponse_Nickname :: "gostring"
  AuthResponse_Message :: "gostring"
  AuthResponse_UserFlags :: "UserFlags option"

definition AuthResponseMessage_zero :: AuthResponseMessage where
  "AuthResponseMessage_zero = \<lparr>AuthResponse_Success = False,
    AuthResponse_UserID = 0,
    AuthResponse_Nickname = [],
    AuthResponse_Message = [],
    AuthResponse_UserFlags = None\<rparr>"

definition AuthResponseMessage_EncodeTo :: "'w io_writer \<Rightarrow> AuthResponseMessage \<Rightarrow> 'w wr" where
  [msg_def]: "AuthResponseMessage_EncodeTo w m =
    steps
      [WriteBool w (AuthResponse_Success m),
       if (AuthResponse_Success m) then steps
        [WriteUint64 w (AuthResponse_UserID m),
         WriteString w (AuthResponse_Nickname m)]
       else no_error,
       WriteString w (AuthResponse_Message m),
       if AuthResponse_Success m \<and> AuthResponse_UserFlags m \<noteq> None
       then WriteUint8 w (the (AuthResponse_UserFlags m)) else no_error]"

definition AuthResponseMessage_Encode :: "AuthResponseMessage \<Rightarrow> go_error + bytes" where
  [msg_def]: "AuthResponseMessage_Encode m = to_bytes (AuthResponseMessage_EncodeTo buffer m)"

definition AuthResponseMessage_Decode :: "AuthResponseMessage \<Rightarrow> bytes \<Rightarrow> AuthResponseMessage \<times> go_error option" where
  [msg_def]: "AuthResponseMessage_Decode m buf =
    read_then ReadBool buf m (\<lambda>success buf.
    let m = m\<lparr>AuthResponse_Success := success,
        AuthResponse_UserFlags := None\<rparr> in
    let after = (\<lambda>m buf.
      read_then ReadString buf m (\<lambda>message buf.
      let m = m\<lparr>AuthResponse_Message := message\<rparr> in
      let after = (\<lambda>m buf.
        (m, None)) in
      if success \<and> length buf > 0 then
        read_then ReadUint8 buf m (\<lambda>flags buf.
        let f = flags in
        after (m\<lparr>AuthResponse_UserFlags := Some f\<rparr>) buf)
      else after m buf)) in
    if success then
      read_then ReadUint64 buf m (\<lambda>userID buf.
      let m = m\<lparr>AuthResponse_UserID := userID\<rparr> in
      read_then ReadString buf m (\<lambda>nickname buf.
      after (m\<lparr>AuthResponse_Nickname := nickname\<rparr>) buf))
    else after m buf)"

definition AuthResponseMessage_received :: "AuthResponseMessage \<Rightarrow> AuthResponseMessage \<Rightarrow> AuthResponseMessage" where
  "AuthResponseMessage_received m0 m =
    (if AuthResponse_Success m then m
     else m\<lparr>AuthResponse_UserID := AuthResponse_UserID m0, AuthResponse_Nickname := AuthResponse_Nickname m0, AuthResponse_UserFlags := None\<rparr>)"

lemma AuthResponseMessage_roundtrip:
  "AuthResponseMessage_Encode m = Inr p \<Longrightarrow> AuthResponseMessage_Decode m0 p = (AuthResponseMessage_received m0 m, None)"
  by (cases m; cases m0) (auto simp: msg_def codec AuthResponseMessage_received_def split: if_splits)

interpretation AuthResponse: message_codec AuthResponseMessage_Encode AuthResponseMessage_Decode
  "AuthResponseMessage_received" "\<lambda>m. True"
  by unfold_locales (rule AuthResponseMessage_roundtrip)

section \<open>SetNickname\<close>

text \<open>SetNicknameMessage (0x02) - Set/change nickname\<close>

record SetNicknameMessage =
  SetNickname_Nickname :: "gostring"

definition SetNicknameMessage_zero :: SetNicknameMessage where
  "SetNicknameMessage_zero = \<lparr>SetNickname_Nickname = []\<rparr>"

definition SetNicknameMessage_EncodeTo :: "'w io_writer \<Rightarrow> SetNicknameMessage \<Rightarrow> 'w wr" where
  [msg_def]: "SetNicknameMessage_EncodeTo w m =
    (if length (SetNickname_Nickname m) < 3 then fails ErrNicknameTooShort
      else (if length (SetNickname_Nickname m) > 20 then fails ErrNicknameTooLong
      else WriteString w (SetNickname_Nickname m)))"

definition SetNicknameMessage_Encode :: "SetNicknameMessage \<Rightarrow> go_error + bytes" where
  [msg_def]: "SetNicknameMessage_Encode m = to_bytes (SetNicknameMessage_EncodeTo buffer m)"

definition SetNicknameMessage_Decode :: "SetNicknameMessage \<Rightarrow> bytes \<Rightarrow> SetNicknameMessage \<times> go_error option" where
  [msg_def]: "SetNicknameMessage_Decode m buf =
    read_then ReadString buf m (\<lambda>nickname buf.
    if length nickname < 3 then (m, Some ErrNicknameTooShort) else
    if length nickname > 20 then (m, Some ErrNicknameTooLong) else
    (m\<lparr>SetNickname_Nickname := nickname\<rparr>, None))"

lemma SetNicknameMessage_roundtrip:
  "SetNicknameMessage_Encode m = Inr p \<Longrightarrow> SetNicknameMessage_Decode m0 p = (m, None)"
  by (cases m; cases m0) (auto simp: msg_def codec split: if_splits)

interpretation SetNickname: message_codec SetNicknameMessage_Encode SetNicknameMessage_Decode
  "\<lambda>m0 m. m" "\<lambda>m. True"
  by unfold_locales (rule SetNicknameMessage_roundtrip)

section \<open>NicknameResponse\<close>

text \<open>NicknameResponseMessage (0x82) - Response to SET_NICKNAME\<close>

record NicknameResponseMessage =
  NicknameResponse_Success :: "bool"
  NicknameResponse_Message :: "gostring"

definition NicknameResponseMessage_zero :: NicknameResponseMessage where
  "NicknameResponseMessage_zero = \<lparr>NicknameResponse_Success = False,
    NicknameResponse_Message = []\<rparr>"

definition NicknameResponseMessage_EncodeTo :: "'w io_writer \<Rightarrow> NicknameResponseMessage \<Rightarrow> 'w wr" where
  [msg_def]: "NicknameResponseMessage_EncodeTo w m =
    steps
      [WriteBool w (NicknameResponse_Success m),
       WriteString w (NicknameResponse_Message m)]"

definition NicknameResponseMessage_Encode :: "NicknameResponseMessage \<Rightarrow> go_error + bytes" where
  [msg_def]: "NicknameResponseMessage_Encode m = to_bytes (NicknameResponseMessage_EncodeTo buffer m)"

definition NicknameResponseMessage_Decode :: "NicknameResponseMessage \<Rightarrow> bytes \<Rightarrow> NicknameResponseMessage \<times> go_error option" where
  [msg_def]: "NicknameResponseMessage_Decode m buf =
    read_then ReadBool buf m (\<lambda>success buf.
    read_then ReadString buf m (\<lambda>message buf.
    (m\<lparr>NicknameResponse_Success := success,
        NicknameResponse_Message := message\<rparr>, None)))"

lemma NicknameResponseMessage_roundtrip:
  "NicknameResponseMessage_Encode m = Inr p \<Longrightarrow> NicknameResponseMessage_Decode m0 p = (m, None)"
  by (cases m; cases m0) (auto simp: msg_def codec split: if_splits)

interpretation NicknameResponse: message_codec NicknameResponseMessage_Encode NicknameResponseMessage_Decode
  "\<lambda>m0 m. m" "\<lambda>m. True"
  by unfold_locales (rule NicknameResponseMessage_roundtrip)

section \<open>RegisterUser\<close>

text \<open>RegisterUserMessage (0x03) - Register current nickname with password\<close>

record RegisterUserMessage =
  RegisterUser_Password :: "gostring"

definition RegisterUserMessage_zero :: RegisterUserMessage where
  "RegisterUserMessage_zero = \<lparr>RegisterUser_Password = []\<rparr>"

definition RegisterUserMessage_EncodeTo :: "'w io_writer \<Rightarrow> RegisterUserMessage \<Rightarrow> 'w wr" where
  [msg_def]: "RegisterUserMessage_EncodeTo w m =
    WriteString w (RegisterUser_Password m)"

definition RegisterUserMessage_Encode :: "RegisterUserMessage \<Rightarrow> go_error + bytes" where
  [msg_def]: "RegisterUserMessage_Encode m = to_bytes (RegisterUserMessage_EncodeTo buffer m)"

definition RegisterUserMessage_Decode :: "RegisterUserMessage \<Rightarrow> bytes \<Rightarrow> RegisterUserMessage \<times> go_error option" where
  [msg_def]: "RegisterUserMessage_Decode m buf =
    read_then ReadString buf m (\<lambda>password buf.
    (m\<lparr>RegisterUser_Password := password\<rparr>, None))"

lemma RegisterUserMessage_roundtrip:
  "RegisterUserMessage_Encode m = Inr p \<Longrightarrow> RegisterUserMessage_Decode m0 p = (m, None)"
  by (cases m; cases m0) (auto simp: msg_def codec split: if_splits)

interpretation RegisterUser: message_codec RegisterUserMessage_Encode RegisterUserMessage_Decode
  "\<lambda>m0 m. m" "\<lambda>m. True"
  by unfold_locales (rule RegisterUserMessage_roundtrip)

section \<open>RegisterResponse\<close>

text \<open>RegisterResponseMessage (0x83) - Registration result\<close>

record RegisterResponseMessage =
  RegisterResponse_Success :: "bool"
  RegisterResponse_UserID :: "u64"
  RegisterResponse_Message :: "gostring"

definition RegisterResponseMessage_zero :: RegisterResponseMessage where
  "RegisterResponseMessage_zero = \<lparr>RegisterResponse_Success = False,
    RegisterResponse_UserID = 0,
    RegisterResponse_Message = []\<rparr>"

definition RegisterResponseMessage_EncodeTo :: "'w io_writer \<Rightarrow> RegisterResponseMessage \<Rightarrow> 'w wr" where
  [msg_def]: "RegisterResponseMessage_EncodeTo w m =
    steps
      [WriteBool w (RegisterResponse_Success m),
       if (RegisterResponse_Success m) then steps
        [WriteUint64 w (RegisterResponse_UserID m)]
       else no_error,
       WriteString w (RegisterResponse_Message m)]"

definition RegisterResponseMessage_Encode :: "RegisterResponseMessage \<Rightarrow> go_error + bytes" where
  [msg_def]: "RegisterResponseMessage_Encode m = to_bytes (RegisterResponseMessage_EncodeTo buffer m)"

definition RegisterResponseMessage_Decode :: "RegisterResponseMessage \<Rightarrow> bytes \<Rightarrow> RegisterResponseMessage \<times> go_error option" where
  [msg_def]: "RegisterResponseMessage_Decode m buf =
    read_then ReadBool buf m (\<lambda>success buf.
    let m = m\<lparr>RegisterResponse_Success := success\<rparr> in
    let after = (\<lambda>m buf.
      read_then ReadString buf m (\<lambda>message buf.
      (m\<lparr>RegisterResponse_Message := message\<rparr>, None))) in
    if success then
      read_then ReadUint64 buf m (\<lambda>userID buf.
      after (m\<lparr>RegisterResponse_UserID := userID\<rparr>) buf)
    else after m buf)"

definition RegisterResponseMessage_received :: "RegisterResponseMessage \<Rightarrow> RegisterResponseMessage \<Rightarrow> RegisterResponseMessage" where
  "RegisterResponseMessage_received m0 m =
    (if RegisterResponse_Success m then m
     else m\<lparr>RegisterResponse_UserID := RegisterResponse_UserID m0\<rparr>)"

lemma RegisterResponseMessage_roundtrip:
  "RegisterResponseMessage_Encode m = Inr p \<Longrightarrow> RegisterResponseMessage_Decode m0 p = (RegisterResponseMessage_received m0 m, None)"
  by (cases m; cases m0) (auto simp: msg_def codec RegisterResponseMessage_received_def split: if_splits)

interpretation RegisterResponse: message_codec RegisterResponseMessage_Encode RegisterResponseMessage_Decode
  "RegisterResponseMessage_received" "\<lambda>m. True"
  by unfold_locales (rule RegisterResponseMessage_roundtrip)

section \<open>Logout\<close>

text \<open>LogoutMessage (0x15) - Clear authentication and become anonymous\<close>

datatype LogoutMessage = LogoutMessage

definition LogoutMessage_zero :: LogoutMessage where
  "LogoutMessage_zero = LogoutMessage"

definition LogoutMessage_EncodeTo :: "'w io_writer \<Rightarrow> LogoutMessage \<Rightarrow> 'w wr" where
  [msg_def]: "LogoutMessage_EncodeTo w m =
    no_error"

definition LogoutMessage_Encode :: "LogoutMessage \<Rightarrow> go_error + bytes" where
  [msg_def]: "LogoutMessage_Encode m = Inr []"

definition LogoutMessage_Decode :: "LogoutMessage \<Rightarrow> bytes \<Rightarrow> LogoutMessage \<times> go_error option" where
  [msg_def]: "LogoutMessage_Decode m payload =
    (m, None)"

lemma LogoutMessage_roundtrip:
  "LogoutMessage_Encode m = Inr p \<Longrightarrow> LogoutMessage_Decode m0 p = (m, None)"
  by (cases m; cases m0) (simp add: msg_def)

interpretation Logout: message_codec LogoutMessage_Encode LogoutMessage_Decode
  "\<lambda>m0 m. m" "\<lambda>m. True"
  by unfold_locales (rule LogoutMessage_roundtrip)

end
