(* ===== verification/MsgChannel.thy ===== *)
theory MsgChannel imports Frame UserFlags begin

text \<open>
  "pkg/protocol/messages.go": the messages of channels: the channel list, joining, leaving and creating.
  Each has its struct, its zero value (what "&T{}" makes), EncodeTo over any writer,
  Encode, and Decode into a receiver, as the source writes them; then the round trip and
  the interpretation of message_codec.
\<close>

section \<open>ListChannels\<close>

text \<open>ListChannelsMessage (0x04) - Request channel list\<close>

record ListChannelsMessage =
  ListChannels_FromChannelID :: "u64"
  ListChannels_Limit :: "u16"

definition ListChannelsMessage_zero :: ListChannelsMessage where
  "ListChannelsMessage_zero = \<lparr>ListChannels_FromChannelID = 0,
    ListChannels_Limit = 0\<rparr>"

definition ListChannelsMessage_EncodeTo :: "'w io_writer \<Rightarrow> ListChannelsMessage \<Rightarrow> 'w wr" where
  [msg_def]: "ListChannelsMessage_EncodeTo w m =
    steps
      [WriteUint64 w (ListChannels_FromChannelID m),
       WriteUint16 w (ListChannels_Limit m)]"

definition ListChannelsMessage_Encode :: "ListChannelsMessage \<Rightarrow> go_error + bytes" where
  [msg_def]: "ListChannelsMessage_Encode m = to_bytes (ListChannelsMessage_EncodeTo buffer m)"

definition ListChannelsMessage_Decode :: "ListChannelsMessage \<Rightarrow> bytes \<Rightarrow> ListChannelsMessage \<times> go_error option" where
  [msg_def]: "ListChannelsMessage_Decode m buf =
    read_then ReadUint64 buf m (\<lambda>fromID buf.
    read_then ReadUint16 buf m (\<lambda>limit buf.
    (m\<lparr>ListChannels_FromChannelID := fromID,
        ListChannels_Limit := limit\<rparr>, None)))"

lemma ListChannelsMessage_roundtrip:
  "ListChannelsMessage_Encode m = Inr p \<Longrightarrow> ListChannelsMessage_Decode m0 p = (m, None)"
  by (cases m; cases m0) (auto simp: msg_def codec split: if_splits)

interpretation ListChannels: message_codec ListChannelsMessage_Encode ListChannelsMessage_Decode
  "\<lambda>m0 m. m" "\<lambda>m. True"
  by unfold_locales (rule ListChannelsMessage_roundtrip)

section \<open>ChannelList\<close>

text \<open>ChannelListMessage (0x84) - List of channels\<close>

record Channel =
  Channel_ID :: "u64"
  Channel_Name :: "gostring"
  Channel_Description :: "gostring"
  Channel_UserCount :: "u32"
  Channel_IsOperator :: "bool"
  Channel_Type :: "u8"
  Channel_RetentionHours :: "u32"

definition Channel_zero :: Channel where
  "Channel_zero = \<lparr>Channel_ID = 0,
    Channel_Name = [],
    Channel_Description = [],
    Channel_UserCount = 0,
    Channel_IsOperator = False,
    Channel_Type = 0,
    Channel_RetentionHours = 0\<rparr>"

definition Channel_put :: "'w io_writer \<Rightarrow> Channel \<Rightarrow> 'w wr" where
  "Channel_put w x = steps
      [WriteUint64 w (Channel_ID x),
       WriteString w (Channel_Name x),
       WriteString w (Channel_Description x),
       WriteUint32 w (Channel_UserCount x),
       WriteBool w (Channel_IsOperator x),
       WriteUint8 w (Channel_Type x),
       WriteUint32 w (Channel_RetentionHours x)]"

definition Channel_get :: "Channel rd" where
  "Channel_get =
    rd_bind ReadUint64 (\<lambda>id.
    rd_bind ReadString (\<lambda>name.
    rd_bind ReadString (\<lambda>desc.
    rd_bind ReadUint32 (\<lambda>userCount.
    rd_bind ReadBool (\<lambda>isOp.
    rd_bind ReadUint8 (\<lambda>chType.
    rd_bind ReadUint32 (\<lambda>retention.
    rd_return \<lparr>Channel_ID = id,
      Channel_Name = name,
      Channel_Description = desc,
      Channel_UserCount = userCount,
      Channel_IsOperator = isOp,
      Channel_Type = chType,
      Channel_RetentionHours = retention\<rparr>)))))))"

definition Channel_wire :: "Channel \<Rightarrow> bytes" where
  "Channel_wire x = PutUint64 (Channel_ID x) @
    string_wire (Channel_Name x) @
    string_wire (Channel_Description x) @
    PutUint32 (Channel_UserCount x) @
    bool_wire (Channel_IsOperator x) @
    [(Channel_Type x)] @
    PutUint32 (Channel_RetentionHours x)"

definition Channel_ok :: "Channel \<Rightarrow> bool" where
  "Channel_ok x \<longleftrightarrow> string_ok (Channel_Name x) \<and>
    string_ok (Channel_Description x)"

interpretation Channel: element_codec Channel_put Channel_get Channel_ok Channel_wire id
  by unfold_locales (auto simp: Channel_put_def Channel_get_def Channel_ok_def Channel_wire_def codec)

lemmas [codec] = Channel.put_all_uniform Channel.put_all Channel.fill_slice Channel.fill_slice_end

record ChannelListMessage =
  ChannelList_Channels :: "Channel list"

definition ChannelListMessage_zero :: ChannelListMessage where
  "ChannelListMessage_zero = \<lparr>ChannelList_Channels = []\<rparr>"

definition ChannelListMessage_EncodeTo :: "'w io_writer \<Rightarrow> ChannelListMessage \<Rightarrow> 'w wr" where
  [msg_def]: "ChannelListMessage_EncodeTo w m =
    steps
      [WriteUint16 w (of_nat (length (ChannelList_Channels m))),
       steps (map (Channel_put w) (ChannelList_Channels m))]"

definition ChannelListMessage_Encode :: "ChannelListMessage \<Rightarrow> go_error + bytes" where
  [msg_def]: "ChannelListMessage_Encode m = to_bytes (ChannelListMessage_EncodeTo buffer m)"

definition ChannelListMessage_Decode :: "ChannelListMessage \<Rightarrow> bytes \<Rightarrow> ChannelListMessage \<times> go_error option" where
  [msg_def]: "ChannelListMessage_Decode m buf =
    read_then ReadUint16 buf m (\<lambda>count buf.
    (case fill_loop Channel_get 0 (unat count) (replicate (unat count) Channel_zero) buf of
       (xs, Inl e) \<Rightarrow> (m\<lparr>ChannelList_Channels := xs\<rparr>, Some e)
     | (xs, Inr buf) \<Rightarrow> (m\<lparr>ChannelList_Channels := xs\<rparr>, None)))"

definition ChannelListMessage_sendable :: "ChannelListMessage \<Rightarrow> bool" where
  "ChannelListMessage_sendable m \<longleftrightarrow> length (ChannelList_Channels m) < 2 ^ 16"

lemma ChannelListMessage_roundtrip:
  "ChannelListMessage_Encode m = Inr p \<Longrightarrow> ChannelListMessage_sendable m \<Longrightarrow>
   ChannelListMessage_Decode m0 p = (m, None)"
  by (cases m; cases m0) (auto simp: msg_def codec ChannelListMessage_sendable_def split: if_splits)

interpretation ChannelList: message_codec ChannelListMessage_Encode ChannelListMessage_Decode
  "\<lambda>m0 m. m" "ChannelListMessage_sendable"
  by unfold_locales (rule ChannelListMessage_roundtrip)

section \<open>JoinChannel\<close>

text \<open>JoinChannelMessage (0x05) - Join a channel\<close>

record JoinChannelMessage =
  JoinChannel_ChannelID :: "u64"
  JoinChannel_SubchannelID :: "u64 option"

definition JoinChannelMessage_zero :: JoinChannelMessage where
  "JoinChannelMessage_zero = \<lparr>JoinChannel_ChannelID = 0,
    JoinChannel_SubchannelID = None\<rparr>"

definition JoinChannelMessage_EncodeTo :: "'w io_writer \<Rightarrow> JoinChannelMessage \<Rightarrow> 'w wr" where
  [msg_def]: "JoinChannelMessage_EncodeTo w m =
    steps
      [WriteUint64 w (JoinChannel_ChannelID m),
       WriteOptionalUint64 w (JoinChannel_SubchannelID m)]"

definition JoinChannelMessage_Encode :: "JoinChannelMessage \<Rightarrow> go_error + bytes" where
  [msg_def]: "JoinChannelMessage_Encode m = to_bytes (JoinChannelMessage_EncodeTo buffer m)"

definition JoinChannelMessage_Decode :: "JoinChannelMessage \<Rightarrow> bytes \<Rightarrow> JoinChannelMessage \<times> go_error option" where
  [msg_def]: "JoinChannelMessage_Decode m buf =
    read_then ReadUint64 buf m (\<lambda>channelID buf.
    read_then ReadOptionalUint64 buf m (\<lambda>subchannelID buf.
    (m\<lparr>JoinChannel_ChannelID := channelID,
        JoinChannel_SubchannelID := subchannelID\<rparr>, None)))"

lemma JoinChannelMessage_roundtrip:
  "JoinChannelMessage_Encode m = Inr p \<Longrightarrow> JoinChannelMessage_Decode m0 p = (m, None)"
  by (cases m; cases m0) (auto simp: msg_def codec split: if_splits)

interpretation JoinChannel: message_codec JoinChannelMessage_Encode JoinChannelMessage_Decode
  "\<lambda>m0 m. m" "\<lambda>m. True"
  by unfold_locales (rule JoinChannelMessage_roundtrip)

section \<open>LeaveChannel\<close>

text \<open>LeaveChannelMessage (0x06) - Leave a channel\<close>

record LeaveChannelMessage =
  LeaveChannel_ChannelID :: "u64"
  LeaveChannel_SubchannelID :: "u64 option"

definition LeaveChannelMessage_zero :: LeaveChannelMessage where
  "LeaveChannelMessage_zero = \<lparr>LeaveChannel_ChannelID = 0,
    LeaveChannel_SubchannelID = None\<rparr>"

definition LeaveChannelMessage_EncodeTo :: "'w io_writer \<Rightarrow> LeaveChannelMessage \<Rightarrow> 'w wr" where
  [msg_def]: "LeaveChannelMessage_EncodeTo w m =
    steps
      [WriteUint64 w (LeaveChannel_ChannelID m),
       WriteOptionalUint64 w (LeaveChannel_SubchannelID m)]"

definition LeaveChannelMessage_Encode :: "LeaveChannelMessage \<Rightarrow> go_error + bytes" where
  [msg_def]: "LeaveChannelMessage_Encode m = to_bytes (LeaveChannelMessage_EncodeTo buffer m)"

definition LeaveChannelMessage_Decode :: "LeaveChannelMessage \<Rightarrow> bytes \<Rightarrow> LeaveChannelMessage \<times> go_error option" where
  [msg_def]: "LeaveChannelMessage_Decode m buf =
    read_then ReadUint64 buf m (\<lambda>channelID buf.
    read_then ReadOptionalUint64 buf m (\<lambda>subchannelID buf.
    (m\<lparr>LeaveChannel_ChannelID := channelID,
        LeaveChannel_SubchannelID := subchannelID\<rparr>, None)))"

lemma LeaveChannelMessage_roundtrip:
  "LeaveChannelMessage_Encode m = Inr p \<Longrightarrow> LeaveChannelMessage_Decode m0 p = (m, None)"
  by (cases m; cases m0) (auto simp: msg_def codec split: if_splits)

interpretation LeaveChannel: message_codec LeaveChannelMessage_Encode LeaveChannelMessage_Decode
  "\<lambda>m0 m. m" "\<lambda>m. True"
  by unfold_locales (rule LeaveChannelMessage_roundtrip)

section \<open>JoinResponse\<close>

text \<open>JoinResponseMessage (0x85) - Response to JOIN_CHANNEL\<close>

record JoinResponseMessage =
  JoinResponse_Success :: "bool"
  JoinResponse_ChannelID :: "u64"
  JoinResponse_SubchannelID :: "u64 option"
  JoinResponse_Message :: "gostring"

definition JoinResponseMessage_zero :: JoinResponseMessage where
  "JoinResponseMessage_zero = \<lparr>JoinResponse_Success = False,
    JoinResponse_ChannelID = 0,
    JoinResponse_SubchannelID = None,
    JoinResponse_Message = []\<rparr>"

definition JoinResponseMessage_EncodeTo :: "'w io_writer \<Rightarrow> JoinResponseMessage \<Rightarrow> 'w wr" where
  [msg_def]: "JoinResponseMessage_EncodeTo w m =
    steps
      [WriteBool w (JoinResponse_Success m),
       WriteUint64 w (JoinResponse_ChannelID m),
       WriteOptionalUint64 w (JoinResponse_SubchannelID m),
       WriteString w (JoinResponse_Message m)]"

definition JoinResponseMessage_Encode :: "JoinResponseMessage \<Rightarrow> go_error + bytes" where
  [msg_def]: "JoinResponseMessage_Encode m = to_bytes (JoinResponseMessage_EncodeTo buffer m)"

definition JoinResponseMessage_Decode :: "JoinResponseMessage \<Rightarrow> bytes \<Rightarrow> JoinResponseMessage \<times> go_error option" where
  [msg_def]: "JoinResponseMessage_Decode m buf =
    read_then ReadBool buf m (\<lambda>success buf.
    read_then ReadUint64 buf m (\<lambda>channelID buf.
    read_then ReadOptionalUint64 buf m (\<lambda>subchannelID buf.
    read_then ReadString buf m (\<lambda>message buf.
    (m\<lparr>JoinResponse_Success := success,
        JoinResponse_ChannelID := channelID,
        JoinResponse_SubchannelID := subchannelID,
        JoinResponse_Message := message\<rparr>, None)))))"

lemma JoinResponseMessage_roundtrip:
  "JoinResponseMessage_Encode m = Inr p \<Longrightarrow> JoinResponseMessage_Decode m0 p = (m, None)"
  by (cases m; cases m0) (auto simp: msg_def codec split: if_splits)

interpretation JoinResponse: message_codec JoinResponseMessage_Encode JoinResponseMessage_Decode
  "\<lambda>m0 m. m" "\<lambda>m. True"
  by unfold_locales (rule JoinResponseMessage_roundtrip)

section \<open>LeaveResponse\<close>

text \<open>LeaveResponseMessage (0x86) - Response to LEAVE_CHANNEL\<close>

record LeaveResponseMessage =
  LeaveResponse_Success :: "bool"
  LeaveResponse_ChannelID :: "u64"
  LeaveResponse_SubchannelID :: "u64 option"
  LeaveResponse_Message :: "gostring"

definition LeaveResponseMessage_zero :: LeaveResponseMessage where
  "LeaveResponseMessage_zero = \<lparr>LeaveResponse_Success = False,
    LeaveResponse_ChannelID = 0,
    LeaveResponse_SubchannelID = None,
    LeaveResponse_Message = []\<rparr>"

definition LeaveResponseMessage_EncodeTo :: "'w io_writer \<Rightarrow> LeaveResponseMessage \<Rightarrow> 'w wr" where
  [msg_def]: "LeaveResponseMessage_EncodeTo w m =
    steps
      [WriteBool w (LeaveResponse_Success m),
       WriteUint64 w (LeaveResponse_ChannelID m),
       WriteOptionalUint64 w (LeaveResponse_SubchannelID m),
       WriteString w (LeaveResponse_Message m)]"

definition LeaveResponseMessage_Encode :: "LeaveResponseMessage \<Rightarrow> go_error + bytes" where
  [msg_def]: "LeaveResponseMessage_Encode m = to_bytes (LeaveResponseMessage_EncodeTo buffer m)"

definition LeaveResponseMessage_Decode :: "LeaveResponseMessage \<Rightarrow> bytes \<Rightarrow> LeaveResponseMessage \<times> go_error option" where
  [msg_def]: "LeaveResponseMessage_Decode m buf =
    read_then ReadBool buf m (\<lambda>success buf.
    read_then ReadUint64 buf m (\<lambda>channelID buf.
    read_then ReadOptionalUint64 buf m (\<lambda>subchannelID buf.
    read_then ReadString buf m (\<lambda>message buf.
    (m\<lparr>LeaveResponse_Success := success,
        LeaveResponse_ChannelID := channelID,
        LeaveResponse_SubchannelID := subchannelID,
        LeaveResponse_Message := message\<rparr>, None)))))"

lemma LeaveResponseMessage_roundtrip:
  "LeaveResponseMessage_Encode m = Inr p \<Longrightarrow> LeaveResponseMessage_Decode m0 p = (m, None)"
  by (cases m; cases m0) (auto simp: msg_def codec split: if_splits)

interpretation LeaveResponse: message_codec LeaveResponseMessage_Encode LeaveResponseMessage_Decode
  "\<lambda>m0 m. m" "\<lambda>m. True"
  by unfold_locales (rule LeaveResponseMessage_roundtrip)

section \<open>CreateChannel\<close>

text \<open>CreateChannelMessage (0x07) - Create a new channel (V2+, requires registered user)\<close>

record CreateChannelMessage =
  CreateChannel_Name :: "gostring"
  CreateChannel_DisplayName :: "gostring"
  CreateChannel_Description :: "gostring option"
  CreateChannel_ChannelType :: "u8"
  CreateChannel_RetentionHours :: "u32"

definition CreateChannelMessage_zero :: CreateChannelMessage where
  "CreateChannelMessage_zero = \<lparr>CreateChannel_Name = [],
    CreateChannel_DisplayName = [],
    CreateChannel_Description = None,
    CreateChannel_ChannelType = 0,
    CreateChannel_RetentionHours = 0\<rparr>"

definition CreateChannelMessage_EncodeTo :: "'w io_writer \<Rightarrow> CreateChannelMessage \<Rightarrow> 'w wr" where
  [msg_def]: "CreateChannelMessage_EncodeTo w m =
    steps
      [WriteString w (CreateChannel_Name m),
       WriteString w (CreateChannel_DisplayName m),
       WriteOptionalString w (CreateChannel_Description m),
       WriteUint8 w (CreateChannel_ChannelType m),
       WriteUint32 w (CreateChannel_RetentionHours m)]"

definition CreateChannelMessage_Encode :: "CreateChannelMessage \<Rightarrow> go_error + bytes" where
  [msg_def]: "CreateChannelMessage_Encode m = to_bytes (CreateChannelMessage_EncodeTo buffer m)"

definition CreateChannelMessage_Decode :: "CreateChannelMessage \<Rightarrow> bytes \<Rightarrow> CreateChannelMessage \<times> go_error option" where
  [msg_def]: "CreateChannelMessage_Decode m buf =
    read_then ReadString buf m (\<lambda>name buf.
    read_then ReadString buf m (\<lambda>displayName buf.
    read_then ReadOptionalString buf m (\<lambda>description buf.
    read_then ReadUint8 buf m (\<lambda>channelType buf.
    read_then ReadUint32 buf m (\<lambda>retentionHours buf.
    (m\<lparr>CreateChannel_Name := name,
        CreateChannel_DisplayName := displayName,
        CreateChannel_Description := description,
        CreateChannel_ChannelType := channelType,
        CreateChannel_RetentionHours := retentionHours\<rparr>, None))))))"

lemma CreateChannelMessage_roundtrip:
  "CreateChannelMessage_Encode m = Inr p \<Longrightarrow> CreateChannelMessage_Decode m0 p = (m, None)"
  by (cases m; cases m0) (auto simp: msg_def codec split: if_splits)

interpretation CreateChannel: message_codec CreateChannelMessage_Encode CreateChannelMessage_Decode
  "\<lambda>m0 m. m" "\<lambda>m. True"
  by unfold_locales (rule CreateChannelMessage_roundtrip)

section \<open>ChannelCreated\<close>

text \<open>ChannelCreatedMessage (0x87) - Response to CREATE_CHANNEL + broadcast to all connected clients Hybrid message: sent to creator as confirmation, also broadcast to all others if success=true\<close>

record ChannelCreatedMessage =
  ChannelCreated_Success :: "bool"
  ChannelCreated_ChannelID :: "u64"
  ChannelCreated_Name :: "gostring"
  ChannelCreated_Description :: "gostring"
  ChannelCreated_Type :: "u8"
  ChannelCreated_RetentionHours :: "u32"
  ChannelCreated_Message :: "gostring"

definition ChannelCreatedMessage_zero :: ChannelCreatedMessage where
  "ChannelCreatedMessage_zero = \<lparr>ChannelCreated_Success = False,
    ChannelCreated_ChannelID = 0,
    ChannelCreated_Name = [],
    ChannelCreated_Description = [],
    ChannelCreated_Type = 0,
    ChannelCreated_RetentionHours = 0,
    ChannelCreated_Message = []\<rparr>"

definition ChannelCreatedMessage_EncodeTo :: "'w io_writer \<Rightarrow> ChannelCreatedMessage \<Rightarrow> 'w wr" where
  [msg_def]: "ChannelCreatedMessage_EncodeTo w m =
    steps
      [WriteBool w (ChannelCreated_Success m),
       if (ChannelCreated_Success m) then steps
        [WriteUint64 w (ChannelCreated_ChannelID m),
         WriteString w (ChannelCreated_Name m),
         WriteString w (ChannelCreated_Description m),
         WriteUint8 w (ChannelCreated_Type m),
         WriteUint32 w (ChannelCreated_RetentionHours m)]
       else no_error,
       WriteString w (ChannelCreated_Message m)]"

definition ChannelCreatedMessage_Encode :: "ChannelCreatedMessage \<Rightarrow> go_error + bytes" where
  [msg_def]: "ChannelCreatedMessage_Encode m = to_bytes (ChannelCreatedMessage_EncodeTo buffer m)"

definition ChannelCreatedMessage_Decode :: "ChannelCreatedMessage \<Rightarrow> bytes \<Rightarrow> ChannelCreatedMessage \<times> go_error option" where
  [msg_def]: "ChannelCreatedMessage_Decode m buf =
    read_then ReadBool buf m (\<lambda>success buf.
    let m = m\<lparr>ChannelCreated_Success := success\<rparr> in
    let after = (\<lambda>m buf.
      read_then ReadString buf m (\<lambda>message buf.
      (m\<lparr>ChannelCreated_Message := message\<rparr>, None))) in
    if success then
      read_then ReadUint64 buf m (\<lambda>channelID buf.
      read_then ReadString buf m (\<lambda>name buf.
      read_then ReadString buf m (\<lambda>description buf.
      read_then ReadUint8 buf m (\<lambda>channelType buf.
      read_then ReadUint32 buf m (\<lambda>retentionHours buf.
      after (m\<lparr>ChannelCreated_ChannelID := channelID,
          ChannelCreated_Name := name,
          ChannelCreated_Description := description,
          ChannelCreated_Type := channelType,
          ChannelCreated_RetentionHours := retentionHours\<rparr>) buf)))))
    else after m buf)"

definition ChannelCreatedMessage_received :: "ChannelCreatedMessage \<Rightarrow> ChannelCreatedMessage \<Rightarrow> ChannelCreatedMessage" where
  "ChannelCreatedMessage_received m0 m =
    (if ChannelCreated_Success m then m
     else m\<lparr>ChannelCreated_ChannelID := ChannelCreated_ChannelID m0, ChannelCreated_Name := ChannelCreated_Name m0, ChannelCreated_Description := ChannelCreated_Description m0, ChannelCreated_Type := ChannelCreated_Type m0, ChannelCreated_RetentionHours := ChannelCreated_RetentionHours m0\<rparr>)"

lemma ChannelCreatedMessage_roundtrip:
  "ChannelCreatedMessage_Encode m = Inr p \<Longrightarrow> ChannelCreatedMessage_Decode m0 p = (ChannelCreatedMessage_received m0 m, None)"
  by (cases m; cases m0) (auto simp: msg_def codec ChannelCreatedMessage_received_def split: if_splits)

interpretation ChannelCreated: message_codec ChannelCreatedMessage_Encode ChannelCreatedMessage_Decode
  "ChannelCreatedMessage_received" "\<lambda>m. True"
  by unfold_locales (rule ChannelCreatedMessage_roundtrip)

end
