(* ===== verification/MsgMessage.thy ===== *)
theory MsgMessage imports Frame UserFlags begin

text \<open>
  "pkg/protocol/messages.go": the messages of messages: listing, posting, editing and deleting, and the new-message broadcast.
  Each has its struct, its zero value (what "&T{}" makes), EncodeTo over any writer,
  Encode, and Decode into a receiver, as the source writes them; then the round trip and
  the interpretation of message_codec.
\<close>

section \<open>ListMessages\<close>

text \<open>ListMessagesMessage (0x09) - Request messages\<close>

record ListMessagesMessage =
  ListMessages_ChannelID :: "u64"
  ListMessages_SubchannelID :: "u64 option"
  ListMessages_Limit :: "u16"
  ListMessages_BeforeID :: "u64 option"
  ListMessages_ParentID :: "u64 option"
  ListMessages_AfterID :: "u64 option"

definition ListMessagesMessage_zero :: ListMessagesMessage where
  "ListMessagesMessage_zero = \<lparr>ListMessages_ChannelID = 0,
    ListMessages_SubchannelID = None,
    ListMessages_Limit = 0,
    ListMessages_BeforeID = None,
    ListMessages_ParentID = None,
    ListMessages_AfterID = None\<rparr>"

definition ListMessagesMessage_EncodeTo :: "'w io_writer \<Rightarrow> ListMessagesMessage \<Rightarrow> 'w wr" where
  [msg_def]: "ListMessagesMessage_EncodeTo w m =
    steps
      [WriteUint64 w (ListMessages_ChannelID m),
       WriteOptionalUint64 w (ListMessages_SubchannelID m),
       WriteUint16 w (ListMessages_Limit m),
       WriteOptionalUint64 w (ListMessages_BeforeID m),
       WriteOptionalUint64 w (ListMessages_ParentID m),
       WriteOptionalUint64 w (ListMessages_AfterID m)]"

definition ListMessagesMessage_Encode :: "ListMessagesMessage \<Rightarrow> go_error + bytes" where
  [msg_def]: "ListMessagesMessage_Encode m = to_bytes (ListMessagesMessage_EncodeTo buffer m)"

definition ListMessagesMessage_Decode :: "ListMessagesMessage \<Rightarrow> bytes \<Rightarrow> ListMessagesMessage \<times> go_error option" where
  [msg_def]: "ListMessagesMessage_Decode m buf =
    read_then ReadUint64 buf m (\<lambda>channelID buf.
    read_then ReadOptionalUint64 buf m (\<lambda>subchannelID buf.
    read_then ReadUint16 buf m (\<lambda>limit buf.
    read_then ReadOptionalUint64 buf m (\<lambda>beforeID buf.
    read_then ReadOptionalUint64 buf m (\<lambda>parentID buf.
    read_then ReadOptionalUint64 buf m (\<lambda>afterID buf.
    (m\<lparr>ListMessages_ChannelID := channelID,
        ListMessages_SubchannelID := subchannelID,
        ListMessages_Limit := limit,
        ListMessages_BeforeID := beforeID,
        ListMessages_ParentID := parentID,
        ListMessages_AfterID := afterID\<rparr>, None)))))))"

lemma ListMessagesMessage_roundtrip:
  "ListMessagesMessage_Encode m = Inr p \<Longrightarrow> ListMessagesMessage_Decode m0 p = (m, None)"
  by (cases m; cases m0) (auto simp: msg_def codec split: if_splits)

interpretation ListMessages: message_codec ListMessagesMessage_Encode ListMessagesMessage_Decode
  "\<lambda>m0 m. m" "\<lambda>m. True"
  by unfold_locales (rule ListMessagesMessage_roundtrip)

section \<open>MessageList\<close>

text \<open>MessageListMessage (0x89) - List of messages\<close>

record Message =
  Message_ID :: "u64"
  Message_ChannelID :: "u64"
  Message_SubchannelID :: "u64 option"
  Message_ParentID :: "u64 option"
  Message_AuthorUserID :: "u64 option"
  Message_AuthorNickname :: "gostring"
  Message_Content :: "gostring"
  Message_CreatedAt :: "gotime"
  Message_EditedAt :: "gotime option"
  Message_ReplyCount :: "u32"

definition Message_zero :: Message where
  "Message_zero = \<lparr>Message_ID = 0,
    Message_ChannelID = 0,
    Message_SubchannelID = None,
    Message_ParentID = None,
    Message_AuthorUserID = None,
    Message_AuthorNickname = [],
    Message_Content = [],
    Message_CreatedAt = zero_time,
    Message_EditedAt = None,
    Message_ReplyCount = 0\<rparr>"

definition Message_put :: "'w io_writer \<Rightarrow> Message \<Rightarrow> 'w wr" where
  "Message_put w x = steps
      [WriteUint64 w (Message_ID x),
       WriteUint64 w (Message_ChannelID x),
       WriteOptionalUint64 w (Message_SubchannelID x),
       WriteOptionalUint64 w (Message_ParentID x),
       WriteOptionalUint64 w (Message_AuthorUserID x),
       WriteString w (Message_AuthorNickname x),
       WriteString w (Message_Content x),
       WriteTimestamp w (Message_CreatedAt x),
       WriteOptionalTimestamp w (Message_EditedAt x),
       WriteUint32 w (Message_ReplyCount x)]"

definition Message_get :: "Message rd" where
  "Message_get =
    rd_bind ReadUint64 (\<lambda>id.
    rd_bind ReadUint64 (\<lambda>chID.
    rd_bind ReadOptionalUint64 (\<lambda>subID.
    rd_bind ReadOptionalUint64 (\<lambda>parID.
    rd_bind ReadOptionalUint64 (\<lambda>authorID.
    rd_bind ReadString (\<lambda>authorNick.
    rd_bind ReadString (\<lambda>content.
    rd_bind ReadTimestamp (\<lambda>createdAt.
    rd_bind ReadOptionalTimestamp (\<lambda>editedAt.
    rd_bind ReadUint32 (\<lambda>replyCount.
    rd_return \<lparr>Message_ID = id,
      Message_ChannelID = chID,
      Message_SubchannelID = subID,
      Message_ParentID = parID,
      Message_AuthorUserID = authorID,
      Message_AuthorNickname = authorNick,
      Message_Content = content,
      Message_CreatedAt = createdAt,
      Message_EditedAt = editedAt,
      Message_ReplyCount = replyCount\<rparr>))))))))))"

definition Message_wire :: "Message \<Rightarrow> bytes" where
  "Message_wire x = PutUint64 (Message_ID x) @
    PutUint64 (Message_ChannelID x) @
    option_wire PutUint64 (Message_SubchannelID x) @
    option_wire PutUint64 (Message_ParentID x) @
    option_wire PutUint64 (Message_AuthorUserID x) @
    string_wire (Message_AuthorNickname x) @
    string_wire (Message_Content x) @
    PutUint64 (UnixMilli (Message_CreatedAt x)) @
    option_wire (\<lambda>t. PutUint64 (UnixMilli t)) (Message_EditedAt x) @
    PutUint32 (Message_ReplyCount x)"

definition Message_ok :: "Message \<Rightarrow> bool" where
  "Message_ok x \<longleftrightarrow> string_ok (Message_AuthorNickname x) \<and>
    string_ok (Message_Content x)"

definition Message_carried :: "Message \<Rightarrow> Message" where
  "Message_carried x = x\<lparr>Message_CreatedAt := trunc_millis (Message_CreatedAt x),
    Message_EditedAt := map_option trunc_millis (Message_EditedAt x)\<rparr>"

interpretation Message: element_codec Message_put Message_get Message_ok Message_wire Message_carried
  by unfold_locales (auto simp: Message_put_def Message_get_def Message_ok_def Message_wire_def Message_carried_def codec)

lemmas [codec] = Message.put_all_uniform Message.put_all Message.fill_slice Message.fill_slice_end

record MessageListMessage =
  MessageList_ChannelID :: "u64"
  MessageList_SubchannelID :: "u64 option"
  MessageList_ParentID :: "u64 option"
  MessageList_Messages :: "Message list"

definition MessageListMessage_zero :: MessageListMessage where
  "MessageListMessage_zero = \<lparr>MessageList_ChannelID = 0,
    MessageList_SubchannelID = None,
    MessageList_ParentID = None,
    MessageList_Messages = []\<rparr>"

definition MessageListMessage_EncodeTo :: "'w io_writer \<Rightarrow> MessageListMessage \<Rightarrow> 'w wr" where
  [msg_def]: "MessageListMessage_EncodeTo w m =
    steps
      [WriteUint64 w (MessageList_ChannelID m),
       WriteOptionalUint64 w (MessageList_SubchannelID m),
       WriteOptionalUint64 w (MessageList_ParentID m),
       WriteUint16 w (of_nat (length (MessageList_Messages m))),
       steps (map (Message_put w) (MessageList_Messages m))]"

definition MessageListMessage_Encode :: "MessageListMessage \<Rightarrow> go_error + bytes" where
  [msg_def]: "MessageListMessage_Encode m = to_bytes (MessageListMessage_EncodeTo buffer m)"

definition MessageListMessage_Decode :: "MessageListMessage \<Rightarrow> bytes \<Rightarrow> MessageListMessage \<times> go_error option" where
  [msg_def]: "MessageListMessage_Decode m buf =
    read_then ReadUint64 buf m (\<lambda>channelID buf.
    read_then ReadOptionalUint64 buf m (\<lambda>subchannelID buf.
    read_then ReadOptionalUint64 buf m (\<lambda>parentID buf.
    read_then ReadUint16 buf m (\<lambda>count buf.
    let m = m\<lparr>MessageList_ChannelID := channelID,
        MessageList_SubchannelID := subchannelID,
        MessageList_ParentID := parentID\<rparr> in
    (case fill_loop Message_get 0 (unat count) (replicate (unat count) Message_zero) buf of
       (xs, Inl e) \<Rightarrow> (m\<lparr>MessageList_Messages := xs\<rparr>, Some e)
     | (xs, Inr buf) \<Rightarrow> (m\<lparr>MessageList_Messages := xs\<rparr>, None))))))"

definition MessageListMessage_sendable :: "MessageListMessage \<Rightarrow> bool" where
  "MessageListMessage_sendable m \<longleftrightarrow> length (MessageList_Messages m) < 2 ^ 16"

lemma MessageListMessage_roundtrip:
  "MessageListMessage_Encode m = Inr p \<Longrightarrow> MessageListMessage_sendable m \<Longrightarrow>
   MessageListMessage_Decode m0 p = (m\<lparr>MessageList_Messages := map Message_carried (MessageList_Messages m)\<rparr>, None)"
  by (cases m; cases m0) (auto simp: msg_def codec MessageListMessage_sendable_def split: if_splits)

interpretation MessageList: message_codec MessageListMessage_Encode MessageListMessage_Decode
  "(\<lambda>m0 m. m\<lparr>MessageList_Messages := map Message_carried (MessageList_Messages m)\<rparr>)" "MessageListMessage_sendable"
  by unfold_locales (rule MessageListMessage_roundtrip)

section \<open>PostMessage\<close>

text \<open>PostMessageMessage (0x0A) - Post a new message\<close>

record PostMessageMessage =
  PostMessage_ChannelID :: "u64"
  PostMessage_SubchannelID :: "u64 option"
  PostMessage_ParentID :: "u64 option"
  PostMessage_Content :: "gostring"

definition PostMessageMessage_zero :: PostMessageMessage where
  "PostMessageMessage_zero = \<lparr>PostMessage_ChannelID = 0,
    PostMessage_SubchannelID = None,
    PostMessage_ParentID = None,
    PostMessage_Content = []\<rparr>"

definition PostMessageMessage_EncodeTo :: "'w io_writer \<Rightarrow> PostMessageMessage \<Rightarrow> 'w wr" where
  [msg_def]: "PostMessageMessage_EncodeTo w m =
    (if length (PostMessage_Content m) = 0 then fails ErrEmptyContent
      else (if length (PostMessage_Content m) > 4096 then fails ErrMessageTooLong
      else steps
      [WriteUint64 w (PostMessage_ChannelID m),
       WriteOptionalUint64 w (PostMessage_SubchannelID m),
       WriteOptionalUint64 w (PostMessage_ParentID m),
       WriteString w (PostMessage_Content m)]))"

definition PostMessageMessage_Encode :: "PostMessageMessage \<Rightarrow> go_error + bytes" where
  [msg_def]: "PostMessageMessage_Encode m = to_bytes (PostMessageMessage_EncodeTo buffer m)"

definition PostMessageMessage_Decode :: "PostMessageMessage \<Rightarrow> bytes \<Rightarrow> PostMessageMessage \<times> go_error option" where
  [msg_def]: "PostMessageMessage_Decode m buf =
    read_then ReadUint64 buf m (\<lambda>channelID buf.
    read_then ReadOptionalUint64 buf m (\<lambda>subchannelID buf.
    read_then ReadOptionalUint64 buf m (\<lambda>parentID buf.
    read_then ReadString buf m (\<lambda>content buf.
    if length content = 0 then (m, Some ErrEmptyContent) else
    if length content > 4096 then (m, Some ErrMessageTooLong) else
    (m\<lparr>PostMessage_ChannelID := channelID,
        PostMessage_SubchannelID := subchannelID,
        PostMessage_ParentID := parentID,
        PostMessage_Content := content\<rparr>, None)))))"

lemma PostMessageMessage_roundtrip:
  "PostMessageMessage_Encode m = Inr p \<Longrightarrow> PostMessageMessage_Decode m0 p = (m, None)"
  by (cases m; cases m0) (auto simp: msg_def codec split: if_splits)

interpretation PostMessage: message_codec PostMessageMessage_Encode PostMessageMessage_Decode
  "\<lambda>m0 m. m" "\<lambda>m. True"
  by unfold_locales (rule PostMessageMessage_roundtrip)

section \<open>MessagePosted\<close>

text \<open>MessagePostedMessage (0x8A) - Confirmation of message post\<close>

record MessagePostedMessage =
  MessagePosted_Success :: "bool"
  MessagePosted_MessageID :: "u64"
  MessagePosted_Message :: "gostring"

definition MessagePostedMessage_zero :: MessagePostedMessage where
  "MessagePostedMessage_zero = \<lparr>MessagePosted_Success = False,
    MessagePosted_MessageID = 0,
    MessagePosted_Message = []\<rparr>"

definition MessagePostedMessage_EncodeTo :: "'w io_writer \<Rightarrow> MessagePostedMessage \<Rightarrow> 'w wr" where
  [msg_def]: "MessagePostedMessage_EncodeTo w m =
    steps
      [WriteBool w (MessagePosted_Success m),
       WriteUint64 w (MessagePosted_MessageID m),
       WriteString w (MessagePosted_Message m)]"

definition MessagePostedMessage_Encode :: "MessagePostedMessage \<Rightarrow> go_error + bytes" where
  [msg_def]: "MessagePostedMessage_Encode m = to_bytes (MessagePostedMessage_EncodeTo buffer m)"

definition MessagePostedMessage_Decode :: "MessagePostedMessage \<Rightarrow> bytes \<Rightarrow> MessagePostedMessage \<times> go_error option" where
  [msg_def]: "MessagePostedMessage_Decode m buf =
    read_then ReadBool buf m (\<lambda>success buf.
    read_then ReadUint64 buf m (\<lambda>messageID buf.
    read_then ReadString buf m (\<lambda>message buf.
    (m\<lparr>MessagePosted_Success := success,
        MessagePosted_MessageID := messageID,
        MessagePosted_Message := message\<rparr>, None))))"

lemma MessagePostedMessage_roundtrip:
  "MessagePostedMessage_Encode m = Inr p \<Longrightarrow> MessagePostedMessage_Decode m0 p = (m, None)"
  by (cases m; cases m0) (auto simp: msg_def codec split: if_splits)

interpretation MessagePosted: message_codec MessagePostedMessage_Encode MessagePostedMessage_Decode
  "\<lambda>m0 m. m" "\<lambda>m. True"
  by unfold_locales (rule MessagePostedMessage_roundtrip)

section \<open>EditMessage\<close>

text \<open>EditMessageMessage (0x0B) - Edit an existing message\<close>

record EditMessageMessage =
  EditMessage_MessageID :: "u64"
  EditMessage_NewContent :: "gostring"

definition EditMessageMessage_zero :: EditMessageMessage where
  "EditMessageMessage_zero = \<lparr>EditMessage_MessageID = 0,
    EditMessage_NewContent = []\<rparr>"

definition EditMessageMessage_EncodeTo :: "'w io_writer \<Rightarrow> EditMessageMessage \<Rightarrow> 'w wr" where
  [msg_def]: "EditMessageMessage_EncodeTo w m =
    (if length (EditMessage_NewContent m) = 0 then fails ErrEmptyContent
      else (if length (EditMessage_NewContent m) > 4096 then fails ErrMessageTooLong
      else steps
      [WriteUint64 w (EditMessage_MessageID m),
       WriteString w (EditMessage_NewContent m)]))"

definition EditMessageMessage_Encode :: "EditMessageMessage \<Rightarrow> go_error + bytes" where
  [msg_def]: "EditMessageMessage_Encode m = to_bytes (EditMessageMessage_EncodeTo buffer m)"

definition EditMessageMessage_Decode :: "EditMessageMessage \<Rightarrow> bytes \<Rightarrow> EditMessageMessage \<times> go_error option" where
  [msg_def]: "EditMessageMessage_Decode m buf =
    read_then ReadUint64 buf m (\<lambda>messageID buf.
    read_then ReadString buf m (\<lambda>content buf.
    if length content = 0 then (m, Some ErrEmptyContent) else
    if length content > 4096 then (m, Some ErrMessageTooLong) else
    (m\<lparr>EditMessage_MessageID := messageID,
        EditMessage_NewContent := content\<rparr>, None)))"

lemma EditMessageMessage_roundtrip:
  "EditMessageMessage_Encode m = Inr p \<Longrightarrow> EditMessageMessage_Decode m0 p = (m, None)"
  by (cases m; cases m0) (auto simp: msg_def codec split: if_splits)

interpretation EditMessage: message_codec EditMessageMessage_Encode EditMessageMessage_Decode
  "\<lambda>m0 m. m" "\<lambda>m. True"
  by unfold_locales (rule EditMessageMessage_roundtrip)

section \<open>MessageEdited\<close>

text \<open>MessageEditedMessage (0x8B) - Edit confirmation + real-time broadcast\<close>

record MessageEditedMessage =
  MessageEdited_Success :: "bool"
  MessageEdited_MessageID :: "u64"
  MessageEdited_EditedAt :: "gotime"
  MessageEdited_NewContent :: "gostring"
  MessageEdited_Message :: "gostring"

definition MessageEditedMessage_zero :: MessageEditedMessage where
  "MessageEditedMessage_zero = \<lparr>MessageEdited_Success = False,
    MessageEdited_MessageID = 0,
    MessageEdited_EditedAt = zero_time,
    MessageEdited_NewContent = [],
    MessageEdited_Message = []\<rparr>"

definition MessageEditedMessage_EncodeTo :: "'w io_writer \<Rightarrow> MessageEditedMessage \<Rightarrow> 'w wr" where
  [msg_def]: "MessageEditedMessage_EncodeTo w m =
    steps
      [WriteBool w (MessageEdited_Success m),
       WriteUint64 w (MessageEdited_MessageID m),
       if (MessageEdited_Success m) then steps
        [WriteTimestamp w (MessageEdited_EditedAt m),
         WriteString w (MessageEdited_NewContent m)]
       else no_error,
       WriteString w (MessageEdited_Message m)]"

definition MessageEditedMessage_Encode :: "MessageEditedMessage \<Rightarrow> go_error + bytes" where
  [msg_def]: "MessageEditedMessage_Encode m = to_bytes (MessageEditedMessage_EncodeTo buffer m)"

definition MessageEditedMessage_Decode :: "MessageEditedMessage \<Rightarrow> bytes \<Rightarrow> MessageEditedMessage \<times> go_error option" where
  [msg_def]: "MessageEditedMessage_Decode m buf =
    read_then ReadBool buf m (\<lambda>success buf.
    read_then ReadUint64 buf m (\<lambda>messageID buf.
    let m = m\<lparr>MessageEdited_Success := success,
        MessageEdited_MessageID := messageID\<rparr> in
    let after = (\<lambda>m buf.
      read_then ReadString buf m (\<lambda>message buf.
      (m\<lparr>MessageEdited_Message := message\<rparr>, None))) in
    if success then
      read_then ReadTimestamp buf m (\<lambda>editedAt buf.
      read_then ReadString buf m (\<lambda>newContent buf.
      after (m\<lparr>MessageEdited_EditedAt := editedAt,
          MessageEdited_NewContent := newContent\<rparr>) buf))
    else after m buf))"

definition MessageEditedMessage_received :: "MessageEditedMessage \<Rightarrow> MessageEditedMessage \<Rightarrow> MessageEditedMessage" where
  "MessageEditedMessage_received m0 m =
    (if MessageEdited_Success m then m\<lparr>MessageEdited_EditedAt := trunc_millis (MessageEdited_EditedAt m)\<rparr>
     else m\<lparr>MessageEdited_EditedAt := MessageEdited_EditedAt m0, MessageEdited_NewContent := MessageEdited_NewContent m0\<rparr>)"

lemma MessageEditedMessage_roundtrip:
  "MessageEditedMessage_Encode m = Inr p \<Longrightarrow> MessageEditedMessage_Decode m0 p = (MessageEditedMessage_received m0 m, None)"
  by (cases m; cases m0) (auto simp: msg_def codec MessageEditedMessage_received_def split: if_splits)

interpretation MessageEdited: message_codec MessageEditedMessage_Encode MessageEditedMessage_Decode
  "MessageEditedMessage_received" "\<lambda>m. True"
  by unfold_locales (rule MessageEditedMessage_roundtrip)

section \<open>DeleteMessage\<close>

text \<open>DeleteMessageMessage (0x0C) - Delete a message\<close>

record DeleteMessageMessage =
  DeleteMessage_MessageID :: "u64"

definition DeleteMessageMessage_zero :: DeleteMessageMessage where
  "DeleteMessageMessage_zero = \<lparr>DeleteMessage_MessageID = 0\<rparr>"

definition DeleteMessageMessage_EncodeTo :: "'w io_writer \<Rightarrow> DeleteMessageMessage \<Rightarrow> 'w wr" where
  [msg_def]: "DeleteMessageMessage_EncodeTo w m =
    WriteUint64 w (DeleteMessage_MessageID m)"

definition DeleteMessageMessage_Encode :: "DeleteMessageMessage \<Rightarrow> go_error + bytes" where
  [msg_def]: "DeleteMessageMessage_Encode m = to_bytes (DeleteMessageMessage_EncodeTo buffer m)"

definition DeleteMessageMessage_Decode :: "DeleteMessageMessage \<Rightarrow> bytes \<Rightarrow> DeleteMessageMessage \<times> go_error option" where
  [msg_def]: "DeleteMessageMessage_Decode m buf =
    read_then ReadUint64 buf m (\<lambda>messageID buf.
    (m\<lparr>DeleteMessage_MessageID := messageID\<rparr>, None))"

lemma DeleteMessageMessage_roundtrip:
  "DeleteMessageMessage_Encode m = Inr p \<Longrightarrow> DeleteMessageMessage_Decode m0 p = (m, None)"
  by (cases m; cases m0) (auto simp: msg_def codec split: if_splits)

interpretation DeleteMessage: message_codec DeleteMessageMessage_Encode DeleteMessageMessage_Decode
  "\<lambda>m0 m. m" "\<lambda>m. True"
  by unfold_locales (rule DeleteMessageMessage_roundtrip)

section \<open>MessageDeleted\<close>

text \<open>MessageDeletedMessage (0x8C) - Confirmation of deletion + broadcast\<close>

record MessageDeletedMessage =
  MessageDeleted_Success :: "bool"
  MessageDeleted_MessageID :: "u64"
  MessageDeleted_DeletedAt :: "gotime"
  MessageDeleted_Message :: "gostring"

definition MessageDeletedMessage_zero :: MessageDeletedMessage where
  "MessageDeletedMessage_zero = \<lparr>MessageDeleted_Success = False,
    MessageDeleted_MessageID = 0,
    MessageDeleted_DeletedAt = zero_time,
    MessageDeleted_Message = []\<rparr>"

definition MessageDeletedMessage_EncodeTo :: "'w io_writer \<Rightarrow> MessageDeletedMessage \<Rightarrow> 'w wr" where
  [msg_def]: "MessageDeletedMessage_EncodeTo w m =
    steps
      [WriteBool w (MessageDeleted_Success m),
       WriteUint64 w (MessageDeleted_MessageID m),
       if (MessageDeleted_Success m) then steps
        [WriteTimestamp w (MessageDeleted_DeletedAt m)]
       else no_error,
       WriteString w (MessageDeleted_Message m)]"

definition MessageDeletedMessage_Encode :: "MessageDeletedMessage \<Rightarrow> go_error + bytes" where
  [msg_def]: "MessageDeletedMessage_Encode m = to_bytes (MessageDeletedMessage_EncodeTo buffer m)"

definition MessageDeletedMessage_Decode :: "MessageDeletedMessage \<Rightarrow> bytes \<Rightarrow> MessageDeletedMessage \<times> go_error option" where
  [msg_def]: "MessageDeletedMessage_Decode m buf =
    read_then ReadBool buf m (\<lambda>success buf.
    read_then ReadUint64 buf m (\<lambda>messageID buf.
    let m = m\<lparr>MessageDeleted_Success := success,
        MessageDeleted_MessageID := messageID\<rparr> in
    let after = (\<lambda>m buf.
      read_then ReadString buf m (\<lambda>message buf.
      (m\<lparr>MessageDeleted_Message := message\<rparr>, None))) in
    if success then
      read_then ReadTimestamp buf m (\<lambda>deletedAt buf.
      after (m\<lparr>MessageDeleted_DeletedAt := deletedAt\<rparr>) buf)
    else after m buf))"

definition MessageDeletedMessage_received :: "MessageDeletedMessage \<Rightarrow> MessageDeletedMessage \<Rightarrow> MessageDeletedMessage" where
  "MessageDeletedMessage_received m0 m =
    (if MessageDeleted_Success m then m\<lparr>MessageDeleted_DeletedAt := trunc_millis (MessageDeleted_DeletedAt m)\<rparr>
     else m\<lparr>MessageDeleted_DeletedAt := MessageDeleted_DeletedAt m0\<rparr>)"

lemma MessageDeletedMessage_roundtrip:
  "MessageDeletedMessage_Encode m = Inr p \<Longrightarrow> MessageDeletedMessage_Decode m0 p = (MessageDeletedMessage_received m0 m, None)"
  by (cases m; cases m0) (auto simp: msg_def codec MessageDeletedMessage_received_def split: if_splits)

interpretation MessageDeleted: message_codec MessageDeletedMessage_Encode MessageDeletedMessage_Decode
  "MessageDeletedMessage_received" "\<lambda>m. True"
  by unfold_locales (rule MessageDeletedMessage_roundtrip)

section \<open>NewMessage\<close>

text \<open>NewMessageMessage (0x8D) - Real-time new message broadcast\<close>

type_synonym NewMessageMessage = Message

definition NewMessageMessage_zero :: NewMessageMessage where
  "NewMessageMessage_zero = Message_zero"

definition NewMessageMessage_EncodeTo :: "'w io_writer \<Rightarrow> NewMessageMessage \<Rightarrow> 'w wr" where
  [msg_def]: "NewMessageMessage_EncodeTo w m =
    steps
      [WriteUint64 w (Message_ID m),
       WriteUint64 w (Message_ChannelID m),
       WriteOptionalUint64 w (Message_SubchannelID m),
       WriteOptionalUint64 w (Message_ParentID m),
       WriteOptionalUint64 w (Message_AuthorUserID m),
       WriteString w (Message_AuthorNickname m),
       WriteString w (Message_Content m),
       WriteTimestamp w (Message_CreatedAt m),
       WriteOptionalTimestamp w (Message_EditedAt m),
       WriteUint32 w (Message_ReplyCount m)]"

definition NewMessageMessage_Encode :: "NewMessageMessage \<Rightarrow> go_error + bytes" where
  [msg_def]: "NewMessageMessage_Encode m = to_bytes (NewMessageMessage_EncodeTo buffer m)"

definition NewMessageMessage_Decode :: "NewMessageMessage \<Rightarrow> bytes \<Rightarrow> NewMessageMessage \<times> go_error option" where
  [msg_def]: "NewMessageMessage_Decode m buf =
    read_then ReadUint64 buf m (\<lambda>id buf.
    read_then ReadUint64 buf m (\<lambda>channelID buf.
    read_then ReadOptionalUint64 buf m (\<lambda>subchannelID buf.
    read_then ReadOptionalUint64 buf m (\<lambda>parentID buf.
    read_then ReadOptionalUint64 buf m (\<lambda>authorUserID buf.
    read_then ReadString buf m (\<lambda>authorNickname buf.
    read_then ReadString buf m (\<lambda>content buf.
    read_then ReadTimestamp buf m (\<lambda>createdAt buf.
    read_then ReadOptionalTimestamp buf m (\<lambda>editedAt buf.
    read_then ReadUint32 buf m (\<lambda>replyCount buf.
    (m\<lparr>Message_ID := id,
        Message_ChannelID := channelID,
        Message_SubchannelID := subchannelID,
        Message_ParentID := parentID,
        Message_AuthorUserID := authorUserID,
        Message_AuthorNickname := authorNickname,
        Message_Content := content,
        Message_CreatedAt := createdAt,
        Message_EditedAt := editedAt,
        Message_ReplyCount := replyCount\<rparr>, None)))))))))))"

lemma NewMessageMessage_roundtrip:
  "NewMessageMessage_Encode m = Inr p \<Longrightarrow> NewMessageMessage_Decode m0 p = (Message_carried m, None)"
  by (cases m; cases m0) (auto simp: msg_def codec Message_carried_def split: if_splits)

interpretation NewMessage: message_codec NewMessageMessage_Encode NewMessageMessage_Decode
  "(\<lambda>m0. Message_carried)" "\<lambda>m. True"
  by unfold_locales (rule NewMessageMessage_roundtrip)

end
