(* ===== verification/MsgSession.thy ===== *)
theory MsgSession imports Frame UserFlags begin

text \<open>
  "pkg/protocol/messages.go": the messages of the session: keep-alive, errors, the server configuration, disconnecting and subscriptions.
  Each has its struct, its zero value (what "&T{}" makes), EncodeTo over any writer,
  Encode, and Decode into a receiver, as the source writes them; then the round trip and
  the interpretation of message_codec.
\<close>

section \<open>Ping\<close>

text \<open>PingMessage (0x10) - Keepalive ping\<close>

record PingMessage =
  Ping_Timestamp :: "i64"

definition PingMessage_zero :: PingMessage where
  "PingMessage_zero = \<lparr>Ping_Timestamp = 0\<rparr>"

definition PingMessage_EncodeTo :: "'w io_writer \<Rightarrow> PingMessage \<Rightarrow> 'w wr" where
  [msg_def]: "PingMessage_EncodeTo w m =
    WriteInt64 w (Ping_Timestamp m)"

definition PingMessage_Encode :: "PingMessage \<Rightarrow> go_error + bytes" where
  [msg_def]: "PingMessage_Encode m = to_bytes (PingMessage_EncodeTo buffer m)"

definition PingMessage_Decode :: "PingMessage \<Rightarrow> bytes \<Rightarrow> PingMessage \<times> go_error option" where
  [msg_def]: "PingMessage_Decode m buf =
    read_then ReadInt64 buf m (\<lambda>timestamp buf.
    (m\<lparr>Ping_Timestamp := timestamp\<rparr>, None))"

lemma PingMessage_roundtrip:
  "PingMessage_Encode m = Inr p \<Longrightarrow> PingMessage_Decode m0 p = (m, None)"
  by (cases m; cases m0) (auto simp: msg_def codec split: if_splits)

interpretation Ping: message_codec PingMessage_Encode PingMessage_Decode
  "\<lambda>m0 m. m" "\<lambda>m. True"
  by unfold_locales (rule PingMessage_roundtrip)

section \<open>Pong\<close>

text \<open>PongMessage (0x90) - Ping response\<close>

record PongMessage =
  Pong_ClientTimestamp :: "i64"

definition PongMessage_zero :: PongMessage where
  "PongMessage_zero = \<lparr>Pong_ClientTimestamp = 0\<rparr>"

definition PongMessage_EncodeTo :: "'w io_writer \<Rightarrow> PongMessage \<Rightarrow> 'w wr" where
  [msg_def]: "PongMessage_EncodeTo w m =
    WriteInt64 w (Pong_ClientTimestamp m)"

definition PongMessage_Encode :: "PongMessage \<Rightarrow> go_error + bytes" where
  [msg_def]: "PongMessage_Encode m = to_bytes (PongMessage_EncodeTo buffer m)"

definition PongMessage_Decode :: "PongMessage \<Rightarrow> bytes \<Rightarrow> PongMessage \<times> go_error option" where
  [msg_def]: "PongMessage_Decode m buf =
    read_then ReadInt64 buf m (\<lambda>timestamp buf.
    (m\<lparr>Pong_ClientTimestamp := timestamp\<rparr>, None))"

lemma PongMessage_roundtrip:
  "PongMessage_Encode m = Inr p \<Longrightarrow> PongMessage_Decode m0 p = (m, None)"
  by (cases m; cases m0) (auto simp: msg_def codec split: if_splits)

interpretation Pong: message_codec PongMessage_Encode PongMessage_Decode
  "\<lambda>m0 m. m" "\<lambda>m. True"
  by unfold_locales (rule PongMessage_roundtrip)

section \<open>Error\<close>

text \<open>ErrorMessage (0x91) - Generic error response\<close>

record ErrorMessage =
  Error_ErrorCode :: "u16"
  Error_Message :: "gostring"

definition ErrorMessage_zero :: ErrorMessage where
  "ErrorMessage_zero = \<lparr>Error_ErrorCode = 0,
    Error_Message = []\<rparr>"

definition ErrorMessage_EncodeTo :: "'w io_writer \<Rightarrow> ErrorMessage \<Rightarrow> 'w wr" where
  [msg_def]: "ErrorMessage_EncodeTo w m =
    steps
      [WriteUint16 w (Error_ErrorCode m),
       WriteString w (Error_Message m)]"

definition ErrorMessage_Encode :: "ErrorMessage \<Rightarrow> go_error + bytes" where
  [msg_def]: "ErrorMessage_Encode m = to_bytes (ErrorMessage_EncodeTo buffer m)"

definition ErrorMessage_Decode :: "ErrorMessage \<Rightarrow> bytes \<Rightarrow> ErrorMessage \<times> go_error option" where
  [msg_def]: "ErrorMessage_Decode m buf =
    read_then ReadUint16 buf m (\<lambda>errorCode buf.
    read_then ReadString buf m (\<lambda>message buf.
    (m\<lparr>Error_ErrorCode := errorCode,
        Error_Message := message\<rparr>, None)))"

lemma ErrorMessage_roundtrip:
  "ErrorMessage_Encode m = Inr p \<Longrightarrow> ErrorMessage_Decode m0 p = (m, None)"
  by (cases m; cases m0) (auto simp: msg_def codec split: if_splits)

interpretation Error: message_codec ErrorMessage_Encode ErrorMessage_Decode
  "\<lambda>m0 m. m" "\<lambda>m. True"
  by unfold_locales (rule ErrorMessage_roundtrip)

section \<open>ServerConfig\<close>

text \<open>ServerConfigMessage (0x98) - Server configuration and limits\<close>

record ServerConfigMessage =
  ServerConfig_ProtocolVersion :: "u8"
  ServerConfig_MaxMessageRate :: "u16"
  ServerConfig_MaxChannelCreates :: "u16"
  ServerConfig_InactiveCleanupDays :: "u16"
  ServerConfig_MaxConnectionsPerIP :: "u8"
  ServerConfig_MaxMessageLength :: "u32"
  ServerConfig_MaxThreadSubscriptions :: "u16"
  ServerConfig_MaxChannelSubscriptions :: "u16"
  ServerConfig_DirectoryEnabled :: "bool"

definition ServerConfigMessage_zero :: ServerConfigMessage where
  "ServerConfigMessage_zero = \<lparr>ServerConfig_ProtocolVersion = 0,
    ServerConfig_MaxMessageRate = 0,
    ServerConfig_MaxChannelCreates = 0,
    ServerConfig_InactiveCleanupDays = 0,
    ServerConfig_MaxConnectionsPerIP = 0,
    ServerConfig_MaxMessageLength = 0,
    ServerConfig_MaxThreadSubscriptions = 0,
    ServerConfig_MaxChannelSubscriptions = 0,
    ServerConfig_DirectoryEnabled = False\<rparr>"

definition ServerConfigMessage_EncodeTo :: "'w io_writer \<Rightarrow> ServerConfigMessage \<Rightarrow> 'w wr" where
  [msg_def]: "ServerConfigMessage_EncodeTo w m =
    steps
      [WriteUint8 w (ServerConfig_ProtocolVersion m),
       WriteUint16 w (ServerConfig_MaxMessageRate m),
       WriteUint16 w (ServerConfig_MaxChannelCreates m),
       WriteUint16 w (ServerConfig_InactiveCleanupDays m),
       WriteUint8 w (ServerConfig_MaxConnectionsPerIP m),
       WriteUint32 w (ServerConfig_MaxMessageLength m),
       WriteUint16 w (ServerConfig_MaxThreadSubscriptions m),
       WriteUint16 w (ServerConfig_MaxChannelSubscriptions m),
       WriteBool w (ServerConfig_DirectoryEnabled m)]"

definition ServerConfigMessage_Encode :: "ServerConfigMessage \<Rightarrow> go_error + bytes" where
  [msg_def]: "ServerConfigMessage_Encode m = to_bytes (ServerConfigMessage_EncodeTo buffer m)"

definition ServerConfigMessage_Decode :: "ServerConfigMessage \<Rightarrow> bytes \<Rightarrow> ServerConfigMessage \<times> go_error option" where
  [msg_def]: "ServerConfigMessage_Decode m buf =
    read_then ReadUint8 buf m (\<lambda>protocolVersion buf.
    read_then ReadUint16 buf m (\<lambda>maxMessageRate buf.
    read_then ReadUint16 buf m (\<lambda>maxChannelCreates buf.
    read_then ReadUint16 buf m (\<lambda>inactiveCleanup buf.
    read_then ReadUint8 buf m (\<lambda>maxConnsPerIP buf.
    read_then ReadUint32 buf m (\<lambda>maxMsgLen buf.
    read_then ReadUint16 buf m (\<lambda>maxThreadSubs buf.
    read_then ReadUint16 buf m (\<lambda>maxChannelSubs buf.
    let m = m\<lparr>ServerConfig_ProtocolVersion := protocolVersion,
        ServerConfig_MaxMessageRate := maxMessageRate,
        ServerConfig_MaxChannelCreates := maxChannelCreates,
        ServerConfig_InactiveCleanupDays := inactiveCleanup,
        ServerConfig_MaxConnectionsPerIP := maxConnsPerIP,
        ServerConfig_MaxMessageLength := maxMsgLen,
        ServerConfig_MaxThreadSubscriptions := maxThreadSubs,
        ServerConfig_MaxChannelSubscriptions := maxChannelSubs\<rparr> in
    read_then ReadBool buf m (\<lambda>directoryEnabled buf.
    (m\<lparr>ServerConfig_DirectoryEnabled := directoryEnabled\<rparr>, None))))))))))"

lemma ServerConfigMessage_roundtrip:
  "ServerConfigMessage_Encode m = Inr p \<Longrightarrow> ServerConfigMessage_Decode m0 p = (m, None)"
  by (cases m; cases m0) (auto simp: msg_def codec split: if_splits)

interpretation ServerConfig: message_codec ServerConfigMessage_Encode ServerConfigMessage_Decode
  "\<lambda>m0 m. m" "\<lambda>m. True"
  by unfold_locales (rule ServerConfigMessage_roundtrip)

section \<open>Disconnect\<close>

text \<open>DisconnectMessage (0x11) - Graceful disconnect notification Can be sent by either client or server to signal intentional disconnect\<close>

record DisconnectMessage =
  Disconnect_Reason :: "gostring option"

definition DisconnectMessage_zero :: DisconnectMessage where
  "DisconnectMessage_zero = \<lparr>Disconnect_Reason = None\<rparr>"

definition DisconnectMessage_EncodeTo :: "'w io_writer \<Rightarrow> DisconnectMessage \<Rightarrow> 'w wr" where
  [msg_def]: "DisconnectMessage_EncodeTo w m =
    WriteOptionalString w (Disconnect_Reason m)"

definition DisconnectMessage_Encode :: "DisconnectMessage \<Rightarrow> go_error + bytes" where
  [msg_def]: "DisconnectMessage_Encode m = to_bytes (DisconnectMessage_EncodeTo buffer m)"

definition DisconnectMessage_Decode :: "DisconnectMessage \<Rightarrow> bytes \<Rightarrow> DisconnectMessage \<times> go_error option" where
  [msg_def]: "DisconnectMessage_Decode m buf =
    read_then ReadOptionalString buf m (\<lambda>reason buf.
    (m\<lparr>Disconnect_Reason := reason\<rparr>, None))"

lemma DisconnectMessage_roundtrip:
  "DisconnectMessage_Encode m = Inr p \<Longrightarrow> DisconnectMessage_Decode m0 p = (m, None)"
  by (cases m; cases m0) (auto simp: msg_def codec split: if_splits)

interpretation Disconnect: message_codec DisconnectMessage_Encode DisconnectMessage_Decode
  "\<lambda>m0 m. m" "\<lambda>m. True"
  by unfold_locales (rule DisconnectMessage_roundtrip)

section \<open>SubscribeThread\<close>

text \<open>SubscribeThreadMessage (0x51) - Subscribe to a thread\<close>

record SubscribeThreadMessage =
  SubscribeThread_ThreadID :: "u64"

definition SubscribeThreadMessage_zero :: SubscribeThreadMessage where
  "SubscribeThreadMessage_zero = \<lparr>SubscribeThread_ThreadID = 0\<rparr>"

definition SubscribeThreadMessage_EncodeTo :: "'w io_writer \<Rightarrow> SubscribeThreadMessage \<Rightarrow> 'w wr" where
  [msg_def]: "SubscribeThreadMessage_EncodeTo w m =
    WriteUint64 w (SubscribeThread_ThreadID m)"

definition SubscribeThreadMessage_Encode :: "SubscribeThreadMessage \<Rightarrow> go_error + bytes" where
  [msg_def]: "SubscribeThreadMessage_Encode m = to_bytes (SubscribeThreadMessage_EncodeTo buffer m)"

definition SubscribeThreadMessage_Decode :: "SubscribeThreadMessage \<Rightarrow> bytes \<Rightarrow> SubscribeThreadMessage \<times> go_error option" where
  [msg_def]: "SubscribeThreadMessage_Decode m buf =
    read_then ReadUint64 buf m (\<lambda>threadID buf.
    (m\<lparr>SubscribeThread_ThreadID := threadID\<rparr>, None))"

lemma SubscribeThreadMessage_roundtrip:
  "SubscribeThreadMessage_Encode m = Inr p \<Longrightarrow> SubscribeThreadMessage_Decode m0 p = (m, None)"
  by (cases m; cases m0) (auto simp: msg_def codec split: if_splits)

interpretation SubscribeThread: message_codec SubscribeThreadMessage_Encode SubscribeThreadMessage_Decode
  "\<lambda>m0 m. m" "\<lambda>m. True"
  by unfold_locales (rule SubscribeThreadMessage_roundtrip)

section \<open>UnsubscribeThread\<close>

text \<open>UnsubscribeThreadMessage (0x52) - Unsubscribe from a thread\<close>

record UnsubscribeThreadMessage =
  UnsubscribeThread_ThreadID :: "u64"

definition UnsubscribeThreadMessage_zero :: UnsubscribeThreadMessage where
  "UnsubscribeThreadMessage_zero = \<lparr>UnsubscribeThread_ThreadID = 0\<rparr>"

definition UnsubscribeThreadMessage_EncodeTo :: "'w io_writer \<Rightarrow> UnsubscribeThreadMessage \<Rightarrow> 'w wr" where
  [msg_def]: "UnsubscribeThreadMessage_EncodeTo w m =
    WriteUint64 w (UnsubscribeThread_ThreadID m)"

definition UnsubscribeThreadMessage_Encode :: "UnsubscribeThreadMessage \<Rightarrow> go_error + bytes" where
  [msg_def]: "UnsubscribeThreadMessage_Encode m = to_bytes (UnsubscribeThreadMessage_EncodeTo buffer m)"

definition UnsubscribeThreadMessage_Decode :: "UnsubscribeThreadMessage \<Rightarrow> bytes \<Rightarrow> UnsubscribeThreadMessage \<times> go_error option" where
  [msg_def]: "UnsubscribeThreadMessage_Decode m buf =
    read_then ReadUint64 buf m (\<lambda>threadID buf.
    (m\<lparr>UnsubscribeThread_ThreadID := threadID\<rparr>, None))"

lemma UnsubscribeThreadMessage_roundtrip:
  "UnsubscribeThreadMessage_Encode m = Inr p \<Longrightarrow> UnsubscribeThreadMessage_Decode m0 p = (m, None)"
  by (cases m; cases m0) (auto simp: msg_def codec split: if_splits)

interpretation UnsubscribeThread: message_codec UnsubscribeThreadMessage_Encode UnsubscribeThreadMessage_Decode
  "\<lambda>m0 m. m" "\<lambda>m. True"
  by unfold_locales (rule UnsubscribeThreadMessage_roundtrip)

section \<open>SubscribeChannel\<close>

text \<open>SubscribeChannelMessage (0x53) - Subscribe to a channel/subchannel\<close>

record SubscribeChannelMessage =
  SubscribeChannel_ChannelID :: "u64"
  SubscribeChannel_SubchannelID :: "u64 option"

definition SubscribeChannelMessage_zero :: SubscribeChannelMessage where
  "SubscribeChannelMessage_zero = \<lparr>SubscribeChannel_ChannelID = 0,
    SubscribeChannel_SubchannelID = None\<rparr>"

definition SubscribeChannelMessage_EncodeTo :: "'w io_writer \<Rightarrow> SubscribeChannelMessage \<Rightarrow> 'w wr" where
  [msg_def]: "SubscribeChannelMessage_EncodeTo w m =
    steps
      [WriteUint64 w (SubscribeChannel_ChannelID m),
       WriteOptionalUint64 w (SubscribeChannel_SubchannelID m)]"

definition SubscribeChannelMessage_Encode :: "SubscribeChannelMessage \<Rightarrow> go_error + bytes" where
  [msg_def]: "SubscribeChannelMessage_Encode m = to_bytes (SubscribeChannelMessage_EncodeTo buffer m)"

definition SubscribeChannelMessage_Decode :: "SubscribeChannelMessage \<Rightarrow> bytes \<Rightarrow> SubscribeChannelMessage \<times> go_error option" where
  [msg_def]: "SubscribeChannelMessage_Decode m buf =
    read_then ReadUint64 buf m (\<lambda>channelID buf.
    read_then ReadOptionalUint64 buf m (\<lambda>subchannelID buf.
    (m\<lparr>SubscribeChannel_ChannelID := channelID,
        SubscribeChannel_SubchannelID := subchannelID\<rparr>, None)))"

lemma SubscribeChannelMessage_roundtrip:
  "SubscribeChannelMessage_Encode m = Inr p \<Longrightarrow> SubscribeChannelMessage_Decode m0 p = (m, None)"
  by (cases m; cases m0) (auto simp: msg_def codec split: if_splits)

interpretation SubscribeChannel: message_codec SubscribeChannelMessage_Encode SubscribeChannelMessage_Decode
  "\<lambda>m0 m. m" "\<lambda>m. True"
  by unfold_locales (rule SubscribeChannelMessage_roundtrip)

section \<open>UnsubscribeChannel\<close>

text \<open>UnsubscribeChannelMessage (0x54) - Unsubscribe from a channel/subchannel\<close>

record UnsubscribeChannelMessage =
  UnsubscribeChannel_ChannelID :: "u64"
  UnsubscribeChannel_SubchannelID :: "u64 option"

definition UnsubscribeChannelMessage_zero :: UnsubscribeChannelMessage where
  "UnsubscribeChannelMessage_zero = \<lparr>UnsubscribeChannel_ChannelID = 0,
    UnsubscribeChannel_SubchannelID = None\<rparr>"

definition UnsubscribeChannelMessage_EncodeTo :: "'w io_writer \<Rightarrow> UnsubscribeChannelMessage \<Rightarrow> 'w wr" where
  [msg_def]: "UnsubscribeChannelMessage_EncodeTo w m =
    steps
      [WriteUint64 w (UnsubscribeChannel_ChannelID m),
       WriteOptionalUint64 w (UnsubscribeChannel_SubchannelID m)]"

definition UnsubscribeChannelMessage_Encode :: "UnsubscribeChannelMessage \<Rightarrow> go_error + bytes" where
  [msg_def]: "UnsubscribeChannelMessage_Encode m = to_bytes (UnsubscribeChannelMessage_EncodeTo buffer m)"

definition UnsubscribeChannelMessage_Decode :: "UnsubscribeChannelMessage \<Rightarrow> bytes \<Rightarrow> UnsubscribeChannelMessage \<times> go_error option" where
  [msg_def]: "UnsubscribeChannelMessage_Decode m buf =
    read_then ReadUint64 buf m (\<lambda>channelID buf.
    read_then ReadOptionalUint64 buf m (\<lambda>subchannelID buf.
    (m\<lparr>UnsubscribeChannel_ChannelID := channelID,
        UnsubscribeChannel_SubchannelID := subchannelID\<rparr>, None)))"

lemma UnsubscribeChannelMessage_roundtrip:
  "UnsubscribeChannelMessage_Encode m = Inr p \<Longrightarrow> UnsubscribeChannelMessage_Decode m0 p = (m, None)"
  by (cases m; cases m0) (auto simp: msg_def codec split: if_splits)

interpretation UnsubscribeChannel: message_codec UnsubscribeChannelMessage_Encode UnsubscribeChannelMessage_Decode
  "\<lambda>m0 m. m" "\<lambda>m. True"
  by unfold_locales (rule UnsubscribeChannelMessage_roundtrip)

section \<open>SubscribeOk\<close>

text \<open>SubscribeOkMessage (0x99) - Subscription confirmed\<close>

record SubscribeOkMessage =
  SubscribeOk_Type :: "u8"
  SubscribeOk_ID :: "u64"
  SubscribeOk_SubchannelID :: "u64 option"

definition SubscribeOkMessage_zero :: SubscribeOkMessage where
  "SubscribeOkMessage_zero = \<lparr>SubscribeOk_Type = 0,
    SubscribeOk_ID = 0,
    SubscribeOk_SubchannelID = None\<rparr>"

definition SubscribeOkMessage_EncodeTo :: "'w io_writer \<Rightarrow> SubscribeOkMessage \<Rightarrow> 'w wr" where
  [msg_def]: "SubscribeOkMessage_EncodeTo w m =
    steps
      [WriteUint8 w (SubscribeOk_Type m),
       WriteUint64 w (SubscribeOk_ID m),
       WriteOptionalUint64 w (SubscribeOk_SubchannelID m)]"

definition SubscribeOkMessage_Encode :: "SubscribeOkMessage \<Rightarrow> go_error + bytes" where
  [msg_def]: "SubscribeOkMessage_Encode m = to_bytes (SubscribeOkMessage_EncodeTo buffer m)"

definition SubscribeOkMessage_Decode :: "SubscribeOkMessage \<Rightarrow> bytes \<Rightarrow> SubscribeOkMessage \<times> go_error option" where
  [msg_def]: "SubscribeOkMessage_Decode m buf =
    read_then ReadUint8 buf m (\<lambda>subType buf.
    read_then ReadUint64 buf m (\<lambda>id buf.
    read_then ReadOptionalUint64 buf m (\<lambda>subchannelID buf.
    (m\<lparr>SubscribeOk_Type := subType,
        SubscribeOk_ID := id,
        SubscribeOk_SubchannelID := subchannelID\<rparr>, None))))"

lemma SubscribeOkMessage_roundtrip:
  "SubscribeOkMessage_Encode m = Inr p \<Longrightarrow> SubscribeOkMessage_Decode m0 p = (m, None)"
  by (cases m; cases m0) (auto simp: msg_def codec split: if_splits)

interpretation SubscribeOk: message_codec SubscribeOkMessage_Encode SubscribeOkMessage_Decode
  "\<lambda>m0 m. m" "\<lambda>m. True"
  by unfold_locales (rule SubscribeOkMessage_roundtrip)

end
