(* ===== verification/MsgUsers.thy ===== *)
theory MsgUsers imports Frame UserFlags begin

text \<open>
  "pkg/protocol/messages.go": the messages of users: user information, user lists and presence.
  Each has its struct, its zero value (what "&T{}" makes), EncodeTo over any writer,
  Encode, and Decode into a receiver, as the source writes them; then the round trip and
  the interpretation of message_codec.
\<close>

section \<open>GetUserInfo\<close>

text \<open>GetUserInfoMessage (0x0F) - Request user information by nickname\<close>

record GetUserInfoMessage =
  GetUserInfo_Nickname :: "gostring"

definition GetUserInfoMessage_zero :: GetUserInfoMessage where
  "GetUserInfoMessage_zero = \<lparr>GetUserInfo_Nickname = []\<rparr>"

definition GetUserInfoMessage_EncodeTo :: "'w io_writer \<Rightarrow> GetUserInfoMessage \<Rightarrow> 'w wr" where
  [msg_def]: "GetUserInfoMessage_EncodeTo w m =
    WriteString w (GetUserInfo_Nickname m)"

definition GetUserInfoMessage_Encode :: "GetUserInfoMessage \<Rightarrow> go_error + bytes" where
  [msg_def]: "GetUserInfoMessage_Encode m = to_bytes (GetUserInfoMessage_EncodeTo buffer m)"

definition GetUserInfoMessage_Decode :: "GetUserInfoMessage \<Rightarrow> bytes \<Rightarrow> GetUserInfoMessage \<times> go_error option" where
  [msg_def]: "GetUserInfoMessage_Decode m buf =
    read_then ReadString buf m (\<lambda>nickname buf.
    (m\<lparr>GetUserInfo_Nickname := nickname\<rparr>, None))"

lemma GetUserInfoMessage_roundtrip:
  "GetUserInfoMessage_Encode m = Inr p \<Longrightarrow> GetUserInfoMessage_Decode m0 p = (m, None)"
  by (cases m; cases m0) (auto simp: msg_def codec split: if_splits)

interpretation GetUserInfo: message_codec GetUserInfoMessage_Encode GetUserInfoMessage_Decode
  "\<lambda>m0 m. m" "\<lambda>m. True"
  by unfold_locales (rule GetUserInfoMessage_roundtrip)

section \<open>UserInfo\<close>

text \<open>UserInfoMessage (0x8F) - User information response\<close>

record UserInfoMessage =
  UserInfo_Nickname :: "gostring"
  UserInfo_IsRegistered :: "bool"
  UserInfo_UserID :: "u64 option"
  UserInfo_Online :: "bool"

definition UserInfoMessage_zero :: UserInfoMessage where
  "UserInfoMessage_zero = \<lparr>UserInfo_Nickname = [],
    UserInfo_IsRegistered = False,
    UserInfo_UserID = None,
    UserInfo_Online = False\<rparr>"

definition UserInfoMessage_EncodeTo :: "'w io_writer \<Rightarrow> UserInfoMessage \<Rightarrow> 'w wr" where
  [msg_def]: "UserInfoMessage_EncodeTo w m =
    steps
      [WriteString w (UserInfo_Nickname m),
       WriteBool w (UserInfo_IsRegistered m),
       WriteOptionalUint64 w (UserInfo_UserID m),
       WriteBool w (UserInfo_Online m)]"

definition UserInfoMessage_Encode :: "UserInfoMessage \<Rightarrow> go_error + bytes" where
  [msg_def]: "UserInfoMessage_Encode m = to_bytes (UserInfoMessage_EncodeTo buffer m)"

definition UserInfoMessage_Decode :: "UserInfoMessage \<Rightarrow> bytes \<Rightarrow> UserInfoMessage \<times> go_error option" where
  [msg_def]: "UserInfoMessage_Decode m buf =
    read_then ReadString buf m (\<lambda>nickname buf.
    read_then ReadBool buf m (\<lambda>isRegistered buf.
    read_then ReadOptionalUint64 buf m (\<lambda>userID buf.
    read_then ReadBool buf m (\<lambda>online buf.
    (m\<lparr>UserInfo_Nickname := nickname,
        UserInfo_IsRegistered := isRegistered,
        UserInfo_UserID := userID,
        UserInfo_Online := online\<rparr>, None)))))"

lemma UserInfoMessage_roundtrip:
  "UserInfoMessage_Encode m = Inr p \<Longrightarrow> UserInfoMessage_Decode m0 p = (m, None)"
  by (cases m; cases m0) (auto simp: msg_def codec split: if_splits)

interpretation UserInfo: message_codec UserInfoMessage_Encode UserInfoMessage_Decode
  "\<lambda>m0 m. m" "\<lambda>m. True"
  by unfold_locales (rule UserInfoMessage_roundtrip)

section \<open>ListUsers\<close>

text \<open>ListUsersMessage (0x16) - Request list of online or all users\<close>

record ListUsersMessage =
  ListUsers_Limit :: "u16"
  ListUsers_IncludeOffline :: "bool"

definition ListUsersMessage_zero :: ListUsersMessage where
  "ListUsersMessage_zero = \<lparr>ListUsers_Limit = 0,
    ListUsers_IncludeOffline = False\<rparr>"

definition ListUsersMessage_EncodeTo :: "'w io_writer \<Rightarrow> ListUsersMessage \<Rightarrow> 'w wr" where
  [msg_def]: "ListUsersMessage_EncodeTo w m =
    steps
      [WriteUint16 w (ListUsers_Limit m),
       WriteBool w (ListUsers_IncludeOffline m)]"

definition ListUsersMessage_Encode :: "ListUsersMessage \<Rightarrow> go_error + bytes" where
  [msg_def]: "ListUsersMessage_Encode m = to_bytes (ListUsersMessage_EncodeTo buffer m)"

definition ListUsersMessage_Decode :: "ListUsersMessage \<Rightarrow> bytes \<Rightarrow> ListUsersMessage \<times> go_error option" where
  [msg_def]: "ListUsersMessage_Decode m buf =
    read_then ReadUint16 buf m (\<lambda>limit buf.
    let m = m\<lparr>ListUsers_Limit := limit\<rparr> in
    (case ReadBool buf of
       Inl e \<Rightarrow>
         if e \<noteq> io_EOF then (m, Some e)
         else (m\<lparr>ListUsers_IncludeOffline := False\<rparr>, None)
     | Inr (includeOffline, buf) \<Rightarrow>
         (m\<lparr>ListUsers_IncludeOffline := includeOffline\<rparr>, None)))"

lemma ListUsersMessage_roundtrip:
  "ListUsersMessage_Encode m = Inr p \<Longrightarrow> ListUsersMessage_Decode m0 p = (m, None)"
  by (cases m; cases m0) (auto simp: msg_def codec split: if_splits)

interpretation ListUsers: message_codec ListUsersMessage_Encode ListUsersMessage_Decode
  "\<lambda>m0 m. m" "\<lambda>m. True"
  by unfold_locales (rule ListUsersMessage_roundtrip)

section \<open>UserList\<close>

text \<open>UserListMessage (0x9A) - List of online users response\<close>

record UserListEntry =
  UserListEntry_Nickname :: "gostring"
  UserListEntry_IsRegistered :: "bool"
  UserListEntry_UserID :: "u64 option"
  UserListEntry_Online :: "bool"

definition UserListEntry_zero :: UserListEntry where
  "UserListEntry_zero = \<lparr>UserListEntry_Nickname = [],
    UserListEntry_IsRegistered = False,
    UserListEntry_UserID = None,
    UserListEntry_Online = False\<rparr>"

definition UserListEntry_put :: "'w io_writer \<Rightarrow> UserListEntry \<Rightarrow> 'w wr" where
  "UserListEntry_put w x = steps
      [WriteString w (UserListEntry_Nickname x),
       WriteBool w (UserListEntry_IsRegistered x),
       WriteOptionalUint64 w (UserListEntry_UserID x),
       WriteBool w (UserListEntry_Online x)]"

definition UserListEntry_get :: "UserListEntry rd" where
  "UserListEntry_get =
    rd_bind ReadString (\<lambda>nickname.
    rd_bind ReadBool (\<lambda>isRegistered.
    rd_bind ReadOptionalUint64 (\<lambda>userID.
    rd_bind ReadBool (\<lambda>online.
    rd_return \<lparr>UserListEntry_Nickname = nickname,
      UserListEntry_IsRegistered = isRegistered,
      UserListEntry_UserID = userID,
      UserListEntry_Online = online\<rparr>))))"

definition UserListEntry_wire :: "UserListEntry \<Rightarrow> bytes" where
  "UserListEntry_wire x = string_wire (UserListEntry_Nickname x) @
    bool_wire (UserListEntry_IsRegistered x) @
    option_wire PutUint64 (UserListEntry_UserID x) @
    bool_wire (UserListEntry_Online x)"

definition UserListEntry_ok :: "UserListEntry \<Rightarrow> bool" where
  "UserListEntry_ok x \<longleftrightarrow> string_ok (UserListEntry_Nickname x)"

interpretation UserListEntry: element_codec UserListEntry_put UserListEntry_get UserListEntry_ok UserListEntry_wire id
  by unfold_locales (auto simp: UserListEntry_put_def UserListEntry_get_def UserListEntry_ok_def UserListEntry_wire_def codec)

lemmas [codec] = UserListEntry.put_all_uniform UserListEntry.put_all UserListEntry.fill_slice UserListEntry.fill_slice_end

record UserListMessage =
  UserList_Users :: "UserListEntry list"

definition UserListMessage_zero :: UserListMessage where
  "UserListMessage_zero = \<lparr>UserList_Users = []\<rparr>"

definition UserListMessage_EncodeTo :: "'w io_writer \<Rightarrow> UserListMessage \<Rightarrow> 'w wr" where
  [msg_def]: "UserListMessage_EncodeTo w m =
    steps
      [WriteUint16 w (of_nat (length (UserList_Users m))),
       steps (map (UserListEntry_put w) (UserList_Users m))]"

definition UserListMessage_Encode :: "UserListMessage \<Rightarrow> go_error + bytes" where
  [msg_def]: "UserListMessage_Encode m = to_bytes (UserListMessage_EncodeTo buffer m)"

definition UserListMessage_Decode :: "UserListMessage \<Rightarrow> bytes \<Rightarrow> UserListMessage \<times> go_error option" where
  [msg_def]: "UserListMessage_Decode m buf =
    read_then ReadUint16 buf m (\<lambda>userCount buf.
    (case fill_loop UserListEntry_get 0 (unat userCount) (replicate (unat userCount) UserListEntry_zero) buf of
       (users, Inl e) \<Rightarrow> (m, Some e)
     | (users, Inr buf) \<Rightarrow>
        (m\<lparr>UserList_Users := users\<rparr>, None)))"

definition UserListMessage_sendable :: "UserListMessage \<Rightarrow> bool" where
  "UserListMessage_sendable m \<longleftrightarrow> length (UserList_Users m) < 2 ^ 16"

lemma UserListMessage_roundtrip:
  "UserListMessage_Encode m = Inr p \<Longrightarrow> UserListMessage_sendable m \<Longrightarrow>
   UserListMessage_Decode m0 p = (m, None)"
  by (cases m; cases m0) (auto simp: msg_def codec UserListMessage_sendable_def split: if_splits)

interpretation UserList: message_codec UserListMessage_Encode UserListMessage_Decode
  "\<lambda>m0 m. m" "UserListMessage_sendable"
  by unfold_locales (rule UserListMessage_roundtrip)

section \<open>ListChannelUsers\<close>

text \<open>ListChannelUsersMessage (0x17) - Request list of users in a channel\<close>

record ListChannelUsersMessage =
  ListChannelUsers_ChannelID :: "u64"
  ListChannelUsers_SubchannelID :: "u64 option"

definition ListChannelUsersMessage_zero :: ListChannelUsersMessage where
  "ListChannelUsersMessage_zero = \<lparr>ListChannelUsers_ChannelID = 0,
    ListChannelUsers_SubchannelID = None\<rparr>"

definition ListChannelUsersMessage_EncodeTo :: "'w io_writer \<Rightarrow> ListChannelUsersMessage \<Rightarrow> 'w wr" where
  [msg_def]: "ListChannelUsersMessage_EncodeTo w m =
    steps
      [WriteUint64 w (ListChannelUsers_ChannelID m),
       WriteOptionalUint64 w (ListChannelUsers_SubchannelID m)]"

definition ListChannelUsersMessage_Encode :: "ListChannelUsersMessage \<Rightarrow> go_error + bytes" where
  [msg_def]: "ListChannelUsersMessage_Encode m = to_bytes (ListChannelUsersMessage_EncodeTo buffer m)"

definition ListChannelUsersMessage_Decode :: "ListChannelUsersMessage \<Rightarrow> bytes \<Rightarrow> ListChannelUsersMessage \<times> go_error option" where
  [msg_def]: "ListChannelUsersMessage_Decode m buf =
    read_then ReadUint64 buf m (\<lambda>channelID buf.
    read_then ReadOptionalUint64 buf m (\<lambda>subchannelID buf.
    (m\<lparr>ListChannelUsers_ChannelID := channelID,
        ListChannelUsers_SubchannelID := subchannelID\<rparr>, None)))"

lemma ListChannelUsersMessage_roundtrip:
  "ListChannelUsersMessage_Encode m = Inr p \<Longrightarrow> ListChannelUsersMessage_Decode m0 p = (m, None)"
  by (cases m; cases m0) (auto simp: msg_def codec split: if_splits)

interpretation ListChannelUsers: message_codec ListChannelUsersMessage_Encode ListChannelUsersMessage_Decode
  "\<lambda>m0 m. m" "\<lambda>m. True"
  by unfold_locales (rule ListChannelUsersMessage_roundtrip)

section \<open>ChannelUserList\<close>

text \<open>ChannelUserListMessage (0xAB) - Snapshot of users in a channel\<close>

record ChannelUserEntry =
  ChannelUserEntry_SessionID :: "u64"
  ChannelUserEntry_Nickname :: "gostring"
  ChannelUserEntry_IsRegistered :: "bool"
  ChannelUserEntry_UserID :: "u64 option"
  ChannelUserEntry_UserFlags :: "UserFlags"

definition ChannelUserEntry_zero :: ChannelUserEntry where
  "ChannelUserEntry_zero = \<lparr>ChannelUserEntry_SessionID = 0,
    ChannelUserEntry_Nickname = [],
    ChannelUserEntry_IsRegistered = False,
    ChannelUserEntry_UserID = None,
    ChannelUserEntry_UserFlags = 0\<rparr>"

definition ChannelUserEntry_put :: "'w io_writer \<Rightarrow> ChannelUserEntry \<Rightarrow> 'w wr" where
  "ChannelUserEntry_put w x = steps
      [WriteUint64 w (ChannelUserEntry_SessionID x),
       WriteString w (ChannelUserEntry_Nickname x),
       WriteBool w (ChannelUserEntry_IsRegistered x),
       WriteOptionalUint64 w (ChannelUserEntry_UserID x),
       WriteUint8 w (ChannelUserEntry_UserFlags x)]"

definition ChannelUserEntry_get :: "ChannelUserEntry rd" where
  "ChannelUserEntry_get =
    rd_bind ReadUint64 (\<lambda>sessionID.
    rd_bind ReadString (\<lambda>nickname.
    rd_bind ReadBool (\<lambda>isRegistered.
    rd_bind ReadOptionalUint64 (\<lambda>userID.
    rd_bind ReadUint8 (\<lambda>flags.
    rd_return \<lparr>ChannelUserEntry_SessionID = sessionID,
      ChannelUserEntry_Nickname = nickname,
      ChannelUserEntry_IsRegistered = isRegistered,
      ChannelUserEntry_UserID = userID,
      ChannelUserEntry_UserFlags = flags\<rparr>)))))"

definition ChannelUserEntry_wire :: "ChannelUserEntry \<Rightarrow> bytes" where
  "ChannelUserEntry_wire x = PutUint64 (ChannelUserEntry_SessionID x) @
    string_wire (ChannelUserEntry_Nickname x) @
    bool_wire (ChannelUserEntry_IsRegistered x) @
    option_wire PutUint64 (ChannelUserEntry_UserID x) @
    [(ChannelUserEntry_UserFlags x)]"

definition ChannelUserEntry_ok :: "ChannelUserEntry \<Rightarrow> bool" where
  "ChannelUserEntry_ok x \<longleftrightarrow> string_ok (ChannelUserEntry_Nickname x)"

interpretation ChannelUserEntry: element_codec ChannelUserEntry_put ChannelUserEntry_get ChannelUserEntry_ok ChannelUserEntry_wire id
  by unfold_locales (auto simp: ChannelUserEntry_put_def ChannelUserEntry_get_def ChannelUserEntry_ok_def ChannelUserEntry_wire_def codec)

lemmas [codec] = ChannelUserEntry.put_all_uniform ChannelUserEntry.put_all ChannelUserEntry.fill_slice ChannelUserEntry.fill_slice_end

record ChannelUserListMessage =
  ChannelUserList_ChannelID :: "u64"
  ChannelUserList_SubchannelID :: "u64 option"
  ChannelUserList_Users :: "ChannelUserEntry list"

definition ChannelUserListMessage_zero :: ChannelUserListMessage where
  "ChannelUserListMessage_zero = \<lparr>ChannelUserList_ChannelID = 0,
    ChannelUserList_SubchannelID = None,
    ChannelUserList_Users = []\<rparr>"

definition ChannelUserListMessage_EncodeTo :: "'w io_writer \<Rightarrow> ChannelUserListMessage \<Rightarrow> 'w wr" where
  [msg_def]: "ChannelUserListMessage_EncodeTo w m =
    steps
      [WriteUint64 w (ChannelUserList_ChannelID m),
       WriteOptionalUint64 w (ChannelUserList_SubchannelID m),
       WriteUint16 w (of_nat (length (ChannelUserList_Users m))),
       steps (map (ChannelUserEntry_put w) (ChannelUserList_Users m))]"

definition ChannelUserListMessage_Encode :: "ChannelUserListMessage \<Rightarrow> go_error + bytes" where
  [msg_def]: "ChannelUserListMessage_Encode m = to_bytes (ChannelUserListMessage_EncodeTo buffer m)"

definition ChannelUserListMessage_Decode :: "ChannelUserListMessage \<Rightarrow> bytes \<Rightarrow> ChannelUserListMessage \<times> go_error option" where
  [msg_def]: "ChannelUserListMessage_Decode m buf =
    read_then ReadUint64 buf m (\<lambda>channelID buf.
    read_then ReadOptionalUint64 buf m (\<lambda>subchannelID buf.
    read_then ReadUint16 buf m (\<lambda>userCount buf.
    (case fill_loop ChannelUserEntry_get 0 (unat userCount) (replicate (unat userCount) ChannelUserEntry_zero) buf of
       (users, Inl e) \<Rightarrow> (m, Some e)
     | (users, Inr buf) \<Rightarrow>
        (m\<lparr>ChannelUserList_ChannelID := channelID,
            ChannelUserList_SubchannelID := subchannelID,
            ChannelUserList_Users := users\<rparr>, None)))))"

definition ChannelUserListMessage_sendable :: "ChannelUserListMessage \<Rightarrow> bool" where
  "ChannelUserListMessage_sendable m \<longleftrightarrow> length (ChannelUserList_Users m) < 2 ^ 16"

lemma ChannelUserListMessage_roundtrip:
  "ChannelUserListMessage_Encode m = Inr p \<Longrightarrow> ChannelUserListMessage_sendable m \<Longrightarrow>
   ChannelUserListMessage_Decode m0 p = (m, None)"
  by (cases m; cases m0) (auto simp: msg_def codec ChannelUserListMessage_sendable_def split: if_splits)

interpretation ChannelUserList: message_codec ChannelUserListMessage_Encode ChannelUserListMessage_Decode
  "\<lambda>m0 m. m" "ChannelUserListMessage_sendable"
  by unfold_locales (rule ChannelUserListMessage_roundtrip)

section \<open>ChannelPresence\<close>

text \<open>ChannelPresenceMessage (0xAC) - User joined or left a channel\<close>

record ChannelPresenceMessage =
  ChannelPresence_ChannelID :: "u64"
  ChannelPresence_SubchannelID :: "u64 option"
  ChannelPresence_SessionID :: "u64"
  ChannelPresence_Nickname :: "gostring"
  ChannelPresence_IsRegistered :: "bool"
  ChannelPresence_UserID :: "u64 option"
  ChannelPresence_UserFlags :: "UserFlags"
  ChannelPresence_Joined :: "bool"

definition ChannelPresenceMessage_zero :: ChannelPresenceMessage where
  "ChannelPresenceMessage_zero = \<lparr>ChannelPresence_ChannelID = 0,
    ChannelPresence_SubchannelID = None,
    ChannelPresence_SessionID = 0,
    ChannelPresence_Nickname = [],
    ChannelPresence_IsRegistered = False,
    ChannelPresence_UserID = None,
    ChannelPresence_UserFlags = 0,
    ChannelPresence_Joined = False\<rparr>"

definition ChannelPresenceMessage_EncodeTo :: "'w io_writer \<Rightarrow> ChannelPresenceMessage \<Rightarrow> 'w wr" where
  [msg_def]: "ChannelPresenceMessage_EncodeTo w m =
    steps
      [WriteUint64 w (ChannelPresence_ChannelID m),
       WriteOptionalUint64 w (ChannelPresence_SubchannelID m),
       WriteUint64 w (ChannelPresence_SessionID m),
       WriteString w (ChannelPresence_Nickname m),
       WriteBool w (ChannelPresence_IsRegistered m),
       WriteOptionalUint64 w (ChannelPresence_UserID m),
       WriteUint8 w (ChannelPresence_UserFlags m),
       WriteBool w (ChannelPresence_Joined m)]"

definition ChannelPresenceMessage_Encode :: "ChannelPresenceMessage \<Rightarrow> go_error + bytes" where
  [msg_def]: "ChannelPresenceMessage_Encode m = to_bytes (ChannelPresenceMessage_EncodeTo buffer m)"

definition ChannelPresenceMessage_Decode :: "ChannelPresenceMessage \<Rightarrow> bytes \<Rightarrow> ChannelPresenceMessage \<times> go_error option" where
  [msg_def]: "ChannelPresenceMessage_Decode m buf =
    read_then ReadUint64 buf m (\<lambda>channelID buf.
    read_then ReadOptionalUint64 buf m (\<lambda>subchannelID buf.
    read_then ReadUint64 buf m (\<lambda>sessionID buf.
    read_then ReadString buf m (\<lambda>nickname buf.
    read_then ReadBool buf m (\<lambda>isRegistered buf.
    read_then ReadOptionalUint64 buf m (\<lambda>userID buf.
    read_then ReadUint8 buf m (\<lambda>flags buf.
    read_then ReadBool buf m (\<lambda>joined buf.
    (m\<lparr>ChannelPresence_ChannelID := channelID,
        ChannelPresence_SubchannelID := subchannelID,
        ChannelPresence_SessionID := sessionID,
        ChannelPresence_Nickname := nickname,
        ChannelPresence_IsRegistered := isRegistered,
        ChannelPresence_UserID := userID,
        ChannelPresence_UserFlags := flags,
        ChannelPresence_Joined := joined\<rparr>, None)))))))))"

lemma ChannelPresenceMessage_roundtrip:
  "ChannelPresenceMessage_Encode m = Inr p \<Longrightarrow> ChannelPresenceMessage_Decode m0 p = (m, None)"
  by (cases m; cases m0) (auto simp: msg_def codec split: if_splits)

interpretation ChannelPresence: message_codec ChannelPresenceMessage_Encode ChannelPresenceMessage_Decode
  "\<lambda>m0 m. m" "\<lambda>m. True"
  by unfold_locales (rule ChannelPresenceMessage_roundtrip)

section \<open>ServerPresence\<close>

text \<open>ServerPresenceMessage (0xAD) - User connected or disconnected from the server\<close>

record ServerPresenceMessage =
  ServerPresence_SessionID :: "u64"
  ServerPresence_Nickname :: "gostring"
  ServerPresence_IsRegistered :: "bool"
  ServerPresence_UserID :: "u64 option"
  ServerPresence_UserFlags :: "UserFlags"
  ServerPresence_Online :: "bool"

definition ServerPresenceMessage_zero :: ServerPresenceMessage where
  "ServerPresenceMessage_zero = \<lparr>ServerPresence_SessionID = 0,
    ServerPresence_Nickname = [],
    ServerPresence_IsRegistered = False,
    ServerPresence_UserID = None,
    ServerPresence_UserFlags = 0,
    ServerPresence_Online = False\<rparr>"

definition ServerPresenceMessage_EncodeTo :: "'w io_writer \<Rightarrow> ServerPresenceMessage \<Rightarrow> 'w wr" where
  [msg_def]: "ServerPresenceMessage_EncodeTo w m =
    steps
      [WriteUint64 w (ServerPresence_SessionID m),
       WriteString w (ServerPresence_Nickname m),
       WriteBool w (ServerPresence_IsRegistered m),
       WriteOptionalUint64 w (ServerPresence_UserID m),
       WriteUint8 w (ServerPresence_UserFlags m),
       WriteBool w (ServerPresence_Online m)]"

definition ServerPresenceMessage_Encode :: "ServerPresenceMessage \<Rightarrow> go_error + bytes" where
  [msg_def]: "ServerPresenceMessage_Encode m = to_bytes (ServerPresenceMessage_EncodeTo buffer m)"

definition ServerPresenceMessage_Decode :: "ServerPresenceMessage \<Rightarrow> bytes \<Rightarrow> ServerPresenceMessage \<times> go_error option" where
  [msg_def]: "ServerPresenceMessage_Decode m buf =
    read_then ReadUint64 buf m (\<lambda>sessionID buf.
    read_then ReadString buf m (\<lambda>nickname buf.
    read_then ReadBool buf m (\<lambda>isRegistered buf.
    read_then ReadOptionalUint64 buf m (\<lambda>userID buf.
    read_then ReadUint8 buf m (\<lambda>flags buf.
    read_then ReadBool buf m (\<lambda>online buf.
    (m\<lparr>ServerPresence_SessionID := sessionID,
        ServerPresence_Nickname := nickname,
        ServerPresence_IsRegistered := isRegistered,
        ServerPresence_UserID := userID,
        ServerPresence_UserFlags := flags,
        ServerPresence_Online := online\<rparr>, None)))))))"

lemma ServerPresenceMessage_roundtrip:
  "ServerPresenceMessage_Encode m = Inr p \<Longrightarrow> ServerPresenceMessage_Decode m0 p = (m, None)"
  by (cases m; cases m0) (auto simp: msg_def codec split: if_splits)

interpretation ServerPresence: message_codec ServerPresenceMessage_Encode ServerPresenceMessage_Decode
  "\<lambda>m0 m. m" "\<lambda>m. True"
  by unfold_locales (rule ServerPresenceMessage_roundtrip)

end
