(* ===== verification/MsgDiscovery.thy ===== *)
theory MsgDiscovery imports Frame UserFlags begin

text \<open>
  "pkg/protocol/messages.go": the messages of server discovery: the directory of servers.
  Each has its struct, its zero value (what "&T{}" makes), EncodeTo over any writer,
  Encode, and Decode into a receiver, as the source writes them; then the round trip and
  the interpretation of message_codec.
\<close>

section \<open>ListServers\<close>

text \<open>ListServersMessage (0x55) - Request server list from directory\<close>

record ListServersMessage =
  ListServers_Limit :: "u16"

definition ListServersMessage_zero :: ListServersMessage where
  "ListServersMessage_zero = \<lparr>ListServers_Limit = 0\<rparr>"

definition ListServersMessage_EncodeTo :: "'w io_writer \<Rightarrow> ListServersMessage \<Rightarrow> 'w wr" where
  [msg_def]: "ListServersMessage_EncodeTo w m =
    WriteUint16 w (ListServers_Limit m)"

definition ListServersMessage_Encode :: "ListServersMessage \<Rightarrow> go_error + bytes" where
  [msg_def]: "ListServersMessage_Encode m = to_bytes (ListServersMessage_EncodeTo buffer m)"

definition ListServersMessage_Decode :: "ListServersMessage \<Rightarrow> bytes \<Rightarrow> ListServersMessage \<times> go_error option" where
  [msg_def]: "ListServersMessage_Decode m buf =
    read_then ReadUint16 buf m (\<lambda>limit buf.
    (m\<lparr>ListServers_Limit := limit\<rparr>, None))"

lemma ListServersMessage_roundtrip:
  "ListServersMessage_Encode m = Inr p \<Longrightarrow> ListServersMessage_Decode m0 p = (m, None)"
  by (cases m; cases m0) (auto simp: msg_def codec split: if_splits)

interpretation ListServers: message_codec ListServersMessage_Encode ListServersMessage_Decode
  "\<lambda>m0 m. m" "\<lambda>m. True"
  by unfold_locales (rule ListServersMessage_roundtrip)

section \<open>ServerList\<close>

text \<open>ServerListMessage (0x9B) - List of discoverable servers\<close>

record ServerInfo =
  ServerInfo_Hostname :: "gostring"
  ServerInfo_Port :: "u16"
  ServerInfo_Name :: "gostring"
  ServerInfo_Description :: "gostring"
  ServerInfo_UserCount :: "u32"
  ServerInfo_MaxUsers :: "u32"
  ServerInfo_UptimeSeconds :: "u64"
  ServerInfo_IsPublic :: "bool"
  ServerInfo_ChannelCount :: "u32"

definition ServerInfo_zero :: ServerInfo where
  "ServerInfo_zero = \<lparr>ServerInfo_Hostname = [],
    ServerInfo_Port = 0,
    ServerInfo_Name = [],
    ServerInfo_Description = [],
    ServerInfo_UserCount = 0,
    ServerInfo_MaxUsers = 0,
    ServerInfo_UptimeSeconds = 0,
    ServerInfo_IsPublic = False,
    ServerInfo_ChannelCount = 0\<rparr>"

definition ServerInfo_put :: "'w io_writer \<Rightarrow> ServerInfo \<Rightarrow> 'w wr" where
  "ServerInfo_put w x = steps
      [WriteString w (ServerInfo_Hostname x),
       WriteUint16 w (ServerInfo_Port x),
       WriteString w (ServerInfo_Name x),
       WriteString w (ServerInfo_Description x),
       WriteUint32 w (ServerInfo_UserCount x),
       WriteUint32 w (ServerInfo_MaxUsers x),
       WriteUint64 w (ServerInfo_UptimeSeconds x),
       WriteBool w (ServerInfo_IsPublic x),
       WriteUint32 w (ServerInfo_ChannelCount x)]"

definition ServerInfo_get :: "ServerInfo rd" where
  "ServerInfo_get =
    rd_bind ReadString (\<lambda>hostname.
    rd_bind ReadUint16 (\<lambda>port.
    rd_bind ReadString (\<lambda>name.
    rd_bind ReadString (\<lambda>description.
    rd_bind ReadUint32 (\<lambda>userCount.
    rd_bind ReadUint32 (\<lambda>maxUsers.
    rd_bind ReadUint64 (\<lambda>uptimeSeconds.
    rd_bind ReadBool (\<lambda>isPublic.
    rd_bind ReadUint32 (\<lambda>channelCount.
    rd_return \<lparr>ServerInfo_Hostname = hostname,
      ServerInfo_Port = port,
      ServerInfo_Name = name,
      ServerInfo_Description = description,
      ServerInfo_UserCount = userCount,
      ServerInfo_MaxUsers = maxUsers,
      ServerInfo_UptimeSeconds = uptimeSeconds,
      ServerInfo_IsPublic = isPublic,
      ServerInfo_ChannelCount = channelCount\<rparr>)))))))))"

definition ServerInfo_wire :: "ServerInfo \<Rightarrow> bytes" where
  "ServerInfo_wire x = string_wire (ServerInfo_Hostname x) @
    PutUint16 (ServerInfo_Port x) @
    string_wire (ServerInfo_Name x) @
    string_wire (ServerInfo_Description x) @
    PutUint32 (ServerInfo_UserCount x) @
    PutUint32 (ServerInfo_MaxUsers x) @
    PutUint64 (ServerInfo_UptimeSeconds x) @
    bool_wire (ServerInfo_IsPublic x) @
    PutUint32 (ServerInfo_ChannelCount x)"

definition ServerInfo_ok :: "ServerInfo \<Rightarrow> bool" where
  "ServerInfo_ok x \<longleftrightarrow> string_ok (ServerInfo_Hostname x) \<and>
    string_ok (ServerInfo_Name x) \<and>
    string_ok (ServerInfo_Description x)"

interpretation ServerInfo: element_codec ServerInfo_put ServerInfo_get ServerInfo_ok ServerInfo_wire id
  by unfold_locales (auto simp: ServerInfo_put_def ServerInfo_get_def ServerInfo_ok_def ServerInfo_wire_def codec)

lemmas [codec] = ServerInfo.put_all_uniform ServerInfo.put_all ServerInfo.fill_slice ServerInfo.fill_slice_end

record ServerListMessage =
  ServerList_Servers :: "ServerInfo list"

definition ServerListMessage_zero :: ServerListMessage where
  "ServerListMessage_zero = \<lparr>ServerList_Servers = []\<rparr>"

definition ServerListMessage_EncodeTo :: "'w io_writer \<Rightarrow> ServerListMessage \<Rightarrow> 'w wr" where
  [msg_def]: "ServerListMessage_EncodeTo w m =
    steps
      [WriteUint16 w (of_nat (length (ServerList_Servers m))),
       steps (map (ServerInfo_put w) (ServerList_Servers m))]"

definition ServerListMessage_Encode :: "ServerListMessage \<Rightarrow> go_error + bytes" where
  [msg_def]: "ServerListMessage_Encode m = to_bytes (ServerListMessage_EncodeTo buffer m)"

definition ServerListMessage_Decode :: "ServerListMessage \<Rightarrow> bytes \<Rightarrow> ServerListMessage \<times> go_error option" where
  [msg_def]: "ServerListMessage_Decode m buf =
    read_then ReadUint16 buf m (\<lambda>serverCount buf.
    (case fill_loop ServerInfo_get 0 (unat serverCount) (replicate (unat serverCount) ServerInfo_zero) buf of
       (servers, Inl e) \<Rightarrow> (m, Some e)
     | (servers, Inr buf) \<Rightarrow>
        (m\<lparr>ServerList_Servers := servers\<rparr>, None)))"

definition ServerListMessage_sendable :: "ServerListMessage \<Rightarrow> bool" where
  "ServerListMessage_sendable m \<longleftrightarrow> length (ServerList_Servers m) < 2 ^ 16"

lemma ServerListMessage_roundtrip:
  "ServerListMessage_Encode m = Inr p \<Longrightarrow> ServerListMessage_sendable m \<Longrightarrow>
   ServerListMessage_Decode m0 p = (m, None)"
  by (cases m; cases m0) (auto simp: msg_def codec ServerListMessage_sendable_def split: if_splits)

interpretation ServerList: message_codec ServerListMessage_Encode ServerListMessage_Decode
  "\<lambda>m0 m. m" "ServerListMessage_sendable"
  by unfold_locales (rule ServerListMessage_roundtrip)

section \<open>RegisterServer\<close>

text \<open>RegisterServerMessage (0x56) - Register server with directory\<close>

record RegisterServerMessage =
  RegisterServer_Hostname :: "gostring"
  RegisterServer_Port :: "u16"
  RegisterServer_Name :: "gostring"
  RegisterServer_Description :: "gostring"
  RegisterServer_MaxUsers :: "u32"
  RegisterServer_IsPublic :: "bool"
  RegisterServer_ChannelCount :: "u32"

definition RegisterServerMessage_zero :: RegisterServerMessage where
  "RegisterServerMessage_zero = \<lparr>RegisterServer_Hostname = [],
    RegisterServer_Port = 0,
    RegisterServer_Name = [],
    RegisterServer_Description = [],
    RegisterServer_MaxUsers = 0,
    RegisterServer_IsPublic = False,
    RegisterServer_ChannelCount = 0\<rparr>"

definition RegisterServerMessage_EncodeTo :: "'w io_writer \<Rightarrow> RegisterServerMessage \<Rightarrow> 'w wr" where
  [msg_def]: "RegisterServerMessage_EncodeTo w m =
    steps
      [WriteString w (RegisterServer_Hostname m),
       WriteUint16 w (RegisterServer_Port m),
       WriteString w (RegisterServer_Name m),
       WriteString w (RegisterServer_Description m),
       WriteUint32 w (RegisterServer_MaxUsers m),
       WriteBool w (RegisterServer_IsPublic m),
       WriteUint32 w (RegisterServer_ChannelCount m)]"

definition RegisterServerMessage_Encode :: "RegisterServerMessage \<Rightarrow> go_error + bytes" where
  [msg_def]: "RegisterServerMessage_Encode m = to_bytes (RegisterServerMessage_EncodeTo buffer m)"

definition RegisterServerMessage_Decode :: "RegisterServerMessage \<Rightarrow> bytes \<Rightarrow> RegisterServerMessage \<times> go_error option" where
  [msg_def]: "RegisterServerMessage_Decode m buf =
    read_then ReadString buf m (\<lambda>hostname buf.
    read_then ReadUint16 buf m (\<lambda>port buf.
    read_then ReadString buf m (\<lambda>name buf.
    read_then ReadString buf m (\<lambda>description buf.
    read_then ReadUint32 buf m (\<lambda>maxUsers buf.
    read_then ReadBool buf m (\<lambda>isPublic buf.
    read_then ReadUint32 buf m (\<lambda>channelCount buf.
    (m\<lparr>RegisterServer_Hostname := hostname,
        RegisterServer_Port := port,
        RegisterServer_Name := name,
        RegisterServer_Description := description,
        RegisterServer_MaxUsers := maxUsers,
        RegisterServer_IsPublic := isPublic,
        RegisterServer_ChannelCount := channelCount\<rparr>, None))))))))"

lemma RegisterServerMessage_roundtrip:
  "RegisterServerMessage_Encode m = Inr p \<Longrightarrow> RegisterServerMessage_Decode m0 p = (m, None)"
  by (cases m; cases m0) (auto simp: msg_def codec split: if_splits)

interpretation RegisterServer: message_codec RegisterServerMessage_Encode RegisterServerMessage_Decode
  "\<lambda>m0 m. m" "\<lambda>m. True"
  by unfold_locales (rule RegisterServerMessage_roundtrip)

section \<open>RegisterAck\<close>

text \<open>RegisterAckMessage (0x9C) - Server registration acknowledgment\<close>

record RegisterAckMessage =
  RegisterAck_Success :: "bool"
  RegisterAck_HeartbeatInterval :: "u32"
  RegisterAck_Message :: "gostring"

definition RegisterAckMessage_zero :: RegisterAckMessage where
  "RegisterAckMessage_zero = \<lparr>RegisterAck_Success = False,
    RegisterAck_HeartbeatInterval = 0,
    RegisterAck_Message = []\<rparr>"

definition RegisterAckMessage_EncodeTo :: "'w io_writer \<Rightarrow> RegisterAckMessage \<Rightarrow> 'w wr" where
  [msg_def]: "RegisterAckMessage_EncodeTo w m =
    steps
      [WriteBool w (RegisterAck_Success m),
       if (RegisterAck_Success m) then steps
        [WriteUint32 w (RegisterAck_HeartbeatInterval m)]
       else no_error,
       WriteString w (RegisterAck_Message m)]"

definition RegisterAckMessage_Encode :: "RegisterAckMessage \<Rightarrow> go_error + bytes" where
  [msg_def]: "RegisterAckMessage_Encode m = to_bytes (RegisterAckMessage_EncodeTo buffer m)"

definition RegisterAckMessage_Decode :: "RegisterAckMessage \<Rightarrow> bytes \<Rightarrow> RegisterAckMessage \<times> go_error option" where
  [msg_def]: "RegisterAckMessage_Decode m buf =
    read_then ReadBool buf m (\<lambda>success buf.
    let m = m\<lparr>RegisterAck_Success := success\<rparr> in
    let after = (\<lambda>m buf.
      read_then ReadString buf m (\<lambda>message buf.
      (m\<lparr>RegisterAck_Message := message\<rparr>, None))) in
    if success then
      read_then ReadUint32 buf m (\<lambda>heartbeatInterval buf.
      after (m\<lparr>RegisterAck_HeartbeatInterval := heartbeatInterval\<rparr>) buf)
    else after m buf)"

definition RegisterAckMessage_received :: "RegisterAckMessage \<Rightarrow> RegisterAckMessage \<Rightarrow> RegisterAckMessage" where
  "RegisterAckMessage_received m0 m =
    (if RegisterAck_Success m then m
     else m\<lparr>RegisterAck_HeartbeatInterval := RegisterAck_HeartbeatInterval m0\<rparr>)"

lemma RegisterAckMessage_roundtrip:
  "RegisterAckMessage_Encode m = Inr p \<Longrightarrow> RegisterAckMessage_Decode m0 p = (RegisterAckMessage_received m0 m, None)"
  by (cases m; cases m0) (auto simp: msg_def codec RegisterAckMessage_received_def split: if_splits)

interpretation RegisterAck: message_codec RegisterAckMessage_Encode RegisterAckMessage_Decode
  "RegisterAckMessage_received" "\<lambda>m. True"
  by unfold_locales (rule RegisterAckMessage_roundtrip)

section \<open>VerifyRegistration\<close>

text \<open>VerifyRegistrationMessage (0x9E) - Verification challenge\<close>

record VerifyRegistrationMessage =
  VerifyRegistration_Challenge :: "u64"

definition VerifyRegistrationMessage_zero :: VerifyRegistrationMessage where
  "VerifyRegistrationMessage_zero = \<lparr>VerifyRegistration_Challenge = 0\<rparr>"

definition VerifyRegistrationMessage_EncodeTo :: "'w io_writer \<Rightarrow> VerifyRegistrationMessage \<Rightarrow> 'w wr" where
  [msg_def]: "VerifyRegistrationMessage_EncodeTo w m =
    WriteUint64 w (VerifyRegistration_Challenge m)"

definition VerifyRegistrationMessage_Encode :: "VerifyRegistrationMessage \<Rightarrow> go_error + bytes" where
  [msg_def]: "VerifyRegistrationMessage_Encode m = to_bytes (VerifyRegistrationMessage_EncodeTo buffer m)"

definition VerifyRegistrationMessage_Decode :: "VerifyRegistrationMessage \<Rightarrow> bytes \<Rightarrow> VerifyRegistrationMessage \<times> go_error option" where
  [msg_def]: "VerifyRegistrationMessage_Decode m buf =
    read_then ReadUint64 buf m (\<lambda>challenge buf.
    (m\<lparr>VerifyRegistration_Challenge := challenge\<rparr>, None))"

lemma VerifyRegistrationMessage_roundtrip:
  "VerifyRegistrationMessage_Encode m = Inr p \<Longrightarrow> VerifyRegistrationMessage_Decode m0 p = (m, None)"
  by (cases m; cases m0) (auto simp: msg_def codec split: if_splits)

interpretation VerifyRegistration: message_codec VerifyRegistrationMessage_Encode VerifyRegistrationMessage_Decode
  "\<lambda>m0 m. m" "\<lambda>m. True"
  by unfold_locales (rule VerifyRegistrationMessage_roundtrip)

section \<open>VerifyResponse\<close>

text \<open>VerifyResponseMessage (0x58) - Response to verification challenge\<close>

record VerifyResponseMessage =
  VerifyResponse_Challenge :: "u64"

definition VerifyResponseMessage_zero :: VerifyResponseMessage where
  "VerifyResponseMessage_zero = \<lparr>VerifyResponse_Challenge = 0\<rparr>"

definition VerifyResponseMessage_EncodeTo :: "'w io_writer \<Rightarrow> VerifyResponseMessage \<Rightarrow> 'w wr" where
  [msg_def]: "VerifyResponseMessage_EncodeTo w m =
    WriteUint64 w (VerifyResponse_Challenge m)"

definition VerifyResponseMessage_Encode :: "VerifyResponseMessage \<Rightarrow> go_error + bytes" where
  [msg_def]: "VerifyResponseMessage_Encode m = to_bytes (VerifyResponseMessage_EncodeTo buffer m)"

definition VerifyResponseMessage_Decode :: "VerifyResponseMessage \<Rightarrow> bytes \<Rightarrow> VerifyResponseMessage \<times> go_error option" where
  [msg_def]: "VerifyResponseMessage_Decode m buf =
    read_then ReadUint64 buf m (\<lambda>challenge buf.
    (m\<lparr>VerifyResponse_Challenge := challenge\<rparr>, None))"

lemma VerifyResponseMessage_roundtrip:
  "VerifyResponseMessage_Encode m = Inr p \<Longrightarrow> VerifyResponseMessage_Decode m0 p = (m, None)"
  by (cases m; cases m0) (auto simp: msg_def codec split: if_splits)

interpretation VerifyResponse: message_codec VerifyResponseMessage_Encode VerifyResponseMessage_Decode
  "\<lambda>m0 m. m" "\<lambda>m. True"
  by unfold_locales (rule VerifyResponseMessage_roundtrip)

section \<open>Heartbeat\<close>

text \<open>HeartbeatMessage (0x57) - Periodic heartbeat to directory\<close>

record HeartbeatMessage =
  Heartbeat_Hostname :: "gostring"
  Heartbeat_Port :: "u16"
  Heartbeat_UserCount :: "u32"
  Heartbeat_UptimeSeconds :: "u64"
  Heartbeat_ChannelCount :: "u32"

definition HeartbeatMessage_zero :: HeartbeatMessage where
  "HeartbeatMessage_zero = \<lparr>Heartbeat_Hostname = [],
    Heartbeat_Port = 0,
    Heartbeat_UserCount = 0,
    Heartbeat_UptimeSeconds = 0,
    Heartbeat_ChannelCount = 0\<rparr>"

definition HeartbeatMessage_EncodeTo :: "'w io_writer \<Rightarrow> HeartbeatMessage \<Rightarrow> 'w wr" where
  [msg_def]: "HeartbeatMessage_EncodeTo w m =
    steps
      [WriteString w (Heartbeat_Hostname m),
       WriteUint16 w (Heartbeat_Port m),
       WriteUint32 w (Heartbeat_UserCount m),
       WriteUint64 w (Heartbeat_UptimeSeconds m),
       WriteUint32 w (Heartbeat_ChannelCount m)]"

definition HeartbeatMessage_Encode :: "HeartbeatMessage \<Rightarrow> go_error + bytes" where
  [msg_def]: "HeartbeatMessage_Encode m = to_bytes (HeartbeatMessage_EncodeTo buffer m)"

definition HeartbeatMessage_Decode :: "HeartbeatMessage \<Rightarrow> bytes \<Rightarrow> HeartbeatMessage \<times> go_error option" where
  [msg_def]: "HeartbeatMessage_Decode m buf =
    read_then ReadString buf m (\<lambda>hostname buf.
    read_then ReadUint16 buf m (\<lambda>port buf.
    read_then ReadUint32 buf m (\<lambda>userCount buf.
    read_then ReadUint64 buf m (\<lambda>uptimeSeconds buf.
    read_then ReadUint32 buf m (\<lambda>channelCount buf.
    (m\<lparr>Heartbeat_Hostname := hostname,
        Heartbeat_Port := port,
        Heartbeat_UserCount := userCount,
        Heartbeat_UptimeSeconds := uptimeSeconds,
        Heartbeat_ChannelCount := channelCount\<rparr>, None))))))"

lemma HeartbeatMessage_roundtrip:
  "HeartbeatMessage_Encode m = Inr p \<Longrightarrow> HeartbeatMessage_Decode m0 p = (m, None)"
  by (cases m; cases m0) (auto simp: msg_def codec split: if_splits)

interpretation Heartbeat: message_codec HeartbeatMessage_Encode HeartbeatMessage_Decode
  "\<lambda>m0 m. m" "\<lambda>m. True"
  by unfold_locales (rule HeartbeatMessage_roundtrip)

section \<open>HeartbeatAck\<close>

text \<open>HeartbeatAckMessage (0x9D) - Heartbeat acknowledgment with interval\<close>

record HeartbeatAckMessage =
  HeartbeatAck_HeartbeatInterval :: "u32"

definition HeartbeatAckMessage_zero :: HeartbeatAckMessage where
  "HeartbeatAckMessage_zero = \<lparr>HeartbeatAck_HeartbeatInterval = 0\<rparr>"

definition HeartbeatAckMessage_EncodeTo :: "'w io_writer \<Rightarrow> HeartbeatAckMessage \<Rightarrow> 'w wr" where
  [msg_def]: "HeartbeatAckMessage_EncodeTo w m =
    WriteUint32 w (HeartbeatAck_HeartbeatInterval m)"

definition HeartbeatAckMessage_Encode :: "HeartbeatAckMessage \<Rightarrow> go_error + bytes" where
  [msg_def]: "HeartbeatAckMessage_Encode m = to_bytes (HeartbeatAckMessage_EncodeTo buffer m)"

definition HeartbeatAckMessage_Decode :: "HeartbeatAckMessage \<Rightarrow> bytes \<Rightarrow> HeartbeatAckMessage \<times> go_error option" where
  [msg_def]: "HeartbeatAckMessage_Decode m buf =
    read_then ReadUint32 buf m (\<lambda>heartbeatInterval buf.
    (m\<lparr>HeartbeatAck_HeartbeatInterval := heartbeatInterval\<rparr>, None))"

lemma HeartbeatAckMessage_roundtrip:
  "HeartbeatAckMessage_Encode m = Inr p \<Longrightarrow> HeartbeatAckMessage_Decode m0 p = (m, None)"
  by (cases m; cases m0) (auto simp: msg_def codec split: if_splits)

interpretation HeartbeatAck: message_codec HeartbeatAckMessage_Encode HeartbeatAckMessage_Decode
  "\<lambda>m0 m. m" "\<lambda>m. True"
  by unfold_locales (rule HeartbeatAckMessage_roundtrip)

end
