(* ===== verification/MsgSSH.thy ===== *)
theory MsgSSH imports Frame UserFlags begin

text \<open>
  "pkg/protocol/messages.go": the messages of passwords and SSH keys.
  Each has its struct, its zero value (what "&T{}" makes), EncodeTo over any writer,
  Encode, and Decode into a receiver, as the source writes them; then the round trip and
  the interpretation of message_codec.
\<close>

section \<open>ChangePassword\<close>

text \<open>ChangePasswordRequest is sent by clients to change their password\<close>

record ChangePasswordRequest =
  ChangePassword_OldPassword :: "gostring"
  ChangePassword_NewPassword :: "gostring"

definition ChangePasswordRequest_zero :: ChangePasswordRequest where
  "ChangePasswordRequest_zero = \<lparr>ChangePassword_OldPassword = [],
    ChangePassword_NewPassword = []\<rparr>"

definition ChangePasswordRequest_EncodeTo :: "'w io_writer \<Rightarrow> ChangePasswordRequest \<Rightarrow> 'w wr" where
  [msg_def]: "ChangePasswordRequest_EncodeTo w m =
    steps
      [WriteString w (ChangePassword_OldPassword m),
       WriteString w (ChangePassword_NewPassword m)]"

definition ChangePasswordRequest_Encode :: "ChangePasswordRequest \<Rightarrow> go_error + bytes" where
  [msg_def]: "ChangePasswordRequest_Encode m = to_bytes (ChangePasswordRequest_EncodeTo buffer m)"

definition ChangePasswordRequest_Decode :: "ChangePasswordRequest \<Rightarrow> bytes \<Rightarrow> ChangePasswordRequest \<times> go_error option" where
  [msg_def]: "ChangePasswordRequest_Decode m buf =
    read_then ReadString buf m (\<lambda>oldPassword buf.
    read_then ReadString buf m (\<lambda>newPassword buf.
    (m\<lparr>ChangePassword_OldPassword := oldPassword,
        ChangePassword_NewPassword := newPassword\<rparr>, None)))"

lemma ChangePasswordRequest_roundtrip:
  "ChangePasswordRequest_Encode m = Inr p \<Longrightarrow> ChangePasswordRequest_Decode m0 p = (m, None)"
  by (cases m; cases m0) (auto simp: msg_def codec split: if_splits)

interpretation ChangePassword: message_codec ChangePasswordRequest_Encode ChangePasswordRequest_Decode
  "\<lambda>m0 m. m" "\<lambda>m. True"
  by unfold_locales (rule ChangePasswordRequest_roundtrip)

section \<open>PasswordChanged\<close>

text \<open>PasswordChangedResponse is sent by server after password change attempt\<close>

record PasswordChangedResponse =
  PasswordChanged_Success :: "bool"
  PasswordChanged_ErrorMessage :: "gostring"

definition PasswordChangedResponse_zero :: PasswordChangedResponse where
  "PasswordChangedResponse_zero = \<lparr>PasswordChanged_Success = False,
    PasswordChanged_ErrorMessage = []\<rparr>"

definition PasswordChangedResponse_EncodeTo :: "'w io_writer \<Rightarrow> PasswordChangedResponse \<Rightarrow> 'w wr" where
  [msg_def]: "PasswordChangedResponse_EncodeTo w m =
    steps
      [WriteBool w (PasswordChanged_Success m),
       WriteString w (PasswordChanged_ErrorMessage m)]"

definition PasswordChangedResponse_Encode :: "PasswordChangedResponse \<Rightarrow> go_error + bytes" where
  [msg_def]: "PasswordChangedResponse_Encode m = to_bytes (PasswordChangedResponse_EncodeTo buffer m)"

definition PasswordChangedResponse_Decode :: "PasswordChangedResponse \<Rightarrow> bytes \<Rightarrow> PasswordChangedResponse \<times> go_error option" where
  [msg_def]: "PasswordChangedResponse_Decode m buf =
    read_then ReadBool buf m (\<lambda>success buf.
    read_then ReadString buf m (\<lambda>errorMessage buf.
    (m\<lparr>PasswordChanged_Success := success,
        PasswordChanged_ErrorMessage := errorMessage\<rparr>, None)))"

lemma PasswordChangedResponse_roundtrip:
  "PasswordChangedResponse_Encode m = Inr p \<Longrightarrow> PasswordChangedResponse_Decode m0 p = (m, None)"
  by (cases m; cases m0) (auto simp: msg_def codec split: if_splits)

interpretation PasswordChanged: message_codec PasswordChangedResponse_Encode PasswordChangedResponse_Decode
  "\<lambda>m0 m. m" "\<lambda>m. True"
  by unfold_locales (rule PasswordChangedResponse_roundtrip)

section \<open>AddSSHKey\<close>

text \<open>AddSSHKeyRequest is sent by clients to add a new SSH public key to their account\<close>

record AddSSHKeyRequest =
  AddSSHKey_PublicKey :: "gostring"
  AddSSHKey_Label :: "gostring"

definition AddSSHKeyRequest_zero :: AddSSHKeyRequest where
  "AddSSHKeyRequest_zero = \<lparr>AddSSHKey_PublicKey = [],
    AddSSHKey_Label = []\<rparr>"

definition AddSSHKeyRequest_EncodeTo :: "'w io_writer \<Rightarrow> AddSSHKeyRequest \<Rightarrow> 'w wr" where
  [msg_def]: "AddSSHKeyRequest_EncodeTo w m =
    steps
      [WriteString w (AddSSHKey_PublicKey m),
       WriteString w (AddSSHKey_Label m)]"

definition AddSSHKeyRequest_Encode :: "AddSSHKeyRequest \<Rightarrow> go_error + bytes" where
  [msg_def]: "AddSSHKeyRequest_Encode m = to_bytes (AddSSHKeyRequest_EncodeTo buffer m)"

definition AddSSHKeyRequest_Decode :: "AddSSHKeyRequest \<Rightarrow> bytes \<Rightarrow> AddSSHKeyRequest \<times> go_error option" where
  [msg_def]: "AddSSHKeyRequest_Decode m buf =
    read_then ReadString buf m (\<lambda>publicKey buf.
    read_then ReadString buf m (\<lambda>label buf.
    (m\<lparr>AddSSHKey_PublicKey := publicKey,
        AddSSHKey_Label := label\<rparr>, None)))"

lemma AddSSHKeyRequest_roundtrip:
  "AddSSHKeyRequest_Encode m = Inr p \<Longrightarrow> AddSSHKeyRequest_Decode m0 p = (m, None)"
  by (cases m; cases m0) (auto simp: msg_def codec split: if_splits)

interpretation AddSSHKey: message_codec AddSSHKeyRequest_Encode AddSSHKeyRequest_Decode
  "\<lambda>m0 m. m" "\<lambda>m. True"
  by unfold_locales (rule AddSSHKeyRequest_roundtrip)

section \<open>SSHKeyAdded\<close>

text \<open>SSHKeyAddedResponse is sent by server after adding an SSH key\<close>

record SSHKeyAddedResponse =
  SSHKeyAdded_Success :: "bool"
  SSHKeyAdded_KeyID :: "i64"
  SSHKeyAdded_Fingerprint :: "gostring"
  SSHKeyAdded_ErrorMessage :: "gostring"

definition SSHKeyAddedResponse_zero :: SSHKeyAddedResponse where
  "SSHKeyAddedResponse_zero = \<lparr>SSHKeyAdded_Success = False,
    SSHKeyAdded_KeyID = 0,
    SSHKeyAdded_Fingerprint = [],
    SSHKeyAdded_ErrorMessage = []\<rparr>"

definition SSHKeyAddedResponse_EncodeTo :: "'w io_writer \<Rightarrow> SSHKeyAddedResponse \<Rightarrow> 'w wr" where
  [msg_def]: "SSHKeyAddedResponse_EncodeTo w m =
    steps
      [WriteBool w (SSHKeyAdded_Success m),
       WriteInt64 w (SSHKeyAdded_KeyID m),
       WriteString w (SSHKeyAdded_Fingerprint m),
       WriteString w (SSHKeyAdded_ErrorMessage m)]"

definition SSHKeyAddedResponse_Encode :: "SSHKeyAddedResponse \<Rightarrow> go_error + bytes" where
  [msg_def]: "SSHKeyAddedResponse_Encode m = to_bytes (SSHKeyAddedResponse_EncodeTo buffer m)"

definition SSHKeyAddedResponse_Decode :: "SSHKeyAddedResponse \<Rightarrow> bytes \<Rightarrow> SSHKeyAddedResponse \<times> go_error option" where
  [msg_def]: "SSHKeyAddedResponse_Decode m buf =
    read_then ReadBool buf m (\<lambda>success buf.
    read_then ReadInt64 buf m (\<lambda>keyID buf.
    read_then ReadString buf m (\<lambda>fingerprint buf.
    read_then ReadString buf m (\<lambda>errorMessage buf.
    (m\<lparr>SSHKeyAdded_Success := success,
        SSHKeyAdded_KeyID := keyID,
        SSHKeyAdded_Fingerprint := fingerprint,
        SSHKeyAdded_ErrorMessage := errorMessage\<rparr>, None)))))"

lemma SSHKeyAddedResponse_roundtrip:
  "SSHKeyAddedResponse_Encode m = Inr p \<Longrightarrow> SSHKeyAddedResponse_Decode m0 p = (m, None)"
  by (cases m; cases m0) (auto simp: msg_def codec split: if_splits)

interpretation SSHKeyAdded: message_codec SSHKeyAddedResponse_Encode SSHKeyAddedResponse_Decode
  "\<lambda>m0 m. m" "\<lambda>m. True"
  by unfold_locales (rule SSHKeyAddedResponse_roundtrip)

section \<open>ListSSHKeys\<close>

text \<open>ListSSHKeysRequest is sent by clients to retrieve their SSH keys\<close>

datatype ListSSHKeysRequest = ListSSHKeysRequest

definition ListSSHKeysRequest_zero :: ListSSHKeysRequest where
  "ListSSHKeysRequest_zero = ListSSHKeysRequest"

definition ListSSHKeysRequest_EncodeTo :: "'w io_writer \<Rightarrow> ListSSHKeysRequest \<Rightarrow> 'w wr" where
  [msg_def]: "ListSSHKeysRequest_EncodeTo w m =
    no_error"

definition ListSSHKeysRequest_Encode :: "ListSSHKeysRequest \<Rightarrow> go_error + bytes" where
  [msg_def]: "ListSSHKeysRequest_Encode m = to_bytes (ListSSHKeysRequest_EncodeTo buffer m)"

definition ListSSHKeysRequest_Decode :: "ListSSHKeysRequest \<Rightarrow> bytes \<Rightarrow> ListSSHKeysRequest \<times> go_error option" where
  [msg_def]: "ListSSHKeysRequest_Decode m payload =
    (m, None)"

lemma ListSSHKeysRequest_roundtrip:
  "ListSSHKeysRequest_Encode m = Inr p \<Longrightarrow> ListSSHKeysRequest_Decode m0 p = (m, None)"
  by (cases m; cases m0) (simp add: msg_def)

interpretation ListSSHKeys: message_codec ListSSHKeysRequest_Encode ListSSHKeysRequest_Decode
  "\<lambda>m0 m. m" "\<lambda>m. True"
  by unfold_locales (rule ListSSHKeysRequest_roundtrip)

section \<open>SSHKeyList\<close>

text \<open>SSHKeyListResponse is sent by server with list of user's SSH keys\<close>

record SSHKeyInfo =
  SSHKeyInfo_ID :: "i64"
  SSHKeyInfo_Fingerprint :: "gostring"
  SSHKeyInfo_KeyType :: "gostring"
  SSHKeyInfo_Label :: "gostring"
  SSHKeyInfo_AddedAt :: "i64"
  SSHKeyInfo_LastUsedAt :: "i64"

definition SSHKeyInfo_zero :: SSHKeyInfo where
  "SSHKeyInfo_zero = \<lparr>SSHKeyInfo_ID = 0,
    SSHKeyInfo_Fingerprint = [],
    SSHKeyInfo_KeyType = [],
    SSHKeyInfo_Label = [],
    SSHKeyInfo_AddedAt = 0,
    SSHKeyInfo_LastUsedAt = 0\<rparr>"

definition SSHKeyInfo_put :: "'w io_writer \<Rightarrow> SSHKeyInfo \<Rightarrow> 'w wr" where
  "SSHKeyInfo_put w x = steps
      [WriteInt64 w (SSHKeyInfo_ID x),
       WriteString w (SSHKeyInfo_Fingerprint x),
       WriteString w (SSHKeyInfo_KeyType x),
       WriteString w (SSHKeyInfo_Label x),
       WriteInt64 w (SSHKeyInfo_AddedAt x),
       WriteInt64 w (SSHKeyInfo_LastUsedAt x)]"

definition SSHKeyInfo_get :: "SSHKeyInfo rd" where
  "SSHKeyInfo_get =
    rd_bind ReadInt64 (\<lambda>id.
    rd_bind ReadString (\<lambda>fingerprint.
    rd_bind ReadString (\<lambda>keyType.
    rd_bind ReadString (\<lambda>label.
    rd_bind ReadInt64 (\<lambda>addedAt.
    rd_bind ReadInt64 (\<lambda>lastUsedAt.
    rd_return \<lparr>SSHKeyInfo_ID = id,
      SSHKeyInfo_Fingerprint = fingerprint,
      SSHKeyInfo_KeyType = keyType,
      SSHKeyInfo_Label = label,
      SSHKeyInfo_AddedAt = addedAt,
      SSHKeyInfo_LastUsedAt = lastUsedAt\<rparr>))))))"

definition SSHKeyInfo_wire :: "SSHKeyInfo \<Rightarrow> bytes" where
  "SSHKeyInfo_wire x = PutUint64 (SSHKeyInfo_ID x) @
    string_wire (SSHKeyInfo_Fingerprint x) @
    string_wire (SSHKeyInfo_KeyType x) @
    string_wire (SSHKeyInfo_Label x) @
    PutUint64 (SSHKeyInfo_AddedAt x) @
    PutUint64 (SSHKeyInfo_LastUsedAt x)"

definition SSHKeyInfo_ok :: "SSHKeyInfo \<Rightarrow> bool" where
  "SSHKeyInfo_ok x \<longleftrightarrow> string_ok (SSHKeyInfo_Fingerprint x) \<and>
    string_ok (SSHKeyInfo_KeyType x) \<and>
    string_ok (SSHKeyInfo_Label x)"

interpretation SSHKeyInfo: element_codec SSHKeyInfo_put SSHKeyInfo_get SSHKeyInfo_ok SSHKeyInfo_wire id
  by unfold_locales (auto simp: SSHKeyInfo_put_def SSHKeyInfo_get_def SSHKeyInfo_ok_def SSHKeyInfo_wire_def codec)

lemmas [codec] = SSHKeyInfo.put_all_uniform SSHKeyInfo.put_all SSHKeyInfo.fill_slice SSHKeyInfo.fill_slice_end

record SSHKeyListResponse =
  SSHKeyList_Keys :: "SSHKeyInfo list"

definition SSHKeyListResponse_zero :: SSHKeyListResponse where
  "SSHKeyListResponse_zero = \<lparr>SSHKeyList_Keys = []\<rparr>"

definition SSHKeyListResponse_EncodeTo :: "'w io_writer \<Rightarrow> SSHKeyListResponse \<Rightarrow> 'w wr" where
  [msg_def]: "SSHKeyListResponse_EncodeTo w m =
    steps
      [WriteUint32 w (of_nat (length (SSHKeyList_Keys m))),
       steps (map (SSHKeyInfo_put w) (SSHKeyList_Keys m))]"

definition SSHKeyListResponse_Encode :: "SSHKeyListResponse \<Rightarrow> go_error + bytes" where
  [msg_def]: "SSHKeyListResponse_Encode m = to_bytes (SSHKeyListResponse_EncodeTo buffer m)"

definition SSHKeyListResponse_Decode :: "SSHKeyListResponse \<Rightarrow> bytes \<Rightarrow> SSHKeyListResponse \<times> go_error option" where
  [msg_def]: "SSHKeyListResponse_Decode m buf =
    read_then ReadUint32 buf m (\<lambda>count buf.
    (case fill_loop SSHKeyInfo_get 0 (unat count) (replicate (unat count) SSHKeyInfo_zero) buf of
       (xs, Inl e) \<Rightarrow> (m\<lparr>SSHKeyList_Keys := xs\<rparr>, Some e)
     | (xs, Inr buf) \<Rightarrow> (m\<lparr>SSHKeyList_Keys := xs\<rparr>, None)))"

definition SSHKeyListResponse_sendable :: "SSHKeyListResponse \<Rightarrow> bool" where
  "SSHKeyListResponse_sendable m \<longleftrightarrow> length (SSHKeyList_Keys m) < 2 ^ 32"

lemma SSHKeyListResponse_roundtrip:
  "SSHKeyListResponse_Encode m = Inr p \<Longrightarrow> SSHKeyListResponse_sendable m \<Longrightarrow>
   SSHKeyListResponse_Decode m0 p = (m, None)"
  by (cases m; cases m0) (auto simp: msg_def codec SSHKeyListResponse_sendable_def split: if_splits)

interpretation SSHKeyList: message_codec SSHKeyListResponse_Encode SSHKeyListResponse_Decode
  "\<lambda>m0 m. m" "SSHKeyListResponse_sendable"
  by unfold_locales (rule SSHKeyListResponse_roundtrip)

section \<open>UpdateSSHKeyLabel\<close>

text \<open>UpdateSSHKeyLabelRequest is sent by clients to update an SSH key's label\<close>

record UpdateSSHKeyLabelRequest =
  UpdateSSHKeyLabel_KeyID :: "i64"
  UpdateSSHKeyLabel_NewLabel :: "gostring"

definition UpdateSSHKeyLabelRequest_zero :: UpdateSSHKeyLabelRequest where
  "UpdateSSHKeyLabelRequest_zero = \<lparr>UpdateSSHKeyLabel_KeyID = 0,
    UpdateSSHKeyLabel_NewLabel = []\<rparr>"

definition UpdateSSHKeyLabelRequest_EncodeTo :: "'w io_writer \<Rightarrow> UpdateSSHKeyLabelRequest \<Rightarrow> 'w wr" where
  [msg_def]: "UpdateSSHKeyLabelRequest_EncodeTo w m =
    steps
      [WriteInt64 w (UpdateSSHKeyLabel_KeyID m),
       WriteString w (UpdateSSHKeyLabel_NewLabel m)]"

definition UpdateSSHKeyLabelRequest_Encode :: "UpdateSSHKeyLabelRequest \<Rightarrow> go_error + bytes" where
  [msg_def]: "UpdateSSHKeyLabelRequest_Encode m = to_bytes (UpdateSSHKeyLabelRequest_EncodeTo buffer m)"

definition UpdateSSHKeyLabelRequest_Decode :: "UpdateSSHKeyLabelRequest \<Rightarrow> bytes \<Rightarrow> UpdateSSHKeyLabelRequest \<times> go_error option" where
  [msg_def]: "UpdateSSHKeyLabelRequest_Decode m buf =
    read_then ReadInt64 buf m (\<lambda>keyID buf.
    read_then ReadString buf m (\<lambda>newLabel buf.
    (m\<lparr>UpdateSSHKeyLabel_KeyID := keyID,
        UpdateSSHKeyLabel_NewLabel := newLabel\<rparr>, None)))"

lemma UpdateSSHKeyLabelRequest_roundtrip:
  "UpdateSSHKeyLabelRequest_Encode m = Inr p \<Longrightarrow> UpdateSSHKeyLabelRequest_Decode m0 p = (m, None)"
  by (cases m; cases m0) (auto simp: msg_def codec split: if_splits)

interpretation UpdateSSHKeyLabel: message_codec UpdateSSHKeyLabelRequest_Encode UpdateSSHKeyLabelRequest_Decode
  "\<lambda>m0 m. m" "\<lambda>m. True"
  by unfold_locales (rule UpdateSSHKeyLabelRequest_roundtrip)

section \<open>SSHKeyLabelUpdated\<close>

text \<open>SSHKeyLabelUpdatedResponse is sent by server after updating an SSH key label\<close>

record SSHKeyLabelUpdatedResponse =
  SSHKeyLabelUpdated_Success :: "bool"
  SSHKeyLabelUpdated_ErrorMessage :: "gostring"

definition SSHKeyLabelUpdatedResponse_zero :: SSHKeyLabelUpdatedResponse where
  "SSHKeyLabelUpdatedResponse_zero = \<lparr>SSHKeyLabelUpdated_Success = False,
    SSHKeyLabelUpdated_ErrorMessage = []\<rparr>"

definition SSHKeyLabelUpdatedResponse_EncodeTo :: "'w io_writer \<Rightarrow> SSHKeyLabelUpdatedResponse \<Rightarrow> 'w wr" where
  [msg_def]: "SSHKeyLabelUpdatedResponse_EncodeTo w m =
    steps
      [WriteBool w (SSHKeyLabelUpdated_Success m),
       WriteString w (SSHKeyLabelUpdated_ErrorMessage m)]"

definition SSHKeyLabelUpdatedResponse_Encode :: "SSHKeyLabelUpdatedResponse \<Rightarrow> go_error + bytes" where
  [msg_def]: "SSHKeyLabelUpdatedResponse_Encode m = to_bytes (SSHKeyLabelUpdatedResponse_EncodeTo buffer m)"

definition SSHKeyLabelUpdatedResponse_Decode :: "SSHKeyLabelUpdatedResponse \<Rightarrow> bytes \<Rightarrow> SSHKeyLabelUpdatedResponse \<times> go_error option" where
  [msg_def]: "SSHKeyLabelUpdatedResponse_Decode m buf =
    read_then ReadBool buf m (\<lambda>success buf.
    read_then ReadString buf m (\<lambda>errorMessage buf.
    (m\<lparr>SSHKeyLabelUpdated_Success := success,
        SSHKeyLabelUpdated_ErrorMessage := errorMessage\<rparr>, None)))"

lemma SSHKeyLabelUpdatedResponse_roundtrip:
  "SSHKeyLabelUpdatedResponse_Encode m = Inr p \<Longrightarrow> SSHKeyLabelUpdatedResponse_Decode m0 p = (m, None)"
  by (cases m; cases m0) (auto simp: msg_def codec split: if_splits)

interpretation SSHKeyLabelUpdated: message_codec SSHKeyLabelUpdatedResponse_Encode SSHKeyLabelUpdatedResponse_Decode
  "\<lambda>m0 m. m" "\<lambda>m. True"
  by unfold_locales (rule SSHKeyLabelUpdatedResponse_roundtrip)

section \<open>DeleteSSHKey\<close>

text \<open>DeleteSSHKeyRequest is sent by clients to delete an SSH key\<close>

record DeleteSSHKeyRequest =
  DeleteSSHKey_KeyID :: "i64"

definition DeleteSSHKeyRequest_zero :: DeleteSSHKeyRequest where
  "DeleteSSHKeyRequest_zero = \<lparr>DeleteSSHKey_KeyID = 0\<rparr>"

definition DeleteSSHKeyRequest_EncodeTo :: "'w io_writer \<Rightarrow> DeleteSSHKeyRequest \<Rightarrow> 'w wr" where
  [msg_def]: "DeleteSSHKeyRequest_EncodeTo w m =
    WriteInt64 w (DeleteSSHKey_KeyID m)"

definition DeleteSSHKeyRequest_Encode :: "DeleteSSHKeyRequest \<Rightarrow> go_error + bytes" where
  [msg_def]: "DeleteSSHKeyRequest_Encode m = to_bytes (DeleteSSHKeyRequest_EncodeTo buffer m)"

definition DeleteSSHKeyRequest_Decode :: "DeleteSSHKeyRequest \<Rightarrow> bytes \<Rightarrow> DeleteSSHKeyRequest \<times> go_error option" where
  [msg_def]: "DeleteSSHKeyRequest_Decode m buf =
    read_then ReadInt64 buf m (\<lambda>keyID buf.
    (m\<lparr>DeleteSSHKey_KeyID := keyID\<rparr>, None))"

lemma DeleteSSHKeyRequest_roundtrip:
  "DeleteSSHKeyRequest_Encode m = Inr p \<Longrightarrow> DeleteSSHKeyRequest_Decode m0 p = (m, None)"
  by (cases m; cases m0) (auto simp: msg_def codec split: if_splits)

interpretation DeleteSSHKey: message_codec DeleteSSHKeyRequest_Encode DeleteSSHKeyRequest_Decode
  "\<lambda>m0 m. m" "\<lambda>m. True"
  by unfold_locales (rule DeleteSSHKeyRequest_roundtrip)

section \<open>SSHKeyDeleted\<close>

text \<open>SSHKeyDeletedResponse is sent by server after deleting an SSH key\<close>

record SSHKeyDeletedResponse =
  SSHKeyDeleted_Success :: "bool"
  SSHKeyDeleted_ErrorMessage :: "gostring"

definition SSHKeyDeletedResponse_zero :: SSHKeyDeletedResponse where
  "SSHKeyDeletedResponse_zero = \<lparr>SSHKeyDeleted_Success = False,
    SSHKeyDeleted_ErrorMessage = []\<rparr>"

definition SSHKeyDeletedResponse_EncodeTo :: "'w io_writer \<Rightarrow> SSHKeyDeletedResponse \<Rightarrow> 'w wr" where
  [msg_def]: "SSHKeyDeletedResponse_EncodeTo w m =
    steps
      [WriteBool w (SSHKeyDeleted_Success m),
       WriteString w (SSHKeyDeleted_ErrorMessage m)]"

definition SSHKeyDeletedResponse_Encode :: "SSHKeyDeletedResponse \<Rightarrow> go_error + bytes" where
  [msg_def]: "SSHKeyDeletedResponse_Encode m = to_bytes (SSHKeyDeletedResponse_EncodeTo buffer m)"

definition SSHKeyDeletedResponse_Decode :: "SSHKeyDeletedResponse \<Rightarrow> bytes \<Rightarrow> SSHKeyDeletedResponse \<times> go_error option" where
  [msg_def]: "SSHKeyDeletedResponse_Decode m buf =
    read_then ReadBool buf m (\<lambda>success buf.
    read_then ReadString buf m (\<lambda>errorMessage buf.
    (m\<lparr>SSHKeyDeleted_Success := success,
        SSHKeyDeleted_ErrorMessage := errorMessage\<rparr>, None)))"

lemma SSHKeyDeletedResponse_roundtrip:
  "SSHKeyDeletedResponse_Encode m = Inr p \<Longrightarrow> SSHKeyDeletedResponse_Decode m0 p = (m, None)"
  by (cases m; cases m0) (auto simp: msg_def codec split: if_splits)

interpretation SSHKeyDeleted: message_codec SSHKeyDeletedResponse_Encode SSHKeyDeletedResponse_Decode
  "\<lambda>m0 m. m" "\<lambda>m. True"
  by unfold_locales (rule SSHKeyDeletedResponse_roundtrip)

end
