(* ===== verification/MsgAdmin.thy ===== *)
theory MsgAdmin imports Frame UserFlags begin

text \<open>
  "pkg/protocol/messages.go": the messages of administration: bans and deletions.
  Each has its struct, its zero value (what "&T{}" makes), EncodeTo over any writer,
  Encode, and Decode into a receiver, as the source writes them; then the round trip and
  the interpretation of message_codec.
\<close>

section \<open>BanUser\<close>

text \<open>BanUserMessage (0x59) - Ban a user by user ID or nickname\<close>

record BanUserMessage =
  BanUser_UserID :: "u64 option"
  BanUser_Nickname :: "gostring option"
  BanUser_Reason :: "gostring"
  BanUser_Shadowban :: "bool"
  BanUser_DurationSeconds :: "u64 option"

definition BanUserMessage_zero :: BanUserMessage where
  "BanUserMessage_zero = \<lparr>BanUser_UserID = None,
    BanUser_Nickname = None,
    BanUser_Reason = [],
    BanUser_Shadowban = False,
    BanUser_DurationSeconds = None\<rparr>"

definition BanUserMessage_EncodeTo :: "'w io_writer \<Rightarrow> BanUserMessage \<Rightarrow> 'w wr" where
  [msg_def]: "BanUserMessage_EncodeTo w m =
    steps
      [WriteOptionalUint64 w (BanUser_UserID m),
       WriteOptionalString w (BanUser_Nickname m),
       WriteString w (BanUser_Reason m),
       WriteBool w (BanUser_Shadowban m),
       WriteOptionalUint64 w (BanUser_DurationSeconds m)]"

definition BanUserMessage_Encode :: "BanUserMessage \<Rightarrow> go_error + bytes" where
  [msg_def]: "BanUserMessage_Encode m = to_bytes (BanUserMessage_EncodeTo buffer m)"

definition BanUserMessage_Decode :: "BanUserMessage \<Rightarrow> bytes \<Rightarrow> BanUserMessage \<times> go_error option" where
  [msg_def]: "BanUserMessage_Decode m buf =
    read_then ReadOptionalUint64 buf m (\<lambda>userID buf.
    read_then ReadOptionalString buf m (\<lambda>nickname buf.
    read_then ReadString buf m (\<lambda>reason buf.
    read_then ReadBool buf m (\<lambda>shadowban buf.
    read_then ReadOptionalUint64 buf m (\<lambda>durationSeconds buf.
    (m\<lparr>BanUser_UserID := userID,
        BanUser_Nickname := nickname,
        BanUser_Reason := reason,
        BanUser_Shadowban := shadowban,
        BanUser_DurationSeconds := durationSeconds\<rparr>, None))))))"

lemma BanUserMessage_roundtrip:
  "BanUserMessage_Encode m = Inr p \<Longrightarrow> BanUserMessage_Decode m0 p = (m, None)"
  by (cases m; cases m0) (auto simp: msg_def codec split: if_splits)

interpretation BanUser: message_codec BanUserMessage_Encode BanUserMessage_Decode
  "\<lambda>m0 m. m" "\<lambda>m. True"
  by unfold_locales (rule BanUserMessage_roundtrip)

section \<open>UserBanned\<close>

text \<open>UserBannedMessage (0x9F) - Response to BAN_USER\<close>

record UserBannedMessage =
  UserBanned_Success :: "bool"
  UserBanned_BanID :: "u64"
  UserBanned_Message :: "gostring"

definition UserBannedMessage_zero :: UserBannedMessage where
  "UserBannedMessage_zero = \<lparr>UserBanned_Success = False,
    UserBanned_BanID = 0,
    UserBanned_Message = []\<rparr>"

definition UserBannedMessage_EncodeTo :: "'w io_writer \<Rightarrow> UserBannedMessage \<Rightarrow> 'w wr" where
  [msg_def]: "UserBannedMessage_EncodeTo w m =
    steps
      [WriteBool w (UserBanned_Success m),
       if (UserBanned_Success m) then steps
        [WriteUint64 w (UserBanned_BanID m)]
       else no_error,
       WriteString w (UserBanned_Message m)]"

definition UserBannedMessage_Encode :: "UserBannedMessage \<Rightarrow> go_error + bytes" where
  [msg_def]: "UserBannedMessage_Encode m = to_bytes (UserBannedMessage_EncodeTo buffer m)"

definition UserBannedMessage_Decode :: "UserBannedMessage \<Rightarrow> bytes \<Rightarrow> UserBannedMessage \<times> go_error option" where
  [msg_def]: "UserBannedMessage_Decode m buf =
    read_then ReadBool buf m (\<lambda>success buf.
    let m = m\<lparr>UserBanned_Success := success\<rparr> in
    let after = (\<lambda>m buf.
      read_then ReadString buf m (\<lambda>message buf.
      (m\<lparr>UserBanned_Message := message\<rparr>, None))) in
    if success then
      read_then ReadUint64 buf m (\<lambda>banID buf.
      after (m\<lparr>UserBanned_BanID := banID\<rparr>) buf)
    else after m buf)"

definition UserBannedMessage_received :: "UserBannedMessage \<Rightarrow> UserBannedMessage \<Rightarrow> UserBannedMessage" where
  "UserBannedMessage_received m0 m =
    (if UserBanned_Success m then m
     else m\<lparr>UserBanned_BanID := UserBanned_BanID m0\<rparr>)"

lemma UserBannedMessage_roundtrip:
  "UserBannedMessage_Encode m = Inr p \<Longrightarrow> UserBannedMessage_Decode m0 p = (UserBannedMessage_received m0 m, None)"
  by (cases m; cases m0) (auto simp: msg_def codec UserBannedMessage_received_def split: if_splits)

interpretation UserBanned: message_codec UserBannedMessage_Encode UserBannedMessage_Decode
  "UserBannedMessage_received" "\<lambda>m. True"
  by unfold_locales (rule UserBannedMessage_roundtrip)

section \<open>BanIP\<close>

text \<open>BanIPMessage (0x5A) - Ban an IP address or CIDR range\<close>

record BanIPMessage =
  BanIP_IPCIDR :: "gostring"
  BanIP_Reason :: "gostring"
  BanIP_DurationSeconds :: "u64 option"

definition BanIPMessage_zero :: BanIPMessage where
  "BanIPMessage_zero = \<lparr>BanIP_IPCIDR = [],
    BanIP_Reason = [],
    BanIP_DurationSeconds = None\<rparr>"

definition BanIPMessage_EncodeTo :: "'w io_writer \<Rightarrow> BanIPMessage \<Rightarrow> 'w wr" where
  [msg_def]: "BanIPMessage_EncodeTo w m =
    steps
      [WriteString w (BanIP_IPCIDR m),
       WriteString w (BanIP_Reason m),
       WriteOptionalUint64 w (BanIP_DurationSeconds m)]"

definition BanIPMessage_Encode :: "BanIPMessage \<Rightarrow> go_error + bytes" where
  [msg_def]: "BanIPMessage_Encode m = to_bytes (BanIPMessage_EncodeTo buffer m)"

definition BanIPMessage_Decode :: "BanIPMessage \<Rightarrow> bytes \<Rightarrow> BanIPMessage \<times> go_error option" where
  [msg_def]: "BanIPMessage_Decode m buf =
    read_then ReadString buf m (\<lambda>ipCIDR buf.
    read_then ReadString buf m (\<lambda>reason buf.
    read_then ReadOptionalUint64 buf m (\<lambda>durationSeconds buf.
    (m\<lparr>BanIP_IPCIDR := ipCIDR,
        BanIP_Reason := reason,
        BanIP_DurationSeconds := durationSeconds\<rparr>, None))))"

lemma BanIPMessage_roundtrip:
  "BanIPMessage_Encode m = Inr p \<Longrightarrow> BanIPMessage_Decode m0 p = (m, None)"
  by (cases m; cases m0) (auto simp: msg_def codec split: if_splits)

interpretation BanIP: message_codec BanIPMessage_Encode BanIPMessage_Decode
  "\<lambda>m0 m. m" "\<lambda>m. True"
  by unfold_locales (rule BanIPMessage_roundtrip)

section \<open>IPBanned\<close>

text \<open>IPBannedMessage (0xA5) - Response to BAN_IP\<close>

record IPBannedMessage =
  IPBanned_Success :: "bool"
  IPBanned_BanID :: "u64"
  IPBanned_Message :: "gostring"

definition IPBannedMessage_zero :: IPBannedMessage where
  "IPBannedMessage_zero = \<lparr>IPBanned_Success = False,
    IPBanned_BanID = 0,
    IPBanned_Message = []\<rparr>"

definition IPBannedMessage_EncodeTo :: "'w io_writer \<Rightarrow> IPBannedMessage \<Rightarrow> 'w wr" where
  [msg_def]: "IPBannedMessage_EncodeTo w m =
    steps
      [WriteBool w (IPBanned_Success m),
       if (IPBanned_Success m) then steps
        [WriteUint64 w (IPBanned_BanID m)]
       else no_error,
       WriteString w (IPBanned_Message m)]"

definition IPBannedMessage_Encode :: "IPBannedMessage \<Rightarrow> go_error + bytes" where
  [msg_def]: "IPBannedMessage_Encode m = to_bytes (IPBannedMessage_EncodeTo buffer m)"

definition IPBannedMessage_Decode :: "IPBannedMessage \<Rightarrow> bytes \<Rightarrow> IPBannedMessage \<times> go_error option" where
  [msg_def]: "IPBannedMessage_Decode m buf =
    read_then ReadBool buf m (\<lambda>success buf.
    let m = m\<lparr>IPBanned_Success := success\<rparr> in
    let after = (\<lambda>m buf.
      read_then ReadString buf m (\<lambda>message buf.
      (m\<lparr>IPBanned_Message := message\<rparr>, None))) in
    if success then
      read_then ReadUint64 buf m (\<lambda>banID buf.
      after (m\<lparr>IPBanned_BanID := banID\<rparr>) buf)
    else after m buf)"

definition IPBannedMessage_received :: "IPBannedMessage \<Rightarrow> IPBannedMessage \<Rightarrow> IPBannedMessage" where
  "IPBannedMessage_received m0 m =
    (if IPBanned_Success m then m
     else m\<lparr>IPBanned_BanID := IPBanned_BanID m0\<rparr>)"

lemma IPBannedMessage_roundtrip:
  "IPBannedMessage_Encode m = Inr p \<Longrightarrow> IPBannedMessage_Decode m0 p = (IPBannedMessage_received m0 m, None)"
  by (cases m; cases m0) (auto simp: msg_def codec IPBannedMessage_received_def split: if_splits)

interpretation IPBanned: message_codec IPBannedMessage_Encode IPBannedMessage_Decode
  "IPBannedMessage_received" "\<lambda>m. True"
  by unfold_locales (rule IPBannedMessage_roundtrip)

section \<open>UnbanUser\<close>

text \<open>UnbanUserMessage (0x5B) - Remove user ban\<close>

record UnbanUserMessage =
  UnbanUser_UserID :: "u64 option"
  UnbanUser_Nickname :: "gostring option"

definition UnbanUserMessage_zero :: UnbanUserMessage where
  "UnbanUserMessage_zero = \<lparr>UnbanUser_UserID = None,
    UnbanUser_Nickname = None\<rparr>"

definition UnbanUserMessage_EncodeTo :: "'w io_writer \<Rightarrow> UnbanUserMessage \<Rightarrow> 'w wr" where
  [msg_def]: "UnbanUserMessage_EncodeTo w m =
    steps
      [WriteOptionalUint64 w (UnbanUser_UserID m),
       WriteOptionalString w (UnbanUser_Nickname m)]"

definition UnbanUserMessage_Encode :: "UnbanUserMessage \<Rightarrow> go_error + bytes" where
  [msg_def]: "UnbanUserMessage_Encode m = to_bytes (UnbanUserMessage_EncodeTo buffer m)"

definition UnbanUserMessage_Decode :: "UnbanUserMessage \<Rightarrow> bytes \<Rightarrow> UnbanUserMessage \<times> go_error option" where
  [msg_def]: "UnbanUserMessage_Decode m buf =
    read_then ReadOptionalUint64 buf m (\<lambda>userID buf.
    read_then ReadOptionalString buf m (\<lambda>nickname buf.
    (m\<lparr>UnbanUser_UserID := userID,
        UnbanUser_Nickname := nickname\<rparr>, None)))"

lemma UnbanUserMessage_roundtrip:
  "UnbanUserMessage_Encode m = Inr p \<Longrightarrow> UnbanUserMessage_Decode m0 p = (m, None)"
  by (cases m; cases m0) (auto simp: msg_def codec split: if_splits)

interpretation UnbanUser: message_codec UnbanUserMessage_Encode UnbanUserMessage_Decode
  "\<lambda>m0 m. m" "\<lambda>m. True"
  by unfold_locales (rule UnbanUserMessage_roundtrip)

section \<open>UserUnbanned\<close>

text \<open>UserUnbannedMessage (0xA6) - Response to UNBAN_USER\<close>

record UserUnbannedMessage =
  UserUnbanned_Success :: "bool"
  UserUnbanned_Message :: "gostring"

definition UserUnbannedMessage_zero :: UserUnbannedMessage where
  "UserUnbannedMessage_zero = \<lparr>UserUnbanned_Success = False,
    UserUnbanned_Message = []\<rparr>"

definition UserUnbannedMessage_EncodeTo :: "'w io_writer \<Rightarrow> UserUnbannedMessage \<Rightarrow> 'w wr" where
  [msg_def]: "UserUnbannedMessage_EncodeTo w m =
    steps
      [WriteBool w (UserUnbanned_Success m),
       WriteString w (UserUnbanned_Message m)]"

definition UserUnbannedMessage_Encode :: "UserUnbannedMessage \<Rightarrow> go_error + bytes" where
  [msg_def]: "UserUnbannedMessage_Encode m = to_bytes (UserUnbannedMessage_EncodeTo buffer m)"

definition UserUnbannedMessage_Decode :: "UserUnbannedMessage \<Rightarrow> bytes \<Rightarrow> UserUnbannedMessage \<times> go_error option" where
  [msg_def]: "UserUnbannedMessage_Decode m buf =
    read_then ReadBool buf m (\<lambda>success buf.
    read_then ReadString buf m (\<lambda>message buf.
    (m\<lparr>UserUnbanned_Success := success,
        UserUnbanned_Message := message\<rparr>, None)))"

lemma UserUnbannedMessage_roundtrip:
  "UserUnbannedMessage_Encode m = Inr p \<Longrightarrow> UserUnbannedMessage_Decode m0 p = (m, None)"
  by (cases m; cases m0) (auto simp: msg_def codec split: if_splits)

interpretation UserUnbanned: message_codec UserUnbannedMessage_Encode UserUnbannedMessage_Decode
  "\<lambda>m0 m. m" "\<lambda>m. True"
  by unfold_locales (rule UserUnbannedMessage_roundtrip)

section \<open>UnbanIP\<close>

text \<open>UnbanIPMessage (0x5C) - Remove IP ban\<close>

record UnbanIPMessage =
  UnbanIP_IPCIDR :: "gostring"

definition UnbanIPMessage_zero :: UnbanIPMessage where
  "UnbanIPMessage_zero = \<lparr>UnbanIP_IPCIDR = []\<rparr>"

definition UnbanIPMessage_EncodeTo :: "'w io_writer \<Rightarrow> UnbanIPMessage \<Rightarrow> 'w wr" where
  [msg_def]: "UnbanIPMessage_EncodeTo w m =
    WriteString w (UnbanIP_IPCIDR m)"

definition UnbanIPMessage_Encode :: "UnbanIPMessage \<Rightarrow> go_error + bytes" where
  [msg_def]: "UnbanIPMessage_Encode m = to_bytes (UnbanIPMessage_EncodeTo buffer m)"

definition UnbanIPMessage_Decode :: "UnbanIPMessage \<Rightarrow> bytes \<Rightarrow> UnbanIPMessage \<times> go_error option" where
  [msg_def]: "UnbanIPMessage_Decode m buf =
    read_then ReadString buf m (\<lambda>ipCIDR buf.
    (m\<lparr>UnbanIP_IPCIDR := ipCIDR\<rparr>, None))"

lemma UnbanIPMessage_roundtrip:
  "UnbanIPMessage_Encode m = Inr p \<Longrightarrow> UnbanIPMessage_Decode m0 p = (m, None)"
  by (cases m; cases m0) (auto simp: msg_def codec split: if_splits)

interpretation UnbanIP: message_codec UnbanIPMessage_Encode UnbanIPMessage_Decode
  "\<lambda>m0 m. m" "\<lambda>m. True"
  by unfold_locales (rule UnbanIPMessage_roundtrip)

section \<open>IPUnbanned\<close>

text \<open>IPUnbannedMessage (0xA7) - Response to UNBAN_IP\<close>

record IPUnbannedMessage =
  IPUnbanned_Success :: "bool"
  IPUnbanned_Message :: "gostring"

definition IPUnbannedMessage_zero :: IPUnbannedMessage where
  "IPUnbannedMessage_zero = \<lparr>IPUnbanned_Success = False,
    IPUnbanned_Message = []\<rparr>"

definition IPUnbannedMessage_EncodeTo :: "'w io_writer \<Rightarrow> IPUnbannedMessage \<Rightarrow> 'w wr" where
  [msg_def]: "IPUnbannedMessage_EncodeTo w m =
    steps
      [WriteBool w (IPUnbanned_Success m),
       WriteString w (IPUnbanned_Message m)]"

definition IPUnbannedMessage_Encode :: "IPUnbannedMessage \<Rightarrow> go_error + bytes" where
  [msg_def]: "IPUnbannedMessage_Encode m = to_bytes (IPUnbannedMessage_EncodeTo buffer m)"

definition IPUnbannedMessage_Decode :: "IPUnbannedMessage \<Rightarrow> bytes \<Rightarrow> IPUnbannedMessage \<times> go_error option" where
  [msg_def]: "IPUnbannedMessage_Decode m buf =
    read_then ReadBool buf m (\<lambda>success buf.
    read_then ReadString buf m (\<lambda>message buf.
    (m\<lparr>IPUnbanned_Success := success,
        IPUnbanned_Message := message\<rparr>, None)))"

lemma IPUnbannedMessage_roundtrip:
  "IPUnbannedMessage_Encode m = Inr p \<Longrightarrow> IPUnbannedMessage_Decode m0 p = (m, None)"
  by (cases m; cases m0) (auto simp: msg_def codec split: if_splits)

interpretation IPUnbanned: message_codec IPUnbannedMessage_Encode IPUnbannedMessage_Decode
  "\<lambda>m0 m. m" "\<lambda>m. True"
  by unfold_locales (rule IPUnbannedMessage_roundtrip)

section \<open>ListBans\<close>

text \<open>ListBansMessage (0x5D) - Request list of all active bans\<close>

record ListBansMessage =
  ListBans_IncludeExpired :: "bool"

definition ListBansMessage_zero :: ListBansMessage where
  "ListBansMessage_zero = \<lparr>ListBans_IncludeExpired = False\<rparr>"

definition ListBansMessage_EncodeTo :: "'w io_writer \<Rightarrow> ListBansMessage \<Rightarrow> 'w wr" where
  [msg_def]: "ListBansMessage_EncodeTo w m =
    WriteBool w (ListBans_IncludeExpired m)"

definition ListBansMessage_Encode :: "ListBansMessage \<Rightarrow> go_error + bytes" where
  [msg_def]: "ListBansMessage_Encode m = to_bytes (ListBansMessage_EncodeTo buffer m)"

definition ListBansMessage_Decode :: "ListBansMessage \<Rightarrow> bytes \<Rightarrow> ListBansMessage \<times> go_error option" where
  [msg_def]: "ListBansMessage_Decode m buf =
    read_then ReadBool buf m (\<lambda>includeExpired buf.
    (m\<lparr>ListBans_IncludeExpired := includeExpired\<rparr>, None))"

lemma ListBansMessage_roundtrip:
  "ListBansMessage_Encode m = Inr p \<Longrightarrow> ListBansMessage_Decode m0 p = (m, None)"
  by (cases m; cases m0) (auto simp: msg_def codec split: if_splits)

interpretation ListBans: message_codec ListBansMessage_Encode ListBansMessage_Decode
  "\<lambda>m0 m. m" "\<lambda>m. True"
  by unfold_locales (rule ListBansMessage_roundtrip)

section \<open>BanList\<close>

text \<open>BanListMessage (0xA8) - List of active bans\<close>

record BanEntry =
  BanEntry_ID :: "u64"
  BanEntry_Type :: "gostring"
  BanEntry_UserID :: "u64 option"
  BanEntry_Nickname :: "gostring option"
  BanEntry_IPCIDR :: "gostring option"
  BanEntry_Reason :: "gostring"
  BanEntry_Shadowban :: "bool"
  BanEntry_BannedAt :: "i64"
  BanEntry_BannedUntil :: "i64 option"
  BanEntry_BannedBy :: "gostring"

definition BanEntry_zero :: BanEntry where
  "BanEntry_zero = \<lparr>BanEntry_ID = 0,
    BanEntry_Type = [],
    BanEntry_UserID = None,
    BanEntry_Nickname = None,
    BanEntry_IPCIDR = None,
    BanEntry_Reason = [],
    BanEntry_Shadowban = False,
    BanEntry_BannedAt = 0,
    BanEntry_BannedUntil = None,
    BanEntry_BannedBy = []\<rparr>"

definition BanEntry_put :: "'w io_writer \<Rightarrow> BanEntry \<Rightarrow> 'w wr" where
  "BanEntry_put w x = steps
      [WriteUint64 w (BanEntry_ID x),
       WriteString w (BanEntry_Type x),
       WriteOptionalUint64 w (BanEntry_UserID x),
       WriteOptionalString w (BanEntry_Nickname x),
       WriteOptionalString w (BanEntry_IPCIDR x),
       WriteString w (BanEntry_Reason x),
       WriteBool w (BanEntry_Shadowban x),
       WriteInt64 w (BanEntry_BannedAt x),
       WriteOptionalInt64 w (BanEntry_BannedUntil x),
       WriteString w (BanEntry_BannedBy x)]"

definition BanEntry_get :: "BanEntry rd" where
  "BanEntry_get =
    rd_bind ReadUint64 (\<lambda>id.
    rd_bind ReadString (\<lambda>banType.
    rd_bind ReadOptionalUint64 (\<lambda>userID.
    rd_bind ReadOptionalString (\<lambda>nickname.
    rd_bind ReadOptionalString (\<lambda>ipCIDR.
    rd_bind ReadString (\<lambda>reason.
    rd_bind ReadBool (\<lambda>shadowban.
    rd_bind ReadInt64 (\<lambda>bannedAt.
    rd_bind ReadOptionalInt64 (\<lambda>bannedUntil.
    rd_bind ReadString (\<lambda>bannedBy.
    rd_return \<lparr>BanEntry_ID = id,
      BanEntry_Type = banType,
      BanEntry_UserID = userID,
      BanEntry_Nickname = nickname,
      BanEntry_IPCIDR = ipCIDR,
      BanEntry_Reason = reason,
      BanEntry_Shadowban = shadowban,
      BanEntry_BannedAt = bannedAt,
      BanEntry_BannedUntil = bannedUntil,
      BanEntry_BannedBy = bannedBy\<rparr>))))))))))"

definition BanEntry_wire :: "BanEntry \<Rightarrow> bytes" where
  "BanEntry_wire x = PutUint64 (BanEntry_ID x) @
    string_wire (BanEntry_Type x) @
    option_wire PutUint64 (BanEntry_UserID x) @
    option_wire string_wire (BanEntry_Nickname x) @
    option_wire string_wire (BanEntry_IPCIDR x) @
    string_wire (BanEntry_Reason x) @
    bool_wire (BanEntry_Shadowban x) @
    PutUint64 (BanEntry_BannedAt x) @
    option_wire PutUint64 (BanEntry_BannedUntil x) @
    string_wire (BanEntry_BannedBy x)"

definition BanEntry_ok :: "BanEntry \<Rightarrow> bool" where
  "BanEntry_ok x \<longleftrightarrow> string_ok (BanEntry_Type x) \<and>
    pred_option string_ok (BanEntry_Nickname x) \<and>
    pred_option string_ok (BanEntry_IPCIDR x) \<and>
    string_ok (BanEntry_Reason x) \<and>
    string_ok (BanEntry_BannedBy x)"

interpretation BanEntry: element_codec BanEntry_put BanEntry_get BanEntry_ok BanEntry_wire id
  by unfold_locales (auto simp: BanEntry_put_def BanEntry_get_def BanEntry_ok_def BanEntry_wire_def codec)

lemmas [codec] = BanEntry.put_all_uniform BanEntry.put_all BanEntry.fill_slice BanEntry.fill_slice_end

record BanListMessage =
  BanList_Bans :: "BanEntry list"

definition BanListMessage_zero :: BanListMessage where
  "BanListMessage_zero = \<lparr>BanList_Bans = []\<rparr>"

definition BanListMessage_EncodeTo :: "'w io_writer \<Rightarrow> BanListMessage \<Rightarrow> 'w wr" where
  [msg_def]: "BanListMessage_EncodeTo w m =
    steps
      [WriteUint16 w (of_nat (length (BanList_Bans m))),
       steps (map (BanEntry_put w) (BanList_Bans m))]"

definition BanListMessage_Encode :: "BanListMessage \<Rightarrow> go_error + bytes" where
  [msg_def]: "BanListMessage_Encode m = to_bytes (BanListMessage_EncodeTo buffer m)"

definition BanListMessage_Decode :: "BanListMessage \<Rightarrow> bytes \<Rightarrow> BanListMessage \<times> go_error option" where
  [msg_def]: "BanListMessage_Decode m buf =
    read_then ReadUint16 buf m (\<lambda>count buf.
    (case fill_loop BanEntry_get 0 (unat count) (replicate (unat count) BanEntry_zero) buf of
       (xs, Inl e) \<Rightarrow> (m\<lparr>BanList_Bans := xs\<rparr>, Some e)
     | (xs, Inr buf) \<Rightarrow> (m\<lparr>BanList_Bans := xs\<rparr>, None)))"

definition BanListMessage_sendable :: "BanListMessage \<Rightarrow> bool" where
  "BanListMessage_sendable m \<longleftrightarrow> length (BanList_Bans m) < 2 ^ 16"

lemma BanListMessage_roundtrip:
  "BanListMessage_Encode m = Inr p \<Longrightarrow> BanListMessage_sendable m \<Longrightarrow>
   BanListMessage_Decode m0 p = (m, None)"
  by (cases m; cases m0) (auto simp: msg_def codec BanListMessage_sendable_def split: if_splits)

interpretation BanList: message_codec BanListMessage_Encode BanListMessage_Decode
  "\<lambda>m0 m. m" "BanListMessage_sendable"
  by unfold_locales (rule BanListMessage_roundtrip)

section \<open>DeleteUser\<close>

text \<open>DeleteUserMessage (0x5E) - Permanently delete a user account\<close>

record DeleteUserMessage =
  DeleteUser_UserID :: "u64"

definition DeleteUserMessage_zero :: DeleteUserMessage where
  "DeleteUserMessage_zero = \<lparr>DeleteUser_UserID = 0\<rparr>"

definition DeleteUserMessage_EncodeTo :: "'w io_writer \<Rightarrow> DeleteUserMessage \<Rightarrow> 'w wr" where
  [msg_def]: "DeleteUserMessage_EncodeTo w m =
    WriteUint64 w (DeleteUser_UserID m)"

definition DeleteUserMessage_Encode :: "DeleteUserMessage \<Rightarrow> go_error + bytes" where
  [msg_def]: "DeleteUserMessage_Encode m = to_bytes (DeleteUserMessage_EncodeTo buffer m)"

definition DeleteUserMessage_Decode :: "DeleteUserMessage \<Rightarrow> bytes \<Rightarrow> DeleteUserMessage \<times> go_error option" where
  [msg_def]: "DeleteUserMessage_Decode m buf =
    read_then ReadUint64 buf m (\<lambda>userID buf.
    (m\<lparr>DeleteUser_UserID := userID\<rparr>, None))"

lemma DeleteUserMessage_roundtrip:
  "DeleteUserMessage_Encode m = Inr p \<Longrightarrow> DeleteUserMessage_Decode m0 p = (m, None)"
  by (cases m; cases m0) (auto simp: msg_def codec split: if_splits)

interpretation DeleteUser: message_codec DeleteUserMessage_Encode DeleteUserMessage_Decode
  "\<lambda>m0 m. m" "\<lambda>m. True"
  by unfold_locales (rule DeleteUserMessage_roundtrip)

section \<open>UserDeleted\<close>

text \<open>UserDeletedMessage (0xA9) - Response to DELETE_USER\<close>

record UserDeletedMessage =
  UserDeleted_Success :: "bool"
  UserDeleted_Message :: "gostring"

definition UserDeletedMessage_zero :: UserDeletedMessage where
  "UserDeletedMessage_zero = \<lparr>UserDeleted_Success = False,
    UserDeleted_Message = []\<rparr>"

definition UserDeletedMessage_EncodeTo :: "'w io_writer \<Rightarrow> UserDeletedMessage \<Rightarrow> 'w wr" where
  [msg_def]: "UserDeletedMessage_EncodeTo w m =
    steps
      [WriteBool w (UserDeleted_Success m),
       WriteString w (UserDeleted_Message m)]"

definition UserDeletedMessage_Encode :: "UserDeletedMessage \<Rightarrow> go_error + bytes" where
  [msg_def]: "UserDeletedMessage_Encode m = to_bytes (UserDeletedMessage_EncodeTo buffer m)"

definition UserDeletedMessage_Decode :: "UserDeletedMessage \<Rightarrow> bytes \<Rightarrow> UserDeletedMessage \<times> go_error option" where
  [msg_def]: "UserDeletedMessage_Decode m buf =
    read_then ReadBool buf m (\<lambda>success buf.
    read_then ReadString buf m (\<lambda>message buf.
    (m\<lparr>UserDeleted_Success := success,
        UserDeleted_Message := message\<rparr>, None)))"

lemma UserDeletedMessage_roundtrip:
  "UserDeletedMessage_Encode m = Inr p \<Longrightarrow> UserDeletedMessage_Decode m0 p = (m, None)"
  by (cases m; cases m0) (auto simp: msg_def codec split: if_splits)

interpretation UserDeleted: message_codec UserDeletedMessage_Encode UserDeletedMessage_Decode
  "\<lambda>m0 m. m" "\<lambda>m. True"
  by unfold_locales (rule UserDeletedMessage_roundtrip)

section \<open>DeleteChannel\<close>

text \<open>DeleteChannelMessage (0x5F) - Delete a channel (admin only)\<close>

record DeleteChannelMessage =
  DeleteChannel_ChannelID :: "u64"
  DeleteChannel_Reason :: "gostring"

definition DeleteChannelMessage_zero :: DeleteChannelMessage where
  "DeleteChannelMessage_zero = \<lparr>DeleteChannel_ChannelID = 0,
    DeleteChannel_Reason = []\<rparr>"

definition DeleteChannelMessage_EncodeTo :: "'w io_writer \<Rightarrow> DeleteChannelMessage \<Rightarrow> 'w wr" where
  [msg_def]: "DeleteChannelMessage_EncodeTo w m =
    steps
      [WriteUint64 w (DeleteChannel_ChannelID m),
       WriteString w (DeleteChannel_Reason m)]"

definition DeleteChannelMessage_Encode :: "DeleteChannelMessage \<Rightarrow> go_error + bytes" where
  [msg_def]: "DeleteChannelMessage_Encode m = to_bytes (DeleteChannelMessage_EncodeTo buffer m)"

definition DeleteChannelMessage_Decode :: "DeleteChannelMessage \<Rightarrow> bytes \<Rightarrow> DeleteChannelMessage \<times> go_error option" where
  [msg_def]: "DeleteChannelMessage_Decode m buf =
    read_then ReadUint64 buf m (\<lambda>channelID buf.
    read_then ReadString buf m (\<lambda>reason buf.
    (m\<lparr>DeleteChannel_ChannelID := channelID,
        DeleteChannel_Reason := reason\<rparr>, None)))"

lemma DeleteChannelMessage_roundtrip:
  "DeleteChannelMessage_Encode m = Inr p \<Longrightarrow> DeleteChannelMessage_Decode m0 p = (m, None)"
  by (cases m; cases m0) (auto simp: msg_def codec split: if_splits)

interpretation DeleteChannel: message_codec DeleteChannelMessage_Encode DeleteChannelMessage_Decode
  "\<lambda>m0 m. m" "\<lambda>m. True"
  by unfold_locales (rule DeleteChannelMessage_roundtrip)

section \<open>ChannelDeleted\<close>

text \<open>ChannelDeletedMessage (0xAA) - Response to DELETE_CHANNEL + broadcast\<close>

record ChannelDeletedMessage =
  ChannelDeleted_Success :: "bool"
  ChannelDeleted_ChannelID :: "u64"
  ChannelDeleted_Message :: "gostring"

definition ChannelDeletedMessage_zero :: ChannelDeletedMessage where
  "ChannelDeletedMessage_zero = \<lparr>ChannelDeleted_Success = False,
    ChannelDeleted_ChannelID = 0,
    ChannelDeleted_Message = []\<rparr>"

definition ChannelDeletedMessage_EncodeTo :: "'w io_writer \<Rightarrow> ChannelDeletedMessage \<Rightarrow> 'w wr" where
  [msg_def]: "ChannelDeletedMessage_EncodeTo w m =
    steps
      [WriteBool w (ChannelDeleted_Success m),
       WriteUint64 w (ChannelDeleted_ChannelID m),
       WriteString w (ChannelDeleted_Message m)]"

definition ChannelDeletedMessage_Encode :: "ChannelDeletedMessage \<Rightarrow> go_error + bytes" where
  [msg_def]: "ChannelDeletedMessage_Encode m = to_bytes (ChannelDeletedMessage_EncodeTo buffer m)"

definition ChannelDeletedMessage_Decode :: "ChannelDeletedMessage \<Rightarrow> bytes \<Rightarrow> ChannelDeletedMessage \<times> go_error option" where
  [msg_def]: "ChannelDeletedMessage_Decode m buf =
    read_then ReadBool buf m (\<lambda>success buf.
    read_then ReadUint64 buf m (\<lambda>channelID buf.
    read_then ReadString buf m (\<lambda>message buf.
    (m\<lparr>ChannelDeleted_Success := success,
        ChannelDeleted_ChannelID := channelID,
        ChannelDeleted_Message := message\<rparr>, None))))"

lemma ChannelDeletedMessage_roundtrip:
  "ChannelDeletedMessage_Encode m = Inr p \<Longrightarrow> ChannelDeletedMessage_Decode m0 p = (m, None)"
  by (cases m; cases m0) (auto simp: msg_def codec split: if_splits)

interpretation ChannelDeleted: message_codec ChannelDeletedMessage_Encode ChannelDeletedMessage_Decode
  "\<lambda>m0 m. m" "\<lambda>m. True"
  by unfold_locales (rule ChannelDeletedMessage_roundtrip)

end
