(* ===== verification/MsgUnread.thy ===== *)
theory MsgUnread imports Frame UserFlags begin

text \<open>
  "pkg/protocol/messages.go": the messages of unread counts and read state.
  Each has its struct, its zero value (what "&T{}" makes), EncodeTo over any writer,
  Encode, and Decode into a receiver, as the source writes them; then the round trip and
  the interpretation of message_codec.
\<close>

section \<open>GetUnreadCounts\<close>

text \<open>GetUnreadCountsMessage (0x18) - Request unread counts for channels\<close>

record UnreadTarget =
  UnreadTarget_ChannelID :: "u64"
  UnreadTarget_SubchannelID :: "u64 option"
  UnreadTarget_ThreadID :: "u64 option"

definition UnreadTarget_zero :: UnreadTarget where
  "UnreadTarget_zero = \<lparr>UnreadTarget_ChannelID = 0,
    UnreadTarget_SubchannelID = None,
    UnreadTarget_ThreadID = None\<rparr>"

definition UnreadTarget_put :: "'w io_writer \<Rightarrow> UnreadTarget \<Rightarrow> 'w wr" where
  "UnreadTarget_put w x = steps
      [WriteUint64 w (UnreadTarget_ChannelID x),
       WriteOptionalUint64 w (UnreadTarget_SubchannelID x),
       WriteOptionalUint64 w (UnreadTarget_ThreadID x)]"

definition UnreadTarget_get :: "UnreadTarget rd" where
  "UnreadTarget_get =
    rd_bind ReadUint64 (\<lambda>channelID.
    rd_bind ReadOptionalUint64 (\<lambda>subchannelID.
    rd_bind ReadOptionalUint64 (\<lambda>threadID.
    rd_return \<lparr>UnreadTarget_ChannelID = channelID,
      UnreadTarget_SubchannelID = subchannelID,
      UnreadTarget_ThreadID = threadID\<rparr>)))"

definition UnreadTarget_wire :: "UnreadTarget \<Rightarrow> bytes" where
  "UnreadTarget_wire x = PutUint64 (UnreadTarget_ChannelID x) @
    option_wire PutUint64 (UnreadTarget_SubchannelID x) @
    option_wire PutUint64 (UnreadTarget_ThreadID x)"

definition UnreadTarget_ok :: "UnreadTarget \<Rightarrow> bool" where
  "UnreadTarget_ok x \<longleftrightarrow> True"

interpretation UnreadTarget: element_codec UnreadTarget_put UnreadTarget_get UnreadTarget_ok UnreadTarget_wire id
  by unfold_locales (auto simp: UnreadTarget_put_def UnreadTarget_get_def UnreadTarget_ok_def UnreadTarget_wire_def codec)

lemmas [codec] = UnreadTarget.put_all_uniform UnreadTarget.put_all UnreadTarget.fill_slice UnreadTarget.fill_slice_end

record GetUnreadCountsMessage =
  GetUnreadCounts_SinceTimestamp :: "i64 option"
  GetUnreadCounts_Targets :: "UnreadTarget list"

definition GetUnreadCountsMessage_zero :: GetUnreadCountsMessage where
  "GetUnreadCountsMessage_zero = \<lparr>GetUnreadCounts_SinceTimestamp = None,
    GetUnreadCounts_Targets = []\<rparr>"

definition GetUnreadCountsMessage_EncodeTo :: "'w io_writer \<Rightarrow> GetUnreadCountsMessage \<Rightarrow> 'w wr" where
  [msg_def]: "GetUnreadCountsMessage_EncodeTo w m =
    steps
      [WriteOptionalInt64 w (GetUnreadCounts_SinceTimestamp m),
       WriteUint16 w (of_nat (length (GetUnreadCounts_Targets m))),
       steps (map (UnreadTarget_put w) (GetUnreadCounts_Targets m))]"

definition GetUnreadCountsMessage_Encode :: "GetUnreadCountsMessage \<Rightarrow> go_error + bytes" where
  [msg_def]: "GetUnreadCountsMessage_Encode m = to_bytes (GetUnreadCountsMessage_EncodeTo buffer m)"

definition GetUnreadCountsMessage_Decode :: "GetUnreadCountsMessage \<Rightarrow> bytes \<Rightarrow> GetUnreadCountsMessage \<times> go_error option" where
  [msg_def]: "GetUnreadCountsMessage_Decode m buf =
    read_then ReadOptionalInt64 buf m (\<lambda>sinceTimestamp buf.
    read_then ReadUint16 buf m (\<lambda>targetCount buf.
    (case fill_loop UnreadTarget_get 0 (unat targetCount) (replicate (unat targetCount) UnreadTarget_zero) buf of
       (targets, Inl e) \<Rightarrow> (m, Some e)
     | (targets, Inr buf) \<Rightarrow>
        (m\<lparr>GetUnreadCounts_SinceTimestamp := sinceTimestamp,
            GetUnreadCounts_Targets := targets\<rparr>, None))))"

definition GetUnreadCountsMessage_sendable :: "GetUnreadCountsMessage \<Rightarrow> bool" where
  "GetUnreadCountsMessage_sendable m \<longleftrightarrow> length (GetUnreadCounts_Targets m) < 2 ^ 16"

lemma GetUnreadCountsMessage_roundtrip:
  "GetUnreadCountsMessage_Encode m = Inr p \<Longrightarrow> GetUnreadCountsMessage_sendable m \<Longrightarrow>
   GetUnreadCountsMessage_Decode m0 p = (m, None)"
  by (cases m; cases m0) (auto simp: msg_def codec GetUnreadCountsMessage_sendable_def split: if_splits)

interpretation GetUnreadCounts: message_codec GetUnreadCountsMessage_Encode GetUnreadCountsMessage_Decode
  "\<lambda>m0 m. m" "GetUnreadCountsMessage_sendable"
  by unfold_locales (rule GetUnreadCountsMessage_roundtrip)

section \<open>UnreadCounts\<close>

text \<open>UnreadCountsMessage (0x97) - Response with unread counts\<close>

record UnreadCount =
  UnreadCount_ChannelID :: "u64"
  UnreadCount_SubchannelID :: "u64 option"
  UnreadCount_ThreadID :: "u64 option"
  UnreadCount_UnreadCount :: "u32"

definition UnreadCount_zero :: UnreadCount where
  "UnreadCount_zero = \<lparr>UnreadCount_ChannelID = 0,
    UnreadCount_SubchannelID = None,
    UnreadCount_ThreadID = None,
    UnreadCount_UnreadCount = 0\<rparr>"

definition UnreadCount_put :: "'w io_writer \<Rightarrow> UnreadCount \<Rightarrow> 'w wr" where
  "UnreadCount_put w x = steps
      [WriteUint64 w (UnreadCount_ChannelID x),
       WriteOptionalUint64 w (UnreadCount_SubchannelID x),
       WriteOptionalUint64 w (UnreadCount_ThreadID x),
       WriteUint32 w (UnreadCount_UnreadCount x)]"

definition UnreadCount_get :: "UnreadCount rd" where
  "UnreadCount_get =
    rd_bind ReadUint64 (\<lambda>channelID.
    rd_bind ReadOptionalUint64 (\<lambda>subchannelID.
    rd_bind ReadOptionalUint64 (\<lambda>threadID.
    rd_bind ReadUint32 (\<lambda>unreadCount.
    rd_return \<lparr>UnreadCount_ChannelID = channelID,
      UnreadCount_SubchannelID = subchannelID,
      UnreadCount_ThreadID = threadID,
      UnreadCount_UnreadCount = unreadCount\<rparr>))))"

definition UnreadCount_wire :: "UnreadCount \<Rightarrow> bytes" where
  "UnreadCount_wire x = PutUint64 (UnreadCount_ChannelID x) @
    option_wire PutUint64 (UnreadCount_SubchannelID x) @
    option_wire PutUint64 (UnreadCount_ThreadID x) @
    PutUint32 (UnreadCount_UnreadCount x)"

definition UnreadCount_ok :: "UnreadCount \<Rightarrow> bool" where
  "UnreadCount_ok x \<longleftrightarrow> True"

interpretation UnreadCount: element_codec UnreadCount_put UnreadCount_get UnreadCount_ok UnreadCount_wire id
  by unfold_locales (auto simp: UnreadCount_put_def UnreadCount_get_def UnreadCount_ok_def UnreadCount_wire_def codec)

lemmas [codec] = UnreadCount.put_all_uniform UnreadCount.put_all UnreadCount.fill_slice UnreadCount.fill_slice_end

record UnreadCountsMessage =
  UnreadCounts_Counts :: "UnreadCount list"

definition UnreadCountsMessage_zero :: UnreadCountsMessage where
  "UnreadCountsMessage_zero = \<lparr>UnreadCounts_Counts = []\<rparr>"

definition UnreadCountsMessage_EncodeTo :: "'w io_writer \<Rightarrow> UnreadCountsMessage \<Rightarrow> 'w wr" where
  [msg_def]: "UnreadCountsMessage_EncodeTo w m =
    steps
      [WriteUint16 w (of_nat (length (UnreadCounts_Counts m))),
       steps (map (UnreadCount_put w) (UnreadCounts_Counts m))]"

definition UnreadCountsMessage_Encode :: "UnreadCountsMessage \<Rightarrow> go_error + bytes" where
  [msg_def]: "UnreadCountsMessage_Encode m = to_bytes (UnreadCountsMessage_EncodeTo buffer m)"

definition UnreadCountsMessage_Decode :: "UnreadCountsMessage \<Rightarrow> bytes \<Rightarrow> UnreadCountsMessage \<times> go_error option" where
  [msg_def]: "UnreadCountsMessage_Decode m buf =
    read_then ReadUint16 buf m (\<lambda>countCount buf.
    (case fill_loop UnreadCount_get 0 (unat countCount) (replicate (unat countCount) UnreadCount_zero) buf of
       (counts, Inl e) \<Rightarrow> (m, Some e)
     | (counts, Inr buf) \<Rightarrow>
        (m\<lparr>UnreadCounts_Counts := counts\<rparr>, None)))"

definition UnreadCountsMessage_sendable :: "UnreadCountsMessage \<Rightarrow> bool" where
  "UnreadCountsMessage_sendable m \<longleftrightarrow> length (UnreadCounts_Counts m) < 2 ^ 16"

lemma UnreadCountsMessage_roundtrip:
  "UnreadCountsMessage_Encode m = Inr p \<Longrightarrow> UnreadCountsMessage_sendable m \<Longrightarrow>
   UnreadCountsMessage_Decode m0 p = (m, None)"
  by (cases m; cases m0) (auto simp: msg_def codec UnreadCountsMessage_sendable_def split: if_splits)

interpretation UnreadCounts: message_codec UnreadCountsMessage_Encode UnreadCountsMessage_Decode
  "\<lambda>m0 m. m" "UnreadCountsMessage_sendable"
  by unfold_locales (rule UnreadCountsMessage_roundtrip)

section \<open>UpdateReadState\<close>

text \<open>UpdateReadStateMessage (0x1D) - Update last read timestamp for a channel\<close>

record UpdateReadStateMessage =
  UpdateReadState_ChannelID :: "u64"
  UpdateReadState_SubchannelID :: "u64 option"
  UpdateReadState_Timestamp :: "i64"

definition UpdateReadStateMessage_zero :: UpdateReadStateMessage where
  "UpdateReadStateMessage_zero = \<lparr>UpdateReadState_ChannelID = 0,
    UpdateReadState_SubchannelID = None,
    UpdateReadState_Timestamp = 0\<rparr>"

definition UpdateReadStateMessage_EncodeTo :: "'w io_writer \<Rightarrow> UpdateReadStateMessage \<Rightarrow> 'w wr" where
  [msg_def]: "UpdateReadStateMessage_EncodeTo w m =
    steps
      [WriteUint64 w (UpdateReadState_ChannelID m),
       WriteOptionalUint64 w (UpdateReadState_SubchannelID m),
       WriteInt64 w (UpdateReadState_Timestamp m)]"

definition UpdateReadStateMessage_Encode :: "UpdateReadStateMessage \<Rightarrow> go_error + bytes" where
  [msg_def]: "UpdateReadStateMessage_Encode m = to_bytes (UpdateReadStateMessage_EncodeTo buffer m)"

definition UpdateReadStateMessage_Decode :: "UpdateReadStateMessage \<Rightarrow> bytes \<Rightarrow> UpdateReadStateMessage \<times> go_error option" where
  [msg_def]: "UpdateReadStateMessage_Decode m buf =
    read_then ReadUint64 buf m (\<lambda>channelID buf.
    read_then ReadOptionalUint64 buf m (\<lambda>subchannelID buf.
    read_then ReadInt64 buf m (\<lambda>timestamp buf.
    (m\<lparr>UpdateReadState_ChannelID := channelID,
        UpdateReadState_SubchannelID := subchannelID,
        UpdateReadState_Timestamp := timestamp\<rparr>, None))))"

lemma UpdateReadStateMessage_roundtrip:
  "UpdateReadStateMessage_Encode m = Inr p \<Longrightarrow> UpdateReadStateMessage_Decode m0 p = (m, None)"
  by (cases m; cases m0) (auto simp: msg_def codec split: if_splits)

interpretation UpdateReadState: message_codec UpdateReadStateMessage_Encode UpdateReadStateMessage_Decode
  "\<lambda>m0 m. m" "\<lambda>m. True"
  by unfold_locales (rule UpdateReadStateMessage_roundtrip)

end
