(* ===== verification/Protocol.thy ===== *)
theory Protocol imports MsgAuth MsgChannel MsgMessage MsgSession MsgUsers MsgDiscovery MsgSSH MsgAdmin MsgUnread begin

text \<open>
  The protocol as a whole: the type codes of "pkg/protocol/messages.go", the interface
  ProtocolMessage that every message type implements, and the step every receiver begins
  with, choosing the struct to decode into by the type code of the frame. The lemmas lift the
  round trips of the single message types to the whole protocol and to frames on a connection.
\<close>

section \<open>Type codes\<close>

definition TypeAuthRequest :: u8 where
  [type_code]: "TypeAuthRequest = 0x01"

definition TypeSetNickname :: u8 where
  [type_code]: "TypeSetNickname = 0x02"

definition TypeRegisterUser :: u8 where
  [type_code]: "TypeRegisterUser = 0x03"

definition TypeListChannels :: u8 where
  [type_code]: "TypeListChannels = 0x04"

definition TypeJoinChannel :: u8 where
  [type_code]: "TypeJoinChannel = 0x05"

definition TypeLeaveChannel :: u8 where
  [type_code]: "TypeLeaveChannel = 0x06"

definition TypeCreateChannel :: u8 where
  [type_code]: "TypeCreateChannel = 0x07"

definition TypeListMessages :: u8 where
  [type_code]: "TypeListMessages = 0x09"

definition TypePostMessage :: u8 where
  [type_code]: "TypePostMessage = 0x0A"

definition TypeEditMessage :: u8 where
  [type_code]: "TypeEditMessage = 0x0B"

definition TypeDeleteMessage :: u8 where
  [type_code]: "TypeDeleteMessage = 0x0C"

definition TypeAddSSHKey :: u8 where
  [type_code]: "TypeAddSSHKey = 0x0D"

definition TypeChangePassword :: u8 where
  [type_code]: "TypeChangePassword = 0x0E"

definition TypeGetUserInfo :: u8 where
  [type_code]: "TypeGetUserInfo = 0x0F"

definition TypeUpdateSSHKeyLabel :: u8 where
  [type_code]: "TypeUpdateSSHKeyLabel = 0x12"

definition TypeDeleteSSHKey :: u8 where
  [type_code]: "TypeDeleteSSHKey = 0x13"

definition TypeListSSHKeys :: u8 where
  [type_code]: "TypeListSSHKeys = 0x14"

definition TypeLogout :: u8 where
  [type_code]: "TypeLogout = 0x1C"

definition TypePing :: u8 where
  [type_code]: "TypePing = 0x10"

definition TypeDisconnect :: u8 where
  [type_code]: "TypeDisconnect = 0x11"

definition TypeListUsers :: u8 where
  [type_code]: "TypeListUsers = 0x16"

definition TypeListChannelUsers :: u8 where
  [type_code]: "TypeListChannelUsers = 0x17"

definition TypeGetUnreadCounts :: u8 where
  [type_code]: "TypeGetUnreadCounts = 0x18"

definition TypeUpdateReadState :: u8 where
  [type_code]: "TypeUpdateReadState = 0x1D"

definition TypeSubscribeThread :: u8 where
  [type_code]: "TypeSubscribeThread = 0x51"

definition TypeUnsubscribeThread :: u8 where
  [type_code]: "TypeUnsubscribeThread = 0x52"

definition TypeSubscribeChannel :: u8 where
  [type_code]: "TypeSubscribeChannel = 0x53"

definition TypeUnsubscribeChannel :: u8 where
  [type_code]: "TypeUnsubscribeChannel = 0x54"

definition TypeListServers :: u8 where
  [type_code]: "TypeListServers = 0x55"

definition TypeRegisterServer :: u8 where
  [type_code]: "TypeRegisterServer = 0x56"

definition TypeHeartbeat :: u8 where
  [type_code]: "TypeHeartbeat = 0x57"

definition TypeVerifyResponse :: u8 where
  [type_code]: "TypeVerifyResponse = 0x58"

definition TypeBanUser :: u8 where
  [type_code]: "TypeBanUser = 0x59"

definition TypeBanIP :: u8 where
  [type_code]: "TypeBanIP = 0x5A"

definition TypeUnbanUser :: u8 where
  [type_code]: "TypeUnbanUser = 0x5B"

definition TypeUnbanIP :: u8 where
  [type_code]: "TypeUnbanIP = 0x5C"

definition TypeListBans :: u8 where
  [type_code]: "TypeListBans = 0x5D"

definition TypeDeleteUser :: u8 where
  [type_code]: "TypeDeleteUser = 0x5E"

definition TypeDeleteChannel :: u8 where
  [type_code]: "TypeDeleteChannel = 0x5F"

definition TypeAuthResponse :: u8 where
  [type_code]: "TypeAuthResponse = 0x81"

definition TypeNicknameResponse :: u8 where
  [type_code]: "TypeNicknameResponse = 0x82"

definition TypeRegisterResponse :: u8 where
  [type_code]: "TypeRegisterResponse = 0x83"

definition TypeChannelList :: u8 where
  [type_code]: "TypeChannelList = 0x84"

definition TypeJoinResponse :: u8 where
  [type_code]: "TypeJoinResponse = 0x85"

definition TypeLeaveResponse :: u8 where
  [type_code]: "TypeLeaveResponse = 0x86"

definition TypeChannelCreated :: u8 where
  [type_code]: "TypeChannelCreated = 0x87"

definition TypeMessageList :: u8 where
  [type_code]: "TypeMessageList = 0x89"

definition TypeMessagePosted :: u8 where
  [type_code]: "TypeMessagePosted = 0x8A"

definition TypeMessageEdited :: u8 where
  [type_code]: "TypeMessageEdited = 0x8B"

definition TypeMessageDeleted :: u8 where
  [type_code]: "TypeMessageDeleted = 0x8C"

definition TypeNewMessage :: u8 where
  [type_code]: "TypeNewMessage = 0x8D"

definition TypePasswordChanged :: u8 where
  [type_code]: "TypePasswordChanged = 0x8E"

definition TypeUserInfo :: u8 where
  [type_code]: "TypeUserInfo = 0x8F"

definition TypePong :: u8 where
  [type_code]: "TypePong = 0x90"

definition TypeError :: u8 where
  [type_code]: "TypeError = 0x91"

definition TypeSSHKeyLabelUpdated :: u8 where
  [type_code]: "TypeSSHKeyLabelUpdated = 0x92"

definition TypeSSHKeyDeleted :: u8 where
  [type_code]: "TypeSSHKeyDeleted = 0x93"

definition TypeSSHKeyList :: u8 where
  [type_code]: "TypeSSHKeyList = 0x94"

definition TypeSSHKeyAdded :: u8 where
  [type_code]: "TypeSSHKeyAdded = 0x95"

definition TypeUnreadCounts :: u8 where
  [type_code]: "TypeUnreadCounts = 0x97"

definition TypeServerConfig :: u8 where
  [type_code]: "TypeServerConfig = 0x98"

definition TypeSubscribeOk :: u8 where
  [type_code]: "TypeSubscribeOk = 0x99"

definition TypeUserList :: u8 where
  [type_code]: "TypeUserList = 0x9A"

definition TypeServerList :: u8 where
  [type_code]: "TypeServerList = 0x9B"

definition TypeRegisterAck :: u8 where
  [type_code]: "TypeRegisterAck = 0x9C"

definition TypeHeartbeatAck :: u8 where
  [type_code]: "TypeHeartbeatAck = 0x9D"

definition TypeVerifyRegistration :: u8 where
  [type_code]: "TypeVerifyRegistration = 0x9E"

definition TypeChannelUserList :: u8 where
  [type_code]: "TypeChannelUserList = 0xAB"

definition TypeChannelPresence :: u8 where
  [type_code]: "TypeChannelPresence = 0xAC"

definition TypeServerPresence :: u8 where
  [type_code]: "TypeServerPresence = 0xAD"

definition TypeUserBanned :: u8 where
  [type_code]: "TypeUserBanned = 0x9F"

definition TypeIPBanned :: u8 where
  [type_code]: "TypeIPBanned = 0xA5"

definition TypeUserUnbanned :: u8 where
  [type_code]: "TypeUserUnbanned = 0xA6"

definition TypeIPUnbanned :: u8 where
  [type_code]: "TypeIPUnbanned = 0xA7"

definition TypeBanList :: u8 where
  [type_code]: "TypeBanList = 0xA8"

definition TypeUserDeleted :: u8 where
  [type_code]: "TypeUserDeleted = 0xA9"

definition TypeChannelDeleted :: u8 where
  [type_code]: "TypeChannelDeleted = 0xAA"

section \<open>The interface\<close>

datatype (plugins only: code size) ProtocolMessage =
    AuthRequestM AuthRequestMessage
  | AuthResponseM AuthResponseMessage
  | SetNicknameM SetNicknameMessage
  | NicknameResponseM NicknameResponseMessage
  | RegisterUserM RegisterUserMessage
  | RegisterResponseM RegisterResponseMessage
  | LogoutM LogoutMessage
  | ListChannelsM ListChannelsMessage
  | ChannelListM ChannelListMessage
  | JoinChannelM JoinChannelMessage
  | LeaveChannelM LeaveChannelMessage
  | JoinResponseM JoinResponseMessage
  | LeaveResponseM LeaveResponseMessage
  | CreateChannelM CreateChannelMessage
  | ChannelCreatedM ChannelCreatedMessage
  | ListMessagesM ListMessagesMessage
  | MessageListM MessageListMessage
  | PostMessageM PostMessageMessage
  | MessagePostedM MessagePostedMessage
  | EditMessageM EditMessageMessage
  | MessageEditedM MessageEditedMessage
  | DeleteMessageM DeleteMessageMessage
  | MessageDeletedM MessageDeletedMessage
  | PingM PingMessage
  | PongM PongMessage
  | ErrorM ErrorMessage
  | ServerConfigM ServerConfigMessage
  | NewMessageM NewMessageMessage
  | DisconnectM DisconnectMessage
  | SubscribeThreadM SubscribeThreadMessage
  | UnsubscribeThreadM UnsubscribeThreadMessage
  | SubscribeChannelM SubscribeChannelMessage
  | UnsubscribeChannelM UnsubscribeChannelMessage
  | SubscribeOkM SubscribeOkMessage
  | GetUserInfoM GetUserInfoMessage
  | UserInfoM UserInfoMessage
  | ListUsersM ListUsersMessage
  | UserListM UserListMessage
  | ListChannelUsersM ListChannelUsersMessage
  | ChannelUserListM ChannelUserListMessage
  | ChannelPresenceM ChannelPresenceMessage
  | ServerPresenceM ServerPresenceMessage
  | ListServersM ListServersMessage
  | ServerListM ServerListMessage
  | RegisterServerM RegisterServerMessage
  | RegisterAckM RegisterAckMessage
  | VerifyRegistrationM VerifyRegistrationMessage
  | VerifyResponseM VerifyResponseMessage
  | HeartbeatM HeartbeatMessage
  | HeartbeatAckM HeartbeatAckMessage
  | ChangePasswordM ChangePasswordRequest
  | PasswordChangedM PasswordChangedResponse
  | AddSSHKeyM AddSSHKeyRequest
  | SSHKeyAddedM SSHKeyAddedResponse
  | ListSSHKeysM ListSSHKeysRequest
  | SSHKeyListM SSHKeyListResponse
  | UpdateSSHKeyLabelM UpdateSSHKeyLabelRequest
  | SSHKeyLabelUpdatedM SSHKeyLabelUpdatedResponse
  | DeleteSSHKeyM DeleteSSHKeyRequest
  | SSHKeyDeletedM SSHKeyDeletedResponse
  | BanUserM BanUserMessage
  | UserBannedM UserBannedMessage
  | BanIPM BanIPMessage
  | IPBannedM IPBannedMessage
  | UnbanUserM UnbanUserMessage
  | UserUnbannedM UserUnbannedMessage
  | UnbanIPM UnbanIPMessage
  | IPUnbannedM IPUnbannedMessage
  | ListBansM ListBansMessage
  | BanListM BanListMessage
  | DeleteUserM DeleteUserMessage
  | UserDeletedM UserDeletedMessage
  | DeleteChannelM DeleteChannelMessage
  | ChannelDeletedM ChannelDeletedMessage
  | GetUnreadCountsM GetUnreadCountsMessage
  | UnreadCountsM UnreadCountsMessage
  | UpdateReadStateM UpdateReadStateMessage

text \<open>"m.Encode()" through the interface.\<close>

primrec Encode :: "ProtocolMessage \<Rightarrow> go_error + bytes" where
  "Encode (AuthRequestM m) = AuthRequestMessage_Encode m"
| "Encode (AuthResponseM m) = AuthResponseMessage_Encode m"
| "Encode (SetNicknameM m) = SetNicknameMessage_Encode m"
| "Encode (NicknameResponseM m) = NicknameResponseMessage_Encode m"
| "Encode (RegisterUserM m) = RegisterUserMessage_Encode m"
| "Encode (RegisterResponseM m) = RegisterResponseMessage_Encode m"
| "Encode (LogoutM m) = LogoutMessage_Encode m"
| "Encode (ListChannelsM m) = ListChannelsMessage_Encode m"
| "Encode (ChannelListM m) = ChannelListMessage_Encode m"
| "Encode (JoinChannelM m) = JoinChannelMessage_Encode m"
| "Encode (LeaveChannelM m) = LeaveChannelMessage_Encode m"
| "Encode (JoinResponseM m) = JoinResponseMessage_Encode m"
| "Encode (LeaveResponseM m) = LeaveResponseMessage_Encode m"
| "Encode (CreateChannelM m) = CreateChannelMessage_Encode m"
| "Encode (ChannelCreatedM m) = ChannelCreatedMessage_Encode m"
| "Encode (ListMessagesM m) = ListMessagesMessage_Encode m"
| "Encode (MessageListM m) = MessageListMessage_Encode m"
| "Encode (PostMessageM m) = PostMessageMessage_Encode m"
| "Encode (MessagePostedM m) = MessagePostedMessage_Encode m"
| "Encode (EditMessageM m) = EditMessageMessage_Encode m"
| "Encode (MessageEditedM m) = MessageEditedMessage_Encode m"
| "Encode (DeleteMessageM m) = DeleteMessageMessage_Encode m"
| "Encode (MessageDeletedM m) = MessageDeletedMessage_Encode m"
| "Encode (PingM m) = PingMessage_Encode m"
| "Encode (PongM m) = PongMessage_Encode m"
| "Encode (ErrorM m) = ErrorMessage_Encode m"
| "Encode (ServerConfigM m) = ServerConfigMessage_Encode m"
| "Encode (NewMessageM m) = NewMessageMessage_Encode m"
| "Encode (DisconnectM m) = DisconnectMessage_Encode m"
| "Encode (SubscribeThreadM m) = SubscribeThreadMessage_Encode m"
| "Encode (UnsubscribeThreadM m) = UnsubscribeThreadMessage_Encode m"
| "Encode (SubscribeChannelM m) = SubscribeChannelMessage_Encode m"
| "Encode (UnsubscribeChannelM m) = UnsubscribeChannelMessage_Encode m"
| "Encode (SubscribeOkM m) = SubscribeOkMessage_Encode m"
| "Encode (GetUserInfoM m) = GetUserInfoMessage_Encode m"
| "Encode (UserInfoM m) = UserInfoMessage_Encode m"
| "Encode (ListUsersM m) = ListUsersMessage_Encode m"
| "Encode (UserListM m) = UserListMessage_Encode m"
| "Encode (ListChannelUsersM m) = ListChannelUsersMessage_Encode m"
| "Encode (ChannelUserListM m) = ChannelUserListMessage_Encode m"
| "Encode (ChannelPresenceM m) = ChannelPresenceMessage_Encode m"
| "Encode (ServerPresenceM m) = ServerPresenceMessage_Encode m"
| "Encode (ListServersM m) = ListServersMessage_Encode m"
| "Encode (ServerListM m) = ServerListMessage_Encode m"
| "Encode (RegisterServerM m) = RegisterServerMessage_Encode m"
| "Encode (RegisterAckM m) = RegisterAckMessage_Encode m"
| "Encode (VerifyRegistrationM m) = VerifyRegistrationMessage_Encode m"
| "Encode (VerifyResponseM m) = VerifyResponseMessage_Encode m"
| "Encode (HeartbeatM m) = HeartbeatMessage_Encode m"
| "Encode (HeartbeatAckM m) = HeartbeatAckMessage_Encode m"
| "Encode (ChangePasswordM m) = ChangePasswordRequest_Encode m"
| "Encode (PasswordChangedM m) = PasswordChangedResponse_Encode m"
| "Encode (AddSSHKeyM m) = AddSSHKeyRequest_Encode m"
| "Encode (SSHKeyAddedM m) = SSHKeyAddedResponse_Encode m"
| "Encode (ListSSHKeysM m) = ListSSHKeysRequest_Encode m"
| "Encode (SSHKeyListM m) = SSHKeyListResponse_Encode m"
| "Encode (UpdateSSHKeyLabelM m) = UpdateSSHKeyLabelRequest_Encode m"
| "Encode (SSHKeyLabelUpdatedM m) = SSHKeyLabelUpdatedResponse_Encode m"
| "Encode (DeleteSSHKeyM m) = DeleteSSHKeyRequest_Encode m"
| "Encode (SSHKeyDeletedM m) = SSHKeyDeletedResponse_Encode m"
| "Encode (BanUserM m) = BanUserMessage_Encode m"
| "Encode (UserBannedM m) = UserBannedMessage_Encode m"
| "Encode (BanIPM m) = BanIPMessage_Encode m"
| "Encode (IPBannedM m) = IPBannedMessage_Encode m"
| "Encode (UnbanUserM m) = UnbanUserMessage_Encode m"
| "Encode (UserUnbannedM m) = UserUnbannedMessage_Encode m"
| "Encode (UnbanIPM m) = UnbanIPMessage_Encode m"
| "Encode (IPUnbannedM m) = IPUnbannedMessage_Encode m"
| "Encode (ListBansM m) = ListBansMessage_Encode m"
| "Encode (BanListM m) = BanListMessage_Encode m"
| "Encode (DeleteUserM m) = DeleteUserMessage_Encode m"
| "Encode (UserDeletedM m) = UserDeletedMessage_Encode m"
| "Encode (DeleteChannelM m) = DeleteChannelMessage_Encode m"
| "Encode (ChannelDeletedM m) = ChannelDeletedMessage_Encode m"
| "Encode (GetUnreadCountsM m) = GetUnreadCountsMessage_Encode m"
| "Encode (UnreadCountsM m) = UnreadCountsMessage_Encode m"
| "Encode (UpdateReadStateM m) = UpdateReadStateMessage_Encode m"

text \<open>The type code a message is sent with.\<close>

primrec type_of_message :: "ProtocolMessage \<Rightarrow> u8" where
  "type_of_message (AuthRequestM m) = TypeAuthRequest"
| "type_of_message (AuthResponseM m) = TypeAuthResponse"
| "type_of_message (SetNicknameM m) = TypeSetNickname"
| "type_of_message (NicknameResponseM m) = TypeNicknameResponse"
| "type_of_message (RegisterUserM m) = TypeRegisterUser"
| "type_of_message (RegisterResponseM m) = TypeRegisterResponse"
| "type_of_message (LogoutM m) = TypeLogout"
| "type_of_message (ListChannelsM m) = TypeListChannels"
| "type_of_message (ChannelListM m) = TypeChannelList"
| "type_of_message (JoinChannelM m) = TypeJoinChannel"
| "type_of_message (LeaveChannelM m) = TypeLeaveChannel"
| "type_of_message (JoinResponseM m) = TypeJoinResponse"
| "type_of_message (LeaveResponseM m) = TypeLeaveResponse"
| "type_of_message (CreateChannelM m) = TypeCreateChannel"
| "type_of_message (ChannelCreatedM m) = TypeChannelCreated"
| "type_of_message (ListMessagesM m) = TypeListMessages"
| "type_of_message (MessageListM m) = TypeMessageList"
| "type_of_message (PostMessageM m) = TypePostMessage"
| "type_of_message (MessagePostedM m) = TypeMessagePosted"
| "type_of_message (EditMessageM m) = TypeEditMessage"
| "type_of_message (MessageEditedM m) = TypeMessageEdited"
| "type_of_message (DeleteMessageM m) = TypeDeleteMessage"
| "type_of_message (MessageDeletedM m) = TypeMessageDeleted"
| "type_of_message (PingM m) = TypePing"
| "type_of_message (PongM m) = TypePong"
| "type_of_message (ErrorM m) = TypeError"
| "type_of_message (ServerConfigM m) = TypeServerConfig"
| "type_of_message (NewMessageM m) = TypeNewMessage"
| "type_of_message (DisconnectM m) = TypeDisconnect"
| "type_of_message (SubscribeThreadM m) = TypeSubscribeThread"
| "type_of_message (UnsubscribeThreadM m) = TypeUnsubscribeThread"
| "type_of_message (SubscribeChannelM m) = TypeSubscribeChannel"
| "type_of_message (UnsubscribeChannelM m) = TypeUnsubscribeChannel"
| "type_of_message (SubscribeOkM m) = TypeSubscribeOk"
| "type_of_message (GetUserInfoM m) = TypeGetUserInfo"
| "type_of_message (UserInfoM m) = TypeUserInfo"
| "type_of_message (ListUsersM m) = TypeListUsers"
| "type_of_message (UserListM m) = TypeUserList"
| "type_of_message (ListChannelUsersM m) = TypeListChannelUsers"
| "type_of_message (ChannelUserListM m) = TypeChannelUserList"
| "type_of_message (ChannelPresenceM m) = TypeChannelPresence"
| "type_of_message (ServerPresenceM m) = TypeServerPresence"
| "type_of_message (ListServersM m) = TypeListServers"
| "type_of_message (ServerListM m) = TypeServerList"
| "type_of_message (RegisterServerM m) = TypeRegisterServer"
| "type_of_message (RegisterAckM m) = TypeRegisterAck"
| "type_of_message (VerifyRegistrationM m) = TypeVerifyRegistration"
| "type_of_message (VerifyResponseM m) = TypeVerifyResponse"
| "type_of_message (HeartbeatM m) = TypeHeartbeat"
| "type_of_message (HeartbeatAckM m) = TypeHeartbeatAck"
| "type_of_message (ChangePasswordM m) = TypeChangePassword"
| "type_of_message (PasswordChangedM m) = TypePasswordChanged"
| "type_of_message (AddSSHKeyM m) = TypeAddSSHKey"
| "type_of_message (SSHKeyAddedM m) = TypeSSHKeyAdded"
| "type_of_message (ListSSHKeysM m) = TypeListSSHKeys"
| "type_of_message (SSHKeyListM m) = TypeSSHKeyList"
| "type_of_message (UpdateSSHKeyLabelM m) = TypeUpdateSSHKeyLabel"
| "type_of_message (SSHKeyLabelUpdatedM m) = TypeSSHKeyLabelUpdated"
| "type_of_message (DeleteSSHKeyM m) = TypeDeleteSSHKey"
| "type_of_message (SSHKeyDeletedM m) = TypeSSHKeyDeleted"
| "type_of_message (BanUserM m) = TypeBanUser"
| "type_of_message (UserBannedM m) = TypeUserBanned"
| "type_of_message (BanIPM m) = TypeBanIP"
| "type_of_message (IPBannedM m) = TypeIPBanned"
| "type_of_message (UnbanUserM m) = TypeUnbanUser"
| "type_of_message (UserUnbannedM m) = TypeUserUnbanned"
| "type_of_message (UnbanIPM m) = TypeUnbanIP"
| "type_of_message (IPUnbannedM m) = TypeIPUnbanned"
| "type_of_message (ListBansM m) = TypeListBans"
| "type_of_message (BanListM m) = TypeBanList"
| "type_of_message (DeleteUserM m) = TypeDeleteUser"
| "type_of_message (UserDeletedM m) = TypeUserDeleted"
| "type_of_message (DeleteChannelM m) = TypeDeleteChannel"
| "type_of_message (ChannelDeletedM m) = TypeChannelDeleted"
| "type_of_message (GetUnreadCountsM m) = TypeGetUnreadCounts"
| "type_of_message (UnreadCountsM m) = TypeUnreadCounts"
| "type_of_message (UpdateReadStateM m) = TypeUpdateReadState"

text \<open>
  A receiver chooses a fresh struct by the type code and decodes the payload into it; None is
  a code no message has.
\<close>

definition decode_into :: "('m \<Rightarrow> ProtocolMessage) \<Rightarrow> 'm \<times> go_error option \<Rightarrow> ProtocolMessage \<times> go_error option" where
  "decode_into c r = (c (fst r), snd r)"

definition decode_message :: "u8 \<Rightarrow> bytes \<Rightarrow> (ProtocolMessage \<times> go_error option) option" where
  "decode_message t p =
    (if t = TypeAuthRequest then Some (decode_into AuthRequestM (AuthRequestMessage_Decode AuthRequestMessage_zero p))
     else if t = TypeAuthResponse then Some (decode_into AuthResponseM (AuthResponseMessage_Decode AuthResponseMessage_zero p))
     else if t = TypeSetNickname then Some (decode_into SetNicknameM (SetNicknameMessage_Decode SetNicknameMessage_zero p))
     else if t = TypeNicknameResponse then Some (decode_into NicknameResponseM (NicknameResponseMessage_Decode NicknameResponseMessage_zero p))
     else if t = TypeRegisterUser then Some (decode_into RegisterUserM (RegisterUserMessage_Decode RegisterUserMessage_zero p))
     else if t = TypeRegisterResponse then Some (decode_into RegisterResponseM (RegisterResponseMessage_Decode RegisterResponseMessage_zero p))
     else if t = TypeLogout then Some (decode_into LogoutM (LogoutMessage_Decode LogoutMessage_zero p))
     else if t = TypeListChannels then Some (decode_into ListChannelsM (ListChannelsMessage_Decode ListChannelsMessage_zero p))
     else if t = TypeChannelList then Some (decode_into ChannelListM (ChannelListMessage_Decode ChannelListMessage_zero p))
     else if t = TypeJoinChannel then Some (decode_into JoinChannelM (JoinChannelMessage_Decode JoinChannelMessage_zero p))
     else if t = TypeLeaveChannel then Some (decode_into LeaveChannelM (LeaveChannelMessage_Decode LeaveChannelMessage_zero p))
     else if t = TypeJoinResponse then Some (decode_into JoinResponseM (JoinResponseMessage_Decode JoinResponseMessage_zero p))
     else if t = TypeLeaveResponse then Some (decode_into LeaveResponseM (LeaveResponseMessage_Decode LeaveResponseMessage_zero p))
     else if t = TypeCreateChannel then Some (decode_into CreateChannelM (CreateChannelMessage_Decode CreateChannelMessage_zero p))
     else if t = TypeChannelCreated then Some (decode_into ChannelCreatedM (ChannelCreatedMessage_Decode ChannelCreatedMessage_zero p))
     else if t = TypeListMessages then Some (decode_into ListMessagesM (ListMessagesMessage_Decode ListMessagesMessage_zero p))
     else if t = TypeMessageList then Some (decode_into MessageListM (MessageListMessage_Decode MessageListMessage_zero p))
     else if t = TypePostMessage then Some (decode_into PostMessageM (PostMessageMessage_Decode PostMessageMessage_zero p))
     else if t = TypeMessagePosted then Some (decode_into MessagePostedM (MessagePostedMessage_Decode MessagePostedMessage_zero p))
     else if t = TypeEditMessage then Some (decode_into EditMessageM (EditMessageMessage_Decode EditMessageMessage_zero p))
     else if t = TypeMessageEdited then Some (decode_into MessageEditedM (MessageEditedMessage_Decode MessageEditedMessage_zero p))
     else if t = TypeDeleteMessage then Some (decode_into DeleteMessageM (DeleteMessageMessage_Decode DeleteMessageMessage_zero p))
     else if t = TypeMessageDeleted then Some (decode_into MessageDeletedM (MessageDeletedMessage_Decode MessageDeletedMessage_zero p))
     else if t = TypePing then Some (decode_into PingM (PingMessage_Decode PingMessage_zero p))
     else if t = TypePong then Some (decode_into PongM (PongMessage_Decode PongMessage_zero p))
     else if t = TypeError then Some (decode_into ErrorM (ErrorMessage_Decode ErrorMessage_zero p))
     else if t = TypeServerConfig then Some (decode_into ServerConfigM (ServerConfigMessage_Decode ServerConfigMessage_zero p))
     else if t = TypeNewMessage then Some (decode_into NewMessageM (NewMessageMessage_Decode NewMessageMessage_zero p))
     else if t = TypeDisconnect then Some (decode_into DisconnectM (DisconnectMessage_Decode DisconnectMessage_zero p))
     else if t = TypeSubscribeThread then Some (decode_into SubscribeThreadM (SubscribeThreadMessage_Decode SubscribeThreadMessage_zero p))
     else if t = TypeUnsubscribeThread then Some (decode_into UnsubscribeThreadM (UnsubscribeThreadMessage_Decode UnsubscribeThreadMessage_zero p))
     else if t = TypeSubscribeChannel then Some (decode_into SubscribeChannelM (SubscribeChannelMessage_Decode SubscribeChannelMessage_zero p))
     else if t = TypeUnsubscribeChannel then Some (decode_into UnsubscribeChannelM (UnsubscribeChannelMessage_Decode UnsubscribeChannelMessage_zero p))
     else if t = TypeSubscribeOk then Some (decode_into SubscribeOkM (SubscribeOkMessage_Decode SubscribeOkMessage_zero p))
     else if t = TypeGetUserInfo then Some (decode_into GetUserInfoM (GetUserInfoMessage_Decode GetUserInfoMessage_zero p))
     else if t = TypeUserInfo then Some (decode_into UserInfoM (UserInfoMessage_Decode UserInfoMessage_zero p))
     else if t = TypeListUsers then Some (decode_into ListUsersM (ListUsersMessage_Decode ListUsersMessage_zero p))
     else if t = TypeUserList then Some (decode_into UserListM (UserListMessage_Decode UserListMessage_zero p))
     else if t = TypeListChannelUsers then Some (decode_into ListChannelUsersM (ListChannelUsersMessage_Decode ListChannelUsersMessage_zero p))
     else if t = TypeChannelUserList then Some (decode_into ChannelUserListM (ChannelUserListMessage_Decode ChannelUserListMessage_zero p))
     else if t = TypeChannelPresence then Some (decode_into ChannelPresenceM (ChannelPresenceMessage_Decode ChannelPresenceMessage_zero p))
     else if t = TypeServerPresence then Some (decode_into ServerPresenceM (ServerPresenceMessage_Decode ServerPresenceMessage_zero p))
     else if t = TypeListServers then Some (decode_into ListServersM (ListServersMessage_Decode ListServersMessage_zero p))
     else if t = TypeServerList then Some (decode_into ServerListM (ServerListMessage_Decode ServerListMessage_zero p))
     else if t = TypeRegisterServer then Some (decode_into RegisterServerM (RegisterServerMessage_Decode RegisterServerMessage_zero p))
     else if t = TypeRegisterAck then Some (decode_into RegisterAckM (RegisterAckMessage_Decode RegisterAckMessage_zero p))
     else if t = TypeVerifyRegistration then Some (decode_into VerifyRegistrationM (VerifyRegistrationMessage_Decode VerifyRegistrationMessage_zero p))
     else if t = TypeVerifyResponse then Some (decode_into VerifyResponseM (VerifyResponseMessage_Decode VerifyResponseMessage_zero p))
     else if t = TypeHeartbeat then Some (decode_into HeartbeatM (HeartbeatMessage_Decode HeartbeatMessage_zero p))
     else if t = TypeHeartbeatAck then Some (decode_into HeartbeatAckM (HeartbeatAckMessage_Decode HeartbeatAckMessage_zero p))
     else if t = TypeChangePassword then Some (decode_into ChangePasswordM (ChangePasswordRequest_Decode ChangePasswordRequest_zero p))
     else if t = TypePasswordChanged then Some (decode_into PasswordChangedM (PasswordChangedResponse_Decode PasswordChangedResponse_zero p))
     else if t = TypeAddSSHKey then Some (decode_into AddSSHKeyM (AddSSHKeyRequest_Decode AddSSHKeyRequest_zero p))
     else if t = TypeSSHKeyAdded then Some (decode_into SSHKeyAddedM (SSHKeyAddedResponse_Decode SSHKeyAddedResponse_zero p))
     else if t = TypeListSSHKeys then Some (decode_into ListSSHKeysM (ListSSHKeysRequest_Decode ListSSHKeysRequest_zero p))
     else if t = TypeSSHKeyList then Some (decode_into SSHKeyListM (SSHKeyListResponse_Decode SSHKeyListResponse_zero p))
     else if t = TypeUpdateSSHKeyLabel then Some (decode_into UpdateSSHKeyLabelM (UpdateSSHKeyLabelRequest_Decode UpdateSSHKeyLabelRequest_zero p))
     else if t = TypeSSHKeyLabelUpdated then Some (decode_into SSHKeyLabelUpdatedM (SSHKeyLabelUpdatedResponse_Decode SSHKeyLabelUpdatedResponse_zero p))
     else if t = TypeDeleteSSHKey then Some (decode_into DeleteSSHKeyM (DeleteSSHKeyRequest_Decode DeleteSSHKeyRequest_zero p))
     else if t = TypeSSHKeyDeleted then Some (decode_into SSHKeyDeletedM (SSHKeyDeletedResponse_Decode SSHKeyDeletedResponse_zero p))
     else if t = TypeBanUser then Some (decode_into BanUserM (BanUserMessage_Decode BanUserMessage_zero p))
     else if t = TypeUserBanned then Some (decode_into UserBannedM (UserBannedMessage_Decode UserBannedMessage_zero p))
     else if t = TypeBanIP then Some (decode_into BanIPM (BanIPMessage_Decode BanIPMessage_zero p))
     else if t = TypeIPBanned then Some (decode_into IPBannedM (IPBannedMessage_Decode IPBannedMessage_zero p))
     else if t = TypeUnbanUser then Some (decode_into UnbanUserM (UnbanUserMessage_Decode UnbanUserMessage_zero p))
     else if t = TypeUserUnbanned then Some (decode_into UserUnbannedM (UserUnbannedMessage_Decode UserUnbannedMessage_zero p))
     else if t = TypeUnbanIP then Some (decode_into UnbanIPM (UnbanIPMessage_Decode UnbanIPMessage_zero p))
     else if t = TypeIPUnbanned then Some (decode_into IPUnbannedM (IPUnbannedMessage_Decode IPUnbannedMessage_zero p))
     else if t = TypeListBans then Some (decode_into ListBansM (ListBansMessage_Decode ListBansMessage_zero p))
     else if t = TypeBanList then Some (decode_into BanListM (BanListMessage_Decode BanListMessage_zero p))
     else if t = TypeDeleteUser then Some (decode_into DeleteUserM (DeleteUserMessage_Decode DeleteUserMessage_zero p))
     else if t = TypeUserDeleted then Some (decode_into UserDeletedM (UserDeletedMessage_Decode UserDeletedMessage_zero p))
     else if t = TypeDeleteChannel then Some (decode_into DeleteChannelM (DeleteChannelMessage_Decode DeleteChannelMessage_zero p))
     else if t = TypeChannelDeleted then Some (decode_into ChannelDeletedM (ChannelDeletedMessage_Decode ChannelDeletedMessage_zero p))
     else if t = TypeGetUnreadCounts then Some (decode_into GetUnreadCountsM (GetUnreadCountsMessage_Decode GetUnreadCountsMessage_zero p))
     else if t = TypeUnreadCounts then Some (decode_into UnreadCountsM (UnreadCountsMessage_Decode UnreadCountsMessage_zero p))
     else if t = TypeUpdateReadState then Some (decode_into UpdateReadStateM (UpdateReadStateMessage_Decode UpdateReadStateMessage_zero p))
     else None)"

text \<open>Which messages travel, and what arrives of them in a fresh struct.\<close>

primrec message_sendable :: "ProtocolMessage \<Rightarrow> bool" where
  "message_sendable (AuthRequestM m) \<longleftrightarrow> True"
| "message_sendable (AuthResponseM m) \<longleftrightarrow> True"
| "message_sendable (SetNicknameM m) \<longleftrightarrow> True"
| "message_sendable (NicknameResponseM m) \<longleftrightarrow> True"
| "message_sendable (RegisterUserM m) \<longleftrightarrow> True"
| "message_sendable (RegisterResponseM m) \<longleftrightarrow> True"
| "message_sendable (LogoutM m) \<longleftrightarrow> True"
| "message_sendable (ListChannelsM m) \<longleftrightarrow> True"
| "message_sendable (ChannelListM m) \<longleftrightarrow> ChannelListMessage_sendable m"
| "message_sendable (JoinChannelM m) \<longleftrightarrow> True"
| "message_sendable (LeaveChannelM m) \<longleftrightarrow> True"
| "message_sendable (JoinResponseM m) \<longleftrightarrow> True"
| "message_sendable (LeaveResponseM m) \<longleftrightarrow> True"
| "message_sendable (CreateChannelM m) \<longleftrightarrow> True"
| "message_sendable (ChannelCreatedM m) \<longleftrightarrow> True"
| "message_sendable (ListMessagesM m) \<longleftrightarrow> True"
| "message_sendable (MessageListM m) \<longleftrightarrow> MessageListMessage_sendable m"
| "message_sendable (PostMessageM m) \<longleftrightarrow> True"
| "message_sendable (MessagePostedM m) \<longleftrightarrow> True"
| "message_sendable (EditMessageM m) \<longleftrightarrow> True"
| "message_sendable (MessageEditedM m) \<longleftrightarrow> True"
| "message_sendable (DeleteMessageM m) \<longleftrightarrow> True"
| "message_sendable (MessageDeletedM m) \<longleftrightarrow> True"
| "message_sendable (PingM m) \<longleftrightarrow> True"
| "message_sendable (PongM m) \<longleftrightarrow> True"
| "message_sendable (ErrorM m) \<longleftrightarrow> True"
| "message_sendable (ServerConfigM m) \<longleftrightarrow> True"
| "message_sendable (NewMessageM m) \<longleftrightarrow> True"
| "message_sendable (DisconnectM m) \<longleftrightarrow> True"
| "message_sendable (SubscribeThreadM m) \<longleftrightarrow> True"
| "message_sendable (UnsubscribeThreadM m) \<longleftrightarrow> True"
| "message_sendable (SubscribeChannelM m) \<longleftrightarrow> True"
| "message_sendable (UnsubscribeChannelM m) \<longleftrightarrow> True"
| "message_sendable (SubscribeOkM m) \<longleftrightarrow> True"
| "message_sendable (GetUserInfoM m) \<longleftrightarrow> True"
| "message_sendable (UserInfoM m) \<longleftrightarrow> True"
| "message_sendable (ListUsersM m) \<longleftrightarrow> True"
| "message_sendable (UserListM m) \<longleftrightarrow> UserListMessage_sendable m"
| "message_sendable (ListChannelUsersM m) \<longleftrightarrow> True"
| "message_sendable (ChannelUserListM m) \<longleftrightarrow> ChannelUserListMessage_sendable m"
| "message_sendable (ChannelPresenceM m) \<longleftrightarrow> True"
| "message_sendable (ServerPresenceM m) \<longleftrightarrow> True"
| "message_sendable (ListServersM m) \<longleftrightarrow> True"
| "message_sendable (ServerListM m) \<longleftrightarrow> ServerListMessage_sendable m"
| "message_sendable (RegisterServerM m) \<longleftrightarrow> True"
| "message_sendable (RegisterAckM m) \<longleftrightarrow> True"
| "message_sendable (VerifyRegistrationM m) \<longleftrightarrow> True"
| "message_sendable (VerifyResponseM m) \<longleftrightarrow> True"
| "message_sendable (HeartbeatM m) \<longleftrightarrow> True"
| "message_sendable (HeartbeatAckM m) \<longleftrightarrow> True"
| "message_sendable (ChangePasswordM m) \<longleftrightarrow> True"
| "message_sendable (PasswordChangedM m) \<longleftrightarrow> True"
| "message_sendable (AddSSHKeyM m) \<longleftrightarrow> True"
| "message_sendable (SSHKeyAddedM m) \<longleftrightarrow> True"
| "message_sendable (ListSSHKeysM m) \<longleftrightarrow> True"
| "message_sendable (SSHKeyListM m) \<longleftrightarrow> SSHKeyListResponse_sendable m"
| "message_sendable (UpdateSSHKeyLabelM m) \<longleftrightarrow> True"
| "message_sendable (SSHKeyLabelUpdatedM m) \<longleftrightarrow> True"
| "message_sendable (DeleteSSHKeyM m) \<longleftrightarrow> True"
| "message_sendable (SSHKeyDeletedM m) \<longleftrightarrow> True"
| "message_sendable (BanUserM m) \<longleftrightarrow> True"
| "message_sendable (UserBannedM m) \<longleftrightarrow> True"
| "message_sendable (BanIPM m) \<longleftrightarrow> True"
| "message_sendable (IPBannedM m) \<longleftrightarrow> True"
| "message_sendable (UnbanUserM m) \<longleftrightarrow> True"
| "message_sendable (UserUnbannedM m) \<longleftrightarrow> True"
| "message_sendable (UnbanIPM m) \<longleftrightarrow> True"
| "message_sendable (IPUnbannedM m) \<longleftrightarrow> True"
| "message_sendable (ListBansM m) \<longleftrightarrow> True"
| "message_sendable (BanListM m) \<longleftrightarrow> BanListMessage_sendable m"
| "message_sendable (DeleteUserM m) \<longleftrightarrow> True"
| "message_sendable (UserDeletedM m) \<longleftrightarrow> True"
| "message_sendable (DeleteChannelM m) \<longleftrightarrow> True"
| "message_sendable (ChannelDeletedM m) \<longleftrightarrow> True"
| "message_sendable (GetUnreadCountsM m) \<longleftrightarrow> GetUnreadCountsMessage_sendable m"
| "message_sendable (UnreadCountsM m) \<longleftrightarrow> UnreadCountsMessage_sendable m"
| "message_sendable (UpdateReadStateM m) \<longleftrightarrow> True"

primrec message_received :: "ProtocolMessage \<Rightarrow> ProtocolMessage" where
  "message_received (AuthRequestM m) = AuthRequestM (m)"
| "message_received (AuthResponseM m) = AuthResponseM (AuthResponseMessage_received AuthResponseMessage_zero m)"
| "message_received (SetNicknameM m) = SetNicknameM (m)"
| "message_received (NicknameResponseM m) = NicknameResponseM (m)"
| "message_received (RegisterUserM m) = RegisterUserM (m)"
| "message_received (RegisterResponseM m) = RegisterResponseM (RegisterResponseMessage_received RegisterResponseMessage_zero m)"
| "message_received (LogoutM m) = LogoutM (m)"
| "message_received (ListChannelsM m) = ListChannelsM (m)"
| "message_received (ChannelListM m) = ChannelListM (m)"
| "message_received (JoinChannelM m) = JoinChannelM (m)"
| "message_received (LeaveChannelM m) = LeaveChannelM (m)"
| "message_received (JoinResponseM m) = JoinResponseM (m)"
| "message_received (LeaveResponseM m) = LeaveResponseM (m)"
| "message_received (CreateChannelM m) = CreateChannelM (m)"
| "message_received (ChannelCreatedM m) = ChannelCreatedM (ChannelCreatedMessage_received ChannelCreatedMessage_zero m)"
| "message_received (ListMessagesM m) = ListMessagesM (m)"
| "message_received (MessageListM m) = MessageListM (m\<lparr>MessageList_Messages := map Message_carried (MessageList_Messages m)\<rparr>)"
| "message_received (PostMessageM m) = PostMessageM (m)"
| "message_received (MessagePostedM m) = MessagePostedM (m)"
| "message_received (EditMessageM m) = EditMessageM (m)"
| "message_received (MessageEditedM m) = MessageEditedM (MessageEditedMessage_received MessageEditedMessage_zero m)"
| "message_received (DeleteMessageM m) = DeleteMessageM (m)"
| "message_received (MessageDeletedM m) = MessageDeletedM (MessageDeletedMessage_received MessageDeletedMessage_zero m)"
| "message_received (PingM m) = PingM (m)"
| "message_received (PongM m) = PongM (m)"
| "message_received (ErrorM m) = ErrorM (m)"
| "message_received (ServerConfigM m) = ServerConfigM (m)"
| "message_received (NewMessageM m) = NewMessageM (Message_carried m)"
| "message_received (DisconnectM m) = DisconnectM (m)"
| "message_received (SubscribeThreadM m) = SubscribeThreadM (m)"
| "message_received (UnsubscribeThreadM m) = UnsubscribeThreadM (m)"
| "message_received (SubscribeChannelM m) = SubscribeChannelM (m)"
| "message_received (UnsubscribeChannelM m) = UnsubscribeChannelM (m)"
| "message_received (SubscribeOkM m) = SubscribeOkM (m)"
| "message_received (GetUserInfoM m) = GetUserInfoM (m)"
| "message_received (UserInfoM m) = UserInfoM (m)"
| "message_received (ListUsersM m) = ListUsersM (m)"
| "message_received (UserListM m) = UserListM (m)"
| "message_received (ListChannelUsersM m) = ListChannelUsersM (m)"
| "message_received (ChannelUserListM m) = ChannelUserListM (m)"
| "message_received (ChannelPresenceM m) = ChannelPresenceM (m)"
| "message_received (ServerPresenceM m) = ServerPresenceM (m)"
| "message_received (ListServersM m) = ListServersM (m)"
| "message_received (ServerListM m) = ServerListM (m)"
| "message_received (RegisterServerM m) = RegisterServerM (m)"
| "message_received (RegisterAckM m) = RegisterAckM (RegisterAckMessage_received RegisterAckMessage_zero m)"
| "message_received (VerifyRegistrationM m) = VerifyRegistrationM (m)"
| "message_received (VerifyResponseM m) = VerifyResponseM (m)"
| "message_received (HeartbeatM m) = HeartbeatM (m)"
| "message_received (HeartbeatAckM m) = HeartbeatAckM (m)"
| "message_received (ChangePasswordM m) = ChangePasswordM (m)"
| "message_received (PasswordChangedM m) = PasswordChangedM (m)"
| "message_received (AddSSHKeyM m) = AddSSHKeyM (m)"
| "message_received (SSHKeyAddedM m) = SSHKeyAddedM (m)"
| "message_received (ListSSHKeysM m) = ListSSHKeysM (m)"
| "message_received (SSHKeyListM m) = SSHKeyListM (m)"
| "message_received (UpdateSSHKeyLabelM m) = UpdateSSHKeyLabelM (m)"
| "message_received (SSHKeyLabelUpdatedM m) = SSHKeyLabelUpdatedM (m)"
| "message_received (DeleteSSHKeyM m) = DeleteSSHKeyM (m)"
| "message_received (SSHKeyDeletedM m) = SSHKeyDeletedM (m)"
| "message_received (BanUserM m) = BanUserM (m)"
| "message_received (UserBannedM m) = UserBannedM (UserBannedMessage_received UserBannedMessage_zero m)"
| "message_received (BanIPM m) = BanIPM (m)"
| "message_received (IPBannedM m) = IPBannedM (IPBannedMessage_received IPBannedMessage_zero m)"
| "message_received (UnbanUserM m) = UnbanUserM (m)"
| "message_received (UserUnbannedM m) = UserUnbannedM (m)"
| "message_received (UnbanIPM m) = UnbanIPM (m)"
| "message_received (IPUnbannedM m) = IPUnbannedM (m)"
| "message_received (ListBansM m) = ListBansM (m)"
| "message_received (BanListM m) = BanListM (m)"
| "message_received (DeleteUserM m) = DeleteUserM (m)"
| "message_received (UserDeletedM m) = UserDeletedM (m)"
| "message_received (DeleteChannelM m) = DeleteChannelM (m)"
| "message_received (ChannelDeletedM m) = ChannelDeletedM (m)"
| "message_received (GetUnreadCountsM m) = GetUnreadCountsM (m)"
| "message_received (UnreadCountsM m) = UnreadCountsM (m)"
| "message_received (UpdateReadStateM m) = UpdateReadStateM (m)"

definition all_types :: "u8 list" where
  "all_types =
    [TypeAuthRequest,
     TypeAuthResponse,
     TypeSetNickname,
     TypeNicknameResponse,
     TypeRegisterUser,
     TypeRegisterResponse,
     TypeLogout,
     TypeListChannels,
     TypeChannelList,
     TypeJoinChannel,
     TypeLeaveChannel,
     TypeJoinResponse,
     TypeLeaveResponse,
     TypeCreateChannel,
     TypeChannelCreated,
     TypeListMessages,
     TypeMessageList,
     TypePostMessage,
     TypeMessagePosted,
     TypeEditMessage,
     TypeMessageEdited,
     TypeDeleteMessage,
     TypeMessageDeleted,
     TypePing,
     TypePong,
     TypeError,
     TypeServerConfig,
     TypeNewMessage,
     TypeDisconnect,
     TypeSubscribeThread,
     TypeUnsubscribeThread,
     TypeSubscribeChannel,
     TypeUnsubscribeChannel,
     TypeSubscribeOk,
     TypeGetUserInfo,
     TypeUserInfo,
     TypeListUsers,
     TypeUserList,
     TypeListChannelUsers,
     TypeChannelUserList,
     TypeChannelPresence,
     TypeServerPresence,
     TypeListServers,
     TypeServerList,
     TypeRegisterServer,
     TypeRegisterAck,
     TypeVerifyRegistration,
     TypeVerifyResponse,
     TypeHeartbeat,
     TypeHeartbeatAck,
     TypeChangePassword,
     TypePasswordChanged,
     TypeAddSSHKey,
     TypeSSHKeyAdded,
     TypeListSSHKeys,
     TypeSSHKeyList,
     TypeUpdateSSHKeyLabel,
     TypeSSHKeyLabelUpdated,
     TypeDeleteSSHKey,
     TypeSSHKeyDeleted,
     TypeBanUser,
     TypeUserBanned,
     TypeBanIP,
     TypeIPBanned,
     TypeUnbanUser,
     TypeUserUnbanned,
     TypeUnbanIP,
     TypeIPUnbanned,
     TypeListBans,
     TypeBanList,
     TypeDeleteUser,
     TypeUserDeleted,
     TypeDeleteChannel,
     TypeChannelDeleted,
     TypeGetUnreadCounts,
     TypeUnreadCounts,
     TypeUpdateReadState]"

section \<open>The round trip of the protocol\<close>

lemma distinct_all_types: "distinct all_types"
  by (simp add: all_types_def type_code)

lemma decode_message_encode:
  "Encode m = Inr p \<Longrightarrow> message_sendable m \<Longrightarrow>
   decode_message (type_of_message m) p = Some (message_received m, None)"
  by (cases m) (simp_all add: decode_message_def decode_into_def type_code AuthRequestMessage_roundtrip
    AuthResponseMessage_roundtrip
    SetNicknameMessage_roundtrip
    NicknameResponseMessage_roundtrip
    RegisterUserMessage_roundtrip
    RegisterResponseMessage_roundtrip
    LogoutMessage_roundtrip
    ListChannelsMessage_roundtrip
    ChannelListMessage_roundtrip
    JoinChannelMessage_roundtrip
    LeaveChannelMessage_roundtrip
    JoinResponseMessage_roundtrip
    LeaveResponseMessage_roundtrip
    CreateChannelMessage_roundtrip
    ChannelCreatedMessage_roundtrip
    ListMessagesMessage_roundtrip
    MessageListMessage_roundtrip
    PostMessageMessage_roundtrip
    MessagePostedMessage_roundtrip
    EditMessageMessage_roundtrip
    MessageEditedMessage_roundtrip
    DeleteMessageMessage_roundtrip
    MessageDeletedMessage_roundtrip
    PingMessage_roundtrip
    PongMessage_roundtrip
    ErrorMessage_roundtrip
    ServerConfigMessage_roundtrip
    NewMessageMessage_roundtrip
    DisconnectMessage_roundtrip
    SubscribeThreadMessage_roundtrip
    UnsubscribeThreadMessage_roundtrip
    SubscribeChannelMessage_roundtrip
    UnsubscribeChannelMessage_roundtrip
    SubscribeOkMessage_roundtrip
    GetUserInfoMessage_roundtrip
    UserInfoMessage_roundtrip
    ListUsersMessage_roundtrip
    UserListMessage_roundtrip
    ListChannelUsersMessage_roundtrip
    ChannelUserListMessage_roundtrip
    ChannelPresenceMessage_roundtrip
    ServerPresenceMessage_roundtrip
    ListServersMessage_roundtrip
    ServerListMessage_roundtrip
    RegisterServerMessage_roundtrip
    RegisterAckMessage_roundtrip
    VerifyRegistrationMessage_roundtrip
    VerifyResponseMessage_roundtrip
    HeartbeatMessage_roundtrip
    HeartbeatAckMessage_roundtrip
    ChangePasswordRequest_roundtrip
    PasswordChangedResponse_roundtrip
    AddSSHKeyRequest_roundtrip
    SSHKeyAddedResponse_roundtrip
    ListSSHKeysRequest_roundtrip
    SSHKeyListResponse_roundtrip
    UpdateSSHKeyLabelRequest_roundtrip
    SSHKeyLabelUpdatedResponse_roundtrip
    DeleteSSHKeyRequest_roundtrip
    SSHKeyDeletedResponse_roundtrip
    BanUserMessage_roundtrip
    UserBannedMessage_roundtrip
    BanIPMessage_roundtrip
    IPBannedMessage_roundtrip
    UnbanUserMessage_roundtrip
    UserUnbannedMessage_roundtrip
    UnbanIPMessage_roundtrip
    IPUnbannedMessage_roundtrip
    ListBansMessage_roundtrip
    BanListMessage_roundtrip
    DeleteUserMessage_roundtrip
    UserDeletedMessage_roundtrip
    DeleteChannelMessage_roundtrip
    ChannelDeletedMessage_roundtrip
    GetUnreadCountsMessage_roundtrip
    UnreadCountsMessage_roundtrip
    UpdateReadStateMessage_roundtrip)

end
