(* ===== verification/FrameProps.thy ===== *)
theory FrameProps imports Frame begin

text \<open>
  The properties of the frame format and of its basic types: which bytes are frames, what reaches a
  writer, how a stream of frames is cut up, and which strings and payloads are refused.
\<close>

section \<open>Frames\<close>

text \<open>C24. DecodeFrame accepts exactly the bytes of a frame of at most one megabyte, and takes
  nothing beyond them: what it returns is the frame and the bytes that follow it.\<close>

theorem DecodeFrame_exact:
  "DecodeFrame r = Inr (f, r') \<longleftrightarrow> frame_fits f \<and> r = frame_wire f @ r'"
  using DecodeFrame_Inr DecodeFrame_wire by blast

text \<open>EncodeMessage makes the bytes of the frame, and refuses exactly the payloads that
  would make it longer than one megabyte.\<close>

theorem EncodeMessage_exact:
  assumes "3 + length p < 2 ^ 32"
  shows "EncodeMessage v t fl p =
    (if 3 + length p \<le> 1024 * 1024
     then Inr (frame_wire \<lparr>Frame_Version = v, Frame_Type = t, Frame_Flags = fl, Frame_Payload = p\<rparr>)
     else Inl ErrFrameTooLarge)"
  using EncodeFrame_buffer [of "\<lparr>Frame_Version = v, Frame_Type = t, Frame_Flags = fl, Frame_Payload = p\<rparr>"] assms
  by (simp add: EncodeMessage_def frame_fits_def codec)

text \<open>A frame handed to any writer that keeps the contract of io.Writer, buffered or
  not, is sent in full when EncodeFrame returns no error; when it returns one, what was sent is a
  first part of the frame.\<close>

theorem EncodeFrame_all_or_prefix:
  assumes "writer_contract w sent" and "EncodeFrame w f s = (s', r)"
  shows "case r of None \<Rightarrow> sent s' = sent s @ frame_wire f
    | Some e \<Rightarrow> \<exists>q t. frame_wire f = q @ t \<and> sent s' = sent s @ q"
proof (cases r)
  case None
  with assms show ?thesis
    using writer_contract.writes_ok [OF assms(1) writer_contract.writes_EncodeFrame [OF assms(1)]] by auto
next
  case (Some e)
  with assms show ?thesis
    using writer_contract.writes_fail [OF assms(1) writer_contract.writes_EncodeFrame [OF assms(1)]] by auto
qed

text \<open>A writer with a bound on what it takes, such as a connection closed by its peer.\<close>

definition closing_writer :: "(nat \<times> bytes) io_writer" where
  "closing_writer = \<lparr>Write = (\<lambda>(n, b) p. ((n - length p, b @ take n p), if length p \<le> n then None else Some (WriteErr 0))),
     Flush = None\<rparr>"

lemma closing_writer_contract: "writer_contract closing_writer snd"
proof
  show "snd s' = snd s @ p" if "Write closing_writer s p = (s', None)" for s s' p
    using that by (cases s) (auto simp: closing_writer_def split: if_splits)
  show "\<exists>q r. p = q @ r \<and> snd s' = snd s @ q" if "Write closing_writer s p = (s', Some e)" for s s' p e
    using that by (cases s) (auto simp: closing_writer_def split: if_splits, metis append_take_drop_id)
qed (simp add: closing_writer_def)

lemma EncodeFrame_all_or_prefix_witness:
  "\<exists>s' e q t. EncodeFrame closing_writer \<lparr>Frame_Version = 1, Frame_Type = 2, Frame_Flags = 0, Frame_Payload = [7, 8]\<rparr> (6, []) = (s', Some e) \<and>
    frame_wire \<lparr>Frame_Version = 1, Frame_Type = 2, Frame_Flags = 0, Frame_Payload = [7, 8]\<rparr> = q @ t \<and> snd s' = q"
proof -
  let ?f = "\<lparr>Frame_Version = 1, Frame_Type = 2, Frame_Flags = 0, Frame_Payload = [7, 8]\<rparr>"
  obtain s' r where run: "EncodeFrame closing_writer ?f (6, []) = (s', r)" by (cases "EncodeFrame closing_writer ?f (6, [])")
  moreover have "snd (EncodeFrame closing_writer ?f (6, [])) = Some (WriteErr 0)" by code_simp
  ultimately obtain e where "r = Some e" by simp
  with run EncodeFrame_all_or_prefix [OF closing_writer_contract run] show ?thesis by auto
qed

text \<open>The frame length is checked before the payload is read: a length over one megabyte or
  under three is an error whatever follows, and a length the bytes do not cover is an end of file.\<close>

theorem DecodeFrame_length_checked:
  "if n > 1048576 then DecodeFrame (PutUint32 n @ r) = Inl ErrFrameTooLarge
   else if n < 3 then DecodeFrame (PutUint32 n @ r) = Inl ErrInvalidFrameLength
   else if length r < unat n then DecodeFrame (PutUint32 n @ r) \<in> {Inl io_EOF, Inl io_ErrUnexpectedEOF}
   else \<exists>f. DecodeFrame (PutUint32 n @ r) = Inr (f, drop (unat n) r) \<and> length (Frame_Payload f) = unat n - 3"
proof -
  have len: "ReadUint32 (PutUint32 n @ r) = Inr (n, r)" by (simp add: codec)
  consider "n > 1048576" | "n < 3" | "\<not> n > 1048576" "\<not> n < 3" by linarith
  then show ?thesis
  proof cases
    case 3
    define D where "D = DecodeFrame (PutUint32 n @ r)"
    have body: "D = rd_bind ReadUint8 (\<lambda>version.
          rd_bind ReadUint8 (\<lambda>msgType.
          rd_bind ReadUint8 (\<lambda>flags.
          rd_bind (\<lambda>r. if n - 3 > 0 then ReadFull (unat (n - 3)) r else Inr ([], r)) (\<lambda>payload.
          rd_return \<lparr>Frame_Version = version, Frame_Type = msgType, Frame_Flags = flags,
            Frame_Payload = payload\<rparr>)))) r"
      using 3 unfolding D_def DecodeFrame_def rd_bind_def len by (simp add: MaxFrameSize_def)
    have three: "3 \<le> unat n" using 3(2) by (simp add: word_less_nat_alt)
    have sub: "unat (n - 3) = unat n - 3" using 3(2) unat_sub [of 3 n] by simp
    have pos: "n - 3 > 0 \<longleftrightarrow> unat n \<noteq> 3"
      using sub three by (simp add: word_less_nat_alt) linarith
    consider "r = []" | a where "r = [a]" | a b where "r = [a, b]" | a b c r' where "r = a # b # c # r'"
      by (metis list.exhaust)
    then have "if length r < unat n then D \<in> {Inl io_EOF, Inl io_ErrUnexpectedEOF}
      else \<exists>f. D = Inr (f, drop (unat n) r) \<and> length (Frame_Payload f) = unat n - 3"
      using three
      by cases (auto simp: body pos sub rd_bind_def ReadUint8_def ReadFull_def rd_return_def drop_Cons' numeral_eq_Suc split: if_splits)
    with 3 show ?thesis unfolding D_def by simp
  qed (auto simp: DecodeFrame_def rd_bind_def len MaxFrameSize_def)
qed

text \<open>C23. The reading loop of a connection returns some frames and an error exactly when its bytes are
  these frames, one after the other, followed by bytes that no frame begins: no frame is dropped,
  invented or shifted, whatever the peer sends.\<close>

theorem frames_of_exact:
  "frames_of r = (fs, e) \<longleftrightarrow>
    (\<exists>r'. r = concat (map frame_wire fs) @ r' \<and> list_all frame_fits fs \<and> DecodeFrame r' = Inl e)"
proof
  assume "\<exists>r'. r = concat (map frame_wire fs) @ r' \<and> list_all frame_fits fs \<and> DecodeFrame r' = Inl e"
  then obtain r' where "r = concat (map frame_wire fs) @ r'" "list_all frame_fits fs" "DecodeFrame r' = Inl e" by blast
  then show "frames_of r = (fs, e)"
    by (simp add: frames_of_append frames_of.simps [of r'])
qed (rule frames_of_sound)

section \<open>Strings\<close>

text \<open>A string of at most 65535 bytes is written with its length and read back whole, whatever
  bytes it holds, and leaves the bytes behind it; a longer one is refused.\<close>

theorem WriteString_roundtrip:
  "(case to_bytes (WriteString buffer s) of
      Inr b \<Rightarrow> length s \<le> 65535 \<and> ReadString (b @ r) = Inr (s, r)
    | Inl e \<Rightarrow> length s > 65535 \<and> e = ErrStringTooLong)"
  by (auto simp: codec string_ok_def)

end
