(* ===== verification/WireProps.thy ===== *)
theory WireProps imports Protocol FrameProps begin

text \<open>
  The properties of the protocol as a whole: a conversation sent as frames arrives message for message,
  a type code names one message type, and the content rules of the two messages that carry user
  input hold at both ends.
\<close>

section \<open>Conversations\<close>

text \<open>
  sendMessage of handlers.go: the payload from Encode, in a frame of the given type,
  written to the connection; and the bytes it puts on a connection that takes them all.
\<close>

definition sendMessage :: "'w io_writer \<Rightarrow> u8 \<Rightarrow> ProtocolMessage \<Rightarrow> 'w wr" where
  "sendMessage w msgType m =
    (case Encode m of Inl e \<Rightarrow> fails e
     | Inr payload \<Rightarrow> EncodeFrame w
        \<lparr>Frame_Version = ProtocolVersion, Frame_Type = msgType, Frame_Flags = 0, Frame_Payload = payload\<rparr>)"

definition send_bytes :: "ProtocolMessage \<Rightarrow> go_error + bytes" where
  "send_bytes m = to_bytes (sendMessage buffer (type_of_message m) m)"

lemma send_bytes_eq:
  "send_bytes m = (case Encode m of Inl e \<Rightarrow> Inl e
     | Inr p \<Rightarrow> EncodeMessage ProtocolVersion (type_of_message m) 0 p)"
  by (simp add: send_bytes_def sendMessage_def EncodeMessage_def codec split: sum.split)

lemma EncodeMessage_Inr:
  assumes "EncodeMessage v t fl p = Inr b" and "length b < 2 ^ 32"
  shows "b = frame_wire \<lparr>Frame_Version = v, Frame_Type = t, Frame_Flags = fl, Frame_Payload = p\<rparr> \<and>
    frame_fits \<lparr>Frame_Version = v, Frame_Type = t, Frame_Flags = fl, Frame_Payload = p\<rparr>"
proof -
  let ?f = "\<lparr>Frame_Version = v, Frame_Type = t, Frame_Flags = fl, Frame_Payload = p\<rparr>"
  obtain s r where run: "EncodeFrame buffer ?f [] = (s, r)" by (cases "EncodeFrame buffer ?f []")
  with assms(1) have "r = None" "s = b" by (auto simp: EncodeMessage_def to_bytes_def split: option.splits)
  with buf.writes_ok [OF buf.writes_EncodeFrame] run have b: "b = frame_wire ?f" by fastforce
  with assms(2) have "3 + length p < 2 ^ 32" by (simp add: length_frame_wire)
  with assms(1) b EncodeFrame_buffer [of ?f] show ?thesis
    by (auto simp: EncodeMessage_def codec split: if_splits)
qed

text \<open>C5. A conversation arrives: when a list of messages is sent, each encoded into a frame of its type, then the
  reading loop at the other end takes exactly one frame per message off the connection, in order,
  and decoding each payload into a fresh struct of the frame's type gives the message back (its
  instants to the millisecond); what follows on the connection is read on from there.\<close>

theorem conversation_roundtrip:
  assumes "map send_bytes ms = map Inr bs" and "list_all message_sendable ms" and "\<forall>b \<in> set bs. length b < 2 ^ 32"
  shows "\<exists>fs. frames_of (concat bs @ r) = (case frames_of r of (gs, e) \<Rightarrow> (fs @ gs, e)) \<and>
    map (\<lambda>f. decode_message (Frame_Type f) (Frame_Payload f)) fs = map (\<lambda>m. Some (message_received m, None)) ms"
proof -
  have "\<exists>fs. concat bs = concat (map frame_wire fs) \<and> list_all frame_fits fs \<and>
    map (\<lambda>f. decode_message (Frame_Type f) (Frame_Payload f)) fs = map (\<lambda>m. Some (message_received m, None)) ms"
    using assms
  proof (induction ms arbitrary: bs)
    case Nil
    then show ?case by simp
  next
    case (Cons m ms)
    then obtain b bs' where bs: "bs = b # bs'" "send_bytes m = Inr b" "map send_bytes ms = map Inr bs'" by auto
    from bs(2) obtain p where p: "Encode m = Inr p" "EncodeMessage ProtocolVersion (type_of_message m) 0 p = Inr b"
      by (auto simp: send_bytes_eq split: sum.splits)
    obtain f where f: "b = frame_wire f" "frame_fits f" "Frame_Type f = type_of_message m" "Frame_Payload f = p"
      using EncodeMessage_Inr [OF p(2)] Cons.prems(3) bs(1) by force
    obtain fs where fs: "concat bs' = concat (map frame_wire fs)" "list_all frame_fits fs"
      "map (\<lambda>f. decode_message (Frame_Type f) (Frame_Payload f)) fs = map (\<lambda>m. Some (message_received m, None)) ms"
      using Cons.IH [OF bs(3)] Cons.prems bs(1) by auto
    from decode_message_encode [OF p(1)] Cons.prems(2) f fs bs(1)
    show ?case by (intro exI [of _ "f # fs"]) simp
  qed
  then show ?thesis using frames_of_append by metis
qed

lemma conversation_roundtrip_witness:
  "\<exists>fs. frames_of ([0, 0, 0, 11, 1, 0x10, 0, 0, 0, 0, 0, 0, 0, 0, 5] @ [0, 0, 0, 8, 1, 2, 0, 0, 3, 97, 98, 99]) = (fs, io_EOF) \<and>
    map (\<lambda>f. decode_message (Frame_Type f) (Frame_Payload f)) fs =
      [Some (PingM \<lparr>Ping_Timestamp = 5\<rparr>, None), Some (SetNicknameM \<lparr>SetNickname_Nickname = [97, 98, 99]\<rparr>, None)]"
proof -
  let ?ms = "[PingM \<lparr>Ping_Timestamp = 5\<rparr>, SetNicknameM \<lparr>SetNickname_Nickname = [97, 98, 99]\<rparr>]"
  let ?bs = "[[0, 0, 0, 11, 1, 0x10, 0, 0, 0, 0, 0, 0, 0, 0, 5], [0, 0, 0, 8, 1, 2, 0, 0, 3, 97, 98, 99]] :: bytes list"
  have "map send_bytes ?ms = map Inr ?bs" by code_simp
  from conversation_roundtrip [OF this, of "[]"] show ?thesis by (auto simp: frames_of_Nil)
qed

text \<open>The chain of codes is walked one link at a time.\<close>

definition chain_typed :: "u8 \<Rightarrow> (ProtocolMessage \<times> go_error option) option \<Rightarrow> bool" where
  "chain_typed t x \<longleftrightarrow> (\<forall>r. x = Some r \<longrightarrow> type_of_message (fst r) = t)"

lemma chain_typed_if:
  "type_of_message (c (fst r)) = T \<Longrightarrow> chain_typed t x \<Longrightarrow> chain_typed t (if t = T then Some (decode_into c r) else x)"
  by (auto simp: chain_typed_def decode_into_def)

lemma chain_typed_None: "chain_typed t None"
  by (simp add: chain_typed_def)

lemma chain_None_iff: "(if t = T then Some r else x) = None \<longleftrightarrow> t \<noteq> T \<and> x = None"
  by simp

lemma decode_message_typed: "chain_typed t (decode_message t p)"
  unfolding decode_message_def
  by (intro chain_typed_if chain_typed_None) (simp_all only: type_of_message.simps)

lemma decode_message_None_iff: "decode_message t p = None \<longleftrightarrow> t \<notin> set all_types"
  by (simp only: decode_message_def chain_None_iff all_types_def list.set insert_iff empty_iff de_Morgan_disj
      not_False_eq_True simp_thms)


section \<open>Content rules\<close>

text \<open>A nickname travels exactly when it has 3 to 20 bytes, and the receiver applies the same rule to
  whatever bytes arrive: it reports an error and keeps its own fields, or holds such a nickname.\<close>

theorem nickname_rule:
  "(case SetNicknameMessage_Encode m of
      Inl e \<Rightarrow> (length (SetNickname_Nickname m) < 3 \<and> e = ErrNicknameTooShort) \<or>
        (20 < length (SetNickname_Nickname m) \<and> e = ErrNicknameTooLong)
    | Inr p \<Rightarrow> length (SetNickname_Nickname m) \<in> {3..20} \<and> SetNicknameMessage_Decode m0 p = (m, None)) \<and>
   (case SetNicknameMessage_Decode m0 p of (m', e) \<Rightarrow>
      if e = None then length (SetNickname_Nickname m') \<in> {3..20} else m' = m0)"
proof (rule conjI)
  show "case SetNicknameMessage_Encode m of
      Inl e \<Rightarrow> (length (SetNickname_Nickname m) < 3 \<and> e = ErrNicknameTooShort) \<or>
        (20 < length (SetNickname_Nickname m) \<and> e = ErrNicknameTooLong)
    | Inr p \<Rightarrow> length (SetNickname_Nickname m) \<in> {3..20} \<and> SetNicknameMessage_Decode m0 p = (m, None)"
  proof (cases "SetNicknameMessage_Encode m")
    case (Inr p)
    with SetNicknameMessage_roundtrip [OF Inr] show ?thesis by (auto simp: msg_def codec split: if_splits)
  qed (auto simp: msg_def codec string_ok_def split: if_splits)
qed (auto simp: msg_def read_then_def split: sum.splits)

text \<open>A posted message travels exactly when its content has 1 to 4096 bytes, and the receiver refuses
  empty and longer content before it touches its fields.\<close>

theorem content_rule:
  "(case PostMessageMessage_Encode m of
      Inl e \<Rightarrow> (PostMessage_Content m = [] \<and> e = ErrEmptyContent) \<or>
        (4096 < length (PostMessage_Content m) \<and> e = ErrMessageTooLong)
    | Inr p \<Rightarrow> length (PostMessage_Content m) \<in> {1..4096} \<and> PostMessageMessage_Decode m0 p = (m, None)) \<and>
   (case PostMessageMessage_Decode m0 p of (m', e) \<Rightarrow>
      if e = None then length (PostMessage_Content m') \<in> {1..4096} else m' = m0)"
proof (rule conjI)
  show "case PostMessageMessage_Encode m of
      Inl e \<Rightarrow> (PostMessage_Content m = [] \<and> e = ErrEmptyContent) \<or>
        (4096 < length (PostMessage_Content m) \<and> e = ErrMessageTooLong)
    | Inr p \<Rightarrow> length (PostMessage_Content m) \<in> {1..4096} \<and> PostMessageMessage_Decode m0 p = (m, None)"
  proof (cases "PostMessageMessage_Encode m")
    case (Inr p)
    with PostMessageMessage_roundtrip [OF Inr] show ?thesis by (auto simp: msg_def codec Suc_le_eq split: if_splits)
  next
    case (Inl e)
    then show ?thesis
      by (auto simp: msg_def codec string_ok_def split: if_splits) (simp add: to_bytes_def emit_def steps.simps)
  qed
qed (auto simp: msg_def read_then_def Suc_le_eq split: sum.splits)

section \<open>User flags\<close>

text \<open>A displayed nickname has a prefix exactly when the user is an admin or a moderator, an admin's
  being the dollar sign also when the moderator bit is set; the other six bits do not matter.\<close>

theorem DisplayPrefix_bits:
  "DisplayPrefix f = (if bit f 0 then lit ''$'' else if bit f 1 then lit ''@'' else []) \<and>
   (DisplayPrefix f = [] \<longleftrightarrow> \<not> IsSystem f)"
  by (simp add: DisplayPrefix_def IsSystem_iff IsAdmin_bit IsModerator_bit lit_def)

end
