(* ===== verification/Snowflake.thy ===== *)
theory Snowflake imports Prelude begin

text \<open>
  "pkg/database/snowflake.go": the generator of message and session ids.

  "time.Now().UnixMilli()" is external: the clock is the list of the readings the code
  takes, in order. A busy wait consumes readings; running out of readings is the call that has
  not returned, None. One round of the loop in NextID is attempt; the
  sequential generator is NextID, and the goroutines that share one generator through
  compare-and-swap are the step relation at the end.
\<close>

section \<open>The generator\<close>

definition sequenceMask :: i64 where
  "sequenceMask = push_bit 12 1 - 1"

definition maxWorkerID :: i64 where
  "maxWorkerID = push_bit 10 1 - 1"

record Snowflake =
  sf_epoch :: i64
  sf_workerID :: i64
  sf_state :: i64

definition NewSnowflake :: "i64 \<Rightarrow> i64 \<Rightarrow> Snowflake" where
  "NewSnowflake epoch workerID =
    (let workerID = if sint workerID < 0 \<or> sint workerID > sint maxWorkerID then 0 else workerID in
     \<lparr>sf_epoch = epoch, sf_workerID = workerID, sf_state = 0\<rparr>)"

text \<open>"for p(time.Now().UnixMilli()) {}": the readings left after the first that ends the wait.\<close>

fun wait_while :: "(i64 \<Rightarrow> bool) \<Rightarrow> i64 list \<Rightarrow> i64 list option" where
  "wait_while p [] = None"
| "wait_while p (t # clock) = (if p t then wait_while p clock else Some clock)"

text \<open>The time and the sequence number one round of the loop chooses, and the readings left.\<close>

definition attempt :: "i64 \<Rightarrow> i64 list \<Rightarrow> ((i64 \<times> i64) \<times> i64 list) option" where
  "attempt oldState clock =
    (let lastTime = signed_drop_bit 12 oldState; sequence = oldState AND sequenceMask in
     case clock of [] \<Rightarrow> None
     | now # clock \<Rightarrow>
        if now = lastTime then
          (let newSequence = (sequence + 1) AND sequenceMask in
           if newSequence = 0 then
             (case wait_while (\<lambda>t. sint t \<le> sint lastTime) clock of
                Some (now # clock) \<Rightarrow> Some ((now, 0), clock)
              | _ \<Rightarrow> None)
           else Some ((lastTime, newSequence), clock))
        else if sint now > sint lastTime then Some ((now, 0), clock)
        else
          (let newSequence = (sequence + 1) AND sequenceMask in
           if newSequence = 0 then
             (case wait_while (\<lambda>t. sint t < sint lastTime) clock of
                Some (now # clock) \<Rightarrow> Some ((now, 0), clock)
              | _ \<Rightarrow> None)
           else Some ((lastTime, newSequence), clock)))"

definition pack_state :: "i64 \<times> i64 \<Rightarrow> i64" where
  "pack_state ts = push_bit 12 (fst ts) OR snd ts"

definition make_id :: "Snowflake \<Rightarrow> i64 \<times> i64 \<Rightarrow> i64" where
  "make_id s ts = push_bit 22 (fst ts - sf_epoch s) OR push_bit 12 (sf_workerID s) OR snd ts"

text \<open>A call that no other goroutine disturbs: its first compare-and-swap succeeds.\<close>

definition NextID :: "Snowflake \<Rightarrow> i64 list \<Rightarrow> (i64 \<times> Snowflake \<times> i64 list) option" where
  "NextID s clock =
    (case attempt (sf_state s) clock of None \<Rightarrow> None
     | Some (ts, clock) \<Rightarrow> Some (make_id s ts, s\<lparr>sf_state := pack_state ts\<rparr>, clock))"

text \<open>n calls, one after the other.\<close>

fun NextIDs :: "nat \<Rightarrow> Snowflake \<Rightarrow> i64 list \<Rightarrow> (i64 list \<times> Snowflake \<times> i64 list) option" where
  "NextIDs 0 s clock = Some ([], s, clock)"
| "NextIDs (Suc n) s clock =
    (case NextID s clock of None \<Rightarrow> None
     | Some (i, s, clock) \<Rightarrow>
        (case NextIDs n s clock of None \<Rightarrow> None
         | Some (is, s, clock) \<Rightarrow> Some (i # is, s, clock)))"

section \<open>Packing\<close>

text \<open>Times the 52 bits of the state can hold; the clock shows no others before the year 73000.\<close>

definition time_ok :: "i64 \<Rightarrow> bool" where
  "time_ok t \<longleftrightarrow> uint t < 2 ^ 51"

lemma sequenceMask_eq: "sequenceMask = mask 12"
  by (simp add: sequenceMask_def mask_eq_exp_minus_1)

lemma sint_eq_uint_small: "uint w < 2 ^ 63 \<Longrightarrow> sint w = uint (w :: i64)"
  unfolding sint_uint by (rule trans [OF signed_take_bit_int_eq_self]) (auto intro: order.trans [of _ 0])

lemma uint_small_take_bit: "uint w < 2 ^ n \<longleftrightarrow> take_bit n w = (w :: i64)"
  by (metis take_bit_int_eq_self_iff unsigned_take_bit_eq uint_ge_0 unsigned_word_eqI)

lemma time_ok_sint: "time_ok t \<Longrightarrow> sint t = uint t"
  by (rule sint_eq_uint_small) (simp add: time_ok_def)

lemma or_eq_plus:
  fixes x y :: i64
  assumes "uint y < 2 ^ n"
  shows "push_bit n x OR y = push_bit n x + y"
proof -
  have y: "take_bit n y = y" using assms by (simp only: uint_small_take_bit)
  have "push_bit n x AND take_bit n y = 0"
    by (rule bit_word_eqI) (auto simp: bit_simps)
  then show ?thesis by (simp only: y disjunctive_add_eq_or)
qed

lemma uint_push_or:
  fixes x y :: i64
  assumes "uint y < 2 ^ n" and "uint x * 2 ^ n + uint y < 2 ^ 64"
  shows "uint (push_bit n x OR y) = uint x * 2 ^ n + uint y"
proof -
  have "push_bit n x OR y = of_int (uint x * 2 ^ n + uint y)"
    using or_eq_plus [OF assms(1)] by (simp add: push_bit_eq_mult)
  then have "uint (push_bit n x OR y) = uint (of_int (uint x * 2 ^ n + uint y) :: i64)"
    by (rule arg_cong)
  also have "\<dots> = take_bit 64 (uint x * 2 ^ n + uint y)"
    by (simp only: unsigned_of_int) simp
  also have "\<dots> = uint x * 2 ^ n + uint y"
    using assms(2) by (intro take_bit_int_eq_self) auto
  finally show ?thesis .
qed

lemma pack_uint:
  assumes "time_ok t" and "uint s < 2 ^ 12"
  shows "uint (pack_state (t, s)) = uint t * 2 ^ 12 + uint s"
  unfolding pack_state_def fst_conv snd_conv
  by (rule uint_push_or) (use assms in \<open>auto simp: time_ok_def\<close>)

text \<open>The two halves of a state, read back as the loop does.\<close>

definition state_ok :: "i64 \<Rightarrow> bool" where
  "state_ok w \<longleftrightarrow> uint w < 2 ^ 63"

abbreviation last_time :: "i64 \<Rightarrow> i64" where
  "last_time w \<equiv> signed_drop_bit 12 w"

abbreviation last_seq :: "i64 \<Rightarrow> i64" where
  "last_seq w \<equiv> w AND sequenceMask"

lemma uint_last_time:
  assumes "state_ok w"
  shows "uint (last_time w) = uint w div 2 ^ 12"
proof -
  have "take_bit 63 w = w" using assms by (simp only: state_ok_def uint_small_take_bit)
  then have "\<not> bit w 63" by (metis bit_take_bit_iff less_irrefl)
  then have "last_time w = drop_bit 12 w"
    by (intro bit_word_eqI) (auto simp: bit_simps dest: bit_imp_le_length)
  then show ?thesis by (simp add: drop_bit_eq_div uint_div_distrib)
qed

lemma last_time_ok: "state_ok w \<Longrightarrow> time_ok (last_time w)"
  by (simp add: time_ok_def uint_last_time state_ok_def)

lemma uint_masked: "uint (w AND sequenceMask) = uint (w :: i64) mod 2 ^ 12"
  by (simp add: sequenceMask_eq take_bit_eq_mask [symmetric] take_bit_eq_mod uint_mod_distrib)

lemma state_uint: "state_ok w \<Longrightarrow> uint w = uint (last_time w) * 2 ^ 12 + uint (last_seq w)"
  by (simp only: uint_last_time uint_masked) (simp add: div_mult_mod_eq)

lemma uint_next_seq:
  "uint ((last_seq w + 1) AND sequenceMask) = (uint (last_seq w) + 1) mod 2 ^ 12"
proof -
  have "uint (last_seq w) < 2 ^ 12" by (simp only: uint_masked) simp
  then have "uint (last_seq w + 1) = uint (last_seq w) + 1"
    by (simp add: uint_word_ariths)
  then show ?thesis by (simp only: uint_masked)
qed

section \<open>One round of the loop\<close>

text \<open>
  The readings of a clock that does not step backwards, the first of them not before lo.
\<close>

definition clock_ok :: "int \<Rightarrow> i64 list \<Rightarrow> bool" where
  "clock_ok lo clock \<longleftrightarrow> list_all time_ok clock \<and> sorted (map uint clock) \<and> (\<forall>t \<in> set clock. lo \<le> uint t)"

lemma clock_ok_Cons: "clock_ok lo (t # clock) \<longleftrightarrow> time_ok t \<and> lo \<le> uint t \<and> clock_ok (max lo (uint t)) clock"
  by (auto simp: clock_ok_def)

lemma clock_ok_mono: "clock_ok lo clock \<Longrightarrow> lo' \<le> lo \<Longrightarrow> clock_ok lo' clock"
  by (auto simp: clock_ok_def)

text \<open>A wait for a later time ends at a later time, and the readings left are no earlier.\<close>

lemma wait_while_later:
  assumes "wait_while (\<lambda>t. sint t \<le> sint (l :: i64)) clock = Some rest"
    and "clock_ok lo clock" and "time_ok l"
  shows "clock_ok (uint l + 1) rest"
  using assms
proof (induction clock arbitrary: lo)
  case Nil
  then show ?case by simp
next
  case (Cons t clock)
  show ?case
  proof (cases "sint t \<le> sint l")
    case True
    with Cons show ?thesis by (auto simp: clock_ok_Cons)
  next
    case False
    with Cons.prems have "uint l + 1 \<le> uint t" "rest = clock" "clock_ok (max lo (uint t)) clock"
      by (auto simp: clock_ok_Cons time_ok_sint)
    then show ?thesis by (auto elim: clock_ok_mono)
  qed
qed

text \<open>What a round of the loop can have chosen when the clock is not behind the state.\<close>

lemma attempt_cases:
  assumes run: "attempt w clock = Some ((t, q), rest)"
    and behind: "\<forall>c \<in> set clock. sint (last_time w) \<le> sint c"
  obtains (same) "t = last_time w" "q = (last_seq w + 1) AND sequenceMask" "q \<noteq> 0" "clock = t # rest"
    | (full) tail where "clock = last_time w # tail" "q = 0"
        "wait_while (\<lambda>x. sint x \<le> sint (last_time w)) tail = Some (t # rest)"
    | (later) "sint (last_time w) < sint t" "q = 0" "clock = t # rest"
proof (cases clock)
  case Nil
  with run show thesis by (simp add: attempt_def Let_def)
next
  case (Cons now tail)
  with behind have le: "sint (last_time w) \<le> sint now" by simp
  show thesis
  proof (cases "now = last_time w")
    case True
    with run Cons show thesis
      by (cases "(last_seq w + 1) AND sequenceMask = 0")
        (auto simp: attempt_def Let_def split: option.splits list.splits intro: that)
  next
    case False
    with le have "sint (last_time w) < sint now"
      by (metis order.not_eq_order_implies_strict signed_word_eqI)
    with False run Cons show thesis by (auto simp: attempt_def Let_def intro: that)
  qed
qed

lemma clock_ok_behind:
  assumes "clock_ok (uint l) clock" and "time_ok l"
  shows "\<forall>c \<in> set clock. sint l \<le> sint c"
  using assms by (auto simp: clock_ok_def list_all_iff time_ok_sint)

lemma mod_4096_Suc: "(x + 1) mod 2 ^ 12 \<noteq> 0 \<Longrightarrow> 0 \<le> x \<Longrightarrow> x < 2 ^ 12 \<Longrightarrow> (x + 1) mod 2 ^ 12 = (x + 1 :: int)"
  by (cases "x + 1 = 2 ^ 12") auto

lemma attempt_advances:
  assumes state: "state_ok w" and clock: "clock_ok (uint (last_time w)) clock"
    and run: "attempt w clock = Some ((t, q), rest)"
  shows "time_ok t \<and> uint q < 2 ^ 12 \<and> uint w < uint t * 2 ^ 12 + uint q \<and> clock_ok (uint t) rest"
proof -
  let ?l = "last_time w" and ?n = "(last_seq w + 1) AND sequenceMask"
  have l: "time_ok ?l" by (rule last_time_ok [OF state])
  have seq: "uint (last_seq w) < 2 ^ 12" by (simp only: uint_masked) simp
  have w: "uint w = uint ?l * 2 ^ 12 + uint (last_seq w)" by (rule state_uint [OF state])
  from run clock_ok_behind [OF clock l] show ?thesis
  proof (cases rule: attempt_cases)
    case same
    have "uint ?n \<noteq> 0" using same(2,3) by (metis unsigned_eq_0_iff)
    then have "uint q = uint (last_seq w) + 1"
      using seq by (simp only: same(2) uint_next_seq) (rule mod_4096_Suc, auto)
    moreover have "uint q < 2 ^ 12" by (simp only: same(2) uint_masked) simp
    ultimately show ?thesis using same w l clock by (simp add: clock_ok_Cons)
  next
    case (full tail)
    then have "clock_ok (uint ?l + 1) (t # rest)"
      using clock l by (intro wait_while_later [OF full(3)]) (auto simp: clock_ok_Cons)
    then show ?thesis using full(2) seq w by (auto simp: clock_ok_Cons max_absorb2)
  next
    case later
    then show ?thesis using clock seq w l by (auto simp: clock_ok_Cons time_ok_sint max_absorb2)
  qed
qed

lemma wait_while_suffix: "wait_while p clock = Some rest \<Longrightarrow> set rest \<subseteq> set clock"
  by (induction p clock rule: wait_while.induct) (auto split: if_splits)

lemma attempt_reading:
  assumes "state_ok w" and "clock_ok (uint (last_time w)) clock" and run: "attempt w clock = Some ((t, q), rest)"
  shows "t \<in> set clock"
  using run clock_ok_behind [OF assms(2) last_time_ok [OF assms(1)]]
proof (cases rule: attempt_cases)
  case (full tail)
  then show ?thesis using wait_while_suffix [OF full(3)] by simp
qed auto

lemma attempt_monotone:
  assumes "state_ok w" and "clock_ok (uint (last_time w)) clock"
    and "attempt w clock = Some ((t, q), rest)"
  shows "time_ok t" and "uint q < 2 ^ 12" and "uint w < uint (pack_state (t, q))"
    and "clock_ok (uint t) rest"
  using attempt_advances [OF assms] by (auto simp: pack_uint)

lemma pack_state_ok: "time_ok t \<Longrightarrow> uint q < 2 ^ 12 \<Longrightarrow> state_ok (pack_state (t, q))"
  by (simp add: state_ok_def pack_uint time_ok_def)

lemma last_time_pack:
  assumes "time_ok t" and "uint q < 2 ^ 12"
  shows "last_time (pack_state (t, q)) = t"
proof -
  have "uint (last_time (pack_state (t, q))) = uint t"
    using assms by (simp add: uint_last_time pack_state_ok pack_uint)
  then show ?thesis by (rule word_uint_eqI)
qed

lemma last_seq_pack:
  assumes "time_ok t" and "uint q < 2 ^ 12"
  shows "last_seq (pack_state (t, q)) = q"
proof -
  have "uint (last_seq (pack_state (t, q))) = uint q"
    using assms by (simp only: uint_masked pack_uint) simp
  then show ?thesis by (rule word_uint_eqI)
qed

section \<open>The sequential generator\<close>

text \<open>
  A generator whose fields are in range, and the times its 41 bits of timestamp can tell apart:
  from the epoch on, for about 69 years.
\<close>

definition generator_ok :: "Snowflake \<Rightarrow> bool" where
  "generator_ok s \<longleftrightarrow> state_ok (sf_state s) \<and> time_ok (sf_epoch s) \<and> uint (sf_workerID s) < 2 ^ 10"

definition in_range :: "Snowflake \<Rightarrow> i64 \<Rightarrow> bool" where
  "in_range s t \<longleftrightarrow> time_ok t \<and> uint (sf_epoch s) \<le> uint t \<and> uint t < uint (sf_epoch s) + 2 ^ 41"

lemma small_worker:
  assumes "0 \<le> sint (w :: i64)" and "sint w \<le> 1023"
  shows "uint w < 1024"
proof -
  have "uint w = take_bit 64 (sint w)" using uint_sint [of w] by simp
  also have "\<dots> = sint w" using assms by (intro take_bit_int_eq_self) auto
  finally show ?thesis using assms by simp
qed

lemma NewSnowflake_ok: "time_ok epoch \<Longrightarrow> generator_ok (NewSnowflake epoch workerID)"
  using small_worker by (auto simp: generator_ok_def NewSnowflake_def state_ok_def maxWorkerID_def Let_def not_less)

text \<open>The fields of an id, where the comment at the type puts them.\<close>

lemma make_id_uint:
  assumes s: "generator_ok s" and t: "in_range s t" and q: "uint q < 2 ^ 12"
  shows "uint (make_id s (t, q)) =
    (uint t - uint (sf_epoch s)) * 2 ^ 22 + uint (sf_workerID s) * 2 ^ 12 + uint q"
proof -
  have d: "uint (t - sf_epoch s) = uint t - uint (sf_epoch s)"
    using s t by (simp add: uint_sub_if' in_range_def)
  have w: "uint (sf_workerID s) < 2 ^ 10" using s by (simp add: generator_ok_def)
  have low: "uint (push_bit 12 (sf_workerID s) OR q) = uint (sf_workerID s) * 2 ^ 12 + uint q"
    by (rule uint_push_or) (use w q in auto)
  have "make_id s (t, q) = push_bit 22 (t - sf_epoch s) OR (push_bit 12 (sf_workerID s) OR q)"
    by (simp add: make_id_def or.assoc)
  also have "uint \<dots> = uint (t - sf_epoch s) * 2 ^ 22 + uint (push_bit 12 (sf_workerID s) OR q)"
  proof (rule uint_push_or)
    show low22: "uint (push_bit 12 (sf_workerID s) OR q) < 2 ^ 22" using w q by (simp only: low) simp
    have "uint (t - sf_epoch s) < 2 ^ 41" using t d by (simp add: in_range_def)
    then show "uint (t - sf_epoch s) * 2 ^ 22 + uint (push_bit 12 (sf_workerID s) OR q) < 2 ^ 64"
      using low22 by simp
  qed
  finally show ?thesis by (simp only: d low)
qed

lemma make_id_nonneg:
  assumes "generator_ok s" and "in_range s t" and "uint q < 2 ^ 12"
  shows "sint (make_id s (t, q)) = uint (make_id s (t, q))"
  by (rule sint_eq_uint_small, subst make_id_uint [OF assms])
    (use assms in \<open>auto simp: in_range_def generator_ok_def\<close>)

lemma make_id_less:
  assumes "generator_ok s" and "in_range s t" and "uint q < 2 ^ 12" and "in_range s t'" and "uint q' < 2 ^ 12"
    and "uint t * 2 ^ 12 + uint q < uint t' * 2 ^ 12 + uint q'"
  shows "sint (make_id s (t, q)) < sint (make_id s (t', q'))"
proof -
  consider "uint t < uint t'" | "uint t = uint t'" "uint q < uint q'"
    using assms(3,5,6) uint_ge_0 [of q] uint_ge_0 [of q'] by (cases "uint t" "uint t'" rule: linorder_cases) auto
  then have "uint t * 2 ^ 22 + uint q < uint t' * 2 ^ 22 + uint q'"
  proof cases
    case 1
    then have "uint t + 1 \<le> uint t'" by simp
    then have "(uint t + 1) * 2 ^ 22 \<le> uint t' * 2 ^ 22" by (rule mult_right_mono) simp
    then have "uint t * 2 ^ 22 + uint q < uint t' * 2 ^ 22" using assms(3) by simp
    then show ?thesis by (rule order.strict_trans2) simp
  qed simp
  then show ?thesis using assms(1-5) by (simp add: make_id_nonneg make_id_uint left_diff_distrib)
qed

text \<open>A call that sees no step back of the clock, and what it leaves for the next.\<close>

definition clock_in_range :: "Snowflake \<Rightarrow> i64 list \<Rightarrow> bool" where
  "clock_in_range s clock \<longleftrightarrow> clock_ok (uint (last_time (sf_state s))) clock \<and> list_all (in_range s) clock"

lemma attempt_suffix: "attempt w clock = Some (ts, rest) \<Longrightarrow> set rest \<subseteq> set clock"
  by (auto simp: attempt_def Let_def split: list.splits if_splits option.splits dest!: wait_while_suffix)

lemma NextID_fresh:
  assumes s: "generator_ok s" and clock: "clock_in_range s clock" and run: "NextID s clock = Some (i, s', rest)"
  obtains t q where "i = make_id s (t, q)" and "in_range s t" and "uint q < 2 ^ 12" and "t \<in> set clock"
    and "uint (sf_state s) < uint t * 2 ^ 12 + uint q"
    and "s' = s\<lparr>sf_state := pack_state (t, q)\<rparr>" and "generator_ok s'" and "clock_in_range s' rest"
proof -
  from run obtain t q where a: "attempt (sf_state s) clock = Some ((t, q), rest)"
    and i: "i = make_id s (t, q)" "s' = s\<lparr>sf_state := pack_state (t, q)\<rparr>"
    by (auto simp: NextID_def split: option.splits)
  have ok: "state_ok (sf_state s)" "clock_ok (uint (last_time (sf_state s))) clock"
    using s clock by (auto simp: generator_ok_def clock_in_range_def)
  note adv = attempt_advances [OF ok a]
  have t: "t \<in> set clock" by (rule attempt_reading [OF ok a])
  have "list_all (in_range s') rest"
    using clock attempt_suffix [OF a] by (auto simp: clock_in_range_def list_all_iff i in_range_def)
  moreover have "last_time (pack_state (t, q)) = t" using adv by (simp add: last_time_pack)
  moreover have "in_range s t" using t clock by (auto simp: clock_in_range_def list_all_iff)
  ultimately show thesis
    using adv s i t by (intro that [of t q]) (auto simp: clock_in_range_def generator_ok_def pack_state_ok)
qed

text \<open>
  The ids of consecutive calls go up: each is above every id the state covers.
\<close>

definition fresh_id :: "Snowflake \<Rightarrow> i64 \<Rightarrow> bool" where
  "fresh_id s i \<longleftrightarrow> (\<exists>t q. i = make_id s (t, q) \<and> in_range s t \<and> uint q < 2 ^ 12 \<and>
     uint (sf_state s) < uint t * 2 ^ 12 + uint q)"

lemma make_id_state [simp]: "make_id (s\<lparr>sf_state := w\<rparr>) ts = make_id s ts"
  by (simp add: make_id_def)

lemma in_range_state [simp]: "in_range (s\<lparr>sf_state := w\<rparr>) t = in_range s t"
  by (simp add: in_range_def)

lemma fresh_id_later:
  assumes "fresh_id (s\<lparr>sf_state := pack_state (t, q)\<rparr>) i" and "in_range s t" and "uint q < 2 ^ 12"
    and "generator_ok s"
  shows "sint (make_id s (t, q)) < sint i"
  using assms by (auto simp: fresh_id_def pack_uint in_range_def intro!: make_id_less)

lemma fresh_id_mono:
  assumes "fresh_id (s\<lparr>sf_state := w\<rparr>) i" and "uint (sf_state s) \<le> uint w"
  shows "fresh_id s i"
  using assms by (force simp: fresh_id_def)

lemma NextIDs_fresh:
  assumes "generator_ok s" and "clock_in_range s clock"
    and "NextIDs n s clock = Some (ids, s', rest)"
  shows "length ids = n \<and> sorted_wrt (<) (map sint ids) \<and> list_all (fresh_id s) ids"
  using assms
proof (induction n arbitrary: s clock ids)
  case 0
  then show ?case by simp
next
  case (Suc n)
  from Suc.prems(3) obtain i s1 clock1 ids1 where first: "NextID s clock = Some (i, s1, clock1)"
    and others: "NextIDs n s1 clock1 = Some (ids1, s', rest)" and ids: "ids = i # ids1"
    by (auto split: option.splits)
  from NextID_fresh [OF Suc.prems(1,2) first] obtain t q where i: "i = make_id s (t, q)" "in_range s t" "uint q < 2 ^ 12"
    "uint (sf_state s) < uint t * 2 ^ 12 + uint q" "s1 = s\<lparr>sf_state := pack_state (t, q)\<rparr>"
    "generator_ok s1" "clock_in_range s1 clock1" by blast
  have IH: "length ids1 = n \<and> sorted_wrt (<) (map sint ids1) \<and> list_all (fresh_id s1) ids1"
    by (rule Suc.IH [OF i(6,7) others])
  have pack: "uint (sf_state s) \<le> uint (pack_state (t, q))"
    using i(2-4) by (simp add: pack_uint in_range_def)
  have "list_all (fresh_id s) ids1"
    using IH fresh_id_mono [OF _ pack] by (auto simp: list_all_iff i(5))
  moreover have "\<forall>j \<in> set ids1. sint i < sint j"
    using IH fresh_id_later [OF _ i(2,3) Suc.prems(1)] by (auto simp: list_all_iff i(1,5))
  moreover have "fresh_id s i" using i(1-4) by (auto simp: fresh_id_def)
  ultimately show ?case using IH by (simp add: ids)
qed

text \<open>A call returns as soon as the clock shows one later time and is read once more.\<close>

lemma wait_while_ends:
  assumes "t \<in> set clock" and "\<not> p t"
  shows "\<exists>rest. wait_while p clock = Some rest"
  using assms by (induction p clock rule: wait_while.induct) auto

lemma wait_while_then_reading:
  assumes "\<not> p t"
  shows "\<exists>u rest. wait_while p (before @ t # after @ [v]) = Some (u # rest)"
proof (induction before)
  case Nil
  with assms show ?case by (cases after) auto
next
  case (Cons b before)
  then show ?case by (cases "p b") (auto, cases before, auto)
qed

lemma attempt_returns:
  assumes "sint (last_time w) < sint t"
  shows "\<exists>r. attempt w (c # before @ t # after @ [v]) = Some r"
proof -
  from assms have "\<exists>u rest. wait_while (\<lambda>x. sint x \<le> sint (last_time w)) (before @ t # after @ [v]) = Some (u # rest)"
    and "\<exists>u rest. wait_while (\<lambda>x. sint x < sint (last_time w)) (before @ t # after @ [v]) = Some (u # rest)"
    by (auto intro!: wait_while_then_reading)
  then show ?thesis by (auto simp: attempt_def Let_def)
qed

section \<open>A step back of the clock\<close>

lemma attempt_same:
  assumes "time_ok t" and "uint q + 1 < 2 ^ 12"
  shows "attempt (pack_state (t, q)) (t # clock) = Some ((t, q + 1), clock)"
proof -
  have q: "uint q < 2 ^ 12" using assms(2) by simp
  have "uint (q + 1) = uint q + 1" using q by (simp add: uint_word_ariths)
  then have "uint ((q + 1) AND sequenceMask) = uint q + 1" "uint (q + 1) = uint q + 1" 
    using assms(2) by (auto simp only: uint_masked, simp)
  then have "(q + 1) AND sequenceMask = q + 1" "q + 1 \<noteq> 0"
    by (metis word_uint_eqI, metis add_nonneg_pos unsigned_0 uint_ge_0 less_irrefl zero_less_one)
  then show ?thesis
    using assms(1) q by (simp add: attempt_def Let_def last_time_pack last_seq_pack)
qed

lemma NextIDs_add:
  "NextIDs (m + n) s clock =
    (case NextIDs m s clock of None \<Rightarrow> None
     | Some (is, s1, clock1) \<Rightarrow>
        (case NextIDs n s1 clock1 of None \<Rightarrow> None
         | Some (js, s2, clock2) \<Rightarrow> Some (is @ js, s2, clock2)))"
  by (induction m arbitrary: s clock) (auto split: option.splits)

lemma NextIDs_same:
  assumes "time_ok t" and "uint q + int k < 2 ^ 12"
  shows "\<exists>ids. NextIDs k (s\<lparr>sf_state := pack_state (t, q)\<rparr>) (replicate k t @ clock) =
    Some (ids, s\<lparr>sf_state := pack_state (t, q + of_nat k)\<rparr>, clock)"
  using assms(2)
proof (induction k arbitrary: q)
  case 0
  then show ?case by simp
next
  case (Suc k)
  then have "uint (q + 1) = uint q + 1" by (simp add: uint_word_ariths)
  with Suc.prems have "uint (q + 1) + int k < 2 ^ 12" by simp
  from Suc.IH [OF this] obtain ids where "NextIDs k (s\<lparr>sf_state := pack_state (t, q + 1)\<rparr>) (replicate k t @ clock) =
    Some (ids, s\<lparr>sf_state := pack_state (t, q + of_nat (Suc k))\<rparr>, clock)"
    by (auto simp only: of_nat_Suc add.assoc)
  moreover have "NextID (s\<lparr>sf_state := pack_state (t, q)\<rparr>) (replicate (Suc k) t @ clock) =
    Some (make_id s (t, q + 1), s\<lparr>sf_state := pack_state (t, q + 1)\<rparr>, replicate k t @ clock)"
    using attempt_same [OF assms(1), of q "replicate k t @ clock"] Suc.prems by (simp add: NextID_def)
  ultimately show ?case by (simp del: of_nat_Suc replicate.simps)
qed

lemma attempt_new:
  assumes "sint (last_time w) < sint t"
  shows "attempt w (t # clock) = Some ((t, 0), clock)"
  using assms by (auto simp: attempt_def Let_def)

lemma time_ok_pred: "time_ok t \<Longrightarrow> t \<noteq> 0 \<Longrightarrow> time_ok (t - 1) \<and> uint (t - 1) = uint t - 1"
proof -
  assume t: "time_ok t" "t \<noteq> 0"
  then have "uint t \<noteq> 0" by (simp only: unsigned_eq_0_iff not_False_eq_True)
  then have "1 \<le> uint t" using uint_ge_0 [of t] by linarith
  with t(1) show ?thesis by (simp add: time_ok_def uint_sub_if')
qed

lemma attempt_after_step_back:
  assumes "time_ok t" and "t \<noteq> 0"
  shows "attempt (pack_state (t, 4095)) [t - 1, t, t] = Some ((t, 0), [])"
proof -
  have p: "time_ok (t - 1)" "uint (t - 1) = uint t - 1" using time_ok_pred [OF assms] by auto
  have "last_time (pack_state (t, 4095)) = t" "last_seq (pack_state (t, 4095)) = 4095"
    using assms(1) by (auto simp: last_time_pack last_seq_pack)
  then show ?thesis
    using assms(1) p by (simp add: attempt_def Let_def time_ok_sint sequenceMask_eq mask_eq_exp_minus_1)
qed

section \<open>The generator as a source of ids\<close>

text \<open>
  What the database relies on: a draw yields an id above every id drawn before, from this source or
  from an earlier run of the program, and reading the clock in between does no harm. The contract
  is stated for any source; the generator above, on a clock that does not step back, is one.
\<close>

locale id_source =
  fixes draw :: "'s \<Rightarrow> 'c \<Rightarrow> (i64 \<times> 's \<times> 'c) option"
    and tick :: "'c \<Rightarrow> (i64 \<times> 'c) option"
    and ok :: "'s \<Rightarrow> 'c \<Rightarrow> bool"
    and past :: "'s \<Rightarrow> 'c \<Rightarrow> i64 \<Rightarrow> bool"
  assumes draw_ok: "\<lbrakk>ok s c; draw s c = Some (i, s', c')\<rbrakk> \<Longrightarrow> ok s' c'"
    and draw_above: "\<lbrakk>ok s c; draw s c = Some (i, s', c'); past s c j\<rbrakk> \<Longrightarrow> sint j < sint i"
    and draw_past: "\<lbrakk>ok s c; draw s c = Some (i, s', c')\<rbrakk> \<Longrightarrow> past s' c' i"
    and past_draw: "\<lbrakk>ok s c; draw s c = Some (i, s', c'); past s c j\<rbrakk> \<Longrightarrow> past s' c' j"
    and tick_ok: "\<lbrakk>ok s c; tick c = Some (t, c')\<rbrakk> \<Longrightarrow> ok s c'"
    and past_tick: "\<lbrakk>tick c = Some (t, c'); past s c j\<rbrakk> \<Longrightarrow> past s c' j"
begin

text \<open>A draw followed by a reading of the clock: how the database stamps what it creates.\<close>

definition stamp :: "'s \<Rightarrow> 'c \<Rightarrow> ((i64 \<times> i64) \<times> 's \<times> 'c) option" where
  "stamp s c = (case draw s c of None \<Rightarrow> None | Some (i, s, c) \<Rightarrow>
     (case tick c of None \<Rightarrow> None | Some (t, c) \<Rightarrow> Some ((i, t), s, c)))"

lemma stamp_cases:
  assumes "stamp s c = Some ((i, t), s', c')"
  obtains c1 where "draw s c = Some (i, s', c1)" and "tick c1 = Some (t, c')"
  using assms by (auto simp: stamp_def split: option.splits)

lemma stamp_ok: "ok s c \<Longrightarrow> stamp s c = Some ((i, t), s', c') \<Longrightarrow> ok s' c'"
  by (erule stamp_cases) (blast intro: tick_ok draw_ok)

lemma stamp_above: "ok s c \<Longrightarrow> stamp s c = Some ((i, t), s', c') \<Longrightarrow> past s c j \<Longrightarrow> sint j < sint i"
  by (erule stamp_cases) (blast intro: draw_above)

lemma stamp_fresh: "ok s c \<Longrightarrow> stamp s c = Some ((i, t), s', c') \<Longrightarrow> past s c j \<Longrightarrow> j \<noteq> i"
  by (blast dest: stamp_above)

lemma stamp_past: "ok s c \<Longrightarrow> stamp s c = Some ((i, t), s', c') \<Longrightarrow> past s' c' i"
  by (erule stamp_cases) (blast intro: draw_past past_tick)

lemma past_stamp: "ok s c \<Longrightarrow> stamp s c = Some ((i, t), s', c') \<Longrightarrow> past s c j \<Longrightarrow> past s' c' j"
  by (erule stamp_cases) (blast intro: past_draw past_tick)

end

text \<open>"nowMillis()" of database.go: one reading.\<close>

fun nowMillis :: "i64 list \<Rightarrow> (i64 \<times> i64 list) option" where
  "nowMillis [] = None"
| "nowMillis (t # clock) = Some (t, clock)"

text \<open>
  The ids of the past of a generator: those its state covers, and those of any earlier run, whose
  times the clock has left behind.
\<close>

definition generator_past :: "Snowflake \<Rightarrow> i64 list \<Rightarrow> i64 \<Rightarrow> bool" where
  "generator_past s clock j \<longleftrightarrow> (\<exists>t q. j = make_id s (t, q) \<and> in_range s t \<and> uint q < 2 ^ 12 \<and>
     (uint t * 2 ^ 12 + uint q \<le> uint (sf_state s) \<or> (\<forall>c \<in> set clock. uint t < uint c)))"

definition generator_ready :: "Snowflake \<Rightarrow> i64 list \<Rightarrow> bool" where
  "generator_ready s clock \<longleftrightarrow> generator_ok s \<and> clock_in_range s clock"

lemma NextID_suffix: "NextID s clock = Some (i, s', rest) \<Longrightarrow> set rest \<subseteq> set clock"
  by (auto simp: NextID_def dest: attempt_suffix split: option.splits)

lemma later_reading_above:
  assumes "uint t < uint t'" and "uint q < 2 ^ 12"
  shows "uint t * 2 ^ 12 + uint (q :: i64) < uint (t' :: i64) * 2 ^ 12 + uint (q' :: i64)"
proof -
  have "uint t + 1 \<le> uint t'" using assms(1) by simp
  then have "(uint t + 1) * 2 ^ 12 \<le> uint t' * 2 ^ 12" by (rule mult_right_mono) simp
  then have "uint t * 2 ^ 12 + uint q < uint t' * 2 ^ 12" using assms(2) by simp
  then show ?thesis by (rule order.strict_trans2) simp
qed

lemma generator_past_less:
  assumes "generator_ready s c" and run: "NextID s c = Some (i, s', c')" and "generator_past s c j"
  shows "sint j < sint i"
proof -
  from assms have s: "generator_ok s" "clock_in_range s c" by (auto simp: generator_ready_def)
  from NextID_fresh [OF s run] obtain t q where i: "i = make_id s (t, q)" "in_range s t" "uint q < 2 ^ 12"
    "t \<in> set c" "uint (sf_state s) < uint t * 2 ^ 12 + uint q" by blast
  from assms(3) obtain t' q' where j: "j = make_id s (t', q')" "in_range s t'" "uint q' < 2 ^ 12"
    and "uint t' * 2 ^ 12 + uint q' \<le> uint (sf_state s) \<or> uint t' < uint t"
    using i(4) by (auto simp: generator_past_def)
  then have "uint t' * 2 ^ 12 + uint q' < uint t * 2 ^ 12 + uint q"
    using i(5) later_reading_above [of t' t q' q] by auto
  then show ?thesis unfolding i(1) j(1) by (rule make_id_less [OF s(1) j(2,3) i(2,3)])
qed

lemma generator_past_kept:
  assumes "generator_ready s c" and run: "NextID s c = Some (i, s', c')" and "generator_past s c j \<or> j = i"
  shows "generator_past s' c' j"
proof -
  from assms have s: "generator_ok s" "clock_in_range s c" by (auto simp: generator_ready_def)
  from NextID_fresh [OF s run] obtain t q where i: "i = make_id s (t, q)" "in_range s t" "uint q < 2 ^ 12"
    "uint (sf_state s) < uint t * 2 ^ 12 + uint q" "s' = s\<lparr>sf_state := pack_state (t, q)\<rparr>" by blast
  have pack: "uint (sf_state s') = uint t * 2 ^ 12 + uint q" using i by (simp add: pack_uint in_range_def)
  from assms(3) show ?thesis
  proof
    assume "generator_past s c j"
    then obtain t' q' where j: "j = make_id s (t', q')" "in_range s t'" "uint q' < 2 ^ 12"
      and "uint t' * 2 ^ 12 + uint q' \<le> uint (sf_state s) \<or> (\<forall>u \<in> set c. uint t' < uint u)"
      by (auto simp: generator_past_def)
    then have "uint t' * 2 ^ 12 + uint q' \<le> uint (sf_state s') \<or> (\<forall>u \<in> set c'. uint t' < uint u)"
      using i(4) pack NextID_suffix [OF run] by auto
    with j show ?thesis by (auto simp: generator_past_def i(5))
  next
    assume "j = i"
    with i pack show ?thesis by (auto simp: generator_past_def i(5))
  qed
qed

interpretation sf: id_source NextID nowMillis generator_ready generator_past
proof
  show "generator_ready s' c'" if "generator_ready s c" "NextID s c = Some (i, s', c')" for s s' c c' i
    using that by (auto simp: generator_ready_def elim: NextID_fresh)
  show "sint j < sint i" if "generator_ready s c" "NextID s c = Some (i, s', c')" "generator_past s c j" for s s' c c' i j
    using that by (rule generator_past_less)
  show "generator_past s' c' i" if "generator_ready s c" "NextID s c = Some (i, s', c')" for s s' c c' i
    using that generator_past_kept by blast
  show "generator_past s' c' j" if "generator_ready s c" "NextID s c = Some (i, s', c')" "generator_past s c j" for s s' c c' i j
    using that generator_past_kept by blast
  show "generator_ready s c'" if "generator_ready s c" "nowMillis c = Some (t, c')" for s c c' t
    using that by (cases c) (auto simp: generator_ready_def clock_in_range_def clock_ok_def)
  show "generator_past s c' j" if "nowMillis c = Some (t, c')" "generator_past s c j" for s c c' j t
    using that by (cases c) (auto simp: generator_past_def)
qed

section \<open>Goroutines sharing a generator\<close>

text \<open>
  The state word is shared. A goroutine inside NextID has loaded an old value of it and
  taken some readings of the clock since; it is idle otherwise. Each load, each reading and each
  compare-and-swap is one atomic step, and steps of different goroutines interleave freely. A
  goroutine takes readings while its round of the loop still needs one; then it tries the swap. The
  clock runs by steps of its own and does not step back.
\<close>

record 'g race =
  race_gen :: Snowflake
  race_now :: i64
  race_local :: "'g \<Rightarrow> (i64 \<times> i64 list) option"
  race_issued :: "i64 list"

inductive race_step :: "'g race \<Rightarrow> 'g race \<Rightarrow> bool" where
  tick: "\<lbrakk>uint (race_now r) \<le> uint now; in_range (race_gen r) now\<rbrakk> \<Longrightarrow> race_step r (r\<lparr>race_now := now\<rparr>)"
| load: "race_local r g = None \<Longrightarrow>
    race_step r (r\<lparr>race_local := (race_local r)(g \<mapsto> (sf_state (race_gen r), []))\<rparr>)"
| reading: "\<lbrakk>race_local r g = Some (old, clock); attempt old clock = None\<rbrakk> \<Longrightarrow>
    race_step r (r\<lparr>race_local := (race_local r)(g \<mapsto> (old, clock @ [race_now r]))\<rparr>)"
| swap: "\<lbrakk>race_local r g = Some (old, clock); attempt old clock = Some (ts, []); sf_state (race_gen r) = old\<rbrakk> \<Longrightarrow>
    race_step r (r\<lparr>race_gen := (race_gen r)\<lparr>sf_state := pack_state ts\<rparr>,
      race_local := (race_local r)(g := None), race_issued := make_id (race_gen r) ts # race_issued r\<rparr>)"
| retry: "\<lbrakk>race_local r g = Some (old, clock); attempt old clock = Some (ts, []); sf_state (race_gen r) \<noteq> old\<rbrakk> \<Longrightarrow>
    race_step r (r\<lparr>race_local := (race_local r)(g := None)\<rparr>)"

definition race_start :: "Snowflake \<Rightarrow> i64 \<Rightarrow> 'g race" where
  "race_start s now = \<lparr>race_gen = s, race_now = now, race_local = (\<lambda>_. None), race_issued = []\<rparr>"

definition race_reachable :: "Snowflake \<Rightarrow> i64 \<Rightarrow> 'g race \<Rightarrow> bool" where
  "race_reachable s now r \<longleftrightarrow> race_step\<^sup>*\<^sup>* (race_start s now) r"

text \<open>
  The invariant: the state never runs ahead of the clock, what a goroutine loaded is not above the
  state, and every id issued so far carries a time and a sequence number the state covers.
\<close>

definition local_ok :: "Snowflake \<Rightarrow> i64 \<Rightarrow> i64 \<Rightarrow> i64 \<times> i64 list \<Rightarrow> bool" where
  "local_ok s now w l \<longleftrightarrow> state_ok (fst l) \<and> uint (fst l) \<le> uint w \<and>
     clock_ok (uint (last_time (fst l))) (snd l) \<and> list_all (in_range s) (snd l) \<and>
     (\<forall>c \<in> set (snd l). uint c \<le> uint now)"

definition issued_ok :: "Snowflake \<Rightarrow> i64 \<Rightarrow> i64 list \<Rightarrow> bool" where
  "issued_ok s w ids \<longleftrightarrow> sorted_wrt (\<lambda>i j. sint j < sint i) ids \<and>
     (\<forall>i \<in> set ids. \<exists>t q. i = make_id s (t, q) \<and> in_range s t \<and> uint q < 2 ^ 12 \<and> uint t * 2 ^ 12 + uint q \<le> uint w)"

definition race_inv :: "Snowflake \<Rightarrow> 'g race \<Rightarrow> bool" where
  "race_inv s r \<longleftrightarrow> race_gen r = s\<lparr>sf_state := sf_state (race_gen r)\<rparr> \<and> state_ok (sf_state (race_gen r)) \<and>
     in_range s (race_now r) \<and> uint (last_time (sf_state (race_gen r))) \<le> uint (race_now r) \<and>
     (\<forall>g l. race_local r g = Some l \<longrightarrow> local_ok s (race_now r) (sf_state (race_gen r)) l) \<and>
     issued_ok s (sf_state (race_gen r)) (race_issued r)"

lemma local_ok_mono:
  "local_ok s now w l \<Longrightarrow> uint now \<le> uint now' \<Longrightarrow> uint w \<le> uint w' \<Longrightarrow> local_ok s now' w' l"
  by (auto simp: local_ok_def intro: order.trans)

lemma clock_ok_snoc:
  assumes "clock_ok lo clock" and "\<forall>c \<in> set clock. uint c \<le> uint t" and "time_ok t" and "lo \<le> uint t"
  shows "clock_ok lo (clock @ [t])"
  using assms by (auto simp: clock_ok_def sorted_append)

lemma local_ok_reading:
  assumes "local_ok s now w (old, clock)" and "in_range s now"
    and "uint (last_time w) \<le> uint now" and "state_ok w"
  shows "local_ok s now w (old, clock @ [now])"
proof -
  have "uint (last_time old) \<le> uint (last_time w)"
    using assms(1,4) by (simp add: local_ok_def uint_last_time zdiv_mono1)
  with assms show ?thesis
    by (auto simp: local_ok_def in_range_def intro!: clock_ok_snoc)
qed

lemma swap_ok:
  assumes gen: "generator_ok s" and l: "local_ok s now w (w, clock)" and now: "uint (last_time w) \<le> uint now"
    and run: "attempt w clock = Some ((t, q), [])"
  shows "in_range s t \<and> uint q < 2 ^ 12 \<and> uint w < uint t * 2 ^ 12 + uint q \<and> uint t \<le> uint now"
proof -
  have w: "state_ok w" "clock_ok (uint (last_time w)) clock"
    using l by (auto simp: local_ok_def intro: clock_ok_mono)
  have t: "t \<in> set clock" by (rule attempt_reading [OF w run])
  then have "in_range s t" "uint t \<le> uint now" using l by (auto simp: local_ok_def list_all_iff)
  then show ?thesis using attempt_advances [OF w run] by auto
qed

lemma issued_ok_Cons:
  assumes gen: "generator_ok s" and ids: "issued_ok s w ids" and t: "in_range s t" "uint q < 2 ^ 12"
    and later: "uint w < uint t * 2 ^ 12 + uint q"
  shows "issued_ok s (pack_state (t, q)) (make_id s (t, q) # ids)"
proof -
  have pack: "uint (pack_state (t, q)) = uint t * 2 ^ 12 + uint q"
    using t by (simp add: pack_uint in_range_def)
  have "\<forall>i \<in> set ids. sint i < sint (make_id s (t, q))"
    using ids later t gen by (auto simp: issued_ok_def intro!: make_id_less dest: bspec)
  moreover have "\<forall>i \<in> set ids. \<exists>t' q'. i = make_id s (t', q') \<and> in_range s t' \<and> uint q' < 2 ^ 12 \<and>
      uint t' * 2 ^ 12 + uint q' \<le> uint (pack_state (t, q))"
    using ids later by (force simp: issued_ok_def pack)
  ultimately show ?thesis using ids t pack by (auto simp: issued_ok_def)
qed

lemma race_inv_step:
  assumes gen: "generator_ok s" and inv: "race_inv s r" and step: "race_step r r'"
  shows "race_inv s r'"
  using step
proof cases
  case (tick now)
  with inv have "in_range s now" by (metis in_range_state race_inv_def)
  with tick inv show ?thesis by (auto simp: race_inv_def intro: local_ok_mono order.trans)
next
  case (load g)
  with inv show ?thesis by (auto simp: race_inv_def local_ok_def clock_ok_def)
next
  case (reading g old clock)
  then have "local_ok s (race_now r) (sf_state (race_gen r)) (old, clock @ [race_now r])"
    using inv by (intro local_ok_reading) (auto simp: race_inv_def)
  with reading inv show ?thesis by (auto simp: race_inv_def)
next
  case (swap g old clock ts)
  obtain t q where ts: "ts = (t, q)" by (cases ts)
  let ?w = "sf_state (race_gen r)"
  have w: "local_ok s (race_now r) ?w (?w, clock)" "uint (last_time ?w) \<le> uint (race_now r)"
    using swap inv by (auto simp: race_inv_def)
  have t: "in_range s t" "uint q < 2 ^ 12" "uint ?w < uint t * 2 ^ 12 + uint q" "uint t \<le> uint (race_now r)"
    using swap_ok [OF gen w] swap ts by auto
  have pack: "uint ?w \<le> uint (pack_state (t, q))" "last_time (pack_state (t, q)) = t" "state_ok (pack_state (t, q))"
    using t by (auto simp: pack_uint last_time_pack pack_state_ok in_range_def)
  have same: "make_id (race_gen r) (t, q) = make_id s (t, q)"
    using inv by (metis make_id_state race_inv_def)
  have "issued_ok s (pack_state (t, q)) (make_id s (t, q) # race_issued r)"
    using inv t gen by (auto simp: race_inv_def intro: issued_ok_Cons)
  then show ?thesis
    using inv swap t pack same ts
    by (auto simp: race_inv_def intro: local_ok_mono split: if_splits)
next
  case (retry g old clock ts)
  with inv show ?thesis by (auto simp: race_inv_def split: if_splits)
qed

lemma race_inv_reachable:
  assumes gen: "generator_ok s" and now: "in_range s now" and last: "uint (last_time (sf_state s)) \<le> uint now"
    and reach: "race_step\<^sup>*\<^sup>* (race_start s now) r"
  shows "race_inv s r"
  using reach
proof (induction rule: rtranclp_induct)
  case base
  show ?case using gen now last
    by (auto simp: race_inv_def race_start_def issued_ok_def generator_ok_def)
next
  case (step r r')
  then show ?case using race_inv_step [OF gen] by blast
qed

lemma NextIDs_length: "NextIDs n s clock = Some (ids, s', rest) \<Longrightarrow> length ids = n"
  by (induction n arbitrary: s clock ids) (auto split: option.splits)

lemma low_field:
  assumes "0 \<le> y" and "y < 2 ^ 12"
  shows "(x * 2 ^ 12 + y) div 2 ^ 12 = (x :: int)" and "(x * 2 ^ 12 + y) mod 2 ^ 12 = y"
  using assms by (auto simp: div_add1_eq)

text \<open>A call that no other goroutine disturbs is a call of the sequential NextID.\<close>

lemma race_call:
  assumes "race_local r g = None" and "NextID (race_gen r) [race_now r] = Some (i, s', [])"
  shows "race_step\<^sup>*\<^sup>* r (r\<lparr>race_gen := s', race_issued := i # race_issued r\<rparr>)"
proof -
  let ?old = "sf_state (race_gen r)"
  let ?r1 = "r\<lparr>race_local := (race_local r)(g \<mapsto> (?old, []))\<rparr>"
  let ?r2 = "r\<lparr>race_local := (race_local r)(g \<mapsto> (?old, [race_now r]))\<rparr>"
  from assms(2) obtain ts where a: "attempt ?old [race_now r] = Some (ts, [])"
    and i: "i = make_id (race_gen r) ts" "s' = (race_gen r)\<lparr>sf_state := pack_state ts\<rparr>"
    by (auto simp: NextID_def split: option.splits)
  have "race_step r ?r1" by (rule race_step.load [OF assms(1)])
  moreover have "race_step ?r1 ?r2"
    using race_step.reading [of ?r1 g ?old "[]"] by (simp add: attempt_def)
  moreover have "race_step ?r2 (r\<lparr>race_gen := s', race_issued := i # race_issued r\<rparr>)"
    using race_step.swap [of ?r2 g ?old "[race_now r]" ts] a i assms(1) by (simp add: fun_upd_idem)
  ultimately show ?thesis by (meson converse_rtranclp_into_rtranclp rtranclp.rtrancl_refl)
qed

lemma distinct_sorted_wrt_neq: "distinct xs \<longleftrightarrow> sorted_wrt (\<lambda>x y. x \<noteq> y) xs"
  by (induction xs) auto

section \<open>Properties\<close>

text \<open>While the clock does not step back, the ids of consecutive NextID calls on one
  generator strictly increase as signed numbers, so that no two are equal, whatever the readings.\<close>

theorem snowflake_ids_increase:
  assumes "generator_ok s" and "clock_in_range s clock"
    and "NextIDs n s clock = Some (ids, s', rest)"
  shows "length ids = n \<and> sorted_wrt (<) (map sint ids) \<and> distinct ids"
proof -
  have "length ids = n \<and> sorted_wrt (<) (map sint ids)" using NextIDs_fresh [OF assms] by simp
  then show ?thesis by (auto simp: strict_sorted_iff distinct_map)
qed

lemma snowflake_ids_increase_witness:
  "sorted_wrt (<) (map sint [20975616, 20975617, 25169920 :: i64])"
proof -
  have "generator_ok (NewSnowflake 1704067200000 1)" by (rule NewSnowflake_ok) (simp add: time_ok_def)
  moreover have "clock_in_range (NewSnowflake 1704067200000 1) [1704067200005, 1704067200005, 1704067200006]"
    by code_simp
  moreover have "case NextIDs 3 (NewSnowflake 1704067200000 1) [1704067200005, 1704067200005, 1704067200006] of
      None \<Rightarrow> False | Some (ids, s', rest) \<Rightarrow> ids = [20975616, 20975617, 25169920]"
    by code_simp
  then obtain s' rest where "NextIDs 3 (NewSnowflake 1704067200000 1) [1704067200005, 1704067200005, 1704067200006] =
      Some ([20975616, 20975617, 25169920], s', rest)"
    by (auto split: option.splits prod.splits)
  ultimately show ?thesis using snowflake_ids_increase by blast
qed



text \<open>The id has the layout its comment gives: 41 bits of milliseconds since the epoch,
  10 bits of worker, 12 bits of sequence number, and the sign bit clear; the three fields
  are read back by shifting and masking.\<close>

theorem snowflake_id_layout:
  assumes "generator_ok s" and "in_range s t" and "uint q < 2 ^ 12"
  shows "0 \<le> sint (make_id s (t, q)) \<and> uint (make_id s (t, q)) div 2 ^ 22 = uint t - uint (sf_epoch s) \<and>
    uint (make_id s (t, q)) div 2 ^ 12 mod 2 ^ 10 = uint (sf_workerID s) \<and>
    uint (make_id s (t, q)) mod 2 ^ 12 = uint q"
proof -
  define T W Q where "T = uint t - uint (sf_epoch s)" and "W = uint (sf_workerID s)" and "Q = uint q"
  have "uint (make_id s (t, q)) = T * 2 ^ 22 + W * 2 ^ 12 + Q"
    unfolding T_def W_def Q_def by (rule make_id_uint [OF assms])
  also have "\<dots> = (T * 2 ^ 10 + W) * 2 ^ 12 + Q" by (simp add: algebra_simps)
  finally have i: "uint (make_id s (t, q)) = (T * 2 ^ 10 + W) * 2 ^ 12 + Q" .
  have r: "0 \<le> W" "W < 2 ^ 10" "0 \<le> Q" "Q < 2 ^ 12" using assms by (auto simp: W_def Q_def generator_ok_def)
  then have d: "uint (make_id s (t, q)) div 2 ^ 12 = T * 2 ^ 10 + W" "uint (make_id s (t, q)) mod 2 ^ 12 = Q"
    unfolding i by (simp_all only: low_field)
  have "uint (make_id s (t, q)) div 2 ^ 22 = uint (make_id s (t, q)) div 2 ^ 12 div 2 ^ 10"
    by (simp add: zdiv_zmult2_eq [symmetric])
  also have "\<dots> = T" unfolding d using r by simp
  finally have 22: "uint (make_id s (t, q)) div 2 ^ 22 = T" .
  have "uint (make_id s (t, q)) div 2 ^ 12 mod 2 ^ 10 = W" unfolding d using r by simp
  with d(2) 22 show ?thesis by (simp add: make_id_nonneg [OF assms] T_def W_def Q_def)
qed

text \<open>A call returns: even when the sequence numbers of the last millisecond are used up, and
  even when the clock steps back, it is enough that the clock shows one later time and is read once more.\<close>

theorem snowflake_call_returns:
  assumes "sint (last_time (sf_state s)) < sint t"
  shows "\<exists>i s' rest. NextID s (c # before @ t # after @ [u]) = Some (i, s', rest)"
  using attempt_returns [OF assms, of c before after u] by (auto simp: NextID_def)

lemma snowflake_call_returns_witness:
  "\<exists>i s' rest. NextID (NewSnowflake 0 1\<lparr>sf_state := pack_state (7, 4095)\<rparr>) (7 # [6, 7, 7] @ 8 # [] @ [8]) = Some (i, s', rest)"
  by (rule snowflake_call_returns) code_simp

text \<open>A clock that steps back can make the generator repeat an id: 4096 calls in
  the millisecond t use up its sequence numbers, the next call reads "t - 1", waits only
  until the clock shows t again, and issues the first id of that millisecond a second time.\<close>

theorem snowflake_step_back_repeats:
  assumes "time_ok t" and "sint (last_time (sf_state s)) < sint t" and "t \<noteq> 0"
  shows "\<exists>ids s'. NextIDs 4097 s (replicate 4096 t @ [t - 1, t, t]) = Some (ids, s', []) \<and>
    length ids = 4097 \<and> hd ids = last ids \<and> \<not> distinct ids"
proof -
  let ?s = "\<lambda>q. s\<lparr>sf_state := pack_state (t, q)\<rparr>"
  have 1: "NextIDs 1 s (t # replicate 4095 t @ [t - 1, t, t]) = Some ([make_id s (t, 0)], ?s 0, replicate 4095 t @ [t - 1, t, t])"
    using attempt_new [OF assms(2)] by (simp add: NextID_def)
  obtain ids where 2: "NextIDs 4095 (?s 0) (replicate 4095 t @ [t - 1, t, t]) = Some (ids, ?s 4095, [t - 1, t, t])"
    using NextIDs_same [OF assms(1), of 0 4095 s "[t - 1, t, t]"] by auto
  have 3: "NextIDs 1 (?s 4095) [t - 1, t, t] = Some ([make_id s (t, 0)], ?s 0, [])"
    using attempt_after_step_back [OF assms(1,3)] by (simp add: NextID_def)
  have "NextIDs (1 + (4095 + 1)) s (t # replicate 4095 t @ [t - 1, t, t]) =
    Some (make_id s (t, 0) # ids @ [make_id s (t, 0)], ?s 0, [])"
    by (simp only: NextIDs_add 1 2 3 option.case prod.case append.simps)
  moreover have "t # replicate 4095 t = replicate 4096 t" using replicate_Suc [of 4095 t] by simp
  moreover have "length ids = 4095" using NextIDs_length [OF 2] .
  ultimately show ?thesis by (auto simp: numeral_eq_Suc)
qed

lemma snowflake_step_back_repeats_witness:
  "\<exists>ids s'. NextIDs 4097 (NewSnowflake 0 1) (replicate 4096 5 @ [4, 5, 5]) = Some (ids, s', []) \<and> \<not> distinct ids"
proof -
  have "time_ok 5" "sint (last_time (sf_state (NewSnowflake 0 1))) < sint (5 :: i64)" by code_simp+
  from snowflake_step_back_repeats [OF this] show ?thesis by simp blast
qed

end
