(* ===== verification/MemState.thy ===== *)
theory MemState imports Snowflake begin

text \<open>
  The state of "pkg/database/memdb.go": the records of database.go it caches, its maps, and
  its indexes. A Go map is a partial function, a set-valued map a partial function to sets, and a
  missing slice reads as the empty one. The three message indexes keep the same contract for three
  different keys of a message; it is the locale index_key.
\<close>

section \<open>Records\<close>

record DBChannel =
  ch_ID :: i64
  ch_Name :: gostring
  ch_DisplayName :: gostring
  ch_Description :: "gostring option"
  ch_ChannelType :: u8
  ch_MessageRetentionHours :: u32
  ch_CreatedBy :: "i64 option"
  ch_CreatedAt :: i64
  ch_IsPrivate :: bool

record DBSession =
  ds_ID :: i64
  ds_UserID :: "i64 option"
  ds_Nickname :: gostring
  ds_ConnectionType :: gostring
  ds_ConnectedAt :: i64
  ds_LastActivity :: i64

record DBMessage =
  dm_ID :: i64
  dm_ChannelID :: i64
  dm_SubchannelID :: "i64 option"
  dm_ParentID :: "i64 option"
  dm_ThreadRootID :: "i64 option"
  dm_AuthorUserID :: "i64 option"
  dm_AuthorNickname :: gostring
  dm_Content :: gostring
  dm_CreatedAt :: i64
  dm_EditedAt :: "i64 option"
  dm_DeletedAt :: "i64 option"
  dm_ReplyCount :: u32

text \<open>The errors of the package: its sentinels, and those made on the spot from a text.\<close>

datatype db_error =
    ErrMessageNotFound | ErrMessageNotOwned | ErrMessageAlreadyDeleted
  | ErrText gostring

record MemDB =
  mem_channels :: "i64 \<rightharpoonup> DBChannel"
  mem_sessions :: "i64 \<rightharpoonup> DBSession"
  mem_messages :: "i64 \<rightharpoonup> DBMessage"
  mem_byChannel :: "i64 \<rightharpoonup> i64 list"
  mem_byParent :: "i64 \<rightharpoonup> i64 list"
  mem_byThread :: "i64 \<rightharpoonup> i64 list"
  mem_sessionsByUserID :: "i64 \<rightharpoonup> i64 set"
  mem_dirty :: "i64 set"
  mem_snowflake :: Snowflake

section \<open>Slices held in maps\<close>

definition slice_at :: "('k \<rightharpoonup> 'v list) \<Rightarrow> 'k \<Rightarrow> 'v list" where
  "slice_at m k = (case m k of None \<Rightarrow> [] | Some xs \<Rightarrow> xs)"

text \<open>"m[k] = append(m[k], v)".\<close>

definition append_at :: "('k \<rightharpoonup> 'v list) \<Rightarrow> 'k \<Rightarrow> 'v \<Rightarrow> 'k \<rightharpoonup> 'v list" where
  "append_at m k v = m(k \<mapsto> slice_at m k @ [v])"

text \<open>The scan that cuts the first occurrence out of the slice at a key, and leaves the map alone
  when there is none.\<close>

definition remove_at :: "('k \<rightharpoonup> 'v list) \<Rightarrow> 'k \<Rightarrow> 'v \<Rightarrow> 'k \<rightharpoonup> 'v list" where
  "remove_at m k v = (if v \<in> set (slice_at m k) then m(k \<mapsto> remove1 v (slice_at m k)) else m)"

lemma slice_at_append_at: "slice_at (append_at m k v) k' = (if k' = k then slice_at m k @ [v] else slice_at m k')"
  by (simp add: slice_at_def append_at_def)

lemma slice_at_remove_at: "slice_at (remove_at m k v) k' = (if k' = k then remove1 v (slice_at m k) else slice_at m k')"
  by (auto simp: slice_at_def remove_at_def remove1_idem)

lemma slice_at_delete: "slice_at (m(k := None)) k' = (if k' = k then [] else slice_at m k')"
  by (simp add: slice_at_def)

section \<open>Messages in place\<close>

text \<open>A write through the pointer held at a key; nothing happens when there is none.\<close>

definition modify :: "'k \<Rightarrow> ('v \<Rightarrow> 'v) \<Rightarrow> ('k \<rightharpoonup> 'v) \<Rightarrow> 'k \<rightharpoonup> 'v" where
  "modify k f m = (case m k of None \<Rightarrow> m | Some v \<Rightarrow> m(k \<mapsto> f v))"

lemma modify_apply: "modify k f m i = (if i = k then map_option f (m k) else m i)"
  by (auto simp: modify_def split: option.splits)

lemma dom_modify [simp]: "dom (modify k f m) = dom m"
  by (auto simp: modify_apply split: if_splits)

text \<open>A message that exists and is not deleted.\<close>

definition live :: "(i64 \<rightharpoonup> DBMessage) \<Rightarrow> i64 \<Rightarrow> bool" where
  "live msgs i \<longleftrightarrow> (case msgs i of None \<Rightarrow> False | Some msg \<Rightarrow> dm_DeletedAt msg = None)"

section \<open>The contract of an index\<close>

text \<open>
  The slice at a key lists, once each, the stored messages that have this key. It may also list
  messages that are gone: DeleteChannel leaves them in the parent and thread indexes,
  and every reader skips them.
\<close>

locale index_key =
  fixes key :: "DBMessage \<Rightarrow> i64 option"
  assumes key_count: "key (msg\<lparr>dm_ReplyCount := n\<rparr>) = key msg"
    and key_edit: "key (msg\<lparr>dm_Content := c, dm_EditedAt := e\<rparr>) = key msg"
    and key_delete: "key (msg\<lparr>dm_DeletedAt := d\<rparr>) = key msg"
    and key_author: "key (msg\<lparr>dm_AuthorUserID := u, dm_AuthorNickname := a\<rparr>) = key msg"
begin

definition index_ok :: "(i64 \<rightharpoonup> DBMessage) \<Rightarrow> (i64 \<rightharpoonup> i64 list) \<Rightarrow> bool" where
  "index_ok msgs idx \<longleftrightarrow> (\<forall>k. distinct (slice_at idx k)) \<and>
     (\<forall>i msg k. msgs i = Some msg \<longrightarrow> (i \<in> set (slice_at idx k) \<longleftrightarrow> key msg = Some k))"

lemma index_okD: "index_ok msgs idx \<Longrightarrow> msgs i = Some msg \<Longrightarrow> i \<in> set (slice_at idx k) \<longleftrightarrow> key msg = Some k"
  by (simp add: index_ok_def)

lemma index_ok_distinct: "index_ok msgs idx \<Longrightarrow> distinct (slice_at idx k)"
  by (simp add: index_ok_def)

lemma index_ok_empty: "index_ok Map.empty Map.empty"
  by (simp add: index_ok_def slice_at_def)

text \<open>A map of the messages whose keys are those of another, or gone, has the same index.\<close>

lemma index_ok_same_keys:
  assumes "index_ok msgs idx"
    and "\<And>i msg'. msgs' i = Some msg' \<Longrightarrow> \<exists>msg. msgs i = Some msg \<and> key msg' = key msg"
  shows "index_ok msgs' idx"
  using assms unfolding index_ok_def by metis

lemma index_ok_modify: "index_ok msgs idx \<Longrightarrow> (\<And>msg. key (f msg) = key msg) \<Longrightarrow> index_ok (modify k f msgs) idx"
  by (rule index_ok_same_keys) (auto simp: modify_apply split: if_splits)

lemma index_ok_restrict:
  assumes "index_ok msgs idx" and "\<And>i msg. msgs' i = Some msg \<Longrightarrow> msgs i = Some msg"
  shows "index_ok msgs' idx"
  using assms unfolding index_ok_def by blast

lemma index_ok_forget: "index_ok msgs idx \<Longrightarrow> index_ok (msgs(i := None)) idx"
  by (rule index_ok_same_keys) (auto split: if_splits)

text \<open>Storing a message under a new id, and listing it.\<close>

lemma index_ok_insert:
  assumes "index_ok msgs idx" and "msgs i = None" and "\<And>k. i \<notin> set (slice_at idx k)"
  shows "index_ok (msgs(i \<mapsto> msg)) (case key msg of None \<Rightarrow> idx | Some k \<Rightarrow> append_at idx k i)"
  using assms by (auto simp: index_ok_def slice_at_append_at split: option.splits)

text \<open>Removing a message, and unlisting it.\<close>

lemma index_ok_remove:
  assumes "index_ok msgs idx" and "msgs i = Some msg"
  shows "index_ok (msgs(i := None)) (case key msg of None \<Rightarrow> idx | Some k \<Rightarrow> remove_at idx k i)"
    and "i \<notin> set (slice_at (case key msg of None \<Rightarrow> idx | Some k \<Rightarrow> remove_at idx k i) k')"
  using assms by (auto simp: index_ok_def slice_at_remove_at split: option.splits)

end

interpretation by_channel: index_key "\<lambda>msg. Some (dm_ChannelID msg)"
  by unfold_locales simp_all

interpretation by_parent: index_key dm_ParentID
  by unfold_locales simp_all

interpretation by_thread: index_key dm_ThreadRootID
  by unfold_locales simp_all

section \<open>What a well-formed database promises\<close>

text \<open>
  Each message sits under its own id, the three indexes list it under its keys, the channel index
  lists nothing else, a parent has a smaller id than its replies, and the cached reply count
  of a message is the number of its replies that are not deleted.
\<close>

definition live_replies :: "MemDB \<Rightarrow> i64 \<Rightarrow> i64 list" where
  "live_replies m p = filter (live (mem_messages m)) (slice_at (mem_byParent m) p)"

definition counts_ok :: "MemDB \<Rightarrow> bool" where
  "counts_ok m \<longleftrightarrow> (\<forall>p msg. mem_messages m p = Some msg \<longrightarrow>
     unat (dm_ReplyCount msg) = length (live_replies m p))"

definition parents_ok :: "(i64 \<rightharpoonup> DBMessage) \<Rightarrow> bool" where
  "parents_ok msgs \<longleftrightarrow> (\<forall>i msg p. msgs i = Some msg \<and> dm_ParentID msg = Some p \<longrightarrow> sint p < sint i)"

definition ids_ok :: "(i64 \<rightharpoonup> DBMessage) \<Rightarrow> bool" where
  "ids_ok msgs \<longleftrightarrow> (\<forall>i msg. msgs i = Some msg \<longrightarrow> dm_ID msg = i)"

definition indexes_ok :: "MemDB \<Rightarrow> bool" where
  "indexes_ok m \<longleftrightarrow> by_channel.index_ok (mem_messages m) (mem_byChannel m) \<and>
     by_parent.index_ok (mem_messages m) (mem_byParent m) \<and>
     by_thread.index_ok (mem_messages m) (mem_byThread m) \<and>
     (\<forall>c. \<forall>i \<in> set (slice_at (mem_byChannel m) c). mem_messages m i \<noteq> None)"

definition store_ok :: "MemDB \<Rightarrow> bool" where
  "store_ok m \<longleftrightarrow> finite (dom (mem_messages m)) \<and> ids_ok (mem_messages m) \<and> parents_ok (mem_messages m) \<and> indexes_ok m"

definition memdb_ok :: "MemDB \<Rightarrow> bool" where
  "memdb_ok m \<longleftrightarrow> store_ok m \<and> counts_ok m"

text \<open>An id the messages or the indexes mention; all of them were drawn before.\<close>

definition mentions :: "MemDB \<Rightarrow> i64 \<Rightarrow> bool" where
  "mentions m i \<longleftrightarrow> mem_messages m i \<noteq> None \<or>
     (\<exists>k. i \<in> set (slice_at (mem_byChannel m) k) \<union> set (slice_at (mem_byParent m) k) \<union> set (slice_at (mem_byThread m) k))"

definition ids_past :: "MemDB \<Rightarrow> i64 list \<Rightarrow> bool" where
  "ids_past m clock \<longleftrightarrow> generator_ready (mem_snowflake m) clock \<and>
     (\<forall>i. mentions m i \<longrightarrow> generator_past (mem_snowflake m) clock i)"

text \<open>Sessions: each under its own id, and listed under its user exactly.\<close>

definition set_at :: "('k \<rightharpoonup> 'v set) \<Rightarrow> 'k \<Rightarrow> 'v set" where
  "set_at m k = (case m k of None \<Rightarrow> {} | Some s \<Rightarrow> s)"

definition user_of :: "MemDB \<Rightarrow> i64 \<Rightarrow> i64 option" where
  "user_of m s = (case mem_sessions m s of None \<Rightarrow> None | Some sess \<Rightarrow> ds_UserID sess)"

definition sessions_ok :: "MemDB \<Rightarrow> bool" where
  "sessions_ok m \<longleftrightarrow>
     (\<forall>s sess. mem_sessions m s = Some sess \<longrightarrow> ds_ID sess = s) \<and>
     (\<forall>u. mem_sessionsByUserID m u \<noteq> Some {}) \<and>
     (\<forall>u s. s \<in> set_at (mem_sessionsByUserID m) u \<longleftrightarrow> user_of m s = Some u)"

lemma live_cong: "msgs i = msgs' i \<Longrightarrow> live msgs i = live msgs' i"
  by (simp add: live_def)

lemma live_Some [simp]: "msgs i = Some msg \<Longrightarrow> live msgs i = (dm_DeletedAt msg = None)"
  by (simp add: live_def)

lemma live_None [simp]: "msgs i = None \<Longrightarrow> \<not> live msgs i"
  by (simp add: live_def)

end
