(* ===== verification/MemMessages.thy ===== *)
theory MemMessages imports MemState begin

text \<open>
  The message operations of "pkg/database/memdb.go": posting, reading, editing and soft
  deletion, the paging queries, the recursive walk of a thread, and the counters.

  An operation that creates something takes the readings of the clock it may use and returns
  those it left; None is a call still waiting for a reading. A returned message is the
  value the returned pointer shows at that moment.
\<close>

section \<open>Posting\<close>

definition new_stamp :: "MemDB \<Rightarrow> i64 list \<Rightarrow> (i64 \<times> i64 \<times> MemDB \<times> i64 list) option" where
  "new_stamp m clock =
    (case NextID (mem_snowflake m) clock of None \<Rightarrow> None
     | Some (i, sf, clock) \<Rightarrow>
        (case nowMillis clock of None \<Rightarrow> None
         | Some (now, clock) \<Rightarrow> Some (i, now, m\<lparr>mem_snowflake := sf\<rparr>, clock)))"

text \<open>The thread root a new message gets; the parent is read under the read lock.\<close>

definition PostMessage_root :: "MemDB \<Rightarrow> i64 option \<Rightarrow> i64 \<Rightarrow> db_error + i64 option" where
  "PostMessage_root m parentID messageID =
    (case parentID of
       Some p \<Rightarrow>
        (case mem_messages m p of
           None \<Rightarrow> Inl (ErrText (lit ''parent message not found''))
         | Some parent \<Rightarrow> Inr (dm_ThreadRootID parent))
     | None \<Rightarrow> Inr (Some messageID))"

text \<open>What the write lock of PostMessage covers.\<close>

definition PostMessage_store :: "MemDB \<Rightarrow> DBMessage \<Rightarrow> MemDB" where
  "PostMessage_store m message =
    (let i = dm_ID message;
         m = m\<lparr>mem_messages := (mem_messages m)(i \<mapsto> message), mem_dirty := insert i (mem_dirty m)\<rparr>;
         m = m\<lparr>mem_byChannel := append_at (mem_byChannel m) (dm_ChannelID message) i\<rparr>;
         m = (case dm_ParentID message of None \<Rightarrow> m
              | Some p \<Rightarrow> m\<lparr>mem_byParent := append_at (mem_byParent m) p i,
                  mem_messages := modify p (\<lambda>parent. parent\<lparr>dm_ReplyCount := dm_ReplyCount parent + 1\<rparr>) (mem_messages m)\<rparr>)
     in (case dm_ThreadRootID message of None \<Rightarrow> m
         | Some r \<Rightarrow> m\<lparr>mem_byThread := append_at (mem_byThread m) r i\<rparr>))"

definition PostMessage ::
  "MemDB \<Rightarrow> i64 list \<Rightarrow> i64 \<Rightarrow> i64 option \<Rightarrow> i64 option \<Rightarrow> i64 option \<Rightarrow> gostring \<Rightarrow> gostring \<Rightarrow>
   ((db_error + i64 \<times> DBMessage) \<times> MemDB \<times> i64 list) option" where
  "PostMessage m clock channelID subchannelID parentID authorUserID authorNickname content =
    (case new_stamp m clock of None \<Rightarrow> None
     | Some (messageID, now, m, clock) \<Rightarrow>
        (case PostMessage_root m parentID messageID of
           Inl err \<Rightarrow> Some (Inl err, m, clock)
         | Inr threadRootID \<Rightarrow>
            (let message = \<lparr>dm_ID = messageID, dm_ChannelID = channelID, dm_SubchannelID = subchannelID,
                   dm_ParentID = parentID, dm_ThreadRootID = threadRootID, dm_AuthorUserID = authorUserID,
                   dm_AuthorNickname = authorNickname, dm_Content = content, dm_CreatedAt = now,
                   dm_EditedAt = None, dm_DeletedAt = None, dm_ReplyCount = 0\<rparr>
             in Some (Inr (messageID, message), PostMessage_store m message, clock))))"

section \<open>Reading\<close>

definition GetMessage :: "MemDB \<Rightarrow> i64 \<Rightarrow> db_error + DBMessage" where
  "GetMessage m messageID =
    (case mem_messages m messageID of
       None \<Rightarrow> Inl (ErrText (lit ''message not found'')) | Some msg \<Rightarrow> Inr msg)"

definition MessageExists :: "MemDB \<Rightarrow> i64 \<Rightarrow> bool" where
  "MessageExists m messageID =
    (case mem_messages m messageID of None \<Rightarrow> False | Some msg \<Rightarrow> dm_DeletedAt msg = None)"

text \<open>The loop of the two paging queries: pick is the chain of continues, and the
  limit is tested after each message taken.\<close>

fun page_loop :: "(i64 \<Rightarrow> DBMessage option) \<Rightarrow> int \<Rightarrow> i64 list \<Rightarrow> DBMessage list \<Rightarrow> DBMessage list" where
  "page_loop pick limit [] messages = messages"
| "page_loop pick limit (i # is) messages =
    (case pick i of None \<Rightarrow> page_loop pick limit is messages
     | Some msg \<Rightarrow>
        (let messages = messages @ [msg] in
         if int (length messages) \<ge> limit then messages else page_loop pick limit is messages))"

text \<open>"make([]Message, 0, limit)" panics on a negative limit: None.\<close>

definition GetRootMessages :: "MemDB \<Rightarrow> i64 \<Rightarrow> i64 \<Rightarrow> int \<Rightarrow> DBMessage list option" where
  "GetRootMessages m channelID fromMessageID limit =
    (case mem_byChannel m channelID of None \<Rightarrow> Some []
     | Some allMessageIDs \<Rightarrow>
        if limit < 0 then None
        else Some (page_loop
          (\<lambda>msgID. if sint fromMessageID > 0 \<and> sint msgID \<le> sint fromMessageID then None
             else case mem_messages m msgID of None \<Rightarrow> None
             | Some msg \<Rightarrow> if dm_DeletedAt msg \<noteq> None \<or> dm_ParentID msg \<noteq> None then None else Some msg)
          limit allMessageIDs []))"

definition ListRootMessages ::
  "MemDB \<Rightarrow> i64 \<Rightarrow> i64 option \<Rightarrow> u16 \<Rightarrow> u64 option \<Rightarrow> u64 option \<Rightarrow> DBMessage list" where
  "ListRootMessages m channelID subchannelID limit beforeID afterID =
    (case mem_byChannel m channelID of None \<Rightarrow> []
     | Some allMessageIDs \<Rightarrow>
        page_loop
          (\<lambda>msgID.
             if (case beforeID of None \<Rightarrow> False | Some b \<Rightarrow> msgID \<ge> b) then None
             else if (case afterID of None \<Rightarrow> False | Some a \<Rightarrow> beforeID = None \<and> msgID \<le> a) then None
             else case mem_messages m msgID of None \<Rightarrow> None
             | Some msg \<Rightarrow>
                if dm_DeletedAt msg \<noteq> None \<or> dm_ParentID msg \<noteq> None then None
                else if subchannelID \<noteq> None \<and> dm_SubchannelID msg \<noteq> subchannelID then None
                else Some msg)
          (uint limit) allMessageIDs [])"

text \<open>The readers that copy out of an index what is still there and not deleted.\<close>

definition live_messages :: "MemDB \<Rightarrow> i64 list \<Rightarrow> DBMessage list" where
  "live_messages m ids = List.map_filter
    (\<lambda>i. case mem_messages m i of None \<Rightarrow> None
         | Some msg \<Rightarrow> if dm_DeletedAt msg = None then Some msg else None) ids"

definition GetReplies :: "MemDB \<Rightarrow> i64 \<Rightarrow> DBMessage list" where
  "GetReplies m parentID =
    (case mem_byParent m parentID of None \<Rightarrow> [] | Some replyIDs \<Rightarrow> live_messages m replyIDs)"

definition GetThreadMessages :: "MemDB \<Rightarrow> i64 \<Rightarrow> DBMessage list" where
  "GetThreadMessages m threadRootID =
    (case mem_byThread m threadRootID of None \<Rightarrow> [] | Some messageIDs \<Rightarrow> live_messages m messageIDs)"

section \<open>The walk of a thread\<close>

text \<open>
  The recursion descends from a message to its replies; the fuel bounds its depth, and
  None is a descent deeper than the fuel. The loop over the children of one message is
  the second function.
\<close>

definition reached :: "u16 \<Rightarrow> DBMessage list \<Rightarrow> bool" where
  "reached limit messages \<longleftrightarrow> limit > 0 \<and> int (length messages) \<ge> uint limit"

function (sequential) collectThreadReplies ::
  "nat \<Rightarrow> MemDB \<Rightarrow> u64 option \<Rightarrow> u64 option \<Rightarrow> u16 \<Rightarrow> i64 \<Rightarrow> DBMessage list \<Rightarrow> DBMessage list option"
and collect_children ::
  "nat \<Rightarrow> MemDB \<Rightarrow> u64 option \<Rightarrow> u64 option \<Rightarrow> u16 \<Rightarrow> i64 list \<Rightarrow> DBMessage list \<Rightarrow> DBMessage list option" where
  "collectThreadReplies fuel m beforeID afterID limit parentID messages =
    (if reached limit messages then Some messages
     else case mem_byParent m parentID of None \<Rightarrow> Some messages
     | Some replyIDs \<Rightarrow>
        (case fuel of 0 \<Rightarrow> None
         | Suc fuel \<Rightarrow> collect_children fuel m beforeID afterID limit replyIDs messages))"
| "collect_children fuel m beforeID afterID limit [] messages = Some messages"
| "collect_children fuel m beforeID afterID limit (msgID # replyIDs) messages =
    (if reached limit messages then Some messages
     else if (case beforeID of None \<Rightarrow> False | Some b \<Rightarrow> msgID \<ge> b) then collect_children fuel m beforeID afterID limit replyIDs messages
     else if (case afterID of None \<Rightarrow> False | Some a \<Rightarrow> msgID \<le> a) then collect_children fuel m beforeID afterID limit replyIDs messages
     else case mem_messages m msgID of
       None \<Rightarrow> collect_children fuel m beforeID afterID limit replyIDs messages
     | Some msg \<Rightarrow>
        if dm_DeletedAt msg \<noteq> None then collect_children fuel m beforeID afterID limit replyIDs messages
        else
         (case collectThreadReplies fuel m beforeID afterID limit msgID (messages @ [msg]) of
            None \<Rightarrow> None
          | Some messages \<Rightarrow> collect_children fuel m beforeID afterID limit replyIDs messages))"
  by pat_completeness auto
termination
  by (relation "measures [\<lambda>x. case x of Inl (fuel, _) \<Rightarrow> fuel | Inr (fuel, _) \<Rightarrow> fuel,
    \<lambda>x. case x of Inl _ \<Rightarrow> 0 | Inr (_, _, _, _, _, is, _) \<Rightarrow> length is]") auto

declare collectThreadReplies.simps [simp del]

definition ListThreadReplies ::
  "nat \<Rightarrow> MemDB \<Rightarrow> u64 \<Rightarrow> u16 \<Rightarrow> u64 option \<Rightarrow> u64 option \<Rightarrow> DBMessage list option" where
  "ListThreadReplies fuel m parentID limit beforeID afterID =
    collectThreadReplies fuel m beforeID afterID limit parentID []"

section \<open>Editing and soft deletion\<close>

text \<open>"ReplyCount.Add(^uint32(0))", when the count is not zero.\<close>

definition drop_reply :: "DBMessage \<Rightarrow> DBMessage" where
  "drop_reply parent =
    (if dm_ReplyCount parent > 0 then parent\<lparr>dm_ReplyCount := dm_ReplyCount parent + NOT 0\<rparr> else parent)"

definition SoftDeleteMessage ::
  "MemDB \<Rightarrow> i64 list \<Rightarrow> u64 \<Rightarrow> gostring \<Rightarrow> ((db_error + DBMessage) \<times> MemDB \<times> i64 list) option" where
  "SoftDeleteMessage m clock messageID nickname =
    (case mem_messages m messageID of
       None \<Rightarrow> Some (Inl (ErrText (lit ''message not found'')), m, clock)
     | Some msg \<Rightarrow>
        if dm_DeletedAt msg \<noteq> None then Some (Inl (ErrText (lit ''message already deleted'')), m, clock)
        else
         (case nowMillis clock of None \<Rightarrow> None
          | Some (now, clock) \<Rightarrow>
             (let msg = msg\<lparr>dm_DeletedAt := Some now\<rparr>;
                  msgs = (mem_messages m)(messageID \<mapsto> msg);
                  m = m\<lparr>mem_dirty := insert messageID (mem_dirty m)\<rparr>;
                  msgs = (case dm_ParentID msg of None \<Rightarrow> msgs | Some p \<Rightarrow> modify p drop_reply msgs)
              in Some (Inr msg, m\<lparr>mem_messages := msgs\<rparr>, clock))))"

definition AdminSoftDeleteMessage ::
  "MemDB \<Rightarrow> i64 list \<Rightarrow> u64 \<Rightarrow> gostring \<Rightarrow> ((db_error + DBMessage) \<times> MemDB \<times> i64 list) option" where
  "AdminSoftDeleteMessage m clock messageID adminNickname =
    (case mem_messages m messageID of
       None \<Rightarrow> Some (Inl (ErrText (lit ''message not found'')), m, clock)
     | Some msg \<Rightarrow>
        if dm_DeletedAt msg \<noteq> None then Some (Inl (ErrText (lit ''message already deleted'')), m, clock)
        else
         (case nowMillis clock of None \<Rightarrow> None
          | Some (now, clock) \<Rightarrow>
             (let msg = msg\<lparr>dm_DeletedAt := Some now\<rparr>;
                  msgs = (mem_messages m)(messageID \<mapsto> msg);
                  m = m\<lparr>mem_dirty := insert messageID (mem_dirty m)\<rparr>;
                  msgs = (case dm_ParentID msg of None \<Rightarrow> msgs | Some p \<Rightarrow> modify p drop_reply msgs)
              in Some (Inr msg, m\<lparr>mem_messages := msgs\<rparr>, clock))))"

text \<open>The write both edits end in.\<close>

definition edit_message :: "MemDB \<Rightarrow> u64 \<Rightarrow> DBMessage \<Rightarrow> gostring \<Rightarrow> i64 \<Rightarrow> DBMessage \<times> MemDB" where
  "edit_message m messageID msg newContent now =
    (let msg = msg\<lparr>dm_Content := newContent, dm_EditedAt := Some now\<rparr> in
     (msg, m\<lparr>mem_messages := (mem_messages m)(messageID \<mapsto> msg), mem_dirty := insert messageID (mem_dirty m)\<rparr>))"

definition UpdateMessage ::
  "MemDB \<Rightarrow> i64 list \<Rightarrow> u64 \<Rightarrow> u64 \<Rightarrow> gostring \<Rightarrow> ((db_error + DBMessage) \<times> MemDB \<times> i64 list) option" where
  "UpdateMessage m clock messageID userID newContent =
    (case mem_messages m messageID of
       None \<Rightarrow> Some (Inl ErrMessageNotFound, m, clock)
     | Some msg \<Rightarrow>
        (case dm_AuthorUserID msg of
           None \<Rightarrow> Some (Inl (ErrText (lit ''cannot edit anonymous messages'')), m, clock)
         | Some author \<Rightarrow>
            if author \<noteq> userID then Some (Inl ErrMessageNotOwned, m, clock)
            else if dm_DeletedAt msg \<noteq> None then Some (Inl (ErrText (lit ''cannot edit deleted message'')), m, clock)
            else
             (case nowMillis clock of None \<Rightarrow> None
              | Some (now, clock) \<Rightarrow>
                 (let (msg, m) = edit_message m messageID msg newContent now in Some (Inr msg, m, clock)))))"

definition AdminUpdateMessage ::
  "MemDB \<Rightarrow> i64 list \<Rightarrow> u64 \<Rightarrow> u64 \<Rightarrow> gostring \<Rightarrow> ((db_error + DBMessage) \<times> MemDB \<times> i64 list) option" where
  "AdminUpdateMessage m clock messageID userID newContent =
    (case mem_messages m messageID of
       None \<Rightarrow> Some (Inl ErrMessageNotFound, m, clock)
     | Some msg \<Rightarrow>
        (case dm_AuthorUserID msg of
           None \<Rightarrow> Some (Inl (ErrText (lit ''cannot edit anonymous messages'')), m, clock)
         | Some author \<Rightarrow>
            if dm_DeletedAt msg \<noteq> None then Some (Inl (ErrText (lit ''cannot edit deleted message'')), m, clock)
            else
             (case nowMillis clock of None \<Rightarrow> None
              | Some (now, clock) \<Rightarrow>
                 (let (msg, m) = edit_message m messageID msg newContent now in Some (Inr msg, m, clock)))))"

section \<open>Counters\<close>

definition count_where :: "(i64 \<Rightarrow> bool) \<Rightarrow> i64 list \<Rightarrow> u32" where
  "count_where p ids = fold (\<lambda>i count. if p i then count + 1 else count) ids 0"

definition recomputeReplyCount :: "(i64 \<rightharpoonup> i64 list) \<Rightarrow> i64 \<Rightarrow> (i64 \<rightharpoonup> DBMessage) \<Rightarrow> i64 \<rightharpoonup> DBMessage" where
  "recomputeReplyCount byParent messageID msgs =
    modify messageID (\<lambda>msg. msg\<lparr>dm_ReplyCount := count_where (live msgs) (slice_at byParent messageID)\<rparr>) msgs"

definition CountReplies :: "MemDB \<Rightarrow> i64 \<Rightarrow> u32" where
  "CountReplies m messageID = (case mem_messages m messageID of None \<Rightarrow> 0 | Some msg \<Rightarrow> dm_ReplyCount msg)"

definition SubchannelExists :: "MemDB \<Rightarrow> i64 \<Rightarrow> bool" where
  "SubchannelExists m subchannelID = False"

definition GetUnreadCountForChannel :: "MemDB \<Rightarrow> u64 \<Rightarrow> u64 option \<Rightarrow> i64 \<Rightarrow> u32" where
  "GetUnreadCountForChannel m channelID subchannelID sinceTimestamp =
    (case mem_byChannel m channelID of None \<Rightarrow> 0
     | Some messageIDs \<Rightarrow> count_where
        (\<lambda>msgID. case mem_messages m msgID of None \<Rightarrow> False
         | Some msg \<Rightarrow> \<not> (subchannelID = None \<and> dm_SubchannelID msg \<noteq> None) \<and>
             \<not> (subchannelID \<noteq> None \<and> (dm_SubchannelID msg = None \<or> subchannelID \<noteq> dm_SubchannelID msg)) \<and>
             sint (dm_CreatedAt msg) > sint sinceTimestamp \<and> dm_DeletedAt msg = None) messageIDs)"

definition GetUnreadCountForThread :: "MemDB \<Rightarrow> u64 \<Rightarrow> i64 \<Rightarrow> u32" where
  "GetUnreadCountForThread m threadID sinceTimestamp =
    (case mem_byThread m threadID of None \<Rightarrow> 0
     | Some messageIDs \<Rightarrow> count_where
        (\<lambda>msgID. case mem_messages m msgID of None \<Rightarrow> False
         | Some msg \<Rightarrow> sint (dm_CreatedAt msg) > sint sinceTimestamp \<and> dm_DeletedAt msg = None) messageIDs)"

text \<open>The two batch cleanups the server calls; both are no-ops here.\<close>

definition CleanupExpiredMessages :: "MemDB \<Rightarrow> i64 \<times> MemDB" where
  "CleanupExpiredMessages m = (0, m)"

definition CleanupIdleSessions :: "MemDB \<Rightarrow> i64 \<Rightarrow> i64 \<times> MemDB" where
  "CleanupIdleSessions m timeoutSeconds = (0, m)"

end
