(* ===== verification/MemPosting.thy ===== *)
theory MemPosting imports MemMessages begin

text \<open>
  Posting, editing and soft deletion keep the database well formed: the messages sit in the
  indexes of their keys, replies have larger ids than their parents, and the cached reply counts
  are the numbers of live replies.
\<close>

section \<open>In-place changes\<close>

text \<open>A change that keeps the four keys of every message keeps the store well formed.\<close>

definition keeps_keys :: "(DBMessage \<Rightarrow> DBMessage) \<Rightarrow> bool" where
  "keeps_keys f \<longleftrightarrow> (\<forall>msg. dm_ID (f msg) = dm_ID msg \<and> dm_ChannelID (f msg) = dm_ChannelID msg \<and>
     dm_ParentID (f msg) = dm_ParentID msg \<and> dm_ThreadRootID (f msg) = dm_ThreadRootID msg)"

lemma store_ok_modify:
  assumes "store_ok m" and "keeps_keys f"
  shows "store_ok (m\<lparr>mem_messages := modify k f (mem_messages m)\<rparr>)"
  using assms unfolding store_ok_def indexes_ok_def keeps_keys_def
  by (auto simp: by_channel.index_ok_modify by_parent.index_ok_modify by_thread.index_ok_modify
      ids_ok_def parents_ok_def modify_apply split: if_splits)

lemma store_ok_dirty [simp]: "store_ok (m\<lparr>mem_dirty := d\<rparr>) = store_ok m"
  by (simp add: store_ok_def indexes_ok_def)

lemma store_ok_snowflake [simp]: "store_ok (m\<lparr>mem_snowflake := s\<rparr>) = store_ok m"
  by (simp add: store_ok_def indexes_ok_def)

lemma counts_ok_dirty [simp]: "counts_ok (m\<lparr>mem_dirty := d\<rparr>) = counts_ok m"
  by (simp add: counts_ok_def live_replies_def)

lemma counts_ok_snowflake [simp]: "counts_ok (m\<lparr>mem_snowflake := s\<rparr>) = counts_ok m"
  by (simp add: counts_ok_def live_replies_def)

text \<open>The live replies change only where the liveness of a listed message does.\<close>

lemma live_replies_cong:
  assumes "mem_byParent m' = mem_byParent m" and "\<And>i. live (mem_messages m') i = live (mem_messages m) i"
  shows "live_replies m' p = live_replies m p"
proof -
  have "live (mem_messages m') = live (mem_messages m)" by (rule ext) (rule assms(2))
  then show ?thesis by (simp add: live_replies_def assms(1))
qed

lemma live_modify:
  assumes "\<And>msg. dm_DeletedAt (f msg) = dm_DeletedAt msg"
  shows "live (modify k f msgs) i = live msgs i"
  by (auto simp: live_def modify_apply assms split: option.splits)

lemma counts_ok_modify:
  assumes "counts_ok m" and "\<And>msg. dm_DeletedAt (f msg) = dm_DeletedAt msg \<and> dm_ReplyCount (f msg) = dm_ReplyCount msg"
  shows "counts_ok (m\<lparr>mem_messages := modify k f (mem_messages m)\<rparr>)"
proof -
  have "live_replies (m\<lparr>mem_messages := modify k f (mem_messages m)\<rparr>) p = live_replies m p" for p
    by (rule live_replies_cong) (simp_all add: live_modify assms(2))
  with assms show ?thesis by (auto simp: counts_ok_def modify_apply split: if_splits)
qed

lemma edit_is_modify:
  assumes "mem_messages m i = Some msg"
  shows "snd (edit_message m i msg c now) =
    m\<lparr>mem_messages := modify i (\<lambda>msg. msg\<lparr>dm_Content := c, dm_EditedAt := Some now\<rparr>) (mem_messages m),
      mem_dirty := insert i (mem_dirty m)\<rparr>"
  using assms by (simp add: edit_message_def modify_def Let_def)

lemma memdb_ok_edit:
  assumes "memdb_ok m" and "mem_messages m i = Some msg"
  shows "memdb_ok (snd (edit_message m i msg c now))"
proof -
  let ?f = "\<lambda>msg. msg\<lparr>dm_Content := c, dm_EditedAt := Some now\<rparr>"
  let ?m = "m\<lparr>mem_messages := modify i ?f (mem_messages m)\<rparr>"
  have "store_ok ?m" by (rule store_ok_modify) (use assms(1) in \<open>auto simp: memdb_ok_def keeps_keys_def\<close>)
  moreover have "counts_ok ?m" by (rule counts_ok_modify) (use assms(1) in \<open>auto simp: memdb_ok_def\<close>)
  ultimately have "memdb_ok (?m\<lparr>mem_dirty := insert i (mem_dirty m)\<rparr>)" by (simp add: memdb_ok_def)
  then show ?thesis by (simp add: edit_is_modify [OF assms(2)])
qed

section \<open>Posting\<close>

lemma new_stamp_eq:
  "new_stamp m clock = (case sf.stamp (mem_snowflake m) clock of None \<Rightarrow> None
    | Some ((i, now), s, clock) \<Rightarrow> Some (i, now, m\<lparr>mem_snowflake := s\<rparr>, clock))"
  by (auto simp: new_stamp_def sf.stamp_def split: option.splits)

text \<open>The id a stamp carries is above every id the database knows, and the rest is as before.\<close>

lemma new_stamp_fresh:
  assumes "ids_past m clock" and "new_stamp m clock = Some (i, now, m', clock')"
  shows "\<not> mentions m i \<and> (\<forall>j. mentions m j \<longrightarrow> sint j < sint i) \<and> (\<exists>s. m' = m\<lparr>mem_snowflake := s\<rparr>) \<and>
    ids_past m' clock' \<and> generator_past (mem_snowflake m') clock' i"
proof -
  from assms(2) obtain s where st: "sf.stamp (mem_snowflake m) clock = Some ((i, now), s, clock')"
    and m': "m' = m\<lparr>mem_snowflake := s\<rparr>"
    by (auto simp: new_stamp_eq split: option.splits)
  have ok: "generator_ready (mem_snowflake m) clock"
    and past: "mentions m j \<Longrightarrow> generator_past (mem_snowflake m) clock j" for j
    using assms(1) by (auto simp: ids_past_def)
  have above: "mentions m j \<Longrightarrow> sint j < sint i" for j
    using sf.stamp_above [OF ok st] past by blast
  have "mentions m' j = mentions m j" for j by (simp add: mentions_def m')
  then have "ids_past m' clock'"
    using sf.stamp_ok [OF ok st] sf.past_stamp [OF ok st] past by (auto simp: ids_past_def m')
  then show ?thesis using above sf.stamp_past [OF ok st] m' by auto
qed

text \<open>Storing a message as one update of the record.\<close>

definition store_maps :: "MemDB \<Rightarrow> DBMessage \<Rightarrow> (i64 \<rightharpoonup> DBMessage)" where
  "store_maps m msg =
    (case dm_ParentID msg of None \<Rightarrow> (mem_messages m)(dm_ID msg \<mapsto> msg)
     | Some p \<Rightarrow> modify p (\<lambda>parent. parent\<lparr>dm_ReplyCount := dm_ReplyCount parent + 1\<rparr>)
         ((mem_messages m)(dm_ID msg \<mapsto> msg)))"

lemma PostMessage_store_eq:
  "PostMessage_store m msg = m\<lparr>mem_messages := store_maps m msg,
     mem_byChannel := append_at (mem_byChannel m) (dm_ChannelID msg) (dm_ID msg),
     mem_byParent := (case dm_ParentID msg of None \<Rightarrow> mem_byParent m | Some p \<Rightarrow> append_at (mem_byParent m) p (dm_ID msg)),
     mem_byThread := (case dm_ThreadRootID msg of None \<Rightarrow> mem_byThread m | Some r \<Rightarrow> append_at (mem_byThread m) r (dm_ID msg)),
     mem_dirty := insert (dm_ID msg) (mem_dirty m)\<rparr>"
  by (cases m) (auto simp: PostMessage_store_def store_maps_def Let_def split: option.splits)

text \<open>A message ready to be stored: its id is above every id known, and above that of its parent.\<close>

definition storable :: "MemDB \<Rightarrow> DBMessage \<Rightarrow> bool" where
  "storable m msg \<longleftrightarrow> (\<forall>j. mentions m j \<longrightarrow> sint j < sint (dm_ID msg)) \<and> dm_DeletedAt msg = None \<and> dm_ReplyCount msg = 0 \<and>
     (\<forall>p. dm_ParentID msg = Some p \<longrightarrow> sint p < sint (dm_ID msg))"

lemma mentions_index:
  assumes "\<not> mentions m i"
  shows "i \<notin> set (slice_at (mem_byChannel m) k)" and "i \<notin> set (slice_at (mem_byParent m) k)"
    and "i \<notin> set (slice_at (mem_byThread m) k)" and "mem_messages m i = None"
  using assms by (auto simp: mentions_def)

lemma store_ok_post:
  assumes ok: "store_ok m" and msg: "storable m msg"
  shows "store_ok (PostMessage_store m msg)"
proof -
  let ?i = "dm_ID msg" and ?msgs = "(mem_messages m)(dm_ID msg \<mapsto> msg)"
  have new: "\<not> mentions m ?i" using msg by (auto simp: storable_def)
  note i = mentions_index [OF new]
  let ?m0 = "m\<lparr>mem_byChannel := mem_byChannel (PostMessage_store m msg),
    mem_byParent := mem_byParent (PostMessage_store m msg), mem_byThread := mem_byThread (PostMessage_store m msg),
    mem_messages := ?msgs\<rparr>"
  have "indexes_ok ?m0"
    using ok i by_channel.index_ok_insert [of "mem_messages m" "mem_byChannel m" ?i msg]
      by_parent.index_ok_insert [of "mem_messages m" "mem_byParent m" ?i msg]
      by_thread.index_ok_insert [of "mem_messages m" "mem_byThread m" ?i msg]
    by (auto simp: indexes_ok_def store_ok_def PostMessage_store_eq slice_at_append_at)
  then have "store_ok ?m0"
    using ok msg by (auto simp: store_ok_def ids_ok_def parents_ok_def storable_def)
  then have "store_ok (?m0\<lparr>mem_messages := store_maps m msg\<rparr>)"
    using store_ok_modify [of ?m0 "\<lambda>parent. parent\<lparr>dm_ReplyCount := dm_ReplyCount parent + 1\<rparr>"]
    by (auto simp: store_maps_def keeps_keys_def split: option.splits)
  then show ?thesis by (simp add: PostMessage_store_eq store_ok_def indexes_ok_def)
qed

text \<open>The parent of the message, if it is there, can count one more reply.\<close>

definition parent_has_room :: "MemDB \<Rightarrow> DBMessage \<Rightarrow> bool" where
  "parent_has_room m msg \<longleftrightarrow> (\<forall>p parent. dm_ParentID msg = Some p \<and> mem_messages m p = Some parent \<longrightarrow>
     dm_ReplyCount parent \<noteq> - 1)"

lemma store_maps_apply:
  assumes "storable m msg"
  shows "store_maps m msg j = (if j = dm_ID msg then Some msg
    else if dm_ParentID msg = Some j then map_option (\<lambda>parent. parent\<lparr>dm_ReplyCount := dm_ReplyCount parent + 1\<rparr>) (mem_messages m j)
    else mem_messages m j)"
  using assms by (auto simp: store_maps_def modify_apply storable_def split: option.splits)

lemma live_store_maps:
  "storable m msg \<Longrightarrow> live (store_maps m msg) j = (j = dm_ID msg \<or> live (mem_messages m) j)"
  by (auto simp: live_def store_maps_apply storable_def split: option.splits)

lemma live_replies_post:
  assumes ok: "store_ok m" and msg: "storable m msg"
  shows "live_replies (PostMessage_store m msg) q =
    live_replies m q @ (if dm_ParentID msg = Some q then [dm_ID msg] else [])"
proof -
  have new: "\<not> mentions m (dm_ID msg)" using msg by (auto simp: storable_def)
  have "filter (live (store_maps m msg)) (slice_at (mem_byParent m) q) = live_replies m q"
    unfolding live_replies_def using mentions_index(2) [OF new]
    by (intro filter_cong) (auto simp: live_store_maps [OF msg])
  then show ?thesis
    by (auto simp: live_replies_def PostMessage_store_eq slice_at_append_at live_store_maps [OF msg] split: option.splits)
qed

lemma no_replies_yet:
  assumes "store_ok m" and "storable m msg"
  shows "live_replies m (dm_ID msg) = []"
proof -
  have "\<not> live (mem_messages m) j" if j: "j \<in> set (slice_at (mem_byParent m) (dm_ID msg))" for j
  proof
    assume "live (mem_messages m) j"
    then obtain reply where reply: "mem_messages m j = Some reply" by (auto simp: live_def split: option.splits)
    then have "dm_ParentID reply = Some (dm_ID msg)"
      using assms(1) j by (auto simp: store_ok_def indexes_ok_def dest: by_parent.index_okD)
    then have "sint (dm_ID msg) < sint j" using assms(1) reply by (auto simp: store_ok_def parents_ok_def)
    moreover have "mentions m j" using reply by (simp add: mentions_def)
    ultimately show False using assms(2) by (auto simp: storable_def)
  qed
  then show ?thesis by (simp add: live_replies_def filter_empty_conv)
qed

lemma unat_Suc: "w \<noteq> - 1 \<Longrightarrow> unat (w + 1) = Suc (unat (w :: u32))"
  by (metis add.commute add_eq_0_iff unatSuc)

lemma counts_ok_post:
  assumes ok: "memdb_ok m" and msg: "storable m msg" and room: "parent_has_room m msg"
  shows "counts_ok (PostMessage_store m msg)"
  unfolding counts_ok_def
proof (intro allI impI)
  fix p stored
  assume stored: "mem_messages (PostMessage_store m msg) p = Some stored"
  have s: "store_ok m" "counts_ok m" using ok by (auto simp: memdb_ok_def)
  from stored have st: "store_maps m msg p = Some stored" by (simp add: PostMessage_store_eq)
  show "unat (dm_ReplyCount stored) = length (live_replies (PostMessage_store m msg) p)"
  proof (cases "p = dm_ID msg")
    case True
    with st msg have "stored = msg" by (simp add: store_maps_apply)
    moreover have "dm_ParentID msg \<noteq> Some p" using msg True by (auto simp: storable_def)
    ultimately show ?thesis using no_replies_yet [OF s(1) msg] msg True
      by (simp add: live_replies_post [OF s(1) msg] storable_def)
  next
    case False
    then show ?thesis using st s(2) room unfolding live_replies_post [OF s(1) msg]
      by (auto simp: store_maps_apply [OF msg] counts_ok_def parent_has_room_def unat_Suc split: if_splits)
  qed
qed

lemma memdb_ok_post:
  assumes "memdb_ok m" and "storable m msg" and "parent_has_room m msg"
  shows "memdb_ok (PostMessage_store m msg)"
  using assms store_ok_post counts_ok_post by (auto simp: memdb_ok_def)

text \<open>The states a post goes through: the stamp, then the store.\<close>

lemma PostMessage_cases:
  assumes run: "PostMessage m clock c sub parent user nick text = Some (Inr (i, msg), m', clock')"
    and past: "ids_past m clock" and ok: "memdb_ok m"
  obtains m1 where "memdb_ok m1" and "storable m1 msg" and "m' = PostMessage_store m1 msg"
    and "ids_past m1 clock'" and "generator_past (mem_snowflake m1) clock' i" and "dm_ID msg = i"
    and "mem_messages m1 = mem_messages m" and "mem_byParent m1 = mem_byParent m" and "mem_byChannel m1 = mem_byChannel m"
    and "mem_byThread m1 = mem_byThread m" and "mem_dirty m1 = mem_dirty m"
    and "\<forall>j. mentions m j \<longrightarrow> sint j < sint i" and "PostMessage_root m parent i = Inr (dm_ThreadRootID msg)"
    and "dm_ParentID msg = parent" and "dm_ChannelID msg = c"
proof -
  from run obtain now m1 root where st: "new_stamp m clock = Some (i, now, m1, clock')"
    and root: "PostMessage_root m1 parent i = Inr root"
    and msg: "msg = \<lparr>dm_ID = i, dm_ChannelID = c, dm_SubchannelID = sub, dm_ParentID = parent, dm_ThreadRootID = root,
      dm_AuthorUserID = user, dm_AuthorNickname = nick, dm_Content = text, dm_CreatedAt = now,
      dm_EditedAt = None, dm_DeletedAt = None, dm_ReplyCount = 0\<rparr>" and m': "m' = PostMessage_store m1 msg"
    by (auto simp: PostMessage_def Let_def split: option.splits sum.splits)
  from new_stamp_fresh [OF past st] obtain s where s: "m1 = m\<lparr>mem_snowflake := s\<rparr>"
    and fresh: "\<forall>j. mentions m j \<longrightarrow> sint j < sint i" and past1: "ids_past m1 clock'" "generator_past (mem_snowflake m1) clock' i"
    by auto
  have "mem_messages m p \<noteq> None" if "parent = Some p" for p
    using root that by (auto simp: PostMessage_root_def s split: option.splits)
  then have "\<forall>p. parent = Some p \<longrightarrow> sint p < sint i" using fresh by (auto simp: mentions_def)
  then have "storable m1 msg" using fresh by (simp add: storable_def msg s mentions_def)
  moreover have "memdb_ok m1" using ok by (simp add: memdb_ok_def s)
  moreover have "PostMessage_root m parent i = Inr root"
    using root by (cases parent) (simp_all add: PostMessage_root_def s)
  ultimately show thesis using past1 fresh by (intro that [of m1]) (auto simp: m' msg s)
qed

lemma mentions_post:
  assumes "storable m msg" and "mentions (PostMessage_store m msg) j"
  shows "mentions m j \<or> j = dm_ID msg"
  using assms
  by (auto simp: mentions_def PostMessage_store_eq store_maps_apply slice_at_append_at split: option.splits if_splits)

lemma ids_past_post:
  assumes "ids_past m clock" and "storable m msg" and "generator_past (mem_snowflake m) clock (dm_ID msg)"
  shows "ids_past (PostMessage_store m msg) clock"
  using assms(1,3) mentions_post [OF assms(2)] by (auto simp: ids_past_def PostMessage_store_eq)

section \<open>Soft deletion\<close>

definition delete_maps :: "MemDB \<Rightarrow> i64 \<Rightarrow> DBMessage \<Rightarrow> i64 \<Rightarrow> (i64 \<rightharpoonup> DBMessage)" where
  "delete_maps m i msg now =
    (let msgs = (mem_messages m)(i \<mapsto> msg\<lparr>dm_DeletedAt := Some now\<rparr>) in
     case dm_ParentID msg of None \<Rightarrow> msgs | Some p \<Rightarrow> modify p drop_reply msgs)"

lemma SoftDelete_Inr:
  assumes "SoftDeleteMessage m clock i nick = Some (Inr msg', m', clock')"
  obtains msg now where "mem_messages m i = Some msg" and "dm_DeletedAt msg = None" and "clock = now # clock'"
    and "msg' = msg\<lparr>dm_DeletedAt := Some now\<rparr>"
    and "m' = m\<lparr>mem_messages := delete_maps m i msg now, mem_dirty := insert i (mem_dirty m)\<rparr>"
  using assms
  by (cases clock) (auto simp: SoftDeleteMessage_def delete_maps_def Let_def split: option.splits if_splits)

lemma keeps_keys_delete: "keeps_keys (\<lambda>msg. msg\<lparr>dm_DeletedAt := d\<rparr>)" and keeps_keys_drop: "keeps_keys drop_reply"
  by (auto simp: keeps_keys_def drop_reply_def)

lemma delete_maps_eq:
  assumes "mem_messages m i = Some msg"
  shows "delete_maps m i msg now =
    (let msgs = modify i (\<lambda>msg. msg\<lparr>dm_DeletedAt := Some now\<rparr>) (mem_messages m) in
     case dm_ParentID msg of None \<Rightarrow> msgs | Some p \<Rightarrow> modify p drop_reply msgs)"
  using assms by (simp add: delete_maps_def modify_def)

lemma store_ok_delete:
  assumes "store_ok m" and msg: "mem_messages m i = Some msg"
  shows "store_ok (m\<lparr>mem_messages := delete_maps m i msg now\<rparr>)"
proof -
  let ?m = "m\<lparr>mem_messages := modify i (\<lambda>msg. msg\<lparr>dm_DeletedAt := Some now\<rparr>) (mem_messages m)\<rparr>"
  have "store_ok ?m" by (rule store_ok_modify [OF assms(1) keeps_keys_delete])
  with store_ok_modify [OF _ keeps_keys_drop, of ?m] show ?thesis
    by (auto simp: delete_maps_eq [OF msg] Let_def split: option.splits)
qed

lemma live_delete_maps:
  assumes "mem_messages m i = Some msg"
  shows "live (delete_maps m i msg now) j = (live (mem_messages m) j \<and> j \<noteq> i)"
proof -
  have "live (modify p drop_reply msgs) j = live msgs j" for p msgs
    by (rule live_modify) (simp add: drop_reply_def)
  then have "live (delete_maps m i msg now) j = live ((mem_messages m)(i \<mapsto> msg\<lparr>dm_DeletedAt := Some now\<rparr>)) j"
    by (simp add: delete_maps_def Let_def split: option.splits)
  then show ?thesis by (auto simp: live_def)
qed

lemma live_replies_delete:
  assumes ok: "store_ok m" and msg: "mem_messages m i = Some msg"
  shows "live_replies (m\<lparr>mem_messages := delete_maps m i msg now\<rparr>) q = remove1 i (live_replies m q)"
proof -
  have "distinct (live_replies m q)"
    using ok by (auto simp: live_replies_def store_ok_def indexes_ok_def intro: distinct_filter by_parent.index_ok_distinct)
  then have "remove1 i (live_replies m q) = filter (\<lambda>j. j \<noteq> i) (live_replies m q)"
    by (simp add: distinct_remove1_removeAll removeAll_filter_not_eq eq_commute)
  then show ?thesis
    by (auto simp: live_replies_def live_delete_maps [OF msg] intro!: filter_cong)
qed

lemma reply_listed:
  assumes ok: "store_ok m" and msg: "mem_messages m i = Some msg" and "dm_DeletedAt msg = None"
  shows "i \<in> set (live_replies m p) \<longleftrightarrow> dm_ParentID msg = Some p"
  using by_parent.index_okD [of "mem_messages m" "mem_byParent m" i msg p] assms
  by (auto simp: live_replies_def store_ok_def indexes_ok_def)

lemma unat_pred: "w \<noteq> 0 \<Longrightarrow> unat (w - 1) = unat (w :: u32) - 1"
  by (simp add: unat_minus_one)

lemma drop_reply_count: "unat (dm_ReplyCount (drop_reply msg)) = unat (dm_ReplyCount msg) - 1"
  by (simp add: drop_reply_def unat_pred word_gt_0)

lemma delete_maps_apply:
  assumes "store_ok m" and "mem_messages m i = Some msg"
  shows "delete_maps m i msg now j = (if j = i then Some (msg\<lparr>dm_DeletedAt := Some now\<rparr>)
    else if dm_ParentID msg = Some j then map_option drop_reply (mem_messages m j) else mem_messages m j)"
proof -
  have "dm_ParentID msg \<noteq> Some i" using assms by (auto simp: store_ok_def parents_ok_def)
  then show ?thesis by (auto simp: delete_maps_def Let_def modify_apply split: option.splits)
qed

lemma counts_ok_delete:
  assumes ok: "memdb_ok m" and msg: "mem_messages m i = Some msg" and alive: "dm_DeletedAt msg = None"
  shows "counts_ok (m\<lparr>mem_messages := delete_maps m i msg now\<rparr>)"
  unfolding counts_ok_def
proof (intro allI impI)
  fix p stored
  let ?m = "m\<lparr>mem_messages := delete_maps m i msg now\<rparr>"
  have s: "store_ok m" "counts_ok m" using ok by (auto simp: memdb_ok_def)
  assume "mem_messages ?m p = Some stored"
  then have st: "delete_maps m i msg now p = Some stored" by simp
  have listed: "i \<in> set (live_replies m p) \<longleftrightarrow> dm_ParentID msg = Some p" by (rule reply_listed [OF s(1) msg alive])
  have parent: "dm_ParentID msg \<noteq> Some i" using s(1) msg by (auto simp: store_ok_def parents_ok_def)
  show "unat (dm_ReplyCount stored) = length (live_replies ?m p)"
    using st s(2) msg listed parent
    by (auto simp: live_replies_delete [OF s(1) msg] delete_maps_apply [OF s(1) msg] counts_ok_def length_remove1
        drop_reply_count split: if_splits)
qed

lemma memdb_ok_delete:
  assumes "memdb_ok m" and "mem_messages m i = Some msg" and "dm_DeletedAt msg = None"
  shows "memdb_ok (m\<lparr>mem_messages := delete_maps m i msg now, mem_dirty := d\<rparr>)"
proof -
  have "memdb_ok (m\<lparr>mem_messages := delete_maps m i msg now\<rparr>)"
    using assms store_ok_delete counts_ok_delete by (auto simp: memdb_ok_def)
  then show ?thesis by (simp add: memdb_ok_def)
qed

end
