(* ===== verification/MemSessions.thy ===== *)
theory MemSessions imports MemPosting begin

text \<open>
  The session, channel and user operations of "pkg/database/memdb.go". What an operation asks of
  SQLite is a parameter: its answer, or its error. Where the code ranges over a map, the order in which
  the keys come is a parameter too, a list of the keys.
\<close>

section \<open>Sessions\<close>

definition CreateSession ::
  "MemDB \<Rightarrow> i64 list \<Rightarrow> i64 option \<Rightarrow> gostring \<Rightarrow> gostring \<Rightarrow> (i64 \<times> MemDB \<times> i64 list) option" where
  "CreateSession m clock userID nickname connType =
    (case new_stamp m clock of None \<Rightarrow> None
     | Some (sessionID, now, m, clock) \<Rightarrow>
        (let session = \<lparr>ds_ID = sessionID, ds_UserID = userID, ds_Nickname = nickname,
               ds_ConnectionType = connType, ds_ConnectedAt = now, ds_LastActivity = now\<rparr>;
             m = m\<lparr>mem_sessions := (mem_sessions m)(sessionID \<mapsto> session)\<rparr>;
             m = (case userID of None \<Rightarrow> m
                  | Some u \<Rightarrow> m\<lparr>mem_sessionsByUserID :=
                      (mem_sessionsByUserID m)(u \<mapsto> insert sessionID (set_at (mem_sessionsByUserID m) u))\<rparr>)
         in Some (sessionID, m, clock)))"

definition GetSession :: "MemDB \<Rightarrow> i64 \<Rightarrow> db_error + DBSession" where
  "GetSession m sessionID =
    (case mem_sessions m sessionID of
       None \<Rightarrow> Inl (ErrText (lit ''session not found'')) | Some session \<Rightarrow> Inr session)"

definition UpdateSessionActivity :: "MemDB \<Rightarrow> i64 list \<Rightarrow> i64 \<Rightarrow> (db_error option \<times> MemDB \<times> i64 list) option" where
  "UpdateSessionActivity m clock sessionID =
    (case mem_sessions m sessionID of
       None \<Rightarrow> Some (Some (ErrText (lit ''session not found'')), m, clock)
     | Some session \<Rightarrow>
        (case nowMillis clock of None \<Rightarrow> None
         | Some (now, clock) \<Rightarrow>
            Some (None, m\<lparr>mem_sessions := (mem_sessions m)(sessionID \<mapsto> session\<lparr>ds_LastActivity := now\<rparr>)\<rparr>, clock)))"

definition UpdateSessionNickname :: "MemDB \<Rightarrow> i64 \<Rightarrow> gostring \<Rightarrow> db_error option \<times> MemDB" where
  "UpdateSessionNickname m sessionID nickname =
    (case mem_sessions m sessionID of
       None \<Rightarrow> (Some (ErrText (lit ''session not found'')), m)
     | Some session \<Rightarrow>
        (None, m\<lparr>mem_sessions := (mem_sessions m)(sessionID \<mapsto> session\<lparr>ds_Nickname := nickname\<rparr>)\<rparr>))"

definition DeleteSession :: "MemDB \<Rightarrow> i64 \<Rightarrow> MemDB" where
  "DeleteSession m sessionID =
    (case mem_sessions m sessionID of None \<Rightarrow> m
     | Some session \<Rightarrow>
        (let m = (case ds_UserID session of None \<Rightarrow> m
           | Some u \<Rightarrow>
              (case mem_sessionsByUserID m u of None \<Rightarrow> m
               | Some userSessions \<Rightarrow>
                  (let userSessions = userSessions - {sessionID} in
                   m\<lparr>mem_sessionsByUserID := (mem_sessionsByUserID m)(u :=
                       (if userSessions = {} then None else Some userSessions))\<rparr>)))
         in m\<lparr>mem_sessions := (mem_sessions m)(sessionID := None)\<rparr>))"

text \<open>The threshold is computed before the lock; "withinSeconds * 1000" wraps.\<close>

definition GetActiveSessions :: "i64 list \<Rightarrow> MemDB \<Rightarrow> i64 \<Rightarrow> i64 \<Rightarrow> DBSession list" where
  "GetActiveSessions order m now withinSeconds =
    (let threshold = now - withinSeconds * 1000 in
     List.map_filter (\<lambda>s. case mem_sessions m s of None \<Rightarrow> None
       | Some session \<Rightarrow> if sint (ds_LastActivity session) \<ge> sint threshold then Some session else None) order)"

section \<open>Channels\<close>

text \<open>"sort.Slice" by name; the names of channels are unique in SQLite, so the order is determined.\<close>

definition name_key :: "gostring \<Rightarrow> nat list" where
  "name_key s = map unat s"

fun insert_channel :: "DBChannel \<Rightarrow> DBChannel list \<Rightarrow> DBChannel list" where
  "insert_channel c [] = [c]"
| "insert_channel c (d # ds) =
    (if (name_key (ch_Name d), name_key (ch_Name c)) \<in> lexord {(a, b). a < b} then d # insert_channel c ds else c # d # ds)"

definition ListChannels :: "i64 list \<Rightarrow> MemDB \<Rightarrow> DBChannel list" where
  "ListChannels order m = foldr insert_channel (List.map_filter (mem_channels m) order) []"

definition CountChannels :: "MemDB \<Rightarrow> u32" where
  "CountChannels m = of_nat (card (dom (mem_channels m)))"

definition GetChannel :: "MemDB \<Rightarrow> i64 \<Rightarrow> db_error + DBChannel" where
  "GetChannel m channelID =
    (case mem_channels m channelID of
       None \<Rightarrow> Inl (ErrText (lit ''channel not found'')) | Some channel \<Rightarrow> Inr channel)"

definition ChannelExists :: "MemDB \<Rightarrow> i64 \<Rightarrow> bool" where
  "ChannelExists m channelID \<longleftrightarrow> mem_channels m channelID \<noteq> None"

definition CreateChannel ::
  "db_error + i64 \<Rightarrow> MemDB \<Rightarrow> i64 list \<Rightarrow> gostring \<Rightarrow> gostring \<Rightarrow> gostring option \<Rightarrow> u8 \<Rightarrow> u32 \<Rightarrow> i64 option \<Rightarrow>
   ((db_error + i64) \<times> MemDB \<times> i64 list) option" where
  "CreateChannel sqlite m clock name displayName description channelType retentionHours createdBy =
    (case sqlite of Inl err \<Rightarrow> Some (Inl err, m, clock)
     | Inr channelID \<Rightarrow>
        (case nowMillis clock of None \<Rightarrow> None
         | Some (now, clock) \<Rightarrow>
            (let ch = \<lparr>ch_ID = channelID, ch_Name = name, ch_DisplayName = displayName, ch_Description = description,
                   ch_ChannelType = channelType, ch_MessageRetentionHours = retentionHours, ch_CreatedBy = createdBy,
                   ch_CreatedAt = now, ch_IsPrivate = False\<rparr>
             in Some (Inr channelID, m\<lparr>mem_channels := (mem_channels m)(channelID \<mapsto> ch)\<rparr>, clock))))"

definition DeleteChannel :: "db_error option \<Rightarrow> MemDB \<Rightarrow> u64 \<Rightarrow> db_error option \<times> MemDB" where
  "DeleteChannel sqlite m channelID =
    (case sqlite of Some err \<Rightarrow> (Some err, m)
     | None \<Rightarrow>
        (let m = m\<lparr>mem_channels := (mem_channels m)(channelID := None)\<rparr> in
         (None,
          case mem_byChannel m channelID of None \<Rightarrow> m
          | Some messageIDs \<Rightarrow>
             m\<lparr>mem_messages := fold (\<lambda>msgID msgs. msgs(msgID := None)) messageIDs (mem_messages m),
               mem_byChannel := (mem_byChannel m)(channelID := None)\<rparr>)))"

section \<open>Users\<close>

definition anonymize :: "u64 \<Rightarrow> gostring \<Rightarrow> i64 \<Rightarrow> MemDB \<Rightarrow> MemDB" where
  "anonymize userID nickname i m =
    (case mem_messages m i of None \<Rightarrow> m
     | Some msg \<Rightarrow>
        if dm_AuthorUserID msg = Some userID then
          m\<lparr>mem_messages := (mem_messages m)(i \<mapsto> msg\<lparr>dm_AuthorUserID := None, dm_AuthorNickname := nickname\<rparr>),
            mem_dirty := insert (dm_ID msg) (mem_dirty m)\<rparr>
        else m)"

definition DeleteUser :: "db_error + gostring \<Rightarrow> i64 list \<Rightarrow> MemDB \<Rightarrow> u64 \<Rightarrow> (db_error + gostring) \<times> MemDB" where
  "DeleteUser sqlite order m userID =
    (case sqlite of Inl err \<Rightarrow> (Inl err, m)
     | Inr nickname \<Rightarrow>
        (let m = (case mem_sessionsByUserID m userID of None \<Rightarrow> m
           | Some sessionsSet \<Rightarrow>
              m\<lparr>mem_sessions := (\<lambda>s. if s \<in> sessionsSet then None else mem_sessions m s),
                mem_sessionsByUserID := (mem_sessionsByUserID m)(userID := None)\<rparr>)
         in (Inr nickname, fold (anonymize userID nickname) order m)))"

section \<open>The session index\<close>

lemma sessions_ok_snowflake [simp]: "sessions_ok (m\<lparr>mem_snowflake := s\<rparr>) = sessions_ok m"
  by (simp add: sessions_ok_def user_of_def)

lemma set_at_update: "set_at (m(k := v)) k' = (if k' = k then (case v of None \<Rightarrow> {} | Some s \<Rightarrow> s) else set_at m k')"
  by (simp add: set_at_def)

lemma sessions_ok_create:
  assumes ok: "sessions_ok m" and run: "CreateSession m clock u nick conn = Some (s, m', clock')"
    and new: "mem_sessions m s = None"
  shows "sessions_ok m' \<and> (\<exists>sess. mem_sessions m' s = Some sess \<and> ds_UserID sess = u \<and> ds_Nickname sess = nick)"
proof -
  from run obtain now m1 where st: "new_stamp m clock = Some (s, now, m1, clock')"
    and m': "mem_sessions m' = (mem_sessions m1)(s \<mapsto> \<lparr>ds_ID = s, ds_UserID = u, ds_Nickname = nick,
        ds_ConnectionType = conn, ds_ConnectedAt = now, ds_LastActivity = now\<rparr>)"
      "mem_sessionsByUserID m' = (case u of None \<Rightarrow> mem_sessionsByUserID m1
        | Some u \<Rightarrow> (mem_sessionsByUserID m1)(u \<mapsto> insert s (set_at (mem_sessionsByUserID m1) u)))"
    by (auto simp: CreateSession_def Let_def split: option.splits)
  from st have m1: "mem_sessions m1 = mem_sessions m" "mem_sessionsByUserID m1 = mem_sessionsByUserID m"
    by (auto simp: new_stamp_def split: option.splits)
  have "user_of m s = None" using new by (simp add: user_of_def)
  with ok have free: "\<forall>u. s \<notin> set_at (mem_sessionsByUserID m) u" by (auto simp: sessions_ok_def)
  have user: "user_of m' s' = (if s' = s then u else user_of m s')" for s'
    by (simp add: user_of_def m' m1)
  show ?thesis
    using ok free by (auto simp: sessions_ok_def m' m1 user set_at_update split: option.splits)
qed

lemma DeleteSession_sets:
  assumes "sessions_ok m"
  shows "set_at (mem_sessionsByUserID (DeleteSession m s)) u = set_at (mem_sessionsByUserID m) u - {s}"
proof -
  have "s \<notin> set_at (mem_sessionsByUserID m) u" if "user_of m s \<noteq> Some u" for u
    using assms that by (simp add: sessions_ok_def)
  then show ?thesis
    by (force simp: DeleteSession_def user_of_def set_at_def Let_def split: option.splits)
qed

lemma sessions_ok_delete:
  assumes ok: "sessions_ok m"
  shows "sessions_ok (DeleteSession m s) \<and>
    mem_sessions (DeleteSession m s) = (mem_sessions m)(s := None)"
proof -
  have maps: "mem_sessions (DeleteSession m s) = (mem_sessions m)(s := None)"
    by (auto simp: DeleteSession_def Let_def fun_upd_idem split: option.splits)
  have "mem_sessionsByUserID (DeleteSession m s) u \<noteq> Some {}" for u
    using ok by (auto simp: DeleteSession_def sessions_ok_def Let_def split: option.splits)
  moreover have "user_of (DeleteSession m s) s' = (if s' = s then None else user_of m s')" for s'
    by (simp add: user_of_def maps)
  ultimately show ?thesis
    using ok DeleteSession_sets [OF ok, of s] by (auto simp: sessions_ok_def maps split: if_splits)
qed

section \<open>Deleting a user\<close>

definition anonymized :: "u64 \<Rightarrow> gostring \<Rightarrow> DBMessage \<Rightarrow> DBMessage" where
  "anonymized userID nickname msg =
    (if dm_AuthorUserID msg = Some userID then msg\<lparr>dm_AuthorUserID := None, dm_AuthorNickname := nickname\<rparr> else msg)"

lemma fold_anonymize:
  "mem_messages (fold (anonymize u n) order m) i =
     (if i \<in> set order then map_option (anonymized u n) (mem_messages m i) else mem_messages m i)"
  by (induction order arbitrary: m)
    (auto simp: anonymize_def anonymized_def option.map_comp comp_def split: option.splits if_splits)

lemma fold_anonymize_dirty:
  "mem_dirty (fold (anonymize u n) order m) = mem_dirty m \<union>
     {dm_ID msg | i msg. i \<in> set order \<and> mem_messages m i = Some msg \<and> dm_AuthorUserID msg = Some u}"
proof (induction order arbitrary: m)
  case (Cons i order)
  have "mem_messages (anonymize u n i m) j = (if j = i then map_option (anonymized u n) (mem_messages m j) else mem_messages m j)" for j
    by (auto simp: anonymize_def anonymized_def split: option.splits)
  moreover have "mem_dirty (anonymize u n i m) = mem_dirty m \<union>
      {dm_ID msg | msg. mem_messages m i = Some msg \<and> dm_AuthorUserID msg = Some u}"
    by (auto simp: anonymize_def split: option.splits)
  moreover have "mem_messages (anonymize u n i m) j = Some msg \<and> dm_AuthorUserID msg = Some u \<longleftrightarrow>
      j \<noteq> i \<and> mem_messages m j = Some msg \<and> dm_AuthorUserID msg = Some u" for j msg
    by (auto simp: calculation(1) anonymized_def)
  ultimately show ?case
    unfolding fold_simps comp_def Cons.IH by (simp only: list.set) blast
qed simp

lemma fold_anonymize_rest:
  "mem_byChannel (fold (anonymize u n) order m) = mem_byChannel m"
  "mem_byParent (fold (anonymize u n) order m) = mem_byParent m"
  "mem_byThread (fold (anonymize u n) order m) = mem_byThread m"
  "mem_sessions (fold (anonymize u n) order m) = mem_sessions m"
  "mem_sessionsByUserID (fold (anonymize u n) order m) = mem_sessionsByUserID m"
  by (induction order arbitrary: m) (auto simp: anonymize_def split: option.splits)

lemma memdb_ok_anonymize:
  assumes "memdb_ok m"
  shows "memdb_ok (anonymize u n i m)"
proof (cases "\<exists>msg. mem_messages m i = Some msg \<and> dm_AuthorUserID msg = Some u")
  case True
  then obtain msg where msg: "mem_messages m i = Some msg" "dm_AuthorUserID msg = Some u" by blast
  let ?f = "\<lambda>msg. msg\<lparr>dm_AuthorUserID := None, dm_AuthorNickname := n\<rparr>"
  let ?m = "m\<lparr>mem_messages := modify i ?f (mem_messages m)\<rparr>"
  have "store_ok ?m" by (rule store_ok_modify) (use assms in \<open>auto simp: memdb_ok_def keeps_keys_def\<close>)
  moreover have "counts_ok ?m" by (rule counts_ok_modify) (use assms in \<open>auto simp: memdb_ok_def\<close>)
  ultimately have "memdb_ok (?m\<lparr>mem_dirty := insert (dm_ID msg) (mem_dirty m)\<rparr>)" by (simp add: memdb_ok_def)
  with msg show ?thesis by (simp add: anonymize_def modify_def)
next
  case False
  with assms show ?thesis by (auto simp: anonymize_def split: option.splits)
qed

lemma memdb_ok_fold_anonymize: "memdb_ok m \<Longrightarrow> memdb_ok (fold (anonymize u n) order m)"
  by (induction order arbitrary: m) (auto simp: memdb_ok_anonymize)

lemma memdb_ok_sessions [simp]:
  "memdb_ok (m\<lparr>mem_sessions := s, mem_sessionsByUserID := t\<rparr>) = memdb_ok m"
  by (simp add: memdb_ok_def store_ok_def indexes_ok_def counts_ok_def live_replies_def)

section \<open>Deleting a channel\<close>

text \<open>No reply sits in another channel than the message it replies to.\<close>

definition same_channel :: "MemDB \<Rightarrow> bool" where
  "same_channel m \<longleftrightarrow> (\<forall>i msg p parent. mem_messages m i = Some msg \<and> dm_ParentID msg = Some p \<and>
     mem_messages m p = Some parent \<longrightarrow> dm_ChannelID msg = dm_ChannelID parent)"

lemma fold_forget: "fold (\<lambda>i msgs. msgs(i := None)) ids msgs = (\<lambda>i. if i \<in> set ids then None else msgs i)"
  by (induction ids arbitrary: msgs) (auto simp: fun_eq_iff)

lemma DeleteChannel_eq:
  "DeleteChannel None m c = (None, m\<lparr>mem_channels := (mem_channels m)(c := None),
     mem_messages := (\<lambda>i. if i \<in> set (slice_at (mem_byChannel m) c) then None else mem_messages m i),
     mem_byChannel := (mem_byChannel m)(c := None)\<rparr>)"
  by (cases "mem_byChannel m c")
    (auto simp: DeleteChannel_def Let_def fold_forget slice_at_def fun_upd_idem intro!: MemDB.equality)

lemma in_channel_iff:
  assumes "indexes_ok m" and "mem_messages m i = Some msg"
  shows "i \<in> set (slice_at (mem_byChannel m) c) \<longleftrightarrow> dm_ChannelID msg = c"
  using by_channel.index_okD [of "mem_messages m" "mem_byChannel m" i msg c] assms by (simp add: indexes_ok_def)

lemma store_ok_DeleteChannel:
  assumes ok: "store_ok m"
  shows "store_ok (snd (DeleteChannel None m c))"
proof -
  let ?ids = "set (slice_at (mem_byChannel m) c)"
  let ?msgs = "\<lambda>i. if i \<in> ?ids then None else mem_messages m i"
  have idx: "indexes_ok m" using ok by (simp add: store_ok_def)
  have in_c: "i \<in> ?ids \<longleftrightarrow> dm_ChannelID msg = c" if "mem_messages m i = Some msg" for i msg
    by (rule in_channel_iff [OF idx that])
  have kept: "?msgs i = Some msg' \<Longrightarrow> mem_messages m i = Some msg'" for i msg' by (simp split: if_splits)
  have ch: "by_channel.index_ok ?msgs (mem_byChannel m)"
    by (rule by_channel.index_ok_restrict [OF _ kept]) (use idx in \<open>auto simp: indexes_ok_def\<close>)
  have "by_parent.index_ok ?msgs (mem_byParent m)"
    by (rule by_parent.index_ok_restrict [OF _ kept]) (use idx in \<open>auto simp: indexes_ok_def\<close>)
  moreover have "by_thread.index_ok ?msgs (mem_byThread m)"
    by (rule by_thread.index_ok_restrict [OF _ kept]) (use idx in \<open>auto simp: indexes_ok_def\<close>)
  moreover have "by_channel.index_ok ?msgs ((mem_byChannel m)(c := None))"
    unfolding by_channel.index_ok_def
  proof (intro conjI allI impI)
    show "distinct (slice_at ((mem_byChannel m)(c := None)) k)" for k
      using by_channel.index_ok_distinct [OF ch] by (simp add: slice_at_delete)
    show "i \<in> set (slice_at ((mem_byChannel m)(c := None)) k) \<longleftrightarrow> Some (dm_ChannelID msg) = Some k"
      if "?msgs i = Some msg" for i msg k
      using by_channel.index_okD [OF ch that, of k] in_c [OF kept [OF that]] that
      by (auto simp: slice_at_delete split: if_splits)
  qed
  moreover have "mem_messages m i \<noteq> None \<and> i \<notin> ?ids" if "k \<noteq> c" "i \<in> set (slice_at (mem_byChannel m) k)" for i k
  proof -
    from idx that(2) obtain msg where msg: "mem_messages m i = Some msg" by (auto simp: indexes_ok_def)
    with that in_channel_iff [OF idx msg, of k] in_c [OF msg] show ?thesis by auto
  qed
  moreover have "finite (dom ?msgs)"
    by (rule finite_subset [of _ "dom (mem_messages m)"]) (use ok in \<open>auto simp: store_ok_def split: if_splits\<close>)
  moreover have "ids_ok ?msgs" "parents_ok ?msgs"
    using ok kept by (auto simp: store_ok_def ids_ok_def parents_ok_def)
  ultimately show ?thesis
    by (simp add: DeleteChannel_eq store_ok_def indexes_ok_def slice_at_delete)
qed

lemma counts_ok_DeleteChannel:
  assumes ok: "memdb_ok m" and same: "same_channel m"
  shows "counts_ok (snd (DeleteChannel None m c))"
proof -
  have s: "store_ok m" "counts_ok m" "indexes_ok m" using ok by (auto simp: memdb_ok_def store_ok_def)
  let ?m = "snd (DeleteChannel None m c)"
  have "live_replies ?m p = live_replies m p" if p: "mem_messages ?m p = Some parent" for p parent
  proof -
    have mp: "mem_messages m p = Some parent" "dm_ChannelID parent \<noteq> c"
      using p in_channel_iff [OF s(3)] by (auto simp: DeleteChannel_eq split: if_splits)
    have "live (mem_messages ?m) j = live (mem_messages m) j" if j: "j \<in> set (slice_at (mem_byParent m) p)" for j
    proof (cases "mem_messages m j")
      case (Some reply)
      then have "dm_ParentID reply = Some p" using s(3) j by (auto simp: indexes_ok_def dest: by_parent.index_okD)
      with same Some mp have "dm_ChannelID reply \<noteq> c" by (auto simp: same_channel_def)
      with in_channel_iff [OF s(3) Some] have "mem_messages ?m j = mem_messages m j" by (simp add: DeleteChannel_eq)
      then show ?thesis by (rule live_cong)
    qed (simp add: DeleteChannel_eq live_def)
    then show ?thesis by (auto simp: live_replies_def DeleteChannel_eq intro!: filter_cong)
  qed
  then show ?thesis using s(2) by (force simp: counts_ok_def DeleteChannel_eq split: if_splits)
qed

end
