(* ===== verification/MemThreads.thy ===== *)
theory MemThreads imports MemPosting begin

text \<open>
  What the readers return: the paging loop is a prefix of a filtered list, the recursive walk is the
  depth-first list of the replies cut at the limit, and the counters count.
\<close>

section \<open>Pages\<close>

text \<open>At least one message is taken, also when the limit is zero: the test comes after the append.\<close>

lemma page_loop_eq:
  "int (length acc) < limit \<or> (limit \<le> 0 \<and> acc = []) \<Longrightarrow>
   page_loop pick limit ids acc = acc @ take (max 1 (nat limit) - length acc) (List.map_filter pick ids)"
proof (induction ids arbitrary: acc)
  case Nil
  then show ?case by (simp)
next
  case (Cons i ids)
  show ?case
  proof (cases "pick i")
    case None
    with Cons show ?thesis by (simp)
  next
    case (Some msg)
    then have f: "List.map_filter pick (i # ids) = msg # List.map_filter pick ids" by (simp)
    show ?thesis
    proof (cases "limit \<le> int (length acc + 1)")
      case True
      with Cons.prems have "max 1 (nat limit) - length acc = 1" by auto
      with True Some f show ?thesis by (simp add: Let_def)
    next
      case False
      then have "max 1 (nat limit) - length acc = Suc (max 1 (nat limit) - length (acc @ [msg]))" by auto
      with False Some f Cons.IH [of "acc @ [msg]"] show ?thesis by (simp add: Let_def)
    qed
  qed
qed

section \<open>Threads\<close>

text \<open>What one level of the walk takes from a child, and the children it looks at.\<close>

definition thread_pick :: "MemDB \<Rightarrow> u64 option \<Rightarrow> u64 option \<Rightarrow> i64 \<Rightarrow> DBMessage option" where
  "thread_pick m beforeID afterID i =
    (if case beforeID of None \<Rightarrow> False | Some b \<Rightarrow> b \<le> i then None
     else if case afterID of None \<Rightarrow> False | Some a \<Rightarrow> i \<le> a then None
     else case mem_messages m i of None \<Rightarrow> None
     | Some msg \<Rightarrow> if dm_DeletedAt msg = None then Some msg else None)"

text \<open>The depth-first list, to a depth.\<close>

fun thread_list :: "nat \<Rightarrow> (i64 \<Rightarrow> DBMessage option) \<Rightarrow> (i64 \<Rightarrow> i64 list) \<Rightarrow> i64 \<Rightarrow> DBMessage list" where
  "thread_list 0 pick children p = []"
| "thread_list (Suc d) pick children p =
    concat (map (\<lambda>i. case pick i of None \<Rightarrow> [] | Some msg \<Rightarrow> msg # thread_list d pick children i) (children p))"

text \<open>Cutting a list at the limit; zero means no limit.\<close>

definition cut :: "u16 \<Rightarrow> 'a list \<Rightarrow> 'a list" where
  "cut limit xs = (if limit = 0 then xs else take (unat limit) xs)"

lemma reached_iff: "reached limit xs \<longleftrightarrow> limit \<noteq> 0 \<and> unat limit \<le> length xs"
proof -
  have "uint limit \<le> int (length xs) \<longleftrightarrow> unat limit \<le> length xs"
    by (metis of_nat_le_iff of_nat_unat)
  then show ?thesis by (simp add: reached_def word_gt_0)
qed

lemma reached_cut: "reached limit xs \<Longrightarrow> cut limit (xs @ ys) = cut limit xs"
  by (simp add: reached_iff cut_def)

lemma cut_append: "cut limit (cut limit xs @ ys) = cut limit (xs @ ys)"
  by (auto simp: cut_def min_def not_le)

lemma not_reached_cut: "\<not> reached limit xs \<Longrightarrow> cut limit (xs @ [x]) = xs @ [x]"
  by (auto simp: reached_iff cut_def)

lemma cut_cut [simp]: "cut limit (cut limit xs) = cut limit xs"
  by (auto simp: cut_def)

text \<open>How deep the replies below a message go: the number of messages with a larger id.\<close>

definition above :: "MemDB \<Rightarrow> i64 \<Rightarrow> nat" where
  "above m p = card {i \<in> dom (mem_messages m). sint p < sint i}"

lemma above_child:
  assumes ok: "store_ok m" and i: "i \<in> set (slice_at (mem_byParent m) p)" and msg: "mem_messages m i = Some msg"
  shows "above m i < above m p"
proof -
  have "dm_ParentID msg = Some p"
    using ok i msg by (auto simp: store_ok_def indexes_ok_def dest: by_parent.index_okD)
  then have lt: "sint p < sint i" using ok msg by (auto simp: store_ok_def parents_ok_def)
  show ?thesis unfolding above_def
  proof (rule psubset_card_mono)
    show "finite {i \<in> dom (mem_messages m). sint p < sint i}" using ok by (simp add: store_ok_def)
    show "{j \<in> dom (mem_messages m). sint i < sint j} \<subset> {j \<in> dom (mem_messages m). sint p < sint j}"
      using lt msg by (auto simp: psubset_eq)
  qed
qed

lemma collect_children_Cons:
  "collect_children fuel m b a limit (i # is) acc =
    (if reached limit acc then Some acc
     else case thread_pick m b a i of None \<Rightarrow> collect_children fuel m b a limit is acc
     | Some msg \<Rightarrow>
        (case collectThreadReplies fuel m b a limit i (acc @ [msg]) of None \<Rightarrow> None
         | Some acc \<Rightarrow> collect_children fuel m b a limit is acc))"
  by (simp add: thread_pick_def split: option.split)

declare collect_children.simps(2) [simp del]

text \<open>With fuel for the depth the walk returns, and what it returns is the depth-first list.\<close>

lemma collect_children_eq:
  assumes "\<And>i acc. i \<in> set is \<Longrightarrow> pick i \<noteq> None \<Longrightarrow> cut limit acc = acc \<Longrightarrow>
      collectThreadReplies fuel m b a limit i acc = Some (cut limit (acc @ sub i))"
    and "pick = thread_pick m b a" and "cut limit acc = acc"
  shows "collect_children fuel m b a limit is acc =
    Some (cut limit (acc @ concat (map (\<lambda>i. case pick i of None \<Rightarrow> [] | Some msg \<Rightarrow> msg # sub i) is)))"
  using assms(1,3)
proof (induction "is" arbitrary: acc)
  case Nil
  then show ?case by simp
next
  case (Cons i "is")
  let ?rest = "concat (map (\<lambda>i. case pick i of None \<Rightarrow> [] | Some msg \<Rightarrow> msg # sub i) is)"
  have IH: "cut limit acc = acc \<Longrightarrow> collect_children fuel m b a limit is acc = Some (cut limit (acc @ ?rest))" for acc
    using Cons.IH Cons.prems(1) by simp
  show ?case
  proof (cases "reached limit acc")
    case True
    with Cons.prems(2) show ?thesis by (simp add: collect_children_Cons reached_cut)
  next
    case nr: False
    show ?thesis
    proof (cases "pick i")
      case None
      with nr IH [OF Cons.prems(2)] show ?thesis by (simp add: collect_children_Cons assms(2))
    next
      case (Some msg)
      have "collectThreadReplies fuel m b a limit i (acc @ [msg]) = Some (cut limit ((acc @ [msg]) @ sub i))"
        using Some nr by (intro Cons.prems(1)) (auto simp: not_reached_cut)
      with nr Some IH [of "cut limit ((acc @ [msg]) @ sub i)"] show ?thesis
        by (simp add: collect_children_Cons assms(2) cut_append)
    qed
  qed
qed

lemma collect_eq:
  assumes ok: "store_ok m"
  shows "above m p < fuel \<Longrightarrow> cut limit acc = acc \<Longrightarrow>
    collectThreadReplies fuel m b a limit p acc =
      Some (cut limit (acc @ thread_list fuel (thread_pick m b a) (slice_at (mem_byParent m)) p))"
proof (induction fuel arbitrary: p acc)
  case 0
  then show ?case by simp
next
  case (Suc fuel)
  let ?pick = "thread_pick m b a"
  have below: "above m i < fuel" if "i \<in> set (slice_at (mem_byParent m) p)" and "?pick i \<noteq> None" for i
  proof -
    from that(2) obtain msg where "mem_messages m i = Some msg"
      by (auto simp: thread_pick_def split: if_splits option.splits)
    from above_child [OF ok that(1) this] Suc.prems(1) show ?thesis by simp
  qed
  show ?case
  proof (cases "mem_byParent m p")
    case None
    then show ?thesis using Suc.prems(2) by (simp add: collectThreadReplies.simps slice_at_def reached_cut)
  next
    case (Some ids)
    then have ids: "slice_at (mem_byParent m) p = ids" by (simp add: slice_at_def)
    have "collect_children fuel m b a limit ids acc =
      Some (cut limit (acc @ thread_list (Suc fuel) ?pick (slice_at (mem_byParent m)) p))"
      using Suc.IH below Suc.prems(2) by (subst collect_children_eq [where pick = ?pick]) (auto simp: ids)
    with Some Suc.prems(2) show ?thesis by (simp add: collectThreadReplies.simps reached_cut)
  qed
qed

section \<open>What the depth-first list holds\<close>

text \<open>A live message and the message it replies to; a descendant replies to it in one or more steps.\<close>

definition replies_to :: "MemDB \<Rightarrow> i64 \<Rightarrow> i64 \<Rightarrow> bool" where
  "replies_to m i p \<longleftrightarrow> (\<exists>msg. mem_messages m i = Some msg \<and> dm_DeletedAt msg = None \<and> dm_ParentID msg = Some p)"

abbreviation descends :: "MemDB \<Rightarrow> i64 \<Rightarrow> i64 \<Rightarrow> bool" where
  "descends m \<equiv> (replies_to m)\<^sup>+\<^sup>+"

lemma replies_to_unique: "replies_to m i p \<Longrightarrow> replies_to m i q \<Longrightarrow> p = q"
  by (auto simp: replies_to_def)

lemma descends_less:
  assumes "parents_ok (mem_messages m)" and "descends m i p"
  shows "sint p < sint i"
  using assms(2,1) by (induction rule: tranclp_induct) (auto simp: parents_ok_def replies_to_def intro: order.strict_trans)

text \<open>The ancestors of a message are on one line.\<close>

lemma ancestors_linear:
  assumes "descends m x i" and "descends m x j"
  shows "i = j \<or> descends m i j \<or> descends m j i"
  using assms
proof (induction rule: tranclp_induct)
  case (base y)
  from base(2) obtain w where "replies_to m x w" "(replies_to m)\<^sup>*\<^sup>* w j" by (blast dest: tranclpD)
  with base(1) replies_to_unique have "(replies_to m)\<^sup>*\<^sup>* y j" by metis
  then show ?case by (auto simp: rtranclp_into_tranclp2 dest: rtranclpD)
next
  case (step y z)
  then consider "y = j" | "descends m y j" | "descends m j y" by blast
  then show ?case
  proof cases
    case 2
    then obtain w where "replies_to m y w" "(replies_to m)\<^sup>*\<^sup>* w j" by (blast dest: tranclpD)
    with step(2) replies_to_unique have "(replies_to m)\<^sup>*\<^sup>* z j" by metis
    then show ?thesis by (auto dest: rtranclpD)
  qed (use step in \<open>auto intro: tranclp.trancl_into_trancl\<close>)
qed

lemma siblings_disjoint:
  assumes ok: "parents_ok (mem_messages m)" and ij: "replies_to m i p" "replies_to m j p" "i \<noteq> j"
    and x: "x = i \<or> descends m x i" "x = j \<or> descends m x j"
  shows False
proof -
  have no: False if "replies_to m a p" "replies_to m b p" "descends m a b" for a b
  proof -
    from that(3) obtain w where "replies_to m a w" "(replies_to m)\<^sup>*\<^sup>* w b" by (blast dest: tranclpD)
    with that(1) replies_to_unique have "(replies_to m)\<^sup>*\<^sup>* p b" by metis
    then have "p = b \<or> sint b < sint p" using descends_less [OF ok] by (blast dest: rtranclpD)
    moreover have "sint p < sint b" using descends_less [OF ok] that(2) by blast
    ultimately show False by auto
  qed
  from x ij(3) have "descends m i j \<or> descends m j i" using ancestors_linear by blast
  with ij no show False by blast
qed

lemma distinct_concat_map:
  assumes "distinct xs" and "\<And>x. x \<in> set xs \<Longrightarrow> distinct (f x)"
    and "\<And>x y z. x \<in> set xs \<Longrightarrow> y \<in> set xs \<Longrightarrow> x \<noteq> y \<Longrightarrow> z \<in> set (f x) \<Longrightarrow> z \<in> set (f y) \<Longrightarrow> False"
  shows "distinct (concat (map f xs))"
  using assms by (induction xs) auto

lemma thread_pick_all:
  "thread_pick m None None i = (case mem_messages m i of None \<Rightarrow> None
    | Some msg \<Rightarrow> if dm_DeletedAt msg = None then Some msg else None)"
  by (simp add: thread_pick_def)

lemma child_iff:
  assumes "store_ok m"
  shows "replies_to m i p \<longleftrightarrow> i \<in> set (slice_at (mem_byParent m) p) \<and> thread_pick m None None i \<noteq> None"
  using assms by_parent.index_okD [of "mem_messages m" "mem_byParent m" i _ p]
  by (auto simp: replies_to_def thread_pick_all store_ok_def indexes_ok_def split: option.splits)

text \<open>The list to a sufficient depth holds the descendants, once each, and every one as stored.\<close>

lemma thread_list_descends:
  assumes ok: "store_ok m" and "above m p < d"
  defines "L \<equiv> \<lambda>d. thread_list d (thread_pick m None None) (slice_at (mem_byParent m))"
  shows "set (map dm_ID (L d p)) = {i. descends m i p} \<and> distinct (map dm_ID (L d p)) \<and>
    (\<forall>msg \<in> set (L d p). mem_messages m (dm_ID msg) = Some msg)"
  using assms(2)
proof (induction d arbitrary: p)
  case 0
  then show ?case by simp
next
  case (Suc d)
  let ?ids = "slice_at (mem_byParent m) p" and ?pick = "thread_pick m None None"
  let ?f = "\<lambda>i. case ?pick i of None \<Rightarrow> [] | Some msg \<Rightarrow> msg # L d i"
  have L: "L (Suc d) p = concat (map ?f ?ids)" unfolding L_def by simp
  have pick: "?pick i = Some msg \<Longrightarrow> mem_messages m i = Some msg \<and> dm_ID msg = i" for i msg
    using ok by (auto simp: thread_pick_all store_ok_def ids_ok_def split: option.splits if_splits)
  have IH: "set (map dm_ID (L d i)) = {x. descends m x i}" "distinct (map dm_ID (L d i))"
      "\<forall>msg \<in> set (L d i). mem_messages m (dm_ID msg) = Some msg" if "replies_to m i p" for i
  proof -
    from that obtain msg where "mem_messages m i = Some msg" by (auto simp: replies_to_def)
    with that have "above m i < d" using above_child [OF ok, of i p msg] Suc.prems child_iff [OF ok] by auto
    with Suc.IH show "set (map dm_ID (L d i)) = {x. descends m x i}" "distinct (map dm_ID (L d i))"
      "\<forall>msg \<in> set (L d i). mem_messages m (dm_ID msg) = Some msg" by blast+
  qed
  have f: "map dm_ID (?f i) = (if replies_to m i p then i # map dm_ID (L d i) else [])" if "i \<in> set ?ids" for i
    using that child_iff [OF ok, of i p] pick by (auto split: option.splits)
  have steps: "descends m x p \<longleftrightarrow> (\<exists>i. replies_to m i p \<and> (x = i \<or> descends m x i))" for x
    by (subst tranclp.simps) blast
  have "map dm_ID (L (Suc d) p) = concat (map (\<lambda>i. map dm_ID (?f i)) ?ids)"
    by (simp add: L map_concat comp_def)
  also have "\<dots> = concat (map (\<lambda>i. if replies_to m i p then i # map dm_ID (L d i) else []) ?ids)"
    by (intro arg_cong [where f = concat] map_cong refl f)
  finally have ids: "map dm_ID (L (Suc d) p) = \<dots>" .
  have "set (map dm_ID (L (Suc d) p)) = {x. descends m x p}"
  proof (rule set_eqI)
    fix x
    have g: "x \<in> set (if replies_to m i p then i # map dm_ID (L d i) else []) \<longleftrightarrow>
      replies_to m i p \<and> (x = i \<or> descends m x i)" for i
      using IH(1) [of i] by auto
    have "x \<in> set (map dm_ID (L (Suc d) p)) \<longleftrightarrow> (\<exists>i \<in> set ?ids. replies_to m i p \<and> (x = i \<or> descends m x i))"
      using g by (simp only: ids set_concat set_map UN_iff bex_simps(7))
    also have "\<dots> \<longleftrightarrow> descends m x p" unfolding steps [of x] using child_iff [OF ok, of _ p] by blast
    finally show "x \<in> set (map dm_ID (L (Suc d) p)) \<longleftrightarrow> x \<in> {x. descends m x p}" by simp
  qed
  moreover have "distinct (map dm_ID (L (Suc d) p))"
    unfolding ids
  proof (rule distinct_concat_map)
    show "distinct ?ids" using ok by (auto simp: store_ok_def indexes_ok_def intro: by_parent.index_ok_distinct)
    have po: "parents_ok (mem_messages m)" using ok by (simp add: store_ok_def)
    show "distinct (if replies_to m i p then i # map dm_ID (L d i) else [])" for i
      using IH(1,2) [of i] descends_less [OF po, of i i] by auto
    show False if "i \<noteq> j" "z \<in> set (if replies_to m i p then i # map dm_ID (L d i) else [])"
      "z \<in> set (if replies_to m j p then j # map dm_ID (L d j) else [])" for i j z
      using that siblings_disjoint [OF po, of i p j z] IH(1) by (auto split: if_splits)
  qed
  moreover have "\<forall>msg \<in> set (L (Suc d) p). mem_messages m (dm_ID msg) = Some msg"
  proof
    fix msg assume "msg \<in> set (L (Suc d) p)"
    then obtain i where "i \<in> set ?ids" "msg \<in> set (?f i)" unfolding L by auto
    then obtain top where i: "i \<in> set ?ids" "?pick i = Some top" "msg = top \<or> msg \<in> set (L d i)"
      by (cases "?pick i") auto
    then have "replies_to m i p" using child_iff [OF ok] by auto
    with i pick IH(3) show "mem_messages m (dm_ID msg) = Some msg" by auto
  qed
  ultimately show ?case by blast
qed

text \<open>A filter that rejects every direct reply rejects the thread: nothing below them is looked at.\<close>

lemma walk_stops_at_filtered:
  assumes "\<forall>i \<in> set (slice_at (mem_byParent m) p). thread_pick m b a i = None" and "0 < fuel"
  shows "collectThreadReplies fuel m b a limit p acc = Some acc"
proof -
  have "\<forall>i \<in> set is. thread_pick m b a i = None \<Longrightarrow> collect_children f m b a limit is acc = Some acc" for f "is"
    by (induction "is") (auto simp: collect_children_Cons)
  with assms show ?thesis
    by (cases fuel) (auto simp: collectThreadReplies.simps slice_at_def split: option.splits)
qed

section \<open>Counters\<close>

lemma fold_count: "fold (\<lambda>i count. if p i then count + 1 else count) ids c = c + of_nat (length (filter p ids))"
  by (induction ids arbitrary: c) (auto simp: add.assoc)

lemma count_where_eq: "count_where p ids = of_nat (length (filter p ids))"
  by (simp add: count_where_def fold_count)

lemma count_where_card:
  assumes "distinct ids" and "card {i \<in> set ids. p i} < 2 ^ 32"
  shows "unat (count_where p ids) = card {i \<in> set ids. p i}"
proof -
  have "length (filter p ids) = card {i \<in> set ids. p i}"
    using assms(1) by (metis distinct_card distinct_filter set_filter)
  with assms(2) show ?thesis by (simp add: count_where_eq unsigned_of_nat take_bit_nat_eq_self)
qed

end
