(* ===== verification/MemSnapshot.thy ===== *)
theory MemSnapshot imports MemSessions MemThreads begin

text \<open>
  The life of the store in "pkg/database/memdb.go": loading it from SQLite, the periodic snapshot of
  what changed, and the removal of messages deleted more than a week ago.

  SQLite's transactions are external: beginning one, executing one statement of it and committing it
  are parameters with answers of their own. The order in which Go ranges over a map is a parameter.
\<close>

section \<open>Snapshots\<close>

text \<open>"now - 7 * 24 * 3600 * 1000".\<close>

definition retentionCutoff :: "i64 \<Rightarrow> i64" where
  "retentionCutoff now = now - 604800000"

definition expired :: "i64 \<Rightarrow> DBMessage \<Rightarrow> bool" where
  "expired cutoff msg \<longleftrightarrow> (case dm_DeletedAt msg of None \<Rightarrow> False | Some d \<Rightarrow> sint d < sint cutoff)"

text \<open>What the read lock covers: the messages behind the dirty ids, those long deleted left out. A dirty
  id without a message is a nil pointer that "msg.DeletedAt" dereferences: None.\<close>

fun snapshot_collect :: "(i64 \<rightharpoonup> DBMessage) \<Rightarrow> i64 \<Rightarrow> i64 list \<Rightarrow> i64 list option" where
  "snapshot_collect msgs cutoff [] = Some []"
| "snapshot_collect msgs cutoff (i # dirtyIDs) =
    (case msgs i of None \<Rightarrow> None
     | Some msg \<Rightarrow>
        (case snapshot_collect msgs cutoff dirtyIDs of None \<Rightarrow> None
         | Some is \<Rightarrow> Some (if expired cutoff msg then is else i # is)))"

record 't sqlite_tx =
  tx_begin :: "db_error + 't"
  tx_exec :: "'t \<Rightarrow> DBMessage list \<Rightarrow> db_error + 't"
  tx_commit :: "'t \<Rightarrow> db_error option"

text \<open>The slices of at most 500 rows, each one multi-row statement.\<close>

function batches :: "'a list \<Rightarrow> 'a list list" where
  "batches rows = (if rows = [] then [] else take 500 rows # batches (drop 500 rows))"
  by pat_completeness auto
termination by (relation "measure length") auto

declare batches.simps [simp del]

fun exec_batches :: "'t sqlite_tx \<Rightarrow> 't \<Rightarrow> DBMessage list list \<Rightarrow> db_error + 't" where
  "exec_batches tx t [] = Inr t"
| "exec_batches tx t (b # bs) =
    (case tx_exec tx t b of Inl err \<Rightarrow> Inl err | Inr t \<Rightarrow> exec_batches tx t bs)"

definition batchInsertMessages :: "'t sqlite_tx \<Rightarrow> DBMessage list \<Rightarrow> db_error option" where
  "batchInsertMessages tx messages =
    (case tx_begin tx of Inl err \<Rightarrow> Some err
     | Inr t \<Rightarrow>
        (case exec_batches tx t (batches messages) of Inl err \<Rightarrow> Some err
         | Inr t \<Rightarrow> tx_commit tx t))"

text \<open>What the second write lock covers.\<close>

definition snapshot_clear :: "i64 list \<Rightarrow> MemDB \<Rightarrow> MemDB" where
  "snapshot_clear dirtyIDs m = m\<lparr>mem_dirty := mem_dirty m - set dirtyIDs\<rparr>"

text \<open>
  The rows the insert writes are what the collected pointers show when it runs, after the read lock was
  given up; they are read here from the messages of that moment.
\<close>

definition snapshot_rows :: "(i64 \<rightharpoonup> DBMessage) \<Rightarrow> i64 list \<Rightarrow> DBMessage list" where
  "snapshot_rows msgs ids = List.map_filter msgs (sort_key sint ids)"

definition snapshot_with :: "(DBMessage list \<Rightarrow> db_error option) \<Rightarrow> i64 list \<Rightarrow> i64 \<Rightarrow> MemDB \<Rightarrow> (db_error option \<times> MemDB) option" where
  "snapshot_with batchInsert dirtyIDs now m =
    (case snapshot_collect (mem_messages m) (retentionCutoff now) dirtyIDs of None \<Rightarrow> None
     | Some messagesToWrite \<Rightarrow>
        (case (if messagesToWrite \<noteq> [] then batchInsert (snapshot_rows (mem_messages m) messagesToWrite) else None) of
           Some err \<Rightarrow> Some (Some err, m)
         | None \<Rightarrow> Some (None, snapshot_clear dirtyIDs m)))"

definition snapshot :: "'t sqlite_tx \<Rightarrow> i64 list \<Rightarrow> i64 \<Rightarrow> MemDB \<Rightarrow> (db_error option \<times> MemDB) option" where
  "snapshot tx = snapshot_with (batchInsertMessages tx)"

section \<open>Removing old deleted messages\<close>

definition hard_delete :: "i64 \<Rightarrow> MemDB \<Rightarrow> MemDB" where
  "hard_delete i m =
    (case mem_messages m i of None \<Rightarrow> m
     | Some msg \<Rightarrow>
        m\<lparr>mem_messages := (mem_messages m)(i := None),
          mem_byChannel := remove_at (mem_byChannel m) (dm_ChannelID msg) i,
          mem_byParent := (case dm_ParentID msg of None \<Rightarrow> mem_byParent m | Some p \<Rightarrow> remove_at (mem_byParent m) p i),
          mem_byThread := (case dm_ThreadRootID msg of None \<Rightarrow> mem_byThread m | Some r \<Rightarrow> remove_at (mem_byThread m) r i)\<rparr>)"

definition hardDeleteOldMessages :: "i64 list \<Rightarrow> i64 \<Rightarrow> MemDB \<Rightarrow> nat \<times> MemDB" where
  "hardDeleteOldMessages order now m =
    (let toDelete = filter (\<lambda>i. case mem_messages m i of None \<Rightarrow> False
           | Some msg \<Rightarrow> expired (retentionCutoff now) msg) order
     in (length toDelete, fold hard_delete toDelete m))"

section \<open>Loading\<close>

text \<open>One row of the query; None is a row that could not be scanned and is skipped.\<close>

definition load_row :: "DBMessage option \<Rightarrow> MemDB \<Rightarrow> MemDB" where
  "load_row row m =
    (case row of None \<Rightarrow> m
     | Some msg \<Rightarrow>
        (let m = m\<lparr>mem_messages := (mem_messages m)(dm_ID msg \<mapsto> msg),
               mem_byChannel := append_at (mem_byChannel m) (dm_ChannelID msg) (dm_ID msg)\<rparr>;
             m = (case dm_ParentID msg of None \<Rightarrow> m
                  | Some p \<Rightarrow> m\<lparr>mem_byParent := append_at (mem_byParent m) p (dm_ID msg)\<rparr>)
         in (case dm_ThreadRootID msg of None \<Rightarrow> m
             | Some r \<Rightarrow> m\<lparr>mem_byThread := append_at (mem_byThread m) r (dm_ID msg)\<rparr>)))"

text \<open>
  "sort.Slice" by creation time. Every id in a slice has its message here, so the comparison is by the time alone;
  which of two equal times comes first is left to the sort, and here they keep their order.
\<close>

definition sortMessagesByTimestamp :: "(i64 \<rightharpoonup> DBMessage) \<Rightarrow> i64 list \<Rightarrow> i64 list" where
  "sortMessagesByTimestamp msgs ids =
    sort_key (\<lambda>i. case msgs i of None \<Rightarrow> 0 | Some msg \<Rightarrow> sint (dm_CreatedAt msg)) ids"

definition loadFromSQLite :: "DBChannel list \<Rightarrow> DBMessage option list \<Rightarrow> i64 list \<Rightarrow> MemDB \<Rightarrow> MemDB" where
  "loadFromSQLite chans rows order m =
    (let m = m\<lparr>mem_channels := fold (\<lambda>ch cs. cs(ch_ID ch \<mapsto> ch)) chans (mem_channels m)\<rparr>;
         m = fold load_row rows m;
         srt = (\<lambda>idx k. map_option (sortMessagesByTimestamp (mem_messages m)) (idx k));
         m = m\<lparr>mem_byChannel := srt (mem_byChannel m), mem_byParent := srt (mem_byParent m), mem_byThread := srt (mem_byThread m)\<rparr>
     in m\<lparr>mem_messages := fold (recomputeReplyCount (mem_byParent m)) order (mem_messages m)\<rparr>)"

definition NewMemDB :: "DBChannel list \<Rightarrow> DBMessage option list \<Rightarrow> i64 list \<Rightarrow> Snowflake \<Rightarrow> MemDB" where
  "NewMemDB chans rows order snowflake = loadFromSQLite chans rows order
    \<lparr>mem_channels = Map.empty, mem_sessions = Map.empty, mem_messages = Map.empty, mem_byChannel = Map.empty,
     mem_byParent = Map.empty, mem_byThread = Map.empty, mem_sessionsByUserID = Map.empty, mem_dirty = {},
     mem_snowflake = snowflake\<rparr>"

section \<open>Snapshot facts\<close>

lemma snapshot_collect_eq:
  "snapshot_collect msgs cutoff ids = (if \<forall>i \<in> set ids. msgs i \<noteq> None
     then Some (filter (\<lambda>i. case msgs i of None \<Rightarrow> False | Some msg \<Rightarrow> \<not> expired cutoff msg) ids) else None)"
  by (induction ids) (auto split: option.splits)

lemma concat_batches: "concat (batches rows) = rows"
  by (induction rows rule: batches.induct) (subst batches.simps, simp)

lemma batches_small: "b \<in> set (batches rows) \<Longrightarrow> b \<noteq> [] \<and> length b \<le> 500"
  by (induction rows rule: batches.induct) (subst (asm) (2) batches.simps, auto split: if_splits)

text \<open>The rows that reach the database: those of the ids to write, by id, so that no reply is written before
  the message it replies to.\<close>

lemma snapshot_rows_ids:
  assumes "ids_ok msgs" and "\<forall>i \<in> set ids. msgs i \<noteq> None"
  shows "map dm_ID (snapshot_rows msgs ids) = sort_key sint ids"
proof -
  have "\<forall>i \<in> set is. msgs i \<noteq> None \<Longrightarrow> map dm_ID (List.map_filter msgs is) = is" for "is"
    using assms(1) by (induction "is") (auto simp: ids_ok_def)
  then show ?thesis using assms(2) by (simp add: snapshot_rows_def)
qed

section \<open>Hard deletion facts\<close>

lemma store_ok_hard_delete:
  assumes ok: "store_ok m"
  shows "store_ok (hard_delete i m)"
proof (cases "mem_messages m i")
  case None
  with ok show ?thesis by (simp add: hard_delete_def)
next
  case (Some msg)
  have idx: "indexes_ok m" using ok by (simp add: store_ok_def)
  let ?msgs = "(mem_messages m)(i := None)"
  have kept: "mem_messages m j \<noteq> None \<and> j \<noteq> i"
    if j: "j \<in> set (slice_at (remove_at (mem_byChannel m) (dm_ChannelID msg) i) k)" for j k
  proof -
    have ch: "by_channel.index_ok (mem_messages m) (mem_byChannel m)" using idx by (simp add: indexes_ok_def)
    have "j \<noteq> i" using by_channel.index_ok_remove(2) [where msgs = "mem_messages m" and i = i, OF ch Some, of k] j by auto
    moreover have "j \<in> set (slice_at (mem_byChannel m) k)"
      using j set_remove1_subset by (fastforce simp: slice_at_remove_at split: if_splits)
    ultimately show ?thesis using idx by (auto simp: indexes_ok_def)
  qed
  have "by_channel.index_ok ?msgs (remove_at (mem_byChannel m) (dm_ChannelID msg) i)"
    using idx by_channel.index_ok_remove(1) [where msgs = "mem_messages m" and i = i and msg = msg and idx = "mem_byChannel m"] Some
    by (auto simp: indexes_ok_def)
  moreover have "by_parent.index_ok ?msgs (case dm_ParentID msg of None \<Rightarrow> mem_byParent m | Some p \<Rightarrow> remove_at (mem_byParent m) p i)"
    by (rule by_parent.index_ok_remove(1) [where msgs = "mem_messages m" and i = i, OF _ Some])
      (use idx in \<open>auto simp: indexes_ok_def\<close>)
  moreover have "by_thread.index_ok ?msgs (case dm_ThreadRootID msg of None \<Rightarrow> mem_byThread m | Some p \<Rightarrow> remove_at (mem_byThread m) p i)"
    by (rule by_thread.index_ok_remove(1) [where msgs = "mem_messages m" and i = i, OF _ Some])
      (use idx in \<open>auto simp: indexes_ok_def\<close>)
  ultimately show ?thesis
    using ok kept by (auto simp: hard_delete_def Some store_ok_def indexes_ok_def ids_ok_def parents_ok_def)
qed

lemma live_replies_hard_delete:
  assumes "\<not> live (mem_messages m) i"
  shows "live_replies (hard_delete i m) p = live_replies m p"
proof (cases "mem_messages m i")
  case (Some msg)
  have "filter (live ((mem_messages m)(i := None))) (remove1 i xs) = filter (live (mem_messages m)) xs"
    and "filter (live ((mem_messages m)(i := None))) xs = filter (live (mem_messages m)) xs" for xs
    using assms by (induction xs) (auto simp: live_def)
  then show ?thesis
    by (auto simp: hard_delete_def Some live_replies_def slice_at_remove_at split: option.split)
qed (simp add: hard_delete_def)

lemma memdb_ok_hard_delete:
  assumes "memdb_ok m" and "\<not> live (mem_messages m) i"
  shows "memdb_ok (hard_delete i m)"
  using assms store_ok_hard_delete [of m i] live_replies_hard_delete [OF assms(2)]
  by (auto simp: memdb_ok_def counts_ok_def hard_delete_def split: option.splits if_splits)

lemma hard_delete_messages: "mem_messages (hard_delete i m) = (mem_messages m)(i := None)"
  by (auto simp: hard_delete_def fun_upd_idem split: option.split)

lemma memdb_ok_fold_hard_delete:
  assumes "memdb_ok m" and "\<forall>i \<in> set ids. \<not> live (mem_messages m) i"
  shows "memdb_ok (fold hard_delete ids m) \<and>
    mem_messages (fold hard_delete ids m) = (\<lambda>i. if i \<in> set ids then None else mem_messages m i)"
  using assms
proof (induction ids arbitrary: m)
  case (Cons i ids)
  have "\<forall>j \<in> set ids. \<not> live (mem_messages (hard_delete i m)) j"
    using Cons.prems(2) by (auto simp: hard_delete_messages live_def)
  moreover have "memdb_ok (hard_delete i m)" using Cons.prems by (intro memdb_ok_hard_delete) auto
  ultimately have "memdb_ok (fold hard_delete ids (hard_delete i m))"
    and "mem_messages (fold hard_delete ids (hard_delete i m)) =
      (\<lambda>j. if j \<in> set ids then None else mem_messages (hard_delete i m) j)"
    using Cons.IH by blast+
  then show ?case by (auto simp: hard_delete_messages fun_eq_iff)
qed simp

section \<open>Loading facts\<close>

lemma mentions_load_row:
  "mentions (load_row (Some msg) m) j \<Longrightarrow> mentions m j \<or> j = dm_ID msg"
  by (auto simp: mentions_def load_row_def Let_def slice_at_append_at split: option.splits if_splits)

lemma store_ok_load_row:
  assumes ok: "store_ok m" and new: "\<not> mentions m (dm_ID msg)"
    and parent: "\<And>p. dm_ParentID msg = Some p \<Longrightarrow> sint p < sint (dm_ID msg)"
  shows "store_ok (load_row (Some msg) m)"
proof -
  let ?i = "dm_ID msg"
  note i = mentions_index [OF new]
  have eq: "load_row (Some msg) m = m\<lparr>mem_messages := (mem_messages m)(?i \<mapsto> msg),
     mem_byChannel := append_at (mem_byChannel m) (dm_ChannelID msg) ?i,
     mem_byParent := (case dm_ParentID msg of None \<Rightarrow> mem_byParent m | Some p \<Rightarrow> append_at (mem_byParent m) p ?i),
     mem_byThread := (case dm_ThreadRootID msg of None \<Rightarrow> mem_byThread m | Some r \<Rightarrow> append_at (mem_byThread m) r ?i)\<rparr>"
    by (cases m) (auto simp: load_row_def Let_def split: option.splits)
  have "indexes_ok (load_row (Some msg) m)"
    using ok i by_channel.index_ok_insert [of "mem_messages m" "mem_byChannel m" ?i msg]
      by_parent.index_ok_insert [of "mem_messages m" "mem_byParent m" ?i msg]
      by_thread.index_ok_insert [of "mem_messages m" "mem_byThread m" ?i msg]
    by (auto simp: indexes_ok_def store_ok_def eq slice_at_append_at)
  then show ?thesis using ok parent by (auto simp: store_ok_def eq ids_ok_def parents_ok_def)
qed

text \<open>The rows the query returns: each id once, parents with smaller ids.\<close>

definition rows_ok :: "DBMessage option list \<Rightarrow> bool" where
  "rows_ok rows \<longleftrightarrow> distinct (map dm_ID (List.map_filter id rows)) \<and>
     (\<forall>msg p. Some msg \<in> set rows \<and> dm_ParentID msg = Some p \<longrightarrow> sint p < sint (dm_ID msg))"

lemma store_ok_load_rows:
  assumes "store_ok m" and "rows_ok rows" and "\<forall>msg. Some msg \<in> set rows \<longrightarrow> \<not> mentions m (dm_ID msg)"
  shows "store_ok (fold load_row rows m)"
  using assms
proof (induction rows arbitrary: m)
  case (Cons row rows)
  show ?case
  proof (cases row)
    case None
    with Cons show ?thesis by (simp add: load_row_def rows_ok_def)
  next
    case (Some msg)
    have rows: "rows_ok rows" using Cons.prems(2) Some by (auto simp: rows_ok_def)
    have "dm_ID msg' \<noteq> dm_ID msg" if "Some msg' \<in> set rows" for msg'
      using Cons.prems(2) that Some by (force simp: rows_ok_def map_filter_def)
    then have new: "\<forall>msg'. Some msg' \<in> set rows \<longrightarrow> \<not> mentions (load_row (Some msg) m) (dm_ID msg')"
      using Cons.prems(3) mentions_load_row by fastforce
    have "store_ok (load_row (Some msg) m)"
      using Cons.prems Some by (intro store_ok_load_row) (auto simp: rows_ok_def)
    with Cons.IH [OF _ rows new] Some show ?thesis by simp
  qed
qed simp

lemma live_recompute: "live (recomputeReplyCount byParent i msgs) j = live msgs j"
  unfolding recomputeReplyCount_def by (rule live_modify) simp

lemma fold_recompute:
  "fold (recomputeReplyCount byParent) order msgs i =
    (if i \<in> set order then map_option (\<lambda>msg. msg\<lparr>dm_ReplyCount := count_where (live msgs) (slice_at byParent i)\<rparr>) (msgs i)
     else msgs i)"
proof (induction order arbitrary: msgs)
  case (Cons j order)
  have "live (recomputeReplyCount byParent j msgs) = live msgs" by (rule ext) (rule live_recompute)
  moreover have recompute: "recomputeReplyCount byParent j msgs i = (if i = j
      then map_option (\<lambda>msg. msg\<lparr>dm_ReplyCount := count_where (live msgs) (slice_at byParent j)\<rparr>) (msgs j) else msgs i)"
    by (simp add: recomputeReplyCount_def modify_apply)
  ultimately have "fold (recomputeReplyCount byParent) (j # order) msgs i =
    (if i \<in> set order then map_option (\<lambda>msg. msg\<lparr>dm_ReplyCount := count_where (live msgs) (slice_at byParent i)\<rparr>)
       (recomputeReplyCount byParent j msgs i) else recomputeReplyCount byParent j msgs i)"
    by (simp only: fold_simps comp_def Cons.IH)
  then show ?case unfolding recompute
    by (auto simp: option.map_comp comp_def)
qed simp

end
