(* ===== verification/MemSystem.thy ===== *)
theory MemSystem imports MemSnapshot begin

text \<open>
  MemDB as a state machine: each step is one operation of the package, whose lock makes it one, on a
  state and the readings of the clock to come. Well-formedness holds in every reachable state, so that the
  reply count a client is shown is the number of replies that are there.
\<close>

section \<open>Steps\<close>

text \<open>
  A post needs room in the 32-bit count of its parent, and a channel is deleted when no reply
  sits in it under a message of another channel; the properties say what happens otherwise.
\<close>

inductive mem_step :: "MemDB \<times> i64 list \<Rightarrow> MemDB \<times> i64 list \<Rightarrow> bool" where
  post: "\<lbrakk>PostMessage m clock c sub parent user nick body = Some (Inr (i, msg), m', clock'); parent_has_room m msg\<rbrakk> \<Longrightarrow>
    mem_step (m, clock) (m', clock')"
| post_refused: "PostMessage m clock c sub parent user nick body = Some (Inl err, m', clock') \<Longrightarrow>
    mem_step (m, clock) (m', clock')"
| delete: "SoftDeleteMessage m clock i nick = Some (r, m', clock') \<Longrightarrow> mem_step (m, clock) (m', clock')"
| admin_delete: "AdminSoftDeleteMessage m clock i nick = Some (r, m', clock') \<Longrightarrow> mem_step (m, clock) (m', clock')"
| edit: "UpdateMessage m clock i user body = Some (r, m', clock') \<Longrightarrow> mem_step (m, clock) (m', clock')"
| admin_edit: "AdminUpdateMessage m clock i user body = Some (r, m', clock') \<Longrightarrow> mem_step (m, clock) (m', clock')"
| create_session: "CreateSession m clock user' nick conn = Some (i, m', clock') \<Longrightarrow> mem_step (m, clock) (m', clock')"
| activity: "UpdateSessionActivity m clock i = Some (e, m', clock') \<Longrightarrow> mem_step (m, clock) (m', clock')"
| nickname: "mem_step (m, clock) (snd (UpdateSessionNickname m i nick), clock)"
| delete_session: "mem_step (m, clock) (DeleteSession m i, clock)"
| create_channel: "CreateChannel sql m clock name disp desc ctype ret creator = Some (r, m', clock') \<Longrightarrow> mem_step (m, clock) (m', clock')"
| delete_channel: "same_channel m \<Longrightarrow> mem_step (m, clock) (snd (DeleteChannel e m i), clock)"
| delete_user: "mem_step (m, clock) (snd (DeleteUser sql order m user''), clock)"
| snapshot_step: "snapshot_with batchInsert order now m = Some (e, m') \<Longrightarrow> mem_step (m, clock) (m', clock)"
| hard_delete_step: "mem_step (m, clock) (snd (hardDeleteOldMessages order now m), clock)"

definition mem_inv :: "MemDB \<times> i64 list \<Rightarrow> bool" where
  "mem_inv s \<longleftrightarrow> memdb_ok (fst s) \<and> ids_past (fst s) (snd s)"

text \<open>A step that draws no id: it mentions nothing new, and reads the clock at most once.\<close>

lemma mem_inv_quiet:
  assumes inv: "mem_inv (m, clock)" and ok: "memdb_ok m'" and sf: "mem_snowflake m' = mem_snowflake m"
    and no_new: "\<And>j. mentions m' j \<Longrightarrow> mentions m j" and clock: "clock' = clock \<or> (\<exists>t. nowMillis clock = Some (t, clock'))"
  shows "mem_inv (m', clock')"
  using clock
proof
  assume "\<exists>t. nowMillis clock = Some (t, clock')"
  then obtain t where t: "nowMillis clock = Some (t, clock')" by blast
  show ?thesis
    using inv ok no_new sf.tick_ok [OF _ t, of "mem_snowflake m"] sf.past_tick [OF t, of "mem_snowflake m"]
    by (auto simp: mem_inv_def ids_past_def sf)
qed (use inv ok no_new in \<open>auto simp: mem_inv_def ids_past_def sf\<close>)

lemma mentions_same_maps:
  assumes "\<And>i. mem_messages m' i \<noteq> None \<Longrightarrow> mem_messages m i \<noteq> None" and "mem_byChannel m' = mem_byChannel m"
    and "mem_byParent m' = mem_byParent m" and "mem_byThread m' = mem_byThread m" and "mentions m' j"
  shows "mentions m j"
  using assms unfolding mentions_def by metis

lemma mem_inv_same_store:
  assumes inv: "mem_inv (m, clock)" and store: "mem_messages m' = mem_messages m" "mem_byChannel m' = mem_byChannel m"
      "mem_byParent m' = mem_byParent m" "mem_byThread m' = mem_byThread m" and sf: "mem_snowflake m' = mem_snowflake m"
    and clock: "clock' = clock \<or> (\<exists>t. nowMillis clock = Some (t, clock'))"
  shows "mem_inv (m', clock')"
proof (rule mem_inv_quiet [OF inv _ sf _ clock])
  show "memdb_ok m'" using inv
    by (simp add: mem_inv_def memdb_ok_def store_ok_def indexes_ok_def counts_ok_def live_replies_def store)
  show "mentions m j" if "mentions m' j" for j using that by (simp add: mentions_def store)
qed

section \<open>The steps keep the invariant\<close>

lemma mem_inv_post:
  assumes inv: "mem_inv (m, clock)" and room: "parent_has_room m msg"
    and run: "PostMessage m clock c sub parent user nick body = Some (Inr (i, msg), m', clock')"
  shows "mem_inv (m', clock')"
proof -
  from inv have ok: "memdb_ok m" and past: "ids_past m clock" by (auto simp: mem_inv_def)
  from PostMessage_cases [OF run past ok] obtain m1 where m1: "memdb_ok m1" "storable m1 msg" "m' = PostMessage_store m1 msg"
    "ids_past m1 clock'" "generator_past (mem_snowflake m1) clock' i" "dm_ID msg = i" "mem_messages m1 = mem_messages m"
    by metis
  have "parent_has_room m1 msg" using room by (simp add: parent_has_room_def m1(7))
  with m1 memdb_ok_post [of m1 msg] ids_past_post [of m1 clock' msg] show ?thesis by (simp add: mem_inv_def)
qed

lemma mem_inv_stamp:
  assumes inv: "mem_inv (m, clock)" and st: "new_stamp m clock = Some (i, now, m1, clock1)"
  shows "mem_inv (m1, clock1)"
proof -
  from inv have "ids_past m clock" "memdb_ok m" by (auto simp: mem_inv_def)
  with new_stamp_fresh [OF _ st] show ?thesis by (auto simp: mem_inv_def memdb_ok_def)
qed

lemma AdminSoftDelete_eq: "AdminSoftDeleteMessage m clock i admin = SoftDeleteMessage m clock i nick"
  by (simp add: AdminSoftDeleteMessage_def SoftDeleteMessage_def)

lemma mem_inv_delete:
  assumes inv: "mem_inv (m, clock)" and run: "SoftDeleteMessage m clock i nick = Some (r, m', clock')"
  shows "mem_inv (m', clock')"
proof (cases r)
  case (Inl e)
  with run have "m' = m \<and> clock' = clock"
    by (auto simp: SoftDeleteMessage_def Let_def split: option.splits if_splits)
  with inv show ?thesis by simp
next
  case (Inr msg')
  from SoftDelete_Inr [OF run [unfolded Inr]] obtain msg now where d: "mem_messages m i = Some msg" "dm_DeletedAt msg = None"
    "clock = now # clock'" "m' = m\<lparr>mem_messages := delete_maps m i msg now, mem_dirty := insert i (mem_dirty m)\<rparr>" by blast
  have ok: "store_ok m" "memdb_ok m" using inv by (auto simp: mem_inv_def memdb_ok_def)
  show ?thesis
  proof (rule mem_inv_quiet [OF inv])
    show "memdb_ok m'" unfolding d(4) by (rule memdb_ok_delete [OF ok(2) d(1,2)])
    show "mentions m j" if "mentions m' j" for j
      by (rule mentions_same_maps [OF _ _ _ _ that])
        (auto simp: d(4) delete_maps_apply [OF ok(1) d(1)] d(1) split: if_splits)
  qed (auto simp: d(3,4))
qed

lemma mem_inv_edit:
  assumes inv: "mem_inv (m, clock)" and msg: "mem_messages m i = Some msg" and clock: "nowMillis clock = Some (now, clock')"
  shows "mem_inv (snd (edit_message m i msg body now), clock')"
proof (rule mem_inv_quiet [OF inv])
  show "memdb_ok (snd (edit_message m i msg body now))" using inv msg by (simp add: mem_inv_def memdb_ok_edit)
  show "mentions m j" if "mentions (snd (edit_message m i msg body now)) j" for j
    by (rule mentions_same_maps [OF _ _ _ _ that]) (auto simp: edit_message_def Let_def msg split: if_splits)
qed (use clock in \<open>auto simp: edit_message_def Let_def\<close>)

lemma mem_inv_update:
  assumes inv: "mem_inv (m, clock)"
    and run: "UpdateMessage m clock i user body = Some (r, m', clock') \<or> AdminUpdateMessage m clock i user body = Some (r, m', clock')"
  shows "mem_inv (m', clock')"
proof -
  from run have "(m' = m \<and> clock' = clock) \<or> (\<exists>msg now. mem_messages m i = Some msg \<and> nowMillis clock = Some (now, clock') \<and>
      m' = snd (edit_message m i msg body now))"
    by (auto simp: UpdateMessage_def AdminUpdateMessage_def Let_def split: option.splits if_splits prod.splits)
  with inv mem_inv_edit [OF inv] show ?thesis by auto
qed

lemma mem_inv_create_session:
  assumes inv: "mem_inv (m, clock)" and run: "CreateSession m clock u nick conn = Some (i, m', clock')"
  shows "mem_inv (m', clock')"
proof -
  from run obtain now m1 where st: "new_stamp m clock = Some (i, now, m1, clock')"
    and m': "mem_messages m' = mem_messages m1" "mem_byChannel m' = mem_byChannel m1" "mem_byParent m' = mem_byParent m1"
      "mem_byThread m' = mem_byThread m1" "mem_snowflake m' = mem_snowflake m1"
    by (auto simp: CreateSession_def Let_def split: option.splits)
  from mem_inv_same_store [OF mem_inv_stamp [OF inv st] m'] show ?thesis by simp
qed

lemma mem_inv_delete_channel:
  assumes inv: "mem_inv (m, clock)" and same: "same_channel m"
  shows "mem_inv (snd (DeleteChannel e m c), clock)"
proof (cases e)
  case None
  have ok: "memdb_ok m" using inv by (simp add: mem_inv_def)
  show ?thesis unfolding None
  proof (rule mem_inv_quiet [OF inv])
    show "memdb_ok (snd (DeleteChannel None m c))"
      using ok store_ok_DeleteChannel counts_ok_DeleteChannel [OF ok same] by (simp add: memdb_ok_def)
    show "mentions m j" if "mentions (snd (DeleteChannel None m c)) j" for j
      using that by (auto simp: mentions_def DeleteChannel_eq slice_at_delete split: if_splits)
  qed (simp_all add: DeleteChannel_eq)
next
  case (Some err)
  with inv show ?thesis by (simp add: DeleteChannel_def)
qed

lemma DeleteUser_Inr:
  "snd (DeleteUser (Inr n) order m u) = fold (anonymize u n) order
    (m\<lparr>mem_sessions := (\<lambda>s. if s \<in> set_at (mem_sessionsByUserID m) u then None else mem_sessions m s),
       mem_sessionsByUserID := (mem_sessionsByUserID m)(u := None)\<rparr>)"
proof (cases "mem_sessionsByUserID m u")
  case None
  then have "m = m\<lparr>mem_sessions := (\<lambda>s. if s \<in> set_at (mem_sessionsByUserID m) u then None else mem_sessions m s),
      mem_sessionsByUserID := (mem_sessionsByUserID m)(u := None)\<rparr>"
    by (intro MemDB.equality) (auto simp: set_at_def)
  with None show ?thesis by (simp add: DeleteUser_def Let_def)
qed (simp add: DeleteUser_def Let_def set_at_def)

lemma fold_anonymize_snowflake: "mem_snowflake (fold (anonymize u n) order m) = mem_snowflake m"
  by (induction order arbitrary: m) (auto simp: anonymize_def split: option.splits)

lemma mem_inv_delete_user:
  assumes inv: "mem_inv (m, clock)"
  shows "mem_inv (snd (DeleteUser sql order m u), clock)"
proof (cases sql)
  case (Inl e)
  with inv show ?thesis by (simp add: DeleteUser_def)
next
  case (Inr n)
  have ok: "memdb_ok m" using inv by (simp add: mem_inv_def)
  show ?thesis unfolding Inr
  proof (rule mem_inv_quiet [OF inv])
    show "memdb_ok (snd (DeleteUser (Inr n) order m u))"
      unfolding DeleteUser_Inr by (rule memdb_ok_fold_anonymize) (simp add: ok)
    show "mentions m j" if "mentions (snd (DeleteUser (Inr n) order m u)) j" for j
      by (rule mentions_same_maps [OF _ _ _ _ that])
        (auto simp: DeleteUser_Inr fold_anonymize fold_anonymize_rest split: if_splits)
  qed (simp_all add: DeleteUser_Inr fold_anonymize_snowflake)
qed

lemma mem_inv_snapshot:
  assumes inv: "mem_inv (m, clock)" and run: "snapshot_with batchInsert order now m = Some (e, m')"
  shows "mem_inv (m', clock)"
proof -
  have "m' = m \<or> m' = snapshot_clear order m"
    using run by (auto simp: snapshot_with_def split: option.splits)
  then show ?thesis using inv mem_inv_same_store [OF inv, of "snapshot_clear order m" clock]
    by (auto simp: snapshot_clear_def)
qed

lemma fold_hard_delete_snowflake: "mem_snowflake (fold hard_delete ids m) = mem_snowflake m"
  by (induction ids arbitrary: m) (auto simp: hard_delete_def split: option.splits)

lemma mentions_hard_delete: "mentions (hard_delete i m) j \<Longrightarrow> mentions m j"
  by (auto simp: mentions_def hard_delete_def slice_at_remove_at split: option.splits if_splits
      dest: set_remove1_subset [THEN subsetD])

lemma mentions_fold_hard_delete: "mentions (fold hard_delete ids m) j \<Longrightarrow> mentions m j"
  by (induction ids arbitrary: m) (auto dest: mentions_hard_delete)

lemma mem_inv_hard_delete:
  assumes inv: "mem_inv (m, clock)"
  shows "mem_inv (snd (hardDeleteOldMessages order now m), clock)"
proof -
  let ?ids = "filter (\<lambda>i. case mem_messages m i of None \<Rightarrow> False | Some msg \<Rightarrow> expired (retentionCutoff now) msg) order"
  have dead: "\<forall>i \<in> set ?ids. \<not> live (mem_messages m) i"
    by (auto simp: expired_def split: option.splits)
  have "memdb_ok (fold hard_delete ?ids m)"
    using memdb_ok_fold_hard_delete [OF _ dead] inv by (simp add: mem_inv_def)
  then show ?thesis unfolding hardDeleteOldMessages_def Let_def snd_conv
    by (rule mem_inv_quiet [OF inv]) (auto simp: fold_hard_delete_snowflake dest: mentions_fold_hard_delete)
qed

lemma mem_inv_step:
  assumes "mem_step s s'" and "mem_inv s"
  shows "mem_inv s'"
  using assms
proof cases
  case (post_refused m clock c sub parent user nick body err m' clock')
  then obtain i now where st: "new_stamp m clock = Some (i, now, m', clock')"
    by (auto simp: PostMessage_def Let_def split: option.splits sum.splits)
  from mem_inv_stamp [OF _ st] post_refused assms(2) show ?thesis by simp
next
  case (admin_delete m clock i nick r m' clock')
  with assms(2) show ?thesis using mem_inv_delete AdminSoftDelete_eq by metis
next
  case (activity m clock i e m' clock')
  then show ?thesis using assms(2) mem_inv_same_store [of m clock m' clock']
    by (auto simp: UpdateSessionActivity_def split: option.splits)
next
  case (nickname m clock i nick)
  then show ?thesis using assms(2) mem_inv_same_store [of m clock "snd (UpdateSessionNickname m i nick)" clock]
    by (auto simp: UpdateSessionNickname_def split: option.splits)
next
  case (delete_session m clock i)
  then show ?thesis using assms(2) mem_inv_same_store [of m clock "DeleteSession m i" clock]
    by (auto simp: DeleteSession_def Let_def split: option.splits)
next
  case (create_channel sql m clock name disp desc ctype ret creator r m' clock')
  then show ?thesis using assms(2) mem_inv_same_store [of m clock m' clock']
    by (auto simp: CreateChannel_def Let_def split: option.splits sum.splits)
next
  case (post m clock c sub parent user nick body i msg m' clock')
  with assms(2) show ?thesis by (blast intro: mem_inv_post)
next
  case (delete m clock i nick r m' clock')
  with assms(2) show ?thesis by (blast intro: mem_inv_delete)
next
  case (edit m clock i user body r m' clock')
  with assms(2) show ?thesis by (blast intro: mem_inv_update)
next
  case (admin_edit m clock i user body r m' clock')
  with assms(2) show ?thesis by (blast intro: mem_inv_update)
next
  case (create_session m clock user' nick conn i m' clock')
  with assms(2) show ?thesis by (blast intro: mem_inv_create_session)
next
  case (delete_channel m clock e i)
  with assms(2) show ?thesis by (blast intro: mem_inv_delete_channel)
next
  case (delete_user m clock sql order user'')
  with assms(2) show ?thesis by (blast intro: mem_inv_delete_user)
next
  case (snapshot_step batchInsert order now m e m' clock)
  with assms(2) show ?thesis by (blast intro: mem_inv_snapshot)
next
  case (hard_delete_step m clock order now)
  with assms(2) show ?thesis by (blast intro: mem_inv_hard_delete)
qed

section \<open>The state loaded at the start\<close>

definition empty_db :: "Snowflake \<Rightarrow> MemDB" where
  "empty_db sf = \<lparr>mem_channels = Map.empty, mem_sessions = Map.empty, mem_messages = Map.empty, mem_byChannel = Map.empty,
     mem_byParent = Map.empty, mem_byThread = Map.empty, mem_sessionsByUserID = Map.empty, mem_dirty = {},
     mem_snowflake = sf\<rparr>"

lemma slice_at_empty [simp]: "slice_at Map.empty k = []"
  by (simp add: slice_at_def)

lemma empty_db_ok: "store_ok (empty_db sf)" "\<not> mentions (empty_db sf) i"
  by (auto simp: store_ok_def indexes_ok_def ids_ok_def parents_ok_def empty_db_def mentions_def
      by_channel.index_ok_empty by_parent.index_ok_empty by_thread.index_ok_empty)

lemma mentions_load_rows: "mentions (fold load_row rows m) j \<Longrightarrow> mentions m j \<or> (\<exists>msg. Some msg \<in> set rows \<and> j = dm_ID msg)"
proof (induction rows arbitrary: m)
  case (Cons row rows)
  then consider "mentions (load_row row m) j" | msg where "Some msg \<in> set rows" "j = dm_ID msg" by auto
  then show ?case
  proof cases
    case 1
    then show ?thesis using mentions_load_row by (cases row) (auto simp: load_row_def [of None])
  qed auto
qed simp

lemma load_row_snowflake: "mem_snowflake (fold load_row rows m) = mem_snowflake m"
  by (induction rows arbitrary: m) (auto simp: load_row_def Let_def split: option.splits)

text \<open>Sorting the slices keeps what they list.\<close>

definition sorted_slices :: "(i64 \<rightharpoonup> DBMessage) \<Rightarrow> (i64 \<rightharpoonup> i64 list) \<Rightarrow> i64 \<rightharpoonup> i64 list" where
  "sorted_slices msgs idx = (\<lambda>k. map_option (sortMessagesByTimestamp msgs) (idx k))"

lemma sorted_slices_set: "set (slice_at (sorted_slices msgs idx) k) = set (slice_at idx k)"
  and sorted_slices_distinct: "distinct (slice_at (sorted_slices msgs idx) k) = distinct (slice_at idx k)"
  by (auto simp: slice_at_def sorted_slices_def sortMessagesByTimestamp_def split: option.splits)

lemma store_ok_sorted:
  assumes "store_ok m"
  shows "store_ok (m\<lparr>mem_byChannel := sorted_slices msgs (mem_byChannel m), mem_byParent := sorted_slices msgs (mem_byParent m),
    mem_byThread := sorted_slices msgs (mem_byThread m)\<rparr>)"
  using assms
  by (simp add: store_ok_def indexes_ok_def by_channel.index_ok_def by_parent.index_ok_def by_thread.index_ok_def
      sorted_slices_set sorted_slices_distinct)

lemma store_ok_recompute:
  assumes "store_ok m"
  shows "store_ok (m\<lparr>mem_messages := fold (recomputeReplyCount idx) order (mem_messages m)\<rparr>)"
  using assms
proof (induction order arbitrary: m)
  case (Cons i order)
  have "store_ok (m\<lparr>mem_messages := recomputeReplyCount idx i (mem_messages m)\<rparr>)"
    unfolding recomputeReplyCount_def
    by (rule store_ok_modify [OF Cons.prems]) (simp add: keeps_keys_def)
  from Cons.IH [OF this] show ?case by simp
qed simp

lemma counts_ok_recompute:
  assumes all: "dom (mem_messages m) \<subseteq> set order" and few: "\<And>p. length (slice_at (mem_byParent m) p) < 2 ^ 32"
  shows "counts_ok (m\<lparr>mem_messages := fold (recomputeReplyCount (mem_byParent m)) order (mem_messages m)\<rparr>)"
  unfolding counts_ok_def
proof (intro allI impI)
  fix p stored
  let ?msgs = "fold (recomputeReplyCount (mem_byParent m)) order (mem_messages m)"
  assume "mem_messages (m\<lparr>mem_messages := ?msgs\<rparr>) p = Some stored"
  then have "?msgs p = Some stored" by simp
  then have stored: "dm_ReplyCount stored = count_where (live (mem_messages m)) (slice_at (mem_byParent m) p)"
    using all by (auto simp: fold_recompute split: if_splits)
  have live: "live ?msgs = live (mem_messages m)"
    by (rule ext) (auto simp: live_def fold_recompute split: option.splits)
  have "length (filter (live (mem_messages m)) (slice_at (mem_byParent m) p)) < 2 ^ 32"
    using few [of p] by (rule order.strict_trans1 [OF length_filter_le])
  then show "unat (dm_ReplyCount stored) = length (live_replies (m\<lparr>mem_messages := ?msgs\<rparr>) p)"
    by (simp add: stored live_replies_def live count_where_eq unsigned_of_nat take_bit_nat_eq_self)
qed

text \<open>The three stages of loading: the rows, the sorted indexes, the counts.\<close>

definition loaded_rows :: "DBChannel list \<Rightarrow> DBMessage option list \<Rightarrow> Snowflake \<Rightarrow> MemDB" where
  "loaded_rows chans rows sf =
    fold load_row rows ((empty_db sf)\<lparr>mem_channels := fold (\<lambda>ch cs. cs(ch_ID ch \<mapsto> ch)) chans Map.empty\<rparr>)"

definition loaded_sorted :: "DBChannel list \<Rightarrow> DBMessage option list \<Rightarrow> Snowflake \<Rightarrow> MemDB" where
  "loaded_sorted chans rows sf = (let m = loaded_rows chans rows sf in
    m\<lparr>mem_byChannel := sorted_slices (mem_messages m) (mem_byChannel m),
      mem_byParent := sorted_slices (mem_messages m) (mem_byParent m), mem_byThread := sorted_slices (mem_messages m) (mem_byThread m)\<rparr>)"

lemma NewMemDB_eq:
  "NewMemDB chans rows order sf = (let m = loaded_sorted chans rows sf in
    m\<lparr>mem_messages := fold (recomputeReplyCount (mem_byParent m)) order (mem_messages m)\<rparr>)"
  by (simp add: NewMemDB_def loadFromSQLite_def Let_def loaded_sorted_def loaded_rows_def empty_db_def sorted_slices_def)

lemma loaded_known:
  "mentions (loaded_sorted chans rows sf) i \<Longrightarrow> i \<in> dm_ID ` {msg. Some msg \<in> set rows}"
proof -
  assume "mentions (loaded_sorted chans rows sf) i"
  then have "mentions (loaded_rows chans rows sf) i"
    by (auto simp: loaded_sorted_def Let_def mentions_def sorted_slices_set)
  then have "mentions ((empty_db sf)\<lparr>mem_channels := fold (\<lambda>ch cs. cs(ch_ID ch \<mapsto> ch)) chans Map.empty\<rparr>) i \<or>
      (\<exists>msg. Some msg \<in> set rows \<and> i = dm_ID msg)"
    unfolding loaded_rows_def by (rule mentions_load_rows)
  then show ?thesis by (auto simp: mentions_def empty_db_def)
qed

lemma mentions_NewMemDB: "mentions (NewMemDB chans rows order sf) i \<longleftrightarrow> mentions (loaded_sorted chans rows sf) i"
  by (auto simp: NewMemDB_eq Let_def mentions_def fold_recompute split: if_splits)

lemma dom_load_rows: "dom (mem_messages (fold load_row rows m)) = dom (mem_messages m) \<union> dm_ID ` {msg. Some msg \<in> set rows}"
proof (induction rows arbitrary: m)
  case (Cons row rows)
  have "dom (mem_messages (load_row row m)) = dom (mem_messages m) \<union> dm_ID ` {msg. row = Some msg}"
    by (auto simp: load_row_def Let_def split: option.splits)
  then show ?case by (auto simp: Cons.IH)
qed simp

lemma dom_NewMemDB: "dom (mem_messages (NewMemDB chans rows order sf)) = dm_ID ` {msg. Some msg \<in> set rows}"
proof -
  have "dom (mem_messages (NewMemDB chans rows order sf)) = dom (mem_messages (loaded_rows chans rows sf))"
    by (auto simp: NewMemDB_eq Let_def loaded_sorted_def fold_recompute split: if_splits)
  then show ?thesis by (simp add: loaded_rows_def dom_load_rows empty_db_def)
qed

lemma NewMemDB_snowflake: "mem_snowflake (NewMemDB chans rows order sf) = sf"
  by (simp add: NewMemDB_eq Let_def loaded_sorted_def loaded_rows_def load_row_snowflake empty_db_def)

lemma row_ids_few: "length rows < n \<Longrightarrow> card (dm_ID ` {msg. Some msg \<in> set rows}) < n"
proof -
  assume few: "length rows < n"
  have "{msg. Some msg \<in> set rows} = the ` (set rows - {None})" by force
  then have "card (dm_ID ` {msg. Some msg \<in> set rows}) \<le> card (set rows - {None})"
    by (metis card_image_le finite_Diff finite_set image_comp)
  also have "\<dots> \<le> card (set rows)" by (rule card_mono) auto
  also have "\<dots> \<le> length rows" by (rule card_length)
  finally show ?thesis using few by simp
qed

lemma memdb_ok_load:
  assumes rows: "rows_ok rows" and few: "length rows < 2 ^ 32"
    and order: "\<forall>msg. Some msg \<in> set rows \<longrightarrow> dm_ID msg \<in> set order"
  shows "memdb_ok (NewMemDB chans rows order sf)"
proof -
  let ?m = "loaded_sorted chans rows sf" and ?ids = "dm_ID ` {msg. Some msg \<in> set rows}"
  have "store_ok (loaded_rows chans rows sf)"
    unfolding loaded_rows_def using rows empty_db_ok [of sf]
    by (intro store_ok_load_rows) (auto simp: store_ok_def indexes_ok_def mentions_def)
  then have m: "store_ok ?m" unfolding loaded_sorted_def Let_def by (rule store_ok_sorted)
  have "mem_messages ?m i \<noteq> None \<Longrightarrow> i \<in> ?ids" for i
    using loaded_known [of chans rows sf i] by (simp add: mentions_def)
  then have "dom (mem_messages ?m) \<subseteq> set order" using order by (fastforce simp: dom_def)
  moreover have "length (slice_at (mem_byParent ?m) p) < 2 ^ 32" for p
  proof -
    have "distinct (slice_at (mem_byParent ?m) p)"
      using m by (auto simp: store_ok_def indexes_ok_def intro: by_parent.index_ok_distinct)
    then have "length (slice_at (mem_byParent ?m) p) = card (set (slice_at (mem_byParent ?m) p))"
      by (simp add: distinct_card)
    also have "\<dots> \<le> card ?ids"
    proof (rule card_mono)
      have "{msg. Some msg \<in> set rows} = the ` (set rows - {None})" by force
      then show "finite ?ids" by simp
      show "set (slice_at (mem_byParent ?m) p) \<subseteq> ?ids" using loaded_known [of chans rows sf] by (auto simp: mentions_def)
    qed
    finally show ?thesis using row_ids_few [OF few] by simp
  qed
  ultimately show ?thesis
    unfolding NewMemDB_eq Let_def memdb_ok_def using store_ok_recompute [OF m] counts_ok_recompute [of ?m] by blast
qed

end
