(* ===== verification/MemProps.thy ===== *)
theory MemProps imports MemSystem begin

text \<open>
  The properties of MemDB: well-formedness of every reachable state, what each operation returns and
  changes, the walk of a thread against its specification, and the behaviours that are wrong.
\<close>

section \<open>A small database for the witnesses\<close>

text \<open>An empty database, and one with a message of user 3 in channel 7 and two replies below it.\<close>

definition small_sf :: Snowflake where
  "small_sf = NewSnowflake 0 1"

definition no_msgs :: MemDB where
  "no_msgs = NewMemDB [] [] [] small_sf"

definition small_msg :: "i64 \<Rightarrow> i64 \<Rightarrow> i64 option \<Rightarrow> DBMessage" where
  "small_msg i t parent = \<lparr>dm_ID = i, dm_ChannelID = 7, dm_SubchannelID = None, dm_ParentID = parent,
     dm_ThreadRootID = Some 20975616, dm_AuthorUserID = Some 3, dm_AuthorNickname = lit ''ann'', dm_Content = lit ''hi'',
     dm_CreatedAt = t, dm_EditedAt = None, dm_DeletedAt = None, dm_ReplyCount = 0\<rparr>"

definition with_state :: "i64 \<Rightarrow> MemDB \<Rightarrow> MemDB" where
  "with_state w m = m\<lparr>mem_snowflake := small_sf\<lparr>sf_state := w\<rparr>\<rparr>"

definition one_msg :: MemDB where
  "one_msg = PostMessage_store (with_state 20480 no_msgs) (small_msg 20975616 5 None)"

definition two_msgs :: MemDB where
  "two_msgs = PostMessage_store (with_state 24576 one_msg) (small_msg 25169920 6 (Some 20975616))"

definition three_msgs :: MemDB where
  "three_msgs = PostMessage_store (with_state 28672 two_msgs) (small_msg 29364224 7 (Some 25169920))"

lemma small_ready: "generator_ready small_sf [5, 5, 6, 6, 7, 7, 8]"
  by code_simp

lemma no_msgs_inv: "mem_inv (no_msgs, [5, 5, 6, 6, 7, 7, 8])"
proof -
  have "memdb_ok no_msgs" unfolding no_msgs_def by (rule memdb_ok_load) (simp_all add: rows_ok_def)
  moreover have "mem_snowflake no_msgs = small_sf" "\<not> mentions no_msgs i" for i
    by (auto simp: no_msgs_def NewMemDB_def loadFromSQLite_def Let_def mentions_def slice_at_def)
  ultimately show ?thesis using small_ready by (simp add: mem_inv_def ids_past_def)
qed

lemma small_ids:
  "NextID small_sf (5 # 5 # c) = Some (20975616, small_sf\<lparr>sf_state := 20480\<rparr>, 5 # c)"
  "NextID (small_sf\<lparr>sf_state := 20480\<rparr>) (6 # 6 # c) = Some (25169920, small_sf\<lparr>sf_state := 24576\<rparr>, 6 # c)"
  "NextID (small_sf\<lparr>sf_state := 24576\<rparr>) (7 # 7 # c) = Some (29364224, small_sf\<lparr>sf_state := 28672\<rparr>, 7 # c)"
  by (simp_all add: NextID_def attempt_def Let_def sequenceMask_def small_sf_def NewSnowflake_def maxWorkerID_def
      pack_state_def make_id_def)

lemma no_msgs_maps:
  "mem_snowflake no_msgs = small_sf" "mem_messages no_msgs = Map.empty" "mem_byChannel no_msgs = Map.empty"
  "mem_byParent no_msgs = Map.empty" "mem_byThread no_msgs = Map.empty" "mem_dirty no_msgs = {}"
  by (simp_all add: no_msgs_def NewMemDB_def loadFromSQLite_def Let_def)

lemma one_msg_maps:
  "mem_snowflake one_msg = small_sf\<lparr>sf_state := 20480\<rparr>"
  "mem_messages one_msg = [20975616 \<mapsto> small_msg 20975616 5 None]"
  "mem_byChannel one_msg = [7 \<mapsto> [20975616]]" "mem_byParent one_msg = Map.empty" "mem_dirty one_msg = {20975616}"
  by (simp_all add: one_msg_def PostMessage_store_eq with_state_def store_maps_def small_msg_def no_msgs_maps append_at_def slice_at_def)

lemma two_msgs_maps:
  "mem_snowflake two_msgs = small_sf\<lparr>sf_state := 24576\<rparr>"
  "mem_messages two_msgs = [25169920 \<mapsto> small_msg 25169920 6 (Some 20975616),
     20975616 \<mapsto> (small_msg 20975616 5 None)\<lparr>dm_ReplyCount := 1\<rparr>]"
  "mem_byChannel two_msgs = [7 \<mapsto> [20975616, 25169920]]" "mem_byParent two_msgs = [20975616 \<mapsto> [25169920]]"
  by (auto simp add: two_msgs_def PostMessage_store_eq with_state_def store_maps_def small_msg_def one_msg_maps append_at_def slice_at_def
      modify_def)

lemma three_msgs_maps:
  "mem_messages three_msgs = [29364224 \<mapsto> small_msg 29364224 7 (Some 25169920),
     25169920 \<mapsto> (small_msg 25169920 6 (Some 20975616))\<lparr>dm_ReplyCount := 1\<rparr>,
     20975616 \<mapsto> (small_msg 20975616 5 None)\<lparr>dm_ReplyCount := 1\<rparr>]"
  "mem_byParent three_msgs = [20975616 \<mapsto> [25169920], 25169920 \<mapsto> [29364224]]"
  by (auto simp add: three_msgs_def PostMessage_store_eq with_state_def store_maps_def small_msg_def two_msgs_maps append_at_def slice_at_def
      modify_def fun_eq_iff)

lemma small_post:
  "PostMessage no_msgs [5, 5, 6, 6, 7, 7, 8] 7 None None (Some 3) (lit ''ann'') (lit ''hi'') =
    Some (Inr (20975616, small_msg 20975616 5 None), one_msg, [6, 6, 7, 7, 8])"
  "PostMessage one_msg [6, 6, 7, 7, 8] 7 None (Some 20975616) (Some 3) (lit ''ann'') (lit ''hi'') =
    Some (Inr (25169920, small_msg 25169920 6 (Some 20975616)), two_msgs, [7, 7, 8])"
  "PostMessage two_msgs [7, 7, 8] 7 None (Some 25169920) (Some 3) (lit ''ann'') (lit ''hi'') =
    Some (Inr (29364224, small_msg 29364224 7 (Some 25169920)), three_msgs, [8])"
proof -
  note post = PostMessage_def new_stamp_def PostMessage_root_def with_state_def small_msg_def Let_def
  show "PostMessage no_msgs [5, 5, 6, 6, 7, 7, 8] 7 None None (Some 3) (lit ''ann'') (lit ''hi'') =
      Some (Inr (20975616, small_msg 20975616 5 None), one_msg, [6, 6, 7, 7, 8])"
    using small_ids(1) [of "[6, 6, 7, 7, 8]"] by (simp add: post no_msgs_maps one_msg_def)
  show "PostMessage one_msg [6, 6, 7, 7, 8] 7 None (Some 20975616) (Some 3) (lit ''ann'') (lit ''hi'') =
      Some (Inr (25169920, small_msg 25169920 6 (Some 20975616)), two_msgs, [7, 7, 8])"
    using small_ids(2) [of "[7, 7, 8]"] by (simp add: post one_msg_maps two_msgs_def)
  show "PostMessage two_msgs [7, 7, 8] 7 None (Some 25169920) (Some 3) (lit ''ann'') (lit ''hi'') =
      Some (Inr (29364224, small_msg 29364224 7 (Some 25169920)), three_msgs, [8])"
    using small_ids(3) [of "[8]"] by (simp add: post two_msgs_maps three_msgs_def)
qed

lemma small_inv: "mem_inv (one_msg, [6, 6, 7, 7, 8])" "mem_inv (two_msgs, [7, 7, 8])" "mem_inv (three_msgs, [8])"
proof -
  show 1: "mem_inv (one_msg, [6, 6, 7, 7, 8])"
    by (rule mem_inv_post [OF no_msgs_inv _ small_post(1)]) (simp add: parent_has_room_def small_msg_def)
  show 2: "mem_inv (two_msgs, [7, 7, 8])"
    by (rule mem_inv_post [OF 1 _ small_post(2)]) (simp add: parent_has_room_def small_msg_def one_msg_maps)
  show "mem_inv (three_msgs, [8])"
    by (rule mem_inv_post [OF 2 _ small_post(3)]) (simp add: parent_has_room_def small_msg_def two_msgs_maps)
qed

lemma small_ok: "memdb_ok one_msg" "memdb_ok two_msgs" "memdb_ok three_msgs"
  using small_inv by (simp_all add: mem_inv_def)

section \<open>Every reachable state\<close>

lemma mem_inv_reachable: "mem_step\<^sup>*\<^sup>* s0 s \<Longrightarrow> mem_inv s0 \<Longrightarrow> mem_inv s"
  by (induction rule: rtranclp_induct) (auto dest: mem_inv_step)

lemma live_replies_card:
  assumes "memdb_ok m"
  shows "length (live_replies m p) = card {i. replies_to m i p}"
proof -
  have s: "store_ok m" using assms by (simp add: memdb_ok_def)
  have "set (live_replies m p) = {i. replies_to m i p}"
    using child_iff [OF s, of _ p] by (auto simp: live_replies_def live_def thread_pick_all split: option.splits if_splits)
  moreover have "distinct (live_replies m p)"
    using s by (auto simp: live_replies_def store_ok_def indexes_ok_def intro: distinct_filter by_parent.index_ok_distinct)
  ultimately show ?thesis by (metis distinct_card)
qed



text \<open>Loading gives such a start: from rows with distinct ids, parents before replies and all ids from the
  past of the generator, NewMemDB builds a well-formed database that holds exactly the rows that could be scanned.\<close>

theorem load_well_formed:
  assumes "rows_ok rows" and "length rows < 2 ^ 32" and "\<forall>msg. Some msg \<in> set rows \<longrightarrow> dm_ID msg \<in> set order"
    and "generator_ready sf clock" and "\<forall>msg. Some msg \<in> set rows \<longrightarrow> generator_past sf clock (dm_ID msg)"
  shows "mem_inv (NewMemDB chans rows order sf, clock) \<and>
    dom (mem_messages (NewMemDB chans rows order sf)) = {dm_ID msg | msg. Some msg \<in> set rows}"
proof -
  have "generator_past sf clock i" if "mentions (NewMemDB chans rows order sf) i" for i
    using loaded_known [of chans rows sf i] that assms(5) by (auto simp: mentions_NewMemDB)
  then have "ids_past (NewMemDB chans rows order sf) clock"
    using assms(4) by (simp add: ids_past_def NewMemDB_snowflake)
  then show ?thesis using memdb_ok_load [OF assms(1-3)] by (auto simp: mem_inv_def dom_NewMemDB)
qed

lemma load_well_formed_witness:
  "mem_inv (NewMemDB [] [Some (small_msg 20975616 5 None), None, Some (small_msg 25169920 6 (Some 20975616))] [25169920, 20975616]
    (small_sf\<lparr>sf_state := 24576\<rparr>), [7, 7, 8])"
proof -
  let ?rows = "[Some (small_msg 20975616 5 None), None, Some (small_msg 25169920 6 (Some 20975616))]"
  have "rows_ok ?rows" by (auto simp add: rows_ok_def small_msg_def map_filter_def)
  moreover have "generator_ready (small_sf\<lparr>sf_state := 24576\<rparr>) [7, 7, 8]" by code_simp
  moreover have "ids_past two_msgs [7, 7, 8]" using small_inv(2) by (simp add: mem_inv_def)
  then have "generator_past (small_sf\<lparr>sf_state := 24576\<rparr>) [7, 7, 8] 20975616"
    "generator_past (small_sf\<lparr>sf_state := 24576\<rparr>) [7, 7, 8] 25169920"
    by (simp_all add: ids_past_def mentions_def two_msgs_maps)
  ultimately show ?thesis
    using load_well_formed [of ?rows "[25169920, 20975616]" "small_sf\<lparr>sf_state := 24576\<rparr>" "[7, 7, 8]" "[]"]
    by (auto simp: small_msg_def)
qed

section \<open>Posting\<close>



text \<open>A reply to a message that is not there is refused and stores nothing, though it has used up an id.\<close>

theorem post_to_missing_parent:
  assumes "mem_messages m p = None" and "PostMessage m clock c sub (Some p) user nick body = Some (r, m', clock')"
  shows "r = Inl (ErrText (lit ''parent message not found'')) \<and> (\<exists>sf. m' = m\<lparr>mem_snowflake := sf\<rparr>)"
  using assms
  by (auto simp: PostMessage_def PostMessage_root_def new_stamp_def split: option.splits sum.splits)

section \<open>Editing and deleting\<close>

text \<open>An edit succeeds exactly on a message that exists, was written by the registered user who edits
  it, and is not deleted; it sets the content and the time of the edit and nothing else, and a refused edit
  changes nothing.\<close>

theorem edit_rule:
  "case UpdateMessage m (now # clock) i user body of
     None \<Rightarrow> False
   | Some (Inr msg', m', clock') \<Rightarrow> clock' = clock \<and> (\<exists>msg. mem_messages m i = Some msg \<and> dm_AuthorUserID msg = Some user \<and>
       dm_DeletedAt msg = None \<and> msg' = msg\<lparr>dm_Content := body, dm_EditedAt := Some now\<rparr> \<and>
       m' = m\<lparr>mem_messages := (mem_messages m)(i \<mapsto> msg'), mem_dirty := insert i (mem_dirty m)\<rparr>)
   | Some (Inl e, m', clock') \<Rightarrow> m' = m \<and> clock' = now # clock \<and>
       \<not> (\<exists>msg. mem_messages m i = Some msg \<and> dm_AuthorUserID msg = Some user \<and> dm_DeletedAt msg = None)"
  by (auto simp: UpdateMessage_def edit_message_def Let_def split: option.split)

text \<open>Soft deletion marks the message deleted at the time of the call, takes one from the count of its
  parent, and touches nothing else; a message that is missing or deleted already is an error.\<close>

theorem soft_delete_effect:
  assumes "memdb_ok m" and "SoftDeleteMessage m (now # clock) i nick = Some (r, m', clock')"
  shows "(case r of
      Inl e \<Rightarrow> m' = m \<and> \<not> live (mem_messages m) i
    | Inr msg' \<Rightarrow> live (mem_messages m) i \<and> msg' = (the (mem_messages m i))\<lparr>dm_DeletedAt := Some now\<rparr> \<and>
        mem_messages m' i = Some msg' \<and> i \<in> mem_dirty m' \<and>
        (\<forall>j. j \<noteq> i \<longrightarrow> (case mem_messages m j of None \<Rightarrow> mem_messages m' j = None
          | Some msg \<Rightarrow> mem_messages m' j = Some (msg\<lparr>dm_ReplyCount :=
              (if dm_ParentID msg' = Some j then dm_ReplyCount msg - 1 else dm_ReplyCount msg)\<rparr>))))"
proof (cases r)
  case (Inl e)
  with assms(2) show ?thesis
    by (auto simp: SoftDeleteMessage_def Let_def live_def split: option.splits if_splits)
next
  case (Inr msg')
  from SoftDelete_Inr [OF assms(2) [unfolded Inr]] obtain msg where d: "mem_messages m i = Some msg" "dm_DeletedAt msg = None"
    "msg' = msg\<lparr>dm_DeletedAt := Some now\<rparr>"
    "m' = m\<lparr>mem_messages := delete_maps m i msg now, mem_dirty := insert i (mem_dirty m)\<rparr>" by auto
  have s: "store_ok m" "counts_ok m" using assms(1) by (auto simp: memdb_ok_def)
  have "drop_reply parent = parent\<lparr>dm_ReplyCount := dm_ReplyCount parent - 1\<rparr>"
    if "dm_ParentID msg = Some p" "mem_messages m p = Some parent" for p parent
  proof -
    have "i \<in> set (live_replies m p)" using reply_listed [OF s(1) d(1,2)] that(1) by simp
    then have "unat (dm_ReplyCount parent) \<noteq> 0" using s(2) that(2) by (auto simp: counts_ok_def)
    then have "dm_ReplyCount parent > 0" by (simp add: word_gt_0 unat_eq_zero)
    then show ?thesis by (simp add: drop_reply_def)
  qed
  with d Inr show ?thesis
    by (auto simp: delete_maps_apply [OF s(1) d(1)] split: option.split)
qed

lemma soft_delete_effect_witness:
  "\<exists>m'. SoftDeleteMessage two_msgs [9] 25169920 (lit ''bob'') = Some (Inr ((small_msg 25169920 6 (Some 20975616))\<lparr>dm_DeletedAt := Some 9\<rparr>), m', []) \<and>
    CountReplies m' 20975616 = 0"
proof -
  obtain m' where run: "SoftDeleteMessage two_msgs [9] 25169920 (lit ''bob'') =
      Some (Inr ((small_msg 25169920 6 (Some 20975616))\<lparr>dm_DeletedAt := Some 9\<rparr>), m', [])"
    by (simp add: SoftDeleteMessage_def two_msgs_maps small_msg_def Let_def)
  from soft_delete_effect [OF small_ok(2) this] have "case mem_messages two_msgs 20975616 of None \<Rightarrow> mem_messages m' 20975616 = None
    | Some msg \<Rightarrow> mem_messages m' 20975616 = Some (msg\<lparr>dm_ReplyCount :=
        (if dm_ParentID ((small_msg 25169920 6 (Some 20975616))\<lparr>dm_DeletedAt := Some 9\<rparr>) = Some 20975616
         then dm_ReplyCount msg - 1 else dm_ReplyCount msg)\<rparr>)"
    unfolding sum.case by auto
  then have "CountReplies m' 20975616 = 0"
    by (simp add: two_msgs_maps CountReplies_def small_msg_def)
  with run show ?thesis by blast
qed

text \<open>Soft deletion asks nobody's permission: whatever nickname is given, and whoever wrote the message, the
  result is that of the admin operation.\<close>

theorem soft_delete_ignores_owner:
  "SoftDeleteMessage m clock i nick = AdminSoftDeleteMessage m clock i admin \<and>
   SoftDeleteMessage m clock i nick = SoftDeleteMessage m clock i nick'"
  by (simp add: SoftDeleteMessage_def AdminSoftDeleteMessage_def)

section \<open>Reading pages and threads\<close>

lemma above_fuel:
  assumes "store_ok m" and "card (dom (mem_messages m)) < fuel"
  shows "above m p < fuel"
proof -
  have "above m p \<le> card (dom (mem_messages m))"
    unfolding above_def by (rule card_mono) (use assms(1) in \<open>auto simp: store_ok_def\<close>)
  then show ?thesis using assms(2) by simp
qed

lemma four: "(4 :: nat) = Suc (Suc (Suc (Suc 0)))"
  by simp

lemma small_card: "card (dom (mem_messages three_msgs)) < 4"
proof -
  have "dom (mem_messages three_msgs) = {29364224, 25169920, 20975616}" by (auto simp: three_msgs_maps split: if_splits)
  then show ?thesis by simp
qed

text \<open>ListRootMessages returns, in the order of the channel index, the first messages that are not deleted, not
  replies, in the subchannel asked for and inside the id bounds: as many as the limit says, but one when the limit is zero.\<close>

theorem list_root_messages:
  "ListRootMessages m c sub limit before after =
    take (max 1 (unat limit)) (List.map_filter
      (\<lambda>i. case mem_messages m i of None \<Rightarrow> None
         | Some msg \<Rightarrow>
            if dm_DeletedAt msg = None \<and> dm_ParentID msg = None \<and> (sub = None \<or> dm_SubchannelID msg = sub) \<and>
              (case before of Some b \<Rightarrow> i < b | None \<Rightarrow> (case after of Some a \<Rightarrow> a < i | None \<Rightarrow> True))
            then Some msg else None)
      (slice_at (mem_byChannel m) c))"
proof (cases "mem_byChannel m c")
  case None
  then show ?thesis by (simp add: ListRootMessages_def slice_at_def map_filter_def)
next
  case (Some ids)
  have start: "int (length []) < uint limit \<or> (uint limit \<le> 0 \<and> [] = [])"
    using order.not_eq_order_implies_strict [OF _ uint_ge_0 [of limit]] by auto
  have pick: "(if case before of None \<Rightarrow> False | Some b \<Rightarrow> b \<le> i then None
       else if case after of None \<Rightarrow> False | Some a \<Rightarrow> before = None \<and> i \<le> a then None
       else case mem_messages m i of None \<Rightarrow> None
         | Some msg \<Rightarrow> if dm_DeletedAt msg \<noteq> None \<or> dm_ParentID msg \<noteq> None then None
             else if sub \<noteq> None \<and> dm_SubchannelID msg \<noteq> sub then None else Some msg) =
      (case mem_messages m i of None \<Rightarrow> None
         | Some msg \<Rightarrow>
            if dm_DeletedAt msg = None \<and> dm_ParentID msg = None \<and> (sub = None \<or> dm_SubchannelID msg = sub) \<and>
              (case before of Some b \<Rightarrow> i < b | None \<Rightarrow> (case after of Some a \<Rightarrow> a < i | None \<Rightarrow> True))
            then Some msg else None)" for i
    by (cases "mem_messages m i"; cases before; cases after) (auto simp: not_le)
  show ?thesis
    unfolding ListRootMessages_def Some option.case page_loop_eq [OF start] pick
    by (simp add: slice_at_def Some)
qed

text \<open>C19. ListThreadReplies returns as soon as its depth bound covers the database, and returns the depth-first
  list of the replies that pass the filters, cut at the limit.\<close>

theorem list_thread_replies:
  assumes "memdb_ok m" and "card (dom (mem_messages m)) < fuel"
  shows "ListThreadReplies fuel m p limit before after =
    Some (cut limit (thread_list fuel (thread_pick m before after) (slice_at (mem_byParent m)) p))"
proof -
  have "store_ok m" using assms(1) by (simp add: memdb_ok_def)
  with collect_eq [OF this above_fuel [OF this assms(2)], of limit "[]"] show ?thesis
    by (simp add: ListThreadReplies_def cut_def)
qed

lemma list_thread_replies_witness:
  "map_option (map dm_ID) (ListThreadReplies 4 three_msgs 20975616 1 None None) = Some [25169920]"
proof -
  from list_thread_replies [OF small_ok(3) small_card] show ?thesis
    unfolding four by (simp add: cut_def thread_pick_def three_msgs_maps slice_at_def small_msg_def)
qed

text \<open>C20. Without filters and limit, the list holds every message below the given one that is reached through
  messages not deleted, once each, as stored, and nothing else.\<close>

theorem thread_replies_complete:
  assumes "memdb_ok m" and "card (dom (mem_messages m)) < fuel"
  shows "\<exists>msgs. ListThreadReplies fuel m p 0 None None = Some msgs \<and> set (map dm_ID msgs) = {i. descends m i p} \<and>
    distinct (map dm_ID msgs) \<and> (\<forall>msg \<in> set msgs. mem_messages m (dm_ID msg) = Some msg)"
proof -
  have ok: "store_ok m" using assms(1) by (simp add: memdb_ok_def)
  from collect_eq [OF ok above_fuel [OF ok assms(2)], of 0 "[]"] thread_list_descends [OF ok above_fuel [OF ok assms(2)], of p]
  show ?thesis by (auto simp: ListThreadReplies_def cut_def)
qed

lemma thread_replies_complete_witness:
  "\<exists>msgs. ListThreadReplies 4 three_msgs 20975616 0 None None = Some msgs \<and> {i. descends three_msgs i 20975616} = {25169920, 29364224}"
proof -
  have run: "ListThreadReplies 4 three_msgs 20975616 0 None None =
      Some [(small_msg 25169920 6 (Some 20975616))\<lparr>dm_ReplyCount := 1\<rparr>, small_msg 29364224 7 (Some 25169920)]"
    unfolding four by (simp add: ListThreadReplies_def collectThreadReplies.simps reached_iff three_msgs_maps small_msg_def
        collect_children_Cons thread_pick_def)
  from thread_replies_complete [OF small_ok(3) small_card, of 20975616] run
  have "{i. descends three_msgs i 20975616} = {25169920, 29364224}" by (simp add: small_msg_def)
  with run show ?thesis by blast
qed

text \<open>The id bound of the walk hides new replies: a page after an id is empty as soon as the direct replies
  are all old, however new the replies below them are.\<close>

theorem walk_misses_new_replies:
  assumes "\<forall>i \<in> set (slice_at (mem_byParent m) p). i \<le> a" and "0 < fuel"
  shows "ListThreadReplies fuel m p limit None (Some a) = Some []"
  using walk_stops_at_filtered [of m p None "Some a" fuel limit "[]"] assms
  by (simp add: ListThreadReplies_def thread_pick_def)

lemma walk_misses_new_replies_witness:
  "ListThreadReplies 4 three_msgs 20975616 50 None (Some 25169920) = Some [] \<and>
   descends three_msgs 29364224 20975616 \<and> (25169920 :: u64) < 29364224"
proof -
  have "replies_to three_msgs 29364224 25169920" "replies_to three_msgs 25169920 20975616"
    by (auto simp: replies_to_def three_msgs_maps small_msg_def)
  then have "descends three_msgs 29364224 20975616" by (meson tranclp.r_into_trancl tranclp.trancl_into_trancl)
  moreover have "\<forall>i \<in> set (slice_at (mem_byParent three_msgs) 20975616). i \<le> 25169920"
    by (simp add: three_msgs_maps slice_at_def)
  ultimately show ?thesis by (simp add: walk_misses_new_replies)
qed

text \<open>The unread count of a channel is the number of its messages that are newer than the time given,
  not deleted, and in the same subchannel (in none, when none is given).\<close>

theorem unread_count:
  assumes "memdb_ok m" and "card {i. \<exists>msg. mem_messages m i = Some msg} < 2 ^ 32"
  shows "unat (GetUnreadCountForChannel m c sub since) = card {i. \<exists>msg. mem_messages m i = Some msg \<and>
    dm_ChannelID msg = c \<and> dm_SubchannelID msg = sub \<and> sint since < sint (dm_CreatedAt msg) \<and> dm_DeletedAt msg = None}"
proof -
  let ?ids = "slice_at (mem_byChannel m) c"
  let ?P = "\<lambda>i. case mem_messages m i of None \<Rightarrow> False
    | Some msg \<Rightarrow> dm_SubchannelID msg = sub \<and> sint (dm_CreatedAt msg) > sint since \<and> dm_DeletedAt msg = None"
  let ?unread = "{i. \<exists>msg. mem_messages m i = Some msg \<and> dm_ChannelID msg = c \<and> dm_SubchannelID msg = sub \<and>
    sint since < sint (dm_CreatedAt msg) \<and> dm_DeletedAt msg = None}"
  have idx: "indexes_ok m" and fin: "finite (dom (mem_messages m))" using assms(1) by (auto simp: memdb_ok_def store_ok_def)
  have "{i \<in> set ?ids. ?P i} = ?unread"
    using in_channel_iff [OF idx] by (auto split: option.splits)
  moreover have "card ?unread < 2 ^ 32"
    using card_mono [of "{i. \<exists>msg. mem_messages m i = Some msg}" ?unread] fin assms(2)
    by (force simp: dom_def)
  moreover have "distinct ?ids" using idx by (auto simp: indexes_ok_def intro: by_channel.index_ok_distinct)
  ultimately have "unat (count_where ?P ?ids) = card ?unread" using count_where_card [of ?ids ?P] by simp
  moreover have "GetUnreadCountForChannel m c sub since = count_where ?P ?ids"
  proof -
    have "(case mem_messages m i of None \<Rightarrow> False
       | Some msg \<Rightarrow> \<not> (sub = None \<and> dm_SubchannelID msg \<noteq> None) \<and>
           \<not> (sub \<noteq> None \<and> (dm_SubchannelID msg = None \<or> sub \<noteq> dm_SubchannelID msg)) \<and>
           sint (dm_CreatedAt msg) > sint since \<and> dm_DeletedAt msg = None) = ?P i" for i
      by (cases "mem_messages m i") auto
    then show ?thesis by (simp add: GetUnreadCountForChannel_def slice_at_def count_where_def split: option.split)
  qed
  ultimately show ?thesis by simp
qed

lemma unread_count_witness:
  "unat (GetUnreadCountForChannel two_msgs 7 None 5) = 1"
proof -
  have all: "{i. \<exists>msg. mem_messages two_msgs i = Some msg} = {20975616, 25169920}"
    by (auto simp: two_msgs_maps one_msg_maps)
  have new: "{i. \<exists>msg. mem_messages two_msgs i = Some msg \<and> dm_ChannelID msg = 7 \<and> dm_SubchannelID msg = None \<and>
      sint (5 :: 64 word) < sint (dm_CreatedAt msg) \<and> dm_DeletedAt msg = None} = {25169920}"
    by (auto simp: two_msgs_maps small_msg_def)
  have few: "card {i. \<exists>msg. mem_messages two_msgs i = Some msg} < 2 ^ 32" by (simp add: all)
  show ?thesis unfolding unread_count [OF small_ok(2) few] new by simp
qed

section \<open>Users and sessions\<close>

text \<open>Sessions and their index by user agree after every session operation: a session is listed under
  its user, and only there, as long as it exists.\<close>

theorem session_index:
  assumes "sessions_ok m"
  shows "sessions_ok (DeleteSession m s) \<and> mem_sessions (DeleteSession m s) = (mem_sessions m)(s := None) \<and>
    sessions_ok (snd (UpdateSessionNickname m s nick)) \<and>
    (case CreateSession m clock u nick conn of None \<Rightarrow> True
     | Some (i, m', clock') \<Rightarrow> mem_sessions m i \<noteq> None \<or>
         (sessions_ok m' \<and> (\<forall>v. i \<in> set_at (mem_sessionsByUserID m') v \<longleftrightarrow> u = Some v)))"
proof (intro conjI)
  show "sessions_ok (snd (UpdateSessionNickname m s nick))"
    using assms by (auto simp: sessions_ok_def UpdateSessionNickname_def user_of_def split: option.splits)
  show "case CreateSession m clock u nick conn of None \<Rightarrow> True
     | Some (i, m', clock') \<Rightarrow> mem_sessions m i \<noteq> None \<or>
         (sessions_ok m' \<and> (\<forall>v. i \<in> set_at (mem_sessionsByUserID m') v \<longleftrightarrow> u = Some v))"
  proof (cases "CreateSession m clock u nick conn")
    case (Some x)
    then obtain i m' clock' where x: "CreateSession m clock u nick conn = Some (i, m', clock')" by (cases x) auto
    show ?thesis
    proof (cases "mem_sessions m i")
      case None
      from sessions_ok_create [OF assms x None] have "sessions_ok m'" "user_of m' i = u" by (auto simp: user_of_def)
      then show ?thesis unfolding x by (auto simp: sessions_ok_def)
    qed (simp add: x)
  qed simp
qed (use sessions_ok_delete [OF assms, of s] in auto)

lemma session_index_witness:
  "sessions_ok (DeleteSession no_msgs 4)"
proof -
  have "sessions_ok no_msgs" by (simp add: sessions_ok_def no_msgs_def NewMemDB_eq Let_def loaded_sorted_def loaded_rows_def empty_db_def user_of_def set_at_def)
  then show ?thesis by (simp add: session_index)
qed

lemma anonymized_author: "dm_AuthorUserID (anonymized u nick msg) \<noteq> Some u"
  by (simp add: anonymized_def)

text \<open>Deleting a user removes every session listed for the user and takes the user's name off every message, under
  the nickname kept for display; the sessions and messages of others stay as they were, and the
  database stays well formed.\<close>

theorem delete_user_effect:
  assumes "memdb_ok m" and "sessions_ok m" and "dom (mem_messages m) \<subseteq> set order"
    and "DeleteUser (Inr nick) order m u = (r, m')"
  shows "r = Inr nick \<and> memdb_ok m' \<and> sessions_ok m' \<and>
    (\<forall>s sess. mem_sessions m' s = Some sess \<longleftrightarrow> mem_sessions m s = Some sess \<and> ds_UserID sess \<noteq> Some u) \<and>
    (\<forall>i. mem_messages m' i = map_option (anonymized u nick) (mem_messages m i)) \<and>
    (\<forall>i msg. mem_messages m' i = Some msg \<longrightarrow> dm_AuthorUserID msg \<noteq> Some u)"
proof -
  let ?m1 = "m\<lparr>mem_sessions := (\<lambda>s. if s \<in> set_at (mem_sessionsByUserID m) u then None else mem_sessions m s),
       mem_sessionsByUserID := (mem_sessionsByUserID m)(u := None)\<rparr>"
  have r: "r = Inr nick" and m': "m' = fold (anonymize u nick) order ?m1"
    using assms(4) DeleteUser_Inr [of nick order m u] by (auto simp: DeleteUser_def)
  have msgs: "mem_messages m' i = map_option (anonymized u nick) (mem_messages m i)" for i
    using assms(3) by (cases "mem_messages m i") (auto simp: m' fold_anonymize)
  have listed: "s \<in> set_at (mem_sessionsByUserID m) u \<longleftrightarrow> user_of m s = Some u" for s
    using assms(2) by (simp add: sessions_ok_def)
  have sess: "mem_sessions m' s = Some sess \<longleftrightarrow> mem_sessions m s = Some sess \<and> ds_UserID sess \<noteq> Some u" for s sess
    by (auto simp: m' fold_anonymize_rest listed user_of_def split: option.splits)
  have user: "user_of m' s = (if user_of m s = Some u then None else user_of m s)" for s
    by (simp add: user_of_def m' fold_anonymize_rest listed)
  have "sessions_ok m'"
    using assms(2) sess unfolding sessions_ok_def user
    by (auto simp: m' fold_anonymize_rest set_at_update)
  moreover have "memdb_ok m'" unfolding m' by (rule memdb_ok_fold_anonymize) (simp add: assms(1))
  moreover have "mem_messages m' i = Some msg \<Longrightarrow> dm_AuthorUserID msg \<noteq> Some u" for i msg
    using anonymized_author [of u nick] by (force simp: msgs)
  ultimately show ?thesis using r msgs sess by blast
qed

lemma delete_user_effect_witness:
  "\<exists>m'. DeleteUser (Inr (lit ''gone'')) [20975616] one_msg 3 = (Inr (lit ''gone''), m') \<and>
    (\<forall>i msg. mem_messages m' i = Some msg \<longrightarrow> dm_AuthorUserID msg \<noteq> Some 3)"
proof -
  obtain r m' where run: "DeleteUser (Inr (lit ''gone'')) [20975616] one_msg 3 = (r, m')" by fastforce
  have none: "mem_sessions one_msg = Map.empty" "mem_sessionsByUserID one_msg = Map.empty"
    by (simp_all add: one_msg_def PostMessage_store_eq with_state_def no_msgs_def NewMemDB_def loadFromSQLite_def Let_def)
  have ok: "sessions_ok one_msg" by (simp add: sessions_ok_def user_of_def set_at_def none)
  show ?thesis using delete_user_effect [OF small_ok(1) ok _ run] run by (simp add: one_msg_maps)
qed

end
