(* ===== verification/MemLife.thy ===== *)
theory MemLife imports MemProps begin

text \<open>
  What the snapshot writes, what it misses, and what deleting a channel or an old message does: the
  properties of "snapshot", "hardDeleteOldMessages" and "DeleteChannel" of "pkg/database/memdb.go".
\<close>

section \<open>Snapshots\<close>

lemma snapshot_rows_sorted:
  assumes "ids_ok msgs" and "distinct ids" and "\<forall>i \<in> set ids. msgs i \<noteq> None"
  shows "sorted_wrt (\<lambda>a b. sint (dm_ID a) < sint (dm_ID b)) (snapshot_rows msgs ids) \<and>
    set (snapshot_rows msgs ids) = {msg. \<exists>i \<in> set ids. msgs i = Some msg}"
proof -
  have ids: "map dm_ID (snapshot_rows msgs ids) = sort_key sint ids" by (rule snapshot_rows_ids) (use assms in auto)
  moreover have "sorted_wrt (\<lambda>a b. sint a < sint b) (sort_key sint ids)"
  proof -
    have "sorted_wrt (<) (map sint (sort_key sint ids))"
      unfolding strict_sorted_iff using assms(2) by (simp add: distinct_map inj_on_def signed_word_eqI)
    then show ?thesis by (simp add: sorted_wrt_map)
  qed
  ultimately have "sorted_wrt (\<lambda>a b. sint a < sint b) (map dm_ID (snapshot_rows msgs ids))" unfolding ids by blast
  then have "sorted_wrt (\<lambda>a b. sint (dm_ID a) < sint (dm_ID b)) (snapshot_rows msgs ids)" by (simp add: sorted_wrt_map)
  moreover have "set (snapshot_rows msgs ids) = {msg. \<exists>i \<in> set ids. msgs i = Some msg}"
    unfolding snapshot_rows_def map_filter_def by force
  ultimately show ?thesis by simp
qed

lemma snapshot_rows_empty:
  assumes "ids_ok msgs" and "\<forall>i \<in> set ids. msgs i \<noteq> None"
  shows "snapshot_rows msgs ids = [] \<longleftrightarrow> ids = []"
proof -
  have "length (snapshot_rows msgs ids) = length ids"
    using arg_cong [OF snapshot_rows_ids [OF assms], of length] by simp
  then show ?thesis by (cases ids) auto
qed

text \<open>A snapshot of a well-formed database whose changed messages all still exist writes each of them
  once, except those deleted more than a week ago, in ascending order of id, so that a parent is written
  before its replies; when the write succeeds, or there was nothing to write, no message is dirty
  afterwards, and when it fails nothing changes.\<close>

theorem snapshot_writes:
  assumes "memdb_ok m" and "distinct order" and "set order = mem_dirty m" and "mem_dirty m \<subseteq> dom (mem_messages m)"
  shows "\<exists>rows. sorted_wrt (\<lambda>a b. sint (dm_ID a) < sint (dm_ID b)) rows \<and>
    set rows = {msg. \<exists>i \<in> mem_dirty m. mem_messages m i = Some msg \<and> \<not> expired (retentionCutoff now) msg} \<and>
    (\<forall>a b. dm_ParentID b = Some (dm_ID a) \<and> a \<in> set rows \<and> b \<in> set rows \<longrightarrow> sint (dm_ID a) < sint (dm_ID b)) \<and>
    snapshot_with insert_rows order now m =
      Some (case (if rows = [] then None else insert_rows rows) of
          Some err \<Rightarrow> (Some err, m) | None \<Rightarrow> (None, m\<lparr>mem_dirty := {}\<rparr>))"
proof -
  let ?ids = "filter (\<lambda>i. case mem_messages m i of None \<Rightarrow> False | Some msg \<Rightarrow> \<not> expired (retentionCutoff now) msg) order"
  let ?rows = "snapshot_rows (mem_messages m) ?ids"
  have ok: "ids_ok (mem_messages m)" "parents_ok (mem_messages m)" using assms(1) by (auto simp: memdb_ok_def store_ok_def)
  have some: "\<forall>i \<in> set order. mem_messages m i \<noteq> None" using assms(3,4) by blast
  have rows: "sorted_wrt (\<lambda>a b. sint (dm_ID a) < sint (dm_ID b)) ?rows"
      "set ?rows = {msg. \<exists>i \<in> set ?ids. mem_messages m i = Some msg}"
    using snapshot_rows_sorted [OF ok(1), of ?ids] assms(2) some by auto
  have parents: "dm_ParentID b = Some (dm_ID a) \<and> a \<in> set ?rows \<and> b \<in> set ?rows \<longrightarrow> sint (dm_ID a) < sint (dm_ID b)" for a b
  proof
    assume *: "dm_ParentID b = Some (dm_ID a) \<and> a \<in> set ?rows \<and> b \<in> set ?rows"
    then obtain i where i: "mem_messages m i = Some b" unfolding rows(2) by blast
    then have "dm_ID b = i" using ok(1) by (simp add: ids_ok_def)
    moreover have "sint (dm_ID a) < sint i" using ok(2) i * unfolding parents_ok_def by blast
    ultimately show "sint (dm_ID a) < sint (dm_ID b)" by simp
  qed
  have empty: "?rows = [] \<longleftrightarrow> ?ids = []"
    by (rule snapshot_rows_empty [OF ok(1)]) (use some in simp)
  have "snapshot_with insert_rows order now m =
      Some (case (if ?rows = [] then None else insert_rows ?rows) of
          Some err \<Rightarrow> (Some err, m) | None \<Rightarrow> (None, m\<lparr>mem_dirty := {}\<rparr>))"
    using some unfolding empty
    by (auto simp: snapshot_with_def snapshot_collect_eq snapshot_clear_def assms(3) split: option.split)
  moreover have "set ?rows = {msg. \<exists>i \<in> mem_dirty m. mem_messages m i = Some msg \<and> \<not> expired (retentionCutoff now) msg}"
    unfolding rows(2) using assms(3) by auto
  ultimately show ?thesis using rows(1) parents by blast
qed

lemma dirty_two: "mem_dirty two_msgs = {25169920, 20975616}"
  by (simp add: two_msgs_def PostMessage_store_eq with_state_def small_msg_def one_msg_maps)

lemma snapshot_writes_witness:
  "\<exists>m'. snapshot_with (\<lambda>_. None) [25169920, 20975616] 9 two_msgs = Some (None, m') \<and> mem_dirty m' = {}"
proof -
  have "distinct [25169920, 20975616 :: i64]" "set [25169920, 20975616 :: i64] = mem_dirty two_msgs"
    "mem_dirty two_msgs \<subseteq> dom (mem_messages two_msgs)"
    by (auto simp: dirty_two two_msgs_maps)
  from snapshot_writes [OF small_ok(2) this, of 9 "\<lambda>_. None"] show ?thesis by fastforce
qed

text \<open>After a channel is deleted, the next snapshot dereferences a nil message if one of the channel's
  messages was still to be written: its id stays marked as changed.\<close>

theorem delete_channel_breaks_snapshot:
  assumes "memdb_ok m" and "mem_messages m i = Some msg" and "dm_ChannelID msg = c" and "i \<in> mem_dirty m" and "set order = mem_dirty m"
  shows "snapshot_with insert_rows order now (snd (DeleteChannel None m c)) = None"
proof -
  have "i \<in> set (slice_at (mem_byChannel m) c)"
    using in_channel_iff [OF _ assms(2), of c] assms(1,3) by (auto simp: memdb_ok_def store_ok_def)
  then have "\<not> (\<forall>i \<in> set order. mem_messages (snd (DeleteChannel None m c)) i \<noteq> None)"
    using assms(4,5) by (auto simp: DeleteChannel_eq)
  then show ?thesis by (simp only: snapshot_with_def snapshot_collect_eq if_False option.case)
qed

lemma delete_channel_breaks_snapshot_witness:
  "snapshot_with (\<lambda>_. None) [25169920, 20975616] 9 (snd (DeleteChannel None two_msgs 7)) = None"
  by (rule delete_channel_breaks_snapshot [OF small_ok(2), of 25169920])
    (auto simp: two_msgs_maps dirty_two small_msg_def)

text \<open>An edit made while a snapshot is writing, after the rows were taken and before the changed marks are
  cleared, is not written by this snapshot and is not marked for the next one.\<close>

theorem snapshot_loses_edit:
  assumes "memdb_ok m" and "UpdateMessage m clock i user body = Some (Inr msg', m', clock')" and "i \<in> set dirtyIDs"
    and "mem_messages m i \<noteq> Some msg'"
  shows "mem_messages (snapshot_clear dirtyIDs m') i = Some msg' \<and> i \<notin> mem_dirty (snapshot_clear dirtyIDs m') \<and>
    msg' \<notin> set (snapshot_rows (mem_messages m) dirtyIDs)"
proof -
  from assms(2) have m': "mem_messages m' i = Some msg'" "dm_ID msg' = dm_ID (the (mem_messages m i))" "mem_messages m i \<noteq> None"
    by (auto simp: UpdateMessage_def edit_message_def Let_def split: option.splits if_splits)
  have ids: "ids_ok (mem_messages m)" using assms(1) by (simp add: memdb_ok_def store_ok_def)
  have "j = i" if "mem_messages m j = Some msg'" for j using ids m'(2,3) that by (force simp: ids_ok_def)
  then have "msg' \<notin> set (snapshot_rows (mem_messages m) dirtyIDs)"
    using assms(4) by (fastforce simp: snapshot_rows_def map_filter_def)
  with m'(1) assms(3) show ?thesis by (simp add: snapshot_clear_def)
qed

lemma snapshot_loses_edit_witness:
  "\<exists>msg' m'. UpdateMessage two_msgs [9] 25169920 3 [1] = Some (Inr msg', m', []) \<and>
    25169920 \<notin> mem_dirty (snapshot_clear [25169920] m') \<and> msg' \<notin> set (snapshot_rows (mem_messages two_msgs) [25169920])"
proof -
  have run: "UpdateMessage two_msgs [9] 25169920 3 [1] =
      Some (Inr ((small_msg 25169920 6 (Some 20975616))\<lparr>dm_Content := [1], dm_EditedAt := Some 9\<rparr>),
        snd (edit_message two_msgs 25169920 (small_msg 25169920 6 (Some 20975616)) [1] 9), [])"
    by (simp add: UpdateMessage_def two_msgs_maps small_msg_def edit_message_def Let_def)
  have "mem_messages two_msgs 25169920 \<noteq> Some ((small_msg 25169920 6 (Some 20975616))\<lparr>dm_Content := [1], dm_EditedAt := Some 9\<rparr>)"
    by (simp add: two_msgs_maps small_msg_def)
  from snapshot_loses_edit [OF small_ok(2) run _ this, of "[25169920]"] run show ?thesis by auto
qed

section \<open>Removal\<close>

text \<open>The sweep after a snapshot removes exactly the messages deleted more than a week ago, says how many
  there were, leaves every other message and its reply count as they were, and lists the removed ones in no channel.\<close>

theorem hard_delete_effect:
  assumes "memdb_ok m" and "distinct order" and "set order = dom (mem_messages m)"
    and "hardDeleteOldMessages order now m = (n, m')"
  shows "memdb_ok m' \<and>
    n = card {i. \<exists>msg. mem_messages m i = Some msg \<and> expired (retentionCutoff now) msg} \<and>
    (\<forall>i. mem_messages m' i = (case mem_messages m i of None \<Rightarrow> None
       | Some msg \<Rightarrow> if expired (retentionCutoff now) msg then None else Some msg)) \<and>
    (\<forall>i c. i \<in> set (slice_at (mem_byChannel m') c) \<longrightarrow> mem_messages m' i \<noteq> None)"
proof -
  let ?old = "\<lambda>i. case mem_messages m i of None \<Rightarrow> False | Some msg \<Rightarrow> expired (retentionCutoff now) msg"
  have run: "n = length (filter ?old order)" "m' = fold hard_delete (filter ?old order) m"
    using assms(4) by (auto simp: hardDeleteOldMessages_def Let_def)
  have "\<forall>i \<in> set (filter ?old order). \<not> live (mem_messages m) i"
    by (auto simp: expired_def live_def split: option.splits)
  from memdb_ok_fold_hard_delete [OF assms(1) this]
  have ok: "memdb_ok m'" and msgs: "mem_messages m' = (\<lambda>i. if i \<in> set (filter ?old order) then None else mem_messages m i)"
    by (simp_all add: run(2))
  have "n = card (set (filter ?old order))" unfolding run(1) using assms(2) by (metis distinct_card distinct_filter)
  moreover have "set (filter ?old order) = {i. \<exists>msg. mem_messages m i = Some msg \<and> expired (retentionCutoff now) msg}"
    using assms(3) by (auto split: option.splits)
  moreover have "mem_messages m' i = (case mem_messages m i of None \<Rightarrow> None
       | Some msg \<Rightarrow> if expired (retentionCutoff now) msg then None else Some msg)" for i
    using assms(3) by (auto simp: msgs split: option.split)
  moreover have "i \<in> set (slice_at (mem_byChannel m') c) \<longrightarrow> mem_messages m' i \<noteq> None" for i c
    using ok by (simp add: memdb_ok_def store_ok_def indexes_ok_def)
  ultimately show ?thesis using ok by simp
qed

lemma hard_delete_effect_witness:
  "\<exists>n m'. hardDeleteOldMessages [20975616, 25169920] 9 two_msgs = (n, m') \<and> memdb_ok m'"
proof -
  obtain n m' where "hardDeleteOldMessages [20975616, 25169920] 9 two_msgs = (n, m')" by fastforce
  with hard_delete_effect [OF small_ok(2) _ _ this] show ?thesis by (auto simp: two_msgs_maps)
qed

end
