(* ===== verification/GoRun.thy ===== *)
theory GoRun imports MemState GoIO begin

text \<open>
  How a step of the server runs: it returns, it panics, it waits for a reading of the clock
  that never comes (the clock is a finite list of readings), or it recurses deeper than its bound, which
  the properties show it never does. A handler returns the state with the
  error it hands to its caller, "if err != nil { return err }" is on_ok, and what is
  written to a connection goes through a net.Conn: a writer that can be closed.

  The order in which Go ranges over a map of sessions is any order, and a different one each time: it is
  drawn from a stream of orders.
\<close>

section \<open>Runs\<close>

datatype 'a run = Returns 'a | Panics | Starves | Exhausted

definition run_then :: "'a run \<Rightarrow> ('a \<Rightarrow> 'b run) \<Rightarrow> 'b run" where
  "run_then r k = (case r of Returns x \<Rightarrow> k x | Panics \<Rightarrow> Panics | Starves \<Rightarrow> Starves
     | Exhausted \<Rightarrow> Exhausted)"

lemma run_then_simps [simp]:
  "run_then (Returns x) k = k x" "run_then Panics k = Panics" "run_then Starves k = Starves"
  "run_then Exhausted k = Exhausted"
  by (simp_all add: run_then_def)

lemma run_then_ReturnsE:
  assumes "run_then r k = Returns y"
  obtains x where "r = Returns x" and "k x = Returns y"
  using assms by (cases r) auto

text \<open>An operation of the store waits for the clock when it has no result.\<close>

definition needs_clock :: "'a option \<Rightarrow> 'a run" where
  "needs_clock r = (case r of None \<Rightarrow> Starves | Some x \<Rightarrow> Returns x)"

lemma needs_clock_simps [simp]: "needs_clock (Some x) = Returns x" "needs_clock None = Starves"
  by (simp_all add: needs_clock_def)

lemma needs_clock_Returns [simp]: "needs_clock r = Returns x \<longleftrightarrow> r = Some x"
  by (cases r) auto

text \<open>A step with an error result, and the code after its check.\<close>

definition on_ok :: "('e option \<times> 's) run \<Rightarrow> ('s \<Rightarrow> ('e option \<times> 's) run) \<Rightarrow> ('e option \<times> 's) run" where
  "on_ok r k = run_then r (\<lambda>(err, s). case err of Some e \<Rightarrow> Returns (Some e, s) | None \<Rightarrow> k s)"

lemma on_ok_simps [simp]:
  "on_ok (Returns (None, s)) k = k s" "on_ok (Returns (Some e, s)) k = Returns (Some e, s)"
  "on_ok Panics k = Panics" "on_ok Starves k = Starves" "on_ok Exhausted k = Exhausted"
  by (simp_all add: on_ok_def)

section \<open>Errors and texts\<close>

text \<open>The errors the server passes on, and the text "%v" prints for them.\<close>

datatype server_error = ErrClientDisconnecting | IOErr go_error | DBErr db_error | ErrNew gostring

fun digits :: "nat \<Rightarrow> gostring" where
  "digits n = (if n < 10 then [of_nat (48 + n)] else digits (n div 10) @ [of_nat (48 + n mod 10)])"

declare digits.simps [simp del]

text \<open>"%d" of an integer, and of a signed and an unsigned word.\<close>

definition fmt_d :: "int \<Rightarrow> gostring" where
  "fmt_d i = (if i < 0 then 45 # digits (nat (- i)) else digits (nat i))"

text \<open>"strconv.ParseUint(s, 10, bits)" and "strconv.ParseInt(s, 10, 64)"; None is any of their errors.\<close>

fun parse_digits :: "gostring \<Rightarrow> nat \<Rightarrow> nat option" where
  "parse_digits [] n = Some n"
| "parse_digits (c # cs) n = (if 48 \<le> c \<and> c \<le> 57 then parse_digits cs (n * 10 + unat (c - 48)) else None)"

definition ParseUint :: "nat \<Rightarrow> gostring \<Rightarrow> nat option" where
  "ParseUint bits s = (if s = [] then None
     else case parse_digits s 0 of None \<Rightarrow> None | Some n \<Rightarrow> if n < 2 ^ bits then Some n else None)"

definition ParseInt64 :: "gostring \<Rightarrow> 64 word option" where
  "ParseInt64 s = (case s of [] \<Rightarrow> None
     | c # cs \<Rightarrow>
        (case ParseUint 64 (if c = 43 \<or> c = 45 then cs else s) of None \<Rightarrow> None
         | Some n \<Rightarrow> if c = 45 then (if n \<le> 2 ^ 63 then Some (- of_nat n) else None)
             else if n < 2 ^ 63 then Some (of_nat n) else None))"

text \<open>"strconv.Atoi" takes the numbers of an int64.\<close>

definition Atoi :: "gostring \<Rightarrow> int option" where
  "Atoi s = map_option sint (ParseInt64 s)"

lemma parse_digits_digits: "parse_digits (digits n @ ys) m = parse_digits ys (m * 10 ^ length (digits n) + n)"
proof (induction n arbitrary: m ys rule: digits.induct)
  case (1 n)
  have digit: "parse_digits (of_nat (48 + d) # ys) m = parse_digits ys (m * 10 + d)" if "d < 10" for d m ys
  proof -
    have "unat (of_nat (48 + d) :: u8) = 48 + d" using that by (simp add: unat_of_nat del: of_nat_add)
    then have "48 \<le> (of_nat (48 + d) :: u8) \<and> (of_nat (48 + d) :: u8) \<le> 57 \<and> unat (of_nat (48 + d) - 48 :: u8) = d"
      using that by (simp add: word_le_nat_alt unat_sub del: of_nat_add)
    then show ?thesis by (simp del: of_nat_add)
  qed
  show ?case
  proof (cases "n < 10")
    case True
    then show ?thesis using digit [OF True] by (simp add: digits.simps [of n])
  next
    case False
    then have "digits n = digits (n div 10) @ [of_nat (48 + n mod 10)]" by (simp add: digits.simps [of n])
    then show ?thesis using 1 [OF False] digit [of "n mod 10"] by (simp add: algebra_simps)
  qed
qed

text \<open>"strings.TrimSpace": the encodings of the white space of Unicode, cut off at both ends.\<close>

definition spaces :: "bytes list" where
  "spaces = [[9], [10], [11], [12], [13], [32], [0xC2, 0x85], [0xC2, 0xA0], [0xE1, 0x9A, 0x80],
     [0xE2, 0x80, 0x80], [0xE2, 0x80, 0x81], [0xE2, 0x80, 0x82], [0xE2, 0x80, 0x83], [0xE2, 0x80, 0x84], [0xE2, 0x80, 0x85],
     [0xE2, 0x80, 0x86], [0xE2, 0x80, 0x87], [0xE2, 0x80, 0x88], [0xE2, 0x80, 0x89], [0xE2, 0x80, 0x8A],
     [0xE2, 0x80, 0xA8], [0xE2, 0x80, 0xA9], [0xE2, 0x80, 0xAF], [0xE2, 0x81, 0x9F], [0xE3, 0x80, 0x80]]"

function trim_by :: "bytes list \<Rightarrow> gostring \<Rightarrow> gostring" where
  "trim_by ws s =
    (case List.find (\<lambda>w. w \<noteq> [] \<and> take (length w) s = w) ws of
       None \<Rightarrow> s
     | Some w \<Rightarrow> trim_by ws (drop (length w) s))"
  by pat_completeness auto
termination
proof (relation "measure (\<lambda>(ws, s). length s)")
  fix ws :: "bytes list" and s w
  assume "List.find (\<lambda>w. w \<noteq> [] \<and> take (length w) s = w) ws = Some w"
  then have "w \<noteq> []" "take (length w) s = w" by (auto simp: find_Some_iff)
  then have "s \<noteq> []" by auto
  with \<open>w \<noteq> []\<close> show "((ws, drop (length w) s), ws, s) \<in> measure (\<lambda>(ws, s). length s)" by simp
qed simp

declare trim_by.simps [simp del]

definition TrimSpace :: "gostring \<Rightarrow> gostring" where
  "TrimSpace s = rev (trim_by (map rev spaces) (rev (trim_by spaces s)))"

text \<open>"strings.Contains".\<close>

definition strings_Contains :: "gostring \<Rightarrow> gostring \<Rightarrow> bool" where
  "strings_Contains s sub \<longleftrightarrow> (\<exists>k \<in> set [0..<Suc (length s)]. take (length sub) (drop k s) = sub)"

text \<open>Go's integer division, towards zero.\<close>

definition quot :: "int \<Rightarrow> int \<Rightarrow> int" where
  "quot a b = sgn a * sgn b * (abs a div abs b)"

section \<open>Connections\<close>

record 'w net_conn =
  conn_writer :: "'w io_writer"
  conn_Close :: "'w \<Rightarrow> 'w"

section \<open>Ranging over maps\<close>

type_synonym ranges = "nat \<Rightarrow> u64 set \<Rightarrow> u64 list"

text \<open>What the order in which a range comes promises: each key once.\<close>

definition ranges_ok :: "ranges \<Rightarrow> bool" where
  "ranges_ok rs \<longleftrightarrow> (\<forall>n S. finite S \<longrightarrow> set (rs n S) = S \<and> distinct (rs n S))"

lemma ranges_okD: "ranges_ok rs \<Longrightarrow> finite S \<Longrightarrow> set (rs n S) = S" "ranges_ok rs \<Longrightarrow> finite S \<Longrightarrow> distinct (rs n S)"
  by (auto simp: ranges_ok_def)

end
