(* ===== verification/SrvSession.thy ===== *)
theory SrvSession imports GoRun MemSessions begin

text \<open>
  "pkg/server/session.go": the sessions of the connected clients, and the two reverse indexes that find the
  subscribers of a thread or of a channel. A pointer to a Session is written as the session's ID, under
  which sm_objects holds the object also after it has left the map of sessions. The map key
  ChannelSubscription holds a pointer to the subchannel id, and Go compares pointers by address: the
  address is what the model keeps. The locks make each operation one step.
\<close>

section \<open>Data\<close>

type_synonym address = nat

record ChannelSubscription =
  cs_ChannelID :: u64
  cs_SubchannelID :: "address option"

text \<open>The two subscription maps are None when they are nil, which they are after the session was removed.\<close>

record 'w Session =
  s_ID :: u64
  s_DBSessionID :: i64
  s_UserID :: "i64 option"
  s_Nickname :: gostring
  s_UserFlags :: u8
  s_Shadowbanned :: bool
  s_Conn :: 'w
  s_RemoteAddr :: gostring
  s_JoinedChannel :: "i64 option"
  s_lastActivityUpdateTime :: i64
  s_subscribedThreads :: "(u64 \<rightharpoonup> ChannelSubscription) option"
  s_subscribedChannels :: "ChannelSubscription set option"

record 'w SessionManager =
  sm_db :: MemDB
  sm_objects :: "u64 \<rightharpoonup> 'w Session"
  sm_sessions :: "u64 set"
  sm_nextID :: u64
  sm_activityUpdateIntervalMs :: i64
  sm_threadSubscribers :: "u64 \<rightharpoonup> u64 set"
  sm_channelSubscribers :: "ChannelSubscription \<rightharpoonup> u64 set"

definition NewSessionManager :: "MemDB \<Rightarrow> int \<Rightarrow> 'w SessionManager" where
  "NewSessionManager db sessionTimeoutSeconds =
    \<lparr>sm_db = db, sm_objects = Map.empty, sm_sessions = {}, sm_nextID = 1,
     sm_activityUpdateIntervalMs = word_of_int sessionTimeoutSeconds * 500,
     sm_threadSubscribers = Map.empty, sm_channelSubscribers = Map.empty\<rparr>"

text \<open>A write through a session pointer.\<close>

definition with_session :: "u64 \<Rightarrow> ('w Session \<Rightarrow> 'w Session) \<Rightarrow> 'w SessionManager \<Rightarrow> 'w SessionManager" where
  "with_session i f sm = sm\<lparr>sm_objects := modify i f (sm_objects sm)\<rparr>"

section \<open>Sessions\<close>

definition sm_CreateSession ::
  "'w SessionManager \<Rightarrow> i64 list \<Rightarrow> i64 option \<Rightarrow> gostring \<Rightarrow> gostring \<Rightarrow> 'w \<Rightarrow> gostring \<Rightarrow>
   (u64 \<times> 'w SessionManager \<times> i64 list) run" where
  "sm_CreateSession sm clock userID nickname connType conn remoteAddr =
    run_then (needs_clock (CreateSession (sm_db sm) clock userID nickname connType)) (\<lambda>(dbSessionID, db, clock).
      let sessionID = sm_nextID sm;
          sess = \<lparr>s_ID = sessionID, s_DBSessionID = dbSessionID, s_UserID = userID, s_Nickname = nickname,
            s_UserFlags = 0, s_Shadowbanned = False, s_Conn = conn, s_RemoteAddr = remoteAddr, s_JoinedChannel = None,
            s_lastActivityUpdateTime = 0, s_subscribedThreads = Some Map.empty, s_subscribedChannels = Some {}\<rparr>
      in Returns (sessionID, sm\<lparr>sm_db := db, sm_nextID := sessionID + 1,
           sm_objects := (sm_objects sm)(sessionID \<mapsto> sess), sm_sessions := insert sessionID (sm_sessions sm)\<rparr>, clock))"

definition sm_GetSession :: "'w SessionManager \<Rightarrow> u64 \<Rightarrow> 'w Session option" where
  "sm_GetSession sm sessionID = (if sessionID \<in> sm_sessions sm then sm_objects sm sessionID else None)"

definition GetAllSessions :: "(u64 set \<Rightarrow> u64 list) \<Rightarrow> 'w SessionManager \<Rightarrow> u64 list" where
  "GetAllSessions order sm = order (sm_sessions sm)"

text \<open>Taking a session out of the subscribers of the given keys, and the empty sets out of the index.\<close>

definition drop_subscriber :: "u64 \<Rightarrow> 'k set \<Rightarrow> ('k \<rightharpoonup> u64 set) \<Rightarrow> 'k \<rightharpoonup> u64 set" where
  "drop_subscriber i keys idx = (\<lambda>k. case idx k of None \<Rightarrow> None
     | Some subscribers \<Rightarrow>
         if k \<in> keys then (if subscribers - {i} = {} then None else Some (subscribers - {i})) else Some subscribers)"

definition add_subscriber :: "u64 \<Rightarrow> 'k \<Rightarrow> ('k \<rightharpoonup> u64 set) \<Rightarrow> 'k \<rightharpoonup> u64 set" where
  "add_subscriber i k idx = idx(k \<mapsto> insert i (set_at idx k))"

definition threads_of :: "'w Session \<Rightarrow> u64 set" where
  "threads_of sess = (case s_subscribedThreads sess of None \<Rightarrow> {} | Some ts \<Rightarrow> dom ts)"

definition channels_of :: "'w Session \<Rightarrow> ChannelSubscription set" where
  "channels_of sess = (case s_subscribedChannels sess of None \<Rightarrow> {} | Some cs \<Rightarrow> cs)"

definition RemoveSession :: "'w net_conn \<Rightarrow> 'w SessionManager \<Rightarrow> u64 \<Rightarrow> 'w SessionManager" where
  "RemoveSession nc sm sessionID =
    (case sm_GetSession sm sessionID of None \<Rightarrow> sm
     | Some sess \<Rightarrow>
        (let sm = sm\<lparr>sm_sessions := sm_sessions sm - {sessionID}\<rparr>;
             sm = with_session sessionID (\<lambda>s. s\<lparr>s_subscribedThreads := None, s_subscribedChannels := None\<rparr>) sm;
             sm = sm\<lparr>sm_threadSubscribers := drop_subscriber sessionID (threads_of sess) (sm_threadSubscribers sm),
                     sm_channelSubscribers := drop_subscriber sessionID (channels_of sess) (sm_channelSubscribers sm)\<rparr>;
             sm = with_session sessionID (\<lambda>s. s\<lparr>s_Conn := conn_Close nc (s_Conn s)\<rparr>) sm
         in sm\<lparr>sm_db := DeleteSession (sm_db sm) (s_DBSessionID sess)\<rparr>))"

definition UpdateNickname :: "'w SessionManager \<Rightarrow> u64 \<Rightarrow> gostring \<Rightarrow> server_error option \<times> 'w SessionManager" where
  "UpdateNickname sm sessionID nickname =
    (case sm_GetSession sm sessionID of None \<Rightarrow> (Some (ErrNew (lit ''session not found'')), sm)
     | Some sess \<Rightarrow>
        (let sm = with_session sessionID (\<lambda>s. s\<lparr>s_Nickname := nickname\<rparr>) sm
         in (None, sm\<lparr>sm_db := snd (UpdateSessionNickname (sm_db sm) (s_DBSessionID sess) nickname)\<rparr>)))"

text \<open>"now - lastUpdate" wraps; the compare-and-swap succeeds, as no other goroutine writes in between.\<close>

definition sm_UpdateSessionActivity :: "'w SessionManager \<Rightarrow> i64 list \<Rightarrow> u64 \<Rightarrow> i64 \<Rightarrow> ('w SessionManager \<times> i64 list) run" where
  "sm_UpdateSessionActivity sm clock sessionID now =
    (case sm_objects sm sessionID of None \<Rightarrow> Panics
     | Some sess \<Rightarrow>
        if sint (now - s_lastActivityUpdateTime sess) \<ge> sint (sm_activityUpdateIntervalMs sm) then
          (let sm = with_session sessionID (\<lambda>s. s\<lparr>s_lastActivityUpdateTime := now\<rparr>) sm in
           run_then (needs_clock (UpdateSessionActivity (sm_db sm) clock (s_DBSessionID sess)))
             (\<lambda>(err, db, clock). Returns (sm\<lparr>sm_db := db\<rparr>, clock)))
        else Returns (sm, clock))"

definition SetJoinedChannel :: "'w SessionManager \<Rightarrow> u64 \<Rightarrow> i64 option \<Rightarrow> server_error option \<times> 'w SessionManager" where
  "SetJoinedChannel sm sessionID channelID =
    (case sm_GetSession sm sessionID of None \<Rightarrow> (Some (ErrNew (lit ''session not found'')), sm)
     | Some sess \<Rightarrow> (None, with_session sessionID (\<lambda>s. s\<lparr>s_JoinedChannel := channelID\<rparr>) sm))"

definition CountOnlineUsers :: "'w SessionManager \<Rightarrow> u32" where
  "CountOnlineUsers sm = of_nat (card (sm_sessions sm))"

definition close_one :: "'w net_conn \<Rightarrow> u64 \<Rightarrow> 'w SessionManager \<Rightarrow> 'w SessionManager" where
  "close_one nc i sm =
    (case sm_objects sm i of None \<Rightarrow> sm
     | Some sess \<Rightarrow>
        (with_session i (\<lambda>s. s\<lparr>s_Conn := conn_Close nc (s_Conn s)\<rparr>) sm)
          \<lparr>sm_db := DeleteSession (sm_db sm) (s_DBSessionID sess)\<rparr>)"

definition CloseAll :: "'w net_conn \<Rightarrow> (u64 set \<Rightarrow> u64 list) \<Rightarrow> 'w SessionManager \<Rightarrow> 'w SessionManager" where
  "CloseAll nc order sm = (fold (close_one nc) (order (sm_sessions sm)) sm)\<lparr>sm_sessions := {}\<rparr>"

section \<open>Subscriptions\<close>

text \<open>Writing to a nil map panics; deleting from one and reading one do not.\<close>

definition SubscribeToThread :: "'w SessionManager \<Rightarrow> u64 \<Rightarrow> u64 \<Rightarrow> ChannelSubscription \<Rightarrow> 'w SessionManager run" where
  "SubscribeToThread sm i threadID channelSub =
    (case sm_objects sm i of None \<Rightarrow> Panics
     | Some sess \<Rightarrow>
        (case s_subscribedThreads sess of None \<Rightarrow> Panics
         | Some ts \<Rightarrow>
            Returns ((with_session i (\<lambda>s. s\<lparr>s_subscribedThreads := Some (ts(threadID \<mapsto> channelSub))\<rparr>) sm)
              \<lparr>sm_threadSubscribers := add_subscriber (s_ID sess) threadID (sm_threadSubscribers sm)\<rparr>)))"

definition UnsubscribeFromThread :: "'w SessionManager \<Rightarrow> u64 \<Rightarrow> u64 \<Rightarrow> 'w SessionManager run" where
  "UnsubscribeFromThread sm i threadID =
    (case sm_objects sm i of None \<Rightarrow> Panics
     | Some sess \<Rightarrow>
        Returns ((with_session i (\<lambda>s. s\<lparr>s_subscribedThreads := map_option (\<lambda>ts. ts(threadID := None)) (s_subscribedThreads s)\<rparr>) sm)
          \<lparr>sm_threadSubscribers := drop_subscriber (s_ID sess) {threadID} (sm_threadSubscribers sm)\<rparr>))"

definition SubscribeToChannel :: "'w SessionManager \<Rightarrow> u64 \<Rightarrow> ChannelSubscription \<Rightarrow> 'w SessionManager run" where
  "SubscribeToChannel sm i channelSub =
    (case sm_objects sm i of None \<Rightarrow> Panics
     | Some sess \<Rightarrow>
        (case s_subscribedChannels sess of None \<Rightarrow> Panics
         | Some cs \<Rightarrow>
            Returns ((with_session i (\<lambda>s. s\<lparr>s_subscribedChannels := Some (insert channelSub cs)\<rparr>) sm)
              \<lparr>sm_channelSubscribers := add_subscriber (s_ID sess) channelSub (sm_channelSubscribers sm)\<rparr>)))"

definition UnsubscribeFromChannel :: "'w SessionManager \<Rightarrow> u64 \<Rightarrow> ChannelSubscription \<Rightarrow> 'w SessionManager run" where
  "UnsubscribeFromChannel sm i channelSub =
    (case sm_objects sm i of None \<Rightarrow> Panics
     | Some sess \<Rightarrow>
        Returns ((with_session i (\<lambda>s. s\<lparr>s_subscribedChannels := map_option (\<lambda>cs. cs - {channelSub}) (s_subscribedChannels s)\<rparr>) sm)
          \<lparr>sm_channelSubscribers := drop_subscriber (s_ID sess) {channelSub} (sm_channelSubscribers sm)\<rparr>))"

definition GetThreadSubscribers :: "(u64 set \<Rightarrow> u64 list) \<Rightarrow> 'w SessionManager \<Rightarrow> u64 \<Rightarrow> u64 list" where
  "GetThreadSubscribers order sm threadID =
    (if set_at (sm_threadSubscribers sm) threadID = {} then [] else order (set_at (sm_threadSubscribers sm) threadID))"

definition GetChannelSubscribers :: "(u64 set \<Rightarrow> u64 list) \<Rightarrow> 'w SessionManager \<Rightarrow> ChannelSubscription \<Rightarrow> u64 list" where
  "GetChannelSubscribers order sm channelSub =
    (if set_at (sm_channelSubscribers sm) channelSub = {} then [] else order (set_at (sm_channelSubscribers sm) channelSub))"

definition IsSubscribedToThread :: "'w Session \<Rightarrow> u64 \<Rightarrow> ChannelSubscription \<times> bool" where
  "IsSubscribedToThread sess threadID =
    (case s_subscribedThreads sess of None \<Rightarrow> (\<lparr>cs_ChannelID = 0, cs_SubchannelID = None\<rparr>, False)
     | Some ts \<Rightarrow> (case ts threadID of None \<Rightarrow> (\<lparr>cs_ChannelID = 0, cs_SubchannelID = None\<rparr>, False) | Some cs \<Rightarrow> (cs, True)))"

definition IsSubscribedToChannel :: "'w Session \<Rightarrow> ChannelSubscription \<Rightarrow> bool" where
  "IsSubscribedToChannel sess channelSub \<longleftrightarrow> channelSub \<in> channels_of sess"

definition ThreadSubscriptionCount :: "'w Session \<Rightarrow> nat" where
  "ThreadSubscriptionCount sess = card (threads_of sess)"

definition ChannelSubscriptionCount :: "'w Session \<Rightarrow> nat" where
  "ChannelSubscriptionCount sess = card (channels_of sess)"

end
