(* ===== verification/SrvIndex.thy ===== *)
theory SrvIndex imports SrvSession begin

text \<open>
  The contract of the session manager: every operation of "pkg/server/session.go" keeps the reverse indexes equal to
  what the sessions themselves subscribe to. The two indexes are the same structure over two kinds of key,
  the locale subscriptions.
\<close>

named_theorems keeps_sm \<open>operations that keep the session manager well formed\<close>

section \<open>One reverse index\<close>

locale subscriptions =
  fixes keys :: "'w Session \<Rightarrow> 'k set"
  assumes keys_nil: "keys (s\<lparr>s_subscribedThreads := None, s_subscribedChannels := None\<rparr>) = {}"
    and keys_conn: "keys (s\<lparr>s_Conn := c\<rparr>) = keys s"
begin

text \<open>The index lists a session under the keys it subscribes to and no other, and has no empty sets.\<close>

definition matches :: "(u64 \<rightharpoonup> 'w Session) \<Rightarrow> ('k \<rightharpoonup> u64 set) \<Rightarrow> bool" where
  "matches objs idx \<longleftrightarrow> (\<forall>k i. i \<in> set_at idx k \<longleftrightarrow> (\<exists>s. objs i = Some s \<and> k \<in> keys s)) \<and> (\<forall>k. idx k \<noteq> Some {})"

lemma matchesD: "matches objs idx \<Longrightarrow> i \<in> set_at idx k \<longleftrightarrow> (\<exists>s. objs i = Some s \<and> k \<in> keys s)"
  by (simp add: matches_def)

lemma matches_empty: "matches Map.empty Map.empty"
  by (simp add: matches_def set_at_def)

lemma matches_new:
  assumes "matches objs idx" and "objs i = None" and "keys s = {}"
  shows "matches (objs(i \<mapsto> s)) idx"
  using assms unfolding matches_def by auto

lemma matches_modify:
  assumes "matches objs idx" and "\<And>s. objs i = Some s \<Longrightarrow> keys (f s) = keys s"
  shows "matches (modify i f objs) idx"
  using assms unfolding matches_def modify_apply by (auto split: if_splits)

lemma matches_add:
  assumes "matches objs idx" and "objs i = Some s" and "keys (f s) = insert k (keys s)"
  shows "matches (modify i f objs) (add_subscriber i k idx)"
  using assms unfolding matches_def modify_apply by (auto simp: add_subscriber_def set_at_def)

lemma set_at_drop: "set_at (drop_subscriber i K idx) k = (if k \<in> K then set_at idx k - {i} else set_at idx k)"
  by (auto simp: set_at_def drop_subscriber_def split: option.splits)

lemma matches_drop:
  assumes m: "matches objs idx" and "objs i = Some s" and "keys (f s) = keys s - K"
  shows "matches (modify i f objs) (drop_subscriber i K idx)"
proof -
  have "drop_subscriber i K idx k \<noteq> Some {}" for k
    using m by (auto simp: matches_def drop_subscriber_def split: option.splits)
  then show ?thesis
    using assms unfolding matches_def modify_apply set_at_drop by auto
qed

lemma matches_close:
  assumes m: "matches objs idx" and s: "objs i = Some s"
  shows "matches (modify i (\<lambda>s. s\<lparr>s_subscribedThreads := None, s_subscribedChannels := None\<rparr>) objs)
    (drop_subscriber i (keys s) idx)"
  by (rule matches_drop [OF m s]) (simp add: keys_nil)

end

interpretation by_threads: subscriptions threads_of
  by unfold_locales (simp_all add: threads_of_def)

interpretation by_channels: subscriptions channels_of
  by unfold_locales (simp_all add: channels_of_def)

section \<open>The session manager\<close>

text \<open>
  Every registered session has an object, an object sits under its own id and below the next one, its
  subscription maps are nil exactly when it is no longer registered, and both indexes match.
\<close>

definition session_ok :: "u64 set \<Rightarrow> u64 \<Rightarrow> 'w Session \<Rightarrow> bool" where
  "session_ok registered i s \<longleftrightarrow> s_ID s = i \<and> (s_subscribedThreads s \<noteq> None \<longleftrightarrow> i \<in> registered) \<and>
     (s_subscribedChannels s \<noteq> None \<longleftrightarrow> i \<in> registered) \<and> finite (channels_of s)"

definition live_maps :: "'w SessionManager \<Rightarrow> bool" where
  "live_maps sm \<longleftrightarrow> (\<forall>i s. sm_objects sm i = Some s \<longrightarrow> session_ok (sm_sessions sm) i s)"

definition sm_ok :: "'w SessionManager \<Rightarrow> bool" where
  "sm_ok sm \<longleftrightarrow> finite (sm_sessions sm) \<and> sm_sessions sm \<subseteq> dom (sm_objects sm) \<and>
     (\<forall>i \<in> dom (sm_objects sm). i < sm_nextID sm) \<and> live_maps sm \<and>
     by_threads.matches (sm_objects sm) (sm_threadSubscribers sm) \<and>
     by_channels.matches (sm_objects sm) (sm_channelSubscribers sm)"

lemma sm_ok_new: "sm_ok (NewSessionManager db t)"
  by (simp add: sm_ok_def live_maps_def NewSessionManager_def by_threads.matches_empty by_channels.matches_empty)

lemma sm_ok_db [simp]: "sm_ok (sm\<lparr>sm_db := db\<rparr>) = sm_ok sm"
  by (simp add: sm_ok_def live_maps_def)

text \<open>A write to a session that leaves its id and its subscriptions alone.\<close>

definition same_subscriptions :: "('w Session \<Rightarrow> 'w Session) \<Rightarrow> bool" where
  "same_subscriptions f \<longleftrightarrow> (\<forall>s. s_ID (f s) = s_ID s \<and> s_subscribedThreads (f s) = s_subscribedThreads s \<and>
     s_subscribedChannels (f s) = s_subscribedChannels s)"

lemma session_ok_same: "session_ok S i s \<Longrightarrow> same_subscriptions f \<Longrightarrow> session_ok S i (f s)"
  by (simp add: session_ok_def same_subscriptions_def channels_of_def)

lemma live_maps_modify:
  assumes "live_maps sm" and "\<And>s. sm_objects sm i = Some s \<Longrightarrow> session_ok (sm_sessions sm) i (f s)"
  shows "live_maps (with_session i f sm)"
  using assms by (auto simp: live_maps_def with_session_def modify_apply split: if_splits)

lemma sm_ok_with_session [keeps_sm]:
  assumes ok: "sm_ok sm" and same: "same_subscriptions f"
  shows "sm_ok (with_session i f sm)"
proof -
  have keys: "threads_of (f s) = threads_of s" "channels_of (f s) = channels_of s" for s
    using same by (simp_all add: same_subscriptions_def threads_of_def channels_of_def)
  have "live_maps (with_session i f sm)"
    by (rule live_maps_modify) (use ok session_ok_same [OF _ same] in \<open>auto simp: sm_ok_def live_maps_def\<close>)
  moreover have "by_threads.matches (modify i f (sm_objects sm)) (sm_threadSubscribers sm)"
    by (rule by_threads.matches_modify) (use ok keys in \<open>auto simp: sm_ok_def\<close>)
  moreover have "by_channels.matches (modify i f (sm_objects sm)) (sm_channelSubscribers sm)"
    by (rule by_channels.matches_modify) (use ok keys in \<open>auto simp: sm_ok_def\<close>)
  ultimately show ?thesis using ok by (simp add: sm_ok_def with_session_def)
qed

lemma same_subscriptions_simps [simp]:
  "same_subscriptions (\<lambda>s. s\<lparr>s_Nickname := n\<rparr>)" "same_subscriptions (\<lambda>s. s\<lparr>s_JoinedChannel := j\<rparr>)"
  "same_subscriptions (\<lambda>s. s\<lparr>s_lastActivityUpdateTime := t\<rparr>)" "same_subscriptions (\<lambda>s. s\<lparr>s_Conn := g (s_Conn s)\<rparr>)"
  "same_subscriptions (\<lambda>s. s\<lparr>s_UserID := u\<rparr>)" "same_subscriptions (\<lambda>s. s\<lparr>s_UserID := u, s_UserFlags := f\<rparr>)"
  "same_subscriptions (\<lambda>s. s\<lparr>s_UserID := u, s_Nickname := n, s_UserFlags := f, s_Shadowbanned := b\<rparr>)"
  by (simp_all add: same_subscriptions_def)

lemma sm_ok_create:
  assumes ok: "sm_ok sm" and room: "sm_nextID sm \<noteq> - 1"
    and run: "sm_CreateSession sm clock u n ct c a = Returns (i, sm', clock')"
  shows "sm_ok sm' \<and> i = sm_nextID sm \<and> sm_objects sm i = None \<and> sm_sessions sm' = insert i (sm_sessions sm)"
proof -
  from run obtain m d where sm': "i = sm_nextID sm" "sm' = sm\<lparr>sm_db := m, sm_nextID := sm_nextID sm + 1,
      sm_objects := (sm_objects sm)(sm_nextID sm \<mapsto>
        \<lparr>s_ID = sm_nextID sm, s_DBSessionID = d, s_UserID = u, s_Nickname = n,
         s_UserFlags = 0, s_Shadowbanned = False, s_Conn = c, s_RemoteAddr = a, s_JoinedChannel = None,
         s_lastActivityUpdateTime = 0, s_subscribedThreads = Some Map.empty, s_subscribedChannels = Some {}\<rparr>),
      sm_sessions := insert (sm_nextID sm) (sm_sessions sm)\<rparr>"
    by (auto simp: sm_CreateSession_def Let_def elim!: run_then_ReturnsE)
  have new: "sm_objects sm (sm_nextID sm) = None" using ok by (auto simp: sm_ok_def domIff)
  have "unat (sm_nextID sm + 1) = Suc (unat (sm_nextID sm))"
    using unatSuc [of "sm_nextID sm"] room by (simp add: add.commute add_eq_0_iff)
  then have above: "j < sm_nextID sm \<or> j = sm_nextID sm \<Longrightarrow> j < sm_nextID sm + 1" for j by (auto simp: word_less_nat_alt)
  have "live_maps sm'" using ok new by (auto simp: sm' sm_ok_def live_maps_def session_ok_def channels_of_def)
  moreover have "by_threads.matches (sm_objects sm') (sm_threadSubscribers sm)"
    unfolding sm' using ok new by (auto simp: sm_ok_def threads_of_def intro: by_threads.matches_new)
  moreover have "by_channels.matches (sm_objects sm') (sm_channelSubscribers sm)"
    unfolding sm' using ok new by (auto simp: sm_ok_def channels_of_def intro: by_channels.matches_new)
  ultimately show ?thesis using ok new above by (auto simp: sm_ok_def sm')
qed

text \<open>A session leaves: its subscriptions go from both indexes.\<close>

lemma sm_ok_remove [keeps_sm]:
  assumes ok: "sm_ok sm"
  shows "sm_ok (RemoveSession nc sm i)"
proof (cases "sm_GetSession sm i")
  case (Some sess)
  then have i: "i \<in> sm_sessions sm" "sm_objects sm i = Some sess" by (auto simp: sm_GetSession_def split: if_splits)
  let ?nil = "\<lambda>s. s\<lparr>s_subscribedThreads := None, s_subscribedChannels := None\<rparr>"
  let ?sm = "sm\<lparr>sm_sessions := sm_sessions sm - {i}, sm_objects := modify i ?nil (sm_objects sm),
    sm_threadSubscribers := drop_subscriber i (threads_of sess) (sm_threadSubscribers sm),
    sm_channelSubscribers := drop_subscriber i (channels_of sess) (sm_channelSubscribers sm)\<rparr>"
  have "live_maps ?sm"
    using ok i by (auto simp: sm_ok_def live_maps_def session_ok_def modify_apply channels_of_def split: if_splits)
  moreover have "by_threads.matches (sm_objects ?sm) (sm_threadSubscribers ?sm)"
    using by_threads.matches_close [where objs = "sm_objects sm" and i = i, OF _ i(2)] ok by (simp add: sm_ok_def)
  moreover have "by_channels.matches (sm_objects ?sm) (sm_channelSubscribers ?sm)"
    using by_channels.matches_close [where objs = "sm_objects sm" and i = i, OF _ i(2)] ok by (simp add: sm_ok_def)
  ultimately have "sm_ok ?sm" using ok by (auto simp: sm_ok_def)
  then have "sm_ok (with_session i (\<lambda>s. s\<lparr>s_Conn := conn_Close nc (s_Conn s)\<rparr>) ?sm)"
    by (rule sm_ok_with_session) simp
  then show ?thesis by (simp add: RemoveSession_def Some Let_def with_session_def)
qed (simp add: RemoveSession_def ok)

lemma sm_ok_UpdateNickname [keeps_sm]: "sm_ok sm \<Longrightarrow> sm_ok (snd (UpdateNickname sm i n))"
  by (auto simp: UpdateNickname_def Let_def sm_ok_with_session split: option.split)

lemma sm_ok_SetJoinedChannel [keeps_sm]: "sm_ok sm \<Longrightarrow> sm_ok (snd (SetJoinedChannel sm i c))"
  by (auto simp: SetJoinedChannel_def sm_ok_with_session split: option.split)

lemma sm_ok_UpdateSessionActivity [keeps_sm]:
  "sm_ok sm \<Longrightarrow> sm_UpdateSessionActivity sm clock i now = Returns (sm', clock') \<Longrightarrow> sm_ok sm'"
  by (auto simp: sm_UpdateSessionActivity_def Let_def sm_ok_with_session elim!: run_then_ReturnsE split: option.splits if_splits)

lemma sm_ok_session: "sm_ok sm \<Longrightarrow> sm_objects sm i = Some s \<Longrightarrow> session_ok (sm_sessions sm) i s"
  by (simp add: sm_ok_def live_maps_def)

text \<open>Subscribing: it returns exactly for a registered session, and the index follows.\<close>

lemma SubscribeToThread_Returns:
  assumes ok: "sm_ok sm" and s: "sm_objects sm i = Some sess"
  shows "SubscribeToThread sm i t cs = (if i \<in> sm_sessions sm then
    Returns ((with_session i (\<lambda>s. s\<lparr>s_subscribedThreads := Some ((the (s_subscribedThreads sess))(t \<mapsto> cs))\<rparr>) sm)
      \<lparr>sm_threadSubscribers := add_subscriber i t (sm_threadSubscribers sm)\<rparr>) else Panics)"
  using sm_ok_session [OF ok s] s
  by (cases "s_subscribedThreads sess") (auto simp: SubscribeToThread_def session_ok_def)

lemma sm_ok_SubscribeToThread [keeps_sm]:
  assumes ok: "sm_ok sm" and run: "SubscribeToThread sm i t cs = Returns sm'"
  shows "sm_ok sm'"
proof -
  obtain sess where s: "sm_objects sm i = Some sess" using run by (auto simp: SubscribeToThread_def split: option.splits)
  let ?f = "\<lambda>s :: 'a Session. s\<lparr>s_subscribedThreads := Some ((the (s_subscribedThreads sess))(t \<mapsto> cs))\<rparr>"
  from run have i: "i \<in> sm_sessions sm" and sm': "sm' = (with_session i ?f sm)
      \<lparr>sm_threadSubscribers := add_subscriber i t (sm_threadSubscribers sm)\<rparr>"
    unfolding SubscribeToThread_Returns [OF ok s] by (auto split: if_splits)
  have maps: "s_subscribedThreads sess \<noteq> None" "session_ok (sm_sessions sm) i sess"
    using ok s i by (auto simp: sm_ok_def live_maps_def session_ok_def)
  have "live_maps (with_session i ?f sm)"
    by (rule live_maps_modify) (use ok s i maps in \<open>auto simp: sm_ok_def session_ok_def channels_of_def\<close>)
  moreover have "by_threads.matches (modify i ?f (sm_objects sm)) (add_subscriber i t (sm_threadSubscribers sm))"
    by (rule by_threads.matches_add [where objs = "sm_objects sm" and i = i, OF _ s]) (use ok maps(1) in \<open>auto simp: sm_ok_def threads_of_def\<close>)
  moreover have "by_channels.matches (modify i ?f (sm_objects sm)) (sm_channelSubscribers sm)"
    by (rule by_channels.matches_modify) (use ok in \<open>auto simp: sm_ok_def channels_of_def\<close>)
  ultimately show ?thesis using ok by (simp add: sm' sm_ok_def with_session_def live_maps_def)
qed

lemma SubscribeToChannel_Returns:
  assumes ok: "sm_ok sm" and s: "sm_objects sm i = Some sess"
  shows "SubscribeToChannel sm i cs = (if i \<in> sm_sessions sm then
    Returns ((with_session i (\<lambda>s. s\<lparr>s_subscribedChannels := Some (insert cs (channels_of sess))\<rparr>) sm)
      \<lparr>sm_channelSubscribers := add_subscriber i cs (sm_channelSubscribers sm)\<rparr>) else Panics)"
  using sm_ok_session [OF ok s] s
  by (cases "s_subscribedChannels sess") (auto simp: SubscribeToChannel_def session_ok_def channels_of_def)

lemma sm_ok_SubscribeToChannel [keeps_sm]:
  assumes ok: "sm_ok sm" and run: "SubscribeToChannel sm i cs = Returns sm'"
  shows "sm_ok sm'"
proof -
  obtain sess where s: "sm_objects sm i = Some sess" using run by (auto simp: SubscribeToChannel_def split: option.splits)
  let ?f = "\<lambda>s :: 'a Session. s\<lparr>s_subscribedChannels := Some (insert cs (channels_of sess))\<rparr>"
  from run have i: "i \<in> sm_sessions sm" and sm': "sm' = (with_session i ?f sm)
      \<lparr>sm_channelSubscribers := add_subscriber i cs (sm_channelSubscribers sm)\<rparr>"
    unfolding SubscribeToChannel_Returns [OF ok s] by (auto split: if_splits)
  have maps: "session_ok (sm_sessions sm) i sess" using ok s by (auto simp: sm_ok_def live_maps_def)
  have "live_maps (with_session i ?f sm)"
    by (rule live_maps_modify) (use ok s i maps in \<open>auto simp: sm_ok_def session_ok_def channels_of_def\<close>)
  moreover have "by_channels.matches (modify i ?f (sm_objects sm)) (add_subscriber i cs (sm_channelSubscribers sm))"
    by (rule by_channels.matches_add [where objs = "sm_objects sm" and i = i, OF _ s]) (use ok in \<open>auto simp: sm_ok_def channels_of_def\<close>)
  moreover have "by_threads.matches (modify i ?f (sm_objects sm)) (sm_threadSubscribers sm)"
    by (rule by_threads.matches_modify) (use ok in \<open>auto simp: sm_ok_def threads_of_def\<close>)
  ultimately show ?thesis using ok by (simp add: sm' sm_ok_def with_session_def live_maps_def)
qed

lemma sm_ok_UnsubscribeFromThread [keeps_sm]:
  assumes ok: "sm_ok sm" and run: "UnsubscribeFromThread sm i t = Returns sm'"
  shows "sm_ok sm'"
proof -
  let ?f = "\<lambda>s :: 'a Session. s\<lparr>s_subscribedThreads := map_option (\<lambda>ts. ts(t := None)) (s_subscribedThreads s)\<rparr>"
  obtain sess where s: "sm_objects sm i = Some sess" using run by (auto simp: UnsubscribeFromThread_def split: option.splits)
  have so: "session_ok (sm_sessions sm) i sess" using ok s by (auto simp: sm_ok_def live_maps_def)
  then have sm': "sm' = (with_session i ?f sm)\<lparr>sm_threadSubscribers := drop_subscriber i {t} (sm_threadSubscribers sm)\<rparr>"
    using run s by (auto simp: UnsubscribeFromThread_def session_ok_def)
  have "live_maps (with_session i ?f sm)"
    by (rule live_maps_modify) (use ok s so in \<open>auto simp: sm_ok_def session_ok_def channels_of_def\<close>)
  moreover have "by_threads.matches (modify i ?f (sm_objects sm)) (drop_subscriber i {t} (sm_threadSubscribers sm))"
    by (rule by_threads.matches_drop [where objs = "sm_objects sm" and i = i, OF _ s]) (use ok in \<open>auto simp: sm_ok_def threads_of_def split: option.splits if_splits\<close>)
  moreover have "by_channels.matches (modify i ?f (sm_objects sm)) (sm_channelSubscribers sm)"
    by (rule by_channels.matches_modify) (use ok in \<open>auto simp: sm_ok_def channels_of_def\<close>)
  ultimately show ?thesis using ok by (simp add: sm' sm_ok_def with_session_def live_maps_def)
qed

lemma sm_ok_UnsubscribeFromChannel [keeps_sm]:
  assumes ok: "sm_ok sm" and run: "UnsubscribeFromChannel sm i cs = Returns sm'"
  shows "sm_ok sm'"
proof -
  let ?f = "\<lambda>s :: 'a Session. s\<lparr>s_subscribedChannels := map_option (\<lambda>c. c - {cs}) (s_subscribedChannels s)\<rparr>"
  obtain sess where s: "sm_objects sm i = Some sess" using run by (auto simp: UnsubscribeFromChannel_def split: option.splits)
  have so: "session_ok (sm_sessions sm) i sess" using ok s by (auto simp: sm_ok_def live_maps_def)
  then have sm': "sm' = (with_session i ?f sm)\<lparr>sm_channelSubscribers := drop_subscriber i {cs} (sm_channelSubscribers sm)\<rparr>"
    using run s by (auto simp: UnsubscribeFromChannel_def session_ok_def)
  have "live_maps (with_session i ?f sm)"
    by (rule live_maps_modify) (use ok s so in \<open>auto simp: sm_ok_def session_ok_def channels_of_def split: option.splits\<close>)
  moreover have "by_channels.matches (modify i ?f (sm_objects sm)) (drop_subscriber i {cs} (sm_channelSubscribers sm))"
    by (rule by_channels.matches_drop [where objs = "sm_objects sm" and i = i, OF _ s]) (use ok in \<open>auto simp: sm_ok_def channels_of_def split: option.splits\<close>)
  moreover have "by_threads.matches (modify i ?f (sm_objects sm)) (sm_threadSubscribers sm)"
    by (rule by_threads.matches_modify) (use ok in \<open>auto simp: sm_ok_def threads_of_def\<close>)
  ultimately show ?thesis using ok by (simp add: sm' sm_ok_def with_session_def live_maps_def)
qed

end
