(* ===== verification/SrvRefine.thy ===== *)
theory SrvRefine imports SrvIndex MemSnapshot begin

text \<open>
  What the session manager promises, and that it keeps it: abstractly it is a set of registered sessions and two
  relations, which session follows which thread and which channel. The reverse indexes, the maps inside the
  sessions and their cleaning up are how the code represents the two relations.
\<close>

section \<open>The abstract state and its operations\<close>

record follows =
  fl_known :: "u64 set"
  fl_registered :: "u64 set"
  fl_threads :: "(u64 \<times> u64) set"
  fl_channels :: "(u64 \<times> ChannelSubscription) set"

datatype session_op = OpSubscribeThread u64 u64 ChannelSubscription | OpUnsubscribeThread u64 u64
  | OpSubscribeChannel u64 ChannelSubscription | OpUnsubscribeChannel u64 ChannelSubscription
  | OpRemove u64 | OpNickname u64 gostring | OpJoin u64 "i64 option"

text \<open>What is asked of the caller: the pointer is one of a session, and to subscribe it must still be registered.\<close>

fun allowed :: "session_op \<Rightarrow> follows \<Rightarrow> bool" where
  "allowed (OpSubscribeThread i t cs) a = (i \<in> fl_registered a)"
| "allowed (OpSubscribeChannel i cs) a = (i \<in> fl_registered a)"
| "allowed (OpUnsubscribeThread i t) a = (i \<in> fl_known a)"
| "allowed (OpUnsubscribeChannel i cs) a = (i \<in> fl_known a)"
| "allowed _ a = True"

fun spec_exec :: "session_op \<Rightarrow> follows \<Rightarrow> follows" where
  "spec_exec (OpSubscribeThread i t cs) a = a\<lparr>fl_threads := insert (i, t) (fl_threads a)\<rparr>"
| "spec_exec (OpUnsubscribeThread i t) a = a\<lparr>fl_threads := fl_threads a - {(i, t)}\<rparr>"
| "spec_exec (OpSubscribeChannel i cs) a = a\<lparr>fl_channels := insert (i, cs) (fl_channels a)\<rparr>"
| "spec_exec (OpUnsubscribeChannel i cs) a = a\<lparr>fl_channels := fl_channels a - {(i, cs)}\<rparr>"
| "spec_exec (OpRemove i) a = a\<lparr>fl_registered := fl_registered a - {i},
     fl_threads := {(j, t) \<in> fl_threads a. j \<noteq> i}, fl_channels := {(j, cs) \<in> fl_channels a. j \<noteq> i}\<rparr>"
| "spec_exec _ a = a"

section \<open>The operations of the code\<close>

fun sm_exec :: "'w net_conn \<Rightarrow> session_op \<Rightarrow> 'w SessionManager \<Rightarrow> 'w SessionManager run" where
  "sm_exec nc (OpSubscribeThread i t cs) sm = SubscribeToThread sm i t cs"
| "sm_exec nc (OpUnsubscribeThread i t) sm = UnsubscribeFromThread sm i t"
| "sm_exec nc (OpSubscribeChannel i cs) sm = SubscribeToChannel sm i cs"
| "sm_exec nc (OpUnsubscribeChannel i cs) sm = UnsubscribeFromChannel sm i cs"
| "sm_exec nc (OpRemove i) sm = Returns (RemoveSession nc sm i)"
| "sm_exec nc (OpNickname i n) sm = Returns (snd (UpdateNickname sm i n))"
| "sm_exec nc (OpJoin i c) sm = Returns (snd (SetJoinedChannel sm i c))"

fun sm_exec_all :: "'w net_conn \<Rightarrow> session_op list \<Rightarrow> 'w SessionManager \<Rightarrow> 'w SessionManager run" where
  "sm_exec_all nc [] sm = Returns sm"
| "sm_exec_all nc (op # ops) sm = run_then (sm_exec nc op sm) (sm_exec_all nc ops)"

text \<open>The relations are read off the sessions themselves.\<close>

definition follows_of :: "'w SessionManager \<Rightarrow> follows" where
  "follows_of sm = \<lparr>fl_known = dom (sm_objects sm), fl_registered = sm_sessions sm,
     fl_threads = {(i, t). \<exists>s. sm_objects sm i = Some s \<and> t \<in> threads_of s},
     fl_channels = {(i, cs). \<exists>s. sm_objects sm i = Some s \<and> cs \<in> channels_of s}\<rparr>"

section \<open>The simulation\<close>

lemma follows_of_with_session:
  assumes "\<And>s. threads_of (f s) = threads_of s \<and> channels_of (f s) = channels_of s"
  shows "follows_of (with_session i f sm) = follows_of sm"
  by (auto simp: follows_of_def with_session_def modify_apply assms split: if_splits)

lemma follows_of_db [simp]: "follows_of (sm\<lparr>sm_db := m\<rparr>) = follows_of sm"
  by (simp add: follows_of_def)

lemma follows_of_index [simp]:
  "follows_of (sm\<lparr>sm_threadSubscribers := t\<rparr>) = follows_of sm" "follows_of (sm\<lparr>sm_channelSubscribers := c\<rparr>) = follows_of sm"
  by (simp_all add: follows_of_def)

lemma refines_SubscribeToThread:
  assumes ok: "sm_ok sm" and i: "i \<in> sm_sessions sm"
  shows "\<exists>sm'. SubscribeToThread sm i t cs = Returns sm' \<and> follows_of sm' = spec_exec (OpSubscribeThread i t cs) (follows_of sm)"
proof -
  obtain sess where s: "sm_objects sm i = Some sess" using ok i by (auto simp: sm_ok_def)
  have maps: "s_subscribedThreads sess \<noteq> None" using sm_ok_session [OF ok s] i by (simp add: session_ok_def)
  show ?thesis using SubscribeToThread_Returns [OF ok s, of t cs] i maps s
    by (auto simp: follows_of_def with_session_def modify_apply threads_of_def channels_of_def split: if_splits)
qed

lemma refines_UnsubscribeFromThread:
  assumes i: "i \<in> dom (sm_objects sm)"
  shows "\<exists>sm'. UnsubscribeFromThread sm i t = Returns sm' \<and> follows_of sm' = spec_exec (OpUnsubscribeThread i t) (follows_of sm)"
proof -
  obtain sess where s: "sm_objects sm i = Some sess" using i by auto
  then show ?thesis
    by (cases "s_subscribedThreads sess")
      (auto simp: UnsubscribeFromThread_def follows_of_def with_session_def modify_apply threads_of_def channels_of_def
        split: if_splits)
qed

lemma refines_SubscribeToChannel:
  assumes ok: "sm_ok sm" and i: "i \<in> sm_sessions sm"
  shows "\<exists>sm'. SubscribeToChannel sm i cs = Returns sm' \<and> follows_of sm' = spec_exec (OpSubscribeChannel i cs) (follows_of sm)"
proof -
  obtain sess where s: "sm_objects sm i = Some sess" using ok i by (auto simp: sm_ok_def)
  show ?thesis using SubscribeToChannel_Returns [OF ok s, of cs] i s
    by (auto simp: follows_of_def with_session_def modify_apply threads_of_def channels_of_def split: if_splits)
qed

lemma refines_UnsubscribeFromChannel:
  assumes i: "i \<in> dom (sm_objects sm)"
  shows "\<exists>sm'. UnsubscribeFromChannel sm i cs = Returns sm' \<and> follows_of sm' = spec_exec (OpUnsubscribeChannel i cs) (follows_of sm)"
proof -
  obtain sess where s: "sm_objects sm i = Some sess" using i by auto
  then show ?thesis
    by (cases "s_subscribedChannels sess")
      (auto simp: UnsubscribeFromChannel_def follows_of_def with_session_def modify_apply threads_of_def channels_of_def
        split: if_splits)
qed

lemma refines_RemoveSession:
  assumes ok: "sm_ok sm"
  shows "follows_of (RemoveSession nc sm i) = spec_exec (OpRemove i) (follows_of sm)"
proof (cases "i \<in> sm_sessions sm")
  case True
  then obtain sess where s: "sm_objects sm i = Some sess" using ok by (auto simp: sm_ok_def)
  with True show ?thesis
    by (auto simp: RemoveSession_def sm_GetSession_def Let_def follows_of_def with_session_def modify_apply threads_of_def
        channels_of_def split: if_splits)
next
  case False
  have "threads_of s = {} \<and> channels_of s = {}" if "sm_objects sm i = Some s" for s
    using sm_ok_session [OF ok that] False by (auto simp: session_ok_def threads_of_def channels_of_def)
  then have "spec_exec (OpRemove i) (follows_of sm) = follows_of sm" using False by (auto simp: follows_of_def)
  then show ?thesis using False by (simp add: RemoveSession_def sm_GetSession_def)
qed

lemma refines_step:
  assumes ok: "sm_ok sm"
  shows "if allowed op (follows_of sm) then \<exists>sm'. sm_exec nc op sm = Returns sm' \<and> sm_ok sm' \<and> follows_of sm' = spec_exec op (follows_of sm)
    else sm_exec nc op sm = Panics"
proof -
  have known: "fl_known (follows_of sm) = dom (sm_objects sm)" "fl_registered (follows_of sm) = sm_sessions sm"
    by (simp_all add: follows_of_def)
  show ?thesis
  proof (cases op)
    case (OpSubscribeThread i t cs)
    show ?thesis
    proof (cases "i \<in> sm_sessions sm")
      case True
      then show ?thesis using refines_SubscribeToThread [OF ok True, of t cs] sm_ok_SubscribeToThread [OF ok]
        by (fastforce simp: OpSubscribeThread known)
    next
      case False
      then show ?thesis using SubscribeToThread_Returns [OF ok] by (cases "sm_objects sm i")
        (auto simp: OpSubscribeThread known SubscribeToThread_def)
    qed
  next
    case (OpSubscribeChannel i cs)
    show ?thesis
    proof (cases "i \<in> sm_sessions sm")
      case True
      then show ?thesis using refines_SubscribeToChannel [OF ok True, of cs] sm_ok_SubscribeToChannel [OF ok]
        by (fastforce simp: OpSubscribeChannel known)
    next
      case False
      then show ?thesis using SubscribeToChannel_Returns [OF ok] by (cases "sm_objects sm i")
        (auto simp: OpSubscribeChannel known SubscribeToChannel_def)
    qed
  next
    case (OpUnsubscribeThread i t)
    show ?thesis
    proof (cases "i \<in> dom (sm_objects sm)")
      case True
      then show ?thesis using refines_UnsubscribeFromThread [OF True, of t] sm_ok_UnsubscribeFromThread [OF ok]
        by (fastforce simp: OpUnsubscribeThread known)
    qed (auto simp: OpUnsubscribeThread known UnsubscribeFromThread_def domIff)
  next
    case (OpUnsubscribeChannel i cs)
    show ?thesis
    proof (cases "i \<in> dom (sm_objects sm)")
      case True
      then show ?thesis using refines_UnsubscribeFromChannel [OF True, of cs] sm_ok_UnsubscribeFromChannel [OF ok]
        by (fastforce simp: OpUnsubscribeChannel known)
    qed (auto simp: OpUnsubscribeChannel known UnsubscribeFromChannel_def domIff)
  next
    case (OpRemove i)
    then show ?thesis using refines_RemoveSession [OF ok] sm_ok_remove [OF ok] by simp
  next
    case (OpNickname i n)
    then show ?thesis using sm_ok_UpdateNickname [OF ok]
      by (auto simp: UpdateNickname_def Let_def threads_of_def channels_of_def split: option.split
          intro!: follows_of_with_session [symmetric] follows_of_with_session)
  next
    case (OpJoin i c)
    then show ?thesis using sm_ok_SetJoinedChannel [OF ok]
      by (auto simp: SetJoinedChannel_def threads_of_def channels_of_def split: option.split
          intro!: follows_of_with_session [symmetric] follows_of_with_session)
  qed
qed

fun allowed_all :: "session_op list \<Rightarrow> follows \<Rightarrow> bool" where
  "allowed_all [] a = True"
| "allowed_all (op # ops) a = (allowed op a \<and> allowed_all ops (spec_exec op a))"

lemma refines_all:
  assumes "sm_ok sm" and "allowed_all ops (follows_of sm)"
  shows "\<exists>sm'. sm_exec_all nc ops sm = Returns sm' \<and> sm_ok sm' \<and> follows_of sm' = fold spec_exec ops (follows_of sm)"
  using assms
proof (induction ops arbitrary: sm)
  case (Cons op ops)
  from refines_step [OF Cons.prems(1), of op nc] Cons.prems(2) obtain sm1 where
    "sm_exec nc op sm = Returns sm1" "sm_ok sm1" "follows_of sm1 = spec_exec op (follows_of sm)" by auto
  with Cons.IH [of sm1] Cons.prems(2) show ?case by simp
qed simp

text \<open>The lookups read the relations.\<close>

lemma thread_lookup:
  assumes "sm_ok sm"
  shows "set_at (sm_threadSubscribers sm) t = {i. (i, t) \<in> fl_threads (follows_of sm)}"
    and "set_at (sm_channelSubscribers sm) cs = {i. (i, cs) \<in> fl_channels (follows_of sm)}"
  using assms by (auto simp: sm_ok_def follows_of_def dest: by_threads.matchesD by_channels.matchesD)

lemma follows_registered:
  assumes ok: "sm_ok sm"
  shows "{i. (i, t) \<in> fl_threads (follows_of sm)} \<subseteq> sm_sessions sm" "{i. (i, cs) \<in> fl_channels (follows_of sm)} \<subseteq> sm_sessions sm"
proof -
  have "threads_of s = {} \<and> channels_of s = {}" if "sm_objects sm i = Some s" "i \<notin> sm_sessions sm" for i s
    using sm_ok_session [OF ok that(1)] that(2) by (auto simp: session_ok_def threads_of_def channels_of_def)
  then show "{i. (i, t) \<in> fl_threads (follows_of sm)} \<subseteq> sm_sessions sm" "{i. (i, cs) \<in> fl_channels (follows_of sm)} \<subseteq> sm_sessions sm"
    by (auto simp: follows_of_def)
qed

text \<open>C3. The session manager implements two relations, which session follows which thread and which channel: any
  sequence of its operations that the caller may make returns and does to the relations what the specification says, and
  the lookups through the reverse indexes list exactly the sessions related. An operation the caller may not
  make, subscribing a session that was removed, panics.\<close>

theorem session_manager_refines:
  assumes "sm_ok sm" and "allowed_all ops (follows_of sm)" and "\<forall>S. finite S \<longrightarrow> set (order S) = S"
  shows "\<exists>sm'. sm_exec_all nc ops sm = Returns sm' \<and> follows_of sm' = fold spec_exec ops (follows_of sm) \<and>
    (\<forall>t. set (GetThreadSubscribers order sm' t) = {i. (i, t) \<in> fl_threads (fold spec_exec ops (follows_of sm))}) \<and>
    (\<forall>cs. set (GetChannelSubscribers order sm' cs) = {i. (i, cs) \<in> fl_channels (fold spec_exec ops (follows_of sm))}) \<and>
    (\<forall>op. \<not> allowed op (follows_of sm') \<longrightarrow> sm_exec nc op sm' = Panics)"
proof -
  from refines_all [OF assms(1,2)] obtain sm' where sm': "sm_exec_all nc ops sm = Returns sm'" "sm_ok sm'"
    "follows_of sm' = fold spec_exec ops (follows_of sm)" by blast
  have "finite (sm_sessions sm')" using sm'(2) by (simp add: sm_ok_def)
  then have "finite {i. (i, t) \<in> fl_threads (follows_of sm')}" "finite {i. (i, cs) \<in> fl_channels (follows_of sm')}" for t cs
    using follows_registered [OF sm'(2)] by (auto intro: finite_subset)
  then have "set (GetThreadSubscribers order sm' t) = {i. (i, t) \<in> fl_threads (follows_of sm')}"
    "set (GetChannelSubscribers order sm' cs) = {i. (i, cs) \<in> fl_channels (follows_of sm')}" for t cs
    using assms(3) thread_lookup [OF sm'(2)] by (auto simp: GetThreadSubscribers_def GetChannelSubscribers_def)
  moreover have "sm_exec nc op sm' = Panics" if "\<not> allowed op (follows_of sm')" for op
    using refines_step [OF sm'(2), of op nc] that by simp
  ultimately show ?thesis using sm'(1,3) by metis
qed

text \<open>One session subscribes to a channel and a thread, another to the thread only and leaves.\<close>

definition two_sessions :: "bytes SessionManager" where
  "two_sessions = (NewSessionManager (NewMemDB [] [] [] (NewSnowflake 0 1)) 120)
    \<lparr>sm_objects := (\<lambda>i. if i = 1 \<or> i = 2 then Some
        \<lparr>s_ID = i, s_DBSessionID = 0, s_UserID = None, s_Nickname = [], s_UserFlags = 0, s_Shadowbanned = False, s_Conn = [],
         s_RemoteAddr = [], s_JoinedChannel = None, s_lastActivityUpdateTime = 0, s_subscribedThreads = Some Map.empty,
         s_subscribedChannels = Some {}\<rparr> else None),
      sm_sessions := {1, 2}, sm_nextID := 3\<rparr>"

lemma two_sessions_ok: "sm_ok two_sessions"
  unfolding sm_ok_def two_sessions_def
  by (auto simp: NewSessionManager_def live_maps_def session_ok_def channels_of_def threads_of_def by_threads.matches_def
      by_channels.matches_def set_at_def split: if_splits)

lemma session_manager_refines_witness:
  "\<exists>sm'. sm_exec_all \<lparr>conn_writer = buffer, conn_Close = (\<lambda>b. b)\<rparr> [OpSubscribeThread 1 5 \<lparr>cs_ChannelID = 7, cs_SubchannelID = None\<rparr>,
      OpSubscribeThread 2 5 \<lparr>cs_ChannelID = 7, cs_SubchannelID = None\<rparr>, OpRemove 2] two_sessions = Returns sm' \<and>
    set (GetThreadSubscribers sorted_list_of_set sm' 5) = {1}"
proof -
  let ?ops = "[OpSubscribeThread 1 5 \<lparr>cs_ChannelID = 7, cs_SubchannelID = None\<rparr>,
      OpSubscribeThread 2 5 \<lparr>cs_ChannelID = 7, cs_SubchannelID = None\<rparr>, OpRemove 2]"
  have start: "fl_registered (follows_of two_sessions) = {1, 2}" "fl_threads (follows_of two_sessions) = {}"
    by (auto simp: follows_of_def two_sessions_def threads_of_def split: if_splits)
  have "allowed_all ?ops (follows_of two_sessions)" by (simp add: start)
  from session_manager_refines [OF two_sessions_ok this, of sorted_list_of_set "\<lparr>conn_writer = buffer, conn_Close = (\<lambda>b. b)\<rparr>"]
  obtain sm' where run: "sm_exec_all \<lparr>conn_writer = buffer, conn_Close = (\<lambda>b. b)\<rparr> ?ops two_sessions = Returns sm'"
    and subs: "set (GetThreadSubscribers sorted_list_of_set sm' 5) = {i. (i, 5) \<in> fl_threads (fold spec_exec ?ops (follows_of two_sessions))}"
    by auto
  have "fl_threads (fold spec_exec ?ops (follows_of two_sessions)) = {(1, 5)}" by (auto simp: start)
  then have "set (GetThreadSubscribers sorted_list_of_set sm' 5) = {1}" unfolding subs by (simp only: singleton_iff prod.inject) simp
  with run show ?thesis by blast
qed

end
