(* ===== verification/SrvState.thy ===== *)
theory SrvState imports WireProps SrvIndex MemThreads begin

text \<open>
  The state of "pkg/server/server.go" and what every handler is made of: reading a message, asking the store, asking
  SQLite, sending a message or an error to a session.

  Outside the model, and parameters of it (the record Env): the connections (net.Conn), the order in which
  Go ranges over the session maps, the methods of the SQLite store that MemDB only passes on, bcrypt, the parser of SSH
  keys, and the printing of a time. Each handler runs without interruption; logging and the
  Prometheus counters are left out.
\<close>

section \<open>Configuration\<close>

record ServerConfig =
  cfg_TCPPort :: int
  cfg_SSHPort :: int
  cfg_HTTPPort :: int
  cfg_SSHHostKeyPath :: gostring
  cfg_MaxConnectionsPerIP :: u8
  cfg_MessageRateLimit :: u16
  cfg_MaxChannelCreates :: u16
  cfg_InactiveCleanupDays :: u16
  cfg_MaxMessageLength :: u32
  cfg_SessionTimeoutSeconds :: int
  cfg_ProtocolVersion :: u8
  cfg_MaxThreadSubscriptions :: u16
  cfg_MaxChannelSubscriptions :: u16
  cfg_DirectoryEnabled :: bool
  cfg_PublicHostname :: gostring
  cfg_ServerName :: gostring
  cfg_ServerDesc :: gostring
  cfg_MaxUsers :: u32
  cfg_AdminUsers :: "gostring list"

definition DefaultConfig :: ServerConfig where
  "DefaultConfig =
    \<lparr>cfg_TCPPort = 6465, cfg_SSHPort = 6466, cfg_HTTPPort = 8080,
     cfg_SSHHostKeyPath = lit ''~/.superchat/ssh_host_key'',
     cfg_MaxConnectionsPerIP = 10, cfg_MessageRateLimit = 10, cfg_MaxChannelCreates = 5, cfg_InactiveCleanupDays = 90,
     cfg_MaxMessageLength = 4096, cfg_SessionTimeoutSeconds = 120, cfg_ProtocolVersion = 1,
     cfg_MaxThreadSubscriptions = 50, cfg_MaxChannelSubscriptions = 10, cfg_DirectoryEnabled = True,
     cfg_PublicHostname = lit ''localhost'', cfg_ServerName = lit ''SuperChat Server'',
     cfg_ServerDesc = lit ''A SuperChat server'', cfg_MaxUsers = 0, cfg_AdminUsers = []\<rparr>"

section \<open>Error codes\<close>

definition ErrCodeInvalidFormat :: u16 where
  "ErrCodeInvalidFormat = 1000"

definition ErrCodeUnsupportedVersion :: u16 where
  "ErrCodeUnsupportedVersion = 1001"

definition ErrCodeInvalidFrame :: u16 where
  "ErrCodeInvalidFrame = 1002"

definition ErrCodeAuthRequired :: u16 where
  "ErrCodeAuthRequired = 2000"

definition ErrCodePermissionDenied :: u16 where
  "ErrCodePermissionDenied = 3000"

definition ErrCodeNotFound :: u16 where
  "ErrCodeNotFound = 4000"

definition ErrCodeChannelNotFound :: u16 where
  "ErrCodeChannelNotFound = 4001"

definition ErrCodeMessageNotFound :: u16 where
  "ErrCodeMessageNotFound = 4002"

definition ErrCodeThreadNotFound :: u16 where
  "ErrCodeThreadNotFound = 4003"

definition ErrCodeSubchannelNotFound :: u16 where
  "ErrCodeSubchannelNotFound = 4004"

definition ErrCodeRateLimitExceeded :: u16 where
  "ErrCodeRateLimitExceeded = 5000"

definition ErrCodeMessageRateLimit :: u16 where
  "ErrCodeMessageRateLimit = 5001"

definition ErrCodeThreadSubscriptionLimit :: u16 where
  "ErrCodeThreadSubscriptionLimit = 5004"

definition ErrCodeChannelSubscriptionLimit :: u16 where
  "ErrCodeChannelSubscriptionLimit = 5005"

definition ErrCodeInvalidInput :: u16 where
  "ErrCodeInvalidInput = 6000"

definition ErrCodeMessageTooLong :: u16 where
  "ErrCodeMessageTooLong = 6001"

definition ErrCodeInvalidNickname :: u16 where
  "ErrCodeInvalidNickname = 6003"

definition ErrCodeNicknameRequired :: u16 where
  "ErrCodeNicknameRequired = 6004"

definition ErrCodeInternalError :: u16 where
  "ErrCodeInternalError = 9000"

definition ErrCodeDatabaseError :: u16 where
  "ErrCodeDatabaseError = 9001"

section \<open>The SQLite store behind MemDB\<close>

record DBUser =
  du_ID :: i64
  du_Nickname :: gostring
  du_UserFlags :: u8
  du_PasswordHash :: gostring
  du_CreatedAt :: i64
  du_LastSeen :: i64

record DBSSHKey =
  dk_ID :: i64
  dk_UserID :: i64
  dk_Fingerprint :: gostring
  dk_PublicKey :: gostring
  dk_KeyType :: gostring
  dk_Label :: "gostring option"
  dk_AddedAt :: i64
  dk_LastUsedAt :: "i64 option"

record DBBan =
  db_ID :: i64
  db_BanType :: gostring
  db_UserID :: "i64 option"
  db_Nickname :: "gostring option"
  db_IPCIDR :: "gostring option"
  db_Reason :: gostring
  db_Shadowban :: bool
  db_BannedAt :: i64
  db_BannedUntil :: "i64 option"
  db_BannedBy :: gostring

record DiscoveredServer =
  dv_ID :: i64
  dv_Hostname :: gostring
  dv_Port :: u16
  dv_Name :: gostring
  dv_Description :: gostring
  dv_MaxUsers :: u32
  dv_IsPublic :: bool
  dv_UserCount :: u32
  dv_UptimeSeconds :: u64
  dv_ChannelCount :: u32
  dv_LastHeartbeat :: i64
  dv_HeartbeatInterval :: u32
  dv_DiscoveredVia :: gostring
  dv_SourceIP :: gostring
  dv_CreatedAt :: i64

text \<open>sql.ErrNoRows is compared with, any other error only printed.\<close>

datatype sql_error = ErrNoRows | SQLErr gostring

definition sql_text :: "sql_error \<Rightarrow> gostring" where
  "sql_text e = (case e of ErrNoRows \<Rightarrow> lit ''sql: no rows in result set'' | SQLErr t \<Rightarrow> t)"

text \<open>helpers.go.\<close>

definition safeDeref :: "'a option \<Rightarrow> 'a \<Rightarrow> 'a" where
  "safeDeref ptr defaultVal = (case ptr of None \<Rightarrow> defaultVal | Some v \<Rightarrow> v)"

text \<open>The texts of the errors of the package.\<close>

definition db_text :: "db_error \<Rightarrow> gostring" where
  "db_text e = (case e of ErrMessageNotFound \<Rightarrow> lit ''message not found''
     | ErrMessageNotOwned \<Rightarrow> lit ''cannot delete message not authored by this nickname'' | ErrMessageAlreadyDeleted \<Rightarrow> lit ''message already deleted''
     | ErrText t \<Rightarrow> t)"

text \<open>One field per method of database.DB that MemDB delegates to, over the state of the SQLite file.\<close>

record 'q sql_ops =
  sql_CreateUser :: "gostring \<Rightarrow> gostring \<Rightarrow> u8 \<Rightarrow> 'q \<Rightarrow> (sql_error + i64) \<times> 'q"
  sql_GetUserByNickname :: "gostring \<Rightarrow> 'q \<Rightarrow> (sql_error + DBUser) \<times> 'q"
  sql_GetUserByID :: "i64 \<Rightarrow> 'q \<Rightarrow> (sql_error + DBUser) \<times> 'q"
  sql_ListAllUsers :: "int \<Rightarrow> 'q \<Rightarrow> (sql_error + DBUser list) \<times> 'q"
  sql_UpdateUserLastSeen :: "i64 \<Rightarrow> 'q \<Rightarrow> sql_error option \<times> 'q"
  sql_UpdateUserNickname :: "i64 \<Rightarrow> gostring \<Rightarrow> 'q \<Rightarrow> sql_error option \<times> 'q"
  sql_UpdateSessionUserID :: "i64 \<Rightarrow> i64 \<Rightarrow> 'q \<Rightarrow> sql_error option \<times> 'q"
  sql_UpdateUserPassword :: "i64 \<Rightarrow> gostring \<Rightarrow> 'q \<Rightarrow> sql_error option \<times> 'q"
  sql_CreateChannel :: "gostring \<Rightarrow> gostring \<Rightarrow> gostring option \<Rightarrow> u8 \<Rightarrow> u32 \<Rightarrow> i64 option \<Rightarrow> 'q \<Rightarrow> (sql_error + i64) \<times> 'q"
  sql_DeleteChannel :: "u64 \<Rightarrow> 'q \<Rightarrow> sql_error option \<times> 'q"
  sql_DeleteUser :: "u64 \<Rightarrow> 'q \<Rightarrow> (sql_error + gostring) \<times> 'q"
  sql_GetActiveBanForUser :: "i64 option \<Rightarrow> gostring option \<Rightarrow> 'q \<Rightarrow> (sql_error + DBBan option) \<times> 'q"
  sql_CreateUserBan :: "i64 option \<Rightarrow> gostring option \<Rightarrow> gostring \<Rightarrow> bool \<Rightarrow> u64 option \<Rightarrow> gostring \<Rightarrow> gostring \<Rightarrow> 'q \<Rightarrow> (sql_error + i64) \<times> 'q"
  sql_CreateIPBan :: "gostring \<Rightarrow> gostring \<Rightarrow> u64 option \<Rightarrow> gostring \<Rightarrow> gostring \<Rightarrow> 'q \<Rightarrow> (sql_error + i64) \<times> 'q"
  sql_DeleteUserBan :: "i64 option \<Rightarrow> gostring option \<Rightarrow> gostring \<Rightarrow> gostring \<Rightarrow> 'q \<Rightarrow> (sql_error + i64) \<times> 'q"
  sql_DeleteIPBan :: "gostring \<Rightarrow> gostring \<Rightarrow> gostring \<Rightarrow> 'q \<Rightarrow> (sql_error + i64) \<times> 'q"
  sql_ListBans :: "bool \<Rightarrow> 'q \<Rightarrow> (sql_error + DBBan list) \<times> 'q"
  sql_CreateSSHKey :: "DBSSHKey \<Rightarrow> 'q \<Rightarrow> (sql_error + i64) \<times> 'q"
  sql_GetSSHKeyByFingerprint :: "gostring \<Rightarrow> 'q \<Rightarrow> (sql_error + DBSSHKey) \<times> 'q"
  sql_GetSSHKeysByUserID :: "i64 \<Rightarrow> 'q \<Rightarrow> (sql_error + DBSSHKey list) \<times> 'q"
  sql_UpdateSSHKeyLastUsed :: "gostring \<Rightarrow> 'q \<Rightarrow> sql_error option \<times> 'q"
  sql_DeleteSSHKey :: "i64 \<Rightarrow> i64 \<Rightarrow> 'q \<Rightarrow> sql_error option \<times> 'q"
  sql_UpdateSSHKeyLabel :: "i64 \<Rightarrow> i64 \<Rightarrow> gostring \<Rightarrow> 'q \<Rightarrow> sql_error option \<times> 'q"
  sql_RegisterDiscoveredServer :: "gostring \<Rightarrow> u16 \<Rightarrow> gostring \<Rightarrow> gostring \<Rightarrow> u32 \<Rightarrow> bool \<Rightarrow> u32 \<Rightarrow> gostring \<Rightarrow> gostring \<Rightarrow> 'q \<Rightarrow> (sql_error + i64) \<times> 'q"
  sql_UpdateHeartbeat :: "gostring \<Rightarrow> u16 \<Rightarrow> u32 \<Rightarrow> u64 \<Rightarrow> u32 \<Rightarrow> u32 \<Rightarrow> 'q \<Rightarrow> sql_error option \<times> 'q"
  sql_ListDiscoveredServers :: "u16 \<Rightarrow> 'q \<Rightarrow> (sql_error + DiscoveredServer list) \<times> 'q"
  sql_GetDiscoveredServer :: "gostring \<Rightarrow> u16 \<Rightarrow> 'q \<Rightarrow> (sql_error + DiscoveredServer) \<times> 'q"
  sql_CountDiscoveredServers :: "'q \<Rightarrow> (sql_error + u32) \<times> 'q"
  sql_LogAdminAction :: "u64 \<Rightarrow> gostring \<Rightarrow> gostring \<Rightarrow> gostring \<Rightarrow> 'q \<Rightarrow> sql_error option \<times> 'q"
  sql_UpdateUserChannelState :: "u64 \<Rightarrow> u64 \<Rightarrow> u64 option \<Rightarrow> i64 \<Rightarrow> 'q \<Rightarrow> sql_error option \<times> 'q"
  sql_GetUserChannelState :: "u64 \<Rightarrow> u64 \<Rightarrow> u64 option \<Rightarrow> 'q \<Rightarrow> (sql_error + i64) \<times> 'q"

section \<open>The server\<close>

text \<open>
  srv_draws counts the ranges over maps and the random salts drawn, srv_addresses the pointers allocated,
  srv_times are the readings of "time.Now()" that are not reduced to milliseconds.
\<close>

record ('w, 'q) Server =
  srv_sessions :: "'w SessionManager"
  srv_config :: ServerConfig
  srv_sqlite :: 'q
  srv_clock :: "i64 list"
  srv_times :: "gotime list"
  srv_startTime :: gotime
  srv_draws :: nat
  srv_addresses :: nat
  srv_verificationChallenges :: "u64 \<rightharpoonup> u64"
  srv_discoveryRateLimits :: "gostring \<rightharpoonup> gotime list"
  srv_autoRegisterAttempts :: "gostring \<rightharpoonup> gotime list"

record ('w, 'q) Env =
  env_conn :: "'w net_conn"
  env_ranges :: ranges
  env_sql :: "'q sql_ops"
  env_CompareHashAndPassword :: "gostring \<Rightarrow> gostring \<Rightarrow> bool"
  env_GenerateFromPassword :: "nat \<Rightarrow> gostring \<Rightarrow> gostring + gostring"
  env_ParseAuthorizedKey :: "gostring \<Rightarrow> gostring + (gostring \<times> gostring)"
  env_FormatRFC3339 :: "int \<Rightarrow> gostring"

type_synonym ('w, 'q) act = "('w, 'q) Server \<Rightarrow> (server_error option \<times> ('w, 'q) Server) run"

abbreviation srv_db :: "('w, 'q) Server \<Rightarrow> MemDB" where
  "srv_db srv \<equiv> sm_db (srv_sessions srv)"

definition on_sm :: "('w SessionManager \<Rightarrow> 'w SessionManager) \<Rightarrow> ('w, 'q) Server \<Rightarrow> ('w, 'q) Server" where
  "on_sm f srv = srv\<lparr>srv_sessions := f (srv_sessions srv)\<rparr>"

definition set_session :: "u64 \<Rightarrow> ('w Session \<Rightarrow> 'w Session) \<Rightarrow> ('w, 'q) Server \<Rightarrow> ('w, 'q) Server" where
  "set_session i f = on_sm (with_session i f)"

text \<open>Reading through a session pointer.\<close>

definition the_session :: "u64 \<Rightarrow> ('w Session \<Rightarrow> ('w, 'q) Server \<Rightarrow> 'r run) \<Rightarrow> ('w, 'q) Server \<Rightarrow> 'r run" where
  "the_session i k srv = (case sm_objects (srv_sessions srv) i of None \<Rightarrow> Panics | Some sess \<Rightarrow> k sess srv)"

text \<open>An operation of the store that may read the clock, and one that does not.\<close>

definition db_then ::
  "(MemDB \<Rightarrow> i64 list \<Rightarrow> ('r \<times> MemDB \<times> i64 list) option) \<Rightarrow> ('r \<Rightarrow> ('w, 'q) Server \<Rightarrow> 'x run) \<Rightarrow> ('w, 'q) Server \<Rightarrow> 'x run" where
  "db_then op k srv = run_then (needs_clock (op (srv_db srv) (srv_clock srv)))
     (\<lambda>(r, db, clock). k r ((on_sm (\<lambda>sm. sm\<lparr>sm_db := db\<rparr>) srv)\<lparr>srv_clock := clock\<rparr>))"

definition sql_then :: "('q \<Rightarrow> 'r \<times> 'q) \<Rightarrow> ('r \<Rightarrow> ('w, 'q) Server \<Rightarrow> 'x run) \<Rightarrow> ('w, 'q) Server \<Rightarrow> 'x run" where
  "sql_then op k srv = (case op (srv_sqlite srv) of (r, q) \<Rightarrow> k r (srv\<lparr>srv_sqlite := q\<rparr>))"

text \<open>"time.Now().UnixMilli()", and "time.Now()" itself.\<close>

definition now_then :: "(i64 \<Rightarrow> ('w, 'q) Server \<Rightarrow> 'x run) \<Rightarrow> ('w, 'q) Server \<Rightarrow> 'x run" where
  "now_then k srv = (case srv_clock srv of [] \<Rightarrow> Starves | t # ts \<Rightarrow> k t (srv\<lparr>srv_clock := ts\<rparr>))"

definition time_then :: "(gotime \<Rightarrow> ('w, 'q) Server \<Rightarrow> 'x run) \<Rightarrow> ('w, 'q) Server \<Rightarrow> 'x run" where
  "time_then k srv = (case srv_times srv of [] \<Rightarrow> Starves | t # ts \<Rightarrow> k t (srv\<lparr>srv_times := ts\<rparr>))"

text \<open>A number to choose the order of a range or a salt by.\<close>

definition draw_then :: "(nat \<Rightarrow> ('w, 'q) Server \<Rightarrow> 'x run) \<Rightarrow> ('w, 'q) Server \<Rightarrow> 'x run" where
  "draw_then k srv = k (srv_draws srv) (srv\<lparr>srv_draws := srv_draws srv + 1\<rparr>)"

text \<open>Taking the address of a new variable.\<close>

definition new_then :: "(address \<Rightarrow> ('w, 'q) Server \<Rightarrow> 'x run) \<Rightarrow> ('w, 'q) Server \<Rightarrow> 'x run" where
  "new_then k srv = k (srv_addresses srv) (srv\<lparr>srv_addresses := srv_addresses srv + 1\<rparr>)"

definition opt_new_then :: "'v option \<Rightarrow> (address option \<Rightarrow> ('w, 'q) Server \<Rightarrow> 'x run) \<Rightarrow> ('w, 'q) Server \<Rightarrow> 'x run" where
  "opt_new_then v k = (case v of None \<Rightarrow> k None | Some _ \<Rightarrow> new_then (\<lambda>a. k (Some a)))"

text \<open>"msg := &M; if err := msg.Decode(frame.Payload); err != nil { bad }; ok".\<close>

definition decoded :: "'m \<times> go_error option \<Rightarrow> ('w, 'q) act \<Rightarrow> ('m \<Rightarrow> ('w, 'q) act) \<Rightarrow> ('w, 'q) act" where
  "decoded d bad ok = (case snd d of Some _ \<Rightarrow> bad | None \<Rightarrow> ok (fst d))"

text \<open>A step without an error result, and a write through the session pointer.\<close>

definition also_do :: "(('w, 'q) Server \<Rightarrow> ('w, 'q) Server run) \<Rightarrow> ('w, 'q) act \<Rightarrow> ('w, 'q) act" where
  "also_do f k srv = run_then (f srv) k"

definition if_ok :: "('w, 'q) act \<Rightarrow> ('w, 'q) act \<Rightarrow> ('w, 'q) act" where
  "if_ok a k srv = on_ok (a srv) k"

definition assign :: "u64 \<Rightarrow> ('w Session \<Rightarrow> 'w Session) \<Rightarrow> ('w, 'q) act \<Rightarrow> ('w, 'q) act" where
  "assign i f k srv = k (set_session i f srv)"

section \<open>Sending\<close>

definition succeed :: "('w, 'q) act" where
  "succeed srv = Returns (None, srv)"

definition fail_with :: "server_error \<Rightarrow> ('w, 'q) act" where
  "fail_with e srv = Returns (Some e, srv)"

definition srv_sendMessage :: "('w, 'q) Env \<Rightarrow> u64 \<Rightarrow> u8 \<Rightarrow> ProtocolMessage \<Rightarrow> ('w, 'q) act" where
  "srv_sendMessage E i msgType msg = the_session i (\<lambda>sess srv.
    case sendMessage (conn_writer (env_conn E)) msgType msg (s_Conn sess) of
      (c, r) \<Rightarrow> Returns (map_option IOErr r, set_session i (\<lambda>s. s\<lparr>s_Conn := c\<rparr>) srv))"

definition sendError :: "('w, 'q) Env \<Rightarrow> u64 \<Rightarrow> u16 \<Rightarrow> gostring \<Rightarrow> ('w, 'q) act" where
  "sendError E i code message =
    srv_sendMessage E i TypeError (ErrorM \<lparr>Error_ErrorCode = code, Error_Message = message\<rparr>)"

definition dbError :: "('w, 'q) Env \<Rightarrow> u64 \<Rightarrow> ('w, 'q) act" where
  "dbError E i = sendError E i 9001 (lit ''Database error'')"

definition sendServerConfig :: "('w, 'q) Env \<Rightarrow> u64 \<Rightarrow> ('w, 'q) act" where
  "sendServerConfig E i srv =
    (let c = srv_config srv in
     srv_sendMessage E i TypeServerConfig (ServerConfigM
       \<lparr>ServerConfig_ProtocolVersion = cfg_ProtocolVersion c, ServerConfig_MaxMessageRate = cfg_MessageRateLimit c,
        ServerConfig_MaxChannelCreates = cfg_MaxChannelCreates c, ServerConfig_InactiveCleanupDays = cfg_InactiveCleanupDays c,
        ServerConfig_MaxConnectionsPerIP = cfg_MaxConnectionsPerIP c, ServerConfig_MaxMessageLength = cfg_MaxMessageLength c,
        ServerConfig_MaxThreadSubscriptions = cfg_MaxThreadSubscriptions c,
        ServerConfig_MaxChannelSubscriptions = cfg_MaxChannelSubscriptions c,
        ServerConfig_DirectoryEnabled = cfg_DirectoryEnabled c\<rparr>) srv)"

text \<open>isAdmin compares the nickname of the session, and asks that the session has a user.\<close>

definition isAdmin :: "('w, 'q) Server \<Rightarrow> 'w Session \<Rightarrow> bool" where
  "isAdmin srv sess \<longleftrightarrow> s_UserID sess \<noteq> None \<and> s_Nickname sess \<in> set (cfg_AdminUsers (srv_config srv))"

end
