(* ===== verification/SrvBroadcast.thy ===== *)
theory SrvBroadcast imports SrvState begin

text \<open>
  Presence, broadcasts and the removal of sessions: "handlers.go" and removeSession of "server.go". A session whose
  connection fails is removed, its removal is announced to the others, and an announcement that fails removes its
  receiver in turn. The recursion removes a registered session each time, so its depth is bounded by their number:
  remove_session takes a bound, removeSession gives it one that is always enough.
\<close>

section \<open>Presence messages\<close>

definition buildServerPresenceMessage :: "'w Session \<Rightarrow> bool \<Rightarrow> ServerPresenceMessage option" where
  "buildServerPresenceMessage sess online =
    (if s_Nickname sess = [] then None
     else Some \<lparr>ServerPresence_SessionID = s_ID sess, ServerPresence_Nickname = s_Nickname sess,
       ServerPresence_IsRegistered = (s_UserID sess \<noteq> None), ServerPresence_UserID = s_UserID sess,
       ServerPresence_UserFlags = s_UserFlags sess, ServerPresence_Online = online\<rparr>)"

definition buildChannelPresenceMessage :: "i64 \<Rightarrow> u64 option \<Rightarrow> 'w Session \<Rightarrow> bool \<Rightarrow> ChannelPresenceMessage option" where
  "buildChannelPresenceMessage channelID subchannelID sess joined =
    (if s_Nickname sess = [] then None
     else Some \<lparr>ChannelPresence_ChannelID = channelID, ChannelPresence_SubchannelID = subchannelID,
       ChannelPresence_SessionID = s_ID sess, ChannelPresence_Nickname = s_Nickname sess,
       ChannelPresence_IsRegistered = (s_UserID sess \<noteq> None), ChannelPresence_UserID = s_UserID sess,
       ChannelPresence_UserFlags = s_UserFlags sess, ChannelPresence_Joined = joined\<rparr>)"

section \<open>Writing one frame to many sessions\<close>

text \<open>
  broadcastToSessionsParallel: at most 40 workers of about 50 sessions, each a slice "sessions[start:end]", which panics when
  start is past end: None.
\<close>

definition numWorkers :: "nat \<Rightarrow> nat" where
  "numWorkers n = min 40 ((n + 50 - 1) div 50)"

definition chunkSize :: "nat \<Rightarrow> nat" where
  "chunkSize n = (n + numWorkers n - 1) div numWorkers n"

definition chunk :: "'a list \<Rightarrow> nat \<Rightarrow> 'a list option" where
  "chunk sessions i =
    (let start = i * chunkSize (length sessions);
         stop = min (start + chunkSize (length sessions)) (length sessions)
     in if start \<le> stop then Some (take (stop - start) (drop start sessions)) else None)"

definition chunks :: "'a list \<Rightarrow> 'a list option list" where
  "chunks sessions = map (chunk sessions) [0..<numWorkers (length sessions)]"

text \<open>SafeConn.WriteBytes, and what one worker does: it notes the sessions whose write failed.\<close>

definition WriteBytes :: "('w, 'q) Env \<Rightarrow> u64 \<Rightarrow> bytes \<Rightarrow> ('w, 'q) act" where
  "WriteBytes E i data = the_session i (\<lambda>sess srv.
    case Write (conn_writer (env_conn E)) (s_Conn sess) data of
      (c, r) \<Rightarrow> Returns (map_option IOErr r, set_session i (\<lambda>s. s\<lparr>s_Conn := c\<rparr>) srv))"

fun write_chunk :: "('w, 'q) Env \<Rightarrow> bytes \<Rightarrow> u64 list \<Rightarrow> u64 list \<Rightarrow> ('w, 'q) Server \<Rightarrow> (u64 list \<times> ('w, 'q) Server) run" where
  "write_chunk E data [] dead srv = Returns (dead, srv)"
| "write_chunk E data (i # is) dead srv =
    run_then (WriteBytes E i data srv)
      (\<lambda>(err, srv). write_chunk E data is (if err \<noteq> None then dead @ [i] else dead) srv)"

fun write_chunks :: "('w, 'q) Env \<Rightarrow> bytes \<Rightarrow> u64 list option list \<Rightarrow> u64 list \<Rightarrow> ('w, 'q) Server \<Rightarrow> (u64 list \<times> ('w, 'q) Server) run" where
  "write_chunks E data [] dead srv = Returns (dead, srv)"
| "write_chunks E data (None # cs) dead srv = Panics"
| "write_chunks E data (Some c # cs) dead srv =
    run_then (write_chunk E data c dead srv) (\<lambda>(dead, srv). write_chunks E data cs dead srv)"

text \<open>The workers run side by side, so the dead sessions are collected in any order.\<close>

definition broadcastToSessionsParallel ::
  "('w, 'q) Env \<Rightarrow> u64 list \<Rightarrow> bytes \<Rightarrow> ('w, 'q) Server \<Rightarrow> (u64 list \<times> ('w, 'q) Server) run" where
  "broadcastToSessionsParallel E sessions frameBytes srv =
    (if length sessions = 0 then Returns ([], srv)
     else run_then (write_chunks E frameBytes (chunks sessions) [] srv)
       (\<lambda>(dead, srv). draw_then (\<lambda>n srv. Returns (env_ranges E n (set dead), srv)) srv))"

text \<open>The payload from Encode, in a frame, as bytes.\<close>

definition frame_bytes :: "u8 \<Rightarrow> ProtocolMessage \<Rightarrow> go_error + bytes" where
  "frame_bytes msgType msg =
    (case Encode msg of Inl e \<Rightarrow> Inl e
     | Inr payload \<Rightarrow> to_bytes (EncodeFrame buffer
        \<lparr>Frame_Version = ProtocolVersion, Frame_Type = msgType, Frame_Flags = 0, Frame_Payload = payload\<rparr>))"

section \<open>Removing sessions and telling the others\<close>

type_synonym ('w, 'q) remover = "u64 \<Rightarrow> ('w, 'q) Server \<Rightarrow> ('w, 'q) Server run"

fun remove_all :: "('w, 'q) remover \<Rightarrow> u64 list \<Rightarrow> ('w, 'q) Server \<Rightarrow> ('w, 'q) Server run" where
  "remove_all remove [] srv = Returns srv"
| "remove_all remove (d # ds) srv = run_then (remove d srv) (remove_all remove ds)"

definition broadcast_with ::
  "('w, 'q) remover \<Rightarrow> ('w, 'q) Env \<Rightarrow> u64 list \<Rightarrow> bytes \<Rightarrow> ('w, 'q) Server \<Rightarrow> ('w, 'q) Server run" where
  "broadcast_with remove E targets data srv =
    run_then (broadcastToSessionsParallel E targets data srv) (\<lambda>(dead, srv). remove_all remove dead srv)"

text \<open>The sessions that have joined the channel, and the subscribers of the whole channel.\<close>

definition channel_targets :: "('w, 'q) Server \<Rightarrow> i64 \<Rightarrow> u64 set" where
  "channel_targets srv channelID =
    {i \<in> sm_sessions (srv_sessions srv). case sm_objects (srv_sessions srv) i of None \<Rightarrow> False
       | Some sess \<Rightarrow> s_JoinedChannel sess = Some channelID} \<union>
    set_at (sm_channelSubscribers (srv_sessions srv)) \<lparr>cs_ChannelID = channelID, cs_SubchannelID = None\<rparr>"

definition broadcastToChannel_with :: "('w, 'q) remover \<Rightarrow> ('w, 'q) Env \<Rightarrow> i64 \<Rightarrow> u8 \<Rightarrow> ProtocolMessage \<Rightarrow> ('w, 'q) act" where
  "broadcastToChannel_with remove E channelID msgType msg srv =
    (case frame_bytes msgType msg of Inl e \<Rightarrow> Returns (Some (IOErr e), srv)
     | Inr data \<Rightarrow> draw_then (\<lambda>n srv.
        run_then (broadcast_with remove E (env_ranges E n (channel_targets srv channelID)) data srv)
          (\<lambda>srv. Returns (None, srv))) srv)"

text \<open>Errors of the two sends are only logged.\<close>

definition ignoring :: "(server_error option \<times> ('w, 'q) Server) run \<Rightarrow> ('w, 'q) Server run" where
  "ignoring r = run_then r (\<lambda>(err, srv). Returns srv)"

definition notifyChannelPresence_with ::
  "('w, 'q) remover \<Rightarrow> ('w, 'q) Env \<Rightarrow> i64 \<Rightarrow> u64 \<Rightarrow> bool \<Rightarrow> ('w, 'q) Server \<Rightarrow> ('w, 'q) Server run" where
  "notifyChannelPresence_with remove E channelID i joined = the_session i (\<lambda>sess srv.
    case buildChannelPresenceMessage channelID None sess joined of None \<Rightarrow> Returns srv
    | Some msg \<Rightarrow>
        run_then (ignoring (broadcastToChannel_with remove E channelID TypeChannelPresence (ChannelPresenceM msg) srv))
          (\<lambda>srv. if \<not> joined then ignoring (srv_sendMessage E i TypeChannelPresence (ChannelPresenceM msg) srv)
                else Returns srv))"

text \<open>Every session in turn; a failed send removes its receiver.\<close>

fun notify_each :: "('w, 'q) remover \<Rightarrow> ('w, 'q) Env \<Rightarrow> ServerPresenceMessage \<Rightarrow> u64 list \<Rightarrow> ('w, 'q) Server \<Rightarrow> ('w, 'q) Server run" where
  "notify_each remove E msg [] srv = Returns srv"
| "notify_each remove E msg (t # ts) srv =
    run_then (srv_sendMessage E t TypeServerPresence (ServerPresenceM msg) srv) (\<lambda>(err, srv).
      run_then (if err \<noteq> None then remove t srv else Returns srv) (notify_each remove E msg ts))"

definition notifyServerPresence_with ::
  "('w, 'q) remover \<Rightarrow> ('w, 'q) Env \<Rightarrow> u64 \<Rightarrow> bool \<Rightarrow> ('w, 'q) Server \<Rightarrow> ('w, 'q) Server run" where
  "notifyServerPresence_with remove E i online = the_session i (\<lambda>sess srv.
    case buildServerPresenceMessage sess online of None \<Rightarrow> Returns srv
    | Some msg \<Rightarrow> draw_then (\<lambda>n srv.
        notify_each remove E msg (GetAllSessions (env_ranges E n) (srv_sessions srv)) srv) srv)"

fun remove_session :: "nat \<Rightarrow> ('w, 'q) Env \<Rightarrow> ('w, 'q) remover" where
  "remove_session 0 E i srv = Exhausted"
| "remove_session (Suc n) E i srv =
    (case sm_GetSession (srv_sessions srv) i of
       None \<Rightarrow> Returns (on_sm (\<lambda>sm. RemoveSession (env_conn E) sm i) srv)
     | Some sess \<Rightarrow>
        (let srv = on_sm (\<lambda>sm. RemoveSession (env_conn E) sm i) srv in
         run_then (case s_JoinedChannel sess of None \<Rightarrow> Returns srv
           | Some channelID \<Rightarrow> notifyChannelPresence_with (remove_session n E) E channelID i False srv)
         (notifyServerPresence_with (remove_session n E) E i False)))"

definition removeSession :: "('w, 'q) Env \<Rightarrow> ('w, 'q) remover" where
  "removeSession E i srv = remove_session (Suc (card (sm_sessions (srv_sessions srv)))) E i srv"

section \<open>Broadcasts\<close>

definition notifyServerPresence :: "('w, 'q) Env \<Rightarrow> u64 \<Rightarrow> bool \<Rightarrow> ('w, 'q) Server \<Rightarrow> ('w, 'q) Server run" where
  "notifyServerPresence E = notifyServerPresence_with (removeSession E) E"

definition notifyChannelPresence :: "('w, 'q) Env \<Rightarrow> i64 \<Rightarrow> u64 \<Rightarrow> bool \<Rightarrow> ('w, 'q) Server \<Rightarrow> ('w, 'q) Server run" where
  "notifyChannelPresence E = notifyChannelPresence_with (removeSession E) E"

definition broadcastToChannel :: "('w, 'q) Env \<Rightarrow> i64 \<Rightarrow> u8 \<Rightarrow> ProtocolMessage \<Rightarrow> ('w, 'q) act" where
  "broadcastToChannel E = broadcastToChannel_with (removeSession E) E"

fun send_snapshot :: "('w, 'q) Env \<Rightarrow> u64 \<Rightarrow> u64 list \<Rightarrow> ('w, 'q) Server \<Rightarrow> ('w, 'q) Server run" where
  "send_snapshot E target [] srv = Returns srv"
| "send_snapshot E target (i # is) srv =
    (if i = target then send_snapshot E target is srv
     else the_session i (\<lambda>sess srv.
       case buildServerPresenceMessage sess True of None \<Rightarrow> send_snapshot E target is srv
       | Some msg \<Rightarrow> run_then (ignoring (srv_sendMessage E target TypeServerPresence (ServerPresenceM msg) srv))
           (send_snapshot E target is)) srv)"

definition sendServerPresenceSnapshot :: "('w, 'q) Env \<Rightarrow> u64 \<Rightarrow> ('w, 'q) Server \<Rightarrow> ('w, 'q) Server run" where
  "sendServerPresenceSnapshot E target = draw_then (\<lambda>n srv.
    send_snapshot E target (GetAllSessions (env_ranges E n) (srv_sessions srv)) srv)"

definition broadcastToAll :: "('w, 'q) Env \<Rightarrow> u8 \<Rightarrow> ProtocolMessage \<Rightarrow> ('w, 'q) act" where
  "broadcastToAll E msgType msg srv =
    (case frame_bytes msgType msg of Inl e \<Rightarrow> Returns (Some (IOErr e), srv)
     | Inr data \<Rightarrow> draw_then (\<lambda>n srv.
        run_then (broadcast_with (removeSession E) E (GetAllSessions (env_ranges E n) (srv_sessions srv)) data srv)
          (\<lambda>srv. Returns (None, srv))) srv)"

text \<open>
  broadcastNewMessage. The subchannel id of the message is copied into a new variable, whose address is the key
  asked for. A shadowbanned author's message goes to the author and to the sessions of
  registered users with the admin flag.
\<close>

definition visible_to :: "('w, 'q) Server \<Rightarrow> u64 \<Rightarrow> u64 \<Rightarrow> bool" where
  "visible_to srv author i \<longleftrightarrow> (case sm_objects (srv_sessions srv) i of None \<Rightarrow> False
     | Some sess \<Rightarrow> i = author \<or> (s_UserID sess \<noteq> None \<and> s_UserFlags sess AND 1 \<noteq> 0))"

definition broadcastNewMessage :: "('w, 'q) Env \<Rightarrow> u64 \<Rightarrow> NewMessageMessage \<Rightarrow> u64 option \<Rightarrow> ('w, 'q) act" where
  "broadcastNewMessage E author msg threadRootID srv =
    (case frame_bytes TypeNewMessage (NewMessageM msg) of Inl e \<Rightarrow> Returns (Some (IOErr e), srv)
     | Inr data \<Rightarrow>
        opt_new_then (Message_SubchannelID msg) (\<lambda>sub. draw_then (\<lambda>n. the_session author (\<lambda>sess srv.
          let sm = srv_sessions srv;
              isTopLevel = (Message_ParentID msg = None \<or> Message_ParentID msg = Some 0);
              targets = (if isTopLevel then GetChannelSubscribers (env_ranges E n) sm
                     \<lparr>cs_ChannelID = Message_ChannelID msg, cs_SubchannelID = sub\<rparr>
                   else case threadRootID of Some t \<Rightarrow> GetThreadSubscribers (env_ranges E n) sm t | None \<Rightarrow> []);
              targets = (if s_Shadowbanned sess then filter (visible_to srv author) targets else targets)
          in run_then (broadcast_with (removeSession E) E targets data srv) (\<lambda>srv. Returns (None, srv))))) srv)"

end
