(* ===== verification/MemStore.thy ===== *)
theory MemStore imports MemSystem begin

text \<open>
  The part of the well-formedness of MemDB that every operation the server calls keeps without a condition: the
  messages and the indexes, and ids from the past of the generator. The cached reply counts are left out, as
  they go wrong when a channel is deleted under replies in another channel.
\<close>

definition store_inv :: "MemDB \<Rightarrow> i64 list \<Rightarrow> bool" where
  "store_inv m clock \<longleftrightarrow> store_ok m \<and> ids_past m clock"

lemma mem_inv_store: "mem_inv (m, clock) \<Longrightarrow> store_inv m clock"
  by (simp add: mem_inv_def memdb_ok_def store_inv_def)

lemma store_inv_tick:
  assumes inv: "store_inv m (t # clock)"
  shows "store_inv m clock"
  using inv sf.tick_ok [of "mem_snowflake m" "t # clock" t clock] sf.past_tick [of "t # clock" t clock]
  by (auto simp: store_inv_def ids_past_def)

lemma store_inv_same:
  assumes inv: "store_inv m clock" and sf: "mem_snowflake m' = mem_snowflake m"
    and store: "mem_messages m' = mem_messages m" "mem_byChannel m' = mem_byChannel m"
      "mem_byParent m' = mem_byParent m" "mem_byThread m' = mem_byThread m"
  shows "store_inv m' clock"
  using inv by (simp add: store_inv_def store_ok_def indexes_ok_def ids_past_def mentions_def store sf)

text \<open>A change of messages that keeps their keys.\<close>

lemma store_inv_modify:
  assumes inv: "store_inv m clock" and f: "keeps_keys f"
  shows "store_inv (m\<lparr>mem_messages := modify i f (mem_messages m)\<rparr>) clock"
  using inv store_ok_modify [OF _ f, of m i]
  by (auto simp: store_inv_def ids_past_def mentions_def modify_apply split: if_splits)

lemma store_inv_dirty [simp]: "store_inv (m\<lparr>mem_dirty := d\<rparr>) clock = store_inv m clock"
  by (simp add: store_inv_def ids_past_def mentions_def)

lemma store_inv_stamp:
  assumes "store_inv m clock" and st: "new_stamp m clock = Some (i, now, m1, clock1)"
  shows "store_inv m1 clock1"
  using assms(1) new_stamp_fresh [OF _ st] by (auto simp: store_inv_def)

named_theorems keeps_store \<open>operations of the store that keep it well formed\<close>

lemma store_inv_CreateSession [keeps_store]:
  assumes inv: "store_inv m clock" and run: "CreateSession m clock u nick conn = Some (i, m', clock')"
  shows "store_inv m' clock'"
proof -
  from run obtain now m1 where st: "new_stamp m clock = Some (i, now, m1, clock')"
    and m': "mem_snowflake m' = mem_snowflake m1" "mem_messages m' = mem_messages m1" "mem_byChannel m' = mem_byChannel m1"
      "mem_byParent m' = mem_byParent m1" "mem_byThread m' = mem_byThread m1"
    by (auto simp: CreateSession_def Let_def split: option.splits)
  from store_inv_same [OF store_inv_stamp [OF inv st] m'] show ?thesis .
qed

lemma store_inv_post [keeps_store]:
  assumes inv: "store_inv m clock" and run: "PostMessage m clock c sub parent user nick body = Some (r, m', clock')"
  shows "store_inv m' clock'"
proof (cases r)
  case (Inl e)
  with run obtain i now where st: "new_stamp m clock = Some (i, now, m', clock')"
    by (auto simp: PostMessage_def Let_def split: option.splits sum.splits)
  from store_inv_stamp [OF inv st] show ?thesis .
next
  case (Inr idmsg)
  from run obtain i now m1 root where st: "new_stamp m clock = Some (i, now, m1, clock')"
    and root: "PostMessage_root m1 parent i = Inr root" and m': "m' = PostMessage_store m1 \<lparr>dm_ID = i, dm_ChannelID = c,
      dm_SubchannelID = sub, dm_ParentID = parent, dm_ThreadRootID = root, dm_AuthorUserID = user, dm_AuthorNickname = nick,
      dm_Content = body, dm_CreatedAt = now, dm_EditedAt = None, dm_DeletedAt = None, dm_ReplyCount = 0\<rparr>"
      (is "m' = PostMessage_store m1 ?msg")
    unfolding Inr by (auto simp: PostMessage_def Let_def split: option.splits sum.splits)
  have past: "ids_past m clock" using inv by (simp add: store_inv_def)
  from new_stamp_fresh [OF past st] obtain s where s: "m1 = m\<lparr>mem_snowflake := s\<rparr>"
    and fresh: "\<forall>j. mentions m j \<longrightarrow> sint j < sint i" and past1: "generator_past (mem_snowflake m1) clock' i" by auto
  have m1: "store_inv m1 clock'" by (rule store_inv_stamp [OF inv st])
  have "mem_messages m p \<noteq> None" if "parent = Some p" for p
    using root that by (auto simp: PostMessage_root_def s split: option.splits)
  then have "storable m1 ?msg" using fresh by (auto simp: storable_def s mentions_def)
  then show ?thesis
    using m1 past1 by (simp add: m' store_inv_def store_ok_post ids_past_post)
qed

lemma store_inv_delete [keeps_store]:
  assumes inv: "store_inv m clock" and run: "SoftDeleteMessage m clock i nick = Some (r, m', clock')"
  shows "store_inv m' clock'"
proof (cases r)
  case (Inl e)
  with run inv show ?thesis by (auto simp: SoftDeleteMessage_def Let_def split: option.splits if_splits)
next
  case (Inr msg')
  from SoftDelete_Inr [OF run [unfolded Inr]] obtain msg now where d: "mem_messages m i = Some msg" "clock = now # clock'"
    "m' = m\<lparr>mem_messages := delete_maps m i msg now, mem_dirty := insert i (mem_dirty m)\<rparr>" by blast
  let ?del = "\<lambda>msg. msg\<lparr>dm_DeletedAt := Some now\<rparr>"
  have "store_inv m clock'" using inv store_inv_tick by (simp add: d)
  then have del: "store_inv (m\<lparr>mem_messages := modify i ?del (mem_messages m)\<rparr>) clock'"
    by (rule store_inv_modify) (rule keeps_keys_delete)
  have "store_inv (m\<lparr>mem_messages := delete_maps m i msg now\<rparr>) clock'"
  proof (cases "dm_ParentID msg")
    case (Some p)
    then show ?thesis using store_inv_modify [OF del keeps_keys_drop, of p] by (simp add: delete_maps_eq [OF d(1)])
  qed (use del in \<open>simp add: delete_maps_eq [OF d(1)]\<close>)
  then have "store_inv ((m\<lparr>mem_messages := delete_maps m i msg now\<rparr>)\<lparr>mem_dirty := insert i (mem_dirty m)\<rparr>) clock'"
    by (simp only: store_inv_dirty)
  then show ?thesis by (simp add: d)
qed

lemma store_inv_admin_delete [keeps_store]:
  "store_inv m clock \<Longrightarrow> AdminSoftDeleteMessage m clock i nick = Some (r, m', clock') \<Longrightarrow> store_inv m' clock'"
  using store_inv_delete AdminSoftDelete_eq by metis

lemma store_inv_edit:
  assumes inv: "store_inv m clock" and msg: "mem_messages m i = Some msg" and clock: "nowMillis clock = Some (now, clock')"
  shows "store_inv (snd (edit_message m i msg body now)) clock'"
proof -
  let ?f = "\<lambda>msg. msg\<lparr>dm_Content := body, dm_EditedAt := Some now\<rparr>"
  have "clock = now # clock'" using clock by (cases clock) auto
  then have "store_inv (m\<lparr>mem_messages := modify i ?f (mem_messages m)\<rparr>) clock'"
    using inv store_inv_tick by (intro store_inv_modify) (auto simp: keeps_keys_def)
  then have "store_inv ((m\<lparr>mem_messages := modify i ?f (mem_messages m)\<rparr>)\<lparr>mem_dirty := insert i (mem_dirty m)\<rparr>) clock'"
    by (simp only: store_inv_dirty)
  then show ?thesis by (simp add: edit_is_modify [OF msg])
qed

lemma store_inv_update [keeps_store]:
  assumes inv: "store_inv m clock" and run: "UpdateMessage m clock i user body = Some (r, m', clock')"
  shows "store_inv m' clock'"
proof -
  from run have "(m' = m \<and> clock' = clock) \<or> (\<exists>msg now. mem_messages m i = Some msg \<and> nowMillis clock = Some (now, clock') \<and>
      m' = snd (edit_message m i msg body now))"
    by (auto simp: UpdateMessage_def Let_def split: option.splits if_splits prod.splits)
  with inv store_inv_edit [OF inv] show ?thesis by auto
qed

lemma store_inv_admin_update [keeps_store]:
  assumes inv: "store_inv m clock" and run: "AdminUpdateMessage m clock i user body = Some (r, m', clock')"
  shows "store_inv m' clock'"
proof -
  from run have "(m' = m \<and> clock' = clock) \<or> (\<exists>msg now. mem_messages m i = Some msg \<and> nowMillis clock = Some (now, clock') \<and>
      m' = snd (edit_message m i msg body now))"
    by (auto simp: AdminUpdateMessage_def Let_def split: option.splits if_splits prod.splits)
  with inv store_inv_edit [OF inv] show ?thesis by auto
qed

lemma store_inv_CreateChannel [keeps_store]:
  assumes inv: "store_inv m clock"
    and run: "CreateChannel sql m clock name disp desc ctype ret creator = Some (r, m', clock')"
  shows "store_inv m' clock'"
proof -
  from run have "(clock' = clock \<or> (\<exists>t. clock = t # clock')) \<and> mem_snowflake m' = mem_snowflake m \<and>
      mem_messages m' = mem_messages m \<and> mem_byChannel m' = mem_byChannel m \<and> mem_byParent m' = mem_byParent m \<and>
      mem_byThread m' = mem_byThread m"
    by (cases clock) (auto simp: CreateChannel_def Let_def split: option.splits sum.splits)
  then show ?thesis using inv store_inv_tick store_inv_same by metis
qed

lemma store_inv_activity [keeps_store]:
  assumes inv: "store_inv m clock" and run: "UpdateSessionActivity m clock i = Some (e, m', clock')"
  shows "store_inv m' clock'"
proof -
  from run have "(clock' = clock \<or> (\<exists>t. clock = t # clock')) \<and> mem_snowflake m' = mem_snowflake m \<and>
      mem_messages m' = mem_messages m \<and> mem_byChannel m' = mem_byChannel m \<and> mem_byParent m' = mem_byParent m \<and>
      mem_byThread m' = mem_byThread m"
    by (cases clock) (auto simp: UpdateSessionActivity_def split: option.splits)
  then show ?thesis using inv store_inv_tick store_inv_same by metis
qed

lemma store_inv_nickname [keeps_store]: "store_inv m clock \<Longrightarrow> store_inv (snd (UpdateSessionNickname m i nick)) clock"
  by (erule store_inv_same) (auto simp: UpdateSessionNickname_def split: option.splits)

lemma store_inv_DeleteSession [keeps_store]: "store_inv m clock \<Longrightarrow> store_inv (DeleteSession m i) clock"
  by (erule store_inv_same) (auto simp: DeleteSession_def Let_def split: option.splits)

lemma store_inv_DeleteChannel [keeps_store]:
  assumes inv: "store_inv m clock"
  shows "store_inv (snd (DeleteChannel e m c)) clock"
proof (cases e)
  case None
  have "mentions (snd (DeleteChannel None m c)) j \<Longrightarrow> mentions m j" for j
    by (auto simp: mentions_def DeleteChannel_eq slice_at_delete split: if_splits)
  moreover have "mem_snowflake (snd (DeleteChannel None m c)) = mem_snowflake m" by (simp add: DeleteChannel_eq)
  ultimately show ?thesis using inv store_ok_DeleteChannel [of m c] by (auto simp: None store_inv_def ids_past_def)
next
  case (Some err)
  with inv show ?thesis by (simp add: DeleteChannel_def)
qed

lemma store_inv_anonymize: "store_inv m clock \<Longrightarrow> store_inv (anonymize u n i m) clock"
proof (cases "\<exists>msg. mem_messages m i = Some msg \<and> dm_AuthorUserID msg = Some u")
  case True
  assume inv: "store_inv m clock"
  from True obtain msg where msg: "mem_messages m i = Some msg" "dm_AuthorUserID msg = Some u" by blast
  let ?m = "m\<lparr>mem_messages := modify i (\<lambda>msg. msg\<lparr>dm_AuthorUserID := None, dm_AuthorNickname := n\<rparr>) (mem_messages m)\<rparr>"
  have "store_inv ?m clock" by (rule store_inv_modify [OF inv]) (auto simp: keeps_keys_def)
  then have "store_inv (?m\<lparr>mem_dirty := insert (dm_ID msg) (mem_dirty m)\<rparr>) clock" by (simp only: store_inv_dirty)
  with msg show ?thesis by (simp add: anonymize_def modify_def)
qed (auto simp: anonymize_def split: option.splits)

lemma store_inv_fold_anonymize: "store_inv m clock \<Longrightarrow> store_inv (fold (anonymize u n) order m) clock"
  by (induction order arbitrary: m) (auto simp: store_inv_anonymize)

lemma store_inv_DeleteUser [keeps_store]:
  assumes inv: "store_inv m clock"
  shows "store_inv (snd (DeleteUser sql order m u)) clock"
proof (cases sql)
  case (Inr n)
  show ?thesis unfolding Inr DeleteUser_Inr
    by (rule store_inv_fold_anonymize) (rule store_inv_same [OF inv], simp_all)
qed (use inv in \<open>simp add: DeleteUser_def\<close>)

text \<open>The walk over a thread returns with the bound the server gives it.\<close>

lemma ListThreadReplies_returns:
  assumes "store_inv m clock"
  shows "ListThreadReplies (Suc (card (dom (mem_messages m)))) m p limit before after \<noteq> None"
proof -
  have ok: "store_ok m" using assms by (simp add: store_inv_def)
  have "above m p \<le> card (dom (mem_messages m))"
    unfolding above_def by (rule card_mono) (use ok in \<open>auto simp: store_ok_def\<close>)
  then have "above m p < Suc (card (dom (mem_messages m)))" by simp
  from collect_eq [OF ok this, of limit "[]"] show ?thesis by (simp add: ListThreadReplies_def cut_def)
qed

end
