(* ===== verification/SrvGood.thy ===== *)
theory SrvGood imports SrvBroadcast MemStore begin

text \<open>
  The invariant of the server between two steps, and how it is carried through a run: one rule for each way a
  handler is put together, collected in run_rules, so that a handler is shown to keep the invariant by taking it apart.
\<close>

section \<open>The invariant\<close>

text \<open>
  The session manager is well formed, the store is, the addresses in the channel index are
  allocated ones, and no verification is pending.
\<close>

definition addresses_ok :: "('w, 'q) Server \<Rightarrow> bool" where
  "addresses_ok srv \<longleftrightarrow> (\<forall>cs a. set_at (sm_channelSubscribers (srv_sessions srv)) cs \<noteq> {} \<and> cs_SubchannelID cs = Some a \<longrightarrow>
     a < srv_addresses srv)"

definition server_ok :: "('w, 'q) Server \<Rightarrow> bool" where
  "server_ok srv \<longleftrightarrow> sm_ok (srv_sessions srv) \<and> store_inv (srv_db srv) (srv_clock srv) \<and> addresses_ok srv \<and>
     srv_verificationChallenges srv = Map.empty"

text \<open>A good server over the session objects D, whose registered sessions are some of S.\<close>

definition good :: "u64 set \<Rightarrow> u64 set \<Rightarrow> ('w, 'q) Server \<Rightarrow> bool" where
  "good D S srv \<longleftrightarrow> server_ok srv \<and> dom (sm_objects (srv_sessions srv)) = D \<and> sm_sessions (srv_sessions srv) \<subseteq> S"

lemma good_subset: "good D S srv \<Longrightarrow> S \<subseteq> S' \<Longrightarrow> good D S' srv"
  by (auto simp: good_def)

lemma good_self: "good D S srv \<Longrightarrow> good D (sm_sessions (srv_sessions srv)) srv"
  by (simp add: good_def)

lemma good_finite: "good D S srv \<Longrightarrow> finite (sm_sessions (srv_sessions srv))"
  by (simp add: good_def server_ok_def sm_ok_def)

lemma good_registered: "good D S srv \<Longrightarrow> sm_sessions (srv_sessions srv) \<subseteq> D"
  by (auto simp: good_def server_ok_def sm_ok_def)

lemma good_subscribers:
  assumes "good D S srv"
  shows "set_at (sm_threadSubscribers (srv_sessions srv)) t \<subseteq> D" "set_at (sm_channelSubscribers (srv_sessions srv)) cs \<subseteq> D"
  using assms by (auto simp: good_def server_ok_def sm_ok_def dest!: by_threads.matchesD by_channels.matchesD)

lemma good_channel_targets:
  assumes "good D S srv"
  shows "channel_targets srv c \<subseteq> D" "finite D \<Longrightarrow> finite (channel_targets srv c)"
proof -
  show "channel_targets srv c \<subseteq> D" using good_registered [OF assms] good_subscribers [OF assms] by (auto simp: channel_targets_def)
  then show "finite D \<Longrightarrow> finite (channel_targets srv c)" by (rule finite_subset)
qed

text \<open>Subscribers are registered, so there are finitely many.\<close>

lemma subscribed_registered:
  assumes ok: "sm_ok sm" and i: "i \<in> set_at (sm_channelSubscribers sm) cs \<or> i \<in> set_at (sm_threadSubscribers sm) t"
  shows "i \<in> sm_sessions sm"
proof -
  from i ok obtain s where s: "sm_objects sm i = Some s" and sub: "cs \<in> channels_of s \<or> t \<in> threads_of s"
    by (auto simp: sm_ok_def dest!: by_channels.matchesD by_threads.matchesD)
  from sm_ok_session [OF ok s] sub show ?thesis
    by (auto simp: session_ok_def channels_of_def threads_of_def split: option.splits)
qed

lemma good_targets:
  assumes g: "good D S srv"
  shows "finite (channel_targets srv c)" "finite (set_at (sm_channelSubscribers (srv_sessions srv)) cs)"
    "finite (set_at (sm_threadSubscribers (srv_sessions srv)) t)"
proof -
  have ok: "sm_ok (srv_sessions srv)" using g by (simp add: good_def server_ok_def)
  have "channel_targets srv c \<subseteq> sm_sessions (srv_sessions srv)"
    using subscribed_registered [OF ok] by (auto simp: channel_targets_def)
  moreover have "set_at (sm_channelSubscribers (srv_sessions srv)) cs \<subseteq> sm_sessions (srv_sessions srv)"
    "set_at (sm_threadSubscribers (srv_sessions srv)) t \<subseteq> sm_sessions (srv_sessions srv)"
    using subscribed_registered [OF ok] by auto
  ultimately show "finite (channel_targets srv c)" "finite (set_at (sm_channelSubscribers (srv_sessions srv)) cs)"
    "finite (set_at (sm_threadSubscribers (srv_sessions srv)) t)"
    by (blast intro: finite_subset [OF _ good_finite [OF g]])+
qed

section \<open>Runs that end well\<close>

text \<open>The run returns with P, or, where b allows it, waits for the clock; it does not panic and does not run past its bound.\<close>

definition run_ok :: "bool \<Rightarrow> ('a \<Rightarrow> bool) \<Rightarrow> 'a run \<Rightarrow> bool" where
  "run_ok b P r \<longleftrightarrow> (case r of Returns x \<Rightarrow> P x | Starves \<Rightarrow> b | Panics \<Rightarrow> False | Exhausted \<Rightarrow> False)"

lemma run_ok_simps [simp]:
  "run_ok b P (Returns x) = P x" "run_ok b P Starves = b" "run_ok b P Panics = False" "run_ok b P Exhausted = False"
  by (simp_all add: run_ok_def)

lemma run_ok_Returns: "run_ok False P r \<longleftrightarrow> (\<exists>x. r = Returns x \<and> P x)"
  by (cases r) auto

lemma run_ok_mono: "run_ok b P r \<Longrightarrow> (\<And>x. P x \<Longrightarrow> Q x) \<Longrightarrow> run_ok b Q r"
  by (cases r) auto

lemma run_ok_weaken: "run_ok False P r \<Longrightarrow> (\<And>x. P x \<Longrightarrow> Q x) \<Longrightarrow> run_ok b Q r"
  by (cases r) auto

lemma run_ok_then: "run_ok b Q r \<Longrightarrow> (\<And>x. Q x \<Longrightarrow> run_ok b P (k x)) \<Longrightarrow> run_ok b P (run_then r k)"
  by (cases r) auto

abbreviation answers :: "u64 set \<Rightarrow> u64 set \<Rightarrow> 'e \<times> ('w, 'q) Server \<Rightarrow> bool" where
  "answers D S x \<equiv> good D S (snd x)"

named_theorems run_rules \<open>how a run keeps the invariant\<close>

section \<open>Changes of the state\<close>

lemma good_on_sm:
  assumes "good D S srv" and "sm_ok sm" and "dom (sm_objects sm) = D" and "sm_sessions sm \<subseteq> S"
    and "store_inv (sm_db sm) (srv_clock srv)"
    and "\<And>cs. set_at (sm_channelSubscribers sm) cs \<subseteq> set_at (sm_channelSubscribers (srv_sessions srv)) cs"
  shows "good D S (on_sm (\<lambda>_. sm) srv)"
  using assms by (fastforce simp: good_def server_ok_def on_sm_def addresses_ok_def)

lemma good_set_session [simp]:
  assumes "good D S srv" and "same_subscriptions f"
  shows "good D S (set_session i f srv)"
  using assms sm_ok_with_session [OF _ assms(2), of "srv_sessions srv" i]
  by (simp add: good_def server_ok_def set_session_def on_sm_def addresses_ok_def with_session_def)

lemma good_conn [simp]: "good D S srv \<Longrightarrow> good D S (set_session i (\<lambda>s. s\<lparr>s_Conn := c\<rparr>) srv)"
  by (erule good_set_session) (rule same_subscriptions_simps(4))

lemma good_store:
  assumes "good D S srv" and "store_inv m clock"
  shows "good D S ((on_sm (\<lambda>sm. sm\<lparr>sm_db := m\<rparr>) srv)\<lparr>srv_clock := clock\<rparr>)"
  using assms by (simp add: good_def server_ok_def on_sm_def addresses_ok_def)

lemma good_rest [simp]:
  "good D S (srv\<lparr>srv_sqlite := q\<rparr>) = good D S srv" "good D S (srv\<lparr>srv_times := ts\<rparr>) = good D S srv"
  "good D S (srv\<lparr>srv_draws := n\<rparr>) = good D S srv" "good D S (srv\<lparr>srv_discoveryRateLimits := l\<rparr>) = good D S srv"
  "good D S (srv\<lparr>srv_config := c\<rparr>) = good D S srv" "good D S (srv\<lparr>srv_autoRegisterAttempts := a\<rparr>) = good D S srv"
  by (simp_all add: good_def server_ok_def addresses_ok_def)

lemma good_new: "good D S srv \<Longrightarrow> good D S (srv\<lparr>srv_addresses := srv_addresses srv + 1\<rparr>)"
  by (fastforce simp: good_def server_ok_def addresses_ok_def)

lemma good_tick: "good D S srv \<Longrightarrow> srv_clock srv = t # ts \<Longrightarrow> good D S (srv\<lparr>srv_clock := ts\<rparr>)"
  using store_inv_tick by (auto simp: good_def server_ok_def addresses_ok_def)

section \<open>The steps of a handler\<close>

lemma run_the_session:
  assumes "good D S srv" and "i \<in> D"
    and "\<And>sess. sm_objects (srv_sessions srv) i = Some sess \<Longrightarrow> run_ok b P (k sess srv)"
  shows "run_ok b P (the_session i k srv)"
  using assms by (auto simp: the_session_def good_def split: option.split)

lemma run_db_then:
  assumes "good D S srv"
    and "\<And>r m clock. store_inv (srv_db srv) (srv_clock srv) \<Longrightarrow> op (srv_db srv) (srv_clock srv) = Some (r, m, clock) \<Longrightarrow> store_inv m clock"
    and "\<And>r srv'. good D S srv' \<Longrightarrow> run_ok True P (k r srv')"
  shows "run_ok True P (db_then op k srv)"
proof (cases "op (srv_db srv) (srv_clock srv)")
  case (Some x)
  obtain r m clock where x: "x = (r, m, clock)" by (cases x)
  have "store_inv m clock" using assms(1,2) Some by (simp add: x good_def server_ok_def)
  from assms(3) [OF good_store [OF assms(1) this]] show ?thesis by (simp add: db_then_def Some x)
qed (simp add: db_then_def)

lemma run_sql_then:
  assumes "good D S srv" and "\<And>r srv'. good D S srv' \<Longrightarrow> run_ok b P (k r srv')"
  shows "run_ok b P (sql_then op k srv)"
  using assms by (auto simp: sql_then_def split: prod.split)

lemma run_now_then:
  assumes "good D S srv" and "\<And>t srv'. good D S srv' \<Longrightarrow> run_ok True P (k t srv')"
  shows "run_ok True P (now_then k srv)"
  using assms(2) [OF good_tick [OF assms(1)]] by (auto simp: now_then_def split: list.split)

lemma run_time_then:
  assumes "good D S srv" and "\<And>t srv'. good D S srv' \<Longrightarrow> run_ok True P (k t srv')"
  shows "run_ok True P (time_then k srv)"
  using assms by (auto simp: time_then_def split: list.split)

lemma run_draw_then:
  assumes "good D S srv" and "\<And>n srv'. good D S srv' \<Longrightarrow> run_ok b P (k n srv')"
  shows "run_ok b P (draw_then k srv)"
  using assms by (simp add: draw_then_def)

lemma run_opt_new_then:
  assumes "good D S srv" and "\<And>a srv'. good D S srv' \<Longrightarrow> run_ok b P (k a srv')"
  shows "run_ok b P (opt_new_then v k srv)"
  using assms(2) [OF assms(1)] assms(2) [OF good_new [OF assms(1)]]
  by (auto simp: opt_new_then_def new_then_def split: option.split)

lemma run_decoded [run_rules]:
  assumes "run_ok b P (bad srv)" and "\<And>m. run_ok b P (ok m srv)"
  shows "run_ok b P (decoded d bad ok srv)"
  using assms by (auto simp: decoded_def split: option.split)

lemma run_also_do:
  assumes "run_ok b (good D S) (f srv)" and "\<And>srv'. good D S srv' \<Longrightarrow> run_ok b P (k srv')"
  shows "run_ok b P (also_do f k srv)"
  using assms by (auto simp: also_do_def intro: run_ok_then)

lemma run_if_ok [run_rules]:
  assumes "run_ok b (answers D S) (a srv)" and "\<And>srv'. good D S srv' \<Longrightarrow> run_ok b (answers D S) (k srv')"
  shows "run_ok b (answers D S) (if_ok a k srv)"
  unfolding if_ok_def on_ok_def using assms(1)
  by (rule run_ok_then) (use assms(2) in \<open>auto split: option.split\<close>)

lemma run_assign:
  assumes "good D S srv" and "same_subscriptions f" and "\<And>srv'. good D S srv' \<Longrightarrow> run_ok b P (k srv')"
  shows "run_ok b P (assign i f k srv)"
  using assms by (simp add: assign_def)

lemma run_succeed [run_rules]: "good D S srv \<Longrightarrow> run_ok b (answers D S) (succeed srv)"
  by (simp add: succeed_def)

lemma run_fail_with [run_rules]: "good D S srv \<Longrightarrow> run_ok b (answers D S) (fail_with e srv)"
  by (simp add: fail_with_def)

lemma run_Returns [run_rules]: "good D S srv \<Longrightarrow> run_ok b (good D S) (Returns srv)"
  by simp

lemma run_ignoring [run_rules]: "run_ok b (answers D S) r \<Longrightarrow> run_ok b (good D S) (ignoring r)"
  unfolding ignoring_def by (erule run_ok_then) auto

lemma run_send [run_rules]: "good D S srv \<Longrightarrow> i \<in> D \<Longrightarrow> run_ok b (answers D S) (srv_sendMessage E i t msg srv)"
  unfolding srv_sendMessage_def by (rule run_the_session) (auto split: prod.split)

lemma run_WriteBytes: "good D S srv \<Longrightarrow> i \<in> D \<Longrightarrow> run_ok b (answers D S) (WriteBytes E i data srv)"
  unfolding WriteBytes_def by (rule run_the_session) (auto split: prod.split)

lemma run_sendError [run_rules]: "good D S srv \<Longrightarrow> i \<in> D \<Longrightarrow> run_ok b (answers D S) (sendError E i code text srv)"
  unfolding sendError_def by (rule run_send)

lemma run_dbError [run_rules]: "good D S srv \<Longrightarrow> i \<in> D \<Longrightarrow> run_ok b (answers D S) (dbError E i srv)"
  unfolding dbError_def by (rule run_sendError)

text \<open>Branches, applied to the state or not.\<close>

lemma run_if [run_rules]:
  "(c \<Longrightarrow> run_ok b P r) \<Longrightarrow> (\<not> c \<Longrightarrow> run_ok b P r') \<Longrightarrow> run_ok b P (if c then r else r')"
  "(c \<Longrightarrow> run_ok b P (f srv)) \<Longrightarrow> (\<not> c \<Longrightarrow> run_ok b P (f' srv)) \<Longrightarrow> run_ok b P ((if c then f else f') srv)"
  by simp_all

lemma run_option [run_rules]:
  "(x = None \<Longrightarrow> run_ok b P r) \<Longrightarrow> (\<And>y. x = Some y \<Longrightarrow> run_ok b P (r' y)) \<Longrightarrow> run_ok b P (case x of None \<Rightarrow> r | Some y \<Rightarrow> r' y)"
  "(x = None \<Longrightarrow> run_ok b P (f srv)) \<Longrightarrow> (\<And>y. x = Some y \<Longrightarrow> run_ok b P (f' y srv)) \<Longrightarrow>
    run_ok b P ((case x of None \<Rightarrow> f | Some y \<Rightarrow> f' y) srv)"
  by (simp_all split: option.split)

lemma run_sum [run_rules]:
  "(\<And>e. z = Inl e \<Longrightarrow> run_ok b P (r e)) \<Longrightarrow> (\<And>y. z = Inr y \<Longrightarrow> run_ok b P (r' y)) \<Longrightarrow> run_ok b P (case z of Inl e \<Rightarrow> r e | Inr y \<Rightarrow> r' y)"
  "(\<And>e. z = Inl e \<Longrightarrow> run_ok b P (f e srv)) \<Longrightarrow> (\<And>y. z = Inr y \<Longrightarrow> run_ok b P (f' y srv)) \<Longrightarrow>
    run_ok b P ((case z of Inl e \<Rightarrow> f e | Inr y \<Rightarrow> f' y) srv)"
  by (simp_all split: sum.split)

lemma run_sql_error [run_rules]:
  "(e = ErrNoRows \<Longrightarrow> run_ok b P (f srv)) \<Longrightarrow> (\<And>t. e = SQLErr t \<Longrightarrow> run_ok b P (f' t srv)) \<Longrightarrow>
    run_ok b P ((case e of ErrNoRows \<Rightarrow> f | SQLErr t \<Rightarrow> f' t) srv)"
  by (simp split: sql_error.split)

lemma run_pair [run_rules]:
  "(\<And>x y. p = (x, y) \<Longrightarrow> run_ok b P (r x y)) \<Longrightarrow> run_ok b P (case p of (x, y) \<Rightarrow> r x y)"
  "(\<And>x y. p = (x, y) \<Longrightarrow> run_ok b P (f x y srv)) \<Longrightarrow> run_ok b P ((case p of (x, y) \<Rightarrow> f x y) srv)"
  by (simp_all split: prod.split)

lemma run_Let [run_rules]:
  "run_ok b P (r x) \<Longrightarrow> run_ok b P (Let x r)" "run_ok b P (f x srv) \<Longrightarrow> run_ok b P (Let x f srv)"
  by (simp_all add: Let_def)

text \<open>The same rules, for handlers.\<close>

lemmas [run_rules] =
  run_the_session [where P = "answers D S" and D = D and S = S for D S]
  run_db_then [where P = "answers D S" and D = D and S = S for D S]
  run_sql_then [where P = "answers D S" and D = D and S = S for D S]
  run_now_then [where P = "answers D S" and D = D and S = S for D S]
  run_time_then [where P = "answers D S" and D = D and S = S for D S]
  run_draw_then [where P = "answers D S" and D = D and S = S for D S]
  run_opt_new_then [where P = "answers D S" and D = D and S = S for D S]
  run_assign [where P = "answers D S" and D = D and S = S for D S]
  run_also_do [where P = "answers D S" and D = D and S = S for D S]

end
