(* ===== verification/SrvRemoval.thy ===== *)
theory SrvRemoval imports SrvGood begin

text \<open>
  Broadcasting and removing sessions always come to an end, whatever connections fail: the slices of the worker pool are
  in range and cover the sessions, and the recursion of removeSession stays within its bound.
\<close>

section \<open>The worker pool\<close>

lemma numWorkers_pos: "n > 0 \<Longrightarrow> 0 < numWorkers n"
  by (simp add: numWorkers_def)

text \<open>All chunks but the last are full, and the last begins inside the list.\<close>

lemma chunks_fit:
  assumes "n > 0"
  shows "(numWorkers n - 1) * chunkSize n \<le> n" and "n \<le> numWorkers n * chunkSize n"
proof -
  let ?w = "numWorkers n" and ?c = "chunkSize n"
  have w: "0 < ?w" using assms by (rule numWorkers_pos)
  have c: "?c * ?w \<le> n + ?w - 1" "n + ?w - 1 < ?c * ?w + ?w"
    using dividend_less_div_times [OF w, of "n + ?w - 1"] div_times_less_eq_dividend [of "n + ?w - 1" ?w]
    by (simp_all add: chunkSize_def)
  then show "n \<le> ?w * ?c" using w by (simp add: mult.commute)
  show "(?w - 1) * ?c \<le> n"
  proof (cases "(n + 50 - 1) div 50 \<le> 40")
    case True
    then have "?w = (n + 49) div 50" by (simp add: numWorkers_def)
    then have n: "50 * ?w \<le> n + 49" "n + 49 < 50 * ?w + 50"
      using div_mult_mod_eq [of "n + 49" 50] mod_less_divisor [of 50 "n + 49"] by simp_all
    then have "?c \<le> 50"
      unfolding chunkSize_def using w by (intro less_Suc_eq_le [THEN iffD1] less_mult_imp_div_less) (simp add: mult.commute)
    then have "(?w - 1) * ?c \<le> (?w - 1) * 50" by (rule mult_le_mono2)
    also have "\<dots> \<le> n" using n w by (simp add: diff_mult_distrib)
    finally show ?thesis .
  next
    case False
    then have "?w = 40" "1951 < n" by (simp_all add: numWorkers_def)
    with c(1) show ?thesis by simp
  qed
qed

lemma take_chunk: "take (min (a + c) n - a) (drop a xs) = take c (drop a xs)" if "length xs = n" for xs :: "'a list"
proof -
  have "length (drop a xs) \<le> n - a" using that by simp
  then show ?thesis by (cases "a + c \<le> n") (auto simp: min_def)
qed

lemma concat_chunks:
  "concat (map (\<lambda>i. take c (drop (i * c) xs)) [0..<w]) = take (w * c) xs"
proof (induction w)
  case (Suc w)
  have "take (w * c) xs @ take c (drop (w * c) xs) = take (w * c + c) xs" by (simp add: take_add)
  with Suc show ?case by (simp add: add.commute)
qed simp

lemma chunk_Some:
  assumes "xs \<noteq> []" and "i < numWorkers (length xs)"
  shows "chunk xs i = Some (take (chunkSize (length xs)) (drop (i * chunkSize (length xs)) xs))"
proof -
  let ?n = "length xs"
  have "i * chunkSize ?n \<le> (numWorkers ?n - 1) * chunkSize ?n"
    by (intro mult_le_mono1) (use assms(2) in linarith)
  also have "\<dots> \<le> ?n" using assms(1) by (intro chunks_fit) simp
  finally show ?thesis by (simp add: chunk_def Let_def take_chunk)
qed

lemma chunks_cover:
  "chunks xs = map Some (map (\<lambda>i. take (chunkSize (length xs)) (drop (i * chunkSize (length xs)) xs)) [0..<numWorkers (length xs)])"
proof (cases "xs = []")
  case False
  then show ?thesis by (simp add: chunks_def chunk_Some)
qed (simp add: chunks_def numWorkers_def)

lemma chunks_concat:
  "concat (map (\<lambda>i. take (chunkSize (length xs)) (drop (i * chunkSize (length xs)) xs)) [0..<numWorkers (length xs)]) = xs"
  using chunks_fit(2) [of "length xs"] by (cases "xs = []") (simp_all add: concat_chunks numWorkers_def)

text \<open>The worker pool writes to every session exactly once: for any number of sessions the slices handed to the
  workers are in range, there are at most 40 of them, and put together they are the sessions in order.\<close>

theorem broadcast_chunks:
  "\<exists>cs. chunks sessions = map Some cs \<and> length cs \<le> 40 \<and> concat cs = sessions"
proof -
  let ?cs = "map (\<lambda>i. take (chunkSize (length sessions)) (drop (i * chunkSize (length sessions)) sessions)) [0..<numWorkers (length sessions)]"
  have "length ?cs \<le> 40" by (simp add: numWorkers_def)
  then show ?thesis using chunks_cover chunks_concat by blast
qed

section \<open>Broadcasts keep the invariant\<close>

text \<open>A way to remove sessions that keeps the invariant, whatever it is asked to remove.\<close>

definition removes :: "u64 set \<Rightarrow> u64 set \<Rightarrow> ('w, 'q) remover \<Rightarrow> bool" where
  "removes D S remove \<longleftrightarrow> (\<forall>i srv. good D S srv \<longrightarrow> run_ok False (good D S) (remove i srv))"

lemma run_write_chunk:
  assumes "good D S srv" and "set is \<subseteq> D"
  shows "run_ok False (\<lambda>(dead', srv'). good D S srv') (write_chunk E data is dead srv)"
  using assms
proof (induction "is" arbitrary: dead srv)
  case (Cons i "is")
  have "run_ok False (answers D S) (WriteBytes E i data srv)" by (rule run_WriteBytes) (use Cons.prems in auto)
  then show ?case unfolding write_chunk.simps
    by (rule run_ok_then) (use Cons.prems(2) in \<open>auto intro!: Cons.IH\<close>)
qed simp

lemma run_write_chunks:
  assumes "good D S srv" and "\<forall>c \<in> set cs. set c \<subseteq> D"
  shows "run_ok False (\<lambda>(dead', srv'). good D S srv') (write_chunks E data (map Some cs) dead srv)"
  using assms
proof (induction cs arbitrary: dead srv)
  case (Cons c cs)
  have "run_ok False (\<lambda>(dead', srv'). good D S srv') (write_chunk E data c dead srv)"
    by (rule run_write_chunk) (use Cons.prems in auto)
  then show ?case unfolding list.map write_chunks.simps
    by (rule run_ok_then) (use Cons.prems(2) in \<open>auto intro!: Cons.IH\<close>)
qed simp

lemma run_parallel:
  assumes "good D S srv" and "set sessions \<subseteq> D"
  shows "run_ok False (\<lambda>(dead, srv'). good D S srv') (broadcastToSessionsParallel E sessions data srv)"
proof -
  obtain cs where cs: "chunks sessions = map Some cs" "concat cs = sessions"
    using chunks_cover [of sessions] chunks_concat [of sessions] by blast
  have "\<forall>c \<in> set cs. set c \<subseteq> D" using assms(2) unfolding cs(2) [symmetric] by auto
  from run_write_chunks [OF assms(1) this]
  have "run_ok False (\<lambda>(dead, srv'). good D S srv') (run_then (write_chunks E data (map Some cs) [] srv)
      (\<lambda>(dead, srv). draw_then (\<lambda>n srv. Returns (env_ranges E n (set dead), srv)) srv))"
    by (rule run_ok_then) (auto simp: draw_then_def)
  then show ?thesis by (simp add: broadcastToSessionsParallel_def cs(1) assms(1))
qed

lemma run_remove_all:
  assumes "removes D S remove" and "good D S srv"
  shows "run_ok False (good D S) (remove_all remove ds srv)"
  using assms(2)
proof (induction ds arbitrary: srv)
  case (Cons d ds)
  then have "run_ok False (good D S) (remove d srv)" using assms(1) by (simp add: removes_def)
  then show ?case unfolding remove_all.simps by (rule run_ok_then) (rule Cons.IH)
qed simp

lemma run_broadcast_with:
  assumes "removes D S remove" and "good D S srv" and "set targets \<subseteq> D"
  shows "run_ok False (good D S) (broadcast_with remove E targets data srv)"
  unfolding broadcast_with_def using run_parallel [OF assms(2,3)]
  by (rule run_ok_then) (auto intro: run_remove_all [OF assms(1)])

text \<open>The order of a range lists registered sessions.\<close>

lemma range_registered:
  assumes "ranges_ok (env_ranges E)" and "good D S srv"
  shows "set (GetAllSessions (env_ranges E n) (srv_sessions srv)) = sm_sessions (srv_sessions srv)"
  using ranges_okD(1) [OF assms(1) good_finite [OF assms(2)]] by (simp add: GetAllSessions_def)

lemma run_broadcastToChannel_with:
  assumes "removes D S remove" and "ranges_ok (env_ranges E)" and g: "good D S srv"
  shows "run_ok False (answers D S) (broadcastToChannel_with remove E c t msg srv)"
  unfolding broadcastToChannel_with_def
proof (intro run_sum run_draw_then [OF g])
  fix data n and srv' :: "('a, 'b) Server"
  assume g': "good D S srv'"
  have "set (env_ranges E n (channel_targets srv' c)) \<subseteq> D"
    using ranges_okD(1) [OF assms(2) good_targets(1) [OF g']] good_channel_targets(1) [OF g'] by simp
  from run_broadcast_with [OF assms(1) g' this]
  show "run_ok False (answers D S) (run_then (broadcast_with remove E (env_ranges E n (channel_targets srv' c)) data srv')
      (\<lambda>srv. Returns (None, srv)))"
    by (rule run_ok_then) simp
qed (simp add: g)

lemma run_notifyChannelPresence_with:
  assumes rm: "removes D S remove" and r: "ranges_ok (env_ranges E)" and g: "good D S srv" and i: "i \<in> D"
  shows "run_ok False (good D S) (notifyChannelPresence_with remove E c i joined srv)"
  unfolding notifyChannelPresence_with_def
  by (intro run_the_session [OF g i] run_option run_Returns [OF g] run_ok_then [OF run_ignoring [OF run_broadcastToChannel_with [OF rm r g]]]
      run_if run_ignoring run_send i) (auto intro: run_send)

lemma run_notify_each:
  assumes "removes D S remove" and "good D S srv" and "set ts \<subseteq> D"
  shows "run_ok False (good D S) (notify_each remove E msg ts srv)"
  using assms(2,3)
proof (induction ts arbitrary: srv)
  case (Cons t ts)
  have "run_ok False (answers D S) (srv_sendMessage E t TypeServerPresence (ServerPresenceM msg) srv)"
    by (rule run_send) (use Cons.prems in auto)
  then show ?case unfolding notify_each.simps
  proof (rule run_ok_then)
    fix x :: "server_error option \<times> ('a, 'b) Server"
    assume "answers D S x"
    then have "run_ok False (good D S) (if fst x \<noteq> None then remove t (snd x) else Returns (snd x))"
      using assms(1) by (simp add: removes_def)
    from run_ok_then [OF this Cons.IH] show "run_ok False (good D S) (case x of (err, srv) \<Rightarrow>
        run_then (if err \<noteq> None then remove t srv else Returns srv) (notify_each remove E msg ts))"
      using Cons.prems(2) by (simp add: case_prod_beta)
  qed
qed simp

lemma run_notifyServerPresence_with:
  assumes rm: "removes D S remove" and r: "ranges_ok (env_ranges E)" and g: "good D S srv" and i: "i \<in> D"
  shows "run_ok False (good D S) (notifyServerPresence_with remove E i online srv)"
  unfolding notifyServerPresence_with_def
proof (intro run_the_session [OF g i] run_option run_Returns [OF g] run_draw_then [OF g])
  fix sess msg n and srv' :: "('a, 'b) Server"
  assume g': "good D S srv'"
  show "run_ok False (good D S) (notify_each remove E msg (GetAllSessions (env_ranges E n) (srv_sessions srv')) srv')"
    by (rule run_notify_each [OF rm g']) (simp add: range_registered [OF r g'] good_registered [OF g'])
qed

section \<open>Removing a session\<close>

lemma good_RemoveSession:
  assumes g: "good D S srv"
  shows "good D (S - {i}) (on_sm (\<lambda>sm. RemoveSession nc sm i) srv)"
proof -
  let ?sm = "srv_sessions srv"
  have ok: "sm_ok ?sm" using g by (simp add: good_def server_ok_def)
  have "sm_sessions (RemoveSession nc ?sm i) = sm_sessions ?sm - {i}"
    using ok by (auto simp: RemoveSession_def sm_GetSession_def Let_def with_session_def sm_ok_def split: option.splits)
  moreover have "dom (sm_objects (RemoveSession nc ?sm i)) = dom (sm_objects ?sm)"
    by (auto simp: RemoveSession_def Let_def with_session_def split: option.split)
  moreover have "sm_db (RemoveSession nc ?sm i) = sm_db ?sm \<or> (\<exists>s. sm_db (RemoveSession nc ?sm i) = DeleteSession (sm_db ?sm) s)"
    by (auto simp: RemoveSession_def Let_def with_session_def split: option.split)
  then have "store_inv (sm_db (RemoveSession nc ?sm i)) (srv_clock srv)"
    using g store_inv_DeleteSession by (auto simp: good_def server_ok_def)
  moreover have "set_at (sm_channelSubscribers (RemoveSession nc ?sm i)) cs \<subseteq> set_at (sm_channelSubscribers ?sm) cs" for cs
    by (auto simp: RemoveSession_def Let_def with_session_def by_channels.set_at_drop split: option.split if_splits)
  ultimately show ?thesis
    using g sm_ok_remove [OF ok, of nc i]
    by (fastforce simp: good_def server_ok_def on_sm_def addresses_ok_def)
qed

lemma remove_session_good:
  assumes r: "ranges_ok (env_ranges E)"
  shows "good D S srv \<Longrightarrow> finite S \<Longrightarrow> card S < n \<Longrightarrow> run_ok False (good D (S - {i})) (remove_session n E i srv)"
proof (induction n arbitrary: S srv i)
  case (Suc n)
  let ?srv = "on_sm (\<lambda>sm. RemoveSession (env_conn E) sm i) srv"
  have g': "good D (S - {i}) ?srv" using Suc.prems(1) by (rule good_RemoveSession)
  show ?case
  proof (cases "sm_GetSession (srv_sessions srv) i")
    case (Some sess)
    then have i: "i \<in> sm_sessions (srv_sessions srv)" by (simp add: sm_GetSession_def split: if_splits)
    then have "i \<in> S" "i \<in> D" using Suc.prems(1) good_registered by (auto simp: good_def)
    then have "card (S - {i}) < n" using Suc.prems(2,3) card_Diff1_less [of S i] by linarith
    then have rm: "removes D (S - {i}) (remove_session n E)"
      unfolding removes_def
    proof (intro allI impI)
      fix j and srv' :: "('a, 'b) Server"
      assume "good D (S - {i}) srv'"
      with Suc.IH [of "S - {i}" srv' j] Suc.prems(2) \<open>card (S - {i}) < n\<close>
      have "run_ok False (good D (S - {i} - {j})) (remove_session n E j srv')" by simp
      then show "run_ok False (good D (S - {i})) (remove_session n E j srv')"
        by (rule run_ok_mono) (auto intro: good_subset)
    qed
    show ?thesis unfolding remove_session.simps Some option.case Let_def
    proof (rule run_ok_then [where Q = "good D (S - {i})"])
      show "run_ok False (good D (S - {i})) (case s_JoinedChannel sess of None \<Rightarrow> Returns ?srv
          | Some channelID \<Rightarrow> notifyChannelPresence_with (remove_session n E) E channelID i False ?srv)"
        by (intro run_option run_Returns g' run_notifyChannelPresence_with [OF rm r g' \<open>i \<in> D\<close>])
      show "good D (S - {i}) srv' \<Longrightarrow> run_ok False (good D (S - {i})) (notifyServerPresence_with (remove_session n E) E i False srv')" for srv'
        by (rule run_notifyServerPresence_with [OF rm r _ \<open>i \<in> D\<close>])
    qed
  qed (use g' in simp)
qed simp

lemma run_removeSession:
  assumes "ranges_ok (env_ranges E)" and g: "good D S srv"
  shows "run_ok False (good D (S - {i})) (removeSession E i srv)"
  unfolding removeSession_def
  using remove_session_good [OF assms(1) good_self [OF g] good_finite [OF g] lessI]
  by (rule run_ok_mono) (use g in \<open>auto simp: good_def\<close>)

text \<open>C8. Removing a session comes to an end: when connections fail while others are told, their sessions are removed
  too and told of in turn, but the recursion is never deeper than the number of registered sessions. The session is gone
  afterwards, no session appears, the indexes and the store stay well formed, and nothing panics.\<close>

theorem removeSession_returns:
  assumes "ranges_ok (env_ranges E)" and "server_ok srv"
  shows "\<exists>srv'. removeSession E i srv = Returns srv' \<and> server_ok srv' \<and>
    sm_sessions (srv_sessions srv') \<subseteq> sm_sessions (srv_sessions srv) - {i} \<and>
    dom (sm_objects (srv_sessions srv')) = dom (sm_objects (srv_sessions srv))"
proof -
  have "good (dom (sm_objects (srv_sessions srv))) (sm_sessions (srv_sessions srv)) srv"
    using assms(2) by (simp add: good_def)
  from run_removeSession [OF assms(1) this, of i] show ?thesis by (auto simp: run_ok_Returns good_def)
qed

end
