(* ===== verification/SrvAuth.thy ===== *)
theory SrvAuth imports SrvBroadcast begin

text \<open>
  The handlers of "handlers.go" about who a session is: login, registration, logout, nickname, password, ping and
  disconnect. Strings sent to the client are those of the code.
\<close>

section \<open>Login\<close>

definition refuse_login :: "('w, 'q) Env \<Rightarrow> u64 \<Rightarrow> gostring \<Rightarrow> ('w, 'q) act" where
  "refuse_login E i message = srv_sendMessage E i TypeAuthResponse (AuthResponseM
    \<lparr>AuthResponse_Success = False, AuthResponse_UserID = 0, AuthResponse_Nickname = [], AuthResponse_Message = message,
     AuthResponse_UserFlags = None\<rparr>)"

definition ban_text :: "('w, 'q) Env \<Rightarrow> DBBan \<Rightarrow> gostring" where
  "ban_text E ban = lit ''Account banned '' @
    (case db_BannedUntil ban of None \<Rightarrow> lit ''permanently''
     | Some t \<Rightarrow> lit ''until '' @ env_FormatRFC3339 E (quot (sint t) 1000)) @
    lit ''. Reason: '' @ db_Reason ban"

definition accept_login :: "('w, 'q) Env \<Rightarrow> u64 \<Rightarrow> DBUser \<Rightarrow> bool \<Rightarrow> ('w, 'q) act" where
  "accept_login E i user shadowbanned =
    assign i (\<lambda>s. s\<lparr>s_UserID := Some (du_ID user), s_Nickname := du_Nickname user, s_UserFlags := du_UserFlags user,
      s_Shadowbanned := shadowbanned\<rparr>)
    (the_session i (\<lambda>sess. sql_then (sql_UpdateSessionUserID (env_sql E) (s_DBSessionID sess) (du_ID user)) (\<lambda>_.
      sql_then (sql_UpdateUserLastSeen (env_sql E) (du_ID user)) (\<lambda>_.
      if_ok (srv_sendMessage E i TypeAuthResponse (AuthResponseM
        \<lparr>AuthResponse_Success = True, AuthResponse_UserID = du_ID user, AuthResponse_Nickname = du_Nickname user,
         AuthResponse_Message = lit ''Welcome back, '' @ du_Nickname user @ lit ''!'',
         AuthResponse_UserFlags = Some (du_UserFlags user)\<rparr>))
      (also_do (sendServerPresenceSnapshot E i)
      (also_do (notifyServerPresence E i True) succeed))))))"

definition handleAuthRequest :: "('w, 'q) Env \<Rightarrow> u64 \<Rightarrow> Frame \<Rightarrow> ('w, 'q) act" where
  "handleAuthRequest E i frame = decoded (AuthRequestMessage_Decode AuthRequestMessage_zero (Frame_Payload frame))
    (sendError E i 1000 (lit ''Invalid message format''))
    (\<lambda>msg. sql_then (sql_GetUserByNickname (env_sql E) (AuthRequest_Nickname msg)) (\<lambda>r. case r of
       Inl ErrNoRows \<Rightarrow> refuse_login E i (lit ''Invalid credentials'')
     | Inl (SQLErr t) \<Rightarrow> dbError E i
     | Inr user \<Rightarrow>
        if du_PasswordHash user = [] then
          refuse_login E i (lit ''This account requires SSH authentication. Please connect via SSH.'')
        else if \<not> env_CompareHashAndPassword E (du_PasswordHash user) (AuthRequest_Password msg) then
          refuse_login E i (lit ''Invalid credentials'')
        else sql_then (sql_GetActiveBanForUser (env_sql E) (Some (du_ID user)) (Some (du_Nickname user))) (\<lambda>b.
          case (case b of Inl e \<Rightarrow> None | Inr ban \<Rightarrow> ban) of
            None \<Rightarrow> accept_login E i user False
          | Some ban \<Rightarrow> if db_Shadowban ban then accept_login E i user True else refuse_login E i (ban_text E ban))))"

section \<open>Registration\<close>

definition refuse_registration :: "('w, 'q) Env \<Rightarrow> u64 \<Rightarrow> gostring \<Rightarrow> ('w, 'q) act" where
  "refuse_registration E i message = srv_sendMessage E i TypeRegisterResponse (RegisterResponseM
    \<lparr>RegisterResponse_Success = False, RegisterResponse_UserID = 0, RegisterResponse_Message = message\<rparr>)"

definition handleRegisterUser :: "('w, 'q) Env \<Rightarrow> u64 \<Rightarrow> Frame \<Rightarrow> ('w, 'q) act" where
  "handleRegisterUser E i frame = decoded (RegisterUserMessage_Decode RegisterUserMessage_zero (Frame_Payload frame))
    (sendError E i 1000 (lit ''Invalid message format''))
    (\<lambda>msg. the_session i (\<lambda>sess.
       if s_Nickname sess = [] then refuse_registration E i (lit ''Must set nickname before registering'')
       else if length (RegisterUser_Password msg) < 40 \<or> length (RegisterUser_Password msg) > 50 then
         refuse_registration E i (lit ''Invalid password hash format'')
       else draw_then (\<lambda>n. case env_GenerateFromPassword E n (RegisterUser_Password msg) of
         Inl t \<Rightarrow> sendError E i 9000 (lit ''Failed to hash password'')
       | Inr hashedPassword \<Rightarrow>
          sql_then (sql_CreateUser (env_sql E) (s_Nickname sess) hashedPassword 0) (\<lambda>r. case r of
            Inl e \<Rightarrow> if strings_Contains (sql_text e) (lit ''UNIQUE constraint'')
              then refuse_registration E i (lit ''Nickname already registered'') else dbError E i
          | Inr userID \<Rightarrow>
             assign i (\<lambda>s. s\<lparr>s_UserID := Some userID, s_UserFlags := 0\<rparr>)
             (sql_then (sql_UpdateSessionUserID (env_sql E) (s_DBSessionID sess) userID) (\<lambda>_.
              srv_sendMessage E i TypeRegisterResponse (RegisterResponseM
                \<lparr>RegisterResponse_Success = True, RegisterResponse_UserID = userID,
                 RegisterResponse_Message = lit ''Successfully registered '' @ s_Nickname sess @ lit ''!''\<rparr>)))))))"

text \<open>Logging out clears the user id and nothing else.\<close>

definition handleLogout :: "('w, 'q) Env \<Rightarrow> u64 \<Rightarrow> Frame \<Rightarrow> ('w, 'q) act" where
  "handleLogout E i frame = decoded (LogoutMessage_Decode LogoutMessage_zero (Frame_Payload frame))
    (sendError E i 1000 (lit ''Invalid message format''))
    (\<lambda>msg. the_session i (\<lambda>sess. assign i (\<lambda>s. s\<lparr>s_UserID := None\<rparr>) succeed))"

section \<open>Nicknames\<close>

text \<open>The regular expression "^[a-zA-Z0-9_-]{3,20}$" on bytes; a byte above 127 is no such character.\<close>

definition nickname_char :: "u8 \<Rightarrow> bool" where
  "nickname_char c \<longleftrightarrow> (97 \<le> c \<and> c \<le> 122) \<or> (65 \<le> c \<and> c \<le> 90) \<or> (48 \<le> c \<and> c \<le> 57) \<or> c = 95 \<or> c = 45"

definition nicknameRegex :: "gostring \<Rightarrow> bool" where
  "nicknameRegex s \<longleftrightarrow> 3 \<le> length s \<and> length s \<le> 20 \<and> list_all nickname_char s"

definition nickname_response :: "('w, 'q) Env \<Rightarrow> u64 \<Rightarrow> bool \<Rightarrow> gostring \<Rightarrow> ('w, 'q) act" where
  "nickname_response E i success message = srv_sendMessage E i TypeNicknameResponse (NicknameResponseM
    \<lparr>NicknameResponse_Success = success, NicknameResponse_Message = message\<rparr>)"

text \<open>From "Update session nickname" on.\<close>

definition change_nickname :: "('w, 'q) Env \<Rightarrow> u64 \<Rightarrow> gostring \<Rightarrow> gostring \<Rightarrow> ('w, 'q) act" where
  "change_nickname E i oldNickname nickname srv =
    (let isChange = (oldNickname \<noteq> [] \<and> oldNickname \<noteq> nickname) in
     case UpdateNickname (srv_sessions srv) i nickname of
       (Some e, sm) \<Rightarrow> sendError E i 9000 (lit ''Failed to update nickname'') (on_sm (\<lambda>_. sm) srv)
     | (None, sm) \<Rightarrow>
        if_ok (nickname_response E i True ((if isChange then lit ''Nickname changed to '' else lit ''Nickname set to '') @ nickname))
        (also_do (if oldNickname = [] then sendServerPresenceSnapshot E i else Returns)
        (also_do (notifyServerPresence E i True)
        (the_session i (\<lambda>sess. also_do (case s_JoinedChannel sess of None \<Rightarrow> Returns
            | Some channelID \<Rightarrow> notifyChannelPresence E channelID i True) succeed)))) (on_sm (\<lambda>_. sm) srv))"

definition handleSetNickname :: "('w, 'q) Env \<Rightarrow> u64 \<Rightarrow> Frame \<Rightarrow> ('w, 'q) act" where
  "handleSetNickname E i frame = decoded (SetNicknameMessage_Decode SetNicknameMessage_zero (Frame_Payload frame))
    (sendError E i 1000 (lit ''Invalid message format''))
    (\<lambda>msg. if \<not> nicknameRegex (SetNickname_Nickname msg) then
       nickname_response E i False (lit ''Invalid nickname. Must be 3-20 characters, alphanumeric plus - and _'')
     else sql_then (sql_GetUserByNickname (env_sql E) (SetNickname_Nickname msg)) (\<lambda>r. the_session i (\<lambda>sess.
       if (case r of Inl e \<Rightarrow> False | Inr user \<Rightarrow> s_UserID sess \<noteq> Some (du_ID user)) then
         nickname_response E i False (lit ''Nickname registered, password required'')
       else
        (let isChange = (s_Nickname sess \<noteq> [] \<and> s_Nickname sess \<noteq> SetNickname_Nickname msg) in
         case s_UserID sess of
           Some userID \<Rightarrow> if isChange then
               sql_then (sql_UpdateUserNickname (env_sql E) userID (SetNickname_Nickname msg)) (\<lambda>err. case err of
                 Some e \<Rightarrow> nickname_response E i False (lit ''Nickname already in use'')
               | None \<Rightarrow> change_nickname E i (s_Nickname sess) (SetNickname_Nickname msg))
             else change_nickname E i (s_Nickname sess) (SetNickname_Nickname msg)
         | None \<Rightarrow> change_nickname E i (s_Nickname sess) (SetNickname_Nickname msg)))))"

section \<open>Passwords\<close>

definition sendPasswordChanged :: "('w, 'q) Env \<Rightarrow> u64 \<Rightarrow> bool \<Rightarrow> gostring \<Rightarrow> ('w, 'q) act" where
  "sendPasswordChanged E i success errorMessage = srv_sendMessage E i TypePasswordChanged (PasswordChangedM
    \<lparr>PasswordChanged_Success = success, PasswordChanged_ErrorMessage = errorMessage\<rparr>)"

definition remove_password :: "('w, 'q) Env \<Rightarrow> u64 \<Rightarrow> i64 \<Rightarrow> ('w, 'q) act" where
  "remove_password E i userID = sql_then (sql_GetSSHKeysByUserID (env_sql E) userID) (\<lambda>r. case r of
     Inl e \<Rightarrow> sendError E i ErrCodeDatabaseError (lit ''Failed to check SSH keys'')
   | Inr sshKeys \<Rightarrow>
      if length sshKeys = 0 then
        sendPasswordChanged E i False (lit ''Cannot remove password without SSH keys. Add an SSH key first.'')
      else sql_then (sql_UpdateUserPassword (env_sql E) userID []) (\<lambda>err. case err of
        Some e \<Rightarrow> sendError E i ErrCodeDatabaseError (lit ''Failed to remove password'')
      | None \<Rightarrow> sendPasswordChanged E i True []))"

definition replace_password :: "('w, 'q) Env \<Rightarrow> u64 \<Rightarrow> i64 \<Rightarrow> gostring \<Rightarrow> ('w, 'q) act" where
  "replace_password E i userID newPassword =
    (if length newPassword < 40 \<or> length newPassword > 50 then
       sendPasswordChanged E i False (lit ''Invalid password hash format'')
     else draw_then (\<lambda>n. case env_GenerateFromPassword E n newPassword of
       Inl t \<Rightarrow> sendError E i ErrCodeInternalError (lit ''Failed to hash password'')
     | Inr newHash \<Rightarrow> sql_then (sql_UpdateUserPassword (env_sql E) userID newHash) (\<lambda>err. case err of
         Some e \<Rightarrow> sendError E i ErrCodeDatabaseError (lit ''Failed to update password'')
       | None \<Rightarrow> sendPasswordChanged E i True [])))"

definition handleChangePassword :: "('w, 'q) Env \<Rightarrow> u64 \<Rightarrow> Frame \<Rightarrow> ('w, 'q) act" where
  "handleChangePassword E i frame = the_session i (\<lambda>sess. case s_UserID sess of
     None \<Rightarrow> sendError E i ErrCodeAuthRequired (lit ''Must be authenticated to change password'')
   | Some userID \<Rightarrow> decoded (ChangePasswordRequest_Decode ChangePasswordRequest_zero (Frame_Payload frame))
      (sendError E i ErrCodeInvalidFormat (lit ''Invalid change password request''))
      (\<lambda>req. sql_then (sql_GetUserByID (env_sql E) userID) (\<lambda>r. case r of
         Inl e \<Rightarrow> sendPasswordChanged E i False (lit ''User not found'')
       | Inr user \<Rightarrow>
          if du_PasswordHash user \<noteq> [] \<and> ChangePassword_OldPassword req \<noteq> [] \<and>
             \<not> env_CompareHashAndPassword E (du_PasswordHash user) (ChangePassword_OldPassword req) then
            sendPasswordChanged E i False (lit ''Incorrect current password'')
          else if ChangePassword_NewPassword req = [] then remove_password E i userID
          else replace_password E i userID (ChangePassword_NewPassword req))))"

section \<open>Ping and disconnect\<close>

definition touch_session :: "u64 \<Rightarrow> ('w, 'q) act \<Rightarrow> ('w, 'q) act" where
  "touch_session i k = now_then (\<lambda>now srv.
    run_then (sm_UpdateSessionActivity (srv_sessions srv) (srv_clock srv) i now)
      (\<lambda>(sm, clock). k (srv\<lparr>srv_sessions := sm, srv_clock := clock\<rparr>)))"

definition handlePing :: "('w, 'q) Env \<Rightarrow> u64 \<Rightarrow> Frame \<Rightarrow> ('w, 'q) act" where
  "handlePing E i frame = decoded (PingMessage_Decode PingMessage_zero (Frame_Payload frame))
    (sendError E i 1000 (lit ''Invalid message format''))
    (\<lambda>msg. touch_session i (srv_sendMessage E i TypePong (PongM \<lparr>Pong_ClientTimestamp = Ping_Timestamp msg\<rparr>)))"

definition handleDisconnect :: "('w, 'q) Env \<Rightarrow> u64 \<Rightarrow> Frame \<Rightarrow> ('w, 'q) act" where
  "handleDisconnect E i frame = also_do (removeSession E i) (fail_with ErrClientDisconnecting)"

end
