(* ===== verification/SrvMessages.thy ===== *)
theory SrvMessages imports SrvBroadcast begin

text \<open>
  The handlers of "handlers.go" about messages: listing, posting, editing, deleting, unread counts; and the conversion of a
  stored message to what the client sees.
\<close>

section \<open>From the store to the wire\<close>

text \<open>
  The author of a message is looked up in SQLite each time; a failed lookup shows the user id. Replies
  carry no reply count. The conversion of the ids between int64 and uint64 keeps the bits.
\<close>

definition convertDBMessageToProtocol ::
  "('w, 'q) Env \<Rightarrow> DBMessage \<Rightarrow> (Message \<Rightarrow> ('w, 'q) Server \<Rightarrow> 'x run) \<Rightarrow> ('w, 'q) Server \<Rightarrow> 'x run" where
  "convertDBMessageToProtocol E m k =
    (let wire = (\<lambda>nickname srv.
           \<lparr>Message_ID = dm_ID m, Message_ChannelID = dm_ChannelID m, Message_SubchannelID = dm_SubchannelID m,
            Message_ParentID = dm_ParentID m, Message_AuthorUserID = dm_AuthorUserID m, Message_AuthorNickname = nickname,
            Message_Content = dm_Content m, Message_CreatedAt = time_of_millis (dm_CreatedAt m),
            Message_EditedAt = map_option time_of_millis (dm_EditedAt m),
            Message_ReplyCount = (if dm_ParentID m = None then CountReplies (srv_db srv) (dm_ID m) else 0)\<rparr>)
     in case dm_AuthorUserID m of
       None \<Rightarrow> (\<lambda>srv. k (wire (lit ''~'' @ dm_AuthorNickname m) srv) srv)
     | Some userID \<Rightarrow> sql_then (sql_GetUserByID (env_sql E) userID) (\<lambda>r srv. case r of
         Inr user \<Rightarrow> k (wire (DisplayPrefix (du_UserFlags user) @ du_Nickname user) srv) srv
       | Inl e \<Rightarrow> k (wire (lit ''<user:'' @ fmt_d (sint userID) @ lit ''>'') srv) srv))"

fun convertDBMessagesToProtocol ::
  "('w, 'q) Env \<Rightarrow> DBMessage list \<Rightarrow> Message list \<Rightarrow> (Message list \<Rightarrow> ('w, 'q) Server \<Rightarrow> 'x run) \<Rightarrow> ('w, 'q) Server \<Rightarrow> 'x run" where
  "convertDBMessagesToProtocol E [] acc k = k acc"
| "convertDBMessagesToProtocol E (m # ms) acc k =
    convertDBMessageToProtocol E m (\<lambda>wire. convertDBMessagesToProtocol E ms (acc @ [wire]) k)"

section \<open>Listing\<close>

definition message_list :: "('w, 'q) Env \<Rightarrow> u64 \<Rightarrow> ListMessagesMessage \<Rightarrow> DBMessage list \<Rightarrow> ('w, 'q) act" where
  "message_list E i msg dbMessages = convertDBMessagesToProtocol E dbMessages [] (\<lambda>messages.
     srv_sendMessage E i TypeMessageList (MessageListM
       \<lparr>MessageList_ChannelID = ListMessages_ChannelID msg, MessageList_SubchannelID = ListMessages_SubchannelID msg,
        MessageList_ParentID = ListMessages_ParentID msg, MessageList_Messages = messages\<rparr>))"

text \<open>The walk over a thread is bounded by the number of messages.\<close>

definition handleListMessages :: "('w, 'q) Env \<Rightarrow> u64 \<Rightarrow> Frame \<Rightarrow> ('w, 'q) act" where
  "handleListMessages E i frame = decoded (ListMessagesMessage_Decode ListMessagesMessage_zero (Frame_Payload frame))
    (sendError E i 1000 (lit ''Invalid message format''))
    (\<lambda>msg srv. case ListMessages_ParentID msg of
       Some parentID \<Rightarrow>
        (case ListThreadReplies (Suc (card (dom (mem_messages (srv_db srv))))) (srv_db srv) parentID (ListMessages_Limit msg)
            (ListMessages_BeforeID msg) (ListMessages_AfterID msg) of
           None \<Rightarrow> Exhausted | Some dbMessages \<Rightarrow> message_list E i msg dbMessages srv)
     | None \<Rightarrow> message_list E i msg (ListRootMessages (srv_db srv) (ListMessages_ChannelID msg) (ListMessages_SubchannelID msg)
         (ListMessages_Limit msg) (ListMessages_BeforeID msg) (ListMessages_AfterID msg)) srv)"

section \<open>Posting\<close>

definition too_long :: "('w, 'q) Server \<Rightarrow> gostring \<Rightarrow> bool" where
  "too_long srv content \<longleftrightarrow> (of_nat (length content) :: u32) > cfg_MaxMessageLength (srv_config srv)"

definition too_long_text :: "('w, 'q) Server \<Rightarrow> gostring" where
  "too_long_text srv = lit ''Message too long (max '' @ fmt_d (uint (cfg_MaxMessageLength (srv_config srv))) @ lit '' bytes)''"

text \<open>After the message is stored: the confirmation, and the broadcast, whose error is only printed.\<close>

definition announce_post :: "('w, 'q) Env \<Rightarrow> u64 \<Rightarrow> i64 \<Rightarrow> DBMessage \<Rightarrow> ('w, 'q) act" where
  "announce_post E i messageID dbMsg =
    if_ok (srv_sendMessage E i TypeMessagePosted (MessagePostedM
      \<lparr>MessagePosted_Success = True, MessagePosted_MessageID = messageID, MessagePosted_Message = lit ''Message posted''\<rparr>))
    (convertDBMessageToProtocol E dbMsg (\<lambda>wire.
      also_do (\<lambda>srv. ignoring (broadcastNewMessage E i wire (dm_ThreadRootID dbMsg) srv)) succeed))"

definition handlePostMessage :: "('w, 'q) Env \<Rightarrow> u64 \<Rightarrow> Frame \<Rightarrow> ('w, 'q) act" where
  "handlePostMessage E i frame = decoded (PostMessageMessage_Decode PostMessageMessage_zero (Frame_Payload frame))
    (sendError E i 1000 (lit ''Invalid message format''))
    (\<lambda>msg. the_session i (\<lambda>sess srv.
       if s_Nickname sess = [] then sendError E i 2000 (lit ''Nickname required. Use SET_NICKNAME first.'') srv
       else if too_long srv (PostMessage_Content msg) then sendError E i 6001 (too_long_text srv) srv
       else case GetChannel (srv_db srv) (PostMessage_ChannelID msg) of
         Inl e \<Rightarrow> dbError E i srv
       | Inr channel \<Rightarrow>
          if ch_ChannelType channel = 0 \<and> PostMessage_ParentID msg \<noteq> None then
            sendError E i 6000 (lit ''Chat channels do not support threaded replies'') srv
          else db_then (\<lambda>m clock. PostMessage m clock (PostMessage_ChannelID msg) (PostMessage_SubchannelID msg)
              (PostMessage_ParentID msg) (s_UserID sess) (s_Nickname sess) (PostMessage_Content msg)) (\<lambda>r. case r of
            Inl e \<Rightarrow> dbError E i
          | Inr (messageID, dbMsg) \<Rightarrow> announce_post E i messageID dbMsg) srv))"

section \<open>Editing\<close>

definition edit_error :: "('w, 'q) Env \<Rightarrow> u64 \<Rightarrow> db_error \<Rightarrow> ('w, 'q) act" where
  "edit_error E i e =
    (if e = ErrMessageNotFound then sendError E i ErrCodeMessageNotFound (lit ''Message not found'')
     else if e = ErrMessageNotOwned then sendError E i ErrCodePermissionDenied (lit ''You can only edit your own messages'')
     else if db_text e = lit ''cannot edit anonymous messages'' then
       sendError E i ErrCodePermissionDenied (lit ''Cannot edit anonymous messages'')
     else if db_text e = lit ''cannot edit deleted message'' then
       sendError E i ErrCodeInvalidInput (lit ''Cannot edit deleted message'')
     else sendError E i ErrCodeDatabaseError (lit ''Failed to edit message''))"

text \<open>The default value of safeDeref is evaluated, so the clock is read also when the time is there.\<close>

definition handleEditMessage :: "('w, 'q) Env \<Rightarrow> u64 \<Rightarrow> Frame \<Rightarrow> ('w, 'q) act" where
  "handleEditMessage E i frame = decoded (EditMessageMessage_Decode EditMessageMessage_zero (Frame_Payload frame))
    (sendError E i ErrCodeInvalidFormat (lit ''Invalid message format''))
    (\<lambda>msg. the_session i (\<lambda>sess srv. case s_UserID sess of
       None \<Rightarrow> sendError E i ErrCodeAuthRequired (lit ''Authentication required. Register to edit messages.'') srv
     | Some userID \<Rightarrow>
        if too_long srv (EditMessage_NewContent msg) then sendError E i ErrCodeMessageTooLong (too_long_text srv) srv
        else db_then (\<lambda>m clock.
            if isAdmin srv sess then AdminUpdateMessage m clock (EditMessage_MessageID msg) userID (EditMessage_NewContent msg)
            else UpdateMessage m clock (EditMessage_MessageID msg) userID (EditMessage_NewContent msg)) (\<lambda>r. case r of
          Inl e \<Rightarrow> edit_error E i e
        | Inr dbMsg \<Rightarrow> now_then (\<lambda>now.
            let resp = MessageEditedM
              \<lparr>MessageEdited_Success = True, MessageEdited_MessageID = EditMessage_MessageID msg,
               MessageEdited_EditedAt = time_of_millis (safeDeref (dm_EditedAt dbMsg) now),
               MessageEdited_NewContent = EditMessage_NewContent msg, MessageEdited_Message = []\<rparr>
            in if_ok (srv_sendMessage E i TypeMessageEdited resp)
              (also_do (\<lambda>srv. ignoring (broadcastToChannel E (dm_ChannelID dbMsg) TypeMessageEdited resp srv)) succeed))) srv))"

section \<open>Deleting\<close>

definition delete_error :: "('w, 'q) Env \<Rightarrow> u64 \<Rightarrow> db_error \<Rightarrow> ('w, 'q) act" where
  "delete_error E i e =
    (if e = ErrMessageNotFound then sendError E i ErrCodeMessageNotFound (lit ''Message not found'')
     else if e = ErrMessageNotOwned then sendError E i ErrCodePermissionDenied (lit ''You can only delete your own messages'')
     else if e = ErrMessageAlreadyDeleted then sendError E i ErrCodeInvalidInput (lit ''Message already deleted'')
     else sendError E i ErrCodeDatabaseError (lit ''Failed to delete message''))"

definition handleDeleteMessage :: "('w, 'q) Env \<Rightarrow> u64 \<Rightarrow> Frame \<Rightarrow> ('w, 'q) act" where
  "handleDeleteMessage E i frame = decoded (DeleteMessageMessage_Decode DeleteMessageMessage_zero (Frame_Payload frame))
    (sendError E i ErrCodeInvalidFormat (lit ''Invalid message format''))
    (\<lambda>msg. the_session i (\<lambda>sess srv.
       if s_Nickname sess = [] then sendError E i ErrCodeNicknameRequired (lit ''Nickname required. Use SET_NICKNAME first.'') srv
       else db_then (\<lambda>m clock.
           if isAdmin srv sess then AdminSoftDeleteMessage m clock (DeleteMessage_MessageID msg) (s_Nickname sess)
           else SoftDeleteMessage m clock (DeleteMessage_MessageID msg) (s_Nickname sess)) (\<lambda>r. case r of
         Inl e \<Rightarrow> delete_error E i e
       | Inr dbMsg \<Rightarrow> now_then (\<lambda>now.
           let resp = MessageDeletedM
             \<lparr>MessageDeleted_Success = True, MessageDeleted_MessageID = DeleteMessage_MessageID msg,
              MessageDeleted_DeletedAt = time_of_millis (safeDeref (dm_DeletedAt dbMsg) now),
              MessageDeleted_Message = dm_Content dbMsg\<rparr>
           in if_ok (srv_sendMessage E i TypeMessageDeleted resp)
             (also_do (\<lambda>srv. ignoring (broadcastToChannel E (dm_ChannelID dbMsg) TypeMessageDeleted resp srv)) succeed))) srv))"

section \<open>Unread counts and the read state\<close>

definition unread_entry :: "('w, 'q) Server \<Rightarrow> UnreadTarget \<Rightarrow> i64 \<Rightarrow> UnreadCount" where
  "unread_entry srv target timestamp =
    \<lparr>UnreadCount_ChannelID = UnreadTarget_ChannelID target, UnreadCount_SubchannelID = UnreadTarget_SubchannelID target,
     UnreadCount_ThreadID = UnreadTarget_ThreadID target,
     UnreadCount_UnreadCount = (case UnreadTarget_ThreadID target of
        Some threadID \<Rightarrow> GetUnreadCountForThread (srv_db srv) threadID timestamp
      | None \<Rightarrow> GetUnreadCountForChannel (srv_db srv) (UnreadTarget_ChannelID target) (UnreadTarget_SubchannelID target) timestamp)\<rparr>"

fun unread_loop :: "('w, 'q) Env \<Rightarrow> u64 \<Rightarrow> i64 option \<Rightarrow> i64 option \<Rightarrow> UnreadTarget list \<Rightarrow> UnreadCount list \<Rightarrow> ('w, 'q) act" where
  "unread_loop E i since userID [] counts = srv_sendMessage E i TypeUnreadCounts (UnreadCountsM \<lparr>UnreadCounts_Counts = counts\<rparr>)"
| "unread_loop E i since userID (t # ts) counts =
    (case (since, userID) of
       (None, Some u) \<Rightarrow> sql_then (sql_GetUserChannelState (env_sql E) u (UnreadTarget_ChannelID t) (UnreadTarget_SubchannelID t)) (\<lambda>r.
         case r of Inl e \<Rightarrow> sendError E i ErrCodeDatabaseError (lit ''Failed to retrieve read state'')
         | Inr timestamp \<Rightarrow> (\<lambda>srv. unread_loop E i since userID ts (counts @ [unread_entry srv t timestamp]) srv))
     | _ \<Rightarrow> (\<lambda>srv. unread_loop E i since userID ts (counts @ [unread_entry srv t (safeDeref since 0)]) srv))"

definition handleGetUnreadCounts :: "('w, 'q) Env \<Rightarrow> u64 \<Rightarrow> Frame \<Rightarrow> ('w, 'q) act" where
  "handleGetUnreadCounts E i frame = decoded (GetUnreadCountsMessage_Decode GetUnreadCountsMessage_zero (Frame_Payload frame))
    (sendError E i ErrCodeInvalidFormat (lit ''Invalid message format''))
    (\<lambda>msg. the_session i (\<lambda>sess.
       if GetUnreadCounts_SinceTimestamp msg = None \<and> s_UserID sess = None then
         sendError E i ErrCodeAuthRequired (lit ''Anonymous users must provide since_timestamp'')
       else unread_loop E i (GetUnreadCounts_SinceTimestamp msg) (s_UserID sess) (GetUnreadCounts_Targets msg) []))"

definition handleUpdateReadState :: "('w, 'q) Env \<Rightarrow> u64 \<Rightarrow> Frame \<Rightarrow> ('w, 'q) act" where
  "handleUpdateReadState E i frame = decoded (UpdateReadStateMessage_Decode UpdateReadStateMessage_zero (Frame_Payload frame))
    (sendError E i ErrCodeInvalidFormat (lit ''Invalid message format''))
    (\<lambda>msg. the_session i (\<lambda>sess. case s_UserID sess of None \<Rightarrow> succeed
     | Some userID \<Rightarrow> sql_then (sql_UpdateUserChannelState (env_sql E) userID (UpdateReadState_ChannelID msg)
         (UpdateReadState_SubchannelID msg) (UpdateReadState_Timestamp msg)) (\<lambda>err. case err of
         Some e \<Rightarrow> sendError E i ErrCodeDatabaseError (lit ''Failed to update read state'') | None \<Rightarrow> succeed)))"

end
