(* ===== verification/SrvUsers.thy ===== *)
theory SrvUsers imports SrvBroadcast begin

text \<open>
  The handlers of "handlers.go" about subscriptions, users and SSH keys.
\<close>

section \<open>Subscriptions\<close>

definition subscribe_ok :: "('w, 'q) Env \<Rightarrow> u64 \<Rightarrow> u8 \<Rightarrow> u64 \<Rightarrow> u64 option \<Rightarrow> ('w, 'q) act" where
  "subscribe_ok E i kind target sub = srv_sendMessage E i TypeSubscribeOk (SubscribeOkM
    \<lparr>SubscribeOk_Type = kind, SubscribeOk_ID = target, SubscribeOk_SubchannelID = sub\<rparr>)"

definition limit_text :: "string \<Rightarrow> u16 \<Rightarrow> gostring" where
  "limit_text kind limit = lit kind @ lit '' subscription limit exceeded (max '' @ fmt_d (uint limit) @ lit '' per session)''"

text \<open>An operation of the session manager that may panic.\<close>

definition sm_then :: "('w SessionManager \<Rightarrow> 'w SessionManager run) \<Rightarrow> ('w, 'q) act \<Rightarrow> ('w, 'q) act" where
  "sm_then op k srv = run_then (op (srv_sessions srv)) (\<lambda>sm. k (on_sm (\<lambda>_. sm) srv))"

text \<open>The subchannel id of the thread is copied into a new variable.\<close>

definition handleSubscribeThread :: "('w, 'q) Env \<Rightarrow> u64 \<Rightarrow> Frame \<Rightarrow> ('w, 'q) act" where
  "handleSubscribeThread E i frame = decoded (SubscribeThreadMessage_Decode SubscribeThreadMessage_zero (Frame_Payload frame))
    (sendError E i ErrCodeInvalidFormat (lit ''Invalid message format''))
    (\<lambda>msg srv. if \<not> MessageExists (srv_db srv) (SubscribeThread_ThreadID msg) then
       sendError E i ErrCodeThreadNotFound (lit ''Thread does not exist'') srv
     else case GetMessage (srv_db srv) (SubscribeThread_ThreadID msg) of
       Inl e \<Rightarrow> dbError E i srv
     | Inr threadMsg \<Rightarrow> opt_new_then (dm_SubchannelID threadMsg) (\<lambda>sub. the_session i (\<lambda>sess srv.
         let limit = cfg_MaxThreadSubscriptions (srv_config srv) in
         if int (ThreadSubscriptionCount sess) \<ge> uint limit then
           sendError E i ErrCodeThreadSubscriptionLimit (limit_text ''Thread'' limit) srv
         else sm_then (\<lambda>sm. SubscribeToThread sm i (SubscribeThread_ThreadID msg)
             \<lparr>cs_ChannelID = dm_ChannelID threadMsg, cs_SubchannelID = sub\<rparr>)
           (subscribe_ok E i 1 (SubscribeThread_ThreadID msg) (dm_SubchannelID threadMsg)) srv)) srv)"

definition handleUnsubscribeThread :: "('w, 'q) Env \<Rightarrow> u64 \<Rightarrow> Frame \<Rightarrow> ('w, 'q) act" where
  "handleUnsubscribeThread E i frame = decoded (UnsubscribeThreadMessage_Decode UnsubscribeThreadMessage_zero (Frame_Payload frame))
    (sendError E i ErrCodeInvalidFormat (lit ''Invalid message format''))
    (\<lambda>msg. sm_then (\<lambda>sm. UnsubscribeFromThread sm i (UnsubscribeThread_ThreadID msg))
       (subscribe_ok E i 1 (UnsubscribeThread_ThreadID msg) None))"

text \<open>The decoder allocates the subchannel id of the message, and the key holds its address.\<close>

definition handleSubscribeChannel :: "('w, 'q) Env \<Rightarrow> u64 \<Rightarrow> Frame \<Rightarrow> ('w, 'q) act" where
  "handleSubscribeChannel E i frame = decoded (SubscribeChannelMessage_Decode SubscribeChannelMessage_zero (Frame_Payload frame))
    (sendError E i ErrCodeInvalidFormat (lit ''Invalid message format''))
    (\<lambda>msg. opt_new_then (SubscribeChannel_SubchannelID msg) (\<lambda>sub srv.
       if \<not> ChannelExists (srv_db srv) (SubscribeChannel_ChannelID msg) then
         sendError E i ErrCodeChannelNotFound (lit ''Channel does not exist'') srv
       else if (case SubscribeChannel_SubchannelID msg of None \<Rightarrow> False | Some s \<Rightarrow> \<not> SubchannelExists (srv_db srv) s) then
         sendError E i ErrCodeSubchannelNotFound (lit ''Subchannel does not exist'') srv
       else the_session i (\<lambda>sess srv.
         let limit = cfg_MaxChannelSubscriptions (srv_config srv) in
         if int (ChannelSubscriptionCount sess) \<ge> uint limit then
           sendError E i ErrCodeChannelSubscriptionLimit (limit_text ''Channel'' limit) srv
         else sm_then (\<lambda>sm. SubscribeToChannel sm i
             \<lparr>cs_ChannelID = SubscribeChannel_ChannelID msg, cs_SubchannelID = sub\<rparr>)
           (subscribe_ok E i 2 (SubscribeChannel_ChannelID msg) (SubscribeChannel_SubchannelID msg)) srv) srv))"

definition handleUnsubscribeChannel :: "('w, 'q) Env \<Rightarrow> u64 \<Rightarrow> Frame \<Rightarrow> ('w, 'q) act" where
  "handleUnsubscribeChannel E i frame = decoded (UnsubscribeChannelMessage_Decode UnsubscribeChannelMessage_zero (Frame_Payload frame))
    (sendError E i ErrCodeInvalidFormat (lit ''Invalid message format''))
    (\<lambda>msg. opt_new_then (UnsubscribeChannel_SubchannelID msg) (\<lambda>sub.
       sm_then (\<lambda>sm. UnsubscribeFromChannel sm i
           \<lparr>cs_ChannelID = UnsubscribeChannel_ChannelID msg, cs_SubchannelID = sub\<rparr>)
         (subscribe_ok E i 2 (UnsubscribeChannel_ChannelID msg) (UnsubscribeChannel_SubchannelID msg))))"

section \<open>Users\<close>

text \<open>The objects of the registered sessions, in the order of a range.\<close>

definition all_sessions :: "(u64 set \<Rightarrow> u64 list) \<Rightarrow> ('w, 'q) Server \<Rightarrow> 'w Session list" where
  "all_sessions order srv = List.map_filter (sm_objects (srv_sessions srv)) (GetAllSessions order (srv_sessions srv))"

definition handleGetUserInfo :: "('w, 'q) Env \<Rightarrow> u64 \<Rightarrow> Frame \<Rightarrow> ('w, 'q) act" where
  "handleGetUserInfo E i frame = decoded (GetUserInfoMessage_Decode GetUserInfoMessage_zero (Frame_Payload frame))
    (sendError E i ErrCodeInvalidFormat (lit ''Invalid message format''))
    (\<lambda>msg. sql_then (sql_GetUserByNickname (env_sql E) (GetUserInfo_Nickname msg)) (\<lambda>r.
       let answer = (\<lambda>userID. draw_then (\<lambda>n srv. srv_sendMessage E i TypeUserInfo (UserInfoM
           \<lparr>UserInfo_Nickname = GetUserInfo_Nickname msg, UserInfo_IsRegistered = (userID \<noteq> None), UserInfo_UserID = userID,
            UserInfo_Online = (\<exists>s \<in> set (all_sessions (env_ranges E n) srv). s_Nickname s = GetUserInfo_Nickname msg)\<rparr>) srv))
       in case r of Inr user \<Rightarrow> answer (Some (du_ID user))
        | Inl ErrNoRows \<Rightarrow> answer None
        | Inl (SQLErr t) \<Rightarrow> dbError E i))"

text \<open>The online users: each nickname once, as many as the limit.\<close>

fun online_users :: "u16 \<Rightarrow> 'w Session list \<Rightarrow> gostring set \<Rightarrow> UserListEntry list \<Rightarrow> UserListEntry list" where
  "online_users limit [] seen users = users"
| "online_users limit (s # ss) seen users =
    (if s_Nickname s \<in> seen then online_users limit ss seen users
     else let users = users @ [\<lparr>UserListEntry_Nickname = s_Nickname s, UserListEntry_IsRegistered = (s_UserID s \<noteq> None),
            UserListEntry_UserID = s_UserID s, UserListEntry_Online = True\<rparr>]
       in if int (length users) \<ge> uint limit then users else online_users limit ss (insert (s_Nickname s) seen) users)"

definition clamp_limit :: "u16 \<Rightarrow> u16" where
  "clamp_limit limit = (let limit = (if limit = 0 then 100 else limit) in if limit > 500 then 500 else limit)"

definition user_list :: "('w, 'q) Env \<Rightarrow> u64 \<Rightarrow> UserListEntry list \<Rightarrow> ('w, 'q) act" where
  "user_list E i users = srv_sendMessage E i TypeUserList (UserListM \<lparr>UserList_Users = users\<rparr>)"

definition handleListUsers :: "('w, 'q) Env \<Rightarrow> u64 \<Rightarrow> Frame \<Rightarrow> ('w, 'q) act" where
  "handleListUsers E i frame = decoded (ListUsersMessage_Decode ListUsersMessage_zero (Frame_Payload frame))
    (sendError E i ErrCodeInvalidFormat (lit ''Invalid message format''))
    (\<lambda>msg. the_session i (\<lambda>sess srv.
       let limit = clamp_limit (ListUsers_Limit msg) in
       if ListUsers_IncludeOffline msg then
         (if \<not> isAdmin srv sess then
            sendError E i ErrCodePermissionDenied (lit ''Admin permission required for include_offline'') srv
          else sql_then (sql_ListAllUsers (env_sql E) (uint limit)) (\<lambda>r. case r of
            Inl e \<Rightarrow> sendError E i ErrCodeDatabaseError (lit ''Failed to retrieve user list'')
          | Inr allUsers \<Rightarrow> draw_then (\<lambda>n srv.
              let onlineUserIDs = set (List.map_filter s_UserID (all_sessions (env_ranges E n) srv)) in
              user_list E i (map (\<lambda>user. \<lparr>UserListEntry_Nickname = du_Nickname user, UserListEntry_IsRegistered = True,
                UserListEntry_UserID = Some (du_ID user), UserListEntry_Online = (du_ID user \<in> onlineUserIDs)\<rparr>) allUsers) srv)) srv)
       else draw_then (\<lambda>n srv. user_list E i (online_users limit (all_sessions (env_ranges E n) srv) {} []) srv) srv))"

definition channel_user :: "'w Session \<Rightarrow> ChannelUserEntry" where
  "channel_user s =
    \<lparr>ChannelUserEntry_SessionID = s_ID s, ChannelUserEntry_Nickname = s_Nickname s,
     ChannelUserEntry_IsRegistered = (s_UserID s \<noteq> None), ChannelUserEntry_UserID = s_UserID s,
     ChannelUserEntry_UserFlags = s_UserFlags s\<rparr>"

definition handleListChannelUsers :: "('w, 'q) Env \<Rightarrow> u64 \<Rightarrow> Frame \<Rightarrow> ('w, 'q) act" where
  "handleListChannelUsers E i frame = decoded (ListChannelUsersMessage_Decode ListChannelUsersMessage_zero (Frame_Payload frame))
    (sendError E i ErrCodeInvalidFormat (lit ''Invalid message format''))
    (\<lambda>msg srv. let channelID = ListChannelUsers_ChannelID msg in
       if channelID = 0 then sendError E i ErrCodeChannelNotFound (lit ''Channel not found'') srv
       else if \<not> ChannelExists (srv_db srv) channelID then sendError E i ErrCodeChannelNotFound (lit ''Channel does not exist'') srv
       else if (case ListChannelUsers_SubchannelID msg of None \<Rightarrow> False | Some s \<Rightarrow> \<not> SubchannelExists (srv_db srv) s) then
         sendError E i ErrCodeSubchannelNotFound (lit ''Subchannel does not exist'') srv
       else draw_then (\<lambda>n srv. srv_sendMessage E i TypeChannelUserList (ChannelUserListM
         \<lparr>ChannelUserList_ChannelID = channelID, ChannelUserList_SubchannelID = ListChannelUsers_SubchannelID msg,
          ChannelUserList_Users = map channel_user (filter (\<lambda>s. s_JoinedChannel s = Some channelID)
            (all_sessions (env_ranges E n) srv))\<rparr>) srv) srv)"

section \<open>SSH keys\<close>

definition sendSSHKeyAdded :: "('w, 'q) Env \<Rightarrow> u64 \<Rightarrow> bool \<Rightarrow> i64 \<Rightarrow> gostring \<Rightarrow> gostring \<Rightarrow> ('w, 'q) act" where
  "sendSSHKeyAdded E i success keyID fingerprint errorMessage = srv_sendMessage E i TypeSSHKeyAdded (SSHKeyAddedM
    \<lparr>SSHKeyAdded_Success = success, SSHKeyAdded_KeyID = keyID, SSHKeyAdded_Fingerprint = fingerprint,
     SSHKeyAdded_ErrorMessage = errorMessage\<rparr>)"

text \<open>The preamble of the four handlers: a user, then the request.\<close>

definition authenticated :: "('w, 'q) Env \<Rightarrow> u64 \<Rightarrow> gostring \<Rightarrow> (i64 \<Rightarrow> ('w, 'q) act) \<Rightarrow> ('w, 'q) act" where
  "authenticated E i refusal k = the_session i (\<lambda>sess. case s_UserID sess of
     None \<Rightarrow> sendError E i ErrCodeAuthRequired refusal | Some userID \<Rightarrow> k userID)"

definition handleAddSSHKey :: "('w, 'q) Env \<Rightarrow> u64 \<Rightarrow> Frame \<Rightarrow> ('w, 'q) act" where
  "handleAddSSHKey E i frame = authenticated E i (lit ''Must be authenticated to add SSH key'') (\<lambda>userID.
    decoded (AddSSHKeyRequest_Decode AddSSHKeyRequest_zero (Frame_Payload frame))
    (sendError E i ErrCodeInvalidFormat (lit ''Invalid request format''))
    (\<lambda>req. if AddSSHKey_PublicKey req = [] then sendSSHKeyAdded E i False 0 [] (lit ''Public key cannot be empty'')
     else case env_ParseAuthorizedKey E (AddSSHKey_PublicKey req) of
       Inl t \<Rightarrow> sendSSHKeyAdded E i False 0 [] (lit ''Invalid SSH public key: '' @ t)
     | Inr (fingerprint, keyType) \<Rightarrow>
        sql_then (sql_GetSSHKeyByFingerprint (env_sql E) fingerprint) (\<lambda>existing. case existing of
          Inr key \<Rightarrow> sendSSHKeyAdded E i False 0 [] (lit ''SSH key already exists'')
        | Inl e \<Rightarrow> now_then (\<lambda>now. sql_then (sql_CreateSSHKey (env_sql E)
            \<lparr>dk_ID = 0, dk_UserID = userID, dk_Fingerprint = fingerprint, dk_PublicKey = AddSSHKey_PublicKey req,
             dk_KeyType = keyType, dk_Label = (if AddSSHKey_Label req \<noteq> [] then Some (AddSSHKey_Label req) else None),
             dk_AddedAt = now, dk_LastUsedAt = None\<rparr>) (\<lambda>r. case r of
            Inl e \<Rightarrow> sendError E i ErrCodeDatabaseError (lit ''Failed to add SSH key'')
          | Inr keyID \<Rightarrow> sendSSHKeyAdded E i True keyID fingerprint [])))))"

definition key_info :: "DBSSHKey \<Rightarrow> SSHKeyInfo" where
  "key_info key =
    \<lparr>SSHKeyInfo_ID = dk_ID key, SSHKeyInfo_Fingerprint = dk_Fingerprint key, SSHKeyInfo_KeyType = dk_KeyType key,
     SSHKeyInfo_Label = safeDeref (dk_Label key) [], SSHKeyInfo_AddedAt = dk_AddedAt key,
     SSHKeyInfo_LastUsedAt = safeDeref (dk_LastUsedAt key) 0\<rparr>"

definition handleListSSHKeys :: "('w, 'q) Env \<Rightarrow> u64 \<Rightarrow> Frame \<Rightarrow> ('w, 'q) act" where
  "handleListSSHKeys E i frame = authenticated E i (lit ''Must be authenticated to list SSH keys'') (\<lambda>userID.
    decoded (ListSSHKeysRequest_Decode ListSSHKeysRequest_zero (Frame_Payload frame))
    (sendError E i ErrCodeInvalidFormat (lit ''Invalid request format''))
    (\<lambda>req. sql_then (sql_GetSSHKeysByUserID (env_sql E) userID) (\<lambda>r. case r of
       Inl e \<Rightarrow> sendError E i ErrCodeDatabaseError (lit ''Failed to retrieve SSH keys'')
     | Inr keys \<Rightarrow> srv_sendMessage E i TypeSSHKeyList (SSHKeyListM \<lparr>SSHKeyList_Keys = map key_info keys\<rparr>))))"

definition sendSSHKeyLabelUpdated :: "('w, 'q) Env \<Rightarrow> u64 \<Rightarrow> bool \<Rightarrow> gostring \<Rightarrow> ('w, 'q) act" where
  "sendSSHKeyLabelUpdated E i success errorMessage = srv_sendMessage E i TypeSSHKeyLabelUpdated (SSHKeyLabelUpdatedM
    \<lparr>SSHKeyLabelUpdated_Success = success, SSHKeyLabelUpdated_ErrorMessage = errorMessage\<rparr>)"

definition handleUpdateSSHKeyLabel :: "('w, 'q) Env \<Rightarrow> u64 \<Rightarrow> Frame \<Rightarrow> ('w, 'q) act" where
  "handleUpdateSSHKeyLabel E i frame = authenticated E i (lit ''Must be authenticated to update SSH key'') (\<lambda>userID.
    decoded (UpdateSSHKeyLabelRequest_Decode UpdateSSHKeyLabelRequest_zero (Frame_Payload frame))
    (sendError E i ErrCodeInvalidFormat (lit ''Invalid request format''))
    (\<lambda>req. sql_then (sql_GetSSHKeysByUserID (env_sql E) userID) (\<lambda>r. case r of
       Inl e \<Rightarrow> sendSSHKeyLabelUpdated E i False (lit ''Failed to retrieve SSH keys'')
     | Inr keys \<Rightarrow>
        if \<not> list_ex (\<lambda>key. dk_ID key = UpdateSSHKeyLabel_KeyID req) keys then
          sendSSHKeyLabelUpdated E i False (lit ''SSH key not found or does not belong to you'')
        else sql_then (sql_UpdateSSHKeyLabel (env_sql E) (UpdateSSHKeyLabel_KeyID req) userID (UpdateSSHKeyLabel_NewLabel req)) (\<lambda>err.
          case err of Some e \<Rightarrow> sendError E i ErrCodeDatabaseError (lit ''Failed to update SSH key label'')
          | None \<Rightarrow> sendSSHKeyLabelUpdated E i True []))))"

definition sendSSHKeyDeleted :: "('w, 'q) Env \<Rightarrow> u64 \<Rightarrow> bool \<Rightarrow> gostring \<Rightarrow> ('w, 'q) act" where
  "sendSSHKeyDeleted E i success errorMessage = srv_sendMessage E i TypeSSHKeyDeleted (SSHKeyDeletedM
    \<lparr>SSHKeyDeleted_Success = success, SSHKeyDeleted_ErrorMessage = errorMessage\<rparr>)"

definition handleDeleteSSHKey :: "('w, 'q) Env \<Rightarrow> u64 \<Rightarrow> Frame \<Rightarrow> ('w, 'q) act" where
  "handleDeleteSSHKey E i frame = authenticated E i (lit ''Must be authenticated to delete SSH key'') (\<lambda>userID.
    decoded (DeleteSSHKeyRequest_Decode DeleteSSHKeyRequest_zero (Frame_Payload frame))
    (sendError E i ErrCodeInvalidFormat (lit ''Invalid request format''))
    (\<lambda>req. sql_then (sql_GetSSHKeysByUserID (env_sql E) userID) (\<lambda>r. case r of
       Inl e \<Rightarrow> sendSSHKeyDeleted E i False (lit ''Failed to retrieve SSH keys'')
     | Inr keys \<Rightarrow>
        if \<not> list_ex (\<lambda>key. dk_ID key = DeleteSSHKey_KeyID req) keys then
          sendSSHKeyDeleted E i False (lit ''SSH key not found or does not belong to you'')
        else sql_then (sql_GetUserByID (env_sql E) userID) (\<lambda>u. case u of
          Inl e \<Rightarrow> sendError E i ErrCodeDatabaseError (lit ''Failed to verify user'')
        | Inr user \<Rightarrow>
           if length keys = 1 \<and> du_PasswordHash user = [] then
             sendSSHKeyDeleted E i False (lit ''Cannot delete last SSH key when no password is set'')
           else sql_then (sql_DeleteSSHKey (env_sql E) (DeleteSSHKey_KeyID req) userID) (\<lambda>err. case err of
             Some e \<Rightarrow> sendError E i ErrCodeDatabaseError (lit ''Failed to delete SSH key'')
           | None \<Rightarrow> sendSSHKeyDeleted E i True [])))))"

end
