(* ===== verification/SrvChannels.thy ===== *)
theory SrvChannels imports SrvBroadcast begin

text \<open>The handlers of "handlers.go" about channels: listing, joining, leaving, creating and deleting them.\<close>

section \<open>Listing\<close>

text \<open>"uint32(len(s.sessions.GetChannelSubscribers(...)))" of the whole channel.\<close>

definition channel_entry :: "'w SessionManager \<Rightarrow> DBChannel \<Rightarrow> Channel" where
  "channel_entry sm ch =
    \<lparr>Channel_ID = ch_ID ch, Channel_Name = ch_Name ch, Channel_Description = safeDeref (ch_Description ch) [],
     Channel_UserCount = of_nat (card (set_at (sm_channelSubscribers sm) \<lparr>cs_ChannelID = ch_ID ch, cs_SubchannelID = None\<rparr>)),
     Channel_IsOperator = False, Channel_Type = ch_ChannelType ch, Channel_RetentionHours = ch_MessageRetentionHours ch\<rparr>"

fun channel_page :: "(DBChannel \<Rightarrow> Channel) \<Rightarrow> u64 \<Rightarrow> u16 \<Rightarrow> DBChannel list \<Rightarrow> Channel list \<Rightarrow> Channel list" where
  "channel_page entry fromID limit [] acc = acc"
| "channel_page entry fromID limit (ch # chs) acc =
    (if fromID > 0 \<and> ch_ID ch \<le> fromID then channel_page entry fromID limit chs acc
     else let acc = acc @ [entry ch] in
       if limit > 0 \<and> int (length acc) \<ge> uint limit then acc else channel_page entry fromID limit chs acc)"

definition handleListChannels :: "('w, 'q) Env \<Rightarrow> u64 \<Rightarrow> Frame \<Rightarrow> ('w, 'q) act" where
  "handleListChannels E i frame = decoded (ListChannelsMessage_Decode ListChannelsMessage_zero (Frame_Payload frame))
    (sendError E i 1000 (lit ''Invalid message format''))
    (\<lambda>msg. draw_then (\<lambda>n srv.
       let dbChannels = ListChannels (env_ranges E n (dom (mem_channels (srv_db srv)))) (srv_db srv)
       in srv_sendMessage E i TypeChannelList (ChannelListM
         \<lparr>ChannelList_Channels = channel_page (channel_entry (srv_sessions srv)) (ListChannels_FromChannelID msg)
            (ListChannels_Limit msg) dbChannels []\<rparr>) srv))"

section \<open>Joining and leaving\<close>

text \<open>"s.sessions.SetJoinedChannel", whose error is an internal error of the handler.\<close>

definition set_joined :: "('w, 'q) Env \<Rightarrow> u64 \<Rightarrow> i64 option \<Rightarrow> gostring \<Rightarrow> ('w, 'q) act \<Rightarrow> ('w, 'q) act" where
  "set_joined E i channelID failed k srv = (case SetJoinedChannel (srv_sessions srv) i channelID of
     (Some e, sm) \<Rightarrow> sendError E i 9000 failed (on_sm (\<lambda>_. sm) srv)
   | (None, sm) \<Rightarrow> k (on_sm (\<lambda>_. sm) srv))"

definition handleJoinChannel :: "('w, 'q) Env \<Rightarrow> u64 \<Rightarrow> Frame \<Rightarrow> ('w, 'q) act" where
  "handleJoinChannel E i frame = decoded (JoinChannelMessage_Decode JoinChannelMessage_zero (Frame_Payload frame))
    (sendError E i 1000 (lit ''Invalid message format''))
    (\<lambda>msg srv. let channelID = JoinChannel_ChannelID msg in
       if \<not> ChannelExists (srv_db srv) channelID then
         srv_sendMessage E i TypeJoinResponse (JoinResponseM
           \<lparr>JoinResponse_Success = False, JoinResponse_ChannelID = channelID, JoinResponse_SubchannelID = None,
            JoinResponse_Message = lit ''Channel not found''\<rparr>) srv
       else the_session i (\<lambda>sess.
         also_do (case s_JoinedChannel sess of None \<Rightarrow> Returns
           | Some previous \<Rightarrow> if previous \<noteq> channelID then notifyChannelPresence E previous i False else Returns)
         (set_joined E i (Some channelID) (lit ''Failed to join channel'')
         (if_ok (srv_sendMessage E i TypeJoinResponse (JoinResponseM
           \<lparr>JoinResponse_Success = True, JoinResponse_ChannelID = channelID,
            JoinResponse_SubchannelID = JoinChannel_SubchannelID msg, JoinResponse_Message = lit ''Joined channel''\<rparr>))
         (also_do (notifyChannelPresence E channelID i True) succeed)))) srv)"

definition leave_response :: "('w, 'q) Env \<Rightarrow> u64 \<Rightarrow> bool \<Rightarrow> u64 \<Rightarrow> gostring \<Rightarrow> ('w, 'q) act" where
  "leave_response E i success channelID message = srv_sendMessage E i TypeLeaveResponse (LeaveResponseM
    \<lparr>LeaveResponse_Success = success, LeaveResponse_ChannelID = channelID, LeaveResponse_SubchannelID = None,
     LeaveResponse_Message = message\<rparr>)"

definition handleLeaveChannel :: "('w, 'q) Env \<Rightarrow> u64 \<Rightarrow> Frame \<Rightarrow> ('w, 'q) act" where
  "handleLeaveChannel E i frame =
    decoded (if length (Frame_Payload frame) > 0 then LeaveChannelMessage_Decode LeaveChannelMessage_zero (Frame_Payload frame)
        else (LeaveChannelMessage_zero, None))
    (sendError E i ErrCodeInvalidFormat (lit ''Invalid message format''))
    (\<lambda>msg. the_session i (\<lambda>sess. case s_JoinedChannel sess of
       None \<Rightarrow> leave_response E i False (LeaveChannel_ChannelID msg) (lit ''Not currently joined to any channel'')
     | Some target \<Rightarrow>
        if LeaveChannel_ChannelID msg \<noteq> 0 \<and> LeaveChannel_ChannelID msg \<noteq> target then
          leave_response E i False (LeaveChannel_ChannelID msg) (lit ''Session is not joined to the requested channel'')
        else set_joined E i None (lit ''Failed to leave channel'')
          (if_ok (leave_response E i True target (lit ''Left channel''))
          (also_do (notifyChannelPresence E target i False) succeed))))"

section \<open>Creating\<close>

definition channel_refused :: "('w, 'q) Env \<Rightarrow> u64 \<Rightarrow> gostring \<Rightarrow> ('w, 'q) act" where
  "channel_refused E i message = srv_sendMessage E i TypeChannelCreated (ChannelCreatedM
    \<lparr>ChannelCreated_Success = False, ChannelCreated_ChannelID = 0, ChannelCreated_Name = [], ChannelCreated_Description = [],
     ChannelCreated_Type = 0, ChannelCreated_RetentionHours = 0, ChannelCreated_Message = message\<rparr>)"

text \<open>The checks of the request, in order: the answer to the first that fails.\<close>

definition channel_objection :: "CreateChannelMessage \<Rightarrow> gostring option" where
  "channel_objection msg =
    (if length (CreateChannel_Name msg) < 3 \<or> length (CreateChannel_Name msg) > 50 then
       Some (lit ''Channel name must be 3-50 characters'')
     else if length (CreateChannel_DisplayName msg) < 1 \<or> length (CreateChannel_DisplayName msg) > 100 then
       Some (lit ''Display name must be 1-100 characters'')
     else if (case CreateChannel_Description msg of None \<Rightarrow> False | Some d \<Rightarrow> length d > 500) then
       Some (lit ''Description must be at most 500 characters'')
     else if CreateChannel_ChannelType msg \<noteq> 0 \<and> CreateChannel_ChannelType msg \<noteq> 1 then
       Some (lit ''Invalid channel type (must be 0=chat or 1=forum)'')
     else if CreateChannel_RetentionHours msg < 1 \<or> CreateChannel_RetentionHours msg > 8760 then
       Some (lit ''Retention hours must be between 1 and 8760 (1 year)'')
     else None)"

definition quoted :: "gostring \<Rightarrow> gostring" where
  "quoted s = 39 # s @ [39]"

definition channel_created :: "i64 \<Rightarrow> gostring \<Rightarrow> gostring option \<Rightarrow> u8 \<Rightarrow> u32 \<Rightarrow> gostring \<Rightarrow> ProtocolMessage" where
  "channel_created channelID name description channelType retentionHours message = ChannelCreatedM
    \<lparr>ChannelCreated_Success = True, ChannelCreated_ChannelID = channelID, ChannelCreated_Name = name,
     ChannelCreated_Description = safeDeref description [], ChannelCreated_Type = channelType,
     ChannelCreated_RetentionHours = retentionHours, ChannelCreated_Message = message\<rparr>"

fun send_to_others :: "('w, 'q) Env \<Rightarrow> u64 \<Rightarrow> u8 \<Rightarrow> ProtocolMessage \<Rightarrow> u64 list \<Rightarrow> ('w, 'q) Server \<Rightarrow> ('w, 'q) Server run" where
  "send_to_others E creator t msg [] srv = Returns srv"
| "send_to_others E creator t msg (i # is) srv =
    (if i = creator then send_to_others E creator t msg is srv
     else run_then (ignoring (srv_sendMessage E i t msg srv)) (send_to_others E creator t msg is))"

definition broadcastChannelCreated :: "('w, 'q) Env \<Rightarrow> DBChannel \<Rightarrow> u64 \<Rightarrow> ('w, 'q) Server \<Rightarrow> ('w, 'q) Server run" where
  "broadcastChannelCreated E ch creator = draw_then (\<lambda>n srv.
    send_to_others E creator TypeChannelCreated
      (channel_created (ch_ID ch) (ch_Name ch) (ch_Description ch) (ch_ChannelType ch) (ch_MessageRetentionHours ch)
        (lit ''New channel '' @ quoted (ch_DisplayName ch) @ lit '' created''))
      (GetAllSessions (env_ranges E n) (srv_sessions srv)) srv)"

definition handleCreateChannel :: "('w, 'q) Env \<Rightarrow> u64 \<Rightarrow> Frame \<Rightarrow> ('w, 'q) act" where
  "handleCreateChannel E i frame = decoded (CreateChannelMessage_Decode CreateChannelMessage_zero (Frame_Payload frame))
    (channel_refused E i (lit ''Invalid request format''))
    (\<lambda>msg. the_session i (\<lambda>sess. if s_UserID sess = None then
       channel_refused E i (lit ''Only registered users can create channels. Please register or log in.'')
     else case channel_objection msg of Some objection \<Rightarrow> channel_refused E i objection
     | None \<Rightarrow>
        sql_then (sql_CreateChannel (env_sql E) (CreateChannel_Name msg) (CreateChannel_DisplayName msg)
          (CreateChannel_Description msg) (CreateChannel_ChannelType msg) (CreateChannel_RetentionHours msg) (s_UserID sess)) (\<lambda>r.
        db_then (\<lambda>m clock. CreateChannel (map_sum (\<lambda>e. ErrText (sql_text e)) id r) m clock (CreateChannel_Name msg)
            (CreateChannel_DisplayName msg) (CreateChannel_Description msg) (CreateChannel_ChannelType msg)
            (CreateChannel_RetentionHours msg) (s_UserID sess)) (\<lambda>r. case r of
          Inl e \<Rightarrow>
            if strings_Contains (db_text e) (lit ''UNIQUE constraint failed'') \<or> strings_Contains (db_text e) (lit ''already exists'') then
              channel_refused E i (lit ''Channel name already exists'')
            else dbError E i
        | Inr channelID \<Rightarrow>
            if_ok (srv_sendMessage E i TypeChannelCreated (channel_created channelID (CreateChannel_Name msg)
              (CreateChannel_Description msg) (CreateChannel_ChannelType msg) (CreateChannel_RetentionHours msg)
              (lit ''Channel '' @ quoted (CreateChannel_DisplayName msg) @ lit '' created successfully'')))
            (now_then (\<lambda>now. also_do (broadcastChannelCreated E
              \<lparr>ch_ID = channelID, ch_Name = CreateChannel_Name msg, ch_DisplayName = CreateChannel_DisplayName msg,
               ch_Description = CreateChannel_Description msg, ch_ChannelType = CreateChannel_ChannelType msg,
               ch_MessageRetentionHours = CreateChannel_RetentionHours msg, ch_CreatedBy = s_UserID sess,
               ch_CreatedAt = now, ch_IsPrivate = False\<rparr> i) succeed))))))"

section \<open>Deleting\<close>

definition channel_deleted :: "bool \<Rightarrow> u64 \<Rightarrow> gostring \<Rightarrow> ProtocolMessage" where
  "channel_deleted success channelID message = ChannelDeletedM
    \<lparr>ChannelDeleted_Success = success, ChannelDeleted_ChannelID = channelID, ChannelDeleted_Message = message\<rparr>"

text \<open>LogAdminAction, whose error is only logged.\<close>

definition log_admin :: "('w, 'q) Env \<Rightarrow> 'w Session \<Rightarrow> gostring \<Rightarrow> gostring \<Rightarrow> ('w, 'q) act \<Rightarrow> ('w, 'q) act" where
  "log_admin E sess action details k = (case s_UserID sess of None \<Rightarrow> k
     | Some u \<Rightarrow> sql_then (sql_LogAdminAction (env_sql E) u (s_Nickname sess) action details) (\<lambda>_. k))"

definition handleDeleteChannel :: "('w, 'q) Env \<Rightarrow> u64 \<Rightarrow> Frame \<Rightarrow> ('w, 'q) act" where
  "handleDeleteChannel E i frame = the_session i (\<lambda>sess srv.
    if \<not> isAdmin srv sess then
      srv_sendMessage E i TypeChannelDeleted (channel_deleted False 0 (lit ''Permission denied: admin access required'')) srv
    else decoded (DeleteChannelMessage_Decode DeleteChannelMessage_zero (Frame_Payload frame))
      (sendError E i ErrCodeInvalidFormat (lit ''Invalid message format''))
      (\<lambda>msg srv. let channelID = DeleteChannel_ChannelID msg in case GetChannel (srv_db srv) channelID of
         Inl e \<Rightarrow> srv_sendMessage E i TypeChannelDeleted (channel_deleted False channelID (lit ''Channel not found'')) srv
       | Inr channel \<Rightarrow>
          log_admin E sess (lit ''DELETE_CHANNEL'')
            (lit ''channel_id='' @ fmt_d (uint channelID) @ lit '' name='' @ ch_Name channel @ lit '' reason='' @ DeleteChannel_Reason msg)
          (sql_then (sql_DeleteChannel (env_sql E) channelID) (\<lambda>err.
           db_then (\<lambda>m clock. case DeleteChannel (map_option (\<lambda>e. ErrText (sql_text e)) err) m channelID of (r, m) \<Rightarrow> Some (r, m, clock))
             (\<lambda>r. case r of
                Some e \<Rightarrow> srv_sendMessage E i TypeChannelDeleted
                  (channel_deleted False channelID (lit ''Failed to delete channel: '' @ db_text e))
              | None \<Rightarrow>
                 (let resp = channel_deleted True channelID
                    (lit ''Channel '' @ quoted (ch_Name channel) @ lit '' deleted successfully'')
                  in if_ok (srv_sendMessage E i TypeChannelDeleted resp)
                    (also_do (\<lambda>srv. ignoring (broadcastToAll E TypeChannelDeleted resp srv)) succeed))))) srv) srv)"

end
