(* ===== verification/SrvAdmin.thy ===== *)
theory SrvAdmin imports SrvChannels begin

text \<open>The admin handlers of "handlers.go": bans and the deletion of users.\<close>

section \<open>Host and port\<close>

definition last_colon :: "gostring \<Rightarrow> nat option" where
  "last_colon s = (case filter (\<lambda>k. s ! k = 58) (rev [0..<length s]) of [] \<Rightarrow> None | k # ks \<Rightarrow> Some k)"

definition first_at :: "u8 \<Rightarrow> gostring \<Rightarrow> nat option" where
  "first_at c s = (case filter (\<lambda>k. s ! k = c) [0..<length s] of [] \<Rightarrow> None | k # ks \<Rightarrow> Some k)"

text \<open>net.SplitHostPort; None is any of its errors. 91 and 93 are the brackets of an IPv6 address.\<close>

definition SplitHostPort :: "gostring \<Rightarrow> (gostring \<times> gostring) option" where
  "SplitHostPort s = (case last_colon s of None \<Rightarrow> None
     | Some i \<Rightarrow>
        (let finish = (\<lambda>host j k. if 91 \<in> set (drop j s) \<or> 93 \<in> set (drop k s) then None else Some (host, drop (i + 1) s)) in
         if s ! 0 = 91 then
           (case first_at 93 s of None \<Rightarrow> None
            | Some e \<Rightarrow> if e + 1 = i then finish (take (e - 1) (drop 1 s)) 1 (e + 1) else None)
         else if 58 \<in> set (take i s) then None
         else finish (take i s) 0 0))"

text \<open>"adminIP, _, _ := net.SplitHostPort(sess.RemoteAddr)".\<close>

definition admin_ip :: "'w Session \<Rightarrow> gostring" where
  "admin_ip sess = (case SplitHostPort (s_RemoteAddr sess) of None \<Rightarrow> [] | Some (host, port) \<Rightarrow> host)"

section \<open>Bans\<close>

definition user_banned :: "bool \<Rightarrow> u64 \<Rightarrow> gostring \<Rightarrow> ProtocolMessage" where
  "user_banned success banID message =
    UserBannedM \<lparr>UserBanned_Success = success, UserBanned_BanID = banID, UserBanned_Message = message\<rparr>"

definition ip_banned :: "bool \<Rightarrow> u64 \<Rightarrow> gostring \<Rightarrow> ProtocolMessage" where
  "ip_banned success banID message =
    IPBannedM \<lparr>IPBanned_Success = success, IPBanned_BanID = banID, IPBanned_Message = message\<rparr>"

definition user_unbanned :: "bool \<Rightarrow> gostring \<Rightarrow> ProtocolMessage" where
  "user_unbanned success message = UserUnbannedM \<lparr>UserUnbanned_Success = success, UserUnbanned_Message = message\<rparr>"

definition ip_unbanned :: "bool \<Rightarrow> gostring \<Rightarrow> ProtocolMessage" where
  "ip_unbanned success message = IPUnbannedM \<lparr>IPUnbanned_Success = success, IPUnbanned_Message = message\<rparr>"

definition target_identifier :: "gostring option \<Rightarrow> u64 option \<Rightarrow> gostring" where
  "target_identifier nickname userID = (case nickname of Some n \<Rightarrow> n
     | None \<Rightarrow> (case userID of Some u \<Rightarrow> lit ''user_id:'' @ fmt_d (uint u) | None \<Rightarrow> []))"

text \<open>The first check of each handler; the payload is read after it.\<close>

definition admin_only :: "('w, 'q) Env \<Rightarrow> u64 \<Rightarrow> ('w, 'q) act \<Rightarrow> ('w Session \<Rightarrow> ('w, 'q) act) \<Rightarrow> ('w, 'q) act" where
  "admin_only E i refuse k = the_session i (\<lambda>sess srv. if isAdmin srv sess then k sess srv else refuse srv)"

abbreviation denied :: gostring where
  "denied \<equiv> lit ''Permission denied: admin access required''"

definition handleBanUser :: "('w, 'q) Env \<Rightarrow> u64 \<Rightarrow> Frame \<Rightarrow> ('w, 'q) act" where
  "handleBanUser E i frame = admin_only E i (srv_sendMessage E i TypeUserBanned (user_banned False 0 denied)) (\<lambda>sess.
    decoded (BanUserMessage_Decode BanUserMessage_zero (Frame_Payload frame))
    (sendError E i ErrCodeInvalidFormat (lit ''Invalid message format''))
    (\<lambda>msg. if BanUser_UserID msg = None \<and> BanUser_Nickname msg = None then
       srv_sendMessage E i TypeUserBanned (user_banned False 0 (lit ''Must provide either UserID or Nickname''))
     else sql_then (sql_CreateUserBan (env_sql E) (BanUser_UserID msg) (BanUser_Nickname msg) (BanUser_Reason msg)
         (BanUser_Shadowban msg) (BanUser_DurationSeconds msg) (s_Nickname sess) (admin_ip sess)) (\<lambda>r. case r of
       Inl e \<Rightarrow> srv_sendMessage E i TypeUserBanned (user_banned False 0 (lit ''Failed to create ban''))
     | Inr banID \<Rightarrow> srv_sendMessage E i TypeUserBanned (user_banned True banID
         (lit ''User '' @ target_identifier (BanUser_Nickname msg) (BanUser_UserID msg) @ lit '' banned successfully'')))))"

definition handleBanIP :: "('w, 'q) Env \<Rightarrow> u64 \<Rightarrow> Frame \<Rightarrow> ('w, 'q) act" where
  "handleBanIP E i frame = admin_only E i (srv_sendMessage E i TypeIPBanned (ip_banned False 0 denied)) (\<lambda>sess.
    decoded (BanIPMessage_Decode BanIPMessage_zero (Frame_Payload frame))
    (sendError E i ErrCodeInvalidFormat (lit ''Invalid message format''))
    (\<lambda>msg. if BanIP_IPCIDR msg = [] then
       srv_sendMessage E i TypeIPBanned (ip_banned False 0 (lit ''IP/CIDR address required''))
     else sql_then (sql_CreateIPBan (env_sql E) (BanIP_IPCIDR msg) (BanIP_Reason msg) (BanIP_DurationSeconds msg)
         (s_Nickname sess) (admin_ip sess)) (\<lambda>r. case r of
       Inl e \<Rightarrow> srv_sendMessage E i TypeIPBanned (ip_banned False 0 (lit ''Failed to create ban''))
     | Inr banID \<Rightarrow> srv_sendMessage E i TypeIPBanned (ip_banned True banID
         (lit ''IP '' @ BanIP_IPCIDR msg @ lit '' banned successfully'')))))"

definition handleUnbanUser :: "('w, 'q) Env \<Rightarrow> u64 \<Rightarrow> Frame \<Rightarrow> ('w, 'q) act" where
  "handleUnbanUser E i frame = admin_only E i (srv_sendMessage E i TypeUserUnbanned (user_unbanned False denied)) (\<lambda>sess.
    decoded (UnbanUserMessage_Decode UnbanUserMessage_zero (Frame_Payload frame))
    (sendError E i ErrCodeInvalidFormat (lit ''Invalid message format''))
    (\<lambda>msg. if UnbanUser_UserID msg = None \<and> UnbanUser_Nickname msg = None then
       srv_sendMessage E i TypeUserUnbanned (user_unbanned False (lit ''Must provide either UserID or Nickname''))
     else sql_then (sql_DeleteUserBan (env_sql E) (UnbanUser_UserID msg) (UnbanUser_Nickname msg) (s_Nickname sess) (admin_ip sess)) (\<lambda>r.
       case r of
         Inl e \<Rightarrow> srv_sendMessage E i TypeUserUnbanned (user_unbanned False (lit ''Failed to remove ban''))
       | Inr rowsAffected \<Rightarrow>
          if rowsAffected = 0 then
            srv_sendMessage E i TypeUserUnbanned (user_unbanned False (lit ''No active ban found for this user''))
          else srv_sendMessage E i TypeUserUnbanned (user_unbanned True
            (lit ''User '' @ target_identifier (UnbanUser_Nickname msg) (UnbanUser_UserID msg) @
             lit '' unbanned successfully ('' @ fmt_d (sint rowsAffected) @ lit '' bans removed)'')))))"

definition handleUnbanIP :: "('w, 'q) Env \<Rightarrow> u64 \<Rightarrow> Frame \<Rightarrow> ('w, 'q) act" where
  "handleUnbanIP E i frame = admin_only E i (srv_sendMessage E i TypeIPUnbanned (ip_unbanned False denied)) (\<lambda>sess.
    decoded (UnbanIPMessage_Decode UnbanIPMessage_zero (Frame_Payload frame))
    (sendError E i ErrCodeInvalidFormat (lit ''Invalid message format''))
    (\<lambda>msg. if UnbanIP_IPCIDR msg = [] then
       srv_sendMessage E i TypeIPUnbanned (ip_unbanned False (lit ''IP/CIDR address required''))
     else sql_then (sql_DeleteIPBan (env_sql E) (UnbanIP_IPCIDR msg) (s_Nickname sess) (admin_ip sess)) (\<lambda>r. case r of
         Inl e \<Rightarrow> srv_sendMessage E i TypeIPUnbanned (ip_unbanned False (lit ''Failed to remove ban''))
       | Inr rowsAffected \<Rightarrow>
          if rowsAffected = 0 then
            srv_sendMessage E i TypeIPUnbanned (ip_unbanned False (lit ''No active ban found for this IP''))
          else srv_sendMessage E i TypeIPUnbanned (ip_unbanned True
            (lit ''IP '' @ UnbanIP_IPCIDR msg @ lit '' unbanned successfully ('' @ fmt_d (sint rowsAffected) @ lit '' bans removed)'')))))"

definition ban_entry :: "DBBan \<Rightarrow> BanEntry" where
  "ban_entry ban =
    \<lparr>BanEntry_ID = db_ID ban, BanEntry_Type = db_BanType ban, BanEntry_UserID = db_UserID ban, BanEntry_Nickname = db_Nickname ban,
     BanEntry_IPCIDR = db_IPCIDR ban, BanEntry_Reason = db_Reason ban, BanEntry_Shadowban = db_Shadowban ban,
     BanEntry_BannedAt = db_BannedAt ban, BanEntry_BannedUntil = db_BannedUntil ban, BanEntry_BannedBy = db_BannedBy ban\<rparr>"

definition handleListBans :: "('w, 'q) Env \<Rightarrow> u64 \<Rightarrow> Frame \<Rightarrow> ('w, 'q) act" where
  "handleListBans E i frame = admin_only E i (sendError E i ErrCodePermissionDenied denied) (\<lambda>sess.
    decoded (ListBansMessage_Decode ListBansMessage_zero (Frame_Payload frame))
    (sendError E i ErrCodeInvalidFormat (lit ''Invalid message format''))
    (\<lambda>msg. sql_then (sql_ListBans (env_sql E) (ListBans_IncludeExpired msg)) (\<lambda>r. case r of
       Inl e \<Rightarrow> sendError E i ErrCodeDatabaseError (lit ''Failed to retrieve ban list'')
     | Inr bans \<Rightarrow> srv_sendMessage E i TypeBanList (BanListM \<lparr>BanList_Bans = map ban_entry bans\<rparr>))))"

section \<open>Deleting users\<close>

definition user_deleted :: "bool \<Rightarrow> gostring \<Rightarrow> ProtocolMessage" where
  "user_deleted success message = UserDeletedM \<lparr>UserDeleted_Success = success, UserDeleted_Message = message\<rparr>"

text \<open>The sessions of the user, in the order of a range over all of them.\<close>

definition sessions_of_user :: "(u64 set \<Rightarrow> u64 list) \<Rightarrow> u64 \<Rightarrow> 'w SessionManager \<Rightarrow> u64 list" where
  "sessions_of_user order userID sm = filter (\<lambda>j. case sm_objects sm j of None \<Rightarrow> False
     | Some s \<Rightarrow> s_UserID s = Some userID) (GetAllSessions order sm)"

definition handleDeleteUser :: "('w, 'q) Env \<Rightarrow> u64 \<Rightarrow> Frame \<Rightarrow> ('w, 'q) act" where
  "handleDeleteUser E i frame = admin_only E i (srv_sendMessage E i TypeUserDeleted (user_deleted False denied)) (\<lambda>sess.
    decoded (DeleteUserMessage_Decode DeleteUserMessage_zero (Frame_Payload frame))
    (sendError E i ErrCodeInvalidFormat (lit ''Invalid message format''))
    (\<lambda>msg. let userID = DeleteUser_UserID msg in sql_then (sql_GetUserByID (env_sql E) userID) (\<lambda>u. case u of
       Inl e \<Rightarrow> srv_sendMessage E i TypeUserDeleted (user_deleted False (lit ''User not found''))
     | Inr user \<Rightarrow>
        if s_UserID sess = Some userID then
          srv_sendMessage E i TypeUserDeleted (user_deleted False (lit ''Cannot delete your own account''))
        else draw_then (\<lambda>n srv. let targets = sessions_of_user (env_ranges E n) userID (srv_sessions srv) in
          log_admin E sess (lit ''DELETE_USER'')
            (lit ''user_id='' @ fmt_d (uint userID) @ lit '' nickname='' @ du_Nickname user)
          (sql_then (sql_DeleteUser (env_sql E) userID) (\<lambda>d. draw_then (\<lambda>n srv.
           db_then (\<lambda>m clock. case DeleteUser (map_sum (\<lambda>e. ErrText (sql_text e)) id d)
               (env_ranges E n (dom (mem_messages m))) m userID of (r, m) \<Rightarrow> Some (r, m, clock)) (\<lambda>r. case r of
             Inl e \<Rightarrow> srv_sendMessage E i TypeUserDeleted (user_deleted False (lit ''Failed to delete user: '' @ db_text e))
           | Inr deletedNickname \<Rightarrow> also_do (remove_all (removeSession E) targets)
              (let resp = user_deleted True (lit ''User '' @ quoted deletedNickname @
                   lit '' deleted successfully (messages anonymized, '' @ fmt_d (int (length targets)) @ lit '' sessions disconnected)'')
               in if_ok (srv_sendMessage E i TypeUserDeleted resp)
                 (also_do (\<lambda>srv. ignoring (broadcastToAll E TypeUserDeleted resp srv)) succeed))) srv))) srv))))"

end
