(* ===== verification/SrvDiscovery.thy ===== *)
theory SrvDiscovery imports SrvAdmin begin

text \<open>
  Server discovery: the directory handlers of "handlers.go" and the verification handshake of "server.go".
\<close>

section \<open>The directory\<close>

definition clamp_servers :: "u16 \<Rightarrow> u16" where
  "clamp_servers limit = (let limit = (if limit = 0 then 100 else limit) in if limit > 500 then 500 else limit)"

definition server_list :: "('w, 'q) Env \<Rightarrow> u64 \<Rightarrow> ServerInfo list \<Rightarrow> ('w, 'q) act" where
  "server_list E i servers = srv_sendMessage E i TypeServerList (ServerListM \<lparr>ServerList_Servers = servers\<rparr>)"

text \<open>"uint64(time.Since(s.startTime).Seconds())": the whole seconds since the start, on times that do not step back.\<close>

definition self_info :: "gotime \<Rightarrow> ('w, 'q) Server \<Rightarrow> ServerInfo" where
  "self_info now srv = (let c = srv_config srv in
    \<lparr>ServerInfo_Hostname = cfg_PublicHostname c, ServerInfo_Port = word_of_int (cfg_TCPPort c), ServerInfo_Name = cfg_ServerName c,
     ServerInfo_Description = cfg_ServerDesc c, ServerInfo_UserCount = CountOnlineUsers (srv_sessions srv),
     ServerInfo_MaxUsers = cfg_MaxUsers c,
     ServerInfo_UptimeSeconds = word_of_int (quot (now - srv_startTime srv) 1000000000),
     ServerInfo_IsPublic = True, ServerInfo_ChannelCount = CountChannels (srv_db srv)\<rparr>)"

definition server_info :: "DiscoveredServer \<Rightarrow> ServerInfo" where
  "server_info d =
    \<lparr>ServerInfo_Hostname = dv_Hostname d, ServerInfo_Port = dv_Port d, ServerInfo_Name = dv_Name d,
     ServerInfo_Description = dv_Description d, ServerInfo_UserCount = dv_UserCount d, ServerInfo_MaxUsers = dv_MaxUsers d,
     ServerInfo_UptimeSeconds = dv_UptimeSeconds d, ServerInfo_IsPublic = dv_IsPublic d, ServerInfo_ChannelCount = dv_ChannelCount d\<rparr>"

definition handleListServers :: "('w, 'q) Env \<Rightarrow> u64 \<Rightarrow> Frame \<Rightarrow> ('w, 'q) act" where
  "handleListServers E i frame srv = (if \<not> cfg_DirectoryEnabled (srv_config srv) then server_list E i [] srv
    else decoded (ListServersMessage_Decode ListServersMessage_zero (Frame_Payload frame))
      (sendError E i 1000 (lit ''Invalid message format''))
      (\<lambda>msg. sql_then (sql_ListDiscoveredServers (env_sql E) (clamp_servers (ListServers_Limit msg))) (\<lambda>r. case r of
         Inl e \<Rightarrow> dbError E i
       | Inr servers \<Rightarrow> time_then (\<lambda>now srv. server_list E i (self_info now srv # map server_info servers) srv))) srv)"

text \<open>At most 30 requests in an hour and address; the refused request is not counted.\<close>

definition checkDiscoveryRateLimit :: "gostring \<Rightarrow> (bool \<Rightarrow> ('w, 'q) act) \<Rightarrow> ('w, 'q) act" where
  "checkDiscoveryRateLimit remoteAddr k = time_then (\<lambda>now srv.
    let host = (case SplitHostPort remoteAddr of None \<Rightarrow> remoteAddr | Some (host, port) \<Rightarrow> host);
        requests = (case srv_discoveryRateLimits srv host of None \<Rightarrow> [] | Some ts \<Rightarrow> ts);
        filtered = filter (\<lambda>t. t > now - 3600 * 1000000000) requests
    in if length filtered \<ge> 30 then k False (srv\<lparr>srv_discoveryRateLimits := (srv_discoveryRateLimits srv)(host \<mapsto> filtered)\<rparr>)
       else k True (srv\<lparr>srv_discoveryRateLimits := (srv_discoveryRateLimits srv)(host \<mapsto> filtered @ [now])\<rparr>))"

definition register_ack :: "('w, 'q) Env \<Rightarrow> u64 \<Rightarrow> gostring \<Rightarrow> ('w, 'q) act" where
  "register_ack E i message = srv_sendMessage E i TypeRegisterAck (RegisterAckM
    \<lparr>RegisterAck_Success = False, RegisterAck_HeartbeatInterval = 0, RegisterAck_Message = message\<rparr>)"

text \<open>The verification runs in a goroutine of its own, verifyAndRegisterServer below.\<close>

definition handleRegisterServer :: "('w, 'q) Env \<Rightarrow> u64 \<Rightarrow> Frame \<Rightarrow> ('w, 'q) act" where
  "handleRegisterServer E i frame srv = (if \<not> cfg_DirectoryEnabled (srv_config srv) then
      sendError E i 1001 (lit ''Directory mode not enabled on this server'') srv
    else the_session i (\<lambda>sess. checkDiscoveryRateLimit (s_RemoteAddr sess) (\<lambda>ok.
      if \<not> ok then register_ack E i (lit ''Rate limit exceeded (30 requests/hour)'')
      else decoded (RegisterServerMessage_Decode RegisterServerMessage_zero (Frame_Payload frame))
        (sendError E i 1000 (lit ''Invalid message format''))
        (\<lambda>msg. if RegisterServer_Hostname msg = [] \<or> RegisterServer_Port msg = 0 then
           register_ack E i (lit ''Invalid hostname or port'')
         else register_ack E i (lit ''Verification in progress...'')))) srv)"

definition handleVerifyRegistration :: "('w, 'q) Env \<Rightarrow> u64 \<Rightarrow> Frame \<Rightarrow> ('w, 'q) act" where
  "handleVerifyRegistration E i frame = decoded (VerifyRegistrationMessage_Decode VerifyRegistrationMessage_zero (Frame_Payload frame))
    (sendError E i ErrCodeInvalidFormat (lit ''Invalid message format''))
    (\<lambda>msg. srv_sendMessage E i TypeVerifyResponse (VerifyResponseM
       \<lparr>VerifyResponse_Challenge = VerifyRegistration_Challenge msg\<rparr>))"

definition handleVerifyResponse :: "('w, 'q) Env \<Rightarrow> u64 \<Rightarrow> Frame \<Rightarrow> ('w, 'q) act" where
  "handleVerifyResponse E i frame = decoded (VerifyResponseMessage_Decode VerifyResponseMessage_zero (Frame_Payload frame))
    (sendError E i 1000 (lit ''Invalid message format''))
    (\<lambda>msg srv. case srv_verificationChallenges srv i of
       None \<Rightarrow> sendError E i 6000 (lit ''No pending verification'') srv
     | Some expected \<Rightarrow>
        (let srv = srv\<lparr>srv_verificationChallenges := (srv_verificationChallenges srv)(i := None)\<rparr> in
         if VerifyResponse_Challenge msg \<noteq> expected then sendError E i 6000 (lit ''Verification failed'') srv
         else succeed srv))"

definition calculateHeartbeatInterval :: "u32 \<Rightarrow> u32" where
  "calculateHeartbeatInterval serverCount =
    (if serverCount < 100 then 300 else if serverCount < 1000 then 600 else if serverCount < 5000 then 1800 else 3600)"

definition handleHeartbeat :: "('w, 'q) Env \<Rightarrow> u64 \<Rightarrow> Frame \<Rightarrow> ('w, 'q) act" where
  "handleHeartbeat E i frame srv = (if \<not> cfg_DirectoryEnabled (srv_config srv) then
      sendError E i 1001 (lit ''Directory mode not enabled on this server'') srv
    else decoded (HeartbeatMessage_Decode HeartbeatMessage_zero (Frame_Payload frame))
      (sendError E i 1000 (lit ''Invalid message format''))
      (\<lambda>msg. sql_then (sql_GetDiscoveredServer (env_sql E) (Heartbeat_Hostname msg) (Heartbeat_Port msg)) (\<lambda>r. case r of
         Inl ErrNoRows \<Rightarrow> sendError E i 4000 (lit ''Server not registered'')
       | Inl (SQLErr t) \<Rightarrow> dbError E i
       | Inr server \<Rightarrow> sql_then (sql_CountDiscoveredServers (env_sql E)) (\<lambda>c.
          let newInterval = calculateHeartbeatInterval (case c of Inl e \<Rightarrow> 0 | Inr n \<Rightarrow> n) in
          sql_then (sql_UpdateHeartbeat (env_sql E) (Heartbeat_Hostname msg) (Heartbeat_Port msg) (Heartbeat_UserCount msg)
            (Heartbeat_UptimeSeconds msg) (Heartbeat_ChannelCount msg) newInterval) (\<lambda>err. case err of
              Some e \<Rightarrow> dbError E i
            | None \<Rightarrow> srv_sendMessage E i TypeHeartbeatAck (HeartbeatAckM \<lparr>HeartbeatAck_HeartbeatInterval = newInterval\<rparr>))))) srv)"

section \<open>The verification handshake\<close>

text \<open>
  verifyServerReachability on a dialled connection: input is what the peer sends until it closes or the
  deadline passes, w what has been written to it. The loop ends because each frame takes bytes off the input.
\<close>

lemma DecodeFrame_shorter: "DecodeFrame input = Inr (f, rest) \<Longrightarrow> length rest < length input"
  using DecodeFrame_Inr [of input f rest] by (auto simp: length_frame_wire)

function await_response :: "u64 \<Rightarrow> bytes \<Rightarrow> bool" where
  "await_response challenge input =
    (case DecodeFrame input of Inl e \<Rightarrow> False
     | Inr (frame, rest) \<Rightarrow>
        if Frame_Type frame = TypeVerifyResponse then
          (case VerifyResponseMessage_Decode VerifyResponseMessage_zero (Frame_Payload frame) of
             (msg, err) \<Rightarrow> err = None \<and> VerifyResponse_Challenge msg = challenge)
        else if Frame_Type frame = TypeServerConfig \<or> Frame_Type frame = TypeRegisterAck then await_response challenge rest
        else False)"
  by pat_completeness auto
termination
  by (relation "measure (\<lambda>(challenge, input). length input)") (auto dest: DecodeFrame_shorter)

declare await_response.simps [simp del]

text \<open>None is a connection that could not be made, or any error of the handshake.\<close>

definition verifyServerReachability :: "'w io_writer \<Rightarrow> 'w \<Rightarrow> bytes option \<Rightarrow> u64 \<Rightarrow> ServerConfigMessage option" where
  "verifyServerReachability wr w peer challenge =
    (case peer of None \<Rightarrow> None
     | Some input \<Rightarrow>
        (case DecodeFrame input of Inl e \<Rightarrow> None
         | Inr (frame, rest) \<Rightarrow>
            if Frame_Type frame \<noteq> TypeServerConfig then None
            else (case ServerConfigMessage_Decode ServerConfigMessage_zero (Frame_Payload frame) of
               (config, Some e) \<Rightarrow> None
             | (config, None) \<Rightarrow>
                if ServerConfig_ProtocolVersion config \<noteq> ProtocolVersion then None
                else (case sendMessage wr TypeVerifyRegistration
                    (VerifyRegistrationM \<lparr>VerifyRegistration_Challenge = challenge\<rparr>) w of
                   (w, Some e) \<Rightarrow> None
                 | (w, None) \<Rightarrow> if await_response challenge rest then Some config else None))))"

text \<open>verifyAndRegisterServer, after the handshake; 300 seconds is directoryHealthCheckInterval.\<close>

definition verifyAndRegisterServer ::
  "('w, 'q) Env \<Rightarrow> RegisterServerMessage \<Rightarrow> gostring \<Rightarrow> ServerConfigMessage option \<Rightarrow> ('w, 'q) act" where
  "verifyAndRegisterServer E msg sourceIP verified = (case verified of None \<Rightarrow> succeed
     | Some config \<Rightarrow> sql_then (sql_RegisterDiscoveredServer (env_sql E) (RegisterServer_Hostname msg) (RegisterServer_Port msg)
         (RegisterServer_Name msg) (RegisterServer_Description msg) (RegisterServer_MaxUsers msg) (RegisterServer_IsPublic msg)
         (RegisterServer_ChannelCount msg) sourceIP (lit ''registration'')) (\<lambda>r. case r of
         Inl e \<Rightarrow> succeed
       | Inr serverID \<Rightarrow> sql_then (sql_UpdateHeartbeat (env_sql E) (RegisterServer_Hostname msg) (RegisterServer_Port msg) 0 0
           (RegisterServer_ChannelCount msg) 300) (\<lambda>_. succeed)))"

text \<open>runDirectoryHealthCheck with the outcome of each handshake: it refreshes the servers that answered.\<close>

fun health_check :: "('w, 'q) Env \<Rightarrow> (DiscoveredServer \<Rightarrow> bool) \<Rightarrow> DiscoveredServer list \<Rightarrow> nat \<Rightarrow> nat \<Rightarrow> ('w, 'q) Server \<Rightarrow> nat \<times> nat \<times> ('w, 'q) Server" where
  "health_check E reachable [] successes failures srv = (successes, failures, srv)"
| "health_check E reachable (d # ds) successes failures srv =
    (if \<not> reachable d then health_check E reachable ds successes (failures + 1) srv
     else case sql_UpdateHeartbeat (env_sql E) (dv_Hostname d) (dv_Port d) (dv_UserCount d) (dv_UptimeSeconds d)
         (dv_ChannelCount d) 300 (srv_sqlite srv) of
       (Some e, q) \<Rightarrow> health_check E reachable ds successes (failures + 1) (srv\<lparr>srv_sqlite := q\<rparr>)
     | (None, q) \<Rightarrow> health_check E reachable ds (successes + 1) failures (srv\<lparr>srv_sqlite := q\<rparr>))"

definition runDirectoryHealthCheck :: "('w, 'q) Env \<Rightarrow> (DiscoveredServer \<Rightarrow> bool) \<Rightarrow> ('w, 'q) Server \<Rightarrow> nat \<times> nat \<times> ('w, 'q) Server" where
  "runDirectoryHealthCheck E reachable srv =
    (case sql_ListDiscoveredServers (env_sql E) (- 1) (srv_sqlite srv) of
       (Inl e, q) \<Rightarrow> (0, 0, srv\<lparr>srv_sqlite := q\<rparr>)
     | (Inr servers, q) \<Rightarrow> health_check E reachable servers 0 0 (srv\<lparr>srv_sqlite := q\<rparr>))"

end
