(* ===== verification/SrvLoop.thy ===== *)
theory SrvLoop imports SrvAuth SrvMessages SrvUsers SrvDiscovery begin

text \<open>
  "server.go": the dispatch of a frame to its handler, the message loop of a connection from its first
  frame to its removal, the arrival of a connection, and the sweep of stale sessions.
\<close>

section \<open>Dispatch\<close>

definition handleMessage :: "('w, 'q) Env \<Rightarrow> u64 \<Rightarrow> Frame \<Rightarrow> ('w, 'q) act" where
  "handleMessage E i frame = (let t = Frame_Type frame in
     if t = TypeAuthRequest then handleAuthRequest E i frame
     else if t = TypeSetNickname then handleSetNickname E i frame
     else if t = TypeRegisterUser then handleRegisterUser E i frame
     else if t = TypeLogout then handleLogout E i frame
     else if t = TypeListChannels then handleListChannels E i frame
     else if t = TypeJoinChannel then handleJoinChannel E i frame
     else if t = TypeLeaveChannel then handleLeaveChannel E i frame
     else if t = TypeCreateChannel then handleCreateChannel E i frame
     else if t = TypeListMessages then handleListMessages E i frame
     else if t = TypePostMessage then handlePostMessage E i frame
     else if t = TypeEditMessage then handleEditMessage E i frame
     else if t = TypeDeleteMessage then handleDeleteMessage E i frame
     else if t = TypeChangePassword then handleChangePassword E i frame
     else if t = TypeAddSSHKey then handleAddSSHKey E i frame
     else if t = TypeListSSHKeys then handleListSSHKeys E i frame
     else if t = TypeUpdateSSHKeyLabel then handleUpdateSSHKeyLabel E i frame
     else if t = TypeDeleteSSHKey then handleDeleteSSHKey E i frame
     else if t = TypeGetUserInfo then handleGetUserInfo E i frame
     else if t = TypeListUsers then handleListUsers E i frame
     else if t = TypeListChannelUsers then handleListChannelUsers E i frame
     else if t = TypeGetUnreadCounts then handleGetUnreadCounts E i frame
     else if t = TypeUpdateReadState then handleUpdateReadState E i frame
     else if t = TypePing then handlePing E i frame
     else if t = TypeDisconnect then handleDisconnect E i frame
     else if t = TypeSubscribeThread then handleSubscribeThread E i frame
     else if t = TypeUnsubscribeThread then handleUnsubscribeThread E i frame
     else if t = TypeSubscribeChannel then handleSubscribeChannel E i frame
     else if t = TypeUnsubscribeChannel then handleUnsubscribeChannel E i frame
     else if t = TypeListServers then handleListServers E i frame
     else if t = TypeRegisterServer then handleRegisterServer E i frame
     else if t = TypeVerifyRegistration then handleVerifyRegistration E i frame
     else if t = TypeVerifyResponse then handleVerifyResponse E i frame
     else if t = TypeHeartbeat then handleHeartbeat E i frame
     else if t = TypeBanUser then handleBanUser E i frame
     else if t = TypeBanIP then handleBanIP E i frame
     else if t = TypeUnbanUser then handleUnbanUser E i frame
     else if t = TypeUnbanIP then handleUnbanIP E i frame
     else if t = TypeListBans then handleListBans E i frame
     else if t = TypeDeleteUser then handleDeleteUser E i frame
     else if t = TypeDeleteChannel then handleDeleteChannel E i frame
     else sendError E i 1001 (lit ''Unsupported message type''))"

section \<open>The message loop\<close>

text \<open>The texts "%v" prints; that of an error of the connection is a parameter.\<close>

definition io_text :: "(nat \<Rightarrow> gostring) \<Rightarrow> go_error \<Rightarrow> gostring" where
  "io_text net e = (case e of
     ErrStringTooLong \<Rightarrow> lit ''string exceeds maximum length (65535 bytes)''
   | ErrInvalidUTF8 \<Rightarrow> lit ''invalid UTF-8 string''
   | ErrFrameTooLarge \<Rightarrow> lit ''frame exceeds maximum size (1 MB)''
   | ErrInvalidVersion \<Rightarrow> lit ''invalid protocol version''
   | ErrInvalidFrameLength \<Rightarrow> lit ''invalid frame length''
   | ErrNicknameTooShort \<Rightarrow> lit ''nickname must be at least 3 characters''
   | ErrNicknameTooLong \<Rightarrow> lit ''nickname must be at most 20 characters''
   | ErrMessageTooLong \<Rightarrow> lit ''message content exceeds maximum length (4096 bytes)''
   | ErrEmptyContent \<Rightarrow> lit ''message content cannot be empty''
   | io_EOF \<Rightarrow> lit ''EOF'' | io_ErrUnexpectedEOF \<Rightarrow> lit ''unexpected EOF''
   | WriteErr n \<Rightarrow> net n)"

definition error_text :: "(nat \<Rightarrow> gostring) \<Rightarrow> server_error \<Rightarrow> gostring" where
  "error_text net e = (case e of ErrClientDisconnecting \<Rightarrow> lit ''client disconnecting''
     | IOErr e \<Rightarrow> io_text net e | DBErr e \<Rightarrow> db_text e | ErrNew t \<Rightarrow> t)"

text \<open>
  messageLoop on the frames that arrive until the read error; the two deferred steps remove the session and close the
  connection. A session that was removed has had its connection closed, so the next read fails. An error of a
  handler is answered with error 9000, whatever becomes of that.
\<close>

fun message_loop :: "(nat \<Rightarrow> gostring) \<Rightarrow> ('w, 'q) Env \<Rightarrow> u64 \<Rightarrow> Frame list \<Rightarrow> ('w, 'q) Server \<Rightarrow> ('w, 'q) Server run" where
  "message_loop net E i [] srv = removeSession E i srv"
| "message_loop net E i (frame # frames) srv =
    (if i \<notin> sm_sessions (srv_sessions srv) then removeSession E i srv
     else run_then (touch_session i (handleMessage E i frame) srv) (\<lambda>(err, srv). case err of
      None \<Rightarrow> message_loop net E i frames srv
    | Some ErrClientDisconnecting \<Rightarrow> Returns srv
    | Some e \<Rightarrow> run_then (ignoring (sendError E i 9000 (lit ''Internal error: '' @ error_text net e) srv))
        (message_loop net E i frames)))"

definition close_conn :: "('w, 'q) Env \<Rightarrow> u64 \<Rightarrow> ('w, 'q) Server \<Rightarrow> ('w, 'q) Server run" where
  "close_conn E i srv = Returns (set_session i (\<lambda>s. s\<lparr>s_Conn := conn_Close (env_conn E) (s_Conn s)\<rparr>) srv)"

definition messageLoop :: "(nat \<Rightarrow> gostring) \<Rightarrow> ('w, 'q) Env \<Rightarrow> u64 \<Rightarrow> bytes \<Rightarrow> ('w, 'q) Server \<Rightarrow> ('w, 'q) Server run" where
  "messageLoop net E i input srv =
    run_then (message_loop net E i (fst (frames_of input)) srv) (\<lambda>srv.
      run_then (removeSession E i srv) (close_conn E i))"

text \<open>handleConnection: the session, the configuration, and the loop's session id when it comes to that.\<close>

definition handleConnection :: "('w, 'q) Env \<Rightarrow> 'w \<Rightarrow> gostring \<Rightarrow> ('w, 'q) Server \<Rightarrow> (u64 option \<times> ('w, 'q) Server) run" where
  "handleConnection E conn remoteAddr srv =
    run_then (sm_CreateSession (srv_sessions srv) (srv_clock srv) None [] (lit ''tcp'') conn remoteAddr)
      (\<lambda>(i, sm, clock). let srv = srv\<lparr>srv_sessions := sm, srv_clock := clock\<rparr> in
        run_then (sendServerConfig E i srv) (\<lambda>(err, srv). case err of
          None \<Rightarrow> Returns (Some i, srv)
        | Some e \<Rightarrow> run_then (removeSession E i srv) (\<lambda>srv.
            run_then (close_conn E i srv) (\<lambda>srv. Returns (None, srv)))))"

section \<open>Maintenance\<close>

fun remove_stale :: "('w, 'q) Env \<Rightarrow> i64 \<Rightarrow> u64 list \<Rightarrow> ('w, 'q) Server \<Rightarrow> ('w, 'q) Server run" where
  "remove_stale E cutoff [] srv = Returns srv"
| "remove_stale E cutoff (i # is) srv =
    (case sm_objects (srv_sessions srv) i of None \<Rightarrow> Panics
     | Some sess \<Rightarrow>
        (case GetSession (srv_db srv) (s_DBSessionID sess) of Inl e \<Rightarrow> remove_stale E cutoff is srv
         | Inr dbSess \<Rightarrow>
            if sint (ds_LastActivity dbSess) < sint cutoff then run_then (removeSession E i srv) (remove_stale E cutoff is)
            else remove_stale E cutoff is srv))"

definition cleanupStaleSessions :: "('w, 'q) Env \<Rightarrow> ('w, 'q) Server \<Rightarrow> ('w, 'q) Server run" where
  "cleanupStaleSessions E = now_then (\<lambda>now. draw_then (\<lambda>n srv.
    remove_stale E (now - word_of_int (cfg_SessionTimeoutSeconds (srv_config srv) * 1000))
      (GetAllSessions (env_ranges E n) (srv_sessions srv)) srv))"

fun notify_shutdown :: "('w, 'q) Env \<Rightarrow> u64 list \<Rightarrow> nat \<Rightarrow> ('w, 'q) Server \<Rightarrow> (nat \<times> ('w, 'q) Server) run" where
  "notify_shutdown E [] sent srv = Returns (sent, srv)"
| "notify_shutdown E (i # is) sent srv =
    run_then (srv_sendMessage E i TypeDisconnect (DisconnectM
        \<lparr>Disconnect_Reason = Some (lit ''Server shutting down for maintenance'')\<rparr>) srv)
      (\<lambda>(err, srv). notify_shutdown E is (if err = None then sent + 1 else sent) srv)"

definition notifyClientsOfShutdown :: "('w, 'q) Env \<Rightarrow> ('w, 'q) Server \<Rightarrow> (nat \<times> ('w, 'q) Server) run" where
  "notifyClientsOfShutdown E = draw_then (\<lambda>n srv.
    notify_shutdown E (GetAllSessions (env_ranges E n) (srv_sessions srv)) 0 srv)"

definition EnableDirectory :: "('w, 'q) Server \<Rightarrow> ('w, 'q) Server" where
  "EnableDirectory srv = srv\<lparr>srv_config := (srv_config srv)\<lparr>cfg_DirectoryEnabled := True\<rparr>\<rparr>"

definition DisableDirectory :: "('w, 'q) Server \<Rightarrow> ('w, 'q) Server" where
  "DisableDirectory srv = srv\<lparr>srv_config := (srv_config srv)\<lparr>cfg_DirectoryEnabled := False\<rparr>\<rparr>"

end
