(* ===== verification/SrvSafety.thy ===== *)
theory SrvSafety imports SrvRemoval SrvLoop begin

text \<open>
  Every handler keeps the invariant of the server and neither panics nor recurses past its bound, whatever frame it
  is given, whatever SQLite answers and whichever writes fail; and so does the loop that runs them.
\<close>

section \<open>Presence and broadcasts\<close>

lemma removes_removeSession:
  assumes "ranges_ok (env_ranges E)"
  shows "removes D S (removeSession E)"
  unfolding removes_def
proof (intro allI impI)
  show "good D S srv \<Longrightarrow> run_ok False (good D S) (removeSession E i srv)" for i and srv :: "('a, 'b) Server"
    by (rule run_ok_mono [OF run_removeSession [OF assms]]) (auto intro: good_subset)
qed

lemma run_lift: "run_ok False P r \<Longrightarrow> run_ok b P r"
  by (erule run_ok_weaken)

lemma run_remove [run_rules]: "ranges_ok (env_ranges E) \<Longrightarrow> good D S srv \<Longrightarrow> run_ok b (good D S) (removeSession E i srv)"
  using removes_removeSession run_lift unfolding removes_def by blast

lemma run_notifyServerPresence [run_rules]:
  "ranges_ok (env_ranges E) \<Longrightarrow> good D S srv \<Longrightarrow> i \<in> D \<Longrightarrow> run_ok b (good D S) (notifyServerPresence E i online srv)"
  unfolding notifyServerPresence_def
  by (rule run_lift) (rule run_notifyServerPresence_with [OF removes_removeSession])

lemma run_notifyChannelPresence [run_rules]:
  "ranges_ok (env_ranges E) \<Longrightarrow> good D S srv \<Longrightarrow> i \<in> D \<Longrightarrow> run_ok b (good D S) (notifyChannelPresence E c i joined srv)"
  unfolding notifyChannelPresence_def
  by (rule run_lift) (rule run_notifyChannelPresence_with [OF removes_removeSession])

lemma run_broadcastToChannel [run_rules]:
  "ranges_ok (env_ranges E) \<Longrightarrow> good D S srv \<Longrightarrow> run_ok b (answers D S) (broadcastToChannel E c t msg srv)"
  unfolding broadcastToChannel_def
  by (rule run_lift) (rule run_broadcastToChannel_with [OF removes_removeSession])

lemma run_broadcast:
  assumes "ranges_ok (env_ranges E)" and "good D S srv" and "set targets \<subseteq> D"
  shows "run_ok b (answers D S) (run_then (broadcast_with (removeSession E) E targets data srv) (\<lambda>srv. Returns (None, srv)))"
  using run_lift [OF run_broadcast_with [OF removes_removeSession [OF assms(1)] assms(2,3)]] by (rule run_ok_then) simp

lemma run_broadcastToAll [run_rules]:
  assumes r: "ranges_ok (env_ranges E)" and g: "good D S srv"
  shows "run_ok b (answers D S) (broadcastToAll E t msg srv)"
  unfolding broadcastToAll_def
  by (intro run_rules g) (auto simp: g intro!: run_broadcast [OF r] dest: range_registered [OF r] good_registered)

lemma run_send_snapshot:
  assumes "good D S srv" and "target \<in> D" and "set is \<subseteq> D"
  shows "run_ok b (good D S) (send_snapshot E target is srv)"
  using assms(1,3)
proof (induction "is" arbitrary: srv)
  case (Cons i "is")
  then have IH: "good D S srv' \<Longrightarrow> run_ok b (good D S) (send_snapshot E target is srv')" for srv' by simp
  show ?case unfolding send_snapshot.simps
    by (intro run_if IH Cons.prems run_the_session [OF Cons.prems(1)] run_option
        run_ok_then [OF run_ignoring [OF run_send [OF Cons.prems(1) assms(2)]]])
      (use Cons.prems(2) in auto)
qed simp

lemma run_snapshot [run_rules]:
  assumes r: "ranges_ok (env_ranges E)" and g: "good D S srv" and i: "i \<in> D"
  shows "run_ok b (good D S) (sendServerPresenceSnapshot E i srv)"
  unfolding sendServerPresenceSnapshot_def
  by (rule run_draw_then [OF g])
    (auto intro!: run_send_snapshot i dest: range_registered [OF r] good_registered)

lemma run_broadcastNewMessage [run_rules]:
  assumes r: "ranges_ok (env_ranges E)" and g: "good D S srv" and i: "i \<in> D"
  shows "run_ok b (answers D S) (broadcastNewMessage E i msg root srv)"
proof -
  have ch: "set (GetChannelSubscribers (env_ranges E n) (srv_sessions srv') cs) \<subseteq> D" if "good D S srv'" for n cs and srv' :: "('a, 'b) Server"
    using that good_subscribers(2) [OF that] ranges_okD(1) [OF r good_targets(2) [OF that]] by (simp add: GetChannelSubscribers_def)
  have th: "set (GetThreadSubscribers (env_ranges E n) (srv_sessions srv') t) \<subseteq> D" if "good D S srv'" for n t and srv' :: "('a, 'b) Server"
    using that good_subscribers(1) [OF that] ranges_okD(1) [OF r good_targets(3) [OF that]] by (simp add: GetThreadSubscribers_def)
  show ?thesis unfolding broadcastNewMessage_def
    by (intro run_rules g i run_broadcast [OF r]) (auto simp: g split: if_splits option.splits dest: subsetD [OF ch] subsetD [OF th])
qed

section \<open>Account handlers\<close>

lemma good_UpdateNickname:
  assumes g: "good D S srv" and run: "UpdateNickname (srv_sessions srv) i n = (e, sm)"
  shows "good D S (on_sm (\<lambda>_. sm) srv)"
proof (rule good_on_sm [OF g])
  from g have ok: "sm_ok (srv_sessions srv)" "store_inv (srv_db srv) (srv_clock srv)" by (auto simp: good_def server_ok_def)
  show "sm_ok sm" using sm_ok_UpdateNickname [OF ok(1), of i n] by (simp add: run)
  show "store_inv (sm_db sm) (srv_clock srv)"
    using run ok(2) store_inv_nickname by (auto simp: UpdateNickname_def Let_def with_session_def split: option.splits)
qed (use g run in \<open>auto simp: good_def UpdateNickname_def Let_def with_session_def modify_apply split: option.splits if_splits\<close>)

lemma good_SetJoinedChannel:
  assumes g: "good D S srv" and run: "SetJoinedChannel (srv_sessions srv) i c = (e, sm)"
  shows "good D S (on_sm (\<lambda>_. sm) srv)"
proof (rule good_on_sm [OF g])
  from g have ok: "sm_ok (srv_sessions srv)" "store_inv (srv_db srv) (srv_clock srv)" by (auto simp: good_def server_ok_def)
  show "sm_ok sm" using sm_ok_SetJoinedChannel [OF ok(1), of i c] by (simp add: run)
  show "store_inv (sm_db sm) (srv_clock srv)"
    using run ok(2) by (auto simp: SetJoinedChannel_def with_session_def split: option.splits)
qed (use g run in \<open>auto simp: good_def SetJoinedChannel_def with_session_def modify_apply split: option.splits if_splits\<close>)

lemma activity_keeps:
  assumes "sm_UpdateSessionActivity sm clock i now = Returns (sm', clock')"
  shows "dom (sm_objects sm') = dom (sm_objects sm) \<and> sm_sessions sm' = sm_sessions sm \<and>
    sm_channelSubscribers sm' = sm_channelSubscribers sm"
  using assms by (auto simp: sm_UpdateSessionActivity_def Let_def with_session_def modify_apply
      elim!: run_then_ReturnsE split: option.splits if_splits)

lemma good_activity:
  assumes g: "good D S srv" and run: "sm_UpdateSessionActivity (srv_sessions srv) (srv_clock srv) i now = Returns (sm, clock)"
  shows "good D S (srv\<lparr>srv_sessions := sm, srv_clock := clock\<rparr>)"
proof -
  from g have ok: "sm_ok (srv_sessions srv)" "store_inv (srv_db srv) (srv_clock srv)" by (auto simp: good_def server_ok_def)
  have sm: "sm_ok sm" by (rule sm_ok_UpdateSessionActivity [OF ok(1) run])
  have "store_inv (sm_db sm) clock" using run ok(2)
    by (auto simp: sm_UpdateSessionActivity_def Let_def with_session_def elim!: run_then_ReturnsE
        dest: store_inv_activity split: option.splits if_splits)
  then show ?thesis using g sm activity_keeps [OF run] by (simp add: good_def server_ok_def addresses_ok_def)
qed

lemma run_activity:
  assumes g: "good D S srv" and i: "i \<in> D"
  shows "run_ok True (\<lambda>(sm, clock). good D S (srv\<lparr>srv_sessions := sm, srv_clock := clock\<rparr>) \<and>
    sm_sessions sm = sm_sessions (srv_sessions srv)) (sm_UpdateSessionActivity (srv_sessions srv) (srv_clock srv) i now)"
    (is "run_ok True ?P ?r")
proof -
  obtain sess where "sm_objects (srv_sessions srv) i = Some sess" using g i by (auto simp: good_def)
  moreover have "run_ok True (\<lambda>_. True) (needs_clock x)" for x :: "(db_error option \<times> MemDB \<times> i64 list) option" by (cases x) auto
  ultimately have ends: "run_ok True (\<lambda>_. True) ?r"
    by (auto simp: sm_UpdateSessionActivity_def Let_def intro!: run_ok_then [where Q = "\<lambda>_. True"])
  show ?thesis
  proof (cases ?r)
    case (Returns x)
    obtain sm clock where x: "x = (sm, clock)" by (cases x)
    from good_activity [OF g Returns [unfolded x]] activity_keeps [OF Returns [unfolded x]]
    show ?thesis using Returns by (simp add: x)
  qed (use ends in simp_all)
qed

lemma run_touch_session:
  assumes g: "good D S srv" and i: "i \<in> D"
    and k: "\<And>srv'. good D S srv' \<Longrightarrow> sm_sessions (srv_sessions srv') = sm_sessions (srv_sessions srv) \<Longrightarrow> run_ok True (answers D S) (k srv')"
  shows "run_ok True (answers D S) (touch_session i k srv)"
proof (cases "srv_clock srv")
  case (Cons t ts)
  have "good D S (srv\<lparr>srv_clock := ts\<rparr>)" using g Cons by (rule good_tick)
  then have act: "run_ok True (\<lambda>(sm, clock). good D S (srv\<lparr>srv_clock := ts, srv_sessions := sm, srv_clock := clock\<rparr>) \<and>
      sm_sessions sm = sm_sessions (srv_sessions srv)) (sm_UpdateSessionActivity (srv_sessions srv) ts i t)"
    using run_activity [OF _ i, of _ "srv\<lparr>srv_clock := ts\<rparr>" t] by simp
  have "touch_session i k srv = run_then (sm_UpdateSessionActivity (srv_sessions srv) ts i t)
      (\<lambda>(sm, clock). k (srv\<lparr>srv_clock := ts, srv_sessions := sm, srv_clock := clock\<rparr>))"
    by (simp add: touch_session_def now_then_def Cons)
  moreover have "run_ok True (answers D S) \<dots>"
    by (rule run_ok_then [OF act]) (simp add: k split: prod.splits)
  ultimately show ?thesis by simp
qed (simp add: touch_session_def now_then_def)

lemma run_change_nickname [run_rules]:
  assumes r: "ranges_ok (env_ranges E)" and g: "good D S srv" and i: "i \<in> D"
  shows "run_ok b (answers D S) (change_nickname E i old n srv)"
  unfolding change_nickname_def nickname_response_def
  by (intro run_rules r i) (auto intro: good_UpdateNickname [OF g])

lemmas account_defs = refuse_login_def accept_login_def refuse_registration_def nickname_response_def sendPasswordChanged_def
  remove_password_def replace_password_def

lemma run_handleAuthRequest:
  assumes r: "ranges_ok (env_ranges E)" and g: "good D S srv" and i: "i \<in> D"
  shows "run_ok True (answers D S) (handleAuthRequest E i frame srv)"
  unfolding handleAuthRequest_def account_defs by (intro run_rules r g i) auto

lemma run_handleRegisterUser:
  assumes r: "ranges_ok (env_ranges E)" and g: "good D S srv" and i: "i \<in> D"
  shows "run_ok True (answers D S) (handleRegisterUser E i frame srv)"
  unfolding handleRegisterUser_def account_defs by (intro run_rules r g i) auto

lemma run_handleLogout:
  assumes r: "ranges_ok (env_ranges E)" and g: "good D S srv" and i: "i \<in> D"
  shows "run_ok True (answers D S) (handleLogout E i frame srv)"
  unfolding handleLogout_def by (intro run_rules g i) auto

lemma run_handleSetNickname:
  assumes r: "ranges_ok (env_ranges E)" and g: "good D S srv" and i: "i \<in> D"
  shows "run_ok True (answers D S) (handleSetNickname E i frame srv)"
  unfolding handleSetNickname_def nickname_response_def by (intro run_rules r g i) auto

lemma run_handleChangePassword:
  assumes r: "ranges_ok (env_ranges E)" and g: "good D S srv" and i: "i \<in> D"
  shows "run_ok True (answers D S) (handleChangePassword E i frame srv)"
  unfolding handleChangePassword_def account_defs by (intro run_rules g i) auto

lemma run_handlePing:
  assumes r: "ranges_ok (env_ranges E)" and g: "good D S srv" and i: "i \<in> D"
  shows "run_ok True (answers D S) (handlePing E i frame srv)"
  unfolding handlePing_def by (intro run_rules run_touch_session g i) auto

lemma run_handleDisconnect:
  assumes r: "ranges_ok (env_ranges E)" and g: "good D S srv" and i: "i \<in> D"
  shows "run_ok True (answers D S) (handleDisconnect E i frame srv)"
  unfolding handleDisconnect_def by (intro run_rules r g)

section \<open>Channel handlers\<close>

lemma store_inv_run_DeleteChannel [keeps_store]:
  "store_inv m clock \<Longrightarrow> (case DeleteChannel e m c of (r, m) \<Rightarrow> Some (r, m, clock)) = Some (r, m', clock') \<Longrightarrow> store_inv m' clock'"
  using store_inv_DeleteChannel [of m clock e c] by (auto split: prod.splits)

lemma store_inv_run_DeleteUser [keeps_store]:
  "store_inv m clock \<Longrightarrow> (case DeleteUser q order m u of (r, m) \<Rightarrow> Some (r, m, clock)) = Some (r, m', clock') \<Longrightarrow> store_inv m' clock'"
  using store_inv_DeleteUser [of m clock q order u] by (auto split: prod.splits)

lemma run_set_joined [run_rules]:
  assumes g: "good D S srv" and i: "i \<in> D" and k: "\<And>srv'. good D S srv' \<Longrightarrow> run_ok b (answers D S) (k srv')"
  shows "run_ok b (answers D S) (set_joined E i c failed k srv)"
  unfolding set_joined_def using good_SetJoinedChannel [OF g]
  by (auto intro: run_sendError i k split: prod.split option.split)

lemma run_send_to_others:
  assumes "good D S srv" and "set is \<subseteq> D"
  shows "run_ok b (good D S) (send_to_others E creator t msg is srv)"
  using assms
proof (induction "is" arbitrary: srv)
  case (Cons i "is")
  then have IH: "good D S srv' \<Longrightarrow> run_ok b (good D S) (send_to_others E creator t msg is srv')" for srv' by simp
  show ?case unfolding send_to_others.simps
    by (intro run_if IH Cons.prems run_ok_then [OF run_ignoring [OF run_send [OF Cons.prems(1)]]]) (use Cons.prems(2) in auto)
qed simp

lemma run_broadcastChannelCreated [run_rules]:
  assumes r: "ranges_ok (env_ranges E)" and g: "good D S srv"
  shows "run_ok b (good D S) (broadcastChannelCreated E ch creator srv)"
  unfolding broadcastChannelCreated_def
  by (rule run_draw_then [OF g]) (auto intro!: run_send_to_others dest: range_registered [OF r] good_registered)

lemma run_log_admin [run_rules]:
  "good D S srv \<Longrightarrow> (\<And>srv'. good D S srv' \<Longrightarrow> run_ok b (answers D S) (k srv')) \<Longrightarrow> run_ok b (answers D S) (log_admin E sess action details k srv)"
  unfolding log_admin_def by (intro run_rules) auto

lemma run_handleListChannels:
  assumes r: "ranges_ok (env_ranges E)" and g: "good D S srv" and i: "i \<in> D"
  shows "run_ok True (answers D S) (handleListChannels E i frame srv)"
  unfolding handleListChannels_def by (intro run_rules r g i) (auto intro: g i r dest: keeps_store)

lemma run_handleJoinChannel:
  assumes r: "ranges_ok (env_ranges E)" and g: "good D S srv" and i: "i \<in> D"
  shows "run_ok True (answers D S) (handleJoinChannel E i frame srv)"
  unfolding handleJoinChannel_def by (intro run_rules r g i) (auto intro: g i r dest: keeps_store)

lemma run_handleLeaveChannel:
  assumes r: "ranges_ok (env_ranges E)" and g: "good D S srv" and i: "i \<in> D"
  shows "run_ok True (answers D S) (handleLeaveChannel E i frame srv)"
  unfolding handleLeaveChannel_def leave_response_def by (intro run_rules r g i) (auto intro: g i r dest: keeps_store)

lemma run_handleCreateChannel:
  assumes r: "ranges_ok (env_ranges E)" and g: "good D S srv" and i: "i \<in> D"
  shows "run_ok True (answers D S) (handleCreateChannel E i frame srv)"
  unfolding handleCreateChannel_def channel_refused_def by (intro run_rules r g i) (auto intro: g i r dest: keeps_store)

lemma run_handleDeleteChannel:
  assumes r: "ranges_ok (env_ranges E)" and g: "good D S srv" and i: "i \<in> D"
  shows "run_ok True (answers D S) (handleDeleteChannel E i frame srv)"
  unfolding handleDeleteChannel_def by (intro run_rules r g i) (auto intro: g i r dest: keeps_store)

section \<open>Message handlers\<close>

lemma run_convert [run_rules]:
  assumes g: "good D S srv" and k: "\<And>wire srv'. good D S srv' \<Longrightarrow> run_ok b (answers D S) (k wire srv')"
  shows "run_ok b (answers D S) (convertDBMessageToProtocol E m k srv)"
  unfolding convertDBMessageToProtocol_def by (intro run_rules g k)

lemma run_convert_all [run_rules]:
  assumes "good D S srv" and k: "\<And>wire srv'. good D S srv' \<Longrightarrow> run_ok b (answers D S) (k wire srv')"
  shows "run_ok b (answers D S) (convertDBMessagesToProtocol E ms acc k srv)"
  using assms(1)
proof (induction ms arbitrary: acc srv)
  case (Cons m ms)
  show ?case unfolding convertDBMessagesToProtocol.simps by (rule run_convert [OF Cons.prems Cons.IH])
qed (simp add: k)

lemma run_handleListMessages:
  assumes r: "ranges_ok (env_ranges E)" and g: "good D S srv" and i: "i \<in> D"
  shows "run_ok True (answers D S) (handleListMessages E i frame srv)"
proof -
  have "store_inv (srv_db srv) (srv_clock srv)" using g by (simp add: good_def server_ok_def)
  then show ?thesis unfolding handleListMessages_def message_list_def
    by (intro run_rules g i) (auto dest: ListThreadReplies_returns)
qed

lemma run_handlePostMessage:
  assumes r: "ranges_ok (env_ranges E)" and g: "good D S srv" and i: "i \<in> D"
  shows "run_ok True (answers D S) (handlePostMessage E i frame srv)"
  unfolding handlePostMessage_def announce_post_def by (intro run_rules r g i) (auto intro: g i r dest: keeps_store split: if_splits)

lemma run_handleEditMessage:
  assumes r: "ranges_ok (env_ranges E)" and g: "good D S srv" and i: "i \<in> D"
  shows "run_ok True (answers D S) (handleEditMessage E i frame srv)"
  unfolding handleEditMessage_def edit_error_def by (intro run_rules r g i) (auto intro: g i r dest: keeps_store split: if_splits)

lemma run_handleDeleteMessage:
  assumes r: "ranges_ok (env_ranges E)" and g: "good D S srv" and i: "i \<in> D"
  shows "run_ok True (answers D S) (handleDeleteMessage E i frame srv)"
  unfolding handleDeleteMessage_def delete_error_def by (intro run_rules r g i) (auto intro: g i r dest: keeps_store split: if_splits)

lemma run_unread_loop [run_rules]:
  assumes "good D S srv" and i: "i \<in> D"
  shows "run_ok b (answers D S) (unread_loop E i since u ts counts srv)"
  using assms(1)
proof (induction ts arbitrary: counts srv)
  case (Cons t ts)
  show ?case unfolding unread_loop.simps by (intro run_rules Cons i) 
qed (auto intro: run_send i)

lemma run_handleGetUnreadCounts:
  assumes r: "ranges_ok (env_ranges E)" and g: "good D S srv" and i: "i \<in> D"
  shows "run_ok True (answers D S) (handleGetUnreadCounts E i frame srv)"
  unfolding handleGetUnreadCounts_def by (intro run_rules r g i)

lemma run_handleUpdateReadState:
  assumes r: "ranges_ok (env_ranges E)" and g: "good D S srv" and i: "i \<in> D"
  shows "run_ok True (answers D S) (handleUpdateReadState E i frame srv)"
  unfolding handleUpdateReadState_def by (intro run_rules r g i)

section \<open>Subscriptions\<close>

text \<open>A new address is not in use, and below the next one.\<close>

lemma run_opt_new_exact:
  assumes "good D S srv" and "\<And>a srv'. good D S srv' \<Longrightarrow> srv_sessions srv' = srv_sessions srv \<Longrightarrow>
    (\<And>x. a = Some x \<Longrightarrow> x < srv_addresses srv') \<Longrightarrow> run_ok b P (k a srv')"
  shows "run_ok b P (opt_new_then v k srv)"
  using assms(2) [OF assms(1)] assms(2) [OF good_new [OF assms(1)]]
  by (auto simp: opt_new_then_def new_then_def split: option.split)

lemma run_sm_then:
  assumes "run_ok b (\<lambda>sm. good D S (on_sm (\<lambda>_. sm) srv)) (op (srv_sessions srv))"
    and "\<And>srv'. good D S srv' \<Longrightarrow> run_ok b (answers D S) (k srv')"
  shows "run_ok b (answers D S) (sm_then op k srv)"
  unfolding sm_then_def using assms(1) by (rule run_ok_then) (rule assms(2))

lemma run_SubscribeToThread:
  assumes g: "good D S srv" and i: "i \<in> sm_sessions (srv_sessions srv)"
  shows "run_ok b (\<lambda>sm. good D S (on_sm (\<lambda>_. sm) srv)) (SubscribeToThread (srv_sessions srv) i t cs)"
proof -
  let ?sm = "srv_sessions srv"
  have ok: "sm_ok ?sm" "store_inv (srv_db srv) (srv_clock srv)" using g by (auto simp: good_def server_ok_def)
  obtain sess where s: "sm_objects ?sm i = Some sess" using ok i by (auto simp: sm_ok_def)
  from SubscribeToThread_Returns [OF ok(1) s, of t cs] i obtain sm where run: "SubscribeToThread ?sm i t cs = Returns sm"
    and sm: "dom (sm_objects sm) = dom (sm_objects ?sm)" "sm_sessions sm = sm_sessions ?sm" "sm_db sm = sm_db ?sm"
      "sm_channelSubscribers sm = sm_channelSubscribers ?sm"
    by (simp add: with_session_def)
  have "good D S (on_sm (\<lambda>_. sm) srv)"
    by (rule good_on_sm [OF g sm_ok_SubscribeToThread [OF ok(1) run]]) (use g ok(2) in \<open>auto simp: sm good_def\<close>)
  then show ?thesis by (simp add: run)
qed

lemma run_UnsubscribeFromThread:
  assumes g: "good D S srv" and i: "i \<in> D"
  shows "run_ok b (\<lambda>sm. good D S (on_sm (\<lambda>_. sm) srv)) (UnsubscribeFromThread (srv_sessions srv) i t)"
proof -
  let ?sm = "srv_sessions srv"
  have ok: "sm_ok ?sm" "store_inv (srv_db srv) (srv_clock srv)" using g by (auto simp: good_def server_ok_def)
  obtain sm where run: "UnsubscribeFromThread ?sm i t = Returns sm"
    and sm: "dom (sm_objects sm) = dom (sm_objects ?sm)" "sm_sessions sm = sm_sessions ?sm" "sm_db sm = sm_db ?sm"
      "sm_channelSubscribers sm = sm_channelSubscribers ?sm"
    using g i by (fastforce simp: good_def UnsubscribeFromThread_def with_session_def)
  have "good D S (on_sm (\<lambda>_. sm) srv)"
    by (rule good_on_sm [OF g sm_ok_UnsubscribeFromThread [OF ok(1) run]]) (use g ok(2) in \<open>auto simp: sm good_def\<close>)
  then show ?thesis by (simp add: run)
qed

lemma run_SubscribeToChannel:
  assumes g: "good D S srv" and i: "i \<in> sm_sessions (srv_sessions srv)"
    and a: "\<And>x. cs_SubchannelID cs = Some x \<Longrightarrow> x < srv_addresses srv"
  shows "run_ok b (\<lambda>sm. good D S (on_sm (\<lambda>_. sm) srv)) (SubscribeToChannel (srv_sessions srv) i cs)"
proof -
  let ?sm = "srv_sessions srv"
  have ok: "sm_ok ?sm" "store_inv (srv_db srv) (srv_clock srv)" using g by (auto simp: good_def server_ok_def)
  obtain sess where s: "sm_objects ?sm i = Some sess" using ok i by (auto simp: sm_ok_def)
  from SubscribeToChannel_Returns [OF ok(1) s, of cs] i obtain sm where run: "SubscribeToChannel ?sm i cs = Returns sm"
    and sm: "dom (sm_objects sm) = dom (sm_objects ?sm)" "sm_sessions sm = sm_sessions ?sm" "sm_db sm = sm_db ?sm"
      "sm_channelSubscribers sm = add_subscriber i cs (sm_channelSubscribers ?sm)"
    by (simp add: with_session_def)
  have "good D S (on_sm (\<lambda>_. sm) srv)"
    using g ok(2) sm_ok_SubscribeToChannel [OF ok(1) run] a
    by (auto simp: good_def server_ok_def on_sm_def addresses_ok_def sm add_subscriber_def set_at_update split: if_splits)
  then show ?thesis by (simp add: run)
qed

lemma run_UnsubscribeFromChannel:
  assumes g: "good D S srv" and i: "i \<in> D"
  shows "run_ok b (\<lambda>sm. good D S (on_sm (\<lambda>_. sm) srv)) (UnsubscribeFromChannel (srv_sessions srv) i cs)"
proof -
  let ?sm = "srv_sessions srv"
  have ok: "sm_ok ?sm" "store_inv (srv_db srv) (srv_clock srv)" using g by (auto simp: good_def server_ok_def)
  obtain sm j where run: "UnsubscribeFromChannel ?sm i cs = Returns sm"
    and sm: "dom (sm_objects sm) = dom (sm_objects ?sm)" "sm_sessions sm = sm_sessions ?sm" "sm_db sm = sm_db ?sm"
      "sm_channelSubscribers sm = drop_subscriber j {cs} (sm_channelSubscribers ?sm)"
    using g i by (fastforce simp: good_def UnsubscribeFromChannel_def with_session_def)
  have "good D S (on_sm (\<lambda>_. sm) srv)"
    by (rule good_on_sm [OF g sm_ok_UnsubscribeFromChannel [OF ok(1) run]])
      (use g ok(2) in \<open>auto simp: sm good_def by_channels.set_at_drop split: if_splits\<close>)
  then show ?thesis by (simp add: run)
qed

text \<open>Subscribing writes to the maps of the session, which are there as long as it is registered.\<close>

lemma run_handleSubscribeThread:
  assumes g: "good D S srv" and i: "i \<in> sm_sessions (srv_sessions srv)"
  shows "run_ok True (answers D S) (handleSubscribeThread E i frame srv)"
proof -
  have D: "i \<in> D" using good_registered [OF g] i by auto
  show ?thesis unfolding handleSubscribeThread_def subscribe_ok_def
    by (intro run_decoded run_if run_sum run_sendError run_dbError run_opt_new_exact [OF g] run_the_session [where D = D and S = S] run_Let
        run_sm_then run_SubscribeToThread run_send g D) (use i in auto)
qed

lemma run_handleSubscribeChannel:
  assumes g: "good D S srv" and i: "i \<in> sm_sessions (srv_sessions srv)"
  shows "run_ok True (answers D S) (handleSubscribeChannel E i frame srv)"
proof -
  have D: "i \<in> D" using good_registered [OF g] i by auto
  show ?thesis unfolding handleSubscribeChannel_def subscribe_ok_def
    by (intro run_decoded run_if run_sendError run_opt_new_exact [OF g] run_the_session [where D = D and S = S] run_Let
        run_sm_then run_SubscribeToChannel run_send D g) (use i in auto)
qed

lemma run_handleUnsubscribeThread:
  assumes r: "ranges_ok (env_ranges E)" and g: "good D S srv" and i: "i \<in> D"
  shows "run_ok True (answers D S) (handleUnsubscribeThread E i frame srv)"
  unfolding handleUnsubscribeThread_def subscribe_ok_def
  by (intro run_rules run_sm_then run_UnsubscribeFromThread g i)

lemma run_handleUnsubscribeChannel:
  assumes r: "ranges_ok (env_ranges E)" and g: "good D S srv" and i: "i \<in> D"
  shows "run_ok True (answers D S) (handleUnsubscribeChannel E i frame srv)"
  unfolding handleUnsubscribeChannel_def subscribe_ok_def
  by (intro run_rules run_sm_then run_UnsubscribeFromChannel g i)

section \<open>Users and keys\<close>

lemmas key_defs = authenticated_def sendSSHKeyAdded_def sendSSHKeyLabelUpdated_def sendSSHKeyDeleted_def user_list_def

lemma run_handleGetUserInfo:
  assumes r: "ranges_ok (env_ranges E)" and g: "good D S srv" and i: "i \<in> D"
  shows "run_ok True (answers D S) (handleGetUserInfo E i frame srv)"
  unfolding handleGetUserInfo_def by (intro run_rules r g i) (auto intro: g i r dest: keeps_store split: if_splits)

lemma run_handleListUsers:
  assumes r: "ranges_ok (env_ranges E)" and g: "good D S srv" and i: "i \<in> D"
  shows "run_ok True (answers D S) (handleListUsers E i frame srv)"
  unfolding handleListUsers_def key_defs by (intro run_rules r g i) (auto intro: g i r dest: keeps_store split: if_splits)

lemma run_handleListChannelUsers:
  assumes r: "ranges_ok (env_ranges E)" and g: "good D S srv" and i: "i \<in> D"
  shows "run_ok True (answers D S) (handleListChannelUsers E i frame srv)"
  unfolding handleListChannelUsers_def by (intro run_rules r g i) (auto intro: g i r dest: keeps_store split: if_splits)

lemma run_handleAddSSHKey:
  assumes r: "ranges_ok (env_ranges E)" and g: "good D S srv" and i: "i \<in> D"
  shows "run_ok True (answers D S) (handleAddSSHKey E i frame srv)"
  unfolding handleAddSSHKey_def key_defs by (intro run_rules r g i) (auto intro: g i r dest: keeps_store split: if_splits)

lemma run_handleListSSHKeys:
  assumes r: "ranges_ok (env_ranges E)" and g: "good D S srv" and i: "i \<in> D"
  shows "run_ok True (answers D S) (handleListSSHKeys E i frame srv)"
  unfolding handleListSSHKeys_def key_defs by (intro run_rules r g i) (auto intro: g i r dest: keeps_store split: if_splits)

lemma run_handleUpdateSSHKeyLabel:
  assumes r: "ranges_ok (env_ranges E)" and g: "good D S srv" and i: "i \<in> D"
  shows "run_ok True (answers D S) (handleUpdateSSHKeyLabel E i frame srv)"
  unfolding handleUpdateSSHKeyLabel_def key_defs by (intro run_rules r g i) (auto intro: g i r dest: keeps_store split: if_splits)

lemma run_handleDeleteSSHKey:
  assumes r: "ranges_ok (env_ranges E)" and g: "good D S srv" and i: "i \<in> D"
  shows "run_ok True (answers D S) (handleDeleteSSHKey E i frame srv)"
  unfolding handleDeleteSSHKey_def key_defs by (intro run_rules r g i) (auto intro: g i r dest: keeps_store split: if_splits)

section \<open>Bans\<close>

lemma run_admin_only [run_rules]:
  "good D S srv \<Longrightarrow> i \<in> D \<Longrightarrow> run_ok b (answers D S) (refuse srv) \<Longrightarrow> (\<And>sess. run_ok b (answers D S) (k sess srv)) \<Longrightarrow>
    run_ok b (answers D S) (admin_only E i refuse k srv)"
  unfolding admin_only_def by (intro run_rules) auto

lemma run_handleBanUser:
  assumes r: "ranges_ok (env_ranges E)" and g: "good D S srv" and i: "i \<in> D"
  shows "run_ok True (answers D S) (handleBanUser E i frame srv)"
  unfolding handleBanUser_def by (intro run_rules r g i) (auto intro: g i r dest: keeps_store split: if_splits)

lemma run_handleBanIP:
  assumes r: "ranges_ok (env_ranges E)" and g: "good D S srv" and i: "i \<in> D"
  shows "run_ok True (answers D S) (handleBanIP E i frame srv)"
  unfolding handleBanIP_def by (intro run_rules r g i) (auto intro: g i r dest: keeps_store split: if_splits)

lemma run_handleUnbanUser:
  assumes r: "ranges_ok (env_ranges E)" and g: "good D S srv" and i: "i \<in> D"
  shows "run_ok True (answers D S) (handleUnbanUser E i frame srv)"
  unfolding handleUnbanUser_def by (intro run_rules r g i) (auto intro: g i r dest: keeps_store split: if_splits)

lemma run_handleUnbanIP:
  assumes r: "ranges_ok (env_ranges E)" and g: "good D S srv" and i: "i \<in> D"
  shows "run_ok True (answers D S) (handleUnbanIP E i frame srv)"
  unfolding handleUnbanIP_def by (intro run_rules r g i) (auto intro: g i r dest: keeps_store split: if_splits)

lemma run_handleListBans:
  assumes r: "ranges_ok (env_ranges E)" and g: "good D S srv" and i: "i \<in> D"
  shows "run_ok True (answers D S) (handleListBans E i frame srv)"
  unfolding handleListBans_def by (intro run_rules r g i) (auto intro: g i r dest: keeps_store split: if_splits)

lemma run_remove_sessions [run_rules]:
  assumes r: "ranges_ok (env_ranges E)" and g: "good D S srv"
  shows "run_ok b (good D S) (remove_all (removeSession E) targets srv)"
  by (rule run_lift [OF run_remove_all [OF removes_removeSession [OF r] g]])

lemma run_handleDeleteUser:
  assumes r: "ranges_ok (env_ranges E)" and g: "good D S srv" and i: "i \<in> D"
  shows "run_ok True (answers D S) (handleDeleteUser E i frame srv)"
  unfolding handleDeleteUser_def by (intro run_rules r g i) (auto intro: g i r dest: keeps_store split: if_splits)

section \<open>Discovery\<close>

lemma run_rate_limit [run_rules]:
  assumes g: "good D S srv" and k: "\<And>ok srv'. good D S srv' \<Longrightarrow> run_ok True (answers D S) (k ok srv')"
  shows "run_ok True (answers D S) (checkDiscoveryRateLimit addr k srv)"
  unfolding checkDiscoveryRateLimit_def by (intro run_rules g) (auto intro: k)

lemma run_handleListServers:
  assumes r: "ranges_ok (env_ranges E)" and g: "good D S srv" and i: "i \<in> D"
  shows "run_ok True (answers D S) (handleListServers E i frame srv)"
  unfolding handleListServers_def server_list_def by (intro run_rules r g i) (auto intro: g i r dest: keeps_store split: if_splits)

lemma run_handleRegisterServer:
  assumes r: "ranges_ok (env_ranges E)" and g: "good D S srv" and i: "i \<in> D"
  shows "run_ok True (answers D S) (handleRegisterServer E i frame srv)"
  unfolding handleRegisterServer_def register_ack_def by (intro run_rules r g i) (auto intro: g i r dest: keeps_store split: if_splits)

lemma run_handleVerifyRegistration:
  assumes r: "ranges_ok (env_ranges E)" and g: "good D S srv" and i: "i \<in> D"
  shows "run_ok True (answers D S) (handleVerifyRegistration E i frame srv)"
  unfolding handleVerifyRegistration_def by (intro run_rules r g i)

lemma run_handleVerifyResponse:
  assumes r: "ranges_ok (env_ranges E)" and g: "good D S srv" and i: "i \<in> D"
  shows "run_ok True (answers D S) (handleVerifyResponse E i frame srv)"
proof -
  have "srv_verificationChallenges srv = Map.empty" using g by (simp add: good_def server_ok_def)
  then show ?thesis unfolding handleVerifyResponse_def by (intro run_decoded run_sendError g i) (simp add: run_sendError g i)
qed

lemma run_handleHeartbeat:
  assumes r: "ranges_ok (env_ranges E)" and g: "good D S srv" and i: "i \<in> D"
  shows "run_ok True (answers D S) (handleHeartbeat E i frame srv)"
  unfolding handleHeartbeat_def by (intro run_rules r g i) (auto intro: g i r dest: keeps_store split: if_splits)

section \<open>The dispatch and the loop\<close>

lemmas run_handlers = run_handleAuthRequest run_handleSetNickname run_handleRegisterUser run_handleLogout run_handleListChannels
  run_handleJoinChannel run_handleLeaveChannel run_handleCreateChannel run_handleListMessages run_handlePostMessage
  run_handleEditMessage run_handleDeleteMessage run_handleChangePassword run_handleAddSSHKey run_handleListSSHKeys
  run_handleUpdateSSHKeyLabel run_handleDeleteSSHKey run_handleGetUserInfo run_handleListUsers run_handleListChannelUsers
  run_handleGetUnreadCounts run_handleUpdateReadState run_handlePing run_handleDisconnect run_handleUnsubscribeThread
  run_handleUnsubscribeChannel run_handleListServers run_handleRegisterServer run_handleVerifyRegistration
  run_handleVerifyResponse run_handleHeartbeat run_handleBanUser run_handleBanIP run_handleUnbanUser run_handleUnbanIP
  run_handleListBans run_handleDeleteUser run_handleDeleteChannel

lemma run_handleMessage:
  assumes r: "ranges_ok (env_ranges E)" and g: "good D S srv" and i: "i \<in> sm_sessions (srv_sessions srv)"
  shows "run_ok True (answers D S) (handleMessage E i frame srv)"
proof -
  have D: "i \<in> D" using good_registered [OF g] i by auto
  show ?thesis unfolding handleMessage_def
    by (intro run_Let run_if run_handlers r g D run_handleSubscribeThread run_handleSubscribeChannel i run_sendError)
qed

lemma run_message_loop:
  assumes r: "ranges_ok (env_ranges E)" and "good D S srv" and i: "i \<in> D"
  shows "run_ok True (good D S) (message_loop net E i frames srv)"
  using assms(2)
proof (induction frames arbitrary: srv)
  case (Cons frame frames)
  show ?case
  proof (cases "i \<in> sm_sessions (srv_sessions srv)")
    case True
    have "run_ok True (answers D S) (touch_session i (handleMessage E i frame) srv)"
      by (rule run_touch_session [OF Cons.prems i]) (rule run_handleMessage [OF r], simp_all add: True)
    then show ?thesis unfolding message_loop.simps using True
      by (auto intro!: run_ok_then [of _ "answers D S"] run_ok_then [OF run_ignoring [OF run_sendError]] Cons.IH i
          split: option.split server_error.split)
  qed (simp add: run_remove [OF r] Cons.prems)
qed (simp add: run_remove [OF r])


end
