(* ===== verification/RateLimit.thy ===== *)
theory RateLimit imports Prelude begin

text \<open>
  The contract of a rate limiter over a sliding window, as the limit on requests to the directory and the limit on
  registrations over SSH both keep it, and what it gives: no window holds more than the limit.
\<close>

text \<open>The arrivals that a limiter admits, one after another.\<close>

fun admitted :: "(gotime \<Rightarrow> 's \<Rightarrow> bool \<times> 's) \<Rightarrow> gotime list \<Rightarrow> 's \<Rightarrow> gotime list" where
  "admitted ask [] s = []"
| "admitted ask (t # ts) s = (if fst (ask t s) then [t] else []) @ admitted ask ts (snd (ask t s))"

definition in_window :: "gotime \<Rightarrow> gotime \<Rightarrow> gotime list \<Rightarrow> nat" where
  "in_window w t ts = length (filter (\<lambda>a. t - w < a \<and> a \<le> t) ts)"

lemma in_window_snoc: "in_window w t (H @ [now]) = in_window w t H + (if t - w < now \<and> now \<le> t then 1 else 0)"
  by (simp add: in_window_def)

locale rate_limiter =
  fixes ask :: "gotime \<Rightarrow> 's \<Rightarrow> bool \<times> 's"
    and counted :: "'s \<Rightarrow> gotime list"
    and limit :: nat
    and window :: gotime
  assumes window_pos: "0 < window"
    and ask_admits: "fst (ask now s) \<longleftrightarrow> length (filter (\<lambda>t. t > now - window) (counted s)) < limit"
    and ask_counts: "counted (snd (ask now s)) = filter (\<lambda>t. t > now - window) (counted s) @ (if fst (ask now s) then [now] else [])"
begin

text \<open>What is counted are the admitted arrivals after a bound c that no later arrival looks behind.\<close>

lemma admitted_limited:
  assumes "sorted ts" and "\<forall>a \<in> set H. \<forall>t \<in> set ts. a \<le> t" and "counted s = filter (\<lambda>a. a > c) H"
    and "\<forall>t \<in> set ts. c \<le> t - window" and "\<forall>t. in_window window t H \<le> limit"
  shows "\<forall>t. in_window window t (H @ admitted ask ts s) \<le> limit"
  using assms
proof (induction ts arbitrary: s H c)
  case (Cons now ts)
  let ?fresh = "filter (\<lambda>a. a > now - window) H"
  have later: "\<forall>t \<in> set ts. now \<le> t" and sorted: "sorted ts" and past: "\<forall>a \<in> set H. a \<le> now" "\<forall>a \<in> set H. \<forall>t \<in> set ts. a \<le> t"
    using Cons.prems(1,2) by auto
  have fresh: "filter (\<lambda>a. a > now - window) (counted s) = ?fresh"
    using Cons.prems(4) by (auto simp: Cons.prems(3) intro: filter_cong)
  show ?case
  proof (cases "length ?fresh < limit")
    case True
    then have ask: "fst (ask now s)" "counted (snd (ask now s)) = ?fresh @ [now]"
      using ask_admits [of now s] ask_counts [of now s] by (simp_all add: fresh)
    have "in_window window t (H @ [now]) \<le> limit" for t
    proof (cases "t - window < now \<and> now \<le> t")
      case now: True
      have "filter (\<lambda>a. t - window < a \<and> a \<le> t) H = filter (\<lambda>a. t - window < a) ?fresh"
        using now past(1) by (auto intro!: filter_cong)
      then have "in_window window t H \<le> length ?fresh" by (simp only: in_window_def length_filter_le)
      with True show ?thesis by (simp add: in_window_snoc)
    qed (use Cons.prems(5) in \<open>auto simp: in_window_snoc\<close>)
    then have "\<forall>t. in_window window t ((H @ [now]) @ admitted ask ts (snd (ask now s))) \<le> limit"
      by (intro Cons.IH [of _ _ "now - window"]) (use sorted past later window_pos in \<open>auto simp: ask\<close>)
    then show ?thesis using ask(1) by simp
  next
    case False
    then have ask: "\<not> fst (ask now s)" "counted (snd (ask now s)) = ?fresh"
      using ask_admits [of now s] ask_counts [of now s] by (simp_all add: fresh)
    have "\<forall>t. in_window window t (H @ admitted ask ts (snd (ask now s))) \<le> limit"
      by (rule Cons.IH [of _ _ "now - window"]) (use sorted past later Cons.prems(5) ask in auto)
    then show ?thesis using ask(1) by simp
  qed
qed simp

lemma limit_kept:
  assumes "sorted ts" and "counted s = []"
  shows "in_window window t (admitted ask ts s) \<le> limit"
proof -
  let ?c = "Min (insert 0 ((\<lambda>t. t - window) ` set ts))"
  have "\<forall>t. in_window window t ([] @ admitted ask ts s) \<le> limit"
    by (rule admitted_limited [where c = ?c]) (use assms in \<open>auto simp: in_window_def\<close>)
  then show ?thesis by simp
qed

end

end
