(* ===== verification/SrvRules.thy ===== *)
theory SrvRules imports SrvSafety RateLimit begin

text \<open>
  What the handlers let a session do: the rules of posting, nicknames, passwords, administration and discovery.
\<close>

section \<open>Answering and nothing else\<close>

text \<open>A handler that only answers: the connection of the session is all that changes.\<close>

definition only_answers :: "u64 \<Rightarrow> ('w, 'q) Server \<Rightarrow> (server_error option \<times> ('w, 'q) Server) run \<Rightarrow> bool" where
  "only_answers i srv r \<longleftrightarrow> (\<exists>err c. r = Returns (err, set_session i (\<lambda>s. s\<lparr>s_Conn := c\<rparr>) srv))"

lemma send_only_answers:
  assumes "sm_objects (srv_sessions srv) i = Some sess"
  shows "only_answers i srv (srv_sendMessage E i t msg srv)" and "only_answers i srv (sendError E i code text' srv)"
    and "only_answers i srv (dbError E i srv)"
proof -
  show send: "only_answers i srv (srv_sendMessage E i t msg srv)" for t msg
    using assms by (auto simp: only_answers_def srv_sendMessage_def the_session_def split: prod.split)
  show err: "only_answers i srv (sendError E i code text' srv)" for code text' by (simp add: sendError_def send)
  show "only_answers i srv (dbError E i srv)" by (simp add: dbError_def err)
qed

section \<open>Administration\<close>

text \<open>C11. Administration is for admins: a session that is not an admin, sending any of the seven requests of administration,
  has no effect on the store, on SQLite, on the sessions or on any other connection, whatever the payload. It is answered,
  and that is all.\<close>

theorem admin_requests_denied:
  assumes "sm_objects (srv_sessions srv) i = Some sess" and "\<not> isAdmin srv sess"
    and "Frame_Type frame \<in> {TypeBanUser, TypeBanIP, TypeUnbanUser, TypeUnbanIP, TypeListBans, TypeDeleteUser, TypeDeleteChannel}"
  shows "only_answers i srv (handleMessage E i frame srv)"
proof -
  have denied: "only_answers i srv (handleBanUser E i frame srv)" "only_answers i srv (handleBanIP E i frame srv)"
    "only_answers i srv (handleUnbanUser E i frame srv)" "only_answers i srv (handleUnbanIP E i frame srv)"
    "only_answers i srv (handleListBans E i frame srv)" "only_answers i srv (handleDeleteUser E i frame srv)"
    "only_answers i srv (handleDeleteChannel E i frame srv)"
    using assms(1,2) send_only_answers [OF assms(1)]
    by (simp_all add: handleBanUser_def handleBanIP_def handleUnbanUser_def handleUnbanIP_def handleListBans_def
        handleDeleteUser_def handleDeleteChannel_def admin_only_def the_session_def)
  have "handleMessage E i frame \<in> {handleBanUser E i frame, handleBanIP E i frame, handleUnbanUser E i frame, handleUnbanIP E i frame,
      handleListBans E i frame, handleDeleteUser E i frame, handleDeleteChannel E i frame}"
    using assms(3) by (auto simp: handleMessage_def type_code)
  with denied show ?thesis by auto
qed

section \<open>Posting\<close>

text \<open>Posting is refused without a nickname, over the configured length, in a channel that is not there and, in a
  chat channel, as a reply: nothing is stored, no id is drawn, nobody is told but the author, who gets an error.\<close>

theorem post_refused:
  assumes "sm_objects (srv_sessions srv) i = Some sess" and "PostMessageMessage_Encode msg = Inr (Frame_Payload frame)"
    and "s_Nickname sess = [] \<or> too_long srv (PostMessage_Content msg) \<or>
      (case GetChannel (srv_db srv) (PostMessage_ChannelID msg) of Inl e \<Rightarrow> True
       | Inr channel \<Rightarrow> ch_ChannelType channel = 0 \<and> PostMessage_ParentID msg \<noteq> None)"
  shows "only_answers i srv (handlePostMessage E i frame srv)"
proof -
  have "PostMessageMessage_Decode PostMessageMessage_zero (Frame_Payload frame) = (msg, None)"
    using assms(2) by (rule PostMessageMessage_roundtrip)
  then show ?thesis using assms(1,3) send_only_answers [OF assms(1)]
    by (auto simp: handlePostMessage_def decoded_def the_session_def split: sum.split)
qed

section \<open>Nicknames and passwords\<close>

text \<open>A registered nickname cannot be taken: a session that is not logged in as the user of that nickname, asking for it,
  is answered and keeps the nickname, the user and the rights it had.\<close>

theorem registered_nickname_refused:
  assumes "sm_objects (srv_sessions srv) i = Some sess"
    and "SetNicknameMessage_Encode \<lparr>SetNickname_Nickname = n\<rparr> = Inr (Frame_Payload frame)"
    and "sql_GetUserByNickname (env_sql E) n (srv_sqlite srv) = (Inr user, q)" and "s_UserID sess \<noteq> Some (du_ID user)"
  shows "only_answers i srv (handleSetNickname E i frame srv) \<or>
    only_answers i (srv\<lparr>srv_sqlite := q\<rparr>) (handleSetNickname E i frame srv)"
proof -
  have dec: "SetNicknameMessage_Decode SetNicknameMessage_zero (Frame_Payload frame) = (\<lparr>SetNickname_Nickname = n\<rparr>, None)"
    using assms(2) by (rule SetNicknameMessage_roundtrip)
  have "only_answers i (srv\<lparr>srv_sqlite := q\<rparr>) (nickname_response E i False t (srv\<lparr>srv_sqlite := q\<rparr>))" for t
    unfolding nickname_response_def by (rule send_only_answers) (use assms(1) in simp)
  moreover have "only_answers i srv (nickname_response E i False t srv)" for t
    unfolding nickname_response_def by (rule send_only_answers [OF assms(1)])
  ultimately show ?thesis using assms(1,3,4) by (simp add: handleSetNickname_def decoded_def dec sql_then_def the_session_def)
qed

text \<open>Changing a password does not take the old one: when a logged-in session sends an empty old password, the stored
  hash is replaced by that of the new password, whatever hash was stored. The comparison is not made.\<close>

theorem password_changed_without_old:
  assumes "sm_objects (srv_sessions srv) i = Some sess" and "s_UserID sess = Some u"
    and "ChangePasswordRequest_Encode \<lparr>ChangePassword_OldPassword = [], ChangePassword_NewPassword = new\<rparr> = Inr (Frame_Payload frame)"
    and "40 \<le> length new" and "length new \<le> 50" and "sql_GetUserByID (env_sql E) u (srv_sqlite srv) = (Inr user, q)"
    and "env_GenerateFromPassword E (srv_draws srv) new = Inr hash" and "sql_UpdateUserPassword (env_sql E) u hash q = (None, q')"
  shows "only_answers i (srv\<lparr>srv_draws := srv_draws srv + 1, srv_sqlite := q'\<rparr>) (handleChangePassword E i frame srv)"
proof -
  have dec: "ChangePasswordRequest_Decode ChangePasswordRequest_zero (Frame_Payload frame) =
      (\<lparr>ChangePassword_OldPassword = [], ChangePassword_NewPassword = new\<rparr>, None)"
    using assms(3) by (rule ChangePasswordRequest_roundtrip)
  let ?srv = "srv\<lparr>srv_draws := srv_draws srv + 1, srv_sqlite := q'\<rparr>"
  have "only_answers i ?srv (sendPasswordChanged E i True [] ?srv)"
    unfolding sendPasswordChanged_def by (rule send_only_answers) (use assms(1) in simp)
  moreover have "handleChangePassword E i frame srv = sendPasswordChanged E i True [] ?srv"
    using assms(1,2,4-8)
    by (auto simp: handleChangePassword_def decoded_def dec the_session_def sql_then_def draw_then_def replace_password_def)
  ultimately show ?thesis by simp
qed

section \<open>Discovery\<close>

text \<open>No server is verified by its answer: VERIFY_RESPONSE is refused in every state the server reaches, since a pending
  challenge is looked for in a map that nothing is ever put into.\<close>

theorem verify_response_refused:
  assumes "server_ok srv" and "VerifyResponseMessage_Encode msg = Inr (Frame_Payload frame)"
  shows "handleVerifyResponse E i frame srv = sendError E i 6000 (lit ''No pending verification'') srv"
proof -
  have "VerifyResponseMessage_Decode VerifyResponseMessage_zero (Frame_Payload frame) = (msg, None)"
    using assms(2) by (rule VerifyResponseMessage_roundtrip)
  then show ?thesis using assms(1) by (simp add: handleVerifyResponse_def decoded_def server_ok_def)
qed

text \<open>The frames that may come before the answer to a challenge, and the answer.\<close>

definition skipped :: "Frame \<Rightarrow> bool" where
  "skipped f \<longleftrightarrow> Frame_Type f = TypeServerConfig \<or> Frame_Type f = TypeRegisterAck"

definition answered :: "u64 \<Rightarrow> Frame list \<Rightarrow> bool" where
  "answered challenge fs \<longleftrightarrow> (case dropWhile skipped fs of [] \<Rightarrow> False
     | f # _ \<Rightarrow> Frame_Type f = TypeVerifyResponse \<and>
         VerifyResponseMessage_Decode VerifyResponseMessage_zero (Frame_Payload f) = (\<lparr>VerifyResponse_Challenge = challenge\<rparr>, None))"

lemma await_response_eq: "await_response challenge input = answered challenge (fst (frames_of input))"
proof (induction challenge input rule: await_response.induct)
  case (1 challenge input)
  show ?case
  proof (cases "DecodeFrame input")
    case (Inl e)
    then show ?thesis by (simp add: await_response.simps [of challenge input] frames_of.simps [of input] answered_def)
  next
    case (Inr x)
    obtain f rest where x: "x = (f, rest)" by (cases x)
    have fs: "fst (frames_of input) = f # fst (frames_of rest)"
      using Inr by (simp add: frames_of.simps [of input] x split: prod.split)
    have codes: "TypeVerifyResponse \<noteq> TypeServerConfig" "TypeVerifyResponse \<noteq> TypeRegisterAck" by (simp_all add: type_code)
    consider (answer) "Frame_Type f = TypeVerifyResponse" | (skip) "skipped f" "Frame_Type f \<noteq> TypeVerifyResponse"
      | (other) "\<not> skipped f" "Frame_Type f \<noteq> TypeVerifyResponse" by blast
    then show ?thesis
    proof cases
      case answer
      obtain msg err where d: "VerifyResponseMessage_Decode VerifyResponseMessage_zero (Frame_Payload f) = (msg, err)"
        by (cases "VerifyResponseMessage_Decode VerifyResponseMessage_zero (Frame_Payload f)")
      have "await_response challenge input \<longleftrightarrow> err = None \<and> VerifyResponse_Challenge msg = challenge"
        using answer by (simp add: await_response.simps [of challenge input] Inr x d)
      moreover have "answered challenge (fst (frames_of input)) \<longleftrightarrow> msg = \<lparr>VerifyResponse_Challenge = challenge\<rparr> \<and> err = None"
        using answer codes by (simp add: fs answered_def skipped_def d)
      ultimately show ?thesis by (cases msg) auto
    next
      case skip
      then have "await_response challenge input = await_response challenge rest"
        using skip by (simp add: await_response.simps [of challenge input] Inr x skipped_def)
      moreover have "await_response challenge rest = answered challenge (fst (frames_of rest))"
        by (rule "1.IH" [OF Inr x [symmetric]]) (use skip in \<open>simp_all add: skipped_def\<close>)
      ultimately show ?thesis using skip by (simp add: fs answered_def)
    next
      case other
      then show ?thesis by (simp add: await_response.simps [of challenge input] Inr x fs answered_def skipped_def)
    qed
  qed
qed

text \<open>C26. The handshake of the directory accepts exactly the servers that echo its challenge: verifying a server succeeds when the
  peer could be reached, its first frame is a SERVER_CONFIG of this protocol version, the challenge could be sent, and the
  next frame other than SERVER_CONFIG and REGISTER_ACK is a VERIFY_RESPONSE with the challenge. The loop ends on every input.\<close>

theorem reachability_exact:
  "verifyServerReachability wr w peer challenge = Some config \<longleftrightarrow>
   (\<exists>input f fs. peer = Some input \<and> fst (frames_of input) = f # fs \<and> Frame_Type f = TypeServerConfig \<and>
     ServerConfigMessage_Decode ServerConfigMessage_zero (Frame_Payload f) = (config, None) \<and>
     ServerConfig_ProtocolVersion config = ProtocolVersion \<and>
     snd (sendMessage wr TypeVerifyRegistration (VerifyRegistrationM \<lparr>VerifyRegistration_Challenge = challenge\<rparr>) w) = None \<and>
     answered challenge fs)"
proof (cases peer)
  case (Some input)
  show ?thesis
  proof (cases "DecodeFrame input")
    case (Inl e)
    then show ?thesis by (simp add: Some verifyServerReachability_def frames_of.simps [of input])
  next
    case (Inr x)
    obtain f rest where x: "x = (f, rest)" by (cases x)
    have "fst (frames_of input) = f # fst (frames_of rest)"
      using Inr by (simp add: frames_of.simps [of input] x split: prod.split)
    then show ?thesis using Inr
      by (auto simp: Some verifyServerReachability_def x await_response_eq split: prod.splits option.splits if_splits)
  qed
qed (simp add: verifyServerReachability_def)

section \<open>The limit on registrations\<close>

text \<open>The times at which n requests from one address are accepted, the n-th reading of the clock being that of the n-th request.\<close>

fun accepted_at :: "gostring \<Rightarrow> nat \<Rightarrow> ('w, 'q) Server \<Rightarrow> gotime list" where
  "accepted_at addr 0 srv = []"
| "accepted_at addr (Suc n) srv =
    (case checkDiscoveryRateLimit addr (\<lambda>ok. if ok then succeed else fail_with (ErrNew [])) srv of
       Returns (None, srv') \<Rightarrow> hd (srv_times srv) # accepted_at addr n srv'
     | Returns (Some e, srv') \<Rightarrow> accepted_at addr n srv'
     | _ \<Rightarrow> [])"

abbreviation hour :: gotime where
  "hour \<equiv> 3600 * 1000000000"

definition host_of :: "gostring \<Rightarrow> gostring" where
  "host_of addr = (case SplitHostPort addr of None \<Rightarrow> addr | Some (host, port) \<Rightarrow> host)"

definition requests_of :: "gostring \<Rightarrow> ('w, 'q) Server \<Rightarrow> gotime list" where
  "requests_of host srv = (case srv_discoveryRateLimits srv host of None \<Rightarrow> [] | Some ts \<Rightarrow> ts)"

text \<open>One request of the address at a time, as a step of a limiter.\<close>

definition asks_directory :: "gostring \<Rightarrow> gotime \<Rightarrow> ('w, 'q) Server \<Rightarrow> bool \<times> ('w, 'q) Server" where
  "asks_directory addr now srv = (case checkDiscoveryRateLimit addr (\<lambda>ok. if ok then succeed else fail_with (ErrNew [])) (srv\<lparr>srv_times := [now]\<rparr>) of
     Returns (e, srv') \<Rightarrow> (e = None, srv') | _ \<Rightarrow> (False, srv))"

lemma rate_limit_step:
  assumes "srv_times srv = now # ticks"
  shows "checkDiscoveryRateLimit addr k srv = (let fresh = filter (\<lambda>a. a > now - hour) (requests_of (host_of addr) srv) in
    if length fresh \<ge> 30 then k False (srv\<lparr>srv_times := ticks, srv_discoveryRateLimits := (srv_discoveryRateLimits srv)(host_of addr \<mapsto> fresh)\<rparr>)
    else k True (srv\<lparr>srv_times := ticks, srv_discoveryRateLimits := (srv_discoveryRateLimits srv)(host_of addr \<mapsto> fresh @ [now])\<rparr>))"
  using assms by (simp add: checkDiscoveryRateLimit_def time_then_def host_of_def requests_of_def Let_def)

lemma asks_directory_eq:
  "asks_directory addr now srv = (let fresh = filter (\<lambda>a. a > now - hour) (requests_of (host_of addr) srv) in
    if length fresh \<ge> 30 then (False, srv\<lparr>srv_times := [], srv_discoveryRateLimits := (srv_discoveryRateLimits srv)(host_of addr \<mapsto> fresh)\<rparr>)
    else (True, srv\<lparr>srv_times := [], srv_discoveryRateLimits := (srv_discoveryRateLimits srv)(host_of addr \<mapsto> fresh @ [now])\<rparr>))"
proof -
  have "srv_times (srv\<lparr>srv_times := [now]\<rparr>) = [now]" by simp
  from rate_limit_step [OF this] show ?thesis by (simp add: asks_directory_def Let_def succeed_def fail_with_def requests_of_def)
qed

interpretation directory_limit: rate_limiter "asks_directory addr" "requests_of (host_of addr)" 30 hour for addr
  by unfold_locales (auto simp: asks_directory_eq Let_def requests_of_def)

lemma accepted_admitted:
  assumes "srv_discoveryRateLimits srv' = srv_discoveryRateLimits srv"
  shows "accepted_at addr n srv = admitted (asks_directory addr) (take n (srv_times srv)) srv'"
  using assms
proof (induction n arbitrary: srv srv')
  case (Suc n)
  show ?case
  proof (cases "srv_times srv")
    case Nil
    then show ?thesis by (simp add: checkDiscoveryRateLimit_def time_then_def)
  next
    case (Cons now ticks)
    let ?fresh = "filter (\<lambda>a. a > now - hour) (requests_of (host_of addr) srv)"
    have r: "requests_of (host_of addr) srv' = requests_of (host_of addr) srv" using Suc.prems by (simp add: requests_of_def)
    define next_srv where "next_srv ts = srv\<lparr>srv_times := ticks, srv_discoveryRateLimits := (srv_discoveryRateLimits srv)(host_of addr \<mapsto> ts)\<rparr>" for ts
    have "accepted_at addr (Suc n) srv = (if length ?fresh \<ge> 30 then accepted_at addr n (next_srv ?fresh)
        else now # accepted_at addr n (next_srv (?fresh @ [now])))"
      unfolding accepted_at.simps rate_limit_step [OF Cons] by (simp add: Let_def succeed_def fail_with_def next_srv_def Cons)
    moreover have "accepted_at addr n (next_srv ts) = admitted (asks_directory addr) (take n ticks)
        (srv'\<lparr>srv_times := [], srv_discoveryRateLimits := (srv_discoveryRateLimits srv')(host_of addr \<mapsto> ts)\<rparr>)" for ts
      using Suc.IH [of _ "next_srv ts"] Suc.prems by (simp add: next_srv_def)
    ultimately show ?thesis by (simp add: Cons asks_directory_eq [of addr now] Let_def r del: accepted_at.simps)
  qed
qed simp


end
