(* ===== verification/SrvDelivery.thy ===== *)
theory SrvDelivery imports SrvRemoval begin

text \<open>
  Who receives a new message. When no write fails, exactly the followers of the channel or the thread, each once; and
  nobody at all when the message carries a subchannel.
\<close>

section \<open>Writing to a list of sessions\<close>

text \<open>The state after the bytes were written to each of the sessions.\<close>

definition wrote :: "('w, 'q) Env \<Rightarrow> bytes \<Rightarrow> u64 set \<Rightarrow> ('w, 'q) Server \<Rightarrow> ('w, 'q) Server" where
  "wrote E data targets = on_sm (\<lambda>sm. sm\<lparr>sm_objects := (\<lambda>j. if j \<in> targets
     then map_option (\<lambda>s. s\<lparr>s_Conn := fst (Write (conn_writer (env_conn E)) (s_Conn s) data)\<rparr>) (sm_objects sm j)
     else sm_objects sm j)\<rparr>)"

lemma wrote_none [simp]: "wrote E data {} srv = srv"
  by (simp add: wrote_def on_sm_def)

text \<open>A connection on which no write fails.\<close>

definition reliable :: "('w, 'q) Env \<Rightarrow> bool" where
  "reliable E \<longleftrightarrow> (\<forall>c p. snd (Write (conn_writer (env_conn E)) c p) = None)"

lemma WriteBytes_reliable:
  assumes "reliable E" and "i \<in> dom (sm_objects (srv_sessions srv))"
  shows "WriteBytes E i data srv = Returns (None, wrote E data {i} srv)"
proof -
  from assms(2) obtain s where s: "sm_objects (srv_sessions srv) i = Some s" by auto
  obtain c r where w: "Write (conn_writer (env_conn E)) (s_Conn s) data = (c, r)"
    by (cases "Write (conn_writer (env_conn E)) (s_Conn s) data")
  then have "r = None" using assms(1) unfolding reliable_def by (metis snd_conv)
  moreover have "modify i (\<lambda>s. s\<lparr>s_Conn := c\<rparr>) (sm_objects (srv_sessions srv)) = (\<lambda>j. if j \<in> {i}
      then map_option (\<lambda>s. s\<lparr>s_Conn := fst (Write (conn_writer (env_conn E)) (s_Conn s) data)\<rparr>) (sm_objects (srv_sessions srv) j)
      else sm_objects (srv_sessions srv) j)"
    by (rule ext) (simp add: modify_apply s w)
  ultimately show ?thesis
    by (simp add: WriteBytes_def the_session_def s w wrote_def set_session_def on_sm_def with_session_def)
qed

lemma dom_wrote [simp]: "dom (sm_objects (srv_sessions (wrote E data T srv))) = dom (sm_objects (srv_sessions srv))"
  by (auto simp: wrote_def on_sm_def split: if_splits)

lemma wrote_wrote: "T \<inter> T' = {} \<Longrightarrow> wrote E data T' (wrote E data T srv) = wrote E data (T \<union> T') srv"
  by (auto simp: wrote_def on_sm_def fun_eq_iff intro!: Server.equality SessionManager.equality)

lemma write_chunk_reliable:
  assumes "reliable E" and "distinct is" and "set is \<subseteq> dom (sm_objects (srv_sessions srv))"
  shows "write_chunk E data is dead srv = Returns (dead, wrote E data (set is) srv)"
  using assms(2,3)
proof (induction "is" arbitrary: srv)
  case (Cons i "is")
  then have "write_chunk E data is dead (wrote E data {i} srv) = Returns (dead, wrote E data (set is) (wrote E data {i} srv))"
    by (intro Cons.IH) auto
  moreover have "wrote E data (set is) (wrote E data {i} srv) = wrote E data (insert i (set is)) srv"
    using Cons.prems(1) by (subst wrote_wrote) auto
  ultimately show ?case using Cons.prems(2) by (simp add: WriteBytes_reliable [OF assms(1)])
qed simp

lemma write_chunks_reliable:
  assumes "reliable E" and "distinct (concat cs)" and "set (concat cs) \<subseteq> dom (sm_objects (srv_sessions srv))"
  shows "write_chunks E data (map Some cs) dead srv = Returns (dead, wrote E data (set (concat cs)) srv)"
  using assms(2,3)
proof (induction cs arbitrary: srv)
  case (Cons c cs)
  then have "write_chunks E data (map Some cs) dead (wrote E data (set c) srv) =
      Returns (dead, wrote E data (set (concat cs)) (wrote E data (set c) srv))"
    by (intro Cons.IH) auto
  moreover have "wrote E data (set (concat cs)) (wrote E data (set c) srv) = wrote E data (set c \<union> set (concat cs)) srv"
    using Cons.prems(1) by (subst wrote_wrote) auto
  ultimately show ?case using Cons.prems by (simp add: write_chunk_reliable [OF assms(1)])
qed simp

lemma broadcast_reliable:
  assumes rel: "reliable E" and r: "ranges_ok (env_ranges E)" and "distinct targets"
    and "set targets \<subseteq> dom (sm_objects (srv_sessions srv))"
  shows "\<exists>n. broadcast_with remove E targets data srv = Returns ((wrote E data (set targets) srv)\<lparr>srv_draws := n\<rparr>)"
proof (cases "targets = []")
  case True
  then show ?thesis by (auto simp: broadcast_with_def broadcastToSessionsParallel_def intro!: exI [of _ "srv_draws srv"])
next
  case False
  obtain cs where cs: "chunks targets = map Some cs" "concat cs = targets"
    using chunks_cover [of targets] chunks_concat [of targets] by blast
  have w: "write_chunks E data (map Some cs) [] srv = Returns ([], wrote E data (set targets) srv)"
    by (subst write_chunks_reliable [OF rel]) (use assms(3,4) in \<open>auto simp: cs(2)\<close>)
  have "env_ranges E n {} = []" for n using ranges_okD(1) [OF r, of "{}" n] by simp
  then show ?thesis using False
    by (auto simp: broadcast_with_def broadcastToSessionsParallel_def cs(1) w draw_then_def)
qed

section \<open>New messages\<close>

definition top_level :: "NewMessageMessage \<Rightarrow> bool" where
  "top_level msg \<longleftrightarrow> Message_ParentID msg = None \<or> Message_ParentID msg = Some 0"

text \<open>Who should see the message: the sessions that follow its channel or its thread, and
  if the author is shadowbanned only the author and the admins among them.\<close>

definition audience :: "('w, 'q) Server \<Rightarrow> u64 \<Rightarrow> 'w Session \<Rightarrow> NewMessageMessage \<Rightarrow> u64 option \<Rightarrow> u64 set" where
  "audience srv author sess msg root = {j. \<exists>s. sm_objects (srv_sessions srv) j = Some s \<and>
     (if top_level msg then \<lparr>cs_ChannelID = Message_ChannelID msg, cs_SubchannelID = None\<rparr> \<in> channels_of s
      else \<exists>t. root = Some t \<and> t \<in> threads_of s) \<and>
     (s_Shadowbanned sess \<longrightarrow> j = author \<or> (s_UserID s \<noteq> None \<and> s_UserFlags s AND 1 \<noteq> 0))}"

lemma subscribers_listed:
  assumes r: "ranges_ok (env_ranges E)" and ok: "server_ok srv"
  shows "set (GetChannelSubscribers (env_ranges E n) (srv_sessions srv) cs) =
      {j. \<exists>s. sm_objects (srv_sessions srv) j = Some s \<and> cs \<in> channels_of s}" (is ?ch)
    and "distinct (GetChannelSubscribers (env_ranges E n) (srv_sessions srv) cs)" (is ?dch)
    and "set (GetThreadSubscribers (env_ranges E n) (srv_sessions srv) t) =
      {j. \<exists>s. sm_objects (srv_sessions srv) j = Some s \<and> t \<in> threads_of s}" (is ?th)
    and "distinct (GetThreadSubscribers (env_ranges E n) (srv_sessions srv) t)" (is ?dth)
proof -
  let ?sm = "srv_sessions srv"
  have g: "good (dom (sm_objects ?sm)) (sm_sessions ?sm) srv" using ok by (simp add: good_def)
  have "set (GetChannelSubscribers (env_ranges E n) ?sm cs) = set_at (sm_channelSubscribers ?sm) cs"
    "set (GetThreadSubscribers (env_ranges E n) ?sm t) = set_at (sm_threadSubscribers ?sm) t"
    using ranges_okD(1) [OF r good_targets(2) [OF g]] ranges_okD(1) [OF r good_targets(3) [OF g]]
    by (simp_all add: GetChannelSubscribers_def GetThreadSubscribers_def)
  moreover have "set_at (sm_channelSubscribers ?sm) cs = {j. \<exists>s. sm_objects ?sm j = Some s \<and> cs \<in> channels_of s}"
    "set_at (sm_threadSubscribers ?sm) t = {j. \<exists>s. sm_objects ?sm j = Some s \<and> t \<in> threads_of s}"
    using ok by (auto simp: server_ok_def sm_ok_def dest: by_channels.matchesD by_threads.matchesD)
  ultimately show ?ch ?th by simp_all
  show ?dch ?dth using ranges_okD(2) [OF r good_targets(2) [OF g]] ranges_okD(2) [OF r good_targets(3) [OF g]]
    by (simp_all add: GetChannelSubscribers_def GetThreadSubscribers_def)
qed

lemma delivers:
  assumes "reliable E" and "ranges_ok (env_ranges E)" and "server_ok srv" and "sm_objects (srv_sessions srv) i = Some sess"
    and "frame_bytes TypeNewMessage (NewMessageM msg) = Inr data" and "Message_SubchannelID msg = None"
  shows "\<exists>n. broadcastNewMessage E i msg root srv =
    Returns (None, (wrote E data (audience srv i sess msg root) srv)\<lparr>srv_draws := n\<rparr>)"
proof -
  let ?srv = "srv\<lparr>srv_draws := srv_draws srv + 1\<rparr>" and ?n = "srv_draws srv" and ?key = "\<lparr>cs_ChannelID = Message_ChannelID msg, cs_SubchannelID = None\<rparr>"
  let ?all = "if top_level msg then GetChannelSubscribers (env_ranges E ?n) (srv_sessions srv) ?key
    else case root of Some t \<Rightarrow> GetThreadSubscribers (env_ranges E ?n) (srv_sessions srv) t | None \<Rightarrow> []"
  let ?ts = "if s_Shadowbanned sess then filter (visible_to ?srv i) ?all else ?all"
  note subs = subscribers_listed [OF assms(2,3), of ?n]
  have "broadcastNewMessage E i msg root srv =
      run_then (broadcast_with (removeSession E) E ?ts data ?srv) (\<lambda>srv. Returns (None, srv))"
    using assms(4-6)
    by (simp add: broadcastNewMessage_def opt_new_then_def draw_then_def the_session_def Let_def top_level_def split: option.split)
  moreover have ts: "distinct ?ts" "set ?ts = audience srv i sess msg root"
    using subs by (auto simp: audience_def visible_to_def split: option.splits)
  moreover have "set ?ts \<subseteq> dom (sm_objects (srv_sessions ?srv))" unfolding ts(2) by (auto simp: audience_def)
  ultimately obtain n where "broadcastNewMessage E i msg root srv =
      Returns (None, (wrote E data (audience srv i sess msg root) ?srv)\<lparr>srv_draws := n\<rparr>)"
    using broadcast_reliable [OF assms(1,2), of ?ts ?srv "removeSession E" data] by auto
  moreover have "(wrote E data T ?srv)\<lparr>srv_draws := n\<rparr> = (wrote E data T srv)\<lparr>srv_draws := n\<rparr>" for T
    by (simp add: wrote_def on_sm_def cong: if_cong)
  ultimately show ?thesis by auto
qed

text \<open>C6. A new message outside subchannels reaches its audience: over connections on which no write fails, broadcasting
  it returns no error and writes the frame of the message exactly once to each session that follows the channel (for a
  top-level message) or the thread (for a reply), and, when its author is shadowbanned, only to the author and the
  sessions of admins among these. No other session is written to and nothing else of a session changes.\<close>

theorem new_message_delivery:
  assumes "reliable E" and "ranges_ok (env_ranges E)" and "server_ok srv" and "sm_objects (srv_sessions srv) i = Some sess"
    and "frame_bytes TypeNewMessage (NewMessageM msg) = Inr data" and "Message_SubchannelID msg = None"
  shows "\<exists>n. broadcastNewMessage E i msg root srv =
    Returns (None, (wrote E data (audience srv i sess msg root) srv)\<lparr>srv_draws := n\<rparr>)"
  by (rule delivers [OF assms])


end
