(* ===== verification/SrvPosting.thy ===== *)
theory SrvPosting imports SrvSafety SrvDelivery begin

text \<open>
  A post from the frame to the followers: the handler, the store and the broadcast together.
\<close>

text \<open>What the followers are shown of a message by an anonymous author: the nickname gets a tilde.\<close>

definition anonymous_wire :: "MemDB \<Rightarrow> DBMessage \<Rightarrow> Message" where
  "anonymous_wire m msg =
    \<lparr>Message_ID = dm_ID msg, Message_ChannelID = dm_ChannelID msg, Message_SubchannelID = dm_SubchannelID msg,
     Message_ParentID = dm_ParentID msg, Message_AuthorUserID = None, Message_AuthorNickname = lit ''~'' @ dm_AuthorNickname msg,
     Message_Content = dm_Content msg, Message_CreatedAt = time_of_millis (dm_CreatedAt msg),
     Message_EditedAt = map_option time_of_millis (dm_EditedAt msg),
     Message_ReplyCount = (if dm_ParentID msg = None then CountReplies m (dm_ID msg) else 0)\<rparr>"

lemma audience_cong:
  assumes "\<And>j. map_option (\<lambda>s. (s_subscribedThreads s, s_subscribedChannels s, s_UserID s, s_UserFlags s)) (sm_objects (srv_sessions srv') j) =
    map_option (\<lambda>s. (s_subscribedThreads s, s_subscribedChannels s, s_UserID s, s_UserFlags s)) (sm_objects (srv_sessions srv) j)"
    and "s_Shadowbanned sess' = s_Shadowbanned sess"
  shows "audience srv' i sess' msg root = audience srv i sess msg root"
proof -
  have "j \<in> audience srv' i sess' msg root \<longleftrightarrow> j \<in> audience srv i sess msg root" for j
    using assms(1) [of j]
    by (cases "sm_objects (srv_sessions srv') j"; cases "sm_objects (srv_sessions srv) j")
      (simp_all add: audience_def assms(2) channels_of_def threads_of_def)
  then show ?thesis by blast
qed

lemma PostMessage_fields:
  assumes "PostMessage m clock c sub parent user nick body = Some (Inr (i, msg), m', clock')"
  shows "dm_ID msg = i" "dm_ChannelID msg = c" "dm_SubchannelID msg = sub" "dm_ParentID msg = parent" "dm_AuthorUserID msg = user"
    "dm_AuthorNickname msg = nick" "dm_Content msg = body"
  using assms by (auto simp: PostMessage_def Let_def split: option.splits sum.splits)


end
