(* ===== verification/SrvSSH.thy ===== *)
theory SrvSSH imports SrvLoop begin

text \<open>
  "ssh.go": the authentication of a public key, with the registration of unknown ones, and the session of a channel.

  The SSH library, which calls authenticateSSHKey with the key a client offers and hands the permissions
  it returns to the session, is outside the model, as are "net.ParseIP" (a parameter, which gives the canonical text of an
  address) and "rand.Read" (the random bytes are an argument).
\<close>

section \<open>The limit on registrations\<close>

definition maxAutoRegistrationsPerHour :: int where
  "maxAutoRegistrationsPerHour = 10"

definition autoRegisterWindow :: gotime where
  "autoRegisterWindow = 3600 * 1000000000"

definition rate_limited_host :: "(gostring \<Rightarrow> gostring option) \<Rightarrow> gostring \<Rightarrow> gostring" where
  "rate_limited_host ParseIP remoteAddr =
    (let host = TrimSpace remoteAddr in
     if ParseIP host = None then (case SplitHostPort remoteAddr of None \<Rightarrow> host | Some (h, port) \<Rightarrow> h) else host)"

text \<open>The section under autoRegisterMu: the attempts of an address that are not yet an hour old count.\<close>

definition attempts_of :: "gostring \<Rightarrow> (gostring \<rightharpoonup> gotime list) \<Rightarrow> gotime list" where
  "attempts_of ip m = (case m ip of None \<Rightarrow> [] | Some ts \<Rightarrow> ts)"

definition admit_registration ::
  "gostring \<Rightarrow> gotime \<Rightarrow> (gostring \<rightharpoonup> gotime list) \<Rightarrow> bool \<times> (gostring \<rightharpoonup> gotime list)" where
  "admit_registration ip now m =
    (let cutoff = now - autoRegisterWindow;
         pruned = filter (\<lambda>ts. ts > cutoff) (attempts_of ip m)
     in if int (length pruned) \<ge> maxAutoRegistrationsPerHour then (False, m(ip \<mapsto> pruned))
        else (True, m(ip \<mapsto> pruned @ [now])))"

definition checkAutoRegisterRateLimit ::
  "(gostring \<Rightarrow> gostring option) \<Rightarrow> gostring \<Rightarrow> (bool \<Rightarrow> ('w, 'q) Server \<Rightarrow> 'x run) \<Rightarrow> ('w, 'q) Server \<Rightarrow> 'x run" where
  "checkAutoRegisterRateLimit ParseIP remoteAddr k srv =
    (if TrimSpace remoteAddr = [] then k True srv
     else case ParseIP (rate_limited_host ParseIP remoteAddr) of
       None \<Rightarrow> k True srv
     | Some ip \<Rightarrow> time_then (\<lambda>now srv. case admit_registration ip now (srv_autoRegisterAttempts srv) of
         (ok, m) \<Rightarrow> k ok (srv\<lparr>srv_autoRegisterAttempts := m\<rparr>)) srv)"

section \<open>Keys\<close>

text \<open>What the server asks of an "ssh.PublicKey": its fingerprint, its line in the format of authorized_keys, its type.\<close>

record ssh_key =
  pk_Fingerprint :: gostring
  pk_Authorized :: gostring
  pk_Type :: gostring

text \<open>The map Extensions of "ssh.Permissions".\<close>

type_synonym ssh_extensions = "gostring \<rightharpoonup> gostring"

definition ssh_permissions :: "i64 \<Rightarrow> gostring \<Rightarrow> gostring \<Rightarrow> gostring \<Rightarrow> ssh_extensions" where
  "ssh_permissions userID nickname userFlags fingerprint =
    [lit ''user_id'' \<mapsto> fmt_d (sint userID), lit ''nickname'' \<mapsto> nickname, lit ''user_flags'' \<mapsto> userFlags,
     lit ''pubkey_fp'' \<mapsto> fingerprint]"

definition charset :: gostring where
  "charset = lit ''abcdefghijklmnopqrstuvwxyzABCDEFGHIJKLMNOPQRSTUVWXYZ0123456789!@#$%^&*''"

definition generateSecureRandomPassword :: "bytes \<Rightarrow> gostring" where
  "generateSecureRandomPassword random = map (\<lambda>b. charset ! (unat b mod length charset)) random"

definition ssh_reject :: "gostring \<Rightarrow> ('w, 'q) Server \<Rightarrow> ((gostring + ssh_extensions) \<times> ('w, 'q) Server) run" where
  "ssh_reject t srv = Returns (Inl t, srv)"

definition ssh_ban_text :: "('w, 'q) Env \<Rightarrow> DBBan \<Rightarrow> gostring" where
  "ssh_ban_text E ban = lit ''account banned '' @
    (case db_BannedUntil ban of None \<Rightarrow> lit ''permanently''
     | Some t \<Rightarrow> lit ''until '' @ env_FormatRFC3339 E (quot (sint t) 1000))"

text \<open>A key that is known: the part under "if err == nil".\<close>

definition ssh_known_key ::
  "('w, 'q) Env \<Rightarrow> gostring \<Rightarrow> DBSSHKey \<Rightarrow> ('w, 'q) Server \<Rightarrow> ((gostring + ssh_extensions) \<times> ('w, 'q) Server) run" where
  "ssh_known_key E fingerprint sshKey = sql_then (sql_GetUserByID (env_sql E) (dk_UserID sshKey)) (\<lambda>u. case u of
     Inl e \<Rightarrow> ssh_reject (lit ''user not found for SSH key'')
   | Inr user \<Rightarrow> sql_then (sql_UpdateSSHKeyLastUsed (env_sql E) fingerprint) (\<lambda>_.
       sql_then (sql_GetActiveBanForUser (env_sql E) (Some (du_ID user)) (Some (du_Nickname user))) (\<lambda>b.
       case (case b of Inl e \<Rightarrow> None | Inr ban \<Rightarrow> ban) of
         Some ban \<Rightarrow> if \<not> db_Shadowban ban then ssh_reject (ssh_ban_text E ban)
           else (\<lambda>srv. Returns (Inr (ssh_permissions (du_ID user) (du_Nickname user) (fmt_d (uint (du_UserFlags user))) fingerprint), srv))
       | None \<Rightarrow> (\<lambda>srv. Returns (Inr (ssh_permissions (du_ID user) (du_Nickname user) (fmt_d (uint (du_UserFlags user))) fingerprint), srv)))))"

text \<open>A key that is not: registration under the name the client logs in with.\<close>

definition ssh_auto_register ::
  "('w, 'q) Env \<Rightarrow> (gostring \<Rightarrow> gostring option) \<Rightarrow> bytes \<Rightarrow> gostring \<Rightarrow> gostring \<Rightarrow> ssh_key \<Rightarrow>
   ('w, 'q) Server \<Rightarrow> ((gostring + ssh_extensions) \<times> ('w, 'q) Server) run" where
  "ssh_auto_register E ParseIP random user remoteAddr pubKey =
    (let username = (if user = [] then lit ''user'' else user) in
     checkAutoRegisterRateLimit ParseIP remoteAddr (\<lambda>ok.
       if \<not> ok then ssh_reject (lit ''auto-registration rate limit exceeded'')
       else draw_then (\<lambda>n. case env_GenerateFromPassword E n (generateSecureRandomPassword random) of
         Inl t \<Rightarrow> ssh_reject (lit ''failed to hash password'')
       | Inr hashedPassword \<Rightarrow> sql_then (sql_CreateUser (env_sql E) username hashedPassword 0) (\<lambda>r. case r of
           Inl e \<Rightarrow> ssh_reject (lit ''failed to auto-register user: '' @ sql_text e)
         | Inr userID \<Rightarrow> now_then (\<lambda>now. sql_then (sql_CreateSSHKey (env_sql E)
             \<lparr>dk_ID = 0, dk_UserID = userID, dk_Fingerprint = pk_Fingerprint pubKey, dk_PublicKey = pk_Authorized pubKey,
              dk_KeyType = pk_Type pubKey, dk_Label = Some (lit ''Auto-registered''), dk_AddedAt = now, dk_LastUsedAt = None\<rparr>)
             (\<lambda>k. case k of
               Inl e \<Rightarrow> ssh_reject (lit ''failed to store SSH key: '' @ sql_text e)
             | Inr keyID \<Rightarrow> (\<lambda>srv. Returns (Inr (ssh_permissions userID username (lit ''0'') (pk_Fingerprint pubKey)), srv))))))))"

text \<open>Any error of the lookup counts as an unknown key.\<close>

definition authenticateSSHKey ::
  "('w, 'q) Env \<Rightarrow> (gostring \<Rightarrow> gostring option) \<Rightarrow> bytes \<Rightarrow> gostring \<Rightarrow> gostring \<Rightarrow> ssh_key \<Rightarrow>
   ('w, 'q) Server \<Rightarrow> ((gostring + ssh_extensions) \<times> ('w, 'q) Server) run" where
  "authenticateSSHKey E ParseIP random user remoteAddr pubKey =
    sql_then (sql_GetSSHKeyByFingerprint (env_sql E) (pk_Fingerprint pubKey)) (\<lambda>r. case r of
      Inr sshKey \<Rightarrow> ssh_known_key E (pk_Fingerprint pubKey) sshKey
    | Inl e \<Rightarrow> ssh_auto_register E ParseIP random user remoteAddr pubKey)"

section \<open>Sessions\<close>

text \<open>The user id, the nickname and the flags taken from the permissions; a number that does not parse is left out.\<close>

definition ssh_identity :: "ssh_extensions option \<Rightarrow> i64 option \<times> gostring \<times> u8" where
  "ssh_identity permissions = (case permissions of None \<Rightarrow> (None, [], 0)
     | Some ext \<Rightarrow>
        (let get = (\<lambda>k. case ext k of None \<Rightarrow> [] | Some v \<Rightarrow> v);
             userID = (if get (lit ''user_id'') \<noteq> [] then ParseInt64 (get (lit ''user_id'')) else None);
             userFlags = (if get (lit ''user_flags'') \<noteq> []
               then (case ParseUint 8 (get (lit ''user_flags'')) of None \<Rightarrow> 0 | Some flags \<Rightarrow> of_nat flags) else 0)
         in (userID, get (lit ''nickname''), userFlags)))"

text \<open>The session, the configuration and, for a known user, the answer to a login nobody asked for; None when the channel is given up.\<close>

definition ssh_authenticated :: "('w, 'q) Env \<Rightarrow> u64 \<Rightarrow> i64 \<Rightarrow> gostring \<Rightarrow> u8 \<Rightarrow> ('w, 'q) act" where
  "ssh_authenticated E i userID nickname userFlags =
    sql_then (sql_GetActiveBanForUser (env_sql E) (Some userID) (Some nickname)) (\<lambda>b.
      assign i (\<lambda>s. s\<lparr>s_UserFlags := userFlags, s_Shadowbanned := (case b of Inr (Some ban) \<Rightarrow> db_Shadowban ban | _ \<Rightarrow> False)\<rparr>)
      (if_ok (srv_sendMessage E i TypeAuthResponse (AuthResponseM
        \<lparr>AuthResponse_Success = True, AuthResponse_UserID = userID, AuthResponse_Nickname = nickname,
         AuthResponse_Message = lit ''Authenticated via SSH as '' @ nickname, AuthResponse_UserFlags = Some userFlags\<rparr>))
      (also_do (sendServerPresenceSnapshot E i)
      (also_do (notifyServerPresence E i True) succeed))))"

definition ssh_arrive :: "('w, 'q) Env \<Rightarrow> 'w \<Rightarrow> ssh_extensions option \<Rightarrow> ('w, 'q) Server \<Rightarrow> (u64 option \<times> ('w, 'q) Server) run" where
  "ssh_arrive E conn permissions srv = (case ssh_identity permissions of (userID, nickname, userFlags) \<Rightarrow>
    run_then (sm_CreateSession (srv_sessions srv) (srv_clock srv) userID nickname (lit ''ssh'') conn (lit ''0.0.0.0:0''))
      (\<lambda>(i, sm, clock).
        run_then (if_ok (sendServerConfig E i)
            (case userID of None \<Rightarrow> succeed | Some uid \<Rightarrow> ssh_authenticated E i uid nickname userFlags)
            (srv\<lparr>srv_sessions := sm, srv_clock := clock\<rparr>)) (\<lambda>(err, srv). case err of
          None \<Rightarrow> Returns (Some i, srv)
        | Some e \<Rightarrow> run_then (removeSession E i srv) (\<lambda>srv.
            run_then (close_conn E i srv) (\<lambda>srv. Returns (None, srv))))))"

text \<open>The loop of handleSSHSession does what messageLoop does, and ends with the same two deferred steps.\<close>

definition handleSSHSession ::
  "(nat \<Rightarrow> gostring) \<Rightarrow> ('w, 'q) Env \<Rightarrow> 'w \<Rightarrow> ssh_extensions option \<Rightarrow> bytes \<Rightarrow> ('w, 'q) Server \<Rightarrow> ('w, 'q) Server run" where
  "handleSSHSession net E channel permissions input srv =
    run_then (ssh_arrive E channel permissions srv) (\<lambda>(i, srv). case i of
      None \<Rightarrow> Returns srv
    | Some i \<Rightarrow> messageLoop net E i input srv)"

end
