(* ===== verification/SrvSystem.thy ===== *)
theory SrvSystem imports SrvSafety SrvSSH begin

text \<open>
  The server as a state machine. A step is a connection that arrives, a key that is offered over SSH or a session opened there, one frame of a session with its handler, a
  connection that ends, one round of a background loop (the sweep of stale sessions, the snapshot and the removal of old
  messages of the store), the notice before a shutdown, or a change of the SQLite file from outside. Any
  interleaving of the goroutines is a sequence of such steps. Stop, after which the process ends, is not one of them.
\<close>

section \<open>Steps\<close>

text \<open>The struct NewServer builds around the store it loaded.\<close>

definition NewServer :: "MemDB \<Rightarrow> ServerConfig \<Rightarrow> 'q \<Rightarrow> i64 list \<Rightarrow> gotime list \<Rightarrow> gotime \<Rightarrow> ('w, 'q) Server" where
  "NewServer memDB config sqlite clock readings startTime =
    \<lparr>srv_sessions = NewSessionManager memDB (cfg_SessionTimeoutSeconds config), srv_config = config, srv_sqlite = sqlite,
     srv_clock = clock, srv_times = readings, srv_startTime = startTime, srv_draws = 0, srv_addresses = 0,
     srv_verificationChallenges = Map.empty, srv_discoveryRateLimits = Map.empty,
     srv_autoRegisterAttempts = Map.empty\<rparr>"

text \<open>One round of messageLoop, after the read.\<close>

definition one_frame :: "(nat \<Rightarrow> gostring) \<Rightarrow> ('w, 'q) Env \<Rightarrow> u64 \<Rightarrow> Frame \<Rightarrow> ('w, 'q) Server \<Rightarrow> ('w, 'q) Server run" where
  "one_frame net E i frame srv = run_then (touch_session i (handleMessage E i frame) srv) (\<lambda>(err, srv). case err of
     None \<Rightarrow> Returns srv
   | Some ErrClientDisconnecting \<Rightarrow> Returns srv
   | Some e \<Rightarrow> ignoring (sendError E i 9000 (lit ''Internal error: '' @ error_text net e) srv))"

definition leave :: "('w, 'q) Env \<Rightarrow> u64 \<Rightarrow> ('w, 'q) Server \<Rightarrow> ('w, 'q) Server run" where
  "leave E i srv = run_then (removeSession E i srv) (close_conn E i)"

inductive server_step :: "(nat \<Rightarrow> gostring) \<Rightarrow> ('w, 'q) Env \<Rightarrow> ('w, 'q) Server \<Rightarrow> ('w, 'q) Server \<Rightarrow> bool" for net E where
  connect: "\<lbrakk>handleConnection E conn addr srv = Returns (r, srv'); sm_nextID (srv_sessions srv) \<noteq> - 1\<rbrakk> \<Longrightarrow> server_step net E srv srv'"
| ssh_key: "authenticateSSHKey E ParseIP random user addr key srv = Returns (answer, srv') \<Longrightarrow> server_step net E srv srv'"
| ssh_session: "\<lbrakk>ssh_arrive E conn permissions srv = Returns (r, srv'); sm_nextID (srv_sessions srv) \<noteq> - 1\<rbrakk> \<Longrightarrow> server_step net E srv srv'"
| frame: "\<lbrakk>i \<in> sm_sessions (srv_sessions srv); one_frame net E i f srv = Returns srv'\<rbrakk> \<Longrightarrow> server_step net E srv srv'"
| leave: "\<lbrakk>i \<in> dom (sm_objects (srv_sessions srv)); leave E i srv = Returns srv'\<rbrakk> \<Longrightarrow> server_step net E srv srv'"
| sweep: "cleanupStaleSessions E srv = Returns srv' \<Longrightarrow> server_step net E srv srv'"
| notice: "notifyClientsOfShutdown E srv = Returns (n, srv') \<Longrightarrow> server_step net E srv srv'"
| enable: "server_step net E srv (EnableDirectory srv)"
| disable: "server_step net E srv (DisableDirectory srv)"
| snapshot: "snapshot_with batchInsert order now (srv_db srv) = Some (e, m) \<Longrightarrow>
    server_step net E srv (on_sm (\<lambda>sm. sm\<lparr>sm_db := m\<rparr>) srv)"
| hard_delete: "hardDeleteOldMessages order now (srv_db srv) = (n, m) \<Longrightarrow> server_step net E srv (on_sm (\<lambda>sm. sm\<lparr>sm_db := m\<rparr>) srv)"
| sqlite: "server_step net E srv (srv\<lparr>srv_sqlite := q\<rparr>)"

section \<open>Each step ends well\<close>

lemma run_close_conn: "good D S srv \<Longrightarrow> run_ok b (good D S) (close_conn E i srv)"
  by (simp add: close_conn_def)

lemma run_leave:
  assumes "ranges_ok (env_ranges E)" and "good D S srv"
  shows "run_ok b (good D S) (leave E i srv)"
  unfolding leave_def by (rule run_ok_then [OF run_remove [OF assms] run_close_conn])

lemma run_one_frame:
  assumes r: "ranges_ok (env_ranges E)" and g: "good D S srv" and i: "i \<in> sm_sessions (srv_sessions srv)"
  shows "run_ok True (good D S) (one_frame net E i f srv)"
proof -
  have D: "i \<in> D" using good_registered [OF g] i by auto
  have "run_ok True (answers D S) (touch_session i (handleMessage E i f) srv)"
    by (rule run_touch_session [OF g D]) (rule run_handleMessage [OF r], simp_all add: i)
  then show ?thesis unfolding one_frame_def
    by (rule run_ok_then) (auto intro!: run_ignoring run_sendError D split: option.split server_error.split)
qed

lemma run_remove_stale:
  assumes r: "ranges_ok (env_ranges E)" and "good D S srv" and "set is \<subseteq> D"
  shows "run_ok b (good D S) (remove_stale E cutoff is srv)"
  using assms(2,3)
proof (induction "is" arbitrary: srv)
  case (Cons i "is")
  then obtain s where "sm_objects (srv_sessions srv) i = Some s" by (auto simp: good_def)
  with Cons show ?case
    by (auto split: sum.split intro!: run_ok_then [OF run_remove [OF r]])
qed simp

lemma run_cleanupStaleSessions:
  assumes r: "ranges_ok (env_ranges E)" and g: "good D S srv"
  shows "run_ok True (good D S) (cleanupStaleSessions E srv)"
proof -
  have "run_ok True (good D S) (remove_stale E c (GetAllSessions (env_ranges E n) (srv_sessions s)) s)" if "good D S s" for c n s
    using that ranges_okD(1) [OF r good_finite [OF that]] good_registered [OF that]
    by (intro run_remove_stale [OF r]) (simp_all add: GetAllSessions_def)
  then show ?thesis unfolding cleanupStaleSessions_def using g by (intro run_now_then run_draw_then) auto
qed

lemma run_notify_shutdown:
  assumes "good D S srv" and "set is \<subseteq> D"
  shows "run_ok b (answers D S) (notify_shutdown E is n srv)"
  using assms
proof (induction "is" arbitrary: srv n)
  case (Cons i "is")
  have "run_ok b (answers D S) (srv_sendMessage E i TypeDisconnect (DisconnectM
      \<lparr>Disconnect_Reason = Some (lit ''Server shutting down for maintenance'')\<rparr>) srv)"
    using Cons.prems by (intro run_send) auto
  then show ?case unfolding notify_shutdown.simps by (rule run_ok_then) (use Cons in \<open>auto intro!: Cons.IH\<close>)
qed simp

lemma run_notifyClientsOfShutdown:
  assumes r: "ranges_ok (env_ranges E)" and g: "good D S srv"
  shows "run_ok b (answers D S) (notifyClientsOfShutdown E srv)"
proof -
  have "run_ok b (answers D S) (notify_shutdown E (GetAllSessions (env_ranges E n) (srv_sessions s)) 0 s)" if "good D S s" for n s
    using that ranges_okD(1) [OF r good_finite [OF that]] good_registered [OF that]
    by (intro run_notify_shutdown) (simp_all add: GetAllSessions_def)
  then show ?thesis unfolding notifyClientsOfShutdown_def using g by (intro run_draw_then) auto
qed

text \<open>A connection that arrives adds its session, whatever is sent to it then.\<close>

lemma run_arrival:
  fixes k :: "u64 \<Rightarrow> ('w, 'q) Server \<Rightarrow> ('r \<times> ('w, 'q) Server) run"
  assumes ok: "server_ok srv" and room: "sm_nextID (srv_sessions srv) \<noteq> - 1"
    and k: "\<And>D S i srv. good D S srv \<Longrightarrow> i \<in> D \<Longrightarrow> run_ok True (answers D S) (k i srv)"
  shows "run_ok True (\<lambda>x. server_ok (snd x)) (run_then (sm_CreateSession (srv_sessions srv) (srv_clock srv) u nick typ conn addr)
    (\<lambda>(i, sm, clock). k i (srv\<lparr>srv_sessions := sm, srv_clock := clock\<rparr>)))"
proof (cases "sm_CreateSession (srv_sessions srv) (srv_clock srv) u nick typ conn addr")
  case (Returns x)
  obtain i sm clock where x: "x = (i, sm, clock)" by (cases x)
  let ?srv = "srv\<lparr>srv_sessions := sm, srv_clock := clock\<rparr>" and ?D = "dom (sm_objects sm)"
  have sm: "sm_ok (srv_sessions srv)" using ok by (simp add: server_ok_def)
  have create: "sm_ok sm \<and> i = sm_nextID (srv_sessions srv) \<and> sm_objects (srv_sessions srv) i = None \<and>
      sm_sessions sm = insert i (sm_sessions (srv_sessions srv))"
    by (rule sm_ok_create [OF sm room Returns [unfolded x]])
  have "store_inv (sm_db sm) clock \<and> sm_channelSubscribers sm = sm_channelSubscribers (srv_sessions srv)"
    using Returns ok by (auto simp: x sm_CreateSession_def Let_def server_ok_def elim!: run_then_ReturnsE dest: store_inv_CreateSession)
  with create ok have g: "good ?D (sm_sessions sm) ?srv" by (simp add: good_def server_ok_def addresses_ok_def)
  have "i \<in> ?D" using create by (auto simp: sm_ok_def)
  from run_ok_mono [OF k [OF g this]] show ?thesis by (simp add: Returns x good_def)
next
  case Panics
  then show ?thesis by (simp add: sm_CreateSession_def needs_clock_def Let_def split: option.splits prod.splits)
next
  case Exhausted
  then show ?thesis by (simp add: sm_CreateSession_def needs_clock_def Let_def split: option.splits prod.splits)
qed simp

lemma run_give_up:
  assumes r: "ranges_ok (env_ranges E)" and a: "run_ok True (answers D S) (a srv)"
  shows "run_ok True (answers D S) (run_then (a srv) (\<lambda>(err, srv). case err of
      None \<Rightarrow> Returns (Some i, srv)
    | Some e \<Rightarrow> run_then (removeSession E i srv) (\<lambda>srv. run_then (close_conn E i srv) (\<lambda>srv. Returns (None, srv)))))"
  using a by (rule run_ok_then) (auto intro!: run_ok_then [OF run_remove [OF r]] run_ok_then [OF run_close_conn] split: option.split)

lemma run_sendServerConfig: "good D S srv \<Longrightarrow> i \<in> D \<Longrightarrow> run_ok b (answers D S) (sendServerConfig E i srv)"
  unfolding sendServerConfig_def Let_def by (rule run_send)

lemma run_handleConnection:
  assumes r: "ranges_ok (env_ranges E)" and ok: "server_ok srv" and room: "sm_nextID (srv_sessions srv) \<noteq> - 1"
  shows "run_ok True (\<lambda>x. server_ok (snd x)) (handleConnection E conn addr srv)"
  unfolding handleConnection_def Let_def
  by (rule run_arrival [OF ok room], rule run_give_up [OF r]) (rule run_sendServerConfig)

lemma run_ssh_authenticated:
  assumes r: "ranges_ok (env_ranges E)" and g: "good D S srv" and i: "i \<in> D"
  shows "run_ok True (answers D S) (ssh_authenticated E i userID nickname userFlags srv)"
  unfolding ssh_authenticated_def by (intro run_rules r g i) (auto intro: g i r simp: same_subscriptions_def)

lemma run_ssh_arrive:
  assumes r: "ranges_ok (env_ranges E)" and ok: "server_ok srv" and room: "sm_nextID (srv_sessions srv) \<noteq> - 1"
  shows "run_ok True (\<lambda>x. server_ok (snd x)) (ssh_arrive E conn permissions srv)"
proof -
  obtain userID nickname userFlags where p: "ssh_identity permissions = (userID, nickname, userFlags)" by (cases "ssh_identity permissions")
  show ?thesis unfolding ssh_arrive_def p prod.case
  proof (rule run_arrival [OF ok room], rule run_give_up [OF r], rule run_if_ok)
    fix D S i and srv :: "('a, 'b) Server"
    assume "good D S srv" "i \<in> D"
    then show "run_ok True (answers D S) (sendServerConfig E i srv)" by (rule run_sendServerConfig)
  next
    fix D S i and srv :: "('a, 'b) Server"
    assume "i \<in> D" "good D S srv"
    then show "run_ok True (answers D S) ((case userID of None \<Rightarrow> succeed | Some uid \<Rightarrow> ssh_authenticated E i uid nickname userFlags) srv)"
      using run_ssh_authenticated [OF r] by (cases userID) (auto simp: run_succeed)
  qed
qed

text \<open>A key that is offered.\<close>

lemma run_auto_register_limit:
  assumes g: "good D S srv" and k: "\<And>ok srv'. good D S srv' \<Longrightarrow> run_ok True P (k ok srv')"
  shows "run_ok True P (checkAutoRegisterRateLimit ParseIP addr k srv)"
  unfolding checkAutoRegisterRateLimit_def using g
  by (auto split: option.split prod.split simp: Let_def intro!: run_time_then k)

lemma run_ssh_reject: "good D S srv \<Longrightarrow> run_ok b (answers D S) (ssh_reject t srv)"
  by (simp add: ssh_reject_def)

lemma run_ssh_known_key:
  assumes "good D S srv"
  shows "run_ok True (answers D S) (ssh_known_key E fingerprint sshKey srv)"
  unfolding ssh_known_key_def using assms
  by (auto intro!: run_sql_then run_ssh_reject split: sum.split option.split)

lemma run_ssh_auto_register:
  assumes "good D S srv"
  shows "run_ok True (answers D S) (ssh_auto_register E ParseIP random user addr pubKey srv)"
  unfolding ssh_auto_register_def Let_def using assms
  by (auto intro!: run_auto_register_limit run_sql_then run_now_then run_draw_then run_ssh_reject split: sum.split)

lemma run_authenticateSSHKey:
  assumes "good D S srv"
  shows "run_ok True (answers D S) (authenticateSSHKey E ParseIP random user addr pubKey srv)"
  unfolding authenticateSSHKey_def using assms
  by (auto intro!: run_sql_then run_ssh_known_key run_ssh_auto_register split: sum.split)

section \<open>Reachable states\<close>

lemma server_ok_good: "server_ok srv \<longleftrightarrow> good (dom (sm_objects (srv_sessions srv))) (sm_sessions (srv_sessions srv)) srv"
  by (simp add: good_def)

lemma server_ok_db: "server_ok srv \<Longrightarrow> store_inv m (srv_clock srv) \<Longrightarrow> server_ok (on_sm (\<lambda>sm. sm\<lparr>sm_db := m\<rparr>) srv)"
  using good_store [of _ _ srv m "srv_clock srv"] by (simp add: good_def server_ok_def on_sm_def addresses_ok_def)

lemma store_inv_snapshot:
  assumes "store_inv m clock" and "snapshot_with batchInsert order now m = Some (e, m')"
  shows "store_inv m' clock"
  using assms by (auto simp: snapshot_with_def snapshot_clear_def split: option.splits if_splits)

lemma store_inv_hard_delete:
  assumes inv: "store_inv m clock" and run: "hardDeleteOldMessages order now m = (n, m')"
  shows "store_inv m' clock"
proof -
  obtain ids where m': "m' = fold hard_delete ids m" using run by (auto simp: hardDeleteOldMessages_def Let_def)
  have "store_ok (fold hard_delete ids m)" for ids using inv
    by (induction ids rule: rev_induct) (auto simp: store_inv_def intro: store_ok_hard_delete)
  then show ?thesis using inv
    by (auto simp: m' store_inv_def ids_past_def fold_hard_delete_snowflake dest: mentions_fold_hard_delete)
qed

lemma server_ok_step:
  assumes "server_step net E srv srv'" and r: "ranges_ok (env_ranges E)" and ok: "server_ok srv"
  shows "server_ok srv'"
proof -
  have g: "good (dom (sm_objects (srv_sessions srv))) (sm_sessions (srv_sessions srv)) srv" using ok by (simp add: server_ok_good)
  from assms(1) show ?thesis
  proof cases
    case (connect conn addr x)
    then show ?thesis using run_handleConnection [OF r ok connect(2), of conn addr] by simp
  next
    case (ssh_key ParseIP random user addr key answer)
    then show ?thesis using run_authenticateSSHKey [OF g, of E ParseIP random user addr key] by (simp add: good_def)
  next
    case (ssh_session conn permissions x)
    then show ?thesis using run_ssh_arrive [OF r ok ssh_session(2), of conn permissions] by simp
  next
    case (frame i f)
    then show ?thesis using run_one_frame [OF r g, of i net f] by (simp add: good_def)
  next
    case (leave i)
    then show ?thesis using run_leave [OF r g, of True i] by (simp add: good_def)
  next
    case sweep
    then show ?thesis using run_cleanupStaleSessions [OF r g] by (simp add: good_def)
  next
    case (notice n)
    then show ?thesis using run_notifyClientsOfShutdown [OF r g, of True] by (simp add: good_def)
  next
    case (snapshot b order now e m)
    then show ?thesis using server_ok_db [OF ok store_inv_snapshot [OF _ snapshot(2)]] ok by (simp add: server_ok_def)
  next
    case (hard_delete order now n m)
    then show ?thesis using server_ok_db [OF ok store_inv_hard_delete [OF _ hard_delete(2)]] ok by (simp add: server_ok_def)
  qed (use ok in \<open>simp_all add: server_ok_def addresses_ok_def EnableDirectory_def DisableDirectory_def\<close>)
qed

lemma NewServer_ok: "store_inv db clock \<Longrightarrow> server_ok (NewServer db config q clock readings t)"
  by (simp add: server_ok_def NewServer_def sm_ok_new addresses_ok_def) (simp add: NewSessionManager_def set_at_def)

lemma reachable_ok:
  assumes "(server_step net E)\<^sup>*\<^sup>* srv srv'" and "ranges_ok (env_ranges E)" and "server_ok srv"
  shows "server_ok srv'"
  using assms by (induction rule: rtranclp_induct) (auto intro: server_ok_step)


end
