(* ===== verification/SrvSample.thy ===== *)
theory SrvSample imports SrvRules SrvPosting SrvSystem MemProps begin

text \<open>
  A server of two sessions to evaluate the properties of the handlers on: "bob" (1) and "cat" (2), who follows channel 7. Their
  connections either take everything or close after a number of bytes. SQLite knows one registered user, "ann".
\<close>

section \<open>The environment\<close>

definition ann :: DBUser where
  "ann = \<lparr>du_ID = 3, du_Nickname = lit ''ann'', du_UserFlags = 0, du_PasswordHash = [9], du_CreatedAt = 0, du_LastSeen = 0\<rparr>"

definition sample_sql :: "unit sql_ops" where
  "sample_sql =
    \<lparr>sql_CreateUser = (\<lambda>_ _ _ q. (Inl ErrNoRows, q)),
     sql_GetUserByNickname = (\<lambda>n q. (if n = lit ''ann'' then Inr ann else Inl ErrNoRows, q)),
     sql_GetUserByID = (\<lambda>i q. (if i = 3 then Inr ann else Inl ErrNoRows, q)),
     sql_ListAllUsers = (\<lambda>_ q. (Inr [ann], q)),
     sql_UpdateUserLastSeen = (\<lambda>_ q. (None, q)), sql_UpdateUserNickname = (\<lambda>_ _ q. (None, q)),
     sql_UpdateSessionUserID = (\<lambda>_ _ q. (None, q)), sql_UpdateUserPassword = (\<lambda>_ _ q. (None, q)),
     sql_CreateChannel = (\<lambda>_ _ _ _ _ _ q. (Inl ErrNoRows, q)), sql_DeleteChannel = (\<lambda>_ q. (None, q)),
     sql_DeleteUser = (\<lambda>_ q. (Inl ErrNoRows, q)), sql_GetActiveBanForUser = (\<lambda>_ _ q. (Inr None, q)),
     sql_CreateUserBan = (\<lambda>_ _ _ _ _ _ _ q. (Inr 1, q)), sql_CreateIPBan = (\<lambda>_ _ _ _ _ q. (Inr 1, q)),
     sql_DeleteUserBan = (\<lambda>_ _ _ _ q. (Inr 1, q)), sql_DeleteIPBan = (\<lambda>_ _ _ q. (Inr 1, q)),
     sql_ListBans = (\<lambda>_ q. (Inr [], q)), sql_CreateSSHKey = (\<lambda>_ q. (Inr 1, q)),
     sql_GetSSHKeyByFingerprint = (\<lambda>_ q. (Inl ErrNoRows, q)), sql_GetSSHKeysByUserID = (\<lambda>_ q. (Inr [], q)),
     sql_UpdateSSHKeyLastUsed = (\<lambda>_ q. (None, q)), sql_DeleteSSHKey = (\<lambda>_ _ q. (None, q)), sql_UpdateSSHKeyLabel = (\<lambda>_ _ _ q. (None, q)),
     sql_RegisterDiscoveredServer = (\<lambda>_ _ _ _ _ _ _ _ _ q. (Inr 1, q)),
     sql_UpdateHeartbeat = (\<lambda>_ _ _ _ _ _ q. (None, q)), sql_ListDiscoveredServers = (\<lambda>_ q. (Inr [], q)),
     sql_GetDiscoveredServer = (\<lambda>_ _ q. (Inl ErrNoRows, q)), sql_CountDiscoveredServers = (\<lambda>q. (Inr 0, q)),
     sql_LogAdminAction = (\<lambda>_ _ _ _ q. (None, q)), sql_UpdateUserChannelState = (\<lambda>_ _ _ _ q. (None, q)),
     sql_GetUserChannelState = (\<lambda>_ _ _ q. (Inl ErrNoRows, q))\<rparr>"

definition sample_env :: "'w net_conn \<Rightarrow> ('w, unit) Env" where
  "sample_env nc = \<lparr>env_conn = nc, env_ranges = (\<lambda>_. sorted_list_of_set), env_sql = sample_sql,
     env_CompareHashAndPassword = (\<lambda>_ _. False), env_GenerateFromPassword = (\<lambda>_ _. Inr [8]),
     env_ParseAuthorizedKey = (\<lambda>_. Inl []), env_FormatRFC3339 = (\<lambda>_. [])\<rparr>"

abbreviation steady :: "(bytes, unit) Env" where
  "steady \<equiv> sample_env \<lparr>conn_writer = buffer, conn_Close = (\<lambda>b. b)\<rparr>"

abbreviation failing :: "(nat \<times> bytes, unit) Env" where
  "failing \<equiv> sample_env \<lparr>conn_writer = closing_writer, conn_Close = (\<lambda>(n, b). (0, b))\<rparr>"

lemma sample_ranges [simp]: "ranges_ok (env_ranges (sample_env nc))"
  by (simp add: ranges_ok_def sample_env_def)

lemma steady_reliable: "reliable steady"
  by (simp add: reliable_def sample_env_def buffer_def)

section \<open>The server\<close>

definition sample_session :: "u64 \<Rightarrow> i64 option \<Rightarrow> gostring \<Rightarrow> ChannelSubscription set \<Rightarrow> 'w \<Rightarrow> 'w Session" where
  "sample_session i user nick follows conn =
    \<lparr>s_ID = i, s_DBSessionID = of_nat (unat i), s_UserID = user, s_Nickname = nick, s_UserFlags = 0, s_Shadowbanned = False, s_Conn = conn,
     s_RemoteAddr = lit ''10.0.0.1:5'', s_JoinedChannel = None, s_lastActivityUpdateTime = 0, s_subscribedThreads = Some Map.empty,
     s_subscribedChannels = Some follows\<rparr>"

abbreviation chan7 :: ChannelSubscription where
  "chan7 \<equiv> \<lparr>cs_ChannelID = 7, cs_SubchannelID = None\<rparr>"

definition sample_db :: MemDB where
  "sample_db = no_msgs\<lparr>mem_channels := [7 \<mapsto> \<lparr>ch_ID = 7, ch_Name = lit ''talk'', ch_DisplayName = lit ''Talk'', ch_Description = None,
     ch_ChannelType = 1, ch_MessageRetentionHours = 24, ch_CreatedBy = None, ch_CreatedAt = 0, ch_IsPrivate = False\<rparr>]\<rparr>"

definition sample_server :: "i64 option \<Rightarrow> 'w \<Rightarrow> 'w \<Rightarrow> ('w, unit) Server" where
  "sample_server user c d =
    \<lparr>srv_sessions = \<lparr>sm_db = sample_db,
       sm_objects = [1 \<mapsto> sample_session 1 user (lit ''bob'') {} c, 2 \<mapsto> sample_session 2 None (lit ''cat'') {chan7} d],
       sm_sessions = {1, 2}, sm_nextID = 3, sm_activityUpdateIntervalMs = 60000,
       sm_threadSubscribers = Map.empty, sm_channelSubscribers = [chan7 \<mapsto> {2}]\<rparr>,
     srv_config = DefaultConfig, srv_sqlite = (), srv_clock = [5, 5, 6, 6, 7, 7, 8], srv_times = [1, 2, 3], srv_startTime = 0,
     srv_draws = 0, srv_addresses = 0, srv_verificationChallenges = Map.empty, srv_discoveryRateLimits = Map.empty,
     srv_autoRegisterAttempts = Map.empty\<rparr>"

lemma sample_server_ok: "server_ok (sample_server user c d)"
proof -
  have "sm_ok (srv_sessions (sample_server user c d))"
    by (auto simp: sm_ok_def sample_server_def sample_session_def live_maps_def session_ok_def channels_of_def threads_of_def
        by_threads.matches_def by_channels.matches_def set_at_def split: if_splits)
  moreover have "store_inv sample_db [5, 5, 6, 6, 7, 7, 8]"
    by (rule store_inv_same [OF mem_inv_store [OF no_msgs_inv]]) (simp_all add: sample_db_def)
  ultimately show ?thesis
    by (simp add: server_ok_def addresses_ok_def sample_server_def set_at_def)
qed

lemma sample_sessions [simp]:
  "sm_objects (srv_sessions (sample_server user c d)) = [1 \<mapsto> sample_session 1 user (lit ''bob'') {} c, 2 \<mapsto> sample_session 2 None (lit ''cat'') {chan7} d]"
  "sm_sessions (srv_sessions (sample_server user c d)) = {1, 2}"
  by (simp_all add: sample_server_def)

lemma sample_sqlite [simp]:
  "(sample_server user c d)\<lparr>srv_sqlite := ()\<rparr> = sample_server user c d"
  "sql_GetUserByNickname (env_sql (sample_env nc)) n q = (if n = lit ''ann'' then Inr ann else Inl ErrNoRows, q)"
  "sql_GetUserByID (env_sql (sample_env nc)) i q = (if i = 3 then Inr ann else Inl ErrNoRows, q)"
  "sql_UpdateUserPassword (env_sql (sample_env nc)) i h q = (None, q)"
  "env_GenerateFromPassword (sample_env nc) k p = Inr [8]"
  by (simp_all add: sample_server_def sample_env_def sample_sql_def)

lemma payload_exists: "\<not> isl x \<Longrightarrow> \<exists>frame :: Frame. x = Inr (Frame_Payload frame) \<and> Frame_Type frame = t"
  by (rule exI [of _ "\<lparr>Frame_Version = 1, Frame_Type = t, Frame_Flags = 0, Frame_Payload = projr x\<rparr>"]) (simp add: sum.expand)

section \<open>Safety, evaluated\<close>

text \<open>Session 2 fails after four more bytes: removing session 1 removes it too.\<close>

lemma removeSession_returns_witness:
  "\<exists>srv'. removeSession failing 1 (sample_server None (9, []) (4, [])) = Returns srv' \<and> 1 \<notin> sm_sessions (srv_sessions srv')"
  using removeSession_returns [OF sample_ranges sample_server_ok,
      of "\<lparr>conn_writer = closing_writer, conn_Close = (\<lambda>(n, b). (0, b))\<rparr>" 1 None "(9, [])" "(4, [])"]
  by auto



section \<open>The rules, evaluated\<close>

lemma admin_requests_denied_witness:
  "only_answers 1 (sample_server (Some 3) [] []) (handleMessage steady 1
     \<lparr>Frame_Version = 1, Frame_Type = TypeBanUser, Frame_Flags = 0, Frame_Payload = [1]\<rparr> (sample_server (Some 3) [] []))"
  by (rule admin_requests_denied) (simp_all add: isAdmin_def sample_server_def DefaultConfig_def)

lemma post_refused_witness:
  "\<exists>frame. Frame_Type frame = TypePostMessage \<and>
    only_answers 1 (sample_server None [] []) (handlePostMessage steady 1 frame (sample_server None [] []))"
proof -
  let ?msg = "\<lparr>PostMessage_ChannelID = 8, PostMessage_SubchannelID = None, PostMessage_ParentID = None, PostMessage_Content = lit ''hi''\<rparr>"
  have "\<not> isl (PostMessageMessage_Encode ?msg)" by code_simp
  then obtain frame :: Frame where "PostMessageMessage_Encode ?msg = Inr (Frame_Payload frame)" and t: "Frame_Type frame = TypePostMessage"
    using payload_exists by blast
  from post_refused [OF _ this(1), of "sample_server None [] []" 1 _ steady] t show ?thesis
    by (auto simp: sample_server_def sample_db_def GetChannel_def)
qed

lemma registered_nickname_refused_witness:
  "\<exists>frame. Frame_Type frame = TypeSetNickname \<and>
    only_answers 1 (sample_server None [] []) (handleSetNickname steady 1 frame (sample_server None [] []))"
proof -
  have "\<not> isl (SetNicknameMessage_Encode \<lparr>SetNickname_Nickname = lit ''ann''\<rparr>)" by code_simp
  then obtain frame :: Frame where enc: "SetNicknameMessage_Encode \<lparr>SetNickname_Nickname = lit ''ann''\<rparr> = Inr (Frame_Payload frame)"
    and t: "Frame_Type frame = TypeSetNickname"
    using payload_exists by blast
  show ?thesis
    using registered_nickname_refused [OF _ enc, of "sample_server None [] []" 1 _ steady ann "()"] t
    by (auto simp: sample_session_def)
qed

lemma password_changed_without_old_witness:
  "\<exists>frame. Frame_Type frame = TypeChangePassword \<and>
    only_answers 1 ((sample_server (Some 3) [] [])\<lparr>srv_draws := 1, srv_sqlite := ()\<rparr>)
      (handleChangePassword steady 1 frame (sample_server (Some 3) [] []))"
proof -
  let ?msg = "\<lparr>ChangePassword_OldPassword = [], ChangePassword_NewPassword = replicate 44 65\<rparr>"
  have "\<not> isl (ChangePasswordRequest_Encode ?msg)" by (simp add: msg_def codec steps_emit2 string_ok_def)
  then obtain frame :: Frame where enc: "ChangePasswordRequest_Encode ?msg = Inr (Frame_Payload frame)" and t: "Frame_Type frame = TypeChangePassword"
    using payload_exists by blast
  let ?srv = "sample_server (Some 3) [] [] :: (bytes, unit) Server"
  have "only_answers 1 (?srv\<lparr>srv_draws := srv_draws ?srv + 1, srv_sqlite := ()\<rparr>) (handleChangePassword steady 1 frame ?srv)"
    by (rule password_changed_without_old [OF _ _ enc, of _ _ "sample_session 1 (Some 3) (lit ''bob'') {} []" 3 _ ann "()" "[8]"])
      (simp_all add: sample_session_def)
  then show ?thesis using t by (auto simp: sample_server_def)
qed

lemma verify_response_refused_witness:
  "\<exists>frame. VerifyResponseMessage_Encode \<lparr>VerifyResponse_Challenge = 5\<rparr> = Inr (Frame_Payload frame) \<and>
    handleVerifyResponse steady 1 frame (sample_server None [] []) =
      sendError steady 1 6000 (lit ''No pending verification'') (sample_server None [] [])"
proof -
  have "\<not> isl (VerifyResponseMessage_Encode \<lparr>VerifyResponse_Challenge = 5\<rparr>)" by code_simp
  then obtain frame :: Frame where enc: "VerifyResponseMessage_Encode \<lparr>VerifyResponse_Challenge = 5\<rparr> = Inr (Frame_Payload frame)"
    using payload_exists by blast
  with verify_response_refused [OF sample_server_ok enc, of steady 1 None "[]" "[]"] show ?thesis by blast
qed


section \<open>Delivery, evaluated\<close>

definition sample_wire :: "u64 option \<Rightarrow> gostring \<Rightarrow> NewMessageMessage" where
  "sample_wire sub nick = \<lparr>Message_ID = 20975616, Message_ChannelID = 7, Message_SubchannelID = sub, Message_ParentID = None,
     Message_AuthorUserID = None, Message_AuthorNickname = nick, Message_Content = lit ''hi'',
     Message_CreatedAt = time_of_millis 5, Message_EditedAt = None, Message_ReplyCount = 0\<rparr>"

lemma sample_subchannel: "Message_SubchannelID (sample_wire sub nick) = sub"
  by (simp add: sample_wire_def)

lemma sample_frame: "\<exists>data. frame_bytes TypeNewMessage (NewMessageM (sample_wire sub (lit ''~bob''))) = Inr data"
proof -
  obtain p where p: "Encode (NewMessageM (sample_wire sub (lit ''~bob''))) = Inr p" and "length p < 1000"
    by (cases sub) (auto simp: msg_def codec steps_emit2 string_ok_def sample_wire_def lit_def option_wire_def string_wire_def bool_wire_def)
  then show ?thesis by (simp add: frame_bytes_def EncodeFrame_buffer frame_fits_def codec)
qed

lemma sample_audience: "audience (sample_server None c d) 1 (sample_session 1 None (lit ''bob'') {} c) (sample_wire None nick) root = {2}"
  by (auto simp: audience_def sample_wire_def top_level_def channels_of_def sample_session_def)

lemma new_message_delivery_witness:
  "\<exists>data n. frame_bytes TypeNewMessage (NewMessageM (sample_wire None (lit ''~bob''))) = Inr data \<and>
    broadcastNewMessage steady 1 (sample_wire None (lit ''~bob'')) None (sample_server None [] []) =
      Returns (None, (wrote steady data {2} (sample_server None [] []))\<lparr>srv_draws := n\<rparr>)"
proof -
  obtain data where data: "frame_bytes TypeNewMessage (NewMessageM (sample_wire None (lit ''~bob''))) = Inr data"
    using sample_frame by blast
  have "sm_objects (srv_sessions (sample_server None [] [])) 1 = Some (sample_session 1 None (lit ''bob'') {} [])" by simp
  from new_message_delivery [OF steady_reliable sample_ranges sample_server_ok this data sample_subchannel, of None]
  show ?thesis by (auto simp: sample_audience data sample_subchannel)
qed


text \<open>The post of an anonymous "bob" in channel 7.\<close>

definition bobs_post :: DBMessage where
  "bobs_post = \<lparr>dm_ID = 20975616, dm_ChannelID = 7, dm_SubchannelID = None, dm_ParentID = None, dm_ThreadRootID = Some 20975616,
     dm_AuthorUserID = None, dm_AuthorNickname = lit ''bob'', dm_Content = lit ''hi'', dm_CreatedAt = 5, dm_EditedAt = None,
     dm_DeletedAt = None, dm_ReplyCount = 0\<rparr>"

definition posted_db :: MemDB where
  "posted_db = PostMessage_store (sample_db\<lparr>mem_snowflake := small_sf\<lparr>sf_state := 20480\<rparr>\<rparr>) bobs_post"

lemma bobs_post_stored:
  "PostMessage sample_db [5, 5, 6, 6, 7, 7, 8] 7 None None None (lit ''bob'') (lit ''hi'') =
    Some (Inr (20975616, bobs_post), posted_db, [6, 6, 7, 7, 8])"
proof -
  have "mem_snowflake sample_db = small_sf" by (simp add: sample_db_def no_msgs_maps)
  then show ?thesis using small_ids(1) [of "[6, 6, 7, 7, 8]"]
    by (simp add: PostMessage_def new_stamp_def PostMessage_root_def Let_def posted_db_def bobs_post_def)
qed

lemma bobs_wire: "anonymous_wire posted_db bobs_post = sample_wire None (lit ''~bob'')"
  by (simp add: anonymous_wire_def posted_db_def bobs_post_def sample_wire_def CountReplies_def PostMessage_store_eq store_maps_def lit_def)

lemma posted_confirmed:
  "\<exists>c. sendMessage buffer TypeMessagePosted (MessagePostedM \<lparr>MessagePosted_Success = True, MessagePosted_MessageID = 20975616,
    MessagePosted_Message = lit ''Message posted''\<rparr>) b = (c, None)" (is "\<exists>c. sendMessage _ _ ?m _ = _")
proof -
  obtain p where "Encode ?m = Inr p" and "length p < 1000"
    by (auto simp: msg_def codec steps_emit2 string_ok_def lit_def string_wire_def bool_wire_def)
  then show ?thesis by (simp add: sendMessage_def EncodeFrame_buffer frame_fits_def emit_def)
qed


end
