(* ===== verification/SrvSSHProps.thy ===== *)
theory SrvSSHProps imports SrvSample begin

text \<open>
  Who a session over SSH is, what an unknown key does, and how often.
\<close>

section \<open>Identities\<close>

lemma digits_nonempty: "digits n \<noteq> []"
  by (simp add: digits.simps [of n])

lemma hd_digits: "hd (digits n) \<noteq> 43 \<and> hd (digits n) \<noteq> 45"
proof (induction n rule: digits.induct)
  case (1 n)
  show ?case
  proof (cases "n < 10")
    case True
    then have "n \<in> {0, 1, 2, 3, 4, 5, 6, 7, 8, 9}" by auto
    then show ?thesis by (auto simp: digits.simps [of n])
  next
    case False
    then show ?thesis using 1 [OF False] by (simp add: digits.simps [of n] digits_nonempty)
  qed
qed

lemma ParseUint_digits: "ParseUint bits (digits n) = (if n < 2 ^ bits then Some n else None)"
  using parse_digits_digits [of n "[]" 0] by (simp add: ParseUint_def digits_nonempty)

text \<open>A number is read back from its digits.\<close>

lemma ParseInt64_fmt_d: "ParseInt64 (fmt_d (sint i)) = Some (i :: i64)"
proof (cases "sint i < 0")
  case True
  have "- sint i \<le> 2 ^ 63" using sint_greater_eq [of i] by simp
  then have n: "nat (- sint i) \<le> 2 ^ 63" "nat (- sint i) < 2 ^ 64" using True by simp_all
  have "- of_nat (nat (- sint i)) = i" using True by simp
  then show ?thesis using True n by (simp add: fmt_d_def ParseInt64_def ParseUint_digits)
next
  case False
  have "sint i < 2 ^ 63" using sint_less [of i] by simp
  then have n: "nat (sint i) < 2 ^ 63" "nat (sint i) < 2 ^ 64" using False by simp_all
  have v: "of_nat (nat (sint i)) = i" using False by simp
  obtain c cs where d: "digits (nat (sint i)) = c # cs" using digits_nonempty by (cases "digits (nat (sint i))") auto
  then have c: "c \<noteq> 43" "c \<noteq> 45" using hd_digits [of "nat (sint i)"] by simp_all
  have "ParseUint 64 (c # cs) = Some (nat (sint i))" using ParseUint_digits [of 64 "nat (sint i)"] n by (simp add: d)
  then show ?thesis using False n c v by (simp add: fmt_d_def ParseInt64_def d)
qed

lemma extension_names: "distinct [lit ''user_id'', lit ''nickname'', lit ''user_flags'', lit ''pubkey_fp'']"
  by code_simp

lemma ssh_identity_permissions:
  "ssh_identity (Some (ssh_permissions userID nickname (fmt_d (uint flags)) fingerprint)) = (Some userID, nickname, flags)"
proof -
  have f: "ParseUint 8 (digits (unat flags)) = Some (unat flags)"
  proof -
    have "unat flags < 2 ^ 8" by (rule order_less_le_trans [OF unsigned_less]) simp
    then show ?thesis by (simp only: ParseUint_digits if_True)
  qed
  have d: "fmt_d (uint flags) = digits (unat flags)" by (simp add: fmt_d_def)
  have "fmt_d (sint userID) \<noteq> []" by (simp add: fmt_d_def digits_nonempty)
  then show ?thesis using extension_names
    by (simp add: ssh_identity_def ssh_permissions_def Let_def ParseInt64_fmt_d f d digits_nonempty)
qed

section \<open>Keys\<close>

text \<open>C17. A known key logs in as its owner and as nobody else: when the key and its user are found, the session made of the permissions has
  the id, the nickname and the flags of that user; a user who is banned is refused, unless the ban is a shadow ban; a ban that cannot be
  looked up refuses nobody.\<close>

theorem ssh_key_identity:
  assumes "sql_GetSSHKeyByFingerprint (env_sql E) (pk_Fingerprint key) (srv_sqlite srv) = (Inr sshKey, q1)"
    and "sql_GetUserByID (env_sql E) (dk_UserID sshKey) q1 = (Inr user, q2)"
    and "sql_UpdateSSHKeyLastUsed (env_sql E) (pk_Fingerprint key) q2 = (e, q3)"
    and "sql_GetActiveBanForUser (env_sql E) (Some (du_ID user)) (Some (du_Nickname user)) q3 = (b, q4)"
  shows "\<exists>answer. authenticateSSHKey E ParseIP random name addr key srv = Returns (answer, srv\<lparr>srv_sqlite := q4\<rparr>) \<and>
    (if \<exists>ban. b = Inr (Some ban) \<and> \<not> db_Shadowban ban then isl answer
     else \<not> isl answer \<and> ssh_identity (Some (projr answer)) = (Some (du_ID user), du_Nickname user, du_UserFlags user))"
proof -
  note run = authenticateSSHKey_def ssh_known_key_def sql_then_def ssh_reject_def assms
  show ?thesis
  proof (cases b)
    case (Inl x)
    then show ?thesis by (simp add: run ssh_identity_permissions)
  next
    case (Inr ban)
    then show ?thesis by (cases ban) (simp_all add: run ssh_identity_permissions)
  qed
qed

definition ann_key :: DBSSHKey where
  "ann_key = \<lparr>dk_ID = 1, dk_UserID = 3, dk_Fingerprint = [1], dk_PublicKey = [], dk_KeyType = [], dk_Label = None, dk_AddedAt = 0, dk_LastUsedAt = None\<rparr>"

definition keyed_env :: "(bytes, unit) Env" where
  "keyed_env = steady\<lparr>env_sql := sample_sql\<lparr>sql_GetSSHKeyByFingerprint := (\<lambda>f q. (if f = [1] then Inr ann_key else Inl (SQLErr []), q)),
     sql_CreateUser := (\<lambda>_ _ _ q. (Inr 7, q))\<rparr>\<rparr>"

lemma keyed_env_simps:
  "sql_GetSSHKeyByFingerprint (env_sql keyed_env) f q = (if f = [1] then Inr ann_key else Inl (SQLErr []), q)"
  "sql_GetUserByID (env_sql keyed_env) i q = (if i = 3 then Inr ann else Inl ErrNoRows, q)"
  "sql_UpdateSSHKeyLastUsed (env_sql keyed_env) f q = (None, q)" "sql_GetActiveBanForUser (env_sql keyed_env) u nm q = (Inr None, q)"
  "sql_CreateUser (env_sql keyed_env) n h fl q = (Inr 7, q)" "sql_CreateSSHKey (env_sql keyed_env) k q = (Inr 1, q)"
  "env_GenerateFromPassword keyed_env salt p = Inr [8]"
  by (simp_all add: keyed_env_def sample_sql_def sample_env_def)

lemma ssh_key_identity_witness:
  "\<exists>answer. authenticateSSHKey keyed_env Some [] [] [] \<lparr>pk_Fingerprint = [1], pk_Authorized = [], pk_Type = []\<rparr> (sample_server None [] []) =
      Returns (answer, sample_server None [] []) \<and> ssh_identity (Some (projr answer)) = (Some 3, lit ''ann'', 0)"
  using ssh_key_identity [of keyed_env "\<lparr>pk_Fingerprint = [1], pk_Authorized = [], pk_Type = []\<rparr>" "sample_server None [] []" ann_key "()" ann "()" None "()"
        "Inr None" "()" Some "[]" "[]" "[]"]
  by (auto simp add: keyed_env_simps ann_key_def ann_def)

text \<open>Whatever keeps the lookup of a key from succeeding makes the key a new one, and the account made for it gets the name the client
  logged in with, of any length and any characters (or "user" for none), and is the identity of the session.\<close>

theorem unknown_key_registers:
  assumes "sql_GetSSHKeyByFingerprint (env_sql E) (pk_Fingerprint key) (srv_sqlite srv) = (Inl e, q1)"
    and "TrimSpace addr = []"
    and "env_GenerateFromPassword E (srv_draws srv) (generateSecureRandomPassword random) = Inr hash"
    and "sql_CreateUser (env_sql E) (if name = [] then lit ''user'' else name) hash 0 q1 = (Inr userID, q2)"
    and "srv_clock srv = now # clock"
    and "sql_CreateSSHKey (env_sql E) \<lparr>dk_ID = 0, dk_UserID = userID, dk_Fingerprint = pk_Fingerprint key, dk_PublicKey = pk_Authorized key,
       dk_KeyType = pk_Type key, dk_Label = Some (lit ''Auto-registered''), dk_AddedAt = now, dk_LastUsedAt = None\<rparr> q2 = (Inr keyID, q3)"
  shows "\<exists>p srv'. authenticateSSHKey E ParseIP random name addr key srv = Returns (Inr p, srv') \<and> srv_sqlite srv' = q3 \<and>
    ssh_identity (Some p) = (Some userID, if name = [] then lit ''user'' else name, 0)"
proof -
  have "lit ''0'' = [48]" by code_simp
  then have "fmt_d (uint (0 :: u8)) = lit ''0''" by (simp add: fmt_d_def digits.simps [of 0])
  with ssh_identity_permissions [of userID "if name = [] then lit ''user'' else name" 0 "pk_Fingerprint key"]
  have "ssh_identity (Some (ssh_permissions userID (if name = [] then lit ''user'' else name) (lit ''0'') (pk_Fingerprint key))) =
      (Some userID, if name = [] then lit ''user'' else name, 0)" by simp
  then show ?thesis using assms
    by (simp add: authenticateSSHKey_def ssh_auto_register_def sql_then_def checkAutoRegisterRateLimit_def draw_then_def now_then_def Let_def)
qed

text \<open>A name that the rule for nicknames refuses, after an error of the disk.\<close>

lemma unknown_key_registers_witness:
  "\<not> nicknameRegex (lit ''a b'') \<and> (\<exists>p srv'. authenticateSSHKey keyed_env Some [] (lit ''a b'') []
      \<lparr>pk_Fingerprint = [2], pk_Authorized = [], pk_Type = []\<rparr> (sample_server None [] []) = Returns (Inr p, srv') \<and>
    ssh_identity (Some p) = (Some 7, lit ''a b'', 0))"
proof -
  have clock: "srv_clock (sample_server None [] [] :: (bytes, unit) Server) = 5 # [5, 6, 6, 7, 7, 8]" by (simp add: sample_server_def)
  have name: "lit ''a b'' \<noteq> []" "\<not> nicknameRegex (lit ''a b'')" and trim: "TrimSpace [] = []" by code_simp+
  from unknown_key_registers [of keyed_env "\<lparr>pk_Fingerprint = [2], pk_Authorized = [], pk_Type = []\<rparr>" "sample_server None [] []" "SQLErr []" "()",
      OF _ trim _ _ clock, of "[]" "[8]" "lit ''a b''" 7 "()" 1 "()" Some]
  show ?thesis by (auto simp: keyed_env_simps name)
qed

section \<open>The limit on registrations\<close>

interpretation ssh_limit: rate_limiter "admit_registration ip" "attempts_of ip" 10 autoRegisterWindow for ip
  by unfold_locales (auto simp: admit_registration_def attempts_of_def Let_def autoRegisterWindow_def maxAutoRegistrationsPerHour_def)

text \<open>The times at which one host may register, among attempts from any addresses.\<close>

fun registrations :: "(gostring \<Rightarrow> gostring option) \<Rightarrow> gostring \<Rightarrow> gostring list \<Rightarrow> ('w, 'q) Server \<Rightarrow> gotime list" where
  "registrations ParseIP ip [] srv = []"
| "registrations ParseIP ip (addr # addrs) srv =
    (case checkAutoRegisterRateLimit ParseIP addr (\<lambda>ok srv. Returns (ok, srv)) srv of
       Returns (ok, srv') \<Rightarrow>
         (if ok \<and> TrimSpace addr \<noteq> [] \<and> ParseIP (rate_limited_host ParseIP addr) = Some ip then [hd (srv_times srv)] else []) @
         registrations ParseIP ip addrs srv'
     | _ \<Rightarrow> [])"

lemma admit_other: "ip' \<noteq> ip \<Longrightarrow> snd (admit_registration ip' now m) ip = m ip"
  by (simp add: admit_registration_def Let_def)

lemma registrations_admitted:
  assumes "sorted (srv_times srv)" and "m ip = srv_autoRegisterAttempts srv ip"
  shows "\<exists>ts. sorted ts \<and> set ts \<subseteq> set (srv_times srv) \<and> registrations ParseIP ip addrs srv = admitted (admit_registration ip) ts m"
  using assms
proof (induction addrs arbitrary: srv m)
  case Nil
  show ?case by (intro exI [of _ "[]"]) simp
next
  case (Cons addr addrs)
  show ?case
  proof (cases "TrimSpace addr = [] \<or> ParseIP (rate_limited_host ParseIP addr) = None")
    case True
    then show ?thesis using Cons by (auto simp: checkAutoRegisterRateLimit_def)
  next
    case False
    then obtain ip' where ip': "TrimSpace addr \<noteq> []" "ParseIP (rate_limited_host ParseIP addr) = Some ip'" by auto
    show ?thesis
    proof (cases "srv_times srv")
      case Nil
      then show ?thesis using ip' by (intro exI [of _ "[]"]) (simp add: checkAutoRegisterRateLimit_def time_then_def)
    next
      case t: (Cons now times)
      obtain ok a where adm: "admit_registration ip' now (srv_autoRegisterAttempts srv) = (ok, a)" by (cases "admit_registration ip' now (srv_autoRegisterAttempts srv)")
      let ?srv = "srv\<lparr>srv_times := times, srv_autoRegisterAttempts := a\<rparr>"
      have check: "checkAutoRegisterRateLimit ParseIP addr (\<lambda>ok srv. Returns (ok, srv)) srv = Returns (ok, ?srv)"
        using ip' by (simp add: checkAutoRegisterRateLimit_def time_then_def t adm)
      have sorted: "sorted (srv_times ?srv)" using Cons.prems(1) t by simp
      show ?thesis
      proof (cases "ip' = ip")
        case True
        have same: "attempts_of ip m = attempts_of ip (srv_autoRegisterAttempts srv)" using Cons.prems(2) by (simp add: attempts_of_def)
        have step: "fst (admit_registration ip now m) = ok" "snd (admit_registration ip now m) ip = srv_autoRegisterAttempts ?srv ip"
          using adm unfolding True admit_registration_def same by (auto simp: Let_def split: if_splits)
        from Cons.IH [of ?srv "snd (admit_registration ip now m)", OF sorted step(2)] obtain ts where ts: "sorted ts" "set ts \<subseteq> set times"
          "registrations ParseIP ip addrs ?srv = admitted (admit_registration ip) ts (snd (admit_registration ip now m))" by auto
        have "\<forall>x \<in> set times. now \<le> x" using Cons.prems(1) t by simp
        with ts t ip' True check step(1) show ?thesis by (intro exI [of _ "now # ts"]) auto
      next
        case False
        have "m ip = srv_autoRegisterAttempts ?srv ip"
          using admit_other [OF False, of now "srv_autoRegisterAttempts srv"] Cons.prems(2) by (simp add: adm)
        from Cons.IH [of ?srv m, OF sorted this] obtain ts where "sorted ts" "set ts \<subseteq> set times"
          "registrations ParseIP ip addrs ?srv = admitted (admit_registration ip) ts m" by auto
        with t ip' False check show ?thesis by (intro exI [of _ ts]) auto
      qed
    qed
  qed
qed

text \<open>C27. A host registers at most ten users an hour: however many keys are offered, from however many ports of the host and with those of other
  hosts in between, as long as the clock does not step back, no hour-long stretch of time holds more than ten attempts
  of that host that may register.\<close>

theorem ssh_registration_limit:
  assumes "sorted (srv_times srv)" and "srv_autoRegisterAttempts srv ip = None"
  shows "in_window (3600 * 1000000000) t (registrations ParseIP ip addrs srv) \<le> 10"
proof -
  from registrations_admitted [OF assms(1), of "srv_autoRegisterAttempts srv" ip ParseIP addrs] obtain ts where "sorted ts"
    and r: "registrations ParseIP ip addrs srv = admitted (admit_registration ip) ts (srv_autoRegisterAttempts srv)" by auto
  from ssh_limit.limit_kept [OF this(1)] assms(2) show ?thesis unfolding r by (simp add: attempts_of_def autoRegisterWindow_def)
qed

lemma ssh_registration_limit_witness:
  "in_window (3600 * 1000000000) 5 (registrations Some (lit ''10.0.0.1'') [lit ''10.0.0.1'', lit ''10.0.0.2''] (sample_server None [] [])) \<le> 10"
  by (rule ssh_registration_limit) (simp_all add: sample_server_def)

end
