(* ===== verification/ClientFormat.thy ===== *)
theory ClientFormat imports MsgMessage MemState "HOL-Library.Multiset" begin

text \<open>
  "pkg/client/format.go": the title of a thread, the order in which its replies are shown and how deep they are
  indented. A reply whose chain of parents runs in a circle keeps the recursion and the queue going for ever: both
  are partial functions, None is not returning.
\<close>

section \<open>Titles\<close>

text \<open>"strings.Index(content, "\n\n")", None for -1.\<close>

fun double_newline :: "gostring \<Rightarrow> nat option" where
  "double_newline (a # b # s) = (if a = 10 \<and> b = 10 then Some 0 else map_option Suc (double_newline (b # s)))"
| "double_newline _ = None"

text \<open>"s[:n]" for n below the length: a negative n panics, None.\<close>

definition cut_to :: "gostring \<Rightarrow> int \<Rightarrow> gostring option" where
  "cut_to s n = (if int (length s) > n then if n < 0 then None else Some (take (nat n) s) else Some s)"

definition ExtractThreadTitle :: "gostring \<Rightarrow> int \<Rightarrow> gostring option" where
  "ExtractThreadTitle content maxChars =
    (case double_newline content of Some i \<Rightarrow> cut_to (take i content) maxChars | None \<Rightarrow> cut_to content maxChars)"

section \<open>Children\<close>

definition childrenMap :: "Message list \<Rightarrow> u64 \<rightharpoonup> Message list" where
  "childrenMap replies = fold (\<lambda>msg m. case Message_ParentID msg of None \<Rightarrow> m | Some p \<Rightarrow> append_at m p msg) replies Map.empty"

text \<open>The two nested loops that swap.\<close>

definition swap_if_before :: "nat \<Rightarrow> nat \<Rightarrow> Message list \<Rightarrow> Message list" where
  "swap_if_before i j children =
    (if Message_CreatedAt (children ! j) < Message_CreatedAt (children ! i)
     then children[i := children ! j, j := children ! i] else children)"

definition sort_round :: "nat \<Rightarrow> Message list \<Rightarrow> Message list" where
  "sort_round i children = fold (swap_if_before i) [Suc i..<length children] children"

definition sort_children :: "Message list \<Rightarrow> Message list" where
  "sort_children children = fold sort_round [0..<length children] children"

text \<open>"traverse", on the children of a parent.\<close>

partial_function (option) traverse :: "(u64 \<Rightarrow> Message list) \<Rightarrow> Message list \<Rightarrow> Message list option" where
  "traverse kids children =
    (case children of [] \<Rightarrow> Some []
     | child # rest \<Rightarrow>
        Option.bind (traverse kids (kids (Message_ID child))) (\<lambda>below.
          Option.bind (traverse kids rest) (\<lambda>others. Some (child # below @ others))))"

definition sorted_kids :: "Message list \<Rightarrow> u64 \<Rightarrow> Message list" where
  "sorted_kids replies p = sort_children (slice_at (childrenMap replies) p)"

definition SortThreadReplies :: "Message list \<Rightarrow> u64 \<Rightarrow> Message list option" where
  "SortThreadReplies replies rootID =
    (if replies = [] then Some replies else traverse (sorted_kids replies) (sorted_kids replies rootID))"

text \<open>The queue of CalculateThreadDepths. The depths are ints, which do not wrap before memory is full.\<close>

partial_function (option) depth_loop :: "(u64 \<Rightarrow> Message list) \<Rightarrow> u64 list \<Rightarrow> (u64 \<rightharpoonup> int) \<Rightarrow> (u64 \<rightharpoonup> int) option" where
  "depth_loop kids queue depths =
    (case queue of [] \<Rightarrow> Some depths
     | parentID # queue \<Rightarrow>
        depth_loop kids (queue @ map Message_ID (kids parentID))
          (fold (\<lambda>child d. d(Message_ID child \<mapsto> (case depths parentID of None \<Rightarrow> 0 | Some n \<Rightarrow> n) + 1)) (kids parentID) depths))"

definition CalculateThreadDepths :: "u64 \<Rightarrow> Message list \<Rightarrow> (u64 \<rightharpoonup> int) option" where
  "CalculateThreadDepths rootID replies = depth_loop (slice_at (childrenMap replies)) [rootID] [rootID \<mapsto> 0]"

section \<open>The swaps sort\<close>

lemma swap_if_before_facts:
  assumes "i < length xs" and "j < length xs"
  shows "mset (swap_if_before i j xs) = mset xs" and "length (swap_if_before i j xs) = length xs"
  using assms by (simp_all add: swap_if_before_def mset_swap)

text \<open>A round puts a first message in place i and leaves what comes before.\<close>

lemma sort_round_upto:
  assumes "i < length xs" and "Suc i \<le> n" and "n \<le> length xs"
  shows "mset (fold (swap_if_before i) [Suc i..<n] xs) = mset xs \<and> take i (fold (swap_if_before i) [Suc i..<n] xs) = take i xs \<and>
    (\<forall>k. i < k \<and> k < n \<longrightarrow> Message_CreatedAt (fold (swap_if_before i) [Suc i..<n] xs ! i) \<le> Message_CreatedAt (fold (swap_if_before i) [Suc i..<n] xs ! k))"
  using assms(2,3)
proof (induction n rule: dec_induct)
  case (step n)
  let ?ys = "fold (swap_if_before i) [Suc i..<n] xs"
  have ys: "mset ?ys = mset xs" "take i ?ys = take i xs"
    "\<And>k. i < k \<Longrightarrow> k < n \<Longrightarrow> Message_CreatedAt (?ys ! i) \<le> Message_CreatedAt (?ys ! k)"
    using step by auto
  have len: "length ?ys = length xs" using ys(1) by (metis size_mset)
  have "fold (swap_if_before i) [Suc i..<Suc n] xs = swap_if_before i n ?ys" using step.hyps by simp
  moreover have "mset (swap_if_before i n ?ys) = mset xs"
    using swap_if_before_facts(1) [of i ?ys n] assms(1) step.prems ys(1) len by simp
  moreover have "take i (swap_if_before i n ?ys) = take i xs"
    using ys(2) step.hyps by (simp add: swap_if_before_def)
  moreover have "Message_CreatedAt (swap_if_before i n ?ys ! i) \<le> Message_CreatedAt (swap_if_before i n ?ys ! k)" if "i < k" "k < Suc n" for k
  proof (cases "k = n")
    case False
    then show ?thesis using ys(3) [of k] that len assms(1) step.prems step.hyps
      by (auto simp: swap_if_before_def nth_list_update)
  qed (use len assms(1) step.prems step.hyps in \<open>auto simp: swap_if_before_def nth_list_update\<close>)
  ultimately show ?case by auto
qed simp

lemma in_drop_iff: "x \<in> set (drop n xs) \<longleftrightarrow> (\<exists>c. n \<le> c \<and> c < length xs \<and> x = xs ! c)"
proof
  assume "x \<in> set (drop n xs)"
  then obtain k where "k < length xs - n" "x = drop n xs ! k" by (auto simp: in_set_conv_nth)
  then show "\<exists>c. n \<le> c \<and> c < length xs \<and> x = xs ! c" by (intro exI [of _ "n + k"]) simp
next
  assume "\<exists>c. n \<le> c \<and> c < length xs \<and> x = xs ! c"
  then obtain c where "n \<le> c" "c < length xs" "x = xs ! c" by blast
  then show "x \<in> set (drop n xs)" unfolding in_set_conv_nth by (intro exI [of _ "c - n"]) simp
qed

lemma sort_children_upto:
  assumes "n \<le> length xs"
  shows "mset (fold sort_round [0..<n] xs) = mset xs \<and>
    (\<forall>a b. a < n \<and> a \<le> b \<and> b < length xs \<longrightarrow>
      Message_CreatedAt (fold sort_round [0..<n] xs ! a) \<le> Message_CreatedAt (fold sort_round [0..<n] xs ! b))"
  using assms
proof (induction n)
  case (Suc n)
  let ?ys = "fold sort_round [0..<n] xs"
  let ?zs = "sort_round n ?ys"
  have ys: "mset ?ys = mset xs" "\<And>a b. a < n \<Longrightarrow> a \<le> b \<Longrightarrow> b < length xs \<Longrightarrow> Message_CreatedAt (?ys ! a) \<le> Message_CreatedAt (?ys ! b)"
    using Suc by auto
  have len: "length ?ys = length xs" using ys(1) by (metis size_mset)
  have zs: "mset ?zs = mset ?ys" "take n ?zs = take n ?ys"
    "\<And>k. n < k \<Longrightarrow> k < length xs \<Longrightarrow> Message_CreatedAt (?zs ! n) \<le> Message_CreatedAt (?zs ! k)"
    using sort_round_upto [of n ?ys "length xs"] Suc.prems len by (auto simp: sort_round_def)
  have lenz: "length ?zs = length xs" using zs(1) len by (metis size_mset)
  have "Message_CreatedAt (?zs ! a) \<le> Message_CreatedAt (?zs ! b)" if "a < Suc n" "a \<le> b" "b < length xs" for a b
  proof (cases "a = n")
    case True
    then show ?thesis using zs(3) [of b] that by (cases "b = n") auto
  next
    case False
    then have a: "a < n" using that by simp
    have za: "?zs ! a = ?ys ! a" using zs(2) a by (metis nth_take)
    show ?thesis
    proof (cases "b < n")
      case True
      then have "?zs ! b = ?ys ! b" using zs(2) by (metis nth_take)
      then show ?thesis using za ys(2) [OF a that(2,3)] by simp
    next
      case False
      have "mset (drop n ?zs) = mset (drop n ?ys)"
        using zs(1,2) by (metis append_take_drop_id mset_append add_left_cancel)
      moreover have "?zs ! b \<in> set (drop n ?zs)" using False that(3) lenz
        unfolding in_drop_iff by (intro exI [of _ b]) simp
      ultimately have "?zs ! b \<in> set (drop n ?ys)" by (metis set_mset_mset)
      then obtain c where "n \<le> c" "c < length xs" "?zs ! b = ?ys ! c" using len by (auto simp: in_drop_iff)
      then show ?thesis using za ys(2) [of a c] a by simp
    qed
  qed
  then show ?case using zs(1) ys(1) by simp
qed simp

lemma sort_children_sorts:
  "mset (sort_children xs) = mset xs" "sorted (map Message_CreatedAt (sort_children xs))"
proof -
  have *: "mset (sort_children xs) = mset xs"
    "\<And>a b. a \<le> b \<Longrightarrow> b < length xs \<Longrightarrow> Message_CreatedAt (sort_children xs ! a) \<le> Message_CreatedAt (sort_children xs ! b)"
    using sort_children_upto [of "length xs" xs] by (auto simp: sort_children_def)
  show "mset (sort_children xs) = mset xs" by (fact *(1))
  have "length (sort_children xs) = length xs" using *(1) by (metis size_mset)
  then show "sorted (map Message_CreatedAt (sort_children xs))" using *(2) by (auto simp: sorted_iff_nth_mono)
qed

section \<open>The children of a parent\<close>

lemma childrenMap_slice: "slice_at (childrenMap replies) p = filter (\<lambda>m. Message_ParentID m = Some p) replies"
proof -
  have "slice_at (fold (\<lambda>msg m. case Message_ParentID msg of None \<Rightarrow> m | Some p \<Rightarrow> append_at m p msg) replies m) p =
      slice_at m p @ filter (\<lambda>m. Message_ParentID m = Some p) replies" for m
    by (induction replies arbitrary: m) (auto simp: slice_at_append_at split: option.split)
  then show ?thesis by (simp add: childrenMap_def slice_at_def [of Map.empty])
qed

lemma sorted_kids_facts:
  "set (sorted_kids replies p) = {m \<in> set replies. Message_ParentID m = Some p}"
  "distinct replies \<Longrightarrow> distinct (sorted_kids replies p)"
  "sorted (map Message_CreatedAt (sorted_kids replies p))"
proof -
  have m: "mset (sorted_kids replies p) = mset (filter (\<lambda>m. Message_ParentID m = Some p) replies)"
    by (simp add: sorted_kids_def sort_children_sorts(1) childrenMap_slice)
  show "set (sorted_kids replies p) = {m \<in> set replies. Message_ParentID m = Some p}"
    using m by (metis set_filter set_mset_mset)
  show "distinct replies \<Longrightarrow> distinct (sorted_kids replies p)"
    using m by (metis distinct_filter mset_eq_imp_distinct_iff)
  show "sorted (map Message_CreatedAt (sorted_kids replies p))" by (simp add: sorted_kids_def sort_children_sorts(2))
qed

section \<open>The shown order\<close>

text \<open>The messages below a message.\<close>

inductive below :: "Message set \<Rightarrow> u64 \<Rightarrow> Message \<Rightarrow> bool" for R r where
  child: "\<lbrakk>m \<in> R; Message_ParentID m = Some r\<rbrakk> \<Longrightarrow> below R r m"
| deeper: "\<lbrakk>below R r p; m \<in> R; Message_ParentID m = Some (Message_ID p)\<rbrakk> \<Longrightarrow> below R r m"

text \<open>What the server sends: ids are distinct, and a reply has a larger id than its parent.\<close>

definition replies_ok :: "Message list \<Rightarrow> bool" where
  "replies_ok replies \<longleftrightarrow> distinct (map Message_ID replies) \<and> (\<forall>m \<in> set replies. \<forall>p. Message_ParentID m = Some p \<longrightarrow> p < Message_ID m)"

lemma below_facts:
  assumes "below R r m" and "\<forall>m \<in> R. \<forall>p. Message_ParentID m = Some p \<longrightarrow> p < Message_ID m"
  shows "m \<in> R" and "r < Message_ID m"
  using assms by (induction) (auto intro: less_trans)

lemma below_parent:
  assumes "below R r m" and "\<forall>m \<in> R. \<forall>p. Message_ParentID m = Some p \<longrightarrow> p < Message_ID m"
  shows "\<exists>p. Message_ParentID m = Some p \<and> r \<le> p"
  using assms(1) by cases (auto dest: below_facts(2) [OF _ assms(2)] intro: less_imp_le)

text \<open>A message below r is a child of r or below one, and only one, as the messages above it form a chain.\<close>

lemma below_step: "below R r m \<longleftrightarrow> (\<exists>c \<in> R. Message_ParentID c = Some r \<and> (m = c \<or> below R (Message_ID c) m))"
proof
  assume "below R r m"
  then show "\<exists>c \<in> R. Message_ParentID c = Some r \<and> (m = c \<or> below R (Message_ID c) m)"
    by (induction) (auto intro: below.intros)
next
  assume "\<exists>c \<in> R. Message_ParentID c = Some r \<and> (m = c \<or> below R (Message_ID c) m)"
  then obtain c where c: "c \<in> R" "Message_ParentID c = Some r" and m: "m = c \<or> below R (Message_ID c) m" by blast
  have "below R (Message_ID c) m \<Longrightarrow> below R r m" by (induction rule: below.induct) (auto intro: below.intros c)
  with m c show "below R r m" by (auto intro: below.child)
qed

lemma below_unique:
  assumes ids: "inj_on Message_ID R" and up: "\<forall>m \<in> R. \<forall>p. Message_ParentID m = Some p \<longrightarrow> p < Message_ID m"
    and c: "c \<in> R" "Message_ParentID c = Some r" and d: "d \<in> R" "Message_ParentID d = Some r"
    and m: "m = c \<or> below R (Message_ID c) m" "m = d \<or> below R (Message_ID d) m"
  shows "c = d"
proof -
  have chain: "below R (Message_ID d) m \<Longrightarrow> m = c \<or> below R (Message_ID c) m \<Longrightarrow>
      c = d \<or> below R (Message_ID c) d \<or> below R (Message_ID d) c" for m
  proof (induction rule: below.induct)
    case (child m)
    show ?case
    proof (cases "m = c")
      case False
      then have "below R (Message_ID c) m" using child.prems by simp
      then show ?thesis
      proof cases
        case (deeper p)
        then have "p = d" using child.hyps d(1) ids below_facts(1) [OF deeper(1) up] by (auto simp: inj_on_def)
        then show ?thesis using deeper by simp
      qed (use child.hyps c d ids in \<open>auto simp: inj_on_def\<close>)
    qed (use child.hyps in \<open>auto intro: below.child\<close>)
  next
    case (deeper p m)
    show ?case
    proof (cases "m = c")
      case False
      then have "below R (Message_ID c) m" using deeper.prems by simp
      then show ?thesis
      proof cases
        case child
        then have "p = c" using deeper.hyps c(1) ids below_facts(1) [OF deeper.hyps(1) up] by (auto simp: inj_on_def)
        then show ?thesis using deeper.hyps by simp
      next
        case (deeper q)
        then have "q = p" using deeper.hyps ids below_facts(1) [OF \<open>below R (Message_ID d) p\<close> up]
          below_facts(1) [OF \<open>below R (Message_ID c) q\<close> up] \<open>Message_ParentID m = Some (Message_ID p)\<close> by (auto simp: inj_on_def)
        then show ?thesis using deeper.IH deeper(1) by simp
      qed
    qed (use deeper.hyps in \<open>auto intro: below.deeper\<close>)
  qed
  have "\<not> below R (Message_ID a) b" if "a \<in> R" "Message_ParentID a = Some r" "Message_ParentID b = Some r" for a b
  proof
    assume "below R (Message_ID a) b"
    then have "Message_ID a \<le> r"
      by cases (use that below_facts(2) [OF _ up] in \<open>force+\<close>)
    then show False using up that by force
  qed
  with chain [of m] m c d show "c = d" by metis
qed

definition after :: "Message list \<Rightarrow> u64 \<Rightarrow> nat" where
  "after replies p = card {m \<in> set replies. p < Message_ID m}"

lemma after_less: "c \<in> set replies \<Longrightarrow> p < Message_ID c \<Longrightarrow> after replies (Message_ID c) < after replies p"
  unfolding after_def by (rule psubset_card_mono) auto

text \<open>Children of one parent, walked: every message below them, once, the children of each in the order of its list.\<close>

definition walked :: "Message list \<Rightarrow> u64 \<Rightarrow> Message list \<Rightarrow> Message list \<Rightarrow> bool" where
  "walked replies r xs ys \<longleftrightarrow> set ys = set xs \<union> {m. \<exists>c \<in> set xs. below (set replies) (Message_ID c) m} \<and> distinct ys \<and>
     filter (\<lambda>m. Message_ParentID m = Some r) ys = xs \<and>
     (\<forall>q. q \<noteq> r \<longrightarrow> filter (\<lambda>m. Message_ParentID m = Some q) ys = (if \<exists>m \<in> set ys. Message_ID m = q then sorted_kids replies q else []))"

lemma walked_Cons:
  assumes ok: "replies_ok replies" and xs: "set (c # rest) \<subseteq> {m \<in> set replies. Message_ParentID m = Some r}" "c \<notin> set rest"
    and sub: "walked replies (Message_ID c) (sorted_kids replies (Message_ID c)) sub" and others: "walked replies r rest others"
  shows "walked replies r (c # rest) (c # sub @ others)"
proof -
  let ?R = "set replies"
  have ids: "inj_on Message_ID ?R" and up: "\<forall>m \<in> ?R. \<forall>p. Message_ParentID m = Some p \<longrightarrow> p < Message_ID m"
    using ok by (auto simp: replies_ok_def distinct_map)
  have c: "c \<in> ?R" "Message_ParentID c = Some r" and rc: "r < Message_ID c" using xs(1) up by auto
  have s: "set sub = {m. below ?R (Message_ID c) m}" using sub below_step [of ?R "Message_ID c"]
    by (auto simp: walked_def sorted_kids_facts(1))
  have o: "set others = set rest \<union> {m. \<exists>d \<in> set rest. below ?R (Message_ID d) m}" using others by (simp add: walked_def)
  have inR: "set sub \<subseteq> ?R" "set others \<subseteq> ?R" using s o xs(1) below_facts(1) [OF _ up] by auto
  have apart: "m \<notin> set others" if "m = c \<or> below ?R (Message_ID c) m" for m
  proof
    assume "m \<in> set others"
    then obtain d where d: "d \<in> set rest" "m = d \<or> below ?R (Message_ID d) m" using o by auto
    then have "c = d" using below_unique [OF ids up c _ _ that d(2)] xs(1) by auto
    with d xs(2) show False by simp
  qed
  have "c \<notin> set sub" using s below_facts(2) [OF _ up] by force
  moreover have "distinct sub" "distinct others" using sub others by (simp_all add: walked_def)
  moreover have "c \<notin> set others" "set sub \<inter> set others = {}" using apart s by blast+
  ultimately have dist: "distinct (c # sub @ others)" by simp
  have "Message_ParentID m \<noteq> Some r" if "m \<in> set sub" for m
    using that s rc below_parent [OF _ up, of "Message_ID c" m] by auto
  then have fr: "filter (\<lambda>m. Message_ParentID m = Some r) (c # sub @ others) = c # rest"
    using c others by (simp add: walked_def filter_empty_conv)
  have fq: "filter (\<lambda>m. Message_ParentID m = Some q) (c # sub @ others) =
      (if \<exists>m \<in> set (c # sub @ others). Message_ID m = q then sorted_kids replies q else [])" if "q \<noteq> r" for q
  proof -
    have "filter (\<lambda>m. Message_ParentID m = Some q) others = (if \<exists>m \<in> set others. Message_ID m = q then sorted_kids replies q else [])"
      using others that by (simp add: walked_def)
    moreover have "filter (\<lambda>m. Message_ParentID m = Some q) sub = (if \<exists>m \<in> insert c (set sub). Message_ID m = q then sorted_kids replies q else [])"
      using sub by (cases "q = Message_ID c") (auto simp: walked_def)
    moreover have "\<not> ((\<exists>m \<in> insert c (set sub). Message_ID m = q) \<and> (\<exists>m \<in> set others. Message_ID m = q))"
    proof
      assume "(\<exists>m \<in> insert c (set sub). Message_ID m = q) \<and> (\<exists>m \<in> set others. Message_ID m = q)"
      then obtain a b where ab: "a \<in> insert c (set sub)" "b \<in> set others" "Message_ID a = Message_ID b" by auto
      then have "a = b" using inR c(1) by (intro inj_onD [OF ids]) auto
      then show False using ab apart [of a] s by blast
    qed
    ultimately show ?thesis using that c(2) by auto
  qed
  have "set (c # sub @ others) = set (c # rest) \<union> {m. \<exists>d \<in> set (c # rest). below ?R (Message_ID d) m}" using s o by auto
  with dist fr fq show ?thesis unfolding walked_def by blast
qed

lemma traverse_walked:
  assumes ok: "replies_ok replies"
    and "set xs \<subseteq> {m \<in> set replies. Message_ParentID m = Some r}" and "distinct xs"
  shows "\<exists>ys. traverse (sorted_kids replies) xs = Some ys \<and> walked replies r xs ys"
  using assms(2,3)
proof (induction "after replies r" arbitrary: r xs rule: less_induct)
  case less
  then show ?case
  proof (induction xs)
    case Nil
    then show ?case by (simp add: traverse.simps walked_def)
  next
    case (Cons c rest)
    then obtain others where others: "traverse (sorted_kids replies) rest = Some others" "walked replies r rest others" by auto
    have c: "c \<in> set replies" "r < Message_ID c" using Cons.prems ok by (auto simp: replies_ok_def)
    have "distinct replies" using ok by (auto simp: replies_ok_def distinct_map)
    then have "\<exists>sub. traverse (sorted_kids replies) (sorted_kids replies (Message_ID c)) = Some sub \<and>
        walked replies (Message_ID c) (sorted_kids replies (Message_ID c)) sub"
      by (intro Cons.prems(1) after_less c) (simp_all add: sorted_kids_facts)
    then obtain sub where sub: "traverse (sorted_kids replies) (sorted_kids replies (Message_ID c)) = Some sub"
      "walked replies (Message_ID c) (sorted_kids replies (Message_ID c)) sub" by blast
    have "walked replies r (c # rest) (c # sub @ others)"
      by (rule walked_Cons [OF ok _ _ sub(2) others(2)]) (use Cons.prems in auto)
    then show ?case using sub(1) others(1) by (subst traverse.simps) simp
  qed
qed

text \<open>What follows a message in the walk begins with the walk of its children.\<close>

lemma traverse_contiguous:
  assumes "traverse kids xs = Some ys"
  shows "traverse kids xs = Some ys \<and> (\<forall>before m rest. ys = before @ m # rest \<longrightarrow>
    (\<exists>sub others. traverse kids (kids (Message_ID m)) = Some sub \<and> rest = sub @ others))"
  using assms
proof (rule traverse.raw_induct [rotated 1])
  fix f kids xs ys
  let ?P = "\<lambda>kids xs ys. traverse kids xs = Some ys \<and> (\<forall>before m rest. ys = before @ m # rest \<longrightarrow>
    (\<exists>sub others. traverse kids (kids (Message_ID m)) = Some sub \<and> rest = sub @ others))"
  assume IH: "\<And>kids xs ys. f kids xs = Some ys \<Longrightarrow> ?P kids xs ys"
    and run: "(case xs of [] \<Rightarrow> Some [] | child # rest \<Rightarrow> Option.bind (f kids (kids (Message_ID child))) (\<lambda>below.
      Option.bind (f kids rest) (\<lambda>others. Some (child # below @ others)))) = Some ys"
  show "?P kids xs ys"
  proof (cases xs)
    case (Cons c cs)
    then obtain sub others where *: "f kids (kids (Message_ID c)) = Some sub" "f kids cs = Some others" and ys: "ys = c # sub @ others"
      using run by (auto simp: bind_eq_Some_conv)
    note sub = IH [OF *(1)] and others = IH [OF *(2)]
    have "traverse kids xs = Some ys" using sub others by (subst traverse.simps) (simp add: Cons ys)
    moreover have "\<exists>sub' others'. traverse kids (kids (Message_ID m)) = Some sub' \<and> rest = sub' @ others'"
      if split: "ys = before @ m # rest" for before m rest
    proof (cases before)
      case Nil
      then show ?thesis using split sub by (auto simp: ys)
    next
      case (Cons b bs)
      then have "sub @ others = bs @ m # rest" using split by (simp add: ys)
      then obtain us where "sub = bs @ us \<and> us @ others = m # rest \<or> others = us @ m # rest"
        by (auto simp: append_eq_append_conv2)
      then consider us where "sub = bs @ m # us" "rest = us @ others" | us where "others = us @ m # rest"
        by (cases us) auto
      then show ?thesis by cases (use sub others in fastforce)+
    qed
    ultimately show ?thesis by blast
  qed (use run in \<open>simp add: traverse.simps\<close>)
qed

text \<open>C21. The replies of a thread are shown as a tree: from replies with distinct ids, each larger than its parent's, the client's
  recursion ends and lists every reply below the root exactly once and nothing else, each directly followed by
  exactly the replies below it, and the replies to one message in the order of their times.\<close>

theorem thread_shown_as_tree:
  assumes "replies_ok replies"
  shows "\<exists>ys. SortThreadReplies replies rootID = Some ys \<and> distinct ys \<and> set ys = {m. below (set replies) rootID m} \<and>
    (\<forall>q. sorted (map Message_CreatedAt (filter (\<lambda>m. Message_ParentID m = Some q) ys))) \<and>
    (\<forall>before m rest. ys = before @ m # rest \<longrightarrow>
      (\<exists>sub others. rest = sub @ others \<and> set sub = {d. below (set replies) (Message_ID m) d}))"
proof (cases "replies = []")
  case True
  have "\<not> below {} rootID m" for m using below_step [of "{}" rootID m] by simp
  then show ?thesis by (simp add: SortThreadReplies_def True)
next
  case False
  let ?K = "sorted_kids replies"
  have walk: "\<exists>ys. traverse ?K (?K r) = Some ys \<and> walked replies r (?K r) ys" for r
    using assms by (intro traverse_walked) (auto simp: sorted_kids_facts replies_ok_def distinct_map)
  have all: "set ys = {m. below (set replies) r m}" if "walked replies r (?K r) ys" for r ys
    using that below_step [of "set replies" r] by (auto simp: walked_def sorted_kids_facts(1))
  obtain ys where ys: "traverse ?K (?K rootID) = Some ys" "walked replies rootID (?K rootID) ys" using walk by blast
  have "sorted (map Message_CreatedAt (filter (\<lambda>m. Message_ParentID m = Some q) ys))" for q
    using ys(2) by (cases "q = rootID") (auto simp: walked_def sorted_kids_facts(3))
  moreover have "\<exists>sub others. rest = sub @ others \<and> set sub = {d. below (set replies) (Message_ID m) d}" if "ys = before @ m # rest" for before m rest
    using traverse_contiguous [OF ys(1)] that walk [of "Message_ID m"] all by fastforce
  ultimately show ?thesis using ys all [OF ys(2)] False by (auto simp: SortThreadReplies_def walked_def)
qed

text \<open>One circular reply hangs the client: when a reply of the thread has its own id as parent and is shown under it, the
  recursion of SortThreadReplies never ends.\<close>

theorem circular_reply_hangs:
  assumes "m \<in> set replies" and "Message_ParentID m = Some (Message_ID m)"
  shows "SortThreadReplies replies (Message_ID m) = None"
proof -
  let ?K = "sorted_kids replies" and ?i = "Message_ID m"
  have "k = ?K \<longrightarrow> m \<notin> set xs" if "traverse k xs = Some ys" for k xs ys
  proof (rule traverse.raw_induct [where P = "\<lambda>k xs ys. k = ?K \<longrightarrow> m \<notin> set xs", OF _ that])
    fix f k xs ys
    assume IH: "\<And>k xs ys. f k xs = Some ys \<Longrightarrow> k = ?K \<longrightarrow> m \<notin> set xs"
      and run: "(case xs of [] \<Rightarrow> Some [] | child # rest \<Rightarrow> Option.bind (f k (k (Message_ID child))) (\<lambda>below.
        Option.bind (f k rest) (\<lambda>others. Some (child # below @ others)))) = Some (ys :: Message list)"
    have "m \<in> set (?K ?i)" using assms by (simp add: sorted_kids_facts(1))
    then show "k = ?K \<longrightarrow> m \<notin> set xs" using IH run by (cases xs) (auto simp: bind_eq_Some_conv)
  qed
  then have "m \<notin> set (?K ?i)" if "traverse ?K (?K ?i) = Some ys" for ys using that by blast
  moreover have "m \<in> set (?K ?i)" using assms by (simp add: sorted_kids_facts(1))
  ultimately have "traverse ?K (?K ?i) = None" by (cases "traverse ?K (?K ?i)") auto
  then show ?thesis using assms(1) by (auto simp: SortThreadReplies_def)
qed

section \<open>Depths\<close>

lemma depths_set:
  "fold (\<lambda>child d. d(Message_ID child \<mapsto> n)) cs d i = (if i \<in> Message_ID ` set cs then Some n else d i)"
  by (induction cs arbitrary: d) auto

text \<open>The ids taken from the queue are those in "seen"; the root and their children are in the map.\<close>

definition entered :: "Message list \<Rightarrow> u64 \<Rightarrow> u64 set \<Rightarrow> u64 set" where
  "entered replies rootID seen = insert rootID (Message_ID ` {m \<in> set replies. \<exists>p \<in> seen. Message_ParentID m = Some p})"

definition depths_ok :: "Message list \<Rightarrow> u64 \<Rightarrow> u64 set \<Rightarrow> u64 list \<Rightarrow> (u64 \<rightharpoonup> int) \<Rightarrow> bool" where
  "depths_ok replies rootID seen queue d \<longleftrightarrow> distinct queue \<and> seen \<inter> set queue = {} \<and> dom d = seen \<union> set queue \<and> d rootID = Some 0 \<and>
     entered replies rootID seen = seen \<union> set queue \<and> (\<forall>i \<in> seen \<union> set queue. rootID \<le> i) \<and>
     (\<forall>m \<in> set replies. \<forall>p \<in> seen. Message_ParentID m = Some p \<longrightarrow> d (Message_ID m) = map_option (\<lambda>n. n + 1) (d p))"

lemma depths_okD:
  assumes "depths_ok replies rootID seen queue d" and "i \<in> dom d"
  shows "i = rootID \<or> (\<exists>m \<in> set replies. Message_ID m = i \<and> (\<exists>q \<in> seen. Message_ParentID m = Some q))"
proof -
  have "i \<in> entered replies rootID seen" using assms by (simp add: depths_ok_def)
  then show ?thesis by (auto simp: entered_def)
qed

lemma depths_ok_step:
  assumes ok: "replies_ok replies" and inv: "depths_ok replies rootID seen (p # queue) d"
    and kids: "set kids = {m \<in> set replies. Message_ParentID m = Some p}" "distinct kids"
  shows "depths_ok replies rootID (insert p seen) (queue @ map Message_ID kids)
    (fold (\<lambda>child e. e(Message_ID child \<mapsto> (case d p of None \<Rightarrow> 0 | Some n \<Rightarrow> n) + 1)) kids d)"
proof -
  let ?R = "set replies"
  have "p \<in> dom d" using inv by (simp add: depths_ok_def)
  then obtain n where n: "d p = Some n" by blast
  let ?d = "fold (\<lambda>child e. e(Message_ID child \<mapsto> n + 1)) kids d"
  have ids: "inj_on Message_ID ?R" and up: "\<And>m q. m \<in> ?R \<Longrightarrow> Message_ParentID m = Some q \<Longrightarrow> q < Message_ID m"
    using ok by (auto simp: replies_ok_def distinct_map)
  have p: "p \<notin> seen" "rootID \<le> p" using inv by (auto simp: depths_ok_def)
  have new: "Message_ID m \<notin> dom d" if "m \<in> set kids" for m
  proof
    assume "Message_ID m \<in> dom d"
    moreover have "rootID < Message_ID m" using up [of m p] that kids(1) p(2) by auto
    ultimately obtain m' where "m' \<in> ?R" "Message_ID m' = Message_ID m" "\<exists>q \<in> seen. Message_ParentID m' = Some q"
      using depths_okD [OF inv, of "Message_ID m"] by auto
    moreover from this have "m' = m" using that kids(1) by (intro inj_onD [OF ids]) auto
    ultimately show False using that kids(1) p(1) by auto
  qed
  have d: "?d i = (if i \<in> Message_ID ` set kids then Some (n + 1) else d i)" for i by (rule depths_set)
  have dom: "dom ?d = dom d \<union> Message_ID ` set kids" using d by (auto split: if_splits)
  have old: "?d i = d i" if "i \<in> dom d" for i using d [of i] new that by auto
  have D: "dom d = insert p (seen \<union> set queue)" "distinct (p # queue)" "seen \<inter> set (p # queue) = {}" "d rootID = Some 0"
    "entered replies rootID seen = insert p (seen \<union> set queue)" "\<forall>i \<in> insert p (seen \<union> set queue). rootID \<le> i"
    using inv by (auto simp: depths_ok_def)
  have fresh: "Message_ID ` set kids \<inter> insert p (seen \<union> set queue) = {}" using new D(1) by auto
  show ?thesis unfolding depths_ok_def n option.case
  proof (intro conjI ballI impI allI)
    show "distinct (queue @ map Message_ID kids)"
      using D(2) kids ids fresh by (auto simp: distinct_map inj_on_def)
    show "insert p seen \<inter> set (queue @ map Message_ID kids) = {}" using D(2,3) fresh by auto
    show "dom ?d = insert p seen \<union> set (queue @ map Message_ID kids)" using dom D(1) by auto
    have "rootID \<in> dom d" using D(4) by auto
    then show "?d rootID = Some 0" using old [of rootID] D(4) by simp
    have "entered replies rootID (insert p seen) = entered replies rootID seen \<union> Message_ID ` set kids"
      by (auto simp: entered_def kids(1))
    then show "entered replies rootID (insert p seen) = insert p seen \<union> set (queue @ map Message_ID kids)" using D(5) by auto
    show "rootID \<le> i" if "i \<in> insert p seen \<union> set (queue @ map Message_ID kids)" for i
      using that D(6) order_trans [OF p(2) less_imp_le [OF up]] kids(1) by auto
    show "?d (Message_ID m) = map_option (\<lambda>n. n + 1) (?d q)"
      if "m \<in> ?R" "q \<in> insert p seen" "Message_ParentID m = Some q" for m q
    proof (cases "q = p")
      case True
      have "?d p = Some n" using old [of p] n by auto
      moreover have "?d (Message_ID m) = Some (n + 1)" using d [of "Message_ID m"] that True kids(1) by auto
      ultimately show ?thesis using True by simp
    next
      case False
      then have q: "q \<in> seen" using that(2) by simp
      then have "Message_ID m \<in> entered replies rootID seen" using that by (auto simp: entered_def)
      then have "Message_ID m \<in> dom d" "q \<in> dom d" "d (Message_ID m) = map_option (\<lambda>n. n + 1) (d q)"
        using inv that q D by (auto simp: depths_ok_def)
      then show ?thesis using old by simp
    qed
  qed
qed

lemma depth_loop_returns:
  assumes "replies_ok replies" and "depths_ok replies rootID seen queue d"
  shows "\<exists>e seen. depth_loop (slice_at (childrenMap replies)) queue d = Some e \<and> depths_ok replies rootID seen [] e"
  using assms(2)
proof (induction "mset (map (after replies) queue)" arbitrary: queue seen d rule: wf_induct_rule [OF wf_mult [OF wf_less_than]])
  case 1
  show ?case
  proof (cases queue)
    case Nil
    then show ?thesis using 1(2) by (auto simp: depth_loop.simps)
  next
    case (Cons p rest)
    let ?kids = "slice_at (childrenMap replies) p"
    let ?d = "fold (\<lambda>child e. e(Message_ID child \<mapsto> (case d p of None \<Rightarrow> 0 | Some n \<Rightarrow> n) + 1)) ?kids d"
    have kids: "set ?kids = {m \<in> set replies. Message_ParentID m = Some p}" "distinct ?kids"
      using assms(1) by (auto simp: childrenMap_slice replies_ok_def distinct_map)
    have less: "after replies (Message_ID m) < after replies p" if "m \<in> set ?kids" for m
      using that kids(1) assms(1) by (auto simp: replies_ok_def intro: after_less)
    have "(mset (map (after replies) rest) + mset (map (after replies) (map Message_ID ?kids)),
        mset (map (after replies) rest) + {#after replies p#}) \<in> mult less_than"
      by (rule one_step_implies_mult) (use less in auto)
    then have "(mset (map (after replies) (rest @ map Message_ID ?kids)), mset (map (after replies) queue)) \<in> mult less_than"
      by (simp add: Cons)
    from 1(1) [OF this depths_ok_step [OF assms(1) 1(2) [unfolded Cons] kids]] show ?thesis
      by (subst depth_loop.simps) (simp add: Cons)
  qed
qed

text \<open>Replies are indented by their depth: from replies with distinct ids, each larger than its parent's, the queue of
  CalculateThreadDepths runs empty, and its map holds the root at depth 0 and every reply below it one deeper than its parent, and nothing else.\<close>

theorem thread_depths:
  assumes "replies_ok replies"
  shows "\<exists>d. CalculateThreadDepths rootID replies = Some d \<and> d rootID = Some 0 \<and>
    dom d = insert rootID (Message_ID ` {m. below (set replies) rootID m}) \<and>
    (\<forall>m \<in> set replies. \<forall>p n. Message_ParentID m = Some p \<and> d p = Some n \<longrightarrow> d (Message_ID m) = Some (n + 1))"
proof -
  have "depths_ok replies rootID {} [rootID] [rootID \<mapsto> 0]" by (simp add: depths_ok_def entered_def)
  from depth_loop_returns [OF assms this] obtain d seen where run: "CalculateThreadDepths rootID replies = Some d"
    and d: "depths_ok replies rootID seen [] d" by (auto simp: CalculateThreadDepths_def)
  have up: "\<forall>m \<in> set replies. \<forall>p. Message_ParentID m = Some p \<longrightarrow> p < Message_ID m" using assms by (simp add: replies_ok_def)
  have step: "d (Message_ID m) = Some (n + 1)" if "m \<in> set replies" "Message_ParentID m = Some p" "d p = Some n" for m p n
    using d that unfolding depths_ok_def by force
  have "\<exists>n. d (Message_ID m) = Some n" if "below (set replies) rootID m" for m
    using that by induction (use d step in \<open>auto simp: depths_ok_def\<close>)
  moreover have "below (set replies) rootID m" if "m \<in> set replies" "Message_ParentID m = Some p" "p \<in> dom d" for m p
    using that
  proof (induction p arbitrary: m rule: less_induct)
    case (less p)
    show ?case
    proof (cases "p = rootID")
      case False
      then obtain m' q where "m' \<in> set replies" "p = Message_ID m'" "Message_ParentID m' = Some q" "q \<in> dom d"
        using depths_okD [OF d less.prems(3)] d unfolding depths_ok_def by auto
      then show ?thesis using less.IH [of q m'] less.prems up by (auto intro: below.deeper)
    qed (use less.prems in \<open>auto intro: below.child\<close>)
  qed
  then have "dom d \<subseteq> insert rootID (Message_ID ` {m. below (set replies) rootID m})"
    using depths_okD [OF d] d by (force simp: depths_ok_def)
  ultimately show ?thesis using run d step by (auto simp: depths_ok_def)
qed

section \<open>A small thread\<close>

definition reply_msg :: "u64 \<Rightarrow> u64 \<Rightarrow> gotime \<Rightarrow> Message" where
  "reply_msg i p t = Message_zero\<lparr>Message_ID := i, Message_ParentID := Some p, Message_CreatedAt := t\<rparr>"

abbreviation small_thread :: "Message list" where
  "small_thread \<equiv> [reply_msg 3 1 9, reply_msg 2 1 5, reply_msg 4 2 7]"

lemma small_thread_ok: "replies_ok small_thread"
  by (simp add: replies_ok_def reply_msg_def)

lemma small_below: "below (set small_thread) 1 (reply_msg 4 2 7)"
  by (rule below.deeper [OF below.child, of "reply_msg 2 1 5"]) (simp_all add: reply_msg_def)

lemma thread_shown_as_tree_witness:
  "\<exists>ys. SortThreadReplies small_thread 1 = Some ys \<and> distinct ys \<and> reply_msg 4 2 7 \<in> set ys"
  using thread_shown_as_tree [OF small_thread_ok, of 1] small_below by auto

lemma circular_reply_hangs_witness: "SortThreadReplies [reply_msg 5 5 1] 5 = None"
  using circular_reply_hangs [of "reply_msg 5 5 1" "[reply_msg 5 5 1]"] by (simp add: reply_msg_def)

lemma thread_depths_witness:
  "\<exists>d. CalculateThreadDepths 1 small_thread = Some d \<and> d 2 = Some 1 \<and> d 4 = Some 2"
proof -
  obtain d where d: "CalculateThreadDepths 1 small_thread = Some d" "d 1 = Some 0"
    "\<forall>m \<in> set small_thread. \<forall>p n. Message_ParentID m = Some p \<and> d p = Some n \<longrightarrow> d (Message_ID m) = Some (n + 1)"
    using thread_depths [OF small_thread_ok, of 1] by auto
  then have "d 2 = Some 1" by (simp add: reply_msg_def)
  then show ?thesis using d by (simp add: reply_msg_def)
qed

end
