(* ===== verification/WriteBuf.thy ===== *)
theory WriteBuf imports GoRun begin

text \<open>
  The write buffer of "pkg/database/write_buffer.go": goroutines queue new sessions, messages, updates and
  deletions, and one goroutine flushes what is queued in a single transaction and
  answers the goroutines that wait, each on a channel of its own.

  database/sql is external: beginning a transaction, executing a statement in it, reading the
  rows of a query and committing are parameters, as are the order in which Go ranges over a map and what a probing read of a
  connection returns. The texts of the statements and their arguments are the code's. A prepared
  statement is its text; the deferred Rollback follows a Commit, and has no effect then.
\<close>

section \<open>Data\<close>

type_synonym chan = nat

record 'c pendingSessionCreate =
  sc_userID :: "i64 option"
  sc_nickname :: gostring
  sc_connType :: gostring
  sc_timestamp :: i64
  sc_resultIndex :: nat
  sc_conn :: 'c

record sessionCreateResult =
  sr_sessionID :: i64
  sr_err :: "db_error option"

record pendingMessage =
  pm_channelID :: i64
  pm_subchannelID :: "i64 option"
  pm_parentID :: "i64 option"
  pm_authorUserID :: "i64 option"
  pm_authorNickname :: gostring
  pm_content :: gostring
  pm_timestamp :: i64
  pm_resultIndex :: nat

record messageResult =
  mr_messageID :: i64
  mr_message :: "DBMessage option"
  mr_err :: "db_error option"

text \<open>The queues. wb_made counts the channels made so far, so that the next one is new.\<close>

record 'c WriteBuffer =
  wb_sessionCreates :: "'c pendingSessionCreate list"
  wb_sessionCreateResults :: "nat \<rightharpoonup> chan"
  wb_sessionUpdates :: "i64 \<rightharpoonup> i64"
  wb_nicknameUpdates :: "i64 \<rightharpoonup> gostring"
  wb_messageInserts :: "pendingMessage list"
  wb_messageResults :: "nat \<rightharpoonup> chan"
  wb_sessionDeletions :: "i64 set"
  wb_made :: nat

definition NewWriteBuffer :: "'c WriteBuffer" where
  "NewWriteBuffer =
    \<lparr>wb_sessionCreates = [], wb_sessionCreateResults = Map.empty, wb_sessionUpdates = Map.empty, wb_nicknameUpdates = Map.empty,
     wb_messageInserts = [], wb_messageResults = Map.empty, wb_sessionDeletions = {}, wb_made = 0\<rparr>"

section \<open>Queueing\<close>

text \<open>What CreateSession and PostMessage do before they wait for their channel; the time is the reading they take.\<close>

definition wb_CreateSession :: "i64 option \<Rightarrow> gostring \<Rightarrow> gostring \<Rightarrow> 'c \<Rightarrow> i64 \<Rightarrow> 'c WriteBuffer \<Rightarrow> 'c WriteBuffer" where
  "wb_CreateSession userID nickname connType conn now wb =
    (let resultIndex = length (wb_sessionCreates wb) in
     wb\<lparr>wb_sessionCreates := wb_sessionCreates wb @
          [\<lparr>sc_userID = userID, sc_nickname = nickname, sc_connType = connType, sc_timestamp = now,
            sc_resultIndex = resultIndex, sc_conn = conn\<rparr>],
        wb_sessionCreateResults := (wb_sessionCreateResults wb)(resultIndex \<mapsto> wb_made wb), wb_made := Suc (wb_made wb)\<rparr>)"

definition wb_UpdateSessionActivity :: "i64 \<Rightarrow> i64 \<Rightarrow> 'c WriteBuffer \<Rightarrow> 'c WriteBuffer" where
  "wb_UpdateSessionActivity sessionID timestamp wb = wb\<lparr>wb_sessionUpdates := (wb_sessionUpdates wb)(sessionID \<mapsto> timestamp)\<rparr>"

definition wb_UpdateSessionNickname :: "i64 \<Rightarrow> gostring \<Rightarrow> 'c WriteBuffer \<Rightarrow> 'c WriteBuffer" where
  "wb_UpdateSessionNickname sessionID nickname wb = wb\<lparr>wb_nicknameUpdates := (wb_nicknameUpdates wb)(sessionID \<mapsto> nickname)\<rparr>"

definition wb_PostMessage ::
  "i64 \<Rightarrow> i64 option \<Rightarrow> i64 option \<Rightarrow> i64 option \<Rightarrow> gostring \<Rightarrow> gostring \<Rightarrow> i64 \<Rightarrow> 'c WriteBuffer \<Rightarrow> 'c WriteBuffer" where
  "wb_PostMessage channelID subchannelID parentID authorUserID authorNickname content now wb =
    (let resultIndex = length (wb_messageInserts wb) in
     wb\<lparr>wb_messageInserts := wb_messageInserts wb @
          [\<lparr>pm_channelID = channelID, pm_subchannelID = subchannelID, pm_parentID = parentID, pm_authorUserID = authorUserID,
            pm_authorNickname = authorNickname, pm_content = content, pm_timestamp = now, pm_resultIndex = resultIndex\<rparr>],
        wb_messageResults := (wb_messageResults wb)(resultIndex \<mapsto> wb_made wb), wb_made := Suc (wb_made wb)\<rparr>)"

definition wb_DeleteSession :: "i64 \<Rightarrow> 'c WriteBuffer \<Rightarrow> 'c WriteBuffer" where
  "wb_DeleteSession sessionID wb = wb\<lparr>wb_sessionDeletions := insert sessionID (wb_sessionDeletions wb)\<rparr>"

text \<open>What other goroutines may queue at any time.\<close>

datatype 'c wb_op =
    QCreate "i64 option" gostring gostring 'c i64
  | QActivity i64 i64
  | QNickname i64 gostring
  | QPost i64 "i64 option" "i64 option" "i64 option" gostring gostring i64
  | QDelete i64

fun queue :: "'c wb_op \<Rightarrow> 'c WriteBuffer \<Rightarrow> 'c WriteBuffer" where
  "queue (QCreate u n t c now) = wb_CreateSession u n t c now"
| "queue (QActivity i ts) = wb_UpdateSessionActivity i ts"
| "queue (QNickname i n) = wb_UpdateSessionNickname i n"
| "queue (QPost ch sub p u n text now) = wb_PostMessage ch sub p u n text now"
| "queue (QDelete i) = wb_DeleteSession i"

section \<open>The probe of a connection\<close>

text \<open>What the read with a deadline of one millisecond returns.\<close>

datatype probe = ProbeData | ProbeTimeout | ProbeEOF | ProbeEPIPE | ProbeECONNRESET | ProbeOther

fun isConnAlive :: "probe \<Rightarrow> bool" where
  "isConnAlive ProbeData = True"
| "isConnAlive ProbeTimeout = True"
| "isConnAlive ProbeEOF = False"
| "isConnAlive ProbeEPIPE = False"
| "isConnAlive ProbeECONNRESET = False"
| "isConnAlive ProbeOther = False"

section \<open>The database\<close>

datatype sql_value = SqlInt i64 | SqlNull | SqlText gostring

definition null_int :: "i64 option \<Rightarrow> sql_value" where
  "null_int v = (case v of None \<Rightarrow> SqlNull | Some i \<Rightarrow> SqlInt i)"

text \<open>
  The write connection, with the state of the database 'q and of a transaction 't. A row of a
  query that cannot be scanned is None.
\<close>

record ('q, 't) write_conn =
  wc_Begin :: "'q \<Rightarrow> db_error + 't"
  wc_Prepare :: "gostring \<Rightarrow> 't \<Rightarrow> db_error option \<times> 't"
  wc_Exec :: "gostring \<Rightarrow> sql_value list \<Rightarrow> 't \<Rightarrow> db_error option \<times> 't"
  wc_Query :: "gostring \<Rightarrow> sql_value list \<Rightarrow> 't \<Rightarrow> (db_error + (i64 \<times> i64 option) option list) \<times> 't"
  wc_Commit :: "'t \<Rightarrow> db_error option \<times> 'q"

text \<open>What surrounds a flush: the connection, the probe, and the orders of the four ranges over maps of
  ids and of the ranges over the channels.\<close>

record ('c, 'q, 't) flush_env =
  fe_db :: "('q, 't) write_conn"
  fe_probe :: "'c \<Rightarrow> probe"
  fe_ids :: ranges
  fe_keys :: "nat set \<Rightarrow> nat list"

section \<open>Flushing\<close>

text \<open>The state of a flush inside its transaction: what was sent, each on its channel, in order.\<close>

record 't Flush =
  fl_tx :: 't
  fl_sessions :: "(chan \<times> sessionCreateResult) list"
  fl_messages :: "(chan \<times> messageResult) list"
  fl_snowflake :: Snowflake
  fl_clock :: "i64 list"

text \<open>A send; on a channel that is not in the map, a nil channel, it would wait for ever.\<close>

definition send_session :: "(nat \<rightharpoonup> chan) \<Rightarrow> nat \<Rightarrow> sessionCreateResult \<Rightarrow> 't Flush \<Rightarrow> 't Flush option" where
  "send_session results i r f =
    (case results i of None \<Rightarrow> None | Some c \<Rightarrow> Some (f\<lparr>fl_sessions := fl_sessions f @ [(c, r)]\<rparr>))"

definition send_message :: "(nat \<rightharpoonup> chan) \<Rightarrow> nat \<Rightarrow> messageResult \<Rightarrow> 't Flush \<Rightarrow> 't Flush option" where
  "send_message results i r f =
    (case results i of None \<Rightarrow> None | Some c \<Rightarrow> Some (f\<lparr>fl_messages := fl_messages f @ [(c, r)]\<rparr>))"

fun each :: "('a \<Rightarrow> 's \<Rightarrow> 's option) \<Rightarrow> 'a list \<Rightarrow> 's \<Rightarrow> 's option" where
  "each g [] s = Some s"
| "each g (x # xs) s = Option.bind (g x s) (each g xs)"

definition session_error :: "db_error \<Rightarrow> sessionCreateResult" where
  "session_error e = \<lparr>sr_sessionID = 0, sr_err = Some e\<rparr>"

definition message_error :: "db_error \<Rightarrow> messageResult" where
  "message_error e = \<lparr>mr_messageID = 0, mr_message = None, mr_err = Some e\<rparr>"

text \<open>The steps of the loops over the rows of a statement, of at most n rows each.\<close>

function row_chunks :: "nat \<Rightarrow> 'a list \<Rightarrow> 'a list list" where
  "row_chunks n rows = (if rows = [] \<or> n = 0 then [] else take n rows # row_chunks n (drop n rows))"
  by pat_completeness auto
termination by (relation "measure (\<lambda>(n, rows). length rows)") auto

declare row_chunks.simps [simp del]

definition placeholders :: "gostring \<Rightarrow> nat \<Rightarrow> gostring" where
  "placeholders row n = concat (map (\<lambda>i. (if 0 < i then lit '','' else []) @ row) [0..<n])"

subsection \<open>New sessions\<close>

fun valid_sessions ::
  "('c \<Rightarrow> probe) \<Rightarrow> (nat \<rightharpoonup> chan) \<Rightarrow> 'c pendingSessionCreate list \<Rightarrow> 't Flush \<Rightarrow> (('c pendingSessionCreate \<times> i64) list \<times> 't Flush) option" where
  "valid_sessions pr results [] f = Some ([], f)"
| "valid_sessions pr results (s # ss) f =
    (if \<not> isConnAlive (pr (sc_conn s)) then
       Option.bind (send_session results (sc_resultIndex s) (session_error (ErrText (lit ''connection closed before session creation''))) f)
         (valid_sessions pr results ss)
     else
       (case NextID (fl_snowflake f) (fl_clock f) of None \<Rightarrow> None
        | Some (i, sf, clock) \<Rightarrow>
           map_option (apfst ((#) (s, i))) (valid_sessions pr results ss (f\<lparr>fl_snowflake := sf, fl_clock := clock\<rparr>))))"

definition session_insert :: "('c pendingSessionCreate \<times> i64) list \<Rightarrow> gostring \<times> sql_value list" where
  "session_insert chunk =
    (lit ''INSERT INTO Session (id, user_id, nickname, connection_type, connected_at, last_activity) VALUES ''
       @ placeholders (lit ''(?,?,?,?,?,?)'') (length chunk),
     concat (map (\<lambda>(s, i). [SqlInt i, null_int (sc_userID s), SqlText (sc_nickname s), SqlText (sc_connType s),
       SqlInt (sc_timestamp s), SqlInt (sc_timestamp s)]) chunk))"

definition insert_session_chunk ::
  "('q, 't) write_conn \<Rightarrow> (nat \<rightharpoonup> chan) \<Rightarrow> ('c pendingSessionCreate \<times> i64) list \<Rightarrow> 't Flush \<Rightarrow> 't Flush option" where
  "insert_session_chunk db results chunk f =
    (case wc_Exec db (fst (session_insert chunk)) (snd (session_insert chunk)) (fl_tx f) of (err, t) \<Rightarrow>
       each (\<lambda>s. send_session results (sc_resultIndex (fst s))
           (case err of Some e \<Rightarrow> session_error e | None \<Rightarrow> \<lparr>sr_sessionID = snd s, sr_err = None\<rparr>))
         chunk (f\<lparr>fl_tx := t\<rparr>))"

definition create_sessions ::
  "('c, 'q, 't) flush_env \<Rightarrow> (nat \<rightharpoonup> chan) \<Rightarrow> 'c pendingSessionCreate list \<Rightarrow> 't Flush \<Rightarrow> 't Flush option" where
  "create_sessions env results creates f =
    Option.bind (valid_sessions (fe_probe env) results creates f)
      (\<lambda>(valid, f). each (insert_session_chunk (fe_db env) results) (row_chunks 5461 valid) f)"

subsection \<open>Updates and deletions\<close>

text \<open>A statement prepared once and executed for each row; errors are only logged.\<close>

definition exec_each :: "('q, 't) write_conn \<Rightarrow> gostring \<Rightarrow> sql_value list list \<Rightarrow> 't \<Rightarrow> 't" where
  "exec_each db query rows t =
    (if rows = [] then t
     else (case wc_Prepare db query t of (Some err, t) \<Rightarrow> t
       | (None, t) \<Rightarrow> fold (\<lambda>row t. snd (wc_Exec db query row t)) rows t))"

definition update_activity :: "('c, 'q, 't) flush_env \<Rightarrow> (i64 \<rightharpoonup> i64) \<Rightarrow> 't \<Rightarrow> 't" where
  "update_activity env updates = exec_each (fe_db env) (lit ''UPDATE Session SET last_activity = ? WHERE id = ?'')
    (List.map_filter (\<lambda>i. map_option (\<lambda>ts. [SqlInt ts, SqlInt i]) (updates i)) (fe_ids env 0 (dom updates)))"

definition update_nicknames :: "('c, 'q, 't) flush_env \<Rightarrow> (i64 \<rightharpoonup> gostring) \<Rightarrow> 't \<Rightarrow> 't" where
  "update_nicknames env updates = exec_each (fe_db env) (lit ''UPDATE Session SET nickname = ? WHERE id = ?'')
    (List.map_filter (\<lambda>i. map_option (\<lambda>n. [SqlText n, SqlInt i]) (updates i)) (fe_ids env 1 (dom updates)))"

definition id_list :: "i64 list \<Rightarrow> gostring" where
  "id_list ids = lit ''('' @ placeholders (lit ''?'') (length ids) @ lit '')''"

definition delete_sessions :: "('c, 'q, 't) flush_env \<Rightarrow> i64 set \<Rightarrow> 't \<Rightarrow> 't" where
  "delete_sessions env deletions t =
    (let ids = fe_ids env 2 deletions in
     if ids = [] then t
     else snd (wc_Exec (fe_db env) (lit ''DELETE FROM Session WHERE id IN '' @ id_list ids) (map SqlInt ids) t))"

subsection \<open>New messages\<close>

definition parent_roots :: "(i64 \<times> i64 option) option list \<Rightarrow> i64 \<rightharpoonup> i64 option" where
  "parent_roots rows = fold (\<lambda>row m. case row of None \<Rightarrow> m | Some (i, root) \<Rightarrow> m(i \<mapsto> root)) rows Map.empty"

text \<open>The thread roots of all parents, fetched by one query when there is a parent at all.\<close>

definition fetch_roots :: "('c, 'q, 't) flush_env \<Rightarrow> pendingMessage list \<Rightarrow> 't \<Rightarrow> (db_error + (i64 \<rightharpoonup> i64 option)) \<times> 't" where
  "fetch_roots env inserts t =
    (let ids = fe_ids env 3 (set (List.map_filter pm_parentID inserts)) in
     if ids = [] then (Inr Map.empty, t)
     else apfst (map_sum id parent_roots)
       (wc_Query (fe_db env) (lit ''SELECT id, thread_root_id FROM Message WHERE id IN '' @ id_list ids) (map SqlInt ids) t))"

text \<open>A message with its id and its thread root.\<close>

type_synonym messageWithID = "pendingMessage \<times> i64 \<times> i64 option"

fun valid_messages ::
  "(i64 \<rightharpoonup> i64 option) \<Rightarrow> (nat \<rightharpoonup> chan) \<Rightarrow> pendingMessage list \<Rightarrow> 't Flush \<Rightarrow> (messageWithID list \<times> 't Flush) option" where
  "valid_messages roots results [] f = Some ([], f)"
| "valid_messages roots results (msg # msgs) f =
    (case NextID (fl_snowflake f) (fl_clock f) of None \<Rightarrow> None
     | Some (i, sf, clock) \<Rightarrow>
        (let f = f\<lparr>fl_snowflake := sf, fl_clock := clock\<rparr> in
         case pm_parentID msg of
           None \<Rightarrow> map_option (apfst ((#) (msg, i, Some i))) (valid_messages roots results msgs f)
         | Some p \<Rightarrow>
            (case roots p of
               None \<Rightarrow> Option.bind (send_message results (pm_resultIndex msg) (message_error (ErrText (lit ''parent message not found''))) f)
                 (valid_messages roots results msgs)
             | Some root \<Rightarrow> map_option (apfst ((#) (msg, i, root))) (valid_messages roots results msgs f))))"

definition message_insert :: "messageWithID list \<Rightarrow> gostring \<times> sql_value list" where
  "message_insert chunk =
    (lit ''INSERT INTO Message (id, channel_id, subchannel_id, parent_id, thread_root_id, author_user_id, author_nickname, content, created_at) VALUES ''
       @ placeholders (lit ''(?,?,?,?,?,?,?,?,?)'') (length chunk),
     concat (map (\<lambda>(msg, i, root). [SqlInt i, SqlInt (pm_channelID msg), null_int (pm_subchannelID msg), null_int (pm_parentID msg),
       null_int root, null_int (pm_authorUserID msg), SqlText (pm_authorNickname msg), SqlText (pm_content msg),
       SqlInt (pm_timestamp msg)]) chunk))"

definition answer_of :: "messageWithID \<Rightarrow> messageResult" where
  "answer_of = (\<lambda>(msg, i, root).
    \<lparr>mr_messageID = i, mr_message = Some
      \<lparr>dm_ID = i, dm_ChannelID = pm_channelID msg, dm_SubchannelID = pm_subchannelID msg, dm_ParentID = pm_parentID msg,
       dm_ThreadRootID = root, dm_AuthorUserID = pm_authorUserID msg, dm_AuthorNickname = pm_authorNickname msg,
       dm_Content = pm_content msg, dm_CreatedAt = pm_timestamp msg, dm_EditedAt = None, dm_DeletedAt = None, dm_ReplyCount = 0\<rparr>,
     mr_err = None\<rparr>)"

definition insert_message_chunk ::
  "('q, 't) write_conn \<Rightarrow> (nat \<rightharpoonup> chan) \<Rightarrow> messageWithID list \<Rightarrow> 't Flush \<Rightarrow> 't Flush option" where
  "insert_message_chunk db results chunk f =
    (case wc_Exec db (fst (message_insert chunk)) (snd (message_insert chunk)) (fl_tx f) of (err, t) \<Rightarrow>
       each (\<lambda>m. send_message results (pm_resultIndex (fst m))
           (case err of Some e \<Rightarrow> message_error e | None \<Rightarrow> answer_of m))
         chunk (f\<lparr>fl_tx := t\<rparr>))"

text \<open>"for _, resultChan := range messageResults { resultChan <- messageResult{err: err} }".\<close>

definition fail_messages :: "('c, 'q, 't) flush_env \<Rightarrow> (nat \<rightharpoonup> chan) \<Rightarrow> db_error \<Rightarrow> (chan \<times> messageResult) list" where
  "fail_messages env results e = map (\<lambda>c. (c, message_error e)) (List.map_filter results (fe_keys env (dom results)))"

definition insert_messages ::
  "('c, 'q, 't) flush_env \<Rightarrow> (nat \<rightharpoonup> chan) \<Rightarrow> pendingMessage list \<Rightarrow> 't Flush \<Rightarrow> 't Flush option" where
  "insert_messages env results inserts f =
    (if inserts = [] then Some f else
     case fetch_roots env inserts (fl_tx f) of
       (Inl e, t) \<Rightarrow> Some (f\<lparr>fl_tx := t, fl_messages := fl_messages f @ fail_messages env results e\<rparr>)
     | (Inr roots, t) \<Rightarrow>
        Option.bind (valid_messages roots results inserts (f\<lparr>fl_tx := t\<rparr>))
          (\<lambda>(valid, f). each (insert_message_chunk (fe_db env) results) (row_chunks 3640 valid) f))"

subsection \<open>The whole\<close>

text \<open>What a flush leaves: the database, the queues, and what it sent.\<close>

record ('c, 'q) Flushed =
  fd_db :: 'q
  fd_wb :: "'c WriteBuffer"
  fd_sessions :: "(chan \<times> sessionCreateResult) list"
  fd_messages :: "(chan \<times> messageResult) list"
  fd_snowflake :: Snowflake
  fd_clock :: "i64 list"

definition grabbed :: "'c WriteBuffer \<Rightarrow> 'c WriteBuffer" where
  "grabbed wb = NewWriteBuffer\<lparr>wb_made := wb_made wb\<rparr>"

definition nothing_to_do :: "'c WriteBuffer \<Rightarrow> bool" where
  "nothing_to_do wb \<longleftrightarrow> wb_sessionCreates wb = [] \<and> dom (wb_sessionUpdates wb) = {} \<and> dom (wb_nicknameUpdates wb) = {} \<and>
     wb_messageInserts wb = [] \<and> wb_sessionDeletions wb = {}"

text \<open>"wb.sessionUpdates[id] = ts" for all that was grabbed.\<close>

definition requeue_updates :: "'c WriteBuffer \<Rightarrow> 'c WriteBuffer \<Rightarrow> 'c WriteBuffer" where
  "requeue_updates old wb = wb\<lparr>wb_sessionUpdates := wb_sessionUpdates wb ++ wb_sessionUpdates old,
     wb_nicknameUpdates := wb_nicknameUpdates wb ++ wb_nicknameUpdates old\<rparr>"

text \<open>The statements of the transaction, in their order.\<close>

definition write_all :: "('c, 'q, 't) flush_env \<Rightarrow> 'c WriteBuffer \<Rightarrow> 't Flush \<Rightarrow> 't Flush option" where
  "write_all env wb f =
    Option.bind (create_sessions env (wb_sessionCreateResults wb) (wb_sessionCreates wb) f) (\<lambda>f.
      insert_messages env (wb_messageResults wb) (wb_messageInserts wb)
        (f\<lparr>fl_tx := delete_sessions env (wb_sessionDeletions wb)
            (update_nicknames env (wb_nicknameUpdates wb) (update_activity env (wb_sessionUpdates wb) (fl_tx f)))\<rparr>))"

text \<open>during is what other goroutines queue after the queues were grabbed, and before a failed Begin gives the updates back.\<close>

definition flush ::
  "('c, 'q, 't) flush_env \<Rightarrow> 'q \<Rightarrow> 'c wb_op list \<Rightarrow> 'c WriteBuffer \<Rightarrow> Snowflake \<Rightarrow> i64 list \<Rightarrow> ('c, 'q) Flushed option" where
  "flush env q during wb sf clock =
    (let later = fold queue during (grabbed wb);
         unsent = \<lparr>fd_db = q, fd_wb = later, fd_sessions = [], fd_messages = [], fd_snowflake = sf, fd_clock = clock\<rparr> in
     if nothing_to_do wb then Some unsent
     else
       (case wc_Begin (fe_db env) q of
          Inl e \<Rightarrow> Some (unsent\<lparr>fd_wb := requeue_updates wb later, fd_messages := fail_messages env (wb_messageResults wb) e\<rparr>)
        | Inr t \<Rightarrow>
           Option.bind (write_all env wb \<lparr>fl_tx = t, fl_sessions = [], fl_messages = [], fl_snowflake = sf, fl_clock = clock\<rparr>) (\<lambda>f.
             (case wc_Commit (fe_db env) (fl_tx f) of (err, q') \<Rightarrow>
                Some \<lparr>fd_db = q', fd_wb = later, fd_sessions = fl_sessions f,
                  fd_messages = fl_messages f @ (case err of None \<Rightarrow> [] | Some e \<Rightarrow> fail_messages env (wb_messageResults wb) e),
                  fd_snowflake = fl_snowflake f, fd_clock = fl_clock f\<rparr>))))"

text \<open>The buffer over time: goroutines queue, and the flushing goroutine flushes.\<close>

inductive wb_step :: "('c, 'q, 't) flush_env \<Rightarrow> 'c WriteBuffer \<Rightarrow> 'c WriteBuffer \<Rightarrow> bool" for env where
  queue: "wb_step env wb (queue op wb)"
| flush: "flush env q during wb sf clock = Some fd \<Longrightarrow> wb_step env wb (fd_wb fd)"

text \<open>What a waiting goroutine receives: the first value sent on its channel.\<close>

definition received :: "(chan \<times> 'r) list \<Rightarrow> (nat \<rightharpoonup> chan) \<Rightarrow> nat \<rightharpoonup> 'r" where
  "received sends results i = Option.bind (results i) (map_of sends)"

end
