(* ===== verification/WriteBufProps.thy ===== *)
theory WriteBufProps imports WriteBuf "HOL-Library.Multiset" begin

text \<open>
  What the write buffer promises: each waiting goroutine is answered on its own channel with the outcome of its own row, the
  statements stay within SQLite's limit of parameters, and what a failing Begin and a failing Commit do.
\<close>

section \<open>The queues and their channels\<close>

text \<open>The pending requests are numbered in order, and each number has a channel that no other has.\<close>

definition slots_ok :: "('p \<Rightarrow> nat) \<Rightarrow> nat \<Rightarrow> 'p list \<Rightarrow> (nat \<rightharpoonup> chan) \<Rightarrow> bool" where
  "slots_ok idx made ps results \<longleftrightarrow> map idx ps = [0..<length ps] \<and> dom results = {..<length ps} \<and>
     inj_on results {..<length ps} \<and> ran results \<subseteq> {..<made}"

lemma slots_ok_empty: "slots_ok idx made [] Map.empty"
  by (simp add: slots_ok_def)

lemma slots_ok_append:
  assumes "slots_ok idx made ps results" and "idx p = length ps"
  shows "slots_ok idx (Suc made) (ps @ [p]) (results(length ps \<mapsto> made))"
proof -
  have no: "results k \<noteq> Some made" for k using assms(1) by (force simp: slots_ok_def ran_def)
  then show ?thesis using assms
    by (auto simp: slots_ok_def ran_def inj_on_def lessThan_Suc split: if_splits) metis+
qed

lemma slots_ok_mono: "slots_ok idx made ps results \<Longrightarrow> made \<le> made' \<Longrightarrow> slots_ok idx made' ps results"
  by (auto simp: slots_ok_def)

lemma slots_ok_nth: "slots_ok idx made ps results \<Longrightarrow> k < length ps \<Longrightarrow> idx (ps ! k) = k"
  by (metis add_0 nth_map nth_upt slots_ok_def)

lemma slots_ok_results:
  assumes "slots_ok idx made ps results"
  shows "\<forall>p \<in> set ps. results (idx p) \<noteq> None"
proof
  fix p assume "p \<in> set ps"
  then obtain k where k: "k < length ps" "p = ps ! k" by (auto simp: in_set_conv_nth)
  then have "idx p \<in> dom results" using assms slots_ok_nth [OF assms k(1)] by (simp add: slots_ok_def)
  then show "results (idx p) \<noteq> None" by auto
qed

lemma slots_ok_distinct:
  assumes "slots_ok idx made ps results"
  shows "distinct (map (\<lambda>p. results (idx p)) ps)"
proof -
  have "map (\<lambda>p. results (idx p)) ps = map results (map idx ps)" by simp
  then have "map (\<lambda>p. results (idx p)) ps = map results [0..<length ps]"
    using assms by (simp only: slots_ok_def)
  then show ?thesis using assms by (simp add: slots_ok_def distinct_map atLeast0LessThan)
qed

definition wb_ok :: "'c WriteBuffer \<Rightarrow> bool" where
  "wb_ok wb \<longleftrightarrow> slots_ok sc_resultIndex (wb_made wb) (wb_sessionCreates wb) (wb_sessionCreateResults wb) \<and>
     slots_ok pm_resultIndex (wb_made wb) (wb_messageInserts wb) (wb_messageResults wb)"

lemma wb_ok_new: "wb_ok NewWriteBuffer"
  by (simp add: wb_ok_def NewWriteBuffer_def slots_ok_empty)

lemma wb_ok_grabbed: "wb_ok (grabbed wb)"
  by (simp add: wb_ok_def grabbed_def NewWriteBuffer_def slots_ok_empty)

lemma wb_ok_queue: "wb_ok wb \<Longrightarrow> wb_ok (queue op wb)"
  by (cases op) (auto simp: wb_ok_def Let_def wb_CreateSession_def wb_PostMessage_def wb_UpdateSessionActivity_def
      wb_UpdateSessionNickname_def wb_DeleteSession_def intro: slots_ok_append slots_ok_mono)

lemma wb_ok_queues: "wb_ok wb \<Longrightarrow> wb_ok (fold queue ops wb)"
  by (induction ops arbitrary: wb) (simp_all add: wb_ok_queue)

lemma wb_ok_requeue [simp]: "wb_ok (requeue_updates old wb) = wb_ok wb"
  by (simp add: wb_ok_def requeue_updates_def)

lemma wb_ok_flush: "flush env q during wb sf clock = Some fd \<Longrightarrow> wb_ok (fd_wb fd)"
  by (auto simp: flush_def Let_def wb_ok_queues wb_ok_grabbed split: if_splits sum.splits Option.bind_splits prod.splits)

lemma wb_ok_step: "wb_step env wb wb' \<Longrightarrow> wb_ok wb \<Longrightarrow> wb_ok wb'"
  by (induction rule: wb_step.induct) (auto intro: wb_ok_queue wb_ok_flush)

lemma wb_ok_reachable: "(wb_step env)\<^sup>*\<^sup>* NewWriteBuffer wb \<Longrightarrow> wb_ok wb"
  by (induction rule: rtranclp_induct) (auto intro: wb_ok_new wb_ok_step)

section \<open>Drawing ids\<close>

definition can_draw :: "nat \<Rightarrow> 't Flush \<Rightarrow> bool" where
  "can_draw n f \<longleftrightarrow> NextIDs n (fl_snowflake f) (fl_clock f) \<noteq> None"

lemma can_draw_Suc:
  assumes "can_draw (Suc n) f"
  obtains i sf clock where "NextID (fl_snowflake f) (fl_clock f) = Some (i, sf, clock)"
    and "can_draw n (f\<lparr>fl_snowflake := sf, fl_clock := clock\<rparr>)"
  using assms by (auto simp: can_draw_def split: option.splits prod.splits)

lemma can_draw_less: "can_draw (Suc n) f \<Longrightarrow> can_draw n f"
proof (induction n arbitrary: f)
  case 0
  then show ?case by (simp add: can_draw_def)
next
  case (Suc n)
  obtain i sf clock where "NextID (fl_snowflake f) (fl_clock f) = Some (i, sf, clock)"
    and "can_draw (Suc n) (f\<lparr>fl_snowflake := sf, fl_clock := clock\<rparr>)"
    by (rule can_draw_Suc [OF Suc.prems])
  with Suc.IH [of "f\<lparr>fl_snowflake := sf, fl_clock := clock\<rparr>"] show ?case by (simp add: can_draw_def split: option.splits)
qed

lemma can_draw_same [simp]: "can_draw n (f\<lparr>fl_sessions := x\<rparr>) = can_draw n f" "can_draw n (f\<lparr>fl_messages := y\<rparr>) = can_draw n f"
  "can_draw n (f\<lparr>fl_tx := t\<rparr>) = can_draw n f"
  by (simp_all add: can_draw_def)

lemma can_draw_fields: "fl_snowflake g = fl_snowflake f \<Longrightarrow> fl_clock g = fl_clock f \<Longrightarrow> can_draw n g = can_draw n f"
  by (simp add: can_draw_def)

section \<open>Sends\<close>

text \<open>The sends answer the requests of a list one by one, each on its channel and with a result that is ok for it.\<close>

definition answers :: "('p \<Rightarrow> nat) \<Rightarrow> (nat \<rightharpoonup> chan) \<Rightarrow> ('p \<Rightarrow> 'r \<Rightarrow> bool) \<Rightarrow> 'p list \<Rightarrow> (chan \<times> 'r) list \<Rightarrow> bool" where
  "answers idx results ok ps sends \<longleftrightarrow> list_all2 (\<lambda>p s. results (idx p) = Some (fst s) \<and> ok p (snd s)) ps sends"

lemma answers_Nil [simp]: "answers idx results ok [] []"
  by (simp add: answers_def)

lemma answers_Cons: "results (idx p) = Some c \<Longrightarrow> ok p r \<Longrightarrow> answers idx results ok ps sends \<Longrightarrow> answers idx results ok (p # ps) ((c, r) # sends)"
  by (simp add: answers_def)

lemma answers_append: "answers idx results ok ps s1 \<Longrightarrow> answers idx results ok qs s2 \<Longrightarrow> answers idx results ok (ps @ qs) (s1 @ s2)"
  by (simp add: answers_def list_all2_appendI)

lemma answers_mono: "answers idx results ok ps sends \<Longrightarrow> (\<And>p r. ok p r \<Longrightarrow> ok' p r) \<Longrightarrow> answers idx results ok' ps sends"
  unfolding answers_def by (erule list_all2_mono) auto

lemma answers_map:
  assumes "\<And>x. x \<in> set xs \<Longrightarrow> results (idx (g x)) = Some (c x) \<and> ok (g x) (r x)"
  shows "answers idx results ok (map g xs) (map (\<lambda>x. (c x, r x)) xs)"
  using assms by (auto simp: answers_def list_all2_conv_all_nth)

lemma answers_received:
  assumes slots: "slots_ok idx made ps results" and same: "mset ps' = mset ps" and ans: "answers idx results ok ps' sends"
    and p: "p \<in> set ps"
  shows "\<exists>r. received (sends @ later) results (idx p) = Some r \<and> ok p r"
proof -
  from ans have len: "length ps' = length sends"
    and nth: "\<And>k. k < length sends \<Longrightarrow> results (idx (ps' ! k)) = Some (fst (sends ! k)) \<and> ok (ps' ! k) (snd (sends ! k))"
    by (auto simp: answers_def list_all2_conv_all_nth)
  have "map Some (map fst sends) = map (\<lambda>p. results (idx p)) ps'"
    using len nth by (auto intro!: nth_equalityI)
  moreover have "mset (map (\<lambda>p. results (idx p)) ps') = mset (map (\<lambda>p. results (idx p)) ps)" by (simp add: same)
  then have "distinct (map (\<lambda>p. results (idx p)) ps')"
    using slots_ok_distinct [OF slots] mset_eq_imp_distinct_iff by blast
  ultimately have d: "distinct (map fst sends)" by (metis distinct_map)
  have "p \<in> set ps'" using p same by (metis mset_eq_setD)
  then obtain k where k: "k < length sends" "p = ps' ! k" using len by (auto simp: in_set_conv_nth)
  then have "map_of sends (fst (sends ! k)) = Some (snd (sends ! k))"
    using d by simp
  then show ?thesis using nth [OF k(1)] k(2) by (auto simp: received_def map_add_def)
qed

section \<open>Chunks\<close>

lemma concat_row_chunks: "0 < n \<Longrightarrow> concat (row_chunks n rows) = rows"
proof (induction n rows rule: row_chunks.induct)
  case (1 n rows)
  then show ?case by (simp add: row_chunks.simps [of n rows])
qed

lemma chunks_length: "chunk \<in> set (row_chunks n rows) \<Longrightarrow> length chunk \<le> n \<and> chunk \<noteq> []"
proof (induction n rows rule: row_chunks.induct)
  case (1 n rows)
  then show ?case by (auto simp: row_chunks.simps [of n rows] split: if_splits)
qed

section \<open>The transaction\<close>

text \<open>What the code relies on: a statement executed without an error is part of the transaction from then on.\<close>

definition tx_keeps :: "('q, 't) write_conn \<Rightarrow> ('t \<Rightarrow> (gostring \<times> sql_value list) set) \<Rightarrow> bool" where
  "tx_keeps db applied \<longleftrightarrow>
     (\<forall>q a t t'. wc_Exec db q a t = (None, t') \<longrightarrow> (q, a) \<in> applied t') \<and>
     (\<forall>q a t. applied t \<subseteq> applied (snd (wc_Exec db q a t))) \<and>
     (\<forall>q a t. applied t \<subseteq> applied (snd (wc_Query db q a t))) \<and>
     (\<forall>q t. applied t \<subseteq> applied (snd (wc_Prepare db q t)))"

lemma tx_keepsD:
  assumes "tx_keeps db applied"
  shows "wc_Exec db q a t = (None, t') \<Longrightarrow> (q, a) \<in> applied t'" and "applied t \<subseteq> applied (snd (wc_Exec db q a t))"
    and "applied t \<subseteq> applied (snd (wc_Query db q a t))" and "applied t \<subseteq> applied (snd (wc_Prepare db q t))"
  using assms by (auto simp: tx_keeps_def)

lemma exec_each_keeps:
  assumes "tx_keeps db applied"
  shows "applied t \<subseteq> applied (exec_each db q rows t)"
proof -
  have "applied t \<subseteq> applied (fold (\<lambda>row t. snd (wc_Exec db q row t)) rows t)" for t
  proof (induction rows arbitrary: t)
    case (Cons row rows)
    show ?case using tx_keepsD(2) [OF assms, of t q row] Cons [of "snd (wc_Exec db q row t)"] by simp
  qed simp
  then show ?thesis using tx_keepsD(4) [OF assms, of t q]
    by (force simp: exec_each_def split: prod.splits option.splits)
qed

lemma updates_keep:
  assumes "tx_keeps (fe_db env) applied"
  shows "applied t \<subseteq> applied (delete_sessions env d (update_nicknames env n (update_activity env u t)))"
proof -
  have "applied t \<subseteq> applied (update_nicknames env n (update_activity env u t))"
    unfolding update_nicknames_def update_activity_def by (meson assms exec_each_keeps subset_trans)
  also have "\<dots> \<subseteq> applied (delete_sessions env d (update_nicknames env n (update_activity env u t)))"
    by (simp add: delete_sessions_def Let_def tx_keepsD(2) [OF assms])
  finally show ?thesis .
qed

text \<open>A loop over chunks answers all rows when each of its rounds answers the rows of its chunk.\<close>

lemma each_chunk_answers:
  assumes step: "\<And>chunk f. chunk \<in> set cs \<Longrightarrow> P f \<Longrightarrow> \<exists>f' sends. g chunk f = Some f' \<and> P f' \<and> out f' = out f @ sends \<and>
      done f \<subseteq> done f' \<and> answers idx results (ok (done f')) (map h chunk) sends"
    and mono: "\<And>A B p r. A \<subseteq> B \<Longrightarrow> ok A p r \<Longrightarrow> ok B p r"
    and "P f"
  shows "\<exists>f' sends. each g cs f = Some f' \<and> P f' \<and> out f' = out f @ sends \<and> done f \<subseteq> done f' \<and>
    answers idx results (ok (done f')) (map h (concat cs)) sends"
  using step \<open>P f\<close>
proof (induction cs arbitrary: f)
  case Nil
  then show ?case by (intro exI [of _ f] exI [of _ "[]"]) simp
next
  case (Cons c cs)
  obtain f1 s1 where 1: "g c f = Some f1" "P f1" "out f1 = out f @ s1" "done f \<subseteq> done f1"
    "answers idx results (ok (done f1)) (map h c) s1"
    using Cons.prems(1) [of c f] Cons.prems(2) by auto
  have "\<exists>f' sends. each g cs f1 = Some f' \<and> P f' \<and> out f' = out f1 @ sends \<and> done f1 \<subseteq> done f' \<and>
      answers idx results (ok (done f')) (map h (concat cs)) sends"
    by (rule Cons.IH) (use Cons.prems(1) 1(2) in auto)
  then obtain f2 s2 where 2: "each g cs f1 = Some f2" "P f2" "out f2 = out f1 @ s2" "done f1 \<subseteq> done f2"
    "answers idx results (ok (done f2)) (map h (concat cs)) s2"
    by blast
  have "answers idx results (ok (done f2)) (map h c) s1"
    by (rule answers_mono [OF 1(5)]) (rule mono [OF 2(4)])
  from answers_append [OF this 2(5)] 1 2 show ?case
    by (intro exI [of _ f2] exI [of _ "s1 @ s2"]) auto
qed

section \<open>New sessions\<close>

definition session_ok ::
  "('c \<Rightarrow> probe) \<Rightarrow> (gostring \<times> sql_value list) set \<Rightarrow> 'c pendingSessionCreate \<Rightarrow> sessionCreateResult \<Rightarrow> bool" where
  "session_ok pr done s r \<longleftrightarrow> sr_err r \<noteq> None \<or>
     isConnAlive (pr (sc_conn s)) \<and> (\<exists>chunk. (s, sr_sessionID r) \<in> set chunk \<and> session_insert chunk \<in> done)"

lemma each_send_session:
  assumes "\<forall>x \<in> set xs. results (g x) \<noteq> None"
  shows "each (\<lambda>x. send_session results (g x) (r x)) xs f =
    Some (f\<lparr>fl_sessions := fl_sessions f @ map (\<lambda>x. (the (results (g x)), r x)) xs\<rparr>)"
  using assms by (induction xs arbitrary: f) (auto simp: send_session_def)

lemma valid_sessions_returns:
  assumes "can_draw (length ss + n) f" and "\<forall>s \<in> set ss. results (sc_resultIndex s) \<noteq> None"
  shows "\<exists>valid f' dead sends. valid_sessions pr results ss f = Some (valid, f') \<and> fl_tx f' = fl_tx f \<and>
    fl_messages f' = fl_messages f \<and> fl_sessions f' = fl_sessions f @ sends \<and> mset (dead @ map fst valid) = mset ss \<and>
    answers sc_resultIndex results (session_ok pr done) dead sends \<and> (\<forall>s \<in> set valid. isConnAlive (pr (sc_conn (fst s)))) \<and> can_draw n f'"
  using assms
proof (induction ss arbitrary: f)
  case Nil
  then show ?case by (intro exI [of _ "[]"] exI [of _ f]) simp
next
  case (Cons s ss)
  obtain c where c: "results (sc_resultIndex s) = Some c" using Cons.prems(2) by auto
  show ?case
  proof (cases "isConnAlive (pr (sc_conn s))")
    case False
    let ?r = "session_error (ErrText (lit ''connection closed before session creation''))"
    let ?f = "f\<lparr>fl_sessions := fl_sessions f @ [(c, ?r)]\<rparr>"
    have "can_draw (length ss + n) ?f" using can_draw_less Cons.prems(1) by simp
    from Cons.IH [OF this] Cons.prems(2) obtain valid f' dead sends where ih: "valid_sessions pr results ss ?f = Some (valid, f')"
      "fl_tx f' = fl_tx f" "fl_messages f' = fl_messages f" "fl_sessions f' = fl_sessions f @ (c, ?r) # sends"
      "mset (dead @ map fst valid) = mset ss" "answers sc_resultIndex results (session_ok pr done) dead sends"
      "\<forall>s \<in> set valid. isConnAlive (pr (sc_conn (fst s)))" "can_draw n f'"
      by auto
    have "session_ok pr done s ?r" by (simp add: session_ok_def session_error_def)
    then have "answers sc_resultIndex results (session_ok pr done) (s # dead) ((c, ?r) # sends)"
      by (rule answers_Cons [where results = results, OF c _ ih(6)])
    moreover have "valid_sessions pr results (s # ss) f = Some (valid, f')"
      using False ih(1) by (simp add: send_session_def c)
    ultimately show ?thesis using ih(2-5,7,8)
      by (intro exI [of _ valid] exI [of _ f'] exI [of _ "s # dead"] exI [of _ "(c, ?r) # sends"]) simp
  next
    case True
    obtain i sf clock where d: "NextID (fl_snowflake f) (fl_clock f) = Some (i, sf, clock)"
      and "can_draw (length ss + n) (f\<lparr>fl_snowflake := sf, fl_clock := clock\<rparr>)"
      by (rule can_draw_Suc [of "length ss + n" f]) (use Cons.prems(1) in simp)
    from Cons.IH [OF this(2)] Cons.prems(2) obtain valid f' dead sends where ih:
      "valid_sessions pr results ss (f\<lparr>fl_snowflake := sf, fl_clock := clock\<rparr>) = Some (valid, f')"
      "fl_tx f' = fl_tx f" "fl_messages f' = fl_messages f" "fl_sessions f' = fl_sessions f @ sends"
      "mset (dead @ map fst valid) = mset ss" "answers sc_resultIndex results (session_ok pr done) dead sends"
      "\<forall>s \<in> set valid. isConnAlive (pr (sc_conn (fst s)))" "can_draw n f'"
      by auto
    have "valid_sessions pr results (s # ss) f = Some ((s, i) # valid, f')" using True d ih(1) by simp
    with ih(2-8) True show ?thesis
      by (intro exI [of _ "(s, i) # valid"] exI [of _ f'] exI [of _ dead] exI [of _ sends]) simp
  qed
qed

lemma insert_session_chunk_answers:
  assumes keeps: "tx_keeps db applied" and "\<forall>s \<in> set chunk. results (sc_resultIndex (fst s)) \<noteq> None \<and> isConnAlive (pr (sc_conn (fst s)))"
  shows "\<exists>f' sends. insert_session_chunk db results chunk f = Some f' \<and> fl_messages f' = fl_messages f \<and> fl_snowflake f' = fl_snowflake f \<and>
    fl_clock f' = fl_clock f \<and> fl_sessions f' = fl_sessions f @ sends \<and> applied (fl_tx f) \<subseteq> applied (fl_tx f') \<and>
    answers sc_resultIndex results (session_ok pr (applied (fl_tx f'))) (map fst chunk) sends"
proof -
  obtain err t where e: "wc_Exec db (fst (session_insert chunk)) (snd (session_insert chunk)) (fl_tx f) = (err, t)" by force
  let ?r = "\<lambda>s. case err of Some e \<Rightarrow> session_error e | None \<Rightarrow> \<lparr>sr_sessionID = snd s, sr_err = None\<rparr>"
  have "err = None \<Longrightarrow> session_insert chunk \<in> applied t" using tx_keepsD(1) [OF keeps] e by fastforce
  then have "answers sc_resultIndex results (session_ok pr (applied t)) (map fst chunk)
      (map (\<lambda>s. (the (results (sc_resultIndex (fst s))), ?r s)) chunk)"
    using assms(2) by (intro answers_map) (cases err; fastforce simp: session_ok_def session_error_def)
  moreover have "applied (fl_tx f) \<subseteq> applied t" using tx_keepsD(2) [OF keeps, of "fl_tx f"] e by (metis snd_conv)
  ultimately show ?thesis using assms(2) by (simp add: insert_session_chunk_def e each_send_session)
qed

lemma create_sessions_returns:
  fixes f :: "'t Flush"
  assumes keeps: "tx_keeps (fe_db env) applied" and draw: "can_draw (length ss + n) f"
    and results: "\<forall>s \<in> set ss. results (sc_resultIndex s) \<noteq> None"
  shows "\<exists>f' ss' sends. create_sessions env results ss f = Some f' \<and> fl_messages f' = fl_messages f \<and> fl_sessions f' = fl_sessions f @ sends \<and>
    can_draw n f' \<and> applied (fl_tx f) \<subseteq> applied (fl_tx f') \<and> mset ss' = mset ss \<and>
    answers sc_resultIndex results (session_ok (fe_probe env) (applied (fl_tx f'))) ss' sends"
proof -
  let ?pr = "fe_probe env"
  obtain valid f1 dead s1 where 1: "valid_sessions ?pr results ss f = Some (valid, f1)" "fl_tx f1 = fl_tx f"
    "fl_messages f1 = fl_messages f" "fl_sessions f1 = fl_sessions f @ s1" "mset (dead @ map fst valid) = mset ss"
    "answers sc_resultIndex results (session_ok ?pr {}) dead s1" "\<forall>s \<in> set valid. isConnAlive (?pr (sc_conn (fst s)))" "can_draw n f1"
    using valid_sessions_returns [OF draw results] by blast
  have "set (dead @ map fst valid) = set ss" using 1(5) by (rule mset_eq_setD)
  then have valid: "\<forall>s \<in> set valid. results (sc_resultIndex (fst s)) \<noteq> None \<and> isConnAlive (?pr (sc_conn (fst s)))"
    using results 1(7) by auto
  have "\<exists>f' sends. each (insert_session_chunk (fe_db env) results) (row_chunks 5461 valid) f1 = Some f' \<and>
      (fl_messages f' = fl_messages f \<and> can_draw n f') \<and> fl_sessions f' = fl_sessions f1 @ sends \<and>
      applied (fl_tx f1) \<subseteq> applied (fl_tx f') \<and>
      answers sc_resultIndex results (session_ok ?pr (applied (fl_tx f'))) (map fst (concat (row_chunks 5461 valid))) sends"
  proof (rule each_chunk_answers)
    fix chunk and g :: "'t Flush"
    assume "chunk \<in> set (row_chunks 5461 valid)" and g: "fl_messages g = fl_messages f \<and> can_draw n g"
    then have "set chunk \<subseteq> set (concat (row_chunks 5461 valid))" by auto
    with valid have "\<forall>s \<in> set chunk. results (sc_resultIndex (fst s)) \<noteq> None \<and> isConnAlive (?pr (sc_conn (fst s)))"
      by (auto simp: concat_row_chunks)
    from insert_session_chunk_answers [OF keeps this, of g] g show "\<exists>f' sends. insert_session_chunk (fe_db env) results chunk g = Some f' \<and> (fl_messages f' = fl_messages f \<and> can_draw n f') \<and>
        fl_sessions f' = fl_sessions g @ sends \<and> applied (fl_tx g) \<subseteq> applied (fl_tx f') \<and>
        answers sc_resultIndex results (session_ok ?pr (applied (fl_tx f'))) (map fst chunk) sends"
      by (auto simp: can_draw_def)
  next
    show "session_ok ?pr A p r \<Longrightarrow> session_ok ?pr B p r" if "A \<subseteq> B" for A B p r using that by (auto simp: session_ok_def)
  qed (simp add: 1)
  then obtain f2 s2 where 2: "each (insert_session_chunk (fe_db env) results) (row_chunks 5461 valid) f1 = Some f2"
      "fl_messages f2 = fl_messages f" "can_draw n f2" "fl_sessions f2 = fl_sessions f1 @ s2" "applied (fl_tx f1) \<subseteq> applied (fl_tx f2)"
      "answers sc_resultIndex results (session_ok ?pr (applied (fl_tx f2))) (map fst valid) s2"
    by (auto simp: concat_row_chunks)
  have "answers sc_resultIndex results (session_ok ?pr (applied (fl_tx f2))) dead s1"
    by (rule answers_mono [OF 1(6)]) (simp add: session_ok_def)
  from answers_append [OF this 2(6)] 1 2 show ?thesis
    by (intro exI [of _ f2] exI [of _ "dead @ map fst valid"] exI [of _ "s1 @ s2"]) (simp add: create_sessions_def)
qed

section \<open>New messages\<close>

definition message_ok :: "(gostring \<times> sql_value list) set \<Rightarrow> pendingMessage \<Rightarrow> messageResult \<Rightarrow> bool" where
  "message_ok done msg r \<longleftrightarrow> mr_err r \<noteq> None \<or>
     (\<exists>i root chunk. r = answer_of (msg, i, root) \<and> (pm_parentID msg = None \<longrightarrow> root = Some i) \<and>
        (msg, i, root) \<in> set chunk \<and> message_insert chunk \<in> done)"

lemma message_ok_error [simp]: "message_ok done msg (message_error e)"
  by (simp add: message_ok_def message_error_def)

lemma message_ok_mono:
  assumes "A \<subseteq> B" and "message_ok A p r"
  shows "message_ok B p r"
proof (cases "mr_err r = None")
  case True
  then obtain i root chunk where "r = answer_of (p, i, root)" "pm_parentID p = None \<longrightarrow> root = Some i"
    "(p, i, root) \<in> set chunk" "message_insert chunk \<in> A"
    using assms(2) by (auto simp: message_ok_def)
  with assms(1) have "message_insert chunk \<in> B" by blast
  with \<open>r = _\<close> \<open>_ \<longrightarrow> _\<close> \<open>(p, i, root) \<in> set chunk\<close> show ?thesis unfolding message_ok_def by metis
qed (simp add: message_ok_def)

lemma each_send_message:
  assumes "\<forall>x \<in> set xs. results (g x) \<noteq> None"
  shows "each (\<lambda>x. send_message results (g x) (r x)) xs f =
    Some (f\<lparr>fl_messages := fl_messages f @ map (\<lambda>x. (the (results (g x)), r x)) xs\<rparr>)"
  using assms by (induction xs arbitrary: f) (auto simp: send_message_def)

lemma valid_messages_returns:
  assumes "can_draw (length ms + n) f" and "\<forall>m \<in> set ms. results (pm_resultIndex m) \<noteq> None"
  shows "\<exists>valid f' orphans sends. valid_messages roots results ms f = Some (valid, f') \<and> fl_tx f' = fl_tx f \<and>
    fl_sessions f' = fl_sessions f \<and> fl_messages f' = fl_messages f @ sends \<and> mset (orphans @ map fst valid) = mset ms \<and>
    answers pm_resultIndex results (message_ok done) orphans sends \<and>
    (\<forall>(m, i, root) \<in> set valid. pm_parentID m = None \<longrightarrow> root = Some i)"
  using assms
proof (induction ms arbitrary: f)
  case Nil
  then show ?case by (intro exI [of _ "[]"] exI [of _ f]) simp
next
  case (Cons m ms)
  obtain i sf clock where d: "NextID (fl_snowflake f) (fl_clock f) = Some (i, sf, clock)"
    and draw: "can_draw (length ms + n) (f\<lparr>fl_snowflake := sf, fl_clock := clock\<rparr>)"
    by (rule can_draw_Suc [of "length ms + n" f]) (use Cons.prems(1) in simp)
  let ?f = "f\<lparr>fl_snowflake := sf, fl_clock := clock\<rparr>"
  obtain c where c: "results (pm_resultIndex m) = Some c" using Cons.prems(2) by auto
  have results: "\<forall>m \<in> set ms. results (pm_resultIndex m) \<noteq> None" using Cons.prems(2) by simp
  show ?case
  proof (cases "\<exists>p. pm_parentID m = Some p \<and> roots p = None")
    case True
    let ?r = "message_error (ErrText (lit ''parent message not found''))"
    let ?g = "?f\<lparr>fl_messages := fl_messages f @ [(c, ?r)]\<rparr>"
    have "can_draw (length ms + n) ?g" using draw by (simp add: can_draw_def)
    from Cons.IH [OF this results] obtain valid f' orphans sends where ih: "valid_messages roots results ms ?g = Some (valid, f')"
      "fl_tx f' = fl_tx f" "fl_sessions f' = fl_sessions f" "fl_messages f' = fl_messages f @ (c, ?r) # sends"
      "mset (orphans @ map fst valid) = mset ms" "answers pm_resultIndex results (message_ok done) orphans sends"
      "\<forall>(m, i, root) \<in> set valid. pm_parentID m = None \<longrightarrow> root = Some i"
      by auto
    have "answers pm_resultIndex results (message_ok done) (m # orphans) ((c, ?r) # sends)"
      by (rule answers_Cons [where results = results, OF c message_ok_error ih(6)])
    moreover have "valid_messages roots results (m # ms) f = Some (valid, f')"
      using True ih(1) by (auto simp: send_message_def c d)
    ultimately show ?thesis using ih(2-5,7)
      by (intro exI [of _ valid] exI [of _ f'] exI [of _ "m # orphans"] exI [of _ "(c, ?r) # sends"]) simp
  next
    case False
    from Cons.IH [OF draw results] obtain valid f' orphans sends where ih: "valid_messages roots results ms ?f = Some (valid, f')"
      "fl_tx f' = fl_tx f" "fl_sessions f' = fl_sessions f" "fl_messages f' = fl_messages f @ sends"
      "mset (orphans @ map fst valid) = mset ms" "answers pm_resultIndex results (message_ok done) orphans sends"
      "\<forall>(m, i, root) \<in> set valid. pm_parentID m = None \<longrightarrow> root = Some i"
      by auto
    obtain root where "valid_messages roots results (m # ms) f = Some ((m, i, root) # valid, f')"
      "pm_parentID m = None \<longrightarrow> root = Some i"
      using False ih(1) by (cases "pm_parentID m") (auto simp: d Let_def)
    with ih(2-7) show ?thesis
      by (intro exI [of _ "(m, i, root) # valid"] exI [of _ f'] exI [of _ orphans] exI [of _ sends]) simp
  qed
qed

lemma insert_message_chunk_answers:
  assumes keeps: "tx_keeps db applied"
    and chunk: "\<forall>(m, i, root) \<in> set chunk. results (pm_resultIndex m) \<noteq> None \<and> (pm_parentID m = None \<longrightarrow> root = Some i)"
  shows "\<exists>f' sends. insert_message_chunk db results chunk f = Some f' \<and> fl_sessions f' = fl_sessions f \<and>
    fl_messages f' = fl_messages f @ sends \<and> applied (fl_tx f) \<subseteq> applied (fl_tx f') \<and>
    answers pm_resultIndex results (message_ok (applied (fl_tx f'))) (map fst chunk) sends"
proof -
  obtain err t where e: "wc_Exec db (fst (message_insert chunk)) (snd (message_insert chunk)) (fl_tx f) = (err, t)" by force
  let ?r = "\<lambda>m. case err of Some e \<Rightarrow> message_error e | None \<Rightarrow> answer_of m"
  have "err = None \<Longrightarrow> message_insert chunk \<in> applied t" using tx_keepsD(1) [OF keeps] e by fastforce
  then have ok: "message_ok (applied t) (fst m) (?r m)" if "m \<in> set chunk" for m
    using chunk that by (cases err; cases m) (fastforce simp: message_ok_def [where r = "answer_of x" for x])+
  have "answers pm_resultIndex results (message_ok (applied t)) (map fst chunk)
      (map (\<lambda>m. (the (results (pm_resultIndex (fst m))), ?r m)) chunk)"
    using chunk ok by (intro answers_map) auto
  moreover have "applied (fl_tx f) \<subseteq> applied t" using tx_keepsD(2) [OF keeps, of "fl_tx f"] e by (metis snd_conv)
  moreover have "\<forall>m \<in> set chunk. results (pm_resultIndex (fst m)) \<noteq> None" using chunk by auto
  ultimately show ?thesis by (simp add: insert_message_chunk_def e each_send_message)
qed

text \<open>What every order of a range over channels promises.\<close>

definition keys_ok :: "(nat set \<Rightarrow> nat list) \<Rightarrow> bool" where
  "keys_ok ks \<longleftrightarrow> (\<forall>S. finite S \<longrightarrow> set (ks S) = S \<and> distinct (ks S))"

lemma fail_messages_answers:
  assumes keys: "keys_ok (fe_keys env)" and slots: "slots_ok pm_resultIndex made ms results"
  shows "\<exists>ms'. mset ms' = mset ms \<and> answers pm_resultIndex results (message_ok done) ms' (fail_messages env results e)"
proof -
  let ?ks = "fe_keys env (dom results)"
  have dom: "dom results = {..<length ms}" using slots by (simp add: slots_ok_def)
  then have some: "results k \<noteq> None" if "k < length ms" for k using that by (metis domIff lessThan_iff)
  have ks: "set ?ks = {..<length ms}" "distinct ?ks" using keys by (simp_all add: keys_ok_def dom)
  then have "mset ?ks = mset [0..<length ms]"
    by (intro iffD1 [OF set_eq_iff_mset_eq_distinct]) (simp_all add: atLeast0LessThan)
  then have "mset (map ((!) ms) ?ks) = mset (map ((!) ms) [0..<length ms])" by (metis mset_map)
  then have "mset (map ((!) ms) ?ks) = mset ms" by (simp add: map_nth)
  moreover have "List.map_filter results ?ks = map (\<lambda>k. the (results k)) ?ks"
    using ks(1) some by (subst List.map_filter_def, subst filter_True) (auto simp: comp_def)
  then have "fail_messages env results e = map (\<lambda>k. (the (results k), message_error e)) ?ks"
    by (simp add: fail_messages_def)
  moreover have "answers pm_resultIndex results (message_ok done) (map ((!) ms) ?ks) (map (\<lambda>k. (the (results k), message_error e)) ?ks)"
    using ks(1) dom slots_ok_nth [OF slots] by (intro answers_map) (metis domIff lessThan_iff message_ok_error option.collapse)
  ultimately show ?thesis by metis
qed

lemma fetch_roots_keeps: "tx_keeps (fe_db env) applied \<Longrightarrow> applied t \<subseteq> applied (snd (fetch_roots env ms t))"
  by (simp add: fetch_roots_def Let_def tx_keepsD(3))

lemma insert_messages_returns:
  fixes f :: "'t Flush"
  assumes keeps: "tx_keeps (fe_db env) applied" and keys: "keys_ok (fe_keys env)" and draw: "can_draw (length ms) f"
    and slots: "slots_ok pm_resultIndex made ms results"
  shows "\<exists>f' ms' sends. insert_messages env results ms f = Some f' \<and> fl_sessions f' = fl_sessions f \<and> fl_messages f' = fl_messages f @ sends \<and>
    applied (fl_tx f) \<subseteq> applied (fl_tx f') \<and> mset ms' = mset ms \<and>
    answers pm_resultIndex results (message_ok (applied (fl_tx f'))) ms' sends"
proof (cases "ms = []")
  case True
  then show ?thesis by (intro exI [of _ f] exI [of _ "[]"]) (simp add: insert_messages_def)
next
  case False
  obtain res t where t: "fetch_roots env ms (fl_tx f) = (res, t)" by force
  then have at: "applied (fl_tx f) \<subseteq> applied t" using fetch_roots_keeps [OF keeps, of "fl_tx f" ms] by simp
  show ?thesis
  proof (cases res)
    case (Inl e)
    from fail_messages_answers [OF keys slots, of "applied t" e] obtain ms' where
      "mset ms' = mset ms" "answers pm_resultIndex results (message_ok (applied t)) ms' (fail_messages env results e)" by blast
    with False Inl t at show ?thesis by (auto simp: insert_messages_def)
  next
    case (Inr roots)
    have results: "\<forall>m \<in> set ms. results (pm_resultIndex m) \<noteq> None" by (rule slots_ok_results [OF slots])
    define g where "g = f\<lparr>fl_tx := t\<rparr>"
    then have g: "fl_tx g = t" "fl_sessions g = fl_sessions f" "fl_messages g = fl_messages f" "can_draw (length ms + 0) g"
      using draw by simp_all
    from valid_messages_returns [OF g(4) results, of roots "{}"]
    obtain valid f1 orphans s1 where "valid_messages roots results ms g = Some (valid, f1)" "fl_tx f1 = fl_tx g"
      "fl_sessions f1 = fl_sessions g" "fl_messages f1 = fl_messages g @ s1" "mset (orphans @ map fst valid) = mset ms"
      "answers pm_resultIndex results (message_ok {}) orphans s1" "\<forall>(m, i, root) \<in> set valid. pm_parentID m = None \<longrightarrow> root = Some i"
      by blast
    note 1 = this [unfolded g(1-3)]
    have "set (orphans @ map fst valid) = set ms" using 1(5) by (rule mset_eq_setD)
    then have "fst ` set valid \<subseteq> set ms" by auto
    then have valid: "\<forall>(m, i, root) \<in> set valid. results (pm_resultIndex m) \<noteq> None \<and> (pm_parentID m = None \<longrightarrow> root = Some i)"
      using results 1(7) by fastforce
    have "\<exists>f' sends. each (insert_message_chunk (fe_db env) results) (row_chunks 3640 valid) f1 = Some f' \<and>
        fl_sessions f' = fl_sessions f \<and> fl_messages f' = fl_messages f1 @ sends \<and> applied (fl_tx f1) \<subseteq> applied (fl_tx f') \<and>
        answers pm_resultIndex results (message_ok (applied (fl_tx f'))) (map fst (concat (row_chunks 3640 valid))) sends"
    proof (rule each_chunk_answers)
      fix chunk and g :: "'t Flush"
      assume "chunk \<in> set (row_chunks 3640 valid)" and g: "fl_sessions g = fl_sessions f"
      then have "set chunk \<subseteq> set (concat (row_chunks 3640 valid))" by auto
      then have "set chunk \<subseteq> set valid" by (simp add: concat_row_chunks)
      with valid have "\<forall>(m, i, root) \<in> set chunk. results (pm_resultIndex m) \<noteq> None \<and> (pm_parentID m = None \<longrightarrow> root = Some i)" by blast
      from insert_message_chunk_answers [OF keeps this, of g] g
      show "\<exists>f' sends. insert_message_chunk (fe_db env) results chunk g = Some f' \<and> fl_sessions f' = fl_sessions f \<and>
          fl_messages f' = fl_messages g @ sends \<and> applied (fl_tx g) \<subseteq> applied (fl_tx f') \<and>
          answers pm_resultIndex results (message_ok (applied (fl_tx f'))) (map fst chunk) sends" by auto
    next
      show "message_ok A p r \<Longrightarrow> message_ok B p r" if "A \<subseteq> B" for A B p r by (rule message_ok_mono [OF that])
    qed (simp add: 1)
    then obtain f2 s2 where 2: "each (insert_message_chunk (fe_db env) results) (row_chunks 3640 valid) f1 = Some f2"
        "fl_sessions f2 = fl_sessions f" "fl_messages f2 = fl_messages f1 @ s2" "applied (fl_tx f1) \<subseteq> applied (fl_tx f2)"
        "answers pm_resultIndex results (message_ok (applied (fl_tx f2))) (map fst valid) s2"
      by (auto simp: concat_row_chunks)
    have "answers pm_resultIndex results (message_ok (applied (fl_tx f2))) orphans s1"
      by (rule answers_mono [OF 1(6)]) (auto simp: message_ok_def)
    from answers_append [OF this 2(5)] 1 2 at False Inr t show ?thesis
      by (intro exI [of _ f2] exI [of _ "orphans @ map fst valid"] exI [of _ "s1 @ s2"]) (simp add: insert_messages_def g_def [symmetric])
  qed
qed

section \<open>A whole flush\<close>

lemma write_all_returns:
  fixes f :: "'t Flush"
  assumes keeps: "tx_keeps (fe_db env) applied" and keys: "keys_ok (fe_keys env)" and ok: "wb_ok wb"
    and draw: "can_draw (length (wb_sessionCreates wb) + length (wb_messageInserts wb)) f"
    and new: "fl_sessions f = []" "fl_messages f = []"
  shows "\<exists>f' ss ms. write_all env wb f = Some f' \<and> mset ss = mset (wb_sessionCreates wb) \<and> mset ms = mset (wb_messageInserts wb) \<and>
    answers sc_resultIndex (wb_sessionCreateResults wb) (session_ok (fe_probe env) (applied (fl_tx f'))) ss (fl_sessions f') \<and>
    answers pm_resultIndex (wb_messageResults wb) (message_ok (applied (fl_tx f'))) ms (fl_messages f')"
proof -
  from ok have s: "slots_ok sc_resultIndex (wb_made wb) (wb_sessionCreates wb) (wb_sessionCreateResults wb)"
    and m: "slots_ok pm_resultIndex (wb_made wb) (wb_messageInserts wb) (wb_messageResults wb)" by (simp_all add: wb_ok_def)
  have "\<forall>p \<in> set (wb_sessionCreates wb). wb_sessionCreateResults wb (sc_resultIndex p) \<noteq> None"
    by (rule slots_ok_results [OF s])
  from create_sessions_returns [OF keeps draw this] obtain f1 ss where 1:
    "create_sessions env (wb_sessionCreateResults wb) (wb_sessionCreates wb) f = Some f1" "fl_messages f1 = []"
    "can_draw (length (wb_messageInserts wb)) f1" "mset ss = mset (wb_sessionCreates wb)"
    "answers sc_resultIndex (wb_sessionCreateResults wb) (session_ok (fe_probe env) (applied (fl_tx f1))) ss (fl_sessions f1)"
    by (metis new append_Nil)
  define t where "t = delete_sessions env (wb_sessionDeletions wb)
      (update_nicknames env (wb_nicknameUpdates wb) (update_activity env (wb_sessionUpdates wb) (fl_tx f1)))"
  have t: "applied (fl_tx f1) \<subseteq> applied t" unfolding t_def by (rule updates_keep [OF keeps])
  define g where "g = f1\<lparr>fl_tx := t\<rparr>"
  then have g: "fl_tx g = t" "fl_sessions g = fl_sessions f1" "fl_messages g = []" "can_draw (length (wb_messageInserts wb)) g"
    using 1(2,3) by simp_all
  from insert_messages_returns [OF keeps keys g(4) m] obtain f2 ms where 2:
    "insert_messages env (wb_messageResults wb) (wb_messageInserts wb) g = Some f2"
    "fl_sessions f2 = fl_sessions f1" "applied t \<subseteq> applied (fl_tx f2)" "mset ms = mset (wb_messageInserts wb)"
    "answers pm_resultIndex (wb_messageResults wb) (message_ok (applied (fl_tx f2))) ms (fl_messages f2)"
    unfolding g(1-3) append_Nil by blast
  have "answers sc_resultIndex (wb_sessionCreateResults wb) (session_ok (fe_probe env) (applied (fl_tx f2))) ss (fl_sessions f1)"
    using t 2(3) by (intro answers_mono [OF 1(5)]) (auto simp: session_ok_def)
  with 1(1,4) 2 show ?thesis
    by (intro exI [of _ f2] exI [of _ ss] exI [of _ ms]) (simp add: write_all_def g_def t_def)
qed


text \<open>A Commit that fails is reported to nobody: whatever the commit of the transaction answers, every waiting goroutine receives
  the same, so one whose row was executed is told of its success and its id although the
  transaction is lost.\<close>

theorem commit_failure_unreported:
  assumes "(wb_step env)\<^sup>*\<^sup>* NewWriteBuffer wb" and "tx_keeps (fe_db env) applied" and "keys_ok (fe_keys env)"
    and "wc_Begin (fe_db env) q = Inr t" and "NextIDs (length (wb_sessionCreates wb) + length (wb_messageInserts wb)) sf clock \<noteq> None"
  shows "\<exists>fd fd'. flush env q during wb sf clock = Some fd \<and>
    flush (env\<lparr>fe_db := (fe_db env)\<lparr>wc_Commit := other\<rparr>\<rparr>) q during wb sf clock = Some fd' \<and>
    fd_sessions fd' = fd_sessions fd \<and>
    (\<forall>msg \<in> set (wb_messageInserts wb). received (fd_messages fd') (wb_messageResults wb) (pm_resultIndex msg) =
       received (fd_messages fd) (wb_messageResults wb) (pm_resultIndex msg))"
proof (cases "nothing_to_do wb")
  case True
  then show ?thesis by (simp add: flush_def Let_def nothing_to_do_def)
next
  case False
  let ?f = "\<lparr>fl_tx = t, fl_sessions = [], fl_messages = [], fl_snowflake = sf, fl_clock = clock\<rparr>"
  let ?db = "(fe_db env)\<lparr>wc_Commit := other\<rparr>" and ?env = "env\<lparr>fe_db := (fe_db env)\<lparr>wc_Commit := other\<rparr>\<rparr>"
  have ok: "wb_ok wb" by (rule wb_ok_reachable [OF assms(1)])
  have "can_draw (length (wb_sessionCreates wb) + length (wb_messageInserts wb)) ?f" using assms(5) by (simp add: can_draw_def)
  from write_all_returns [OF assms(2,3) ok this] obtain f' ms where w: "write_all env wb ?f = Some f'"
    "mset ms = mset (wb_messageInserts wb)" "answers pm_resultIndex (wb_messageResults wb) (message_ok (applied (fl_tx f'))) ms (fl_messages f')" by auto
  have sel: "wc_Exec ?db = wc_Exec (fe_db env)" "wc_Prepare ?db = wc_Prepare (fe_db env)" "wc_Query ?db = wc_Query (fe_db env)"
    "fe_db ?env = ?db" "fe_probe ?env = fe_probe env" "fe_ids ?env = fe_ids env" "fe_keys ?env = fe_keys env" by simp_all
  have chunk: "insert_session_chunk ?db = insert_session_chunk (fe_db env)" "insert_message_chunk ?db = insert_message_chunk (fe_db env)"
    "exec_each ?db = exec_each (fe_db env)"
    unfolding insert_session_chunk_def insert_message_chunk_def exec_each_def sel by (rule refl)+
  have "create_sessions ?env = create_sessions env" "insert_messages ?env = insert_messages env" "delete_sessions ?env = delete_sessions env"
    "update_nicknames ?env = update_nicknames env" "update_activity ?env = update_activity env"
    unfolding create_sessions_def insert_messages_def fetch_roots_def delete_sessions_def update_nicknames_def
      update_activity_def fail_messages_def sel chunk by (rule refl)+
  then have same: "write_all ?env wb ?f = Some f'" using w(1) by (simp only: write_all_def)
  from ok have "slots_ok pm_resultIndex (wb_made wb) (wb_messageInserts wb) (wb_messageResults wb)" by (simp add: wb_ok_def)
  note m = answers_received [OF this w(2,3)]
  have "received (fl_messages f' @ later) (wb_messageResults wb) (pm_resultIndex msg) =
      received (fl_messages f' @ later') (wb_messageResults wb) (pm_resultIndex msg)" if "msg \<in> set (wb_messageInserts wb)" for msg later later'
    using m [OF that, of "[]"] by (auto simp: received_def bind_eq_Some_conv map_add_def)
  then show ?thesis using False by (auto simp: flush_def Let_def assms(4) w(1) same split: prod.splits)
qed

text \<open>A Begin that fails loses work. Every pending message is answered with the error, but no pending session is answered at all,
  and its goroutine waits for ever since the request is in no queue any more; the pending deletions are gone too. The updates
  are given back, over newer ones that were queued for the same session in the meantime.\<close>

theorem begin_failure_loses:
  assumes "wc_Begin (fe_db env) q = Inl e" and "\<not> nothing_to_do wb"
  shows "\<exists>fd. flush env q during wb sf clock = Some fd \<and> fd_db fd = q \<and> fd_sessions fd = [] \<and>
    wb_sessionCreates (fd_wb fd) = wb_sessionCreates (fold queue during (grabbed wb)) \<and>
    wb_sessionDeletions (fd_wb fd) = wb_sessionDeletions (fold queue during (grabbed wb)) \<and>
    (\<forall>i ts. wb_sessionUpdates wb i = Some ts \<longrightarrow> wb_sessionUpdates (fd_wb fd) i = Some ts) \<and>
    (\<forall>i n. wb_nicknameUpdates wb i = Some n \<longrightarrow> wb_nicknameUpdates (fd_wb fd) i = Some n)"
  using assms by (simp add: flush_def Let_def requeue_updates_def map_add_def)

section \<open>Statements\<close>

lemma count_placeholders: "count_list (placeholders row n) c = n * count_list row c + (if c = 44 then n - 1 else 0)"
proof -
  have "count_list (concat (map (\<lambda>i. (if 0 < i then lit '','' else []) @ row) [0..<n])) c =
      n * count_list row c + (if c = 44 then n - 1 else 0)"
    by (induction n) (auto simp: lit_def)
  then show ?thesis by (simp only: placeholders_def)
qed

lemma length_rows: "(\<And>x. x \<in> set xs \<Longrightarrow> length (f x) = k) \<Longrightarrow> length (concat (map f xs)) = length xs * k"
  by (induction xs) auto

text \<open>Every INSERT the buffer builds has one "?" for each of its arguments, at most the 32766 SQLite takes, and the chunks are the rows in
  their order. A DELETE has one for each pending deletion, however many there are.\<close>

theorem statement_parameters:
  "concat (row_chunks 5461 sessions) = sessions \<and> concat (row_chunks 3640 messages) = messages \<and>
   (\<forall>chunk \<in> set (row_chunks 5461 sessions). count_list (fst (session_insert chunk)) 63 = length (snd (session_insert chunk)) \<and>
      length (snd (session_insert chunk)) \<le> 32766) \<and>
   (\<forall>chunk \<in> set (row_chunks 3640 messages). count_list (fst (message_insert chunk)) 63 = length (snd (message_insert chunk)) \<and>
      length (snd (message_insert chunk)) \<le> 32766) \<and>
   count_list (id_list ids) 63 = length ids"
proof (intro conjI ballI)
  show "concat (row_chunks 5461 sessions) = sessions" "concat (row_chunks 3640 messages) = messages" by (simp_all add: concat_row_chunks)
  show "count_list (id_list ids) 63 = length ids" by (simp add: id_list_def count_placeholders lit_def)
next
  fix chunk assume c: "chunk \<in> set (row_chunks 5461 sessions)"
  have l: "length (snd (session_insert chunk)) = length chunk * 6" by (auto simp: session_insert_def intro!: length_rows)
  show "count_list (fst (session_insert chunk)) 63 = length (snd (session_insert chunk))"
    unfolding l by (simp add: session_insert_def count_placeholders lit_def)
  show "length (snd (session_insert chunk)) \<le> 32766" using chunks_length [OF c] by (simp add: l)
next
  fix chunk assume c: "chunk \<in> set (row_chunks 3640 messages)"
  have l: "length (snd (message_insert chunk)) = length chunk * 9" by (auto simp: message_insert_def intro!: length_rows)
  show "count_list (fst (message_insert chunk)) 63 = length (snd (message_insert chunk))"
    unfolding l by (simp add: message_insert_def count_placeholders lit_def)
  show "length (snd (message_insert chunk)) \<le> 32766" using chunks_length [OF c] by (simp add: l)
qed

lemma statement_parameters_witness:
  "let rows = [(\<lparr>pm_channelID = 1, pm_subchannelID = None, pm_parentID = None, pm_authorUserID = None, pm_authorNickname = [],
      pm_content = [], pm_timestamp = 0, pm_resultIndex = 0\<rparr>, 5, Some 5)] in
    count_list (fst (message_insert rows)) 63 = length (snd (message_insert rows)) \<and> length (snd (message_insert rows)) \<le> 32766"
proof -
  have "row_chunks 3640 [x] = [[x]]" for x :: messageWithID by (simp add: row_chunks.simps)
  then show ?thesis
    using statement_parameters [of "[] :: (unit pendingSessionCreate \<times> i64) list"
        "[(\<lparr>pm_channelID = 1, pm_subchannelID = None, pm_parentID = None, pm_authorUserID = None, pm_authorNickname = [],
           pm_content = [], pm_timestamp = 0, pm_resultIndex = 0\<rparr>, 5, Some 5)]" "[]"]
    by simp
qed

section \<open>A small buffer\<close>

text \<open>A database that remembers the statements of its transactions, and a buffer with a session and a message waiting.\<close>

definition log_db :: "((gostring \<times> sql_value list) list, (gostring \<times> sql_value list) list) write_conn" where
  "log_db = \<lparr>wc_Begin = (\<lambda>q. Inr q), wc_Prepare = (\<lambda>q t. (None, t)), wc_Exec = (\<lambda>q a t. (None, (q, a) # t)),
    wc_Query = (\<lambda>q a t. (Inr [], t)), wc_Commit = (\<lambda>t. (None, t))\<rparr>"

definition log_env :: "(unit, (gostring \<times> sql_value list) list, (gostring \<times> sql_value list) list) flush_env" where
  "log_env = \<lparr>fe_db = log_db, fe_probe = (\<lambda>_. ProbeTimeout), fe_ids = (\<lambda>n. sorted_list_of_set), fe_keys = sorted_list_of_set\<rparr>"

definition some_wb :: "unit WriteBuffer" where
  "some_wb = queue (QPost 1 None None (Some 7) [] (lit ''hi'') 6) (queue (QCreate (Some 7) (lit ''bob'') (lit ''ssh'') () 5) NewWriteBuffer)"

lemma some_wb_reached: "(wb_step env)\<^sup>*\<^sup>* NewWriteBuffer some_wb"
  unfolding some_wb_def by (meson rtranclp.rtrancl_into_rtrancl rtranclp.rtrancl_refl wb_step.queue)

lemma log_env_ok: "tx_keeps (fe_db log_env) set" "keys_ok (fe_keys log_env)" "wc_Begin (fe_db log_env) [] = Inr []"
  by (auto simp: tx_keeps_def log_env_def log_db_def keys_ok_def)

lemma some_wb_queues: "length (wb_sessionCreates some_wb) = 1" "length (wb_messageInserts some_wb) = 1"
  "map sc_resultIndex (wb_sessionCreates some_wb) = [0]" "map pm_resultIndex (wb_messageInserts some_wb) = [0]"
  "\<not> nothing_to_do some_wb"
  by (simp_all add: some_wb_def NewWriteBuffer_def wb_CreateSession_def wb_PostMessage_def Let_def nothing_to_do_def)

lemma some_ids: "NextIDs (1 + 1) (NewSnowflake 1704067200000 1) [1704067200005, 1704067200006] \<noteq> None"
  by code_simp


lemma commit_failure_unreported_witness:
  "\<exists>fd fd'. flush log_env [] [] some_wb (NewSnowflake 1704067200000 1) [1704067200005, 1704067200006] = Some fd \<and>
    flush (log_env\<lparr>fe_db := (fe_db log_env)\<lparr>wc_Commit := \<lambda>t. (Some (ErrText (lit ''disk full'')), [])\<rparr>\<rparr>) [] [] some_wb
      (NewSnowflake 1704067200000 1) [1704067200005, 1704067200006] = Some fd' \<and>
    fd_sessions fd' = fd_sessions fd \<and>
    received (fd_messages fd') (wb_messageResults some_wb) 0 = received (fd_messages fd) (wb_messageResults some_wb) 0"
proof -
  have "NextIDs (length (wb_sessionCreates some_wb) + length (wb_messageInserts some_wb)) (NewSnowflake 1704067200000 1)
      [1704067200005, 1704067200006] \<noteq> None"
    unfolding some_wb_queues by (rule some_ids)
  from commit_failure_unreported [OF some_wb_reached log_env_ok this, of "[]" "\<lambda>t. (Some (ErrText (lit ''disk full'')), [])"] some_wb_queues
  show ?thesis by force
qed

lemma begin_failure_loses_witness:
  "\<exists>fd. flush (log_env\<lparr>fe_db := log_db\<lparr>wc_Begin := \<lambda>q. Inl (ErrText (lit ''locked''))\<rparr>\<rparr>) [] [QActivity 9 200]
      (wb_UpdateSessionActivity 9 100 some_wb) (NewSnowflake 0 1) [] = Some fd \<and>
    fd_sessions fd = [] \<and> wb_sessionCreates (fd_wb fd) = [] \<and> wb_sessionUpdates (fd_wb fd) 9 = Some 100"
proof -
  have "\<not> nothing_to_do (wb_UpdateSessionActivity 9 100 some_wb)" by (simp add: nothing_to_do_def wb_UpdateSessionActivity_def)
  from begin_failure_loses [of "log_env\<lparr>fe_db := log_db\<lparr>wc_Begin := \<lambda>q. Inl (ErrText (lit ''locked''))\<rparr>\<rparr>" "[]", OF _ this,
      of "ErrText (lit ''locked'')" "[QActivity 9 200]" "NewSnowflake 0 1" "[]"]
  show ?thesis by (auto simp: wb_UpdateSessionActivity_def grabbed_def NewWriteBuffer_def)
qed

end
