(* ===== verification/ClientAddr.thy ===== *)
theory ClientAddr imports GoRun begin

text \<open>
  How the client finds its server: the parsing of addresses in "pkg/client/connection.go", the choice of a method from the
  history of connections in "pkg/client/connection_helpers.go", and the address the fallback to WebSocket dials.

  net.SplitHostPort and net.JoinHostPort are the standard library's, on the bytes of a string. "url.Parse" and the environment
  are parameters, and so is the table of past connections.
\<close>

section \<open>Strings\<close>

definition HasPrefix :: "gostring \<Rightarrow> gostring \<Rightarrow> bool" where
  "HasPrefix s p \<longleftrightarrow> take (length p) s = p"

definition HasSuffix :: "gostring \<Rightarrow> gostring \<Rightarrow> bool" where
  "HasSuffix s p \<longleftrightarrow> length p \<le> length s \<and> drop (length s - length p) s = p"

definition TrimPrefix :: "gostring \<Rightarrow> gostring \<Rightarrow> gostring" where
  "TrimPrefix s p = (if HasPrefix s p then drop (length p) s else s)"

definition TrimSuffix :: "gostring \<Rightarrow> gostring \<Rightarrow> gostring" where
  "TrimSuffix s p = (if HasSuffix s p then take (length s - length p) s else s)"

text \<open>"strings.ToLower" where the code uses it: on schemes and on the texts of net's errors, which are ASCII.\<close>

definition ToLower :: "gostring \<Rightarrow> gostring" where
  "ToLower s = map (\<lambda>b. if 65 \<le> b \<and> b \<le> 90 then b + 32 else b) s"

text \<open>The index of the first and of the last occurrence of a byte.\<close>

fun index_byte :: "u8 \<Rightarrow> gostring \<Rightarrow> nat option" where
  "index_byte b [] = None"
| "index_byte b (c # s) = (if c = b then Some 0 else map_option Suc (index_byte b s))"

definition last_index_byte :: "u8 \<Rightarrow> gostring \<Rightarrow> nat option" where
  "last_index_byte b s = map_option (\<lambda>i. length s - Suc i) (index_byte b (rev s))"

section \<open>Hosts and ports\<close>

datatype addr_error =
    EmptyAddress | MissingHost
  | AddrError gostring gostring
  | InvalidAddress gostring gostring
  | UnsupportedScheme gostring

definition missingPort :: gostring where
  "missingPort = lit ''missing port in address''"

definition tooManyColons :: gostring where
  "tooManyColons = lit ''too many colons in address''"

text \<open>The checks at the end of SplitHostPort: no bracket after the positions j and k.\<close>

definition split_checked :: "gostring \<Rightarrow> gostring \<Rightarrow> nat \<Rightarrow> nat \<Rightarrow> nat \<Rightarrow> addr_error + gostring \<times> gostring" where
  "split_checked hostport host i j k =
    (if 91 \<in> set (drop j hostport) then Inl (AddrError (lit ''unexpected '' @ [39, 91, 39] @ lit '' in address'') hostport)
     else if 93 \<in> set (drop k hostport) then Inl (AddrError (lit ''unexpected '' @ [39, 93, 39] @ lit '' in address'') hostport)
     else Inr (host, drop (Suc i) hostport))"

definition SplitHostPort :: "gostring \<Rightarrow> addr_error + gostring \<times> gostring" where
  "SplitHostPort hostport =
    (case last_index_byte 58 hostport of
       None \<Rightarrow> Inl (AddrError missingPort hostport)
     | Some i \<Rightarrow>
        if hostport ! 0 = 91 then
          (case index_byte 93 hostport of
             None \<Rightarrow> Inl (AddrError (lit ''missing '' @ [39, 93, 39] @ lit '' in address'') hostport)
           | Some e \<Rightarrow>
              if Suc e = length hostport then Inl (AddrError missingPort hostport)
              else if Suc e = i then split_checked hostport (take (e - 1) (drop 1 hostport)) i 1 (Suc e)
              else if hostport ! Suc e = 58 then Inl (AddrError tooManyColons hostport)
              else Inl (AddrError missingPort hostport))
        else if 58 \<in> set (take i hostport) then Inl (AddrError tooManyColons hostport)
        else split_checked hostport (take i hostport) i 0 0)"

definition JoinHostPort :: "gostring \<Rightarrow> gostring \<Rightarrow> gostring" where
  "JoinHostPort host port =
    (if 58 \<in> set host then [91] @ host @ [93, 58] @ port else host @ [58] @ port)"

definition splitHostPortWithDefault :: "gostring \<Rightarrow> gostring \<Rightarrow> addr_error + gostring \<times> gostring" where
  "splitHostPortWithDefault hostPort defaultPort =
    (let hostPort = TrimSpace hostPort in
     if hostPort = [] then Inl MissingHost
     else
       (case SplitHostPort hostPort of
          Inr hp \<Rightarrow> Inr hp
        | Inl (AddrError why addr) \<Rightarrow>
           if strings_Contains (ToLower why) (lit ''missing port'') then
             Inr (if HasPrefix hostPort [91] \<and> HasSuffix hostPort [93]
               then TrimPrefix (TrimSuffix hostPort [93]) [91] else hostPort, defaultPort)
           else Inl (AddrError why addr)
        | Inl e \<Rightarrow> Inl e))"

section \<open>Server addresses\<close>

record URL =
  url_Scheme :: gostring
  url_User :: "gostring option"
  url_Host :: gostring
  url_Path :: gostring

text \<open>"u.Hostname()": the host without its port and brackets.\<close>

definition validOptionalPort :: "gostring \<Rightarrow> bool" where
  "validOptionalPort port \<longleftrightarrow> port = [] \<or> port ! 0 = 58 \<and> list_all (\<lambda>b. 48 \<le> b \<and> b \<le> 57) (drop 1 port)"

definition Hostname :: "URL \<Rightarrow> gostring" where
  "Hostname u =
    (let host = url_Host u;
         host = (case last_index_byte 58 host of
             Some colon \<Rightarrow> if validOptionalPort (drop colon host) then take colon host else host
           | None \<Rightarrow> host)
     in if HasPrefix host [91] \<and> HasSuffix host [93] then take (length host - 2) (drop 1 host) else host)"

definition defaultTCPPort :: gostring where
  "defaultTCPPort = lit ''6465''"

definition defaultSSHPort :: gostring where
  "defaultSSHPort = lit ''6466''"

definition defaultHTTPPort :: gostring where
  "defaultHTTPPort = lit ''8080''"

definition defaultSSHUser :: "(gostring \<Rightarrow> gostring) \<Rightarrow> gostring" where
  "defaultSSHUser getenv =
    (if getenv (lit ''SUPERCHAT_SSH_USER'') \<noteq> [] then getenv (lit ''SUPERCHAT_SSH_USER'')
     else if getenv (lit ''USER'') \<noteq> [] then getenv (lit ''USER'')
     else if getenv (lit ''USERNAME'') \<noteq> [] then getenv (lit ''USERNAME'')
     else lit ''anonymous'')"

text \<open>What the dial function of a configuration does when it is called.\<close>

datatype dialer =
    DialTCP gostring
  | DialSSH gostring gostring gostring
  | DialWS gostring bool

record dialConfig =
  dc_display :: gostring
  dc_raw :: gostring
  dc_dial :: dialer
  dc_warning :: gostring

text \<open>The parts of an address before its scheme is looked at: the scheme, the user and the host with its port.\<close>

definition address_parts :: "(gostring \<Rightarrow> gostring + URL) \<Rightarrow> gostring \<Rightarrow> gostring \<Rightarrow> addr_error + gostring \<times> gostring \<times> gostring" where
  "address_parts url_Parse raw trimmed =
    (if strings_Contains trimmed (lit ''://'') then
       (case url_Parse trimmed of
          Inl e \<Rightarrow> Inl (InvalidAddress raw e)
        | Inr u \<Rightarrow> Inr
           (if url_Scheme u \<noteq> [] then ToLower (url_Scheme u) else lit ''tcp'',
            case url_User u of Some name \<Rightarrow> name | None \<Rightarrow> [],
            TrimPrefix (if url_Host u \<noteq> [] then url_Host u else if url_Path u \<noteq> [] then url_Path u else trimmed) (lit ''//'')))
     else Inr (lit ''tcp'', [], trimmed))"

text \<open>warning is what newHostKeyVerifier found out about the files of known hosts.\<close>

definition config_for ::
  "(gostring \<Rightarrow> gostring) \<Rightarrow> gostring \<Rightarrow> gostring \<Rightarrow> gostring \<Rightarrow> gostring \<Rightarrow> addr_error + dialConfig" where
  "config_for getenv warning scheme user hostPort =
    (if scheme = lit ''tcp'' \<or> scheme = lit ''sc'' \<or> scheme = [] then
       (case splitHostPortWithDefault hostPort defaultTCPPort of
          Inl e \<Rightarrow> Inl e
        | Inr (host, port) \<Rightarrow>
           (let address = JoinHostPort host port in
            Inr \<lparr>dc_display = address, dc_raw = address, dc_dial = DialTCP address, dc_warning = []\<rparr>))
     else if scheme = lit ''ssh'' then
       (case splitHostPortWithDefault hostPort defaultSSHPort of
          Inl e \<Rightarrow> Inl e
        | Inr (host, port) \<Rightarrow>
           (let user = (if user = [] then defaultSSHUser getenv else user);
                address = JoinHostPort host port
            in Inr
             \<lparr>dc_display = (if user \<noteq> [] then lit ''ssh://'' @ user @ lit ''@'' @ address else lit ''ssh://'' @ address),
              dc_raw = (if user \<noteq> [] then user @ lit ''@'' @ address else address),
              dc_dial = DialSSH user host port, dc_warning = warning\<rparr>))
     else if scheme = lit ''ws'' \<or> scheme = lit ''wss'' then
       (case splitHostPortWithDefault hostPort defaultHTTPPort of
          Inl e \<Rightarrow> Inl e
        | Inr (host, port) \<Rightarrow>
           (let address = JoinHostPort host port; useTLS = (scheme = lit ''wss'') in
            Inr \<lparr>dc_display = (if useTLS then lit ''wss'' else lit ''ws'') @ lit ''://'' @ address, dc_raw = address,
              dc_dial = DialWS address useTLS, dc_warning = []\<rparr>))
     else Inl (UnsupportedScheme scheme))"

definition parseServerAddress ::
  "(gostring \<Rightarrow> gostring + URL) \<Rightarrow> (gostring \<Rightarrow> gostring) \<Rightarrow> gostring \<Rightarrow> gostring \<Rightarrow> addr_error + dialConfig" where
  "parseServerAddress url_Parse getenv warning raw =
    (let trimmed = TrimSpace raw in
     if trimmed = [] then Inl EmptyAddress
     else
       (case address_parts url_Parse raw trimmed of
          Inl e \<Rightarrow> Inl e
        | Inr (scheme, user, hostPort) \<Rightarrow> config_for getenv warning scheme user hostPort))"

section \<open>The address of the WebSocket fallback\<close>

definition fallback_address :: "(gostring \<Rightarrow> gostring + URL) \<Rightarrow> gostring \<Rightarrow> gostring" where
  "fallback_address url_Parse addr =
    (let host =
       (if strings_Contains addr (lit ''://'') then
          (case url_Parse addr of Inl e \<Rightarrow> addr | Inr u \<Rightarrow> Hostname u)
        else
          (case SplitHostPort addr of Inl e \<Rightarrow> addr | Inr (host, port) \<Rightarrow> host))
     in host @ lit '':8080'')"

section \<open>The history of connections\<close>

definition buildLookupAddresses :: "gostring \<Rightarrow> gostring list" where
  "buildLookupAddresses address =
    (case SplitHostPort address of
       Inl e \<Rightarrow> [address, address @ lit '':6465'', address @ lit '':8080'']
     | Inr (host, port) \<Rightarrow>
        [address, host] @ (if port \<noteq> lit ''8080'' then [host @ lit '':8080''] else []) @
        (if port \<noteq> lit ''6465'' then [host @ lit '':6465''] else []))"

definition applyConnectionScheme :: "gostring \<Rightarrow> gostring \<Rightarrow> gostring" where
  "applyConnectionScheme address method =
    (if method = lit ''ssh'' then lit ''ssh://'' @ address
     else if method = lit ''wss'' then lit ''wss://'' @ address
     else if method = lit ''ws'' \<or> method = lit ''websocket'' then lit ''ws://'' @ address
     else address)"

text \<open>The first method the history has; an error and an empty method count as none.\<close>

fun last_method :: "(gostring \<Rightarrow> 'e + gostring) \<Rightarrow> gostring list \<Rightarrow> gostring" where
  "last_method history [] = []"
| "last_method history (addr # addrs) =
    (case history addr of
       Inr m \<Rightarrow> if m \<noteq> [] then m else last_method history addrs
     | Inl e \<Rightarrow> last_method history addrs)"

definition ResolveConnectionMethod :: "(gostring \<Rightarrow> 'e + gostring) \<Rightarrow> gostring \<Rightarrow> gostring" where
  "ResolveConnectionMethod history address =
    (if strings_Contains address (lit ''://'') then address
     else
       (let lastMethod = last_method history (buildLookupAddresses address) in
        if lastMethod \<noteq> [] then applyConnectionScheme address lastMethod else address))"

text \<open>The name under which a successful connection is remembered: its type, or the scheme of its address for a WebSocket.\<close>

definition saved_method :: "gostring \<Rightarrow> gostring \<Rightarrow> gostring" where
  "saved_method connType connAddr =
    (if connType = lit ''websocket'' then
       (if HasPrefix connAddr (lit ''wss://'') then lit ''wss''
        else if HasPrefix connAddr (lit ''ws://'') then lit ''ws''
        else connType)
     else connType)"

section \<open>Splitting what was joined\<close>

lemma index_byte_append: "b \<notin> set s \<Longrightarrow> index_byte b (s @ b # t) = Some (length s)"
  by (induction s) auto

lemma index_byte_None: "index_byte b s = None \<longleftrightarrow> b \<notin> set s"
  by (induction s) auto

lemma last_index_byte_append: "b \<notin> set t \<Longrightarrow> last_index_byte b (s @ b # t) = Some (length s)"
  by (simp add: last_index_byte_def index_byte_append)

lemma last_index_byte_None: "last_index_byte b s = None \<longleftrightarrow> b \<notin> set s"
  by (simp add: last_index_byte_def index_byte_None)

lemma lit_chars [simp]: "lit [] = []" "lit (c # s) = of_char c # lit s"
  by (simp_all add: lit_def)

text \<open>net.SplitHostPort takes apart what net.JoinHostPort put together, for hosts with colons as for those without.\<close>

lemma split_joined:
  assumes "91 \<notin> set host" and "93 \<notin> set host" and "set port \<inter> {58, 91, 93} = {}"
  shows "SplitHostPort (JoinHostPort host port) = Inr (host, port)"
proof (cases "58 \<in> set host")
  case True
  have "last_index_byte 58 (([91] @ host @ [93]) @ 58 # port) = Some (length host + 2)"
    using assms by (subst last_index_byte_append) auto
  moreover have "index_byte 93 (([91] @ host) @ 93 # 58 # port) = Some (length host + 1)"
    using assms by (subst index_byte_append) auto
  ultimately show ?thesis using assms True by (auto simp: SplitHostPort_def JoinHostPort_def split_checked_def)
next
  case False
  have "last_index_byte 58 (host @ 58 # port) = Some (length host)"
    using assms by (intro last_index_byte_append) auto
  then show ?thesis using assms False by (cases host) (auto simp: SplitHostPort_def JoinHostPort_def split_checked_def)
qed

section \<open>Plain addresses\<close>

text \<open>Host names and port numbers as users write them: letters, digits, dots and dashes.\<close>

definition plain_byte :: "u8 \<Rightarrow> bool" where
  "plain_byte b \<longleftrightarrow> 48 \<le> b \<and> b \<le> 57 \<or> 65 \<le> b \<and> b \<le> 90 \<or> 97 \<le> b \<and> b \<le> 122 \<or> b = 45 \<or> b = 46"

definition plain :: "gostring \<Rightarrow> bool" where
  "plain s \<longleftrightarrow> s \<noteq> [] \<and> (\<forall>b \<in> set s. plain_byte b)"

lemma plain_byte_not: "\<not> plain_byte 58" "\<not> plain_byte 91" "\<not> plain_byte 93" "\<not> plain_byte 47" "\<not> plain_byte 32"
  by (simp_all add: plain_byte_def)

lemma plain_not_in: "plain s \<Longrightarrow> \<not> plain_byte b \<Longrightarrow> b \<notin> set s"
  by (auto simp: plain_def)

lemma trim_by_id:
  assumes "\<forall>w \<in> set ws. w \<noteq> [] \<longrightarrow> take 1 w \<noteq> take 1 s"
  shows "trim_by ws s = s"
proof -
  have "\<not> (w \<noteq> [] \<and> take (length w) s = w)" if "w \<in> set ws" for w
  proof
    assume w: "w \<noteq> [] \<and> take (length w) s = w"
    then have "take 1 w = take 1 (take (length w) s)" by simp
    also have "\<dots> = take 1 s" using w by (cases w; cases s) simp_all
    finally show False using assms that w by blast
  qed
  then have "List.find (\<lambda>w. w \<noteq> [] \<and> take (length w) s = w) ws = None" by (auto simp: find_None_iff)
  then show ?thesis by (simp add: trim_by.simps [of ws s])
qed

lemma TrimSpace_plain:
  assumes "plain_byte (hd s)" and "plain_byte (last s)" and "s \<noteq> []"
  shows "TrimSpace s = s"
proof -
  have "take 1 s = [hd s]" "take 1 (rev s) = [last s]" using assms(3) by (cases s; simp) (cases s rule: rev_cases; simp add: assms(3))
  moreover have "\<forall>w \<in> set spaces. take 1 w \<noteq> [hd s]" using assms(1) by (auto simp: spaces_def plain_byte_def)
  moreover have "\<forall>w \<in> set (map rev spaces). take 1 w \<noteq> [last s]" using assms(2) by (auto simp: spaces_def plain_byte_def)
  ultimately show ?thesis unfolding TrimSpace_def by (simp add: trim_by_id)
qed

lemma Contains_set: "strings_Contains s sub \<Longrightarrow> set sub \<subseteq> set s"
  unfolding strings_Contains_def by (metis set_drop_subset set_take_subset subset_trans)

lemma not_Contains_scheme: "47 \<notin> set s \<Longrightarrow> \<not> strings_Contains s (lit ''://'')"
  using Contains_set [of s "lit ''://''"] by auto

lemma Contains_append: "strings_Contains (s @ sub @ t) sub"
proof -
  have "length s \<in> set [0..<Suc (length (s @ sub @ t))]" by simp
  moreover have "take (length sub) (drop (length s) (s @ sub @ t)) = sub" by simp
  ultimately show ?thesis unfolding strings_Contains_def by blast
qed

lemma JoinHostPort_plain: "plain host \<Longrightarrow> JoinHostPort host port = host @ 58 # port"
  using plain_not_in [OF _ plain_byte_not(1)] by (simp add: JoinHostPort_def)

lemma split_plain:
  assumes "plain host" and "plain port"
  shows "SplitHostPort (host @ 58 # port) = Inr (host, port)"
proof -
  have "set port \<inter> {58, 91, 93} = {}" using plain_not_in [OF assms(2)] plain_byte_not by auto
  from split_joined [OF _ _ this, of host] show ?thesis
    using plain_not_in [OF assms(1)] plain_byte_not by (simp add: JoinHostPort_plain [OF assms(1)])
qed

lemma plain_ends:
  assumes "plain host" and "plain port"
  shows "plain_byte (hd (host @ 58 # port))" and "plain_byte (last (host @ 58 # port))"
  using assms by (auto simp: plain_def hd_append)

lemma TrimSpace_address: "plain host \<Longrightarrow> plain port \<Longrightarrow> TrimSpace (host @ 58 # port) = host @ 58 # port"
  by (rule TrimSpace_plain [OF plain_ends]) simp_all

lemma split_default_plain:
  "plain host \<Longrightarrow> plain port \<Longrightarrow> splitHostPortWithDefault (host @ 58 # port) d = Inr (host, port)"
  by (simp add: splitHostPortWithDefault_def TrimSpace_address split_plain)

lemma no_scheme: "plain host \<Longrightarrow> plain port \<Longrightarrow> \<not> strings_Contains (host @ 58 # port) (lit ''://'')"
  by (rule not_Contains_scheme) (auto dest: plain_not_in [OF _ plain_byte_not(4)])

text \<open>What the code relies on in "url.Parse": the parts of an address with a scheme and a host.\<close>

definition parses_plain :: "(gostring \<Rightarrow> gostring + URL) \<Rightarrow> bool" where
  "parses_plain url_Parse \<longleftrightarrow> (\<forall>scheme host port. scheme \<in> {lit ''ssh'', lit ''ws'', lit ''wss''} \<and> plain host \<and> plain port \<longrightarrow>
     url_Parse (scheme @ lit ''://'' @ host @ 58 # port) =
       Inr \<lparr>url_Scheme = scheme, url_User = None, url_Host = host @ 58 # port, url_Path = []\<rparr>)"

lemma parse_with_scheme:
  assumes "parses_plain url_Parse" and s: "scheme \<in> {lit ''ssh'', lit ''ws'', lit ''wss''}" and "plain host" and "plain port"
  shows "parseServerAddress url_Parse getenv warning (scheme @ lit ''://'' @ host @ 58 # port) =
    config_for getenv warning scheme [] (host @ 58 # port)"
proof -
  let ?a = "scheme @ lit ''://'' @ host @ 58 # port"
  have "plain_byte (hd ?a)" "last ?a = last port" "?a \<noteq> []" using s assms(3,4) by (auto simp: plain_byte_def plain_def)
  then have trim: "TrimSpace ?a = ?a" using assms(4) by (intro TrimSpace_plain) (auto simp: plain_def)
  have low: "ToLower scheme = scheme" "scheme \<noteq> []" using s by (auto simp: ToLower_def)
  have "\<not> HasPrefix (host @ 58 # port) (lit ''//'')"
    using assms(3) plain_byte_not(4) by (cases host) (auto simp: HasPrefix_def plain_def)
  moreover have "strings_Contains ?a (lit ''://'')" by (rule Contains_append)
  ultimately show ?thesis using assms low
    by (simp only: parseServerAddress_def Let_def trim address_parts_def parses_plain_def) (simp add: TrimPrefix_def)
qed

lemma parse_plain:
  assumes "plain host" and "plain port"
  shows "parseServerAddress url_Parse getenv warning (host @ 58 # port) = config_for getenv warning (lit ''tcp'') [] (host @ 58 # port)"
  by (simp add: parseServerAddress_def Let_def TrimSpace_address [OF assms] address_parts_def no_scheme [OF assms] del: lit_chars)

lemma resolve_plain:
  assumes "plain host" and "plain port"
  shows "ResolveConnectionMethod history (host @ 58 # port) =
    applyConnectionScheme (host @ 58 # port) (last_method history (buildLookupAddresses (host @ 58 # port)))"
proof -
  have "applyConnectionScheme a [] = a" for a by (simp add: applyConnectionScheme_def)
  with no_scheme [OF assms] show ?thesis by (simp add: ResolveConnectionMethod_def Let_def del: lit_chars)
qed

text \<open>The history of connections decides how an address is dialed and never where: an address the user types is
  dialed at its own host and port, over SSH or WebSocket when that is what worked last for the first address of
  buildLookupAddresses that has a history, and over TCP otherwise.\<close>

theorem resolved_address_dials:
  assumes "parses_plain url_Parse" and "plain host" and "plain port"
    and "last_method history (buildLookupAddresses (host @ 58 # port)) = m"
  shows "\<exists>cfg. parseServerAddress url_Parse getenv warning (ResolveConnectionMethod history (host @ 58 # port)) = Inr cfg \<and>
    dc_dial cfg =
      (if m = lit ''ssh'' then DialSSH (defaultSSHUser getenv) host port
       else if m = lit ''wss'' then DialWS (host @ 58 # port) True
       else if m = lit ''ws'' \<or> m = lit ''websocket'' then DialWS (host @ 58 # port) False
       else DialTCP (host @ 58 # port))"
proof -
  have ne: "lit ''ssh'' \<noteq> lit ''tcp''" "lit ''ssh'' \<noteq> lit ''sc''" "lit ''ssh'' \<noteq> []" "lit ''ws'' \<noteq> lit ''tcp''" "lit ''ws'' \<noteq> lit ''sc''"
    "lit ''ws'' \<noteq> []" "lit ''wss'' \<noteq> lit ''tcp''" "lit ''wss'' \<noteq> lit ''sc''" "lit ''wss'' \<noteq> []"
    "lit ''ws'' \<noteq> lit ''ssh''" "lit ''wss'' \<noteq> lit ''ssh''" "lit ''ws'' \<noteq> lit ''wss''"
    by simp_all
  note config = config_for_def split_default_plain [OF assms(2,3)] Let_def JoinHostPort_plain [OF assms(2)] ne ne [symmetric]
  have p: "parseServerAddress url_Parse getenv warning (scheme @ lit ''://'' @ host @ 58 # port) =
      config_for getenv warning scheme [] (host @ 58 # port)" if "scheme \<in> {lit ''ssh'', lit ''ws'', lit ''wss''}" for scheme
    using parse_with_scheme [OF assms(1) that assms(2,3)] .
  have pre: "lit ''ssh://'' = lit ''ssh'' @ lit ''://''" "lit ''ws://'' = lit ''ws'' @ lit ''://''" "lit ''wss://'' = lit ''wss'' @ lit ''://''"
    by simp_all
  consider "m = lit ''ssh''" | "m \<noteq> lit ''ssh''" "m = lit ''wss''" | "m \<noteq> lit ''ssh''" "m \<noteq> lit ''wss''" "m = lit ''ws'' \<or> m = lit ''websocket''"
    | "m \<noteq> lit ''ssh''" "m \<noteq> lit ''wss''" "\<not> (m = lit ''ws'' \<or> m = lit ''websocket'')" by blast
  then show ?thesis
  proof cases
    case 1
    then show ?thesis
      by (simp add: resolve_plain [OF assms(2,3)] assms(4) applyConnectionScheme_def pre p config del: lit_chars)
  next
    case 2
    then show ?thesis
      by (simp add: resolve_plain [OF assms(2,3)] assms(4) applyConnectionScheme_def pre p config del: lit_chars)
  next
    case 3
    then show ?thesis
      by (simp add: resolve_plain [OF assms(2,3)] assms(4) applyConnectionScheme_def pre p config del: lit_chars)
  next
    case 4
    then show ?thesis
      by (simp add: resolve_plain [OF assms(2,3)] assms(4) applyConnectionScheme_def parse_plain [OF assms(2,3)] config del: lit_chars)
  qed
qed

text \<open>An interpretation of "url.Parse" that is right on the addresses the code builds.\<close>

definition simple_Parse :: "gostring \<Rightarrow> gostring + URL" where
  "simple_Parse s =
    (case index_byte 58 s of
       None \<Rightarrow> Inl (lit ''no scheme'')
     | Some i \<Rightarrow> Inr \<lparr>url_Scheme = take i s, url_User = None, url_Host = drop (i + 3) s, url_Path = []\<rparr>)"

lemma simple_Parse_plain: "parses_plain simple_Parse"
  unfolding parses_plain_def
proof (intro allI impI)
  fix scheme host port :: gostring
  assume "scheme \<in> {lit ''ssh'', lit ''ws'', lit ''wss''} \<and> plain host \<and> plain port"
  then have "index_byte 58 (scheme @ 58 # (47 # 47 # host @ 58 # port)) = Some (length scheme)" by (intro index_byte_append) auto
  then show "simple_Parse (scheme @ lit ''://'' @ host @ 58 # port) =
      Inr \<lparr>url_Scheme = scheme, url_User = None, url_Host = host @ 58 # port, url_Path = []\<rparr>"
    by (simp add: simple_Parse_def)
qed

lemma plain_example: "plain (lit ''example.org'')" "plain (lit ''6465'')"
  by (simp_all add: plain_def plain_byte_def)

lemma resolved_address_dials_witness:
  "\<exists>cfg. parseServerAddress simple_Parse (\<lambda>_. lit ''ann'') []
      (ResolveConnectionMethod (\<lambda>a. if a = lit ''example.org'' then (Inr (lit ''ssh'') :: unit + gostring) else Inr []) (lit ''example.org:6465'')) = Inr cfg \<and>
    dc_dial cfg = DialSSH (lit ''ann'') (lit ''example.org'') (lit ''6465'')"
proof -
  have a: "lit ''example.org:6465'' = lit ''example.org'' @ 58 # lit ''6465''" by (simp add: lit_def)
  have m: "last_method (\<lambda>a. if a = lit ''example.org'' then (Inr (lit ''ssh'') :: unit + gostring) else Inr [])
      (buildLookupAddresses (lit ''example.org'' @ 58 # lit ''6465'')) = lit ''ssh''"
    by (simp add: buildLookupAddresses_def split_plain [OF plain_example] del: lit_chars)
  have u: "defaultSSHUser (\<lambda>_. lit ''ann'') = lit ''ann''" by (simp add: defaultSSHUser_def)
  show ?thesis unfolding a using resolved_address_dials [OF simple_Parse_plain plain_example m, of "\<lambda>_. lit ''ann''" "[]"]
    unfolding u by simp
qed

text \<open>A fallback that worked is remembered for the wrong port. When the TCP port of a server cannot be reached, the client
  connects to its WebSocket on port 8080 and saves the method under the address it was given; with this history the
  same address is dialed as a WebSocket on the TCP port the next time, not on the port that worked.\<close>

theorem fallback_remembered_wrongly:
  assumes "parses_plain url_Parse" and "plain host" and "plain port" and "port \<noteq> lit ''8080''"
    and "history (host @ 58 # port) = Inr (saved_method (lit ''websocket'') (lit ''ws://'' @ fallback_address url_Parse (host @ 58 # port)))"
  shows "fallback_address url_Parse (host @ 58 # port) = host @ lit '':8080'' \<and>
    (\<exists>cfg. parseServerAddress url_Parse getenv warning (ResolveConnectionMethod history (host @ 58 # port)) = Inr cfg \<and>
       dc_dial cfg = DialWS (host @ 58 # port) False \<and> host @ 58 # port \<noteq> host @ lit '':8080'')"
proof (intro conjI)
  show "fallback_address url_Parse (host @ 58 # port) = host @ lit '':8080''"
    using no_scheme [OF assms(2,3)] by (simp add: fallback_address_def split_plain [OF assms(2,3)] del: lit_chars)
  have "saved_method (lit ''websocket'') (lit ''ws://'' @ a) = lit ''ws''" for a by (simp add: saved_method_def HasPrefix_def)
  with assms(5) have h: "history (host @ 58 # port) = Inr (lit ''ws'')" by simp
  have l: "lit ''ws'' \<noteq> []" by simp
  have "last_method history (buildLookupAddresses (host @ 58 # port)) = lit ''ws''"
    by (simp add: buildLookupAddresses_def split_plain [OF assms(2,3)] h l del: lit_chars)
  then have r: "ResolveConnectionMethod history (host @ 58 # port) = lit ''ws'' @ lit ''://'' @ host @ 58 # port"
    by (simp add: resolve_plain [OF assms(2,3)] applyConnectionScheme_def)
  have "config_for getenv warning (lit ''ws'') [] (host @ 58 # port) = Inr
      \<lparr>dc_display = lit ''ws'' @ lit ''://'' @ host @ 58 # port, dc_raw = host @ 58 # port, dc_dial = DialWS (host @ 58 # port) False, dc_warning = []\<rparr>"
    by (simp add: config_for_def split_default_plain [OF assms(2,3)] JoinHostPort_plain [OF assms(2)] Let_def)
  then show "\<exists>cfg. parseServerAddress url_Parse getenv warning (ResolveConnectionMethod history (host @ 58 # port)) = Inr cfg \<and>
      dc_dial cfg = DialWS (host @ 58 # port) False \<and> host @ 58 # port \<noteq> host @ lit '':8080''"
    unfolding r using parse_with_scheme [OF assms(1) _ assms(2,3), of "lit ''ws''"] assms(4) by simp
qed

lemma fallback_remembered_wrongly_witness:
  "\<exists>cfg. parseServerAddress simple_Parse (\<lambda>_. []) []
      (ResolveConnectionMethod (\<lambda>a. Inr (lit ''ws'') :: unit + gostring) (lit ''example.org'' @ 58 # lit ''6465'')) = Inr cfg \<and>
    dc_dial cfg = DialWS (lit ''example.org'' @ 58 # lit ''6465'') False"
proof -
  have p: "lit ''6465'' \<noteq> lit ''8080''" by simp
  have m: "Inr (lit ''ws'') = (Inr (saved_method (lit ''websocket'')
      (lit ''ws://'' @ fallback_address simple_Parse (lit ''example.org'' @ 58 # lit ''6465''))) :: unit + gostring)"
    by (simp add: saved_method_def HasPrefix_def)
  from fallback_remembered_wrongly [OF simple_Parse_plain plain_example p m, of "\<lambda>_. []" "[]"] show ?thesis by blast
qed

end
