(* ===== verification/ClientConn.thy ===== *)
theory ClientConn imports ClientAddr Protocol begin

text \<open>
  The connection of a client, "pkg/client/connection.go": connecting with the fallback to WebSocket, the validation of the protocol,
  the loops that read and write frames, disconnecting, and reconnecting with exponential backoff.

  The network is a parameter: what a dial returns, and the bytes a new connection sends until its deadline passes. A
  connection is a writer that can be closed, as on the server. Channels are queues; a send that would wait shows in
  the length of its queue. The counters of bytes and the log are left out.
\<close>

section \<open>State\<close>

datatype ConnectionStateType = StateTypeConnected | StateTypeDisconnected | StateTypeReconnecting

datatype DisconnectReason =
    DisconnectUnknown | DisconnectIdle | DisconnectError | DisconnectServerDown | DisconnectUserRequested

datatype validation_error =
    NoConnection | DeadlineFailed gostring | ReadFailed go_error | UnexpectedType u8
  | DecodeFailed go_error | VersionMismatch u8

datatype connect_error =
    AlreadyConnected | NoDialer
  | DialFailed gostring
  | AllMethodsFailed gostring gostring
  | ValidationFailed validation_error
  | ValidationAndFallbackFailed validation_error
  | WebSocketValidationFailed validation_error

text \<open>What the loops report on the channel of errors.\<close>

datatype conn_error = ReadError go_error | EncodeError go_error | WriteError go_error | Disconnected

record ConnectionStateUpdate =
  su_State :: ConnectionStateType
  su_Attempt :: int
  su_Err :: "conn_error option"

text \<open>cn_readers and cn_writers count the goroutines that run readLoop and writeLoop, cn_loops those that run reconnectLoop.
  Durations are in nanoseconds.\<close>

record 'w Connection =
  cn_addr :: gostring
  cn_rawAddr :: gostring
  cn_dial :: "dialer option"
  cn_conn :: "'w option"
  cn_connected :: bool
  cn_reconnecting :: bool
  cn_securityWarning :: gostring
  cn_connectionType :: gostring
  cn_incoming :: "Frame list"
  cn_outgoing :: "Frame list"
  cn_errors :: "conn_error list"
  cn_stateChange :: "ConnectionStateUpdate list"
  cn_autoReconnect :: bool
  cn_reconnectDelay :: int
  cn_maxReconnectDelay :: int
  cn_lastDisconnectReason :: DisconnectReason
  cn_lastSuccessfulMethod :: gostring
  cn_throttle :: int
  cn_closed :: bool
  cn_readers :: nat
  cn_writers :: nat
  cn_loops :: nat

definition new_connection :: "dialConfig \<Rightarrow> 'w Connection" where
  "new_connection cfg =
    \<lparr>cn_addr = dc_display cfg, cn_rawAddr = dc_raw cfg, cn_dial = Some (dc_dial cfg), cn_conn = None, cn_connected = False,
     cn_reconnecting = False, cn_securityWarning = dc_warning cfg, cn_connectionType = [], cn_incoming = [], cn_outgoing = [],
     cn_errors = [], cn_stateChange = [], cn_autoReconnect = True, cn_reconnectDelay = 1000000000,
     cn_maxReconnectDelay = 30 * 1000000000, cn_lastDisconnectReason = DisconnectUnknown, cn_lastSuccessfulMethod = [],
     cn_throttle = 0, cn_closed = False, cn_readers = 0, cn_writers = 0, cn_loops = 0\<rparr>"

definition NewConnection ::
  "(gostring \<Rightarrow> gostring + URL) \<Rightarrow> (gostring \<Rightarrow> gostring) \<Rightarrow> gostring \<Rightarrow> gostring \<Rightarrow> addr_error + 'w Connection" where
  "NewConnection url_Parse getenv warning addr =
    (case parseServerAddress url_Parse getenv warning addr of Inl e \<Rightarrow> Inl e | Inr cfg \<Rightarrow> Inr (new_connection cfg))"

definition SetThrottle :: "int \<Rightarrow> 'w Connection \<Rightarrow> 'w Connection" where
  "SetThrottle bytesPerSec c = c\<lparr>cn_throttle := bytesPerSec\<rparr>"

definition DisableAutoReconnect :: "'w Connection \<Rightarrow> 'w Connection" where
  "DisableAutoReconnect c = c\<lparr>cn_autoReconnect := False\<rparr>"

section \<open>Connecting\<close>

text \<open>What the network does during one call of Connect: the dials, the deadline, and what arrives before it.\<close>

record 'w network =
  nw_dial :: "dialer \<Rightarrow> gostring + 'w"
  nw_deadline :: "'w \<Rightarrow> gostring option"
  nw_input :: "'w \<Rightarrow> bytes"

definition connection_type :: "gostring \<Rightarrow> gostring" where
  "connection_type addr =
    (if HasPrefix addr (lit ''ssh://'') then lit ''ssh''
     else if HasPrefix addr (lit ''ws://'') then lit ''websocket''
     else lit ''tcp'')"

definition tryWebSocketFallback :: "(gostring \<Rightarrow> gostring + URL) \<Rightarrow> 'w network \<Rightarrow> gostring \<Rightarrow> gostring + 'w \<times> gostring" where
  "tryWebSocketFallback url_Parse nw addr =
    (let wsAddr = fallback_address url_Parse addr in
     case nw_dial nw (DialWS wsAddr True) of
       Inr conn \<Rightarrow> Inr (conn, lit ''wss://'' @ wsAddr)
     | Inl e1 \<Rightarrow>
        (case nw_dial nw (DialWS wsAddr False) of
           Inr conn \<Rightarrow> Inr (conn, lit ''ws://'' @ wsAddr)
         | Inl e2 \<Rightarrow> Inl (lit ''both WSS and WS failed - WSS: '' @ e1 @ lit '', WS: '' @ e2)))"

definition push_incoming :: "Frame \<Rightarrow> 'w Connection \<Rightarrow> 'w Connection" where
  "push_incoming f c = (if length (cn_incoming c) < 100 then c\<lparr>cn_incoming := cn_incoming c @ [f]\<rparr> else c)"

definition validateProtocol :: "'w network \<Rightarrow> 'w Connection \<Rightarrow> validation_error option \<times> 'w Connection" where
  "validateProtocol nw c =
    (case cn_conn c of
       None \<Rightarrow> (Some NoConnection, c)
     | Some conn \<Rightarrow>
        (case nw_deadline nw conn of
           Some e \<Rightarrow> (Some (DeadlineFailed e), c)
         | None \<Rightarrow>
            (case DecodeFrame (nw_input nw conn) of
               Inl e \<Rightarrow> (Some (ReadFailed e), c)
             | Inr (responseFrame, rest) \<Rightarrow>
                if Frame_Type responseFrame \<noteq> TypeServerConfig then (Some (UnexpectedType (Frame_Type responseFrame)), c)
                else
                  (case ServerConfigMessage_Decode ServerConfigMessage_zero (Frame_Payload responseFrame) of
                     (serverConfig, Some e) \<Rightarrow> (Some (DecodeFailed e), c)
                   | (serverConfig, None) \<Rightarrow>
                      if ServerConfig_ProtocolVersion serverConfig \<noteq> ProtocolVersion
                      then (Some (VersionMismatch (ServerConfig_ProtocolVersion serverConfig)), c)
                      else (None, push_incoming responseFrame c)))))"

text \<open>The end of a successful Connect: the method is recorded and the two loops are started.\<close>

definition start_loops :: "gostring \<Rightarrow> 'w Connection \<Rightarrow> connect_error option \<times> 'w Connection" where
  "start_loops connType c =
    (None, c\<lparr>cn_lastSuccessfulMethod := connType, cn_readers := Suc (cn_readers c), cn_writers := Suc (cn_writers c)\<rparr>)"

definition close_conn_of :: "'w net_conn \<Rightarrow> 'w Connection \<Rightarrow> 'w Connection" where
  "close_conn_of nc c = c\<lparr>cn_conn := map_option (conn_Close nc) (cn_conn c)\<rparr>"

text \<open>Connect from "c.conn = conn" on.\<close>

definition established ::
  "(gostring \<Rightarrow> gostring + URL) \<Rightarrow> 'w net_conn \<Rightarrow> 'w network \<Rightarrow> 'w \<Rightarrow> gostring \<Rightarrow> 'w Connection \<Rightarrow> connect_error option \<times> 'w Connection" where
  "established url_Parse nc nw conn connType c =
    (case validateProtocol nw (c\<lparr>cn_conn := Some conn, cn_connected := True, cn_connectionType := connType\<rparr>) of
       (None, c) \<Rightarrow> start_loops connType c
     | (Some err, c) \<Rightarrow>
        (let c = close_conn_of nc c in
         if connType = lit ''websocket'' then (Some (ValidationFailed err), c)
         else
           (case tryWebSocketFallback url_Parse nw (cn_addr c) of
              Inl wsErr \<Rightarrow> (Some (ValidationAndFallbackFailed err), c)
            | Inr (wsConn, wsAddr) \<Rightarrow>
               (case validateProtocol nw (c\<lparr>cn_conn := Some wsConn, cn_connectionType := lit ''websocket'', cn_addr := wsAddr\<rparr>) of
                  (None, c) \<Rightarrow> start_loops (lit ''websocket'') c
                | (Some err, c) \<Rightarrow> (Some (WebSocketValidationFailed err), close_conn_of nc c)))))"

definition Connect ::
  "(gostring \<Rightarrow> gostring + URL) \<Rightarrow> 'w net_conn \<Rightarrow> 'w network \<Rightarrow> 'w Connection \<Rightarrow> connect_error option \<times> 'w Connection" where
  "Connect url_Parse nc nw c =
    (if cn_connected c then (Some AlreadyConnected, c)
     else
       (case cn_dial c of
          None \<Rightarrow> (Some NoDialer, c)
        | Some d \<Rightarrow>
           (let connType = connection_type (cn_addr c) in
            case nw_dial nw d of
              Inr conn \<Rightarrow> established url_Parse nc nw conn connType c
            | Inl err \<Rightarrow>
               if connType = lit ''websocket'' then (Some (DialFailed err), c\<lparr>cn_connectionType := connType\<rparr>)
               else
                 (case tryWebSocketFallback url_Parse nw (cn_addr c) of
                    Inl wsErr \<Rightarrow> (Some (AllMethodsFailed err wsErr), c\<lparr>cn_connectionType := connType\<rparr>)
                  | Inr (wsConn, wsAddr) \<Rightarrow>
                     established url_Parse nc nw wsConn (lit ''websocket'') (c\<lparr>cn_addr := wsAddr\<rparr>)))))"

section \<open>Disconnecting\<close>

definition disconnectWithReason :: "'w net_conn \<Rightarrow> DisconnectReason \<Rightarrow> 'w Connection \<Rightarrow> 'w Connection" where
  "disconnectWithReason nc reason c =
    (if \<not> cn_connected c then c
     else close_conn_of nc (c\<lparr>cn_connected := False, cn_lastDisconnectReason := reason\<rparr>))"

definition Disconnect :: "'w net_conn \<Rightarrow> 'w Connection \<Rightarrow> 'w Connection" where
  "Disconnect nc c = disconnectWithReason nc DisconnectUserRequested c"

definition push_state :: "ConnectionStateUpdate \<Rightarrow> 'w Connection \<Rightarrow> 'w Connection" where
  "push_state u c = (if length (cn_stateChange c) < 10 then c\<lparr>cn_stateChange := cn_stateChange c @ [u]\<rparr> else c)"

definition push_error :: "conn_error \<Rightarrow> 'w Connection \<Rightarrow> 'w Connection" where
  "push_error e c = c\<lparr>cn_errors := cn_errors c @ [e]\<rparr>"

text \<open>The connection is closed and forgotten; its last state is lost with it.\<close>

definition handleDisconnectWithReason :: "DisconnectReason \<Rightarrow> 'w Connection \<Rightarrow> 'w Connection" where
  "handleDisconnectWithReason reason c =
    (let wasConnected = cn_connected c;
         c = c\<lparr>cn_connected := False, cn_lastDisconnectReason := reason, cn_conn := None\<rparr>
     in if \<not> wasConnected then c
        else
          (let c = push_state \<lparr>su_State = StateTypeDisconnected, su_Attempt = 0, su_Err = Some Disconnected\<rparr> (push_error Disconnected c)
           in if cn_autoReconnect c then c\<lparr>cn_loops := Suc (cn_loops c)\<rparr> else c))"

text \<open>Close up to the wait for the goroutines.\<close>

definition Close :: "'w net_conn \<Rightarrow> 'w Connection \<Rightarrow> 'w Connection" where
  "Close nc c = (if cn_closed c then c else Disconnect nc (c\<lparr>cn_closed := True\<rparr>))"

section \<open>The loops\<close>

text \<open>A round of readLoop with what DecodeFrame returned. The loop ends when the connection is gone or fails.\<close>

definition read_round :: "go_error + Frame \<Rightarrow> 'w Connection \<Rightarrow> 'w Connection" where
  "read_round res c =
    (if \<not> cn_connected c \<or> cn_conn c = None then c\<lparr>cn_readers := cn_readers c - 1\<rparr>
     else
       (case res of
          Inl e \<Rightarrow>
            if e = io_EOF then handleDisconnectWithReason DisconnectServerDown (c\<lparr>cn_readers := cn_readers c - 1\<rparr>)
            else handleDisconnectWithReason DisconnectError (push_error (ReadError e) (c\<lparr>cn_readers := cn_readers c - 1\<rparr>))
        | Inr frame \<Rightarrow> c\<lparr>cn_incoming := cn_incoming c @ [frame]\<rparr>))"

text \<open>The throttled writer: chunks of a tenth of what may be sent in a second, and at least a byte; the pauses between them are left out.\<close>

definition throttle_chunk :: "int \<Rightarrow> bytes \<Rightarrow> nat" where
  "throttle_chunk bytesPerSec p =
    (let chunkSize = quot bytesPerSec 10;
         chunkSize = (if chunkSize < 1 then 1 else chunkSize)
     in nat (if chunkSize > int (length p) then int (length p) else chunkSize))"

function throttled_Write :: "'w io_writer \<Rightarrow> int \<Rightarrow> 'w \<Rightarrow> bytes \<Rightarrow> 'w \<times> go_error option" where
  "throttled_Write wr bytesPerSec w p =
    (if p = [] then (w, None)
     else
       (case Write wr w (take (throttle_chunk bytesPerSec p) p) of
          (w, Some err) \<Rightarrow> (w, Some err)
        | (w, None) \<Rightarrow> throttled_Write wr bytesPerSec w (drop (throttle_chunk bytesPerSec p) p)))"
  by pat_completeness auto
termination
  by (relation "measure (\<lambda>(wr, n, w, p). length p)") (auto simp: throttle_chunk_def Let_def split: if_splits)

declare throttled_Write.simps [simp del]

definition write_bytes :: "'w net_conn \<Rightarrow> int \<Rightarrow> 'w \<Rightarrow> bytes \<Rightarrow> 'w \<times> go_error option" where
  "write_bytes nc throttle w p =
    (if throttle > 0 then throttled_Write (conn_writer nc) throttle w p else Write (conn_writer nc) w p)"

text \<open>A round of writeLoop on the first frame that waits, if there is one.\<close>

definition write_round :: "'w net_conn \<Rightarrow> 'w Connection \<Rightarrow> 'w Connection" where
  "write_round nc c =
    (case cn_outgoing c of
       [] \<Rightarrow> c
     | frame # frames \<Rightarrow>
        (let c = c\<lparr>cn_outgoing := frames\<rparr> in
         case cn_conn c of
           None \<Rightarrow> c
         | Some w \<Rightarrow>
            if \<not> cn_connected c then c
            else
              (case to_bytes (EncodeFrame buffer frame) of
                 Inl e \<Rightarrow> push_error (EncodeError e) c
               | Inr frameBytes \<Rightarrow>
                  (case write_bytes nc (cn_throttle c) w frameBytes of
                     (w, None) \<Rightarrow> c\<lparr>cn_conn := Some w\<rparr>
                   | (w, Some e) \<Rightarrow>
                      handleDisconnectWithReason DisconnectError (push_error (WriteError e) (c\<lparr>cn_writers := cn_writers c - 1\<rparr>))))))"

section \<open>Sending\<close>

text \<open>After Close both the send on the closed channel and the shutdown are ready, and the select takes either.\<close>

datatype send_result = Sent | ConnectionClosed | OutgoingQueueFull | SendPanics

definition Send :: "Frame \<Rightarrow> 'w Connection \<Rightarrow> (send_result \<times> 'w Connection) list" where
  "Send frame c =
    (if cn_closed c then [(ConnectionClosed, c), (SendPanics, c)]
     else if length (cn_outgoing c) < 100 then [(Sent, c\<lparr>cn_outgoing := cn_outgoing c @ [frame]\<rparr>)]
     else [(OutgoingQueueFull, c)])"

definition cn_SendMessage :: "u8 \<Rightarrow> ProtocolMessage \<Rightarrow> 'w Connection \<Rightarrow> (go_error + send_result \<times> 'w Connection) list" where
  "cn_SendMessage msgType msg c =
    (case Encode msg of
       Inl e \<Rightarrow> [Inl e]
     | Inr payload \<Rightarrow> map Inr (Send
         \<lparr>Frame_Version = ProtocolVersion, Frame_Type = msgType, Frame_Flags = 0, Frame_Payload = payload\<rparr> c))"

section \<open>Reconnecting\<close>

text \<open>
  reconnectLoop over what the network does at each attempt: the delays waited for, whether the loop has returned, and the
  connection. With no network left the loop waits for its next attempt.
\<close>

fun reconnect_attempts ::
  "(gostring \<Rightarrow> gostring + URL) \<Rightarrow> 'w net_conn \<Rightarrow> 'w network list \<Rightarrow> int \<Rightarrow> int \<Rightarrow> 'w Connection \<Rightarrow> int list \<times> bool \<times> 'w Connection" where
  "reconnect_attempts url_Parse nc [] delay tries c = ([], False, c)"
| "reconnect_attempts url_Parse nc (nw # nws) delay tries c =
    (case Connect url_Parse nc nw (push_state \<lparr>su_State = StateTypeReconnecting, su_Attempt = tries, su_Err = None\<rparr> c) of
       (Some err, c) \<Rightarrow>
         apfst ((#) delay) (reconnect_attempts url_Parse nc nws
           (if delay * 2 > cn_maxReconnectDelay c then cn_maxReconnectDelay c else delay * 2) (tries + 1) c)
     | (None, c) \<Rightarrow>
         ([delay], True,
          push_state \<lparr>su_State = StateTypeConnected, su_Attempt = 0, su_Err = None\<rparr>
            (c\<lparr>cn_reconnecting := False, cn_loops := cn_loops c - 1\<rparr>)))"

definition reconnectLoop ::
  "(gostring \<Rightarrow> gostring + URL) \<Rightarrow> 'w net_conn \<Rightarrow> 'w network list \<Rightarrow> 'w Connection \<Rightarrow> int list \<times> bool \<times> 'w Connection" where
  "reconnectLoop url_Parse nc nws c =
    (if cn_reconnecting c then ([], True, c\<lparr>cn_loops := cn_loops c - 1\<rparr>)
     else reconnect_attempts url_Parse nc nws (cn_reconnectDelay c) 1 (c\<lparr>cn_reconnecting := True\<rparr>))"

end
