(* ===== verification/ClientConnProps.thy ===== *)
theory ClientConnProps imports ClientConn begin

text \<open>
  What a client's connection promises: when Connect succeeds and what it leaves, how long the client waits between
  attempts, that the frames it sends are the frames a server reads, and where a connection gets stuck.
\<close>

section \<open>Validation\<close>

text \<open>The bytes start with a SERVER_CONFIG of this version of the protocol.\<close>

definition speaks :: "bytes \<Rightarrow> Frame \<Rightarrow> bool" where
  "speaks input f \<longleftrightarrow> (\<exists>rest config. DecodeFrame input = Inr (f, rest) \<and> Frame_Type f = TypeServerConfig \<and>
     ServerConfigMessage_Decode ServerConfigMessage_zero (Frame_Payload f) = (config, None) \<and>
     ServerConfig_ProtocolVersion config = ProtocolVersion)"

definition accepts :: "'w network \<Rightarrow> 'w \<Rightarrow> bool" where
  "accepts nw w \<longleftrightarrow> nw_deadline nw w = None \<and> (\<exists>f. speaks (nw_input nw w) f)"

lemma validate_accepts:
  assumes "cn_conn c = Some w" and "accepts nw w"
  obtains f where "speaks (nw_input nw w) f" and "validateProtocol nw c = (None, push_incoming f c)"
proof -
  from assms(2) obtain f where f: "speaks (nw_input nw w) f" and d: "nw_deadline nw w = None" by (auto simp: accepts_def)
  from f d assms(1) have "validateProtocol nw c = (None, push_incoming f c)"
    by (auto simp: validateProtocol_def speaks_def simp del: lit_chars)
  with f that show thesis by blast
qed

lemma validate_rejects:
  assumes "cn_conn c = Some w" and "\<not> accepts nw w"
  obtains err where "validateProtocol nw c = (Some err, c)"
proof -
  have "\<exists>err. validateProtocol nw c = (Some err, c)"
  proof (cases "nw_deadline nw w")
    case None
    then have no: "\<not> speaks (nw_input nw w) f" for f using assms(2) by (simp add: accepts_def)
    show ?thesis
    proof (cases "DecodeFrame (nw_input nw w)")
      case (Inr x)
      obtain f rest where x: "x = (f, rest)" by force
      obtain config err where "ServerConfigMessage_Decode ServerConfigMessage_zero (Frame_Payload f) = (config, err)" by force
      with no [of f] Inr x None assms(1) show ?thesis
        by (cases err) (auto simp: validateProtocol_def speaks_def)
    qed (simp add: validateProtocol_def assms(1) None)
  qed (simp add: validateProtocol_def assms(1))
  with that show thesis by blast
qed

lemma push_incoming_simps [simp]:
  "cn_conn (push_incoming f c) = cn_conn c" "cn_connected (push_incoming f c) = cn_connected c"
  "cn_connectionType (push_incoming f c) = cn_connectionType c" "cn_readers (push_incoming f c) = cn_readers c"
  "cn_writers (push_incoming f c) = cn_writers c" "cn_addr (push_incoming f c) = cn_addr c" "cn_dial (push_incoming f c) = cn_dial c"
  "cn_reconnecting (push_incoming f c) = cn_reconnecting c" "cn_autoReconnect (push_incoming f c) = cn_autoReconnect c"
  "cn_maxReconnectDelay (push_incoming f c) = cn_maxReconnectDelay c" "cn_reconnectDelay (push_incoming f c) = cn_reconnectDelay c"
  "cn_loops (push_incoming f c) = cn_loops c"
  by (simp_all add: push_incoming_def)

lemma push_state_simps [simp]:
  "cn_conn (push_state u c) = cn_conn c" "cn_connected (push_state u c) = cn_connected c"
  "cn_connectionType (push_state u c) = cn_connectionType c" "cn_readers (push_state u c) = cn_readers c"
  "cn_writers (push_state u c) = cn_writers c" "cn_addr (push_state u c) = cn_addr c" "cn_dial (push_state u c) = cn_dial c"
  "cn_reconnecting (push_state u c) = cn_reconnecting c" "cn_autoReconnect (push_state u c) = cn_autoReconnect c"
  "cn_maxReconnectDelay (push_state u c) = cn_maxReconnectDelay c" "cn_reconnectDelay (push_state u c) = cn_reconnectDelay c"
  "cn_loops (push_state u c) = cn_loops c" "cn_incoming (push_state u c) = cn_incoming c" "cn_outgoing (push_state u c) = cn_outgoing c"
  "cn_errors (push_state u c) = cn_errors c" "cn_lastSuccessfulMethod (push_state u c) = cn_lastSuccessfulMethod c"
  by (simp_all add: push_state_def)

lemma push_error_simps [simp]:
  "cn_conn (push_error e c) = cn_conn c" "cn_connected (push_error e c) = cn_connected c" "cn_outgoing (push_error e c) = cn_outgoing c"
  "cn_writers (push_error e c) = cn_writers c" "cn_readers (push_error e c) = cn_readers c" "cn_dial (push_error e c) = cn_dial c"
  "cn_autoReconnect (push_error e c) = cn_autoReconnect c" "cn_reconnecting (push_error e c) = cn_reconnecting c"
  by (simp_all add: push_error_def)

section \<open>Connecting\<close>

text \<open>The connections one call of Connect can come to, in order.\<close>

definition candidates :: "(gostring \<Rightarrow> gostring + URL) \<Rightarrow> 'w network \<Rightarrow> 'w Connection \<Rightarrow> 'w list" where
  "candidates url_Parse nw c =
    (case cn_dial c of None \<Rightarrow> []
     | Some d \<Rightarrow> (case nw_dial nw d of Inr w \<Rightarrow> [w] | Inl e \<Rightarrow> []) @
        (if connection_type (cn_addr c) = lit ''websocket'' then []
         else (case tryWebSocketFallback url_Parse nw (cn_addr c) of Inr (w, a) \<Rightarrow> [w] | Inl e \<Rightarrow> [])))"

text \<open>What a successful Connect leaves of the connection w.\<close>

definition connected_to :: "'w network \<Rightarrow> 'w \<Rightarrow> 'w Connection \<Rightarrow> 'w Connection \<Rightarrow> bool" where
  "connected_to nw w c c' \<longleftrightarrow> cn_conn c' = Some w \<and> cn_connected c' \<and> cn_lastSuccessfulMethod c' = cn_connectionType c' \<and>
     cn_readers c' = Suc (cn_readers c) \<and> cn_writers c' = Suc (cn_writers c) \<and>
     (\<exists>f. speaks (nw_input nw w) f \<and> cn_incoming c' = (if length (cn_incoming c) < 100 then cn_incoming c @ [f] else cn_incoming c))"

lemma connected_to_start:
  assumes "speaks (nw_input nw w) f"
  shows "connected_to nw w c (c\<lparr>cn_conn := Some w, cn_connected := True, cn_connectionType := t, cn_addr := a,
    cn_incoming := (if length (cn_incoming c) < 100 then cn_incoming c @ [f] else cn_incoming c),
    cn_lastSuccessfulMethod := t, cn_readers := Suc (cn_readers c), cn_writers := Suc (cn_writers c)\<rparr>)"
  using assms by (auto simp: connected_to_def)

lemma established_accepts:
  assumes "accepts nw w"
  shows "\<exists>c'. established url_Parse nc nw w t c = (None, c') \<and> connected_to nw w c c'"
proof -
  let ?c = "c\<lparr>cn_conn := Some w, cn_connected := True, cn_connectionType := t\<rparr>"
  have "cn_conn ?c = Some w" by simp
  from validate_accepts [OF this assms] obtain f where "speaks (nw_input nw w) f" "validateProtocol nw ?c = (None, push_incoming f ?c)" .
  then show ?thesis by (auto simp: established_def start_loops_def connected_to_def push_incoming_def)
qed

lemma established_rejects:
  assumes "\<not> accepts nw w"
  shows "established url_Parse nc nw w (lit ''websocket'') c = (Some err, c') \<Longrightarrow> cn_connected c'"
    and "fst (established url_Parse nc nw w (lit ''websocket'') c) \<noteq> None"
proof -
  let ?c = "c\<lparr>cn_conn := Some w, cn_connected := True, cn_connectionType := lit ''websocket''\<rparr>"
  have "cn_conn ?c = Some w" by simp
  from validate_rejects [OF this assms] obtain e where "validateProtocol nw ?c = (Some e, ?c)" .
  then show "established url_Parse nc nw w (lit ''websocket'') c = (Some err, c') \<Longrightarrow> cn_connected c'"
    and "fst (established url_Parse nc nw w (lit ''websocket'') c) \<noteq> None"
    by (auto simp: established_def Let_def close_conn_of_def simp del: lit_chars)
qed

lemma established_falls_back:
  assumes no: "\<not> accepts nw w" and t: "t \<noteq> lit ''websocket''"
  shows "case tryWebSocketFallback url_Parse nw (cn_addr c) of
      Inl e \<Rightarrow> \<exists>err c'. established url_Parse nc nw w t c = (Some err, c')
    | Inr (w', a) \<Rightarrow>
        if accepts nw w' then \<exists>c'. established url_Parse nc nw w t c = (None, c') \<and> connected_to nw w' c c'
        else \<exists>err c'. established url_Parse nc nw w t c = (Some err, c')"
proof -
  let ?c = "c\<lparr>cn_conn := Some w, cn_connected := True, cn_connectionType := t\<rparr>"
  have "cn_conn ?c = Some w" by simp
  from validate_rejects [OF this no] obtain e where v: "validateProtocol nw ?c = (Some e, ?c)" .
  show ?thesis
  proof (cases "tryWebSocketFallback url_Parse nw (cn_addr c)")
    case (Inl x)
    with v t show ?thesis by (simp add: established_def Let_def close_conn_of_def del: lit_chars)
  next
    case (Inr x)
    obtain w' a where x: "x = (w', a)" by force
    let ?d = "?c\<lparr>cn_conn := Some w', cn_connectionType := lit ''websocket'', cn_addr := a\<rparr>"
    have d: "cn_conn ?d = Some w'" by simp
    have upd: "(close_conn_of nc ?c)\<lparr>cn_conn := Some w', cn_connectionType := lit ''websocket'', cn_addr := a\<rparr> = ?d"
      by (simp add: close_conn_of_def)
    have addr: "cn_addr (close_conn_of nc ?c) = cn_addr c" by (simp add: close_conn_of_def)
    show ?thesis
    proof (cases "accepts nw w'")
      case True
      from validate_accepts [OF d True] obtain f where "speaks (nw_input nw w') f" "validateProtocol nw ?d = (None, push_incoming f ?d)" .
      with v t Inr x True show ?thesis
        by (simp add: established_def Let_def addr upd start_loops_def connected_to_def push_incoming_def del: lit_chars) auto
    next
      case False
      from validate_rejects [OF d False] obtain e' where "validateProtocol nw ?d = (Some e', ?d)" .
      with v t Inr x False show ?thesis by (simp add: established_def Let_def addr upd del: lit_chars)
    qed
  qed
qed

lemma established_websocket:
  "if accepts nw w then \<exists>c'. established url_Parse nc nw w t c = (None, c') \<and> connected_to nw w c c'
   else t = lit ''websocket'' \<longrightarrow> (\<exists>err c'. established url_Parse nc nw w t c = (Some err, c'))"
proof (cases "accepts nw w")
  case True
  then show ?thesis using established_accepts [OF True] by simp
next
  case False
  obtain r c' where "established url_Parse nc nw w (lit ''websocket'') c = (r, c')" by force
  with False established_rejects(2) [OF False, of url_Parse nc c] show ?thesis by (cases r) auto
qed

text \<open>C15. Connect returns success exactly when one of the connections it can come to, the dialed one and then the WebSocket of the fallback,
  starts with a SERVER_CONFIG of this version of the protocol. Then the first of these is the connection, a reader and a writer
  run on it, the SERVER_CONFIG is the next frame for the message loop, and the method is recorded.\<close>

theorem connect_validates:
  "case Connect url_Parse nc nw c of
     (None, c') \<Rightarrow> \<not> cn_connected c \<and> (\<exists>w. List.find (accepts nw) (candidates url_Parse nw c) = Some w \<and> connected_to nw w c c')
   | (Some err, c') \<Rightarrow> cn_connected c \<or> List.find (accepts nw) (candidates url_Parse nw c) = None"
proof (cases "cn_connected c \<or> cn_dial c = None")
  case True
  then show ?thesis by (auto simp: Connect_def candidates_def)
next
  case False
  then obtain d where d: "cn_dial c = Some d" and not: "\<not> cn_connected c" by auto
  let ?t = "connection_type (cn_addr c)"
  show ?thesis
  proof (cases "nw_dial nw d")
    case (Inl e)
    show ?thesis
    proof (cases "?t = lit ''websocket''")
      case True
      with Inl d not show ?thesis by (simp add: Connect_def candidates_def del: lit_chars)
    next
      case t: False
      show ?thesis
      proof (cases "tryWebSocketFallback url_Parse nw (cn_addr c)")
        case (Inr x)
        obtain w a where x: "x = (w, a)" by force
        have "Connect url_Parse nc nw c = established url_Parse nc nw w (lit ''websocket'') (c\<lparr>cn_addr := a\<rparr>)"
          by (simp add: Connect_def not d Inl t Inr x Let_def del: lit_chars)
        moreover have "candidates url_Parse nw c = [w]" by (simp add: candidates_def d Inl t Inr x del: lit_chars)
        moreover have "connected_to nw w (c\<lparr>cn_addr := a\<rparr>) = connected_to nw w c" by (simp add: fun_eq_iff connected_to_def)
        ultimately show ?thesis
          using established_websocket [of nw w url_Parse nc "lit ''websocket''" "c\<lparr>cn_addr := a\<rparr>"] not
          by (auto split: if_splits)
      qed (simp add: Connect_def candidates_def not d Inl t Let_def del: lit_chars)
    qed
  next
    case (Inr w)
    have con: "Connect url_Parse nc nw c = established url_Parse nc nw w ?t c"
      by (simp add: Connect_def not d Inr Let_def del: lit_chars)
    show ?thesis
    proof (cases "accepts nw w")
      case True
      from established_accepts [OF True, of url_Parse nc ?t c] con not True show ?thesis by (auto simp: candidates_def d Inr)
    next
      case rej: False
      show ?thesis
      proof (cases "?t = lit ''websocket''")
        case True
        then show ?thesis using established_websocket [of nw w url_Parse nc ?t c] rej con by (auto simp: candidates_def d Inr simp del: lit_chars)
      next
        case t: False
        from established_falls_back [OF rej t, where url_Parse = url_Parse and c = c and nc = nc] con not show ?thesis
          by (cases "tryWebSocketFallback url_Parse nw (cn_addr c)")
            (auto simp: candidates_def d Inr t rej split: if_splits simp del: lit_chars)
      qed
    qed
  qed
qed

section \<open>Reconnecting\<close>

lemma reconnect_after_dials_fail:
  assumes "\<not> cn_connected c" and "cn_dial c = Some d" and "\<And>d. \<exists>e. nw_dial nw d = Inl e"
  obtains err t where "Connect url_Parse nc nw c = (Some err, c\<lparr>cn_connectionType := t\<rparr>)"
proof -
  obtain e where e: "nw_dial nw d = Inl e" using assms(3) by blast
  have "\<exists>e. tryWebSocketFallback url_Parse nw a = Inl e" for a
  proof -
    obtain e1 e2 where "nw_dial nw (DialWS (fallback_address url_Parse a) True) = Inl e1"
      "nw_dial nw (DialWS (fallback_address url_Parse a) False) = Inl e2" using assms(3) by blast
    then show ?thesis by (simp add: tryWebSocketFallback_def Let_def del: lit_chars)
  qed
  then obtain e2 where "tryWebSocketFallback url_Parse nw (cn_addr c) = Inl e2" by blast
  then have "\<exists>err t. Connect url_Parse nc nw c = (Some err, c\<lparr>cn_connectionType := t\<rparr>)"
    using assms(1,2) e by (auto simp: Connect_def Let_def simp del: lit_chars)
  with that show thesis by blast
qed

lemma doubled_delay:
  assumes "0 < n" and "0 < m"
  shows "(if min (n * 2 ^ k) m * 2 > m then m else min (n * 2 ^ k) m * 2) = min (n * 2 ^ Suc k) (m :: int)"
proof -
  have "0 < x \<Longrightarrow> (if min x m * 2 > m then m else min x m * 2) = min (x * 2) m" for x :: int using assms(2) by auto
  from this [of "n * 2 ^ k"] assms(1) show ?thesis by (simp add: mult.assoc mult.commute)
qed

lemma reconnect_attempts_fail:
  assumes "\<forall>nw \<in> set bad. \<forall>d. \<exists>e. nw_dial nw d = Inl e" and "0 < n" and "0 < cn_maxReconnectDelay c"
    and "\<not> cn_connected c" and "cn_dial c = Some d"
  shows "\<exists>c' tries'. reconnect_attempts url_Parse nc (bad @ nws) (min (n * 2 ^ k) (cn_maxReconnectDelay c)) tries c =
    apfst (append (map (\<lambda>j. min (n * 2 ^ (k + j)) (cn_maxReconnectDelay c)) [0..<length bad]))
      (reconnect_attempts url_Parse nc nws (min (n * 2 ^ (k + length bad)) (cn_maxReconnectDelay c)) tries' c') \<and>
    \<not> cn_connected c' \<and> cn_dial c' = cn_dial c \<and> cn_maxReconnectDelay c' = cn_maxReconnectDelay c \<and> cn_addr c' = cn_addr c \<and>
    cn_readers c' = cn_readers c \<and> cn_writers c' = cn_writers c \<and> cn_incoming c' = cn_incoming c"
  using assms
proof (induction bad arbitrary: c k tries)
  case Nil
  then show ?case by (intro exI [of _ c] exI [of _ tries]) (simp add: apfst_def map_prod_def split: prod.split)
next
  case (Cons nw bad)
  let ?m = "cn_maxReconnectDelay c"
  let ?c = "push_state \<lparr>su_State = StateTypeReconnecting, su_Attempt = tries, su_Err = None\<rparr> c"
  have "\<not> cn_connected ?c" "cn_dial ?c = Some d" "\<And>d. \<exists>e. nw_dial nw d = Inl e" using Cons.prems by auto
  then obtain err t where con: "Connect url_Parse nc nw ?c = (Some err, ?c\<lparr>cn_connectionType := t\<rparr>)"
    by (rule reconnect_after_dials_fail)
  obtain c' tries' where ih: "reconnect_attempts url_Parse nc (bad @ nws) (min (n * 2 ^ Suc k) ?m) (tries + 1) (?c\<lparr>cn_connectionType := t\<rparr>) =
      apfst (append (map (\<lambda>j. min (n * 2 ^ (Suc k + j)) ?m) [0..<length bad]))
        (reconnect_attempts url_Parse nc nws (min (n * 2 ^ (Suc k + length bad)) ?m) tries' c')"
      "\<not> cn_connected c' \<and> cn_dial c' = cn_dial c \<and> cn_maxReconnectDelay c' = cn_maxReconnectDelay c \<and> cn_addr c' = cn_addr c \<and>
      cn_readers c' = cn_readers c \<and> cn_writers c' = cn_writers c \<and> cn_incoming c' = cn_incoming c"
    using Cons.IH [of "?c\<lparr>cn_connectionType := t\<rparr>" "Suc k" "tries + 1"] Cons.prems by auto
  have ds: "map (\<lambda>j. min (n * 2 ^ (k + j)) ?m) [0..<length (nw # bad)] =
      min (n * 2 ^ k) ?m # map (\<lambda>j. min (n * 2 ^ (Suc k + j)) ?m) [0..<length bad]"
    by (simp add: upt_conv_Cons map_Suc_upt [symmetric] comp_def del: upt_Suc)
  have step: "reconnect_attempts url_Parse nc ((nw # bad) @ nws) (min (n * 2 ^ k) ?m) tries c =
      apfst ((#) (min (n * 2 ^ k) ?m))
        (reconnect_attempts url_Parse nc (bad @ nws) (min (n * 2 ^ Suc k) ?m) (tries + 1) (?c\<lparr>cn_connectionType := t\<rparr>))"
  proof -
    have "cn_maxReconnectDelay (?c\<lparr>cn_connectionType := t\<rparr>) = ?m" by simp
    then show ?thesis
      by (simp only: append_Cons reconnect_attempts.simps con prod.case option.case doubled_delay [OF Cons.prems(2,3)])
  qed
  have cons: "apfst ((#) x) (apfst (append xs) r) = apfst (append (x # xs)) r" for x xs and r :: "int list \<times> bool \<times> 'a Connection"
    by (cases r) simp
  have len: "k + length (nw # bad) = Suc k + length bad" by simp
  show ?case using ih(2) unfolding step ih(1) ds len cons by blast
qed

lemma connect_accepts:
  assumes "\<not> cn_connected c" and "cn_dial c = Some d" and "nw_dial nw d = Inr w" and "accepts nw w"
  obtains c' where "Connect url_Parse nc nw c = (None, c')" and "connected_to nw w c c'"
proof -
  obtain c' where "established url_Parse nc nw w (connection_type (cn_addr c)) c = (None, c')" "connected_to nw w c c'"
    using established_accepts [OF assms(4)] by blast
  with that assms(1-3) show thesis by (simp add: Connect_def Let_def)
qed

text \<open>What Connect never changes.\<close>

definition same_settings :: "'w Connection \<Rightarrow> 'w Connection \<Rightarrow> bool" where
  "same_settings c c' \<longleftrightarrow> cn_dial c' = cn_dial c \<and> cn_autoReconnect c' = cn_autoReconnect c \<and> cn_reconnecting c' = cn_reconnecting c \<and>
     cn_reconnectDelay c' = cn_reconnectDelay c \<and> cn_maxReconnectDelay c' = cn_maxReconnectDelay c \<and> cn_outgoing c' = cn_outgoing c \<and>
     cn_loops c' = cn_loops c"

lemma validate_settings: "validateProtocol nw c = (r, c') \<Longrightarrow> same_settings c c' \<and> cn_connected c' = cn_connected c \<and>
    cn_readers c' = cn_readers c \<and> cn_writers c' = cn_writers c"
  by (auto simp: validateProtocol_def same_settings_def push_incoming_def split: option.splits sum.splits prod.splits if_splits)

lemma same_settings_trans: "same_settings a b \<Longrightarrow> same_settings b c \<Longrightarrow> same_settings a c"
  by (simp add: same_settings_def)

lemma established_settings:
  assumes "established url_Parse nc nw w t c = (r, c')"
  shows "same_settings c c' \<and> cn_connected c' \<and> (r \<noteq> None \<longrightarrow> cn_readers c' = cn_readers c \<and> cn_writers c' = cn_writers c \<and>
    (\<exists>e. r = Some (ValidationFailed e) \<or> r = Some (ValidationAndFallbackFailed e) \<or> r = Some (WebSocketValidationFailed e)))"
proof -
  obtain r1 c1 where v: "validateProtocol nw (c\<lparr>cn_conn := Some w, cn_connected := True, cn_connectionType := t\<rparr>) = (r1, c1)" by force
  note s1 = validate_settings [OF v]
  show ?thesis
  proof (cases r1)
    case None
    with assms v s1 show ?thesis by (auto simp: established_def start_loops_def same_settings_def)
  next
    case (Some e)
    note r1 = Some
    show ?thesis
    proof (cases "t = lit ''websocket'' \<or> (\<exists>e. tryWebSocketFallback url_Parse nw (cn_addr (close_conn_of nc c1)) = Inl e)")
      case True
      with assms v s1 r1 show ?thesis
        by (auto simp: established_def close_conn_of_def same_settings_def Let_def simp del: lit_chars split: if_splits)
    next
      case False
      then obtain w' a where f: "tryWebSocketFallback url_Parse nw (cn_addr (close_conn_of nc c1)) = Inr (w', a)"
        by (metis obj_sumE prod.collapse)
      obtain r2 c2 where v2: "validateProtocol nw ((close_conn_of nc c1)\<lparr>cn_conn := Some w', cn_connectionType := lit ''websocket'', cn_addr := a\<rparr>) = (r2, c2)"
        by force
      from assms v r1 False f v2 s1 validate_settings [OF v2] show ?thesis
        by (cases r2) (auto simp: established_def start_loops_def close_conn_of_def same_settings_def Let_def simp del: lit_chars)
    qed
  qed
qed

lemma Connect_settings: "Connect url_Parse nc nw c = (r, c') \<Longrightarrow> same_settings c c'"
  by (auto simp: Connect_def Let_def simp del: lit_chars dest!: established_settings split: option.splits sum.splits prod.splits if_splits)
    (auto simp: same_settings_def)

text \<open>C30. A client that lost its connection reconnects by itself as soon as the server is there again: while the dials fail it waits one
  second, then two, four and so on, never more than thirty, and the first attempt the server answers ends the loop, with
  the connection as a first Connect leaves it.\<close>

theorem reconnect_backoff:
  assumes "\<not> cn_connected c" and "\<not> cn_reconnecting c" and "cn_dial c = Some d"
    and "cn_reconnectDelay c = 1000000000" and "cn_maxReconnectDelay c = 30000000000"
    and "\<forall>nw \<in> set down. \<forall>d. \<exists>e. nw_dial nw d = Inl e" and "nw_dial up d = Inr w" and "accepts up w"
  shows "\<exists>c'. reconnectLoop url_Parse nc (down @ up # later) c =
      (map (\<lambda>j. min (1000000000 * 2 ^ j) 30000000000) [0..<Suc (length down)], True, c') \<and>
    connected_to up w c c' \<and> \<not> cn_reconnecting c'"
proof -
  let ?m = "30000000000 :: int" and ?c = "c\<lparr>cn_reconnecting := True\<rparr>"
  obtain c1 tries where r: "reconnect_attempts url_Parse nc (down @ up # later) (min (1000000000 * 2 ^ 0) ?m) 1 ?c =
      apfst (append (map (\<lambda>j. min (1000000000 * 2 ^ (0 + j)) ?m) [0..<length down]))
        (reconnect_attempts url_Parse nc (up # later) (min (1000000000 * 2 ^ (0 + length down)) ?m) tries c1)"
    and c1: "\<not> cn_connected c1" "cn_dial c1 = Some d" "cn_readers c1 = cn_readers c" "cn_writers c1 = cn_writers c" "cn_incoming c1 = cn_incoming c"
    using reconnect_attempts_fail [of down 1000000000 ?c d url_Parse nc "up # later" 0 1] assms by auto
  let ?c1 = "push_state \<lparr>su_State = StateTypeReconnecting, su_Attempt = tries, su_Err = None\<rparr> c1"
  obtain c2 where c2: "Connect url_Parse nc up ?c1 = (None, c2)" "connected_to up w ?c1 c2"
    by (rule connect_accepts [of ?c1 d up w url_Parse nc]) (use c1 assms(7,8) in auto)
  let ?c2 = "push_state \<lparr>su_State = StateTypeConnected, su_Attempt = 0, su_Err = None\<rparr> (c2\<lparr>cn_reconnecting := False, cn_loops := cn_loops c2 - 1\<rparr>)"
  have "connected_to up w c ?c2" using c2(2) c1 by (simp add: connected_to_def cong: if_cong)
  then show ?thesis using r c2(1) assms(2,4)
    by (intro exI [of _ ?c2]) (simp add: reconnectLoop_def)
qed

text \<open>C33. A server that answers but does not speak this version of the protocol leaves the client stuck: Connect returns its error with the
  connection marked as connected and no loop running, so every later Connect is refused as "already connected",
  whatever the network does, and the loop that reconnects never ends.\<close>

theorem failed_validation_stuck:
  assumes "Connect url_Parse nc nw c = (Some err, c')"
    and "err \<in> range ValidationFailed \<union> range ValidationAndFallbackFailed \<union> range WebSocketValidationFailed"
  shows "cn_readers c' = cn_readers c \<and> cn_writers c' = cn_writers c \<and> Connect url_Parse nc later c' = (Some AlreadyConnected, c') \<and>
    \<not> fst (snd (reconnect_attempts url_Parse nc networks delay tries c'))"
proof -
  have c': "cn_connected c' \<and> cn_readers c' = cn_readers c \<and> cn_writers c' = cn_writers c"
    using assms
    by (auto simp: Connect_def Let_def simp del: lit_chars dest!: established_settings split: option.splits sum.splits prod.splits if_splits)
  have "\<not> fst (snd (reconnect_attempts url_Parse nc networks delay tries x))" if "cn_connected x" for x
    using that
  proof (induction networks arbitrary: x delay tries)
    case (Cons nw networks)
    then show ?case by (simp add: Connect_def Let_def)
  qed simp
  with c' show ?thesis by (simp add: Connect_def)
qed

section \<open>Frames\<close>

context writer_contract begin

lemma throttled_sends:
  "case throttled_Write w n s p of (s', None) \<Rightarrow> sent s' = sent s @ p | (s', Some e) \<Rightarrow> \<exists>q t. p = q @ t \<and> sent s' = sent s @ q"
proof (induction "length p" arbitrary: s p rule: less_induct)
  case less
  show ?case
  proof (cases "p = []")
    case True
    then show ?thesis by (simp add: throttled_Write.simps)
  next
    case False
    define k where "k = throttle_chunk n p"
    have k: "0 < k" "k \<le> length p" using False by (auto simp: k_def throttle_chunk_def Let_def Suc_le_eq)
    have step: "throttled_Write w n s p = (case Write w s (take k p) of (s, Some err) \<Rightarrow> (s, Some err)
        | (s, None) \<Rightarrow> throttled_Write w n s (drop k p))"
      by (subst throttled_Write.simps) (simp only: False if_False k_def)
    obtain s1 r where w: "Write w s (take k p) = (s1, r)" by force
    show ?thesis
    proof (cases r)
      case None
      then have s1: "sent s1 = sent s @ take k p" using write_ok w by simp
      have "length (drop k p) < length p" using k by simp
      from less [OF this, of s1] show ?thesis
        by (auto simp: step w None s1 split: prod.splits option.splits) (metis append_take_drop_id)
    next
      case (Some e)
      with w write_fail obtain q t where "take k p = q @ t" "sent s1 = sent s @ q" by blast
      then have "p = q @ (t @ drop k p) \<and> sent s1 = sent s @ q" by (metis append.assoc append_take_drop_id)
      then show ?thesis using w Some by (auto simp: step)
    qed
  qed
qed

end

lemma write_bytes_sends:
  assumes "writer_contract (conn_writer nc) sent" and "write_bytes nc n w p = (w', None)"
  shows "sent w' = sent w @ p"
  using writer_contract.throttled_sends [OF assms(1), where n = n and s = w and p = p]
    writer_contract.write_ok [OF assms(1), where s = w and p = p and s' = w'] assms(2)
  by (auto simp: write_bytes_def split: if_splits)

lemma handleDisconnect_simps [simp]:
  "\<not> cn_connected (handleDisconnectWithReason reason c)" "cn_conn (handleDisconnectWithReason reason c) = None"
  "cn_dial (handleDisconnectWithReason reason c) = cn_dial c" "cn_writers (handleDisconnectWithReason reason c) = cn_writers c"
  "cn_readers (handleDisconnectWithReason reason c) = cn_readers c"
  "cn_reconnecting (handleDisconnectWithReason reason c) = cn_reconnecting c"
  by (simp_all add: handleDisconnectWithReason_def Let_def push_error_def)

lemma write_round_disconnected: "\<not> cn_connected c \<Longrightarrow> \<not> cn_connected (write_round nc c)"
  by (auto simp: write_round_def Let_def split: list.split option.split)

lemma write_round_sends:
  assumes "writer_contract (conn_writer nc) sent" and "cn_connected c" and "cn_conn c = Some w"
    and "cn_outgoing c = f # fs" and "frame_fits f"
  shows "\<not> cn_connected (write_round nc c) \<or>
    (\<exists>w'. write_round nc c = c\<lparr>cn_outgoing := fs, cn_conn := Some w'\<rparr> \<and> sent w' = sent w @ frame_wire f)"
proof -
  have "3 + length (Frame_Payload f) < 2 ^ 32" using assms(5) by (simp add: frame_fits_def)
  then have b: "to_bytes (EncodeFrame buffer f) = Inr (frame_wire f)" using assms(5) by (simp add: EncodeFrame_buffer codec)
  obtain w' r where "write_bytes nc (cn_throttle c) w (frame_wire f) = (w', r)" by force
  then show ?thesis using assms b write_bytes_sends [OF assms(1)]
    by (cases r) (auto simp: write_round_def Let_def)
qed

lemma write_rounds_disconnected: "\<not> cn_connected c \<Longrightarrow> \<not> cn_connected ((write_round nc ^^ n) c)"
  by (induction n) (simp_all add: write_round_disconnected)

lemma write_rounds_send:
  assumes "writer_contract (conn_writer nc) sent" and "cn_connected c" and "cn_conn c = Some w"
    and "cn_outgoing c = fs" and "\<forall>f \<in> set fs. frame_fits f" and "c' = (write_round nc ^^ length fs) c" and "cn_connected c'"
  shows "\<exists>w'. cn_conn c' = Some w' \<and> cn_outgoing c' = [] \<and> sent w' = sent w @ concat (map frame_wire fs)"
  using assms(2-)
proof (induction fs arbitrary: c w)
  case (Cons f fs)
  have split: "(write_round nc ^^ length (f # fs)) c = (write_round nc ^^ length fs) (write_round nc c)" by (simp add: funpow_swap1)
  have "cn_connected (write_round nc c)"
    using Cons.prems(5,6) write_rounds_disconnected [where c = "write_round nc c" and n = "length fs"] unfolding split by blast
  with write_round_sends [OF assms(1) Cons.prems(1,2,3)] Cons.prems(4) obtain w1 where
    w1: "write_round nc c = c\<lparr>cn_outgoing := fs, cn_conn := Some w1\<rparr>" "sent w1 = sent w @ frame_wire f" by auto
  have "\<exists>w'. cn_conn c' = Some w' \<and> cn_outgoing c' = [] \<and> sent w' = sent w1 @ concat (map frame_wire fs)"
    by (rule Cons.IH [of "write_round nc c"]) (use Cons.prems w1 split in auto)
  with w1(2) show ?case by auto
qed simp

text \<open>C14. What one writer of the client sends is what the server reads: after as many rounds of writeLoop as frames wait, throttled or not,
  the client is either disconnected or has put all of them on the connection, and the reading loop of the server finds in
  the new bytes exactly these frames in the order in which they were sent.\<close>

theorem written_frames_read_back:
  assumes "writer_contract (conn_writer nc) sent" and "cn_connected c" and "cn_conn c = Some w"
    and "\<forall>f \<in> set (cn_outgoing c). frame_fits f" and "c' = (write_round nc ^^ length (cn_outgoing c)) c"
  shows "cn_connected c' \<longrightarrow> (\<exists>w'. cn_conn c' = Some w' \<and> cn_outgoing c' = [] \<and> take (length (sent w)) (sent w') = sent w \<and>
    frames_of (drop (length (sent w)) (sent w')) = (cn_outgoing c, io_EOF))"
proof
  assume "cn_connected c'"
  from write_rounds_send [OF assms(1-3) refl assms(4,5) this] obtain w' where
    "cn_conn c' = Some w'" "cn_outgoing c' = []" "sent w' = sent w @ concat (map frame_wire (cn_outgoing c))" by blast
  with frames_of_append [of "cn_outgoing c" "[]"] assms(4) show "\<exists>w'. cn_conn c' = Some w' \<and> cn_outgoing c' = [] \<and>
      take (length (sent w)) (sent w') = sent w \<and> frames_of (drop (length (sent w)) (sent w')) = (cn_outgoing c, io_EOF)"
    by (simp add: frames_of_Nil list_all_iff)
qed

text \<open>Frames sent while the connection is down are lost without a word: Send accepts them, and the writer, which goes on running, throws them
  away one by one; nothing is reported on the channel of errors.\<close>

theorem dropped_when_disconnected:
  assumes "\<not> cn_connected c" and "\<not> cn_closed c" and "length (cn_outgoing c) < 100"
  shows "\<exists>c1. Send f c = [(Sent, c1)] \<and> cn_outgoing c1 = cn_outgoing c @ [f] \<and>
    (write_round nc ^^ length (cn_outgoing c1)) c1 = c\<lparr>cn_outgoing := []\<rparr>"
proof -
  have "(write_round nc ^^ length fs) (c\<lparr>cn_outgoing := fs\<rparr>) = c\<lparr>cn_outgoing := []\<rparr>" for fs
  proof (induction fs)
    case (Cons f fs)
    have "write_round nc (c\<lparr>cn_outgoing := f # fs\<rparr>) = c\<lparr>cn_outgoing := fs\<rparr>"
      using assms(1) by (cases "cn_conn c") (simp_all add: write_round_def Let_def)
    with Cons show ?case by (simp add: funpow_swap1)
  qed simp
  from this [of "cn_outgoing c @ [f]"] show ?thesis using assms(2,3)
    by (intro exI [of _ "c\<lparr>cn_outgoing := cn_outgoing c @ [f]\<rparr>"]) (simp add: Send_def del: funpow.simps)
qed

section \<open>Losing and regaining the connection\<close>

text \<open>The server closes the connection, and the first attempt to reconnect meets the network nw.\<close>

definition lose_and_regain ::
  "(gostring \<Rightarrow> gostring + URL) \<Rightarrow> 'w net_conn \<Rightarrow> 'w network \<Rightarrow> 'w Connection \<Rightarrow> 'w Connection" where
  "lose_and_regain url_Parse nc nw c = snd (snd (reconnectLoop url_Parse nc [nw] (read_round (Inl io_EOF) c)))"

text \<open>A connection in use, with one reader.\<close>

definition in_use :: "dialer \<Rightarrow> 'w Connection \<Rightarrow> bool" where
  "in_use d c \<longleftrightarrow> cn_connected c \<and> cn_conn c \<noteq> None \<and> \<not> cn_reconnecting c \<and> cn_dial c = Some d \<and> cn_readers c = 1"

lemma lose_and_regain_once:
  assumes "in_use d c" and "nw_dial nw d = Inr w" and "accepts nw w"
  shows "in_use d (lose_and_regain url_Parse nc nw c) \<and> cn_writers (lose_and_regain url_Parse nc nw c) = Suc (cn_writers c)"
proof -
  define c1 where "c1 = push_state \<lparr>su_State = StateTypeReconnecting, su_Attempt = 1, su_Err = None\<rparr> ((read_round (Inl io_EOF) c)\<lparr>cn_reconnecting := True\<rparr>)"
  have c1: "\<not> cn_connected c1" "cn_dial c1 = Some d" "cn_readers c1 = 0" "cn_writers c1 = cn_writers c" "\<not> cn_reconnecting (read_round (Inl io_EOF) c)"
    using assms(1) by (simp_all add: c1_def in_use_def read_round_def)
  obtain c2 where c2: "Connect url_Parse nc nw c1 = (None, c2)" "connected_to nw w c1 c2"
    by (rule connect_accepts [OF c1(1,2) assms(2,3)])
  have "lose_and_regain url_Parse nc nw c =
      push_state \<lparr>su_State = StateTypeConnected, su_Attempt = 0, su_Err = None\<rparr> (c2\<lparr>cn_reconnecting := False, cn_loops := cn_loops c2 - 1\<rparr>)"
    using c1(5) c2(1) by (simp add: lose_and_regain_def reconnectLoop_def c1_def)
  moreover have "cn_dial c2 = Some d" using Connect_settings [OF c2(1)] c1(2) by (simp add: same_settings_def)
  ultimately show ?thesis using c2(2) c1(3,4) by (simp add: in_use_def connected_to_def)
qed

text \<open>Writers pile up: when the server closes the connection only the reader stops, so each time the client reconnects one more writeLoop runs.
  After n reconnections n + 1 goroutines take frames from the same queue and write them to the same connection.\<close>

theorem writers_accumulate:
  assumes "in_use d c" and "\<forall>nw \<in> set networks. \<exists>w. nw_dial nw d = Inr w \<and> accepts nw w"
  shows "cn_readers (fold (lose_and_regain url_Parse nc) networks c) = 1 \<and>
    cn_writers (fold (lose_and_regain url_Parse nc) networks c) = cn_writers c + length networks"
proof -
  have "in_use d (fold (lose_and_regain url_Parse nc) networks c) \<and>
      cn_writers (fold (lose_and_regain url_Parse nc) networks c) = cn_writers c + length networks"
    using assms
  proof (induction networks arbitrary: c)
    case (Cons nw networks)
    then obtain w where "nw_dial nw d = Inr w" "accepts nw w" by auto
    from lose_and_regain_once [OF Cons.prems(1) this, of url_Parse nc] Cons.IH [of "lose_and_regain url_Parse nc nw c"] Cons.prems(2)
    show ?case by simp
  qed simp
  then show ?thesis by (simp add: in_use_def)
qed

section \<open>A small network\<close>

text \<open>A connection is the bytes written to it. The server sends its configuration, or that of another version of the protocol.\<close>

definition config_frame :: "u8 \<Rightarrow> Frame" where
  "config_frame version = \<lparr>Frame_Version = 1, Frame_Type = TypeServerConfig, Frame_Flags = 0,
     Frame_Payload = (case ServerConfigMessage_Encode (ServerConfigMessage_zero\<lparr>ServerConfig_ProtocolVersion := version\<rparr>) of Inr p \<Rightarrow> p | Inl e \<Rightarrow> [])\<rparr>"

definition tcp_network :: "u8 \<Rightarrow> bytes network" where
  "tcp_network version = \<lparr>nw_dial = (\<lambda>d. case d of DialTCP a \<Rightarrow> Inr [] | _ \<Rightarrow> Inl (lit ''refused'')), nw_deadline = (\<lambda>w. None),
     nw_input = (\<lambda>w. frame_wire (config_frame version))\<rparr>"

definition no_network :: "bytes network" where
  "no_network = \<lparr>nw_dial = (\<lambda>d. Inl (lit ''unreachable'')), nw_deadline = (\<lambda>w. None), nw_input = (\<lambda>w. [])\<rparr>"

definition some_conn :: "bytes Connection" where
  "some_conn = new_connection \<lparr>dc_display = lit ''example.org:6465'', dc_raw = lit ''example.org:6465'',
     dc_dial = DialTCP (lit ''example.org:6465''), dc_warning = []\<rparr>"

definition buffer_conn :: "bytes net_conn" where
  "buffer_conn = \<lparr>conn_writer = buffer, conn_Close = (\<lambda>w. w)\<rparr>"

lemma speaks_config: "speaks (frame_wire (config_frame 1)) (config_frame 1)"
proof -
  have "length (Frame_Payload (config_frame 1)) < 100" by code_simp
  then have "frame_fits (config_frame 1)" by (simp add: frame_fits_def)
  from DecodeFrame_wire [OF this, of "[]"] have "DecodeFrame (frame_wire (config_frame 1)) = Inr (config_frame 1, [])" by simp
  moreover have "snd (ServerConfigMessage_Decode ServerConfigMessage_zero (Frame_Payload (config_frame 1))) = None" by code_simp
  moreover have "ServerConfig_ProtocolVersion (fst (ServerConfigMessage_Decode ServerConfigMessage_zero (Frame_Payload (config_frame 1)))) = ProtocolVersion"
    by code_simp
  ultimately show ?thesis unfolding speaks_def by (metis config_frame_def Frame.select_convs(2) prod.collapse)
qed

lemma tcp_accepts: "accepts (tcp_network 1) w"
  using speaks_config by (auto simp: accepts_def tcp_network_def)

lemma some_conn_simps: "\<not> cn_connected some_conn" "\<not> cn_reconnecting some_conn" "cn_dial some_conn = Some (DialTCP (lit ''example.org:6465''))"
  "cn_reconnectDelay some_conn = 1000000000" "cn_maxReconnectDelay some_conn = 30000000000" "\<not> cn_closed some_conn" "cn_outgoing some_conn = []"
  by (simp_all add: some_conn_def new_connection_def)

lemma reconnect_backoff_witness:
  "\<exists>c'. reconnectLoop simple_Parse buffer_conn [no_network, no_network, tcp_network 1] some_conn =
      ([1000000000, 2000000000, 4000000000], True, c') \<and> connected_to (tcp_network 1) [] some_conn c'"
proof -
  have down: "\<forall>nw \<in> set [no_network, no_network]. \<forall>d. \<exists>e. nw_dial nw d = Inl e" by (simp add: no_network_def)
  have up: "nw_dial (tcp_network 1) (DialTCP (lit ''example.org:6465'')) = Inr []" by (simp add: tcp_network_def)
  from reconnect_backoff [OF some_conn_simps(1-5) down up tcp_accepts, of simple_Parse buffer_conn "[]"] show ?thesis by auto
qed

lemma failed_validation_stuck_witness:
  "\<exists>err c'. Connect simple_Parse buffer_conn (tcp_network 2) some_conn = (Some err, c') \<and>
    Connect simple_Parse buffer_conn (tcp_network 1) c' = (Some AlreadyConnected, c')"
proof -
  have "fst (Connect simple_Parse buffer_conn (tcp_network 2) some_conn) = Some (ValidationAndFallbackFailed (VersionMismatch 2))" by code_simp
  then obtain c' where c: "Connect simple_Parse buffer_conn (tcp_network 2) some_conn = (Some (ValidationAndFallbackFailed (VersionMismatch 2)), c')"
    by (metis prod.collapse)
  have "ValidationAndFallbackFailed (VersionMismatch 2) \<in>
      range ValidationFailed \<union> range ValidationAndFallbackFailed \<union> range WebSocketValidationFailed" by blast
  from failed_validation_stuck [OF c this, of "tcp_network 1" "[]" 0 0] c show ?thesis by blast
qed

definition used_conn :: "Frame list \<Rightarrow> bytes Connection" where
  "used_conn fs = some_conn\<lparr>cn_connected := True, cn_conn := Some [], cn_outgoing := fs, cn_throttle := 20, cn_readers := 1, cn_writers := 1\<rparr>"

definition small_frame :: "u8 \<Rightarrow> Frame" where
  "small_frame t = \<lparr>Frame_Version = 1, Frame_Type = t, Frame_Flags = 0, Frame_Payload = [7]\<rparr>"

lemma written_frames_read_back_witness:
  "let c = used_conn [small_frame 2, small_frame 3]; c' = (write_round buffer_conn ^^ 2) c in
    \<exists>w'. cn_conn c' = Some w' \<and> frames_of w' = ([small_frame 2, small_frame 3], io_EOF)"
proof -
  let ?c = "used_conn [small_frame 2, small_frame 3]"
  have c: "writer_contract (conn_writer buffer_conn) (\<lambda>b. b)" by (simp add: buffer_conn_def buf.writer_contract_axioms)
  have u: "cn_connected ?c" "cn_conn ?c = Some []" "cn_outgoing ?c = [small_frame 2, small_frame 3]" by (simp_all add: used_conn_def)
  have fits: "\<forall>f \<in> set (cn_outgoing ?c). frame_fits f" unfolding u by (simp add: small_frame_def frame_fits_def)
  have "cn_connected ((write_round buffer_conn ^^ length (cn_outgoing ?c)) ?c)" by code_simp
  with written_frames_read_back [OF c u(1,2) fits refl] show ?thesis by (auto simp: u numeral_2_eq_2)
qed

lemma dropped_when_disconnected_witness:
  "\<exists>c1. Send (config_frame 1) some_conn = [(Sent, c1)] \<and> (write_round buffer_conn ^^ 1) c1 = some_conn\<lparr>cn_outgoing := []\<rparr>"
  using dropped_when_disconnected [OF some_conn_simps(1,6), of "config_frame 1" buffer_conn] by (auto simp: some_conn_simps)

lemma writers_accumulate_witness:
  "cn_writers (fold (lose_and_regain simple_Parse buffer_conn) [tcp_network 1, tcp_network 1] (used_conn [])) = 3"
proof -
  have u: "in_use (DialTCP (lit ''example.org:6465'')) (used_conn [])"
    by (simp add: in_use_def used_conn_def some_conn_simps del: lit_chars)
  have "nw_dial (tcp_network 1) (DialTCP (lit ''example.org:6465'')) = Inr []" by (simp add: tcp_network_def)
  then have a: "\<forall>nw \<in> set [tcp_network 1, tcp_network 1]. \<exists>w. nw_dial nw (DialTCP (lit ''example.org:6465'')) = Inr w \<and> accepts nw w"
    using tcp_accepts by simp
  have w: "cn_writers (used_conn []) = 1" by (simp add: used_conn_def)
  from writers_accumulate [OF u a, of simple_Parse buffer_conn] show ?thesis unfolding w by simp
qed

end
