(* ===== verification/BitStream.thy ===== *)
theory BitStream imports WireTypes begin

text \<open>
  The runtime of the binary schema tools, "tools/binschema/go/runtime/bitstream.go": a writer and a reader of single bits, of bytes at
  any bit position, and of integers and floating-point numbers in either byte order, with the bits of a
  byte in either order.

  A read that fails leaves the reader where it stopped and returns None; the only error is the end of the stream. A
  floating-point number is its IEEE 754 bits, which math.Float32bits and its relatives exchange it for.
\<close>

section \<open>Data\<close>

datatype Endianness = BigEndian | LittleEndian

datatype BitOrder = MSBFirst | LSBFirst

record BitStreamEncoder =
  be_bytes :: bytes
  be_currentByte :: u8
  be_bitOffset :: nat
  be_totalBitsWritten :: nat
  be_bitOrder :: BitOrder

record BitStreamDecoder =
  bd_bytes :: bytes
  bd_byteOffset :: nat
  bd_bitOffset :: nat
  bd_bitOrder :: BitOrder
  bd_LastErrorCode :: "gostring option"

definition NewBitStreamEncoder :: "BitOrder \<Rightarrow> BitStreamEncoder" where
  "NewBitStreamEncoder bitOrder =
    \<lparr>be_bytes = [], be_currentByte = 0, be_bitOffset = 0, be_totalBitsWritten = 0, be_bitOrder = bitOrder\<rparr>"

definition Finish :: "BitStreamEncoder \<Rightarrow> bytes \<times> BitStreamEncoder" where
  "Finish e =
    (let e = (if be_bitOffset e > 0
       then e\<lparr>be_bytes := be_bytes e @ [be_currentByte e], be_currentByte := 0, be_bitOffset := 0\<rparr> else e)
     in (be_bytes e, e))"

definition NewBitStreamDecoder :: "bytes \<Rightarrow> BitOrder \<Rightarrow> BitStreamDecoder" where
  "NewBitStreamDecoder bytes bitOrder =
    \<lparr>bd_bytes = bytes, bd_byteOffset = 0, bd_bitOffset = 0, bd_bitOrder = bitOrder, bd_LastErrorCode = None\<rparr>"

definition Position :: "BitStreamDecoder \<Rightarrow> nat" where
  "Position d = bd_byteOffset d"

section \<open>Reading\<close>

type_synonym 'a bs_rd = "BitStreamDecoder \<Rightarrow> 'a option \<times> BitStreamDecoder"

text \<open>"errCode := ...; d.LastErrorCode = &errCode; return 0, errors.New(...)", and a successful return.\<close>

definition bs_fail :: "'a bs_rd" where
  "bs_fail d = (None, d\<lparr>bd_LastErrorCode := Some (lit ''INCOMPLETE_DATA'')\<rparr>)"

definition bs_return :: "'a \<Rightarrow> 'a bs_rd" where
  "bs_return v d = (Some v, d\<lparr>bd_LastErrorCode := None\<rparr>)"

definition bs_bind :: "'a bs_rd \<Rightarrow> ('a \<Rightarrow> 'b bs_rd) \<Rightarrow> 'b bs_rd" where
  "bs_bind r k d = (case r d of (None, d) \<Rightarrow> (None, d) | (Some v, d) \<Rightarrow> k v d)"

definition readBit :: "u8 bs_rd" where
  "readBit d =
    (if bd_byteOffset d \<ge> length (bd_bytes d) then bs_fail d
     else
       (let currentByte = bd_bytes d ! bd_byteOffset d;
            b = (if bd_bitOrder d = MSBFirst then drop_bit (7 - bd_bitOffset d) currentByte AND 1
                 else drop_bit (bd_bitOffset d) currentByte AND 1);
            d = d\<lparr>bd_bitOffset := bd_bitOffset d + 1\<rparr>;
            d = (if bd_bitOffset d = 8 then d\<lparr>bd_byteOffset := bd_byteOffset d + 1, bd_bitOffset := 0\<rparr> else d)
        in (Some b, d)))"

text \<open>The loop over the positions of the bits of a value, in the order in which they are read.\<close>

fun read_bits :: "nat list \<Rightarrow> 'a::len word \<Rightarrow> 'a word bs_rd" where
  "read_bits [] result d = bs_return result d"
| "read_bits (i # is) result d = bs_bind readBit (\<lambda>b. read_bits is (result OR push_bit i (ucast b))) d"

definition bs_ReadUint8 :: "u8 bs_rd" where
  "bs_ReadUint8 d =
    (if bd_bitOffset d = 0 then
       (if bd_byteOffset d \<ge> length (bd_bytes d) then bs_fail d
        else
          (let d = d\<lparr>bd_LastErrorCode := None\<rparr>
           in (Some (bd_bytes d ! bd_byteOffset d), d\<lparr>bd_byteOffset := bd_byteOffset d + 1\<rparr>)))
     else read_bits [0..<8] 0 d)"

definition ReadBits :: "int \<Rightarrow> u64 bs_rd" where
  "ReadBits numBits = read_bits (rev [0..<nat numBits]) 0"

definition bs_ReadUint16 :: "Endianness \<Rightarrow> u16 bs_rd" where
  "bs_ReadUint16 endianness =
    (if endianness = BigEndian then
       bs_bind bs_ReadUint8 (\<lambda>high. bs_bind bs_ReadUint8 (\<lambda>low. bs_return (push_bit 8 (ucast high) OR ucast low)))
     else
       bs_bind bs_ReadUint8 (\<lambda>low. bs_bind bs_ReadUint8 (\<lambda>high. bs_return (push_bit 8 (ucast high) OR ucast low))))"

definition bs_ReadUint32 :: "Endianness \<Rightarrow> u32 bs_rd" where
  "bs_ReadUint32 endianness =
    bs_bind bs_ReadUint8 (\<lambda>b0. bs_bind bs_ReadUint8 (\<lambda>b1. bs_bind bs_ReadUint8 (\<lambda>b2. bs_bind bs_ReadUint8 (\<lambda>b3.
      if endianness = BigEndian
      then bs_return (push_bit 24 (ucast b0) OR push_bit 16 (ucast b1) OR push_bit 8 (ucast b2) OR ucast b3)
      else bs_return (push_bit 24 (ucast b3) OR push_bit 16 (ucast b2) OR push_bit 8 (ucast b1) OR ucast b0)))))"

text \<open>The loops of ReadUint64 over the eight bytes.\<close>

fun read_bytes64 :: "Endianness \<Rightarrow> nat list \<Rightarrow> u64 \<Rightarrow> u64 bs_rd" where
  "read_bytes64 endianness [] result d = bs_return result d"
| "read_bytes64 endianness (i # is) result d = bs_bind bs_ReadUint8 (\<lambda>b. read_bytes64 endianness is
     (if endianness = BigEndian then push_bit 8 result OR ucast b else result OR push_bit (i * 8) (ucast b))) d"

definition bs_ReadUint64 :: "Endianness \<Rightarrow> u64 bs_rd" where
  "bs_ReadUint64 endianness = read_bytes64 endianness [0..<8] 0"

text \<open>The signed integers are the same bits: int8(unsigned) is a cast.\<close>

definition bs_ReadInt8 :: "u8 bs_rd" where
  "bs_ReadInt8 = bs_bind bs_ReadUint8 bs_return"

definition bs_ReadInt16 :: "Endianness \<Rightarrow> u16 bs_rd" where
  "bs_ReadInt16 endianness = bs_bind (bs_ReadUint16 endianness) bs_return"

definition bs_ReadInt32 :: "Endianness \<Rightarrow> u32 bs_rd" where
  "bs_ReadInt32 endianness = bs_bind (bs_ReadUint32 endianness) bs_return"

definition bs_ReadInt64 :: "Endianness \<Rightarrow> u64 bs_rd" where
  "bs_ReadInt64 endianness = bs_bind (bs_ReadUint64 endianness) bs_return"

text \<open>"for i := 0; i < n; i++ { b, err := d.ReadUint8(); ...; buf[i] = b }".\<close>

fun read_buf :: "nat \<Rightarrow> bytes \<Rightarrow> bytes bs_rd" where
  "read_buf 0 buf d = bs_return buf d"
| "read_buf (Suc n) buf d = bs_bind bs_ReadUint8 (\<lambda>b. read_buf n (buf @ [b])) d"

definition ReadFloat32 :: "Endianness \<Rightarrow> u32 bs_rd" where
  "ReadFloat32 endianness = bs_bind (read_buf 4 []) (\<lambda>buf. bs_return
    (if endianness = LittleEndian then Uint32 (rev buf) else Uint32 buf))"

definition ReadFloat64 :: "Endianness \<Rightarrow> u64 bs_rd" where
  "ReadFloat64 endianness = bs_bind (read_buf 8 []) (\<lambda>buf. bs_return
    (if endianness = LittleEndian then Uint64 (rev buf) else Uint64 buf))"

section \<open>Writing\<close>

definition writeBit :: "u8 \<Rightarrow> BitStreamEncoder \<Rightarrow> BitStreamEncoder" where
  "writeBit b e =
    (let e = (if be_bitOrder e = MSBFirst
           then e\<lparr>be_currentByte := be_currentByte e OR push_bit (7 - be_bitOffset e) b\<rparr>
           else e\<lparr>be_currentByte := be_currentByte e OR push_bit (be_bitOffset e) b\<rparr>);
         e = e\<lparr>be_bitOffset := be_bitOffset e + 1, be_totalBitsWritten := be_totalBitsWritten e + 1\<rparr>
     in if be_bitOffset e = 8
        then e\<lparr>be_bytes := be_bytes e @ [be_currentByte e], be_currentByte := 0, be_bitOffset := 0\<rparr> else e)"

definition bs_WriteUint8 :: "u8 \<Rightarrow> BitStreamEncoder \<Rightarrow> BitStreamEncoder" where
  "bs_WriteUint8 value e =
    (if be_bitOffset e = 0 then e\<lparr>be_bytes := be_bytes e @ [value]\<rparr>
     else fold (\<lambda>i. writeBit (drop_bit i value AND 1)) [0..<8] e)"

definition WriteBits :: "u64 \<Rightarrow> int \<Rightarrow> BitStreamEncoder \<Rightarrow> BitStreamEncoder" where
  "WriteBits value numBits = fold (\<lambda>i. writeBit (ucast (drop_bit i value AND 1))) (rev [0..<nat numBits])"

definition bs_WriteUint16 :: "u16 \<Rightarrow> Endianness \<Rightarrow> BitStreamEncoder \<Rightarrow> BitStreamEncoder" where
  "bs_WriteUint16 value endianness =
    (if endianness = BigEndian then fold bs_WriteUint8 [ucast (drop_bit 8 value AND 0xFF), ucast (value AND 0xFF)]
     else fold bs_WriteUint8 [ucast (value AND 0xFF), ucast (drop_bit 8 value AND 0xFF)])"

definition bs_WriteUint32 :: "u32 \<Rightarrow> Endianness \<Rightarrow> BitStreamEncoder \<Rightarrow> BitStreamEncoder" where
  "bs_WriteUint32 value endianness =
    (if endianness = BigEndian then
       fold bs_WriteUint8 [ucast (drop_bit 24 value AND 0xFF), ucast (drop_bit 16 value AND 0xFF),
         ucast (drop_bit 8 value AND 0xFF), ucast (value AND 0xFF)]
     else
       fold bs_WriteUint8 [ucast (value AND 0xFF), ucast (drop_bit 8 value AND 0xFF),
         ucast (drop_bit 16 value AND 0xFF), ucast (drop_bit 24 value AND 0xFF)])"

definition bs_WriteUint64 :: "u64 \<Rightarrow> Endianness \<Rightarrow> BitStreamEncoder \<Rightarrow> BitStreamEncoder" where
  "bs_WriteUint64 value endianness =
    (if endianness = BigEndian then
       fold bs_WriteUint8 [ucast (drop_bit 56 value AND 0xFF), ucast (drop_bit 48 value AND 0xFF),
         ucast (drop_bit 40 value AND 0xFF), ucast (drop_bit 32 value AND 0xFF), ucast (drop_bit 24 value AND 0xFF),
         ucast (drop_bit 16 value AND 0xFF), ucast (drop_bit 8 value AND 0xFF), ucast (value AND 0xFF)]
     else
       fold bs_WriteUint8 [ucast (value AND 0xFF), ucast (drop_bit 8 value AND 0xFF),
         ucast (drop_bit 16 value AND 0xFF), ucast (drop_bit 24 value AND 0xFF), ucast (drop_bit 32 value AND 0xFF),
         ucast (drop_bit 40 value AND 0xFF), ucast (drop_bit 48 value AND 0xFF), ucast (drop_bit 56 value AND 0xFF)])"

definition bs_WriteInt8 :: "u8 \<Rightarrow> BitStreamEncoder \<Rightarrow> BitStreamEncoder" where
  "bs_WriteInt8 value = bs_WriteUint8 value"

definition bs_WriteInt16 :: "u16 \<Rightarrow> Endianness \<Rightarrow> BitStreamEncoder \<Rightarrow> BitStreamEncoder" where
  "bs_WriteInt16 value endianness = bs_WriteUint16 value endianness"

definition bs_WriteInt32 :: "u32 \<Rightarrow> Endianness \<Rightarrow> BitStreamEncoder \<Rightarrow> BitStreamEncoder" where
  "bs_WriteInt32 value endianness = bs_WriteUint32 value endianness"

definition bs_WriteInt64 :: "u64 \<Rightarrow> Endianness \<Rightarrow> BitStreamEncoder \<Rightarrow> BitStreamEncoder" where
  "bs_WriteInt64 value endianness = bs_WriteUint64 value endianness"

definition WriteFloat32 :: "u32 \<Rightarrow> Endianness \<Rightarrow> BitStreamEncoder \<Rightarrow> BitStreamEncoder" where
  "WriteFloat32 bits endianness =
    fold bs_WriteUint8 (if endianness = LittleEndian then rev (PutUint32 bits) else PutUint32 bits)"

definition WriteFloat64 :: "u64 \<Rightarrow> Endianness \<Rightarrow> BitStreamEncoder \<Rightarrow> BitStreamEncoder" where
  "WriteFloat64 bits endianness =
    fold bs_WriteUint8 (if endianness = LittleEndian then rev (PutUint64 bits) else PutUint64 bits)"

end
