(* ===== verification/BitStreamProps.thy ===== *)
theory BitStreamProps imports BitStream begin

text \<open>
  What is written with a BitStreamEncoder is read back by a BitStreamDecoder: the stream of bits both work on, the contract
  bit_codec of a pair of a write and a read, which every pair of the runtime keeps, and the round
  trip of a sequence of writes of any kinds at any bit positions.
\<close>

section \<open>The stream of bits\<close>

text \<open>The bit of a byte that comes at position j of its eight.\<close>

definition bit_pos :: "BitOrder \<Rightarrow> nat \<Rightarrow> nat" where
  "bit_pos order j = (if order = MSBFirst then 7 - j else j)"

definition byte_bits :: "BitOrder \<Rightarrow> u8 \<Rightarrow> bool list" where
  "byte_bits order b = map (\<lambda>j. bit b (bit_pos order j)) [0..<8]"

definition stream :: "BitOrder \<Rightarrow> bytes \<Rightarrow> bool list" where
  "stream order bs = concat (map (byte_bits order) bs)"

lemma length_byte_bits [simp]: "length (byte_bits order b) = 8"
  by (simp add: byte_bits_def)

lemma nth_byte_bits: "j < 8 \<Longrightarrow> byte_bits order b ! j = bit b (bit_pos order j)"
  by (simp add: byte_bits_def)

lemma length_stream [simp]: "length (stream order bs) = 8 * length bs"
  by (induction bs) (simp_all add: stream_def)

lemma stream_append [simp]: "stream order (bs @ cs) = stream order bs @ stream order cs"
  by (simp add: stream_def)

lemma stream_single [simp]: "stream order [b] = byte_bits order b"
  by (simp add: stream_def)

lemma stream_Nil [simp]: "stream order [] = []"
  by (simp add: stream_def)

lemma stream_Cons: "stream order (b # bs) = byte_bits order b @ stream order bs"
  by (simp add: stream_def)

lemma nth_stream: "i < length bs \<Longrightarrow> j < 8 \<Longrightarrow> stream order bs ! (8 * i + j) = byte_bits order (bs ! i) ! j"
proof (induction bs arbitrary: i)
  case (Cons b bs)
  show ?case
  proof (cases i)
    case 0
    with Cons.prems show ?thesis by (simp add: stream_Cons nth_append)
  next
    case (Suc n)
    then have "8 * i + j = 8 + (8 * n + j)" by simp
    then have "stream order (b # bs) ! (8 * i + j) = stream order bs ! (8 * n + j)"
      unfolding stream_Cons by (simp only: nth_append length_byte_bits) simp
    with Cons Suc show ?thesis by simp
  qed
qed simp

subsection \<open>Of a writer\<close>

definition enc_bits :: "BitStreamEncoder \<Rightarrow> bool list" where
  "enc_bits e = stream (be_bitOrder e) (be_bytes e) @ take (be_bitOffset e) (byte_bits (be_bitOrder e) (be_currentByte e))"

definition enc_ok :: "BitStreamEncoder \<Rightarrow> bool" where
  "enc_ok e \<longleftrightarrow> be_bitOffset e < 8 \<and> (\<forall>j. be_bitOffset e \<le> j \<and> j < 8 \<longrightarrow> \<not> byte_bits (be_bitOrder e) (be_currentByte e) ! j)"

lemma enc_bits_mod: "enc_ok e \<Longrightarrow> length (enc_bits e) mod 8 = be_bitOffset e"
  by (simp add: enc_bits_def enc_ok_def)

lemma bit_pos_less: "j < 8 \<Longrightarrow> bit_pos order j < 8"
  unfolding bit_pos_def by arith

lemma bit_pos_inj: "i < 8 \<Longrightarrow> j < 8 \<Longrightarrow> bit_pos order i = bit_pos order j \<longleftrightarrow> i = j"
  by (auto simp: bit_pos_def)

lemma byte_bits_set:
  assumes "i < 8" and "j < 8"
  shows "byte_bits order (b OR push_bit (bit_pos order i) (of_bool x)) ! j = (byte_bits order b ! j \<or> x \<and> j = i)"
proof -
  have "bit (push_bit (bit_pos order i) (of_bool x) :: u8) (bit_pos order j) \<longleftrightarrow> x \<and> bit_pos order j = bit_pos order i"
    using bit_pos_less [OF assms(2), of order] by (cases x) (auto simp: bit_exp_iff)
  then show ?thesis using assms by (auto simp: nth_byte_bits bit_or_iff bit_pos_inj)
qed

lemma writeBit_bits:
  assumes "enc_ok e"
  shows "enc_ok (writeBit (of_bool x) e) \<and> be_bitOrder (writeBit (of_bool x) e) = be_bitOrder e \<and>
    enc_bits (writeBit (of_bool x) e) = enc_bits e @ [x]"
proof -
  let ?o = "be_bitOrder e" and ?k = "be_bitOffset e"
  define c where "c = be_currentByte e OR push_bit (bit_pos ?o ?k) (of_bool x)"
  from assms have k: "?k < 8" and zero: "\<And>j. ?k \<le> j \<Longrightarrow> j < 8 \<Longrightarrow> \<not> byte_bits ?o (be_currentByte e) ! j"
    by (auto simp: enc_ok_def)
  have w: "writeBit (of_bool x) e =
      (if Suc ?k = 8 then e\<lparr>be_bytes := be_bytes e @ [c], be_currentByte := 0, be_bitOffset := 0, be_totalBitsWritten := be_totalBitsWritten e + 1\<rparr>
       else e\<lparr>be_currentByte := c, be_bitOffset := Suc ?k, be_totalBitsWritten := be_totalBitsWritten e + 1\<rparr>)"
    by (simp add: writeBit_def Let_def bit_pos_def c_def)
  have set: "byte_bits ?o c ! j = (byte_bits ?o (be_currentByte e) ! j \<or> x \<and> j = ?k)" if "j < 8" for j
    unfolding c_def by (rule byte_bits_set [OF k that])
  have take: "take (Suc ?k) (byte_bits ?o c) = take ?k (byte_bits ?o (be_currentByte e)) @ [x]"
    using k zero [of ?k] by (intro nth_equalityI) (auto simp: nth_append set less_Suc_eq)
  have none: "\<not> byte_bits ?o 0 ! j" if "j < 8" for j using that by (simp add: nth_byte_bits)
  show ?thesis
  proof (cases "Suc ?k = 8")
    case True
    then have "byte_bits ?o c = take ?k (byte_bits ?o (be_currentByte e)) @ [x]" using take by simp
    with True none show ?thesis by (simp add: w enc_ok_def enc_bits_def)
  next
    case False
    with k take zero show ?thesis by (auto simp: w enc_ok_def enc_bits_def set)
  qed
qed

lemma and_one: "(v AND 1 :: 'a::len word) = of_bool (bit v 0)"
  by (simp add: and_one_eq odd_iff_mod_2_eq_one bit_0)

lemma writeBits_bits:
  assumes "enc_ok e"
  shows "enc_ok (fold (\<lambda>i. writeBit (of_bool (f i))) is e) \<and> be_bitOrder (fold (\<lambda>i. writeBit (of_bool (f i))) is e) = be_bitOrder e \<and>
    enc_bits (fold (\<lambda>i. writeBit (of_bool (f i))) is e) = enc_bits e @ map f is"
  using assms
proof (induction "is" arbitrary: e)
  case (Cons i "is")
  from writeBit_bits [OF Cons.prems, of "f i"] Cons.IH [of "writeBit (of_bool (f i)) e"] show ?case by simp
qed simp

text \<open>The bits of a byte depend on where it is written: on a byte boundary in the order of the stream, elsewhere from the least significant on.\<close>

definition u8_bits :: "BitOrder \<Rightarrow> nat \<Rightarrow> u8 \<Rightarrow> bool list" where
  "u8_bits order p v = (if p mod 8 = 0 then byte_bits order v else map (bit v) [0..<8])"

definition bytes_bits :: "BitOrder \<Rightarrow> nat \<Rightarrow> bytes \<Rightarrow> bool list" where
  "bytes_bits order p vs = concat (map (u8_bits order p) vs)"

lemma length_u8_bits [simp]: "length (u8_bits order p v) = 8"
  by (simp add: u8_bits_def)

lemma length_bytes_bits [simp]: "length (bytes_bits order p vs) = 8 * length vs"
  by (induction vs) (simp_all add: bytes_bits_def)

lemma bytes_bits_simps [simp]: "bytes_bits order p [] = []" "bytes_bits order p (v # vs) = u8_bits order p v @ bytes_bits order p vs"
  by (simp_all add: bytes_bits_def)

lemma u8_bits_mod: "u8_bits order (p + 8) v = u8_bits order p v" "u8_bits order (p mod 8) v = u8_bits order p v"
  by (simp_all add: u8_bits_def)

lemma bytes_bits_mod: "bytes_bits order (p + 8) vs = bytes_bits order p vs" "bytes_bits order (p mod 8) vs = bytes_bits order p vs"
  by (induction vs) (simp_all add: u8_bits_mod)

lemma WriteUint8_bits:
  assumes "enc_ok e"
  shows "enc_ok (bs_WriteUint8 v e) \<and> be_bitOrder (bs_WriteUint8 v e) = be_bitOrder e \<and>
    enc_bits (bs_WriteUint8 v e) = enc_bits e @ u8_bits (be_bitOrder e) (length (enc_bits e)) v"
proof (cases "be_bitOffset e = 0")
  case True
  then have "length (enc_bits e) mod 8 = 0" using enc_bits_mod [OF assms] by simp
  with True assms show ?thesis by (auto simp: bs_WriteUint8_def enc_ok_def enc_bits_def u8_bits_def)
next
  case False
  then have "length (enc_bits e) mod 8 \<noteq> 0" using enc_bits_mod [OF assms] by simp
  moreover have "bs_WriteUint8 v e = fold (\<lambda>i. writeBit (of_bool (bit v i))) [0..<8] e"
    using False by (simp add: bs_WriteUint8_def and_one bit_drop_bit_eq)
  ultimately show ?thesis using writeBits_bits [OF assms, of "bit v" "[0..<8]"] by (simp add: u8_bits_def)
qed

lemma write_bytes_bits:
  assumes "enc_ok e"
  shows "enc_ok (fold bs_WriteUint8 vs e) \<and> be_bitOrder (fold bs_WriteUint8 vs e) = be_bitOrder e \<and>
    enc_bits (fold bs_WriteUint8 vs e) = enc_bits e @ bytes_bits (be_bitOrder e) (length (enc_bits e)) vs"
  using assms
proof (induction vs arbitrary: e)
  case (Cons v vs)
  from WriteUint8_bits [OF Cons.prems, of v] Cons.IH [of "bs_WriteUint8 v e"] show ?case by (simp add: bytes_bits_mod)
qed simp

subsection \<open>Of a reader\<close>

text \<open>The reader stands at bit p of the stream of bs.\<close>

definition dec_at :: "BitOrder \<Rightarrow> bytes \<Rightarrow> nat \<Rightarrow> BitStreamDecoder \<Rightarrow> bool" where
  "dec_at order bs p d \<longleftrightarrow> bd_bytes d = bs \<and> bd_bitOrder d = order \<and> bd_bitOffset d < 8 \<and> 8 * bd_byteOffset d + bd_bitOffset d = p"

text \<open>From bit p on the reader returns v and stands at bit p'.\<close>

definition gets :: "BitOrder \<Rightarrow> bytes \<Rightarrow> 'a bs_rd \<Rightarrow> nat \<Rightarrow> 'a \<Rightarrow> nat \<Rightarrow> bool" where
  "gets order bs r p v p' \<longleftrightarrow> (\<forall>d. dec_at order bs p d \<longrightarrow> (\<exists>d'. r d = (Some v, d') \<and> dec_at order bs p' d'))"

text \<open>The stream goes on with w at bit p.\<close>

definition holds_at :: "BitOrder \<Rightarrow> bytes \<Rightarrow> nat \<Rightarrow> bool list \<Rightarrow> bool" where
  "holds_at order bs p w \<longleftrightarrow> (\<exists>rest. drop p (stream order bs) = w @ rest)"

lemma holds_at_append: "holds_at order bs p (v @ w) \<longleftrightarrow> holds_at order bs p v \<and> holds_at order bs (p + length v) w"
proof
  assume "holds_at order bs p (v @ w)"
  then obtain rest where r: "drop p (stream order bs) = v @ w @ rest" by (auto simp: holds_at_def)
  then have "drop (p + length v) (stream order bs) = w @ rest" by (metis add.commute append_eq_conv_conj drop_drop)
  with r show "holds_at order bs p v \<and> holds_at order bs (p + length v) w" by (auto simp: holds_at_def)
next
  assume h: "holds_at order bs p v \<and> holds_at order bs (p + length v) w"
  then obtain r1 r2 where 1: "drop p (stream order bs) = v @ r1" and 2: "drop (p + length v) (stream order bs) = w @ r2"
    by (auto simp: holds_at_def)
  then have "r1 = w @ r2" by (metis add.commute append_eq_conv_conj drop_drop)
  with 1 show "holds_at order bs p (v @ w)" by (auto simp: holds_at_def)
qed

lemma holds_at_nth: "holds_at order bs p w \<Longrightarrow> k < length w \<Longrightarrow> p + k < 8 * length bs \<and> stream order bs ! (p + k) = w ! k"
proof -
  assume "holds_at order bs p w" "k < length w"
  then obtain rest where r: "drop p (stream order bs) = w @ rest" by (auto simp: holds_at_def)
  then have "length (stream order bs) - p = length w + length rest" by (metis length_append length_drop)
  with \<open>k < length w\<close> have l: "p + k < length (stream order bs)" by simp
  then have "stream order bs ! (p + k) = drop p (stream order bs) ! k" by simp
  with r l \<open>k < length w\<close> show ?thesis by (simp add: nth_append)
qed

lemma gets_return: "gets order bs (bs_return v) p v p"
  by (simp add: gets_def bs_return_def dec_at_def)

lemma gets_bind: "gets order bs r p v p1 \<Longrightarrow> gets order bs (k v) p1 w p2 \<Longrightarrow> gets order bs (bs_bind r k) p w p2"
  by (fastforce simp: gets_def bs_bind_def)

lemma readBit_gets:
  assumes "p < 8 * length bs"
  shows "gets order bs readBit p (of_bool (stream order bs ! p)) (Suc p)"
  unfolding gets_def
proof (intro allI impI)
  fix d assume "dec_at order bs p d"
  then have d: "bd_bytes d = bs" "bd_bitOrder d = order" "bd_bitOffset d < 8" and p: "p = 8 * bd_byteOffset d + bd_bitOffset d"
    by (auto simp: dec_at_def)
  from assms p have i: "bd_byteOffset d < length bs" by simp
  have b: "stream order bs ! p = bit (bs ! bd_byteOffset d) (bit_pos order (bd_bitOffset d))"
    unfolding p by (simp add: nth_stream [OF i d(3)] nth_byte_bits [OF d(3)])
  have "(if order = MSBFirst then drop_bit (7 - bd_bitOffset d) (bs ! bd_byteOffset d) AND 1
      else drop_bit (bd_bitOffset d) (bs ! bd_byteOffset d) AND 1) = (of_bool (stream order bs ! p) :: u8)"
    by (simp add: b and_one bit_drop_bit_eq bit_pos_def)
  then show "\<exists>d'. readBit d = (Some (of_bool (stream order bs ! p)), d') \<and> dec_at order bs (Suc p) d'"
    using d i by (auto simp: readBit_def Let_def dec_at_def p)
qed

lemma ucast_bit: "ucast (of_bool x :: 'b::len word) = (of_bool x :: 'a::len word)"
  by (cases x) simp_all

text \<open>The bits read at the positions of a list "is" of a value.\<close>

lemma read_bits_gets:
  fixes v result :: "'a::len word"
  assumes "holds_at order bs p (map (bit v) is)"
  shows "gets order bs (read_bits is result) p (fold (\<lambda>i r. r OR push_bit i (of_bool (bit v i))) is result) (p + length is)"
  using assms
proof (induction "is" arbitrary: p result)
  case Nil
  show ?case using gets_return [of order bs result p] by (simp add: gets_def)
next
  case (Cons i "is")
  from holds_at_nth [OF Cons.prems, of 0] have p: "p < 8 * length bs" and v: "stream order bs ! p = bit v i" by simp_all
  from readBit_gets [OF p, of order] have b: "gets order bs readBit p (of_bool (bit v i)) (Suc p)" unfolding v .
  have "holds_at order bs p ([bit v i] @ map (bit v) is)" using Cons.prems by simp
  then have "holds_at order bs (Suc p) (map (bit v) is)" unfolding holds_at_append by simp
  note n = Cons.IH [OF this, of "result OR push_bit i (of_bool (bit v i))"]
  have f: "fold (\<lambda>i r. r OR push_bit i (of_bool (bit v i))) (i # is) result =
      fold (\<lambda>i r. r OR push_bit i (of_bool (bit v i))) is (result OR push_bit i (of_bool (bit v i)))"
    unfolding fold.simps comp_apply by (rule refl)
  have l: "p + length (i # is) = Suc p + length is" by simp
  have "read_bits (i # is) result = bs_bind readBit (\<lambda>b. read_bits is (result OR push_bit i (ucast b)))"
    by (rule ext) (rule read_bits.simps)
  then show ?case unfolding f l using gets_bind [OF b, of "\<lambda>b. read_bits is (result OR push_bit i (ucast b))"] n
    by (simp only: ucast_bit)
qed

lemma bit_fold_or:
  fixes v result :: "'a::len word"
  shows "bit (fold (\<lambda>i r. r OR push_bit i (of_bool (bit v i))) is result) k \<longleftrightarrow> bit result k \<or> k \<in> set is \<and> bit v k"
proof (induction "is" arbitrary: result)
  case (Cons i "is")
  have "bit (push_bit i (of_bool (bit v i)) :: 'a word) k \<longleftrightarrow> k = i \<and> bit v k"
    using bit_imp_le_length [of v k] by (cases "bit v i") (auto simp: bit_exp_iff)
  with Cons.IH show ?case by (auto simp: bit_or_iff)
qed simp

lemma ReadUint8_gets:
  assumes "holds_at order bs p (u8_bits order p v)"
  shows "gets order bs bs_ReadUint8 p v (p + 8)"
proof (cases "p mod 8 = 0")
  case True
  then obtain n where n: "p = 8 * n" by auto
  from holds_at_nth [OF assms, of 0] n have l: "n < length bs" by simp
  have "bs ! n = v"
  proof (rule bit_word_eqI)
    fix k assume "k < LENGTH(8)"
    then have k: "bit_pos order k < 8" and kk: "bit_pos order (bit_pos order k) = k" by (auto simp: bit_pos_def)
    from holds_at_nth [OF assms, of "bit_pos order k"] k n True nth_stream [OF l k, of order]
    show "bit (bs ! n) k = bit v k" by (simp add: u8_bits_def nth_byte_bits kk)
  qed
  moreover have "bd_bitOffset d = 0 \<and> bd_byteOffset d = n" if "dec_at order bs p d" for d
  proof -
    from that n have "bd_bitOffset d < 8" "8 * bd_byteOffset d + bd_bitOffset d = 8 * n" by (simp_all add: dec_at_def)
    then show ?thesis by presburger
  qed
  moreover have "dec_at order bs (8 * n + 8) (d\<lparr>bd_LastErrorCode := None, bd_byteOffset := Suc n\<rparr>)"
    if "dec_at order bs p d" "bd_bitOffset d = 0" for d using that by (simp add: dec_at_def)
  moreover have "bd_bytes d = bs" if "dec_at order bs p d" for d using that by (simp add: dec_at_def)
  ultimately show ?thesis using l by (auto simp: gets_def bs_ReadUint8_def Let_def n)
next
  case False
  then have h: "holds_at order bs p (map (bit v) [0..<8])" using assms by (simp add: u8_bits_def)
  have v: "fold (\<lambda>i r. r OR push_bit i (of_bool (bit v i))) [0..<8] 0 = v"
    by (rule bit_word_eqI) (simp add: bit_fold_or)
  have "gets order bs (read_bits [0..<8] (0::u8)) p v (p + 8)"
    using read_bits_gets [OF h, of 0] unfolding v by simp
  moreover have "bs_ReadUint8 d = read_bits [0..<8] 0 d" if "dec_at order bs p d" for d
  proof -
    from that have "bd_bitOffset d = p mod 8" by (auto simp: dec_at_def)
    with False show ?thesis by (simp add: bs_ReadUint8_def)
  qed
  ultimately show ?thesis by (simp add: gets_def)
qed

lemma ReadBits_gets:
  assumes "holds_at order bs p (map (bit v) (rev [0..<n]))"
  shows "gets order bs (ReadBits (int n)) p (take_bit n v) (p + n)"
proof -
  have v: "fold (\<lambda>i r. r OR push_bit i (of_bool (bit v i))) (rev [0..<n]) 0 = take_bit n v"
    by (rule bit_word_eqI) (auto simp: bit_fold_or bit_take_bit_iff)
  show ?thesis using read_bits_gets [OF assms, of 0] unfolding v by (simp add: ReadBits_def)
qed

section \<open>Numbers\<close>

text \<open>The bytes of a number in the order in which they are written.\<close>

definition in_order :: "Endianness \<Rightarrow> bytes \<Rightarrow> bytes" where
  "in_order e b = (if e = BigEndian then b else rev b)"

lemma low_byte: "ucast (x AND 0xFF :: 'a::len word) = (ucast x :: u8)"
proof -
  have m: "(0xFF :: 'a word) = mask 8" by (simp add: mask_eq_exp_minus_1)
  show ?thesis unfolding m by (rule bit_word_eqI) (auto simp: bit_simps dest: bit_imp_le_length)
qed

lemma write_numbers:
  "bs_WriteUint16 v16 e = fold bs_WriteUint8 (in_order e (PutUint16 v16))"
  "bs_WriteUint32 v32 e = fold bs_WriteUint8 (in_order e (PutUint32 v32))"
  "bs_WriteUint64 v64 e = fold bs_WriteUint8 (in_order e (PutUint64 v64))"
  "WriteFloat32 v32 e = fold bs_WriteUint8 (in_order e (PutUint32 v32))"
  "WriteFloat64 v64 e = fold bs_WriteUint8 (in_order e (PutUint64 v64))"
  by (cases e; simp add: bs_WriteUint16_def bs_WriteUint32_def bs_WriteUint64_def WriteFloat32_def WriteFloat64_def
      in_order_def PutUint16_def PutUint32_def PutUint64_def low_byte)+

lemma ReadUint8_bind:
  assumes "holds_at order bs p (bytes_bits order p (b # vs))"
    and "holds_at order bs (p + 8) (bytes_bits order (p + 8) vs) \<Longrightarrow> gets order bs (k b) (p + 8) w q"
  shows "gets order bs (bs_bind bs_ReadUint8 k) p w q"
proof -
  from assms(1) have b: "holds_at order bs p (u8_bits order p b)" and vs: "holds_at order bs (p + 8) (bytes_bits order (p + 8) vs)"
    by (simp_all add: holds_at_append bytes_bits_mod)
  show ?thesis by (rule gets_bind [where k = k, OF ReadUint8_gets [OF b] assms(2) [OF vs]])
qed

lemma gets_return_eq: "v = w \<Longrightarrow> p = q \<Longrightarrow> gets order bs (bs_return v) p w q"
  by (simp add: gets_return)

lemma read_buf_gets:
  "holds_at order bs p (bytes_bits order p vs) \<Longrightarrow> gets order bs (read_buf (length vs) buf) p (buf @ vs) (p + 8 * length vs)"
proof (induction vs arbitrary: p buf)
  case Nil
  show ?case using gets_return [of order bs buf p] by (simp add: gets_def)
next
  case (Cons v vs)
  have r: "read_buf (length (v # vs)) buf = bs_bind bs_ReadUint8 (\<lambda>b. read_buf (length vs) (buf @ [b]))"
    by (rule ext) simp
  show ?case unfolding r
    by (rule ReadUint8_bind [OF Cons.prems]) (use Cons.IH [of "p + 8" "buf @ [v]"] in \<open>simp add: add.assoc\<close>)
qed

lemma Uint16_gets:
  assumes "holds_at order bs p (bytes_bits order p (in_order e (PutUint16 v)))"
  shows "gets order bs (bs_ReadUint16 e) p v (p + 16)"
proof -
  have v: "push_bit 8 (ucast (ucast (drop_bit 8 v) :: u8)) OR ucast (ucast v :: u8) = v"
    using Uint16_PutUint16 [of v] by (simp add: Uint16_def PutUint16_def or.commute)
  show ?thesis
    using assms unfolding bs_ReadUint16_def in_order_def PutUint16_def
    by (cases e) (auto intro!: ReadUint8_bind gets_return_eq v simp del: bytes_bits_simps)
qed

lemma Uint32_gets:
  assumes "holds_at order bs p (bytes_bits order p (in_order e (PutUint32 v)))"
  shows "gets order bs (bs_ReadUint32 e) p v (p + 32)"
proof -
  have v: "push_bit 24 (ucast (ucast (drop_bit 24 v) :: u8)) OR push_bit 16 (ucast (ucast (drop_bit 16 v) :: u8)) OR
      push_bit 8 (ucast (ucast (drop_bit 8 v) :: u8)) OR ucast (ucast v :: u8) = v"
    using Uint32_PutUint32 [of v] by (simp add: Uint32_def PutUint32_def or.commute or.left_commute)
  show ?thesis
    using assms unfolding bs_ReadUint32_def in_order_def PutUint32_def
    by (cases e) (auto intro!: ReadUint8_bind gets_return_eq v simp del: bytes_bits_simps)
qed

lemma read_bytes64_bind:
  "read_bytes64 e (i # is) r = bs_bind bs_ReadUint8 (\<lambda>b. read_bytes64 e is
     (if e = BigEndian then push_bit 8 r OR ucast b else r OR push_bit (i * 8) (ucast b)))"
  "read_bytes64 e [] r = bs_return r"
  by (rule ext, simp)+

lemma Uint64_gets:
  assumes "holds_at order bs p (bytes_bits order p (in_order e (PutUint64 v)))"
  shows "gets order bs (bs_ReadUint64 e) p v (p + 64)"
proof -
  define b where "b i = (ucast (drop_bit i v) :: u8)" for i
  have b0: "ucast v = b 0" by (simp add: b_def)
  have v: "Uint64 [b 56, b 48, b 40, b 32, b 24, b 16, b 8, b 0] = v"
    using Uint64_PutUint64 [of v] by (simp add: PutUint64_def b_def)
  have u: "[0..<8] = [0, 1, 2, 3, 4, 5, 6, 7::nat]" by (simp add: upt_rec)
  show ?thesis
  proof (cases e)
    case BigEndian
    have r: "((((((push_bit 56 (ucast (b 56)) OR push_bit 48 (ucast (b 48))) OR push_bit 40 (ucast (b 40))) OR
        push_bit 32 (ucast (b 32))) OR push_bit 24 (ucast (b 24))) OR push_bit 16 (ucast (b 16))) OR
        push_bit 8 (ucast (b 8))) OR ucast (b 0) = v"
      unfolding v [symmetric] by (simp add: Uint64_def or.commute or.left_commute)
    show ?thesis
      using assms unfolding bs_ReadUint64_def in_order_def PutUint64_def b_def [symmetric] b0 u read_bytes64_bind
      by (auto intro!: ReadUint8_bind gets_return_eq r simp: BigEndian simp del: bytes_bits_simps)
  next
    case LittleEndian
    have r: "((((((ucast (b 0) OR push_bit 8 (ucast (b 8))) OR push_bit 16 (ucast (b 16))) OR push_bit 24 (ucast (b 24))) OR
        push_bit 32 (ucast (b 32))) OR push_bit 40 (ucast (b 40))) OR push_bit 48 (ucast (b 48))) OR
        push_bit 56 (ucast (b 56)) = v"
      unfolding v [symmetric] by (simp add: Uint64_def or.assoc)
    show ?thesis
      using assms unfolding bs_ReadUint64_def in_order_def PutUint64_def b_def [symmetric] b0 u read_bytes64_bind
      by (auto intro!: ReadUint8_bind gets_return_eq r simp: LittleEndian simp del: bytes_bits_simps)
  qed
qed

lemma gets_eq_bind: "gets order bs r p v q \<Longrightarrow> f v = w \<Longrightarrow> gets order bs (bs_bind r (\<lambda>x. bs_return (f x))) p w q"
  by (rule gets_bind [where k = "\<lambda>x. bs_return (f x)"]) (auto simp: gets_return)

lemma ReadFloat32_gets:
  "holds_at order bs p (bytes_bits order p (in_order e (PutUint32 v))) \<Longrightarrow> gets order bs (ReadFloat32 e) p v (p + 32)"
  using read_buf_gets [of order bs p "in_order e (PutUint32 v)" "[]"] unfolding ReadFloat32_def
  by (intro gets_eq_bind [where v = "in_order e (PutUint32 v)"]) (cases e; simp add: in_order_def)+

lemma ReadFloat64_gets:
  "holds_at order bs p (bytes_bits order p (in_order e (PutUint64 v))) \<Longrightarrow> gets order bs (ReadFloat64 e) p v (p + 64)"
  using read_buf_gets [of order bs p "in_order e (PutUint64 v)" "[]"] unfolding ReadFloat64_def
  by (intro gets_eq_bind [where v = "in_order e (PutUint64 v)"]) (cases e; simp add: in_order_def)+

section \<open>A pair of a write and a read\<close>

text \<open>
  The contract: the write appends the bits of the value at the place where it is written, and the read
  takes the value from these bits, as far as the pair carries it (a value written with few bits loses the others).
\<close>

locale bit_codec =
  fixes put :: "'a \<Rightarrow> BitStreamEncoder \<Rightarrow> BitStreamEncoder"
    and get :: "'a bs_rd"
    and bits_of :: "BitOrder \<Rightarrow> nat \<Rightarrow> 'a \<Rightarrow> bool list"
    and carried :: "'a \<Rightarrow> 'a"
  assumes put_bits: "enc_ok e \<Longrightarrow> enc_ok (put v e) \<and> be_bitOrder (put v e) = be_bitOrder e \<and>
      enc_bits (put v e) = enc_bits e @ bits_of (be_bitOrder e) (length (enc_bits e)) v"
    and get_bits: "holds_at order bs p (bits_of order p v) \<Longrightarrow> gets order bs get p (carried v) (p + length (bits_of order p v))"
begin

lemma put_ok: "enc_ok e \<Longrightarrow> enc_ok (put v e)"
  using put_bits by blast

lemma put_order: "enc_ok e \<Longrightarrow> be_bitOrder (put v e) = be_bitOrder e"
  using put_bits by blast

text \<open>In a stream that goes on from what was written the read at the place of the write returns the value and stands behind it.\<close>

lemma got_back:
  assumes "enc_ok e" and s: "stream (be_bitOrder e) bs = enc_bits (put v e) @ rest"
  shows "gets (be_bitOrder e) bs get (length (enc_bits e)) (carried v) (length (enc_bits (put v e)))"
proof -
  from put_bits [OF assms(1), of v]
  have b: "enc_bits (put v e) = enc_bits e @ bits_of (be_bitOrder e) (length (enc_bits e)) v" by blast
  with s have "holds_at (be_bitOrder e) bs (length (enc_bits e)) (bits_of (be_bitOrder e) (length (enc_bits e)) v)"
    by (simp add: holds_at_def)
  from get_bits [OF this] b show ?thesis by simp
qed

end

interpretation uint8: bit_codec bs_WriteUint8 bs_ReadUint8 u8_bits "\<lambda>v. v"
  by unfold_locales (use WriteUint8_bits ReadUint8_gets in \<open>auto\<close>)

lemma codec_number:
  assumes "\<And>v. put v = fold bs_WriteUint8 (b v)" and "\<And>v. length (b v) = n"
    and "\<And>order bs p v. holds_at order bs p (bytes_bits order p (b v)) \<Longrightarrow> gets order bs get p v (p + 8 * n)"
  shows "bit_codec put get (\<lambda>order p v. bytes_bits order p (b v)) (\<lambda>v. v)"
  by unfold_locales (use write_bytes_bits assms in \<open>auto\<close>)

lemma length_in_order [simp]: "length (in_order e b) = length b"
  by (simp add: in_order_def)

interpretation uint16: bit_codec "\<lambda>v. bs_WriteUint16 v e" "bs_ReadUint16 e" "\<lambda>order p v. bytes_bits order p (in_order e (PutUint16 v))" "\<lambda>v. v"
  for e by (rule codec_number [where n = 2]) (use Uint16_gets in \<open>simp_all add: write_numbers\<close>)

interpretation uint32: bit_codec "\<lambda>v. bs_WriteUint32 v e" "bs_ReadUint32 e" "\<lambda>order p v. bytes_bits order p (in_order e (PutUint32 v))" "\<lambda>v. v"
  for e by (rule codec_number [where n = 4]) (use Uint32_gets in \<open>simp_all add: write_numbers\<close>)

interpretation uint64: bit_codec "\<lambda>v. bs_WriteUint64 v e" "bs_ReadUint64 e" "\<lambda>order p v. bytes_bits order p (in_order e (PutUint64 v))" "\<lambda>v. v"
  for e by (rule codec_number [where n = 8]) (use Uint64_gets in \<open>simp_all add: write_numbers\<close>)

interpretation float32: bit_codec "\<lambda>v. WriteFloat32 v e" "ReadFloat32 e" "\<lambda>order p v. bytes_bits order p (in_order e (PutUint32 v))" "\<lambda>v. v"
  for e by (rule codec_number [where n = 4]) (use ReadFloat32_gets in \<open>simp_all add: write_numbers\<close>)

interpretation float64: bit_codec "\<lambda>v. WriteFloat64 v e" "ReadFloat64 e" "\<lambda>order p v. bytes_bits order p (in_order e (PutUint64 v))" "\<lambda>v. v"
  for e by (rule codec_number [where n = 8]) (use ReadFloat64_gets in \<open>simp_all add: write_numbers\<close>)

lemma gets_signed: "gets order bs r p v q \<Longrightarrow> gets order bs (bs_bind r bs_return) p v q"
  by (erule gets_bind [where k = bs_return]) (rule gets_return)

interpretation int8: bit_codec bs_WriteInt8 bs_ReadInt8 u8_bits "\<lambda>v. v"
  by unfold_locales (use WriteUint8_bits ReadUint8_gets in \<open>auto simp: bs_WriteInt8_def bs_ReadInt8_def intro: gets_signed\<close>)

interpretation int16: bit_codec "\<lambda>v. bs_WriteInt16 v e" "bs_ReadInt16 e" "\<lambda>order p v. bytes_bits order p (in_order e (PutUint16 v))" "\<lambda>v. v"
  for e by (rule codec_number [where n = 2])
    (use Uint16_gets in \<open>simp_all add: write_numbers bs_WriteInt16_def bs_ReadInt16_def gets_signed\<close>)

interpretation int32: bit_codec "\<lambda>v. bs_WriteInt32 v e" "bs_ReadInt32 e" "\<lambda>order p v. bytes_bits order p (in_order e (PutUint32 v))" "\<lambda>v. v"
  for e by (rule codec_number [where n = 4])
    (use Uint32_gets in \<open>simp_all add: write_numbers bs_WriteInt32_def bs_ReadInt32_def gets_signed\<close>)

interpretation int64: bit_codec "\<lambda>v. bs_WriteInt64 v e" "bs_ReadInt64 e" "\<lambda>order p v. bytes_bits order p (in_order e (PutUint64 v))" "\<lambda>v. v"
  for e by (rule codec_number [where n = 8])
    (use Uint64_gets in \<open>simp_all add: write_numbers bs_WriteInt64_def bs_ReadInt64_def gets_signed\<close>)

lemma WriteBits_bits:
  assumes "enc_ok e"
  shows "enc_ok (WriteBits v (int n) e) \<and> be_bitOrder (WriteBits v (int n) e) = be_bitOrder e \<and>
    enc_bits (WriteBits v (int n) e) = enc_bits e @ map (bit v) (rev [0..<n])"
proof -
  have "WriteBits v (int n) e = fold (\<lambda>i. writeBit (of_bool (bit v i))) (rev [0..<n]) e"
    by (simp add: WriteBits_def and_one bit_drop_bit_eq ucast_bit)
  with writeBits_bits [OF assms, of "bit v" "rev [0..<n]"] show ?thesis by simp
qed

interpretation bits: bit_codec "\<lambda>v. WriteBits v (int n)" "ReadBits (int n)" "\<lambda>order p v. map (bit v) (rev [0..<n])" "take_bit n"
  for n by unfold_locales (use WriteBits_bits ReadBits_gets in \<open>auto\<close>)

section \<open>Sequences of writes and reads\<close>

text \<open>What the generated code writes of a message: a sequence of values, each with the kind it is written with.\<close>

datatype item =
    IBits u64 nat
  | IUint8 u8 | IUint16 u16 Endianness | IUint32 u32 Endianness | IUint64 u64 Endianness
  | IInt8 u8 | IInt16 u16 Endianness | IInt32 u32 Endianness | IInt64 u64 Endianness
  | IFloat32 u32 Endianness | IFloat64 u64 Endianness

fun write_item :: "item \<Rightarrow> BitStreamEncoder \<Rightarrow> BitStreamEncoder" where
  "write_item (IBits v n) = WriteBits v (int n)"
| "write_item (IUint8 v) = bs_WriteUint8 v"
| "write_item (IUint16 v e) = bs_WriteUint16 v e"
| "write_item (IUint32 v e) = bs_WriteUint32 v e"
| "write_item (IUint64 v e) = bs_WriteUint64 v e"
| "write_item (IInt8 v) = bs_WriteInt8 v"
| "write_item (IInt16 v e) = bs_WriteInt16 v e"
| "write_item (IInt32 v e) = bs_WriteInt32 v e"
| "write_item (IInt64 v e) = bs_WriteInt64 v e"
| "write_item (IFloat32 v e) = WriteFloat32 v e"
| "write_item (IFloat64 v e) = WriteFloat64 v e"

text \<open>The read of the kind of an item, whatever value the item has.\<close>

fun read_item :: "item \<Rightarrow> item bs_rd" where
  "read_item (IBits _ n) = bs_bind (ReadBits (int n)) (\<lambda>v. bs_return (IBits v n))"
| "read_item (IUint8 _) = bs_bind bs_ReadUint8 (\<lambda>v. bs_return (IUint8 v))"
| "read_item (IUint16 _ e) = bs_bind (bs_ReadUint16 e) (\<lambda>v. bs_return (IUint16 v e))"
| "read_item (IUint32 _ e) = bs_bind (bs_ReadUint32 e) (\<lambda>v. bs_return (IUint32 v e))"
| "read_item (IUint64 _ e) = bs_bind (bs_ReadUint64 e) (\<lambda>v. bs_return (IUint64 v e))"
| "read_item (IInt8 _) = bs_bind bs_ReadInt8 (\<lambda>v. bs_return (IInt8 v))"
| "read_item (IInt16 _ e) = bs_bind (bs_ReadInt16 e) (\<lambda>v. bs_return (IInt16 v e))"
| "read_item (IInt32 _ e) = bs_bind (bs_ReadInt32 e) (\<lambda>v. bs_return (IInt32 v e))"
| "read_item (IInt64 _ e) = bs_bind (bs_ReadInt64 e) (\<lambda>v. bs_return (IInt64 v e))"
| "read_item (IFloat32 _ e) = bs_bind (ReadFloat32 e) (\<lambda>v. bs_return (IFloat32 v e))"
| "read_item (IFloat64 _ e) = bs_bind (ReadFloat64 e) (\<lambda>v. bs_return (IFloat64 v e))"

fun read_items :: "item list \<Rightarrow> item list bs_rd" where
  "read_items [] = bs_return []"
| "read_items (i # is) = bs_bind (read_item i) (\<lambda>v. bs_bind (read_items is) (\<lambda>vs. bs_return (v # vs)))"

text \<open>A value written with n bits keeps its n lowest bits.\<close>

fun carried_item :: "item \<Rightarrow> item" where
  "carried_item (IBits v n) = IBits (take_bit n v) n"
| "carried_item i = i"

lemma write_item_ok:
  assumes "enc_ok e"
  shows "enc_ok (write_item i e) \<and> be_bitOrder (write_item i e) = be_bitOrder e \<and> (\<exists>w. enc_bits (write_item i e) = enc_bits e @ w)"
  using uint8.put_bits [OF assms] uint16.put_bits [OF assms] uint32.put_bits [OF assms] uint64.put_bits [OF assms]
    int8.put_bits [OF assms] int16.put_bits [OF assms] int32.put_bits [OF assms] int64.put_bits [OF assms]
    float32.put_bits [OF assms] float64.put_bits [OF assms] bits.put_bits [OF assms]
  by (cases i) simp_all

lemma write_items_ok:
  "enc_ok e \<Longrightarrow> enc_ok (fold write_item is e) \<and> be_bitOrder (fold write_item is e) = be_bitOrder e \<and>
    (\<exists>w. enc_bits (fold write_item is e) = enc_bits e @ w)"
proof (induction "is" arbitrary: e)
  case (Cons i "is")
  from write_item_ok [OF Cons.prems, of i] Cons.IH [of "write_item i e"] show ?case by auto
qed simp

lemma read_item_back:
  assumes "enc_ok e" and "stream (be_bitOrder e) bs = enc_bits (write_item i e) @ rest"
  shows "gets (be_bitOrder e) bs (read_item i) (length (enc_bits e)) (carried_item i) (length (enc_bits (write_item i e)))"
  using assms(2)
  by (cases i) (auto intro!: gets_eq_bind uint8.got_back uint16.got_back uint32.got_back uint64.got_back
      int8.got_back int16.got_back int32.got_back int64.got_back float32.got_back float64.got_back bits.got_back assms(1))

lemma read_items_back:
  assumes "enc_ok e" and "stream (be_bitOrder e) bs = enc_bits (fold write_item is e) @ rest"
  shows "gets (be_bitOrder e) bs (read_items is) (length (enc_bits e)) (map carried_item is) (length (enc_bits (fold write_item is e)))"
  using assms
proof (induction "is" arbitrary: e)
  case Nil
  show ?case by (simp add: gets_return)
next
  case (Cons i "is")
  let ?e = "write_item i e"
  from write_item_ok [OF Cons.prems(1), of i] have ok: "enc_ok ?e" and o: "be_bitOrder ?e = be_bitOrder e" by simp_all
  from write_items_ok [OF ok, of "is"] obtain w where "enc_bits (fold write_item is ?e) = enc_bits ?e @ w" by blast
  with Cons.prems(2) have s: "stream (be_bitOrder e) bs = enc_bits ?e @ w @ rest" by simp
  have r: "gets (be_bitOrder e) bs (read_items is) (length (enc_bits ?e)) (map carried_item is) (length (enc_bits (fold write_item is ?e)))"
    using Cons.IH [OF ok] Cons.prems(2) by (simp add: o)
  show ?case
    using gets_bind [where k = "\<lambda>v. bs_bind (read_items is) (\<lambda>vs. bs_return (v # vs))", OF read_item_back [OF Cons.prems(1) s] gets_eq_bind [OF r refl]]
    by simp
qed

lemma Finish_stream:
  assumes "enc_ok e"
  shows "\<exists>rest. stream (be_bitOrder e) (fst (Finish e)) = enc_bits e @ rest \<and> length rest < 8"
proof (cases "be_bitOffset e > 0")
  case True
  have "stream (be_bitOrder e) (fst (Finish e)) = enc_bits e @ drop (be_bitOffset e) (byte_bits (be_bitOrder e) (be_currentByte e))"
    using True by (simp add: Finish_def enc_bits_def)
  then show ?thesis using True by auto
next
  case False
  then show ?thesis by (auto simp: Finish_def enc_bits_def)
qed

lemma new_encoder: "enc_ok (NewBitStreamEncoder order)" "be_bitOrder (NewBitStreamEncoder order) = order" "enc_bits (NewBitStreamEncoder order) = []"
  by (auto simp: enc_ok_def NewBitStreamEncoder_def nth_byte_bits enc_bits_def)

lemma new_decoder: "dec_at order bs 0 (NewBitStreamDecoder bs order)"
  by (simp add: dec_at_def NewBitStreamDecoder_def)

text \<open>C16. Whatever sequence of bit fields, integers and floating-point numbers is written, in either order of the bits, with each
  number in either byte order and each starting at whatever bit the ones before it end, the matching sequence of reads returns the same
  values; a bit field keeps as many low bits as it was written with.\<close>

theorem bitstream_roundtrip:
  "fst (read_items is (NewBitStreamDecoder (fst (Finish (fold write_item is (NewBitStreamEncoder order)))) order)) = Some (map carried_item is)"
proof -
  let ?e = "NewBitStreamEncoder order"
  have "enc_ok (fold write_item is ?e)" "be_bitOrder (fold write_item is ?e) = order"
    using write_items_ok [OF new_encoder(1) [of order], of "is"] by (simp_all add: new_encoder)
  from Finish_stream [OF this(1)] this(2) obtain rest
    where "stream order (fst (Finish (fold write_item is ?e))) = enc_bits (fold write_item is ?e) @ rest" by auto
  then have "gets order (fst (Finish (fold write_item is ?e))) (read_items is) 0 (map carried_item is) (length (enc_bits (fold write_item is ?e)))"
    using read_items_back [OF new_encoder(1) [of order]] by (simp add: new_encoder)
  then show ?thesis using new_decoder by (fastforce simp: gets_def)
qed

section \<open>The end of the stream\<close>

text \<open>A read that takes n bits: it takes them when the stream has them and otherwise fails for want of data.\<close>

definition takes :: "nat \<Rightarrow> 'a bs_rd \<Rightarrow> bool" where
  "takes n r \<longleftrightarrow> (\<forall>order bs p d. dec_at order bs p d \<and> p \<le> 8 * length bs \<longrightarrow>
     (if p + n \<le> 8 * length bs then \<exists>v d'. r d = (Some v, d') \<and> dec_at order bs (p + n) d'
      else \<exists>d'. r d = (None, d') \<and> bd_LastErrorCode d' = Some (lit ''INCOMPLETE_DATA'')))"

lemma takes_return: "takes 0 (bs_return v)"
  by (simp add: takes_def bs_return_def dec_at_def)

lemma takes_bind:
  assumes "takes m r" and k: "\<And>v. takes n (k v)"
  shows "takes (m + n) (bs_bind r k)"
  unfolding takes_def
proof (intro allI impI)
  fix order bs p d
  assume d: "dec_at order bs p d \<and> p \<le> 8 * length bs"
  show "if p + (m + n) \<le> 8 * length bs then \<exists>v d'. bs_bind r k d = (Some v, d') \<and> dec_at order bs (p + (m + n)) d'
      else \<exists>d'. bs_bind r k d = (None, d') \<and> bd_LastErrorCode d' = Some (lit ''INCOMPLETE_DATA'')"
  proof (cases "p + m \<le> 8 * length bs")
    case True
    with assms(1) d obtain v d' where r: "r d = (Some v, d')" "dec_at order bs (p + m) d'" by (force simp: takes_def)
    from k [of v] r(2) True have "if p + m + n \<le> 8 * length bs then \<exists>w d2. k v d' = (Some w, d2) \<and> dec_at order bs (p + m + n) d2
        else \<exists>d2. k v d' = (None, d2) \<and> bd_LastErrorCode d2 = Some (lit ''INCOMPLETE_DATA'')" unfolding takes_def by blast
    with r show ?thesis by (auto simp: bs_bind_def add.assoc split: if_splits)
  next
    case False
    with assms(1) d have "\<exists>d'. r d = (None, d') \<and> bd_LastErrorCode d' = Some (lit ''INCOMPLETE_DATA'')"
      unfolding takes_def by (metis (full_types))
    with False show ?thesis by (auto simp: bs_bind_def)
  qed
qed

lemma takes_map: "takes n r \<Longrightarrow> takes n (bs_bind r (\<lambda>v. bs_return (f v)))"
  using takes_bind [of n r 0 "\<lambda>v. bs_return (f v)", OF _ takes_return] by simp

lemma readBit_takes: "takes 1 readBit"
  unfolding takes_def
proof (intro allI impI)
  fix order bs p d
  assume d: "dec_at order bs p d \<and> p \<le> 8 * length bs"
  show "if p + 1 \<le> 8 * length bs then \<exists>v d'. readBit d = (Some v, d') \<and> dec_at order bs (p + 1) d'
      else \<exists>d'. readBit d = (None, d') \<and> bd_LastErrorCode d' = Some (lit ''INCOMPLETE_DATA'')"
  proof (cases "p < 8 * length bs")
    case True
    with readBit_gets [of p bs order] d show ?thesis by (fastforce simp: gets_def)
  next
    case False
    with d have "bd_byteOffset d \<ge> length (bd_bytes d)" by (auto simp: dec_at_def)
    with False show ?thesis by (simp add: readBit_def bs_fail_def)
  qed
qed

lemma read_bits_takes: "takes (length is) (read_bits is r)"
proof (induction "is" arbitrary: r)
  case Nil
  have "read_bits [] r = bs_return r" by (rule ext) simp
  then show ?case by (simp add: takes_return)
next
  case (Cons i "is")
  have "read_bits (i # is) r = bs_bind readBit (\<lambda>b. read_bits is (r OR push_bit i (ucast b)))" by (rule ext) simp
  then show ?case using takes_bind [OF readBit_takes Cons.IH] by simp
qed

lemma ReadUint8_takes: "takes 8 bs_ReadUint8"
  unfolding takes_def
proof (intro allI impI)
  fix order bs p d
  assume d: "dec_at order bs p d \<and> p \<le> 8 * length bs"
  show "if p + 8 \<le> 8 * length bs then \<exists>v d'. bs_ReadUint8 d = (Some v, d') \<and> dec_at order bs (p + 8) d'
      else \<exists>d'. bs_ReadUint8 d = (None, d') \<and> bd_LastErrorCode d' = Some (lit ''INCOMPLETE_DATA'')"
  proof (cases "bd_bitOffset d = 0")
    case True
    with d show ?thesis by (auto simp: bs_ReadUint8_def bs_fail_def dec_at_def Let_def)
  next
    case False
    with d read_bits_takes [of "[0..<8]" "0 :: u8"] show ?thesis by (simp add: takes_def bs_ReadUint8_def)
  qed
qed

lemma takes_u8: "(\<And>b. takes n (k b)) \<Longrightarrow> takes (n + 8) (bs_bind bs_ReadUint8 k)"
  unfolding add.commute [of n] by (rule takes_bind [OF ReadUint8_takes])

lemma Uint16_takes: "takes 16 (bs_ReadUint16 e)"
proof -
  have "takes (0 + 8 + 8) (bs_ReadUint16 e)"
    unfolding bs_ReadUint16_def by (cases e; simp only: if_True if_False refl Endianness.distinct) (intro takes_u8 takes_return)+
  then show ?thesis by simp
qed

lemma Uint32_takes: "takes 32 (bs_ReadUint32 e)"
proof -
  have "takes (0 + 8 + 8 + 8 + 8) (bs_ReadUint32 e)"
    unfolding bs_ReadUint32_def by (cases e; simp only: if_True if_False refl Endianness.distinct) (intro takes_u8 takes_return)+
  then show ?thesis by simp
qed

lemma read_bytes64_takes: "takes (8 * length is) (read_bytes64 e is r)"
proof (induction "is" arbitrary: r)
  case (Cons i "is")
  from takes_u8 [OF Cons.IH] show ?case by (simp add: read_bytes64_bind add.commute)
qed (simp add: read_bytes64_bind takes_return)

lemma Uint64_takes: "takes 64 (bs_ReadUint64 e)"
  using read_bytes64_takes [of "[0..<8]"] by (simp add: bs_ReadUint64_def)

lemma read_buf_takes: "takes (8 * n) (read_buf n buf)"
proof (induction n arbitrary: buf)
  case 0
  have "read_buf 0 buf = bs_return buf" by (rule ext) simp
  then show ?case by (simp add: takes_return)
next
  case (Suc n)
  have "read_buf (Suc n) buf = bs_bind bs_ReadUint8 (\<lambda>b. read_buf n (buf @ [b]))" by (rule ext) simp
  with takes_u8 [where k = "\<lambda>b. read_buf n (buf @ [b])", OF Suc.IH] show ?case by (simp add: add.commute)
qed

lemma ReadBits_takes: "takes n (ReadBits (int n))"
  using read_bits_takes [of "rev [0..<n]"] by (simp add: ReadBits_def)

lemma ReadFloat32_takes: "takes 32 (ReadFloat32 e)"
  using takes_map [OF read_buf_takes [of 4]] by (simp add: ReadFloat32_def)

lemma ReadFloat64_takes: "takes 64 (ReadFloat64 e)"
  using takes_map [OF read_buf_takes [of 8]] by (simp add: ReadFloat64_def)

lemma takes_signed: "takes n r \<Longrightarrow> takes n (bs_bind r bs_return)"
  using takes_bind [OF _ takes_return, of n r] by simp

text \<open>The bits an item takes in the stream.\<close>

fun item_bits :: "item \<Rightarrow> nat" where
  "item_bits (IBits _ n) = n"
| "item_bits (IUint8 _) = 8" | "item_bits (IInt8 _) = 8"
| "item_bits (IUint16 _ _) = 16" | "item_bits (IInt16 _ _) = 16"
| "item_bits (IUint32 _ _) = 32" | "item_bits (IInt32 _ _) = 32" | "item_bits (IFloat32 _ _) = 32"
| "item_bits (IUint64 _ _) = 64" | "item_bits (IInt64 _ _) = 64" | "item_bits (IFloat64 _ _) = 64"

lemma read_item_takes: "takes (item_bits i) (read_item i)"
  by (cases i) (auto intro!: takes_map takes_signed ReadUint8_takes Uint16_takes Uint32_takes Uint64_takes ReadBits_takes
      ReadFloat32_takes ReadFloat64_takes simp: bs_ReadInt8_def bs_ReadInt16_def bs_ReadInt32_def bs_ReadInt64_def)

lemma read_items_takes: "takes (sum_list (map item_bits is)) (read_items is)"
proof (induction "is")
  case (Cons i "is")
  from takes_bind [OF read_item_takes takes_map [OF Cons.IH]] show ?case by simp
qed (simp add: takes_return)

lemma enc_bits_length: "enc_ok e \<Longrightarrow> length (enc_bits (fold write_item is e)) = length (enc_bits e) + sum_list (map item_bits is)"
proof (induction "is" arbitrary: e)
  case (Cons i "is")
  note ok = Cons.prems
  have "length (enc_bits (write_item i e)) = length (enc_bits e) + item_bits i"
    using uint8.put_bits [OF ok] uint16.put_bits [OF ok] uint32.put_bits [OF ok] uint64.put_bits [OF ok]
      int8.put_bits [OF ok] int16.put_bits [OF ok] int32.put_bits [OF ok] int64.put_bits [OF ok]
      float32.put_bits [OF ok] float64.put_bits [OF ok] bits.put_bits [OF ok]
    by (cases i) simp_all
  with Cons.IH [of "write_item i e"] write_item_ok [OF ok, of i] show ?case by simp
qed simp

text \<open>No part of a stream is taken for the whole: when bytes are missing at the end of what was written, however few,
  the matching sequence of reads fails, and the reader says that the data is incomplete (rather than wrong).\<close>

theorem truncated_stream_incomplete:
  assumes "k < length (fst (Finish (fold write_item is (NewBitStreamEncoder order))))"
  shows "(let (v, d) = read_items is (NewBitStreamDecoder (take k (fst (Finish (fold write_item is (NewBitStreamEncoder order))))) order) in
    v = None \<and> bd_LastErrorCode d = Some (lit ''INCOMPLETE_DATA''))"
proof -
  let ?e = "fold write_item is (NewBitStreamEncoder order)"
  let ?bs = "fst (Finish ?e)"
  have "enc_ok ?e" using write_items_ok [OF new_encoder(1)] by blast
  from Finish_stream [OF this] obtain rest where s: "stream (be_bitOrder ?e) ?bs = enc_bits ?e @ rest" "length rest < 8" by auto
  have "8 * length ?bs = length (enc_bits ?e) + length rest" using arg_cong [OF s(1), of length] by simp
  moreover have "length (enc_bits ?e) = sum_list (map item_bits is)"
    using enc_bits_length [OF new_encoder(1), of "is" order] by (simp add: new_encoder)
  ultimately have "8 * k < sum_list (map item_bits is)" using assms s(2) by linarith
  then have "\<not> 0 + sum_list (map item_bits is) \<le> 8 * length (take k ?bs)" by simp
  with read_items_takes [of "is"] new_decoder [of order "take k ?bs"] show ?thesis unfolding takes_def
    by (fastforce split: if_splits)
qed

lemma truncated_stream_incomplete_witness:
  "let (v, d) = read_items [IBits 1 1, IUint8 3] (NewBitStreamDecoder [0xe0] MSBFirst) in
    v = None \<and> bd_LastErrorCode d = Some (lit ''INCOMPLETE_DATA'')"
proof -
  have w: "fst (Finish (fold write_item [IBits 1 1, IUint8 3] (NewBitStreamEncoder MSBFirst))) = [0xe0, 0]"
    by code_simp
  show ?thesis using truncated_stream_incomplete [of 1 "[IBits 1 1, IUint8 3]" MSBFirst] unfolding w by simp
qed

text \<open>In either order of the bits of a byte a bit field is written from its most significant bit on.\<close>

lemma lsb_field_reversed: "fst (Finish (WriteBits 1 3 (NewBitStreamEncoder LSBFirst))) = [4]"
  by code_simp

end
