(* ===== verification/SrvAnnounce.thy ===== *)
theory SrvAnnounce imports SrvDiscovery ClientAddr begin

text \<open>
  The other side of a directory, "server.go": how a server announces itself, AnnounceToDirectory with the address it
  dials and the one it advertises, and maintainDirectoryAnnouncement, which registers and then disconnects.

  A dialled connection is what the peer will send, how that ends, and a writer. A deadline can be set on a connection that is open and not
  on one that was closed.
\<close>

section \<open>Addresses\<close>

definition defaultDirectoryPort :: int where
  "defaultDirectoryPort = 6465"

text \<open>"err.Error()" of an error of net.SplitHostPort.\<close>

definition addr_text :: "addr_error \<Rightarrow> gostring" where
  "addr_text e = (case e of AddrError why addr \<Rightarrow> lit ''address '' @ addr @ lit '': '' @ why | _ \<Rightarrow> [])"

text \<open>The directory's host and port; None is a return with a line in the log.\<close>

definition directory_parts :: "gostring \<Rightarrow> (gostring \<times> int) option" where
  "directory_parts directoryAddr =
    (case (case ClientAddr.SplitHostPort directoryAddr of
         Inr hp \<Rightarrow> Some hp
       | Inl e \<Rightarrow> if strings_Contains (addr_text e) (lit ''missing port in address'')
           then Some (directoryAddr, fmt_d defaultDirectoryPort) else None) of
       None \<Rightarrow> None
     | Some (host, portStr) \<Rightarrow>
        (case Atoi portStr of None \<Rightarrow> None
         | Some port \<Rightarrow> if port \<le> 0 \<or> port > 65535 then None else Some (host, port)))"

text \<open>The listener is the text of its address and the port of a TCP address.\<close>

definition local_only :: "gostring \<Rightarrow> bool" where
  "local_only addr \<longleftrightarrow> HasPrefix addr (lit ''127.0.0.1:'') \<or> HasPrefix addr (lit ''[::1]:'') \<or> HasPrefix addr (lit ''localhost:'')"

definition announced_port :: "(gostring \<times> int option) option \<Rightarrow> ServerConfig \<Rightarrow> u16" where
  "announced_port listener config =
    (let ourPort = (case listener of None \<Rightarrow> 0
       | Some (addr, tcp) \<Rightarrow>
          (case tcp of
             Some p \<Rightarrow> if p > 0 then word_of_int p else 0
           | None \<Rightarrow>
              (case ClientAddr.SplitHostPort addr of Inl e \<Rightarrow> 0
               | Inr (host, portStr) \<Rightarrow>
                  (case Atoi portStr of None \<Rightarrow> 0 | Some p \<Rightarrow> if p > 0 \<and> p \<le> 65535 then word_of_int p else 0))))
     in if ourPort = 0 then word_of_int (cfg_TCPPort config) else ourPort :: u16)"

text \<open>What the announcement is started with: the address to dial, the host name and the port to advertise.\<close>

definition AnnounceToDirectory ::
  "(gostring \<times> int option) option \<Rightarrow> ServerConfig \<Rightarrow> gostring \<Rightarrow> (gostring \<times> gostring \<times> u16) option" where
  "AnnounceToDirectory listener config directoryAddr =
    (if (case listener of None \<Rightarrow> False | Some (addr, tcp) \<Rightarrow> local_only addr) then None
     else
       (let directoryAddr = TrimSpace directoryAddr in
        if directoryAddr = [] then None
        else
          (case directory_parts directoryAddr of None \<Rightarrow> None
           | Some (host, port) \<Rightarrow>
              (let ourHostname = TrimSpace (cfg_PublicHostname config);
                   ourHostname = (if ourHostname = [] then host else ourHostname)
               in Some (JoinHostPort host (fmt_d port), ourHostname, announced_port listener config)))))"

section \<open>Registration\<close>

text \<open>How the bytes of the peer end: it closes, nothing comes until the deadline, or the connection fails in another way.\<close>

datatype stream_end = PeerCloses | DeadlinePasses | ConnectionFails

record 'w dialled =
  dl_conn :: 'w
  dl_input :: bytes
  dl_end :: stream_end

text \<open>
  The outcome of one round: another one after the wait, the end of the announcement with ackHandled and the
  connection as it was left, or the shutdown of the server.
\<close>

datatype 'w announcement = RetryLater | Finished bool 'w | Cancelled

text \<open>"break verificationLoop" and what follows the loop.\<close>

definition finish_announcement :: "'w net_conn \<Rightarrow> bool \<Rightarrow> 'w \<Rightarrow> 'w announcement" where
  "finish_announcement nc ackHandled w =
    Finished ackHandled (conn_Close nc (fst (sendMessage (conn_writer nc) TypeDisconnect
      (DisconnectM \<lparr>Disconnect_Reason = Some (lit ''Registration complete'')\<rparr>) w)))"

text \<open>
  "conn.Close(); if !s.waitForDirectoryRetry() { return }; continue" inside the verification loop: the deadline cannot be set on the closed
  connection, and the loop is left.
\<close>

definition close_and_continue :: "'w net_conn \<Rightarrow> bool \<Rightarrow> 'w \<Rightarrow> 'w announcement" where
  "close_and_continue nc waited w = (if waited then finish_announcement nc False (conn_Close nc w) else Cancelled)"

text \<open>The end of the input that counts as an acceptance: the deadline, wherever it cuts, and a peer that closes where io.EOF is reported.\<close>

definition assumed_accepted :: "stream_end \<Rightarrow> go_error \<Rightarrow> bool" where
  "assumed_accepted how e \<longleftrightarrow> how = DeadlinePasses \<and> e \<in> {io_EOF, io_ErrUnexpectedEOF} \<or> how = PeerCloses \<and> e = io_EOF"

definition verification_loop :: "'w net_conn \<Rightarrow> bool \<Rightarrow> bytes \<Rightarrow> stream_end \<Rightarrow> 'w \<Rightarrow> 'w announcement" where
  "verification_loop nc waited input how w =
    (case DecodeFrame input of
       Inl e \<Rightarrow> if assumed_accepted how e then finish_announcement nc False w else close_and_continue nc waited w
     | Inr (frame, rest) \<Rightarrow>
        if Frame_Type frame = TypeRegisterAck then
          (case RegisterAckMessage_Decode RegisterAckMessage_zero (Frame_Payload frame) of
             (ack, Some e) \<Rightarrow> finish_announcement nc False w
           | (ack, None) \<Rightarrow> finish_announcement nc True w)
        else if Frame_Type frame = TypeVerifyRegistration then
          (case VerifyRegistrationMessage_Decode VerifyRegistrationMessage_zero (Frame_Payload frame) of
             (verify, Some e) \<Rightarrow> finish_announcement nc False w
           | (verify, None) \<Rightarrow> finish_announcement nc True (fst (sendMessage (conn_writer nc) TypeVerifyResponse
               (VerifyResponseM \<lparr>VerifyResponse_Challenge = VerifyRegistration_Challenge verify\<rparr>) w)))
        else if Frame_Type frame = TypeError then close_and_continue nc waited w
        else finish_announcement nc False w)"

definition registration :: "gostring \<Rightarrow> u16 \<Rightarrow> gostring \<Rightarrow> gostring \<Rightarrow> RegisterServerMessage" where
  "registration ourHostname ourPort serverName serverDescription =
    \<lparr>RegisterServer_Hostname = ourHostname, RegisterServer_Port = ourPort, RegisterServer_Name = serverName,
     RegisterServer_Description = serverDescription, RegisterServer_MaxUsers = 0, RegisterServer_IsPublic = True,
     RegisterServer_ChannelCount = 0\<rparr>"

text \<open>One round: None is a connection that could not be made; waited tells whether a wait inside the verification loop runs its time.\<close>

definition announce_round :: "'w net_conn \<Rightarrow> RegisterServerMessage \<Rightarrow> 'w dialled option \<Rightarrow> bool \<Rightarrow> 'w announcement" where
  "announce_round nc registerMsg dial waited =
    (case dial of None \<Rightarrow> RetryLater
     | Some d \<Rightarrow>
        (case DecodeFrame (dl_input d) of Inl e \<Rightarrow> RetryLater
         | Inr (handshake, rest) \<Rightarrow>
            if Frame_Type handshake \<noteq> TypeServerConfig then RetryLater
            else
              (case ServerConfigMessage_Decode ServerConfigMessage_zero (Frame_Payload handshake) of
                 (config, Some e) \<Rightarrow> RetryLater
               | (config, None) \<Rightarrow>
                  if ServerConfig_ProtocolVersion config \<noteq> ProtocolVersion then RetryLater
                  else
                    (case sendMessage (conn_writer nc) TypeRegisterServer (RegisterServerM registerMsg) (dl_conn d) of
                       (w, Some e) \<Rightarrow> RetryLater
                     | (w, None) \<Rightarrow> verification_loop nc waited rest (dl_end d) w))))"

text \<open>maintainDirectoryAnnouncement on the connections it dials until the server shuts down, each with the wait inside its round.\<close>

fun maintainDirectoryAnnouncement ::
  "'w net_conn \<Rightarrow> RegisterServerMessage \<Rightarrow> ('w dialled option \<times> bool) list \<Rightarrow> 'w announcement" where
  "maintainDirectoryAnnouncement nc registerMsg [] = Cancelled"
| "maintainDirectoryAnnouncement nc registerMsg ((dial, waited) # dials) =
    (case announce_round nc registerMsg dial waited of
       RetryLater \<Rightarrow> maintainDirectoryAnnouncement nc registerMsg dials
     | outcome \<Rightarrow> outcome)"

end
