(* ===== verification/SrvAnnounceProps.thy ===== *)
theory SrvAnnounceProps imports SrvAnnounce SrvSSHProps begin

text \<open>
  What an announcement to a directory comes to: under which name, how often it is tried, and what it says to the directory.
\<close>

section \<open>The name\<close>

lemma plain_digits: "plain (digits n)"
proof (induction n rule: digits.induct)
  case (1 n)
  have "plain_byte (of_nat (48 + d) :: u8)" if "d < 10" for d
  proof -
    have "unat (of_nat (48 + d) :: u8) = 48 + d" using that by (simp add: unat_of_nat del: of_nat_add)
    then show ?thesis using that by (simp add: plain_byte_def word_le_nat_alt del: of_nat_add)
  qed
  then show ?case using 1 by (simp add: digits.simps [of n] plain_def del: of_nat_add)
qed

lemma sint_word_of_int_id:
  assumes "0 \<le> i" and "i < 2 ^ 63"
  shows "sint (word_of_int i :: i64) = i"
  using assms by (simp add: sint_sbintrunc' signed_take_bit_int_eq_self)

lemma Atoi_digits:
  assumes "n < 2 ^ 63"
  shows "Atoi (digits n) = Some (int n)"
proof -
  have "sint (word_of_int (int n) :: i64) = int n" using assms sint_word_of_int_id [of "int n"] by simp
  with ParseInt64_fmt_d [of "word_of_int (int n)"] show ?thesis by (simp add: Atoi_def fmt_d_def)
qed

text \<open>A server without a public host name announces itself under the name of the directory: dialling host:port, it advertises that
  host as its own.\<close>

theorem announced_as_directory:
  assumes "plain host" and "0 < port" and "port \<le> 65535" and "TrimSpace (cfg_PublicHostname config) = []"
    and "\<And>addr tcp. listener = Some (addr, tcp) \<Longrightarrow> \<not> local_only addr"
  shows "AnnounceToDirectory listener config (host @ 58 # fmt_d port) =
    Some (host @ 58 # fmt_d port, host, announced_port listener config)"
proof -
  have d: "fmt_d port = digits (nat port)" "Atoi (digits (nat port)) = Some port"
    using assms(2,3) by (simp_all add: fmt_d_def Atoi_digits)
  have "directory_parts (host @ 58 # digits (nat port)) = Some (host, port)"
    using assms(2,3) by (simp add: directory_parts_def split_plain [OF assms(1) plain_digits] d)
  then show ?thesis using assms(4,5)
    by (auto simp: AnnounceToDirectory_def d TrimSpace_address [OF assms(1) plain_digits] JoinHostPort_plain [OF assms(1)]
        split: option.split)
qed

lemma announced_as_directory_witness:
  "AnnounceToDirectory None (DefaultConfig\<lparr>cfg_PublicHostname := []\<rparr>) (lit ''example.org'' @ 58 # fmt_d 6465) =
    Some (lit ''example.org'' @ 58 # fmt_d 6465, lit ''example.org'', announced_port None (DefaultConfig\<lparr>cfg_PublicHostname := []\<rparr>))"
proof -
  have "TrimSpace [] = []" by code_simp
  then show ?thesis using announced_as_directory [OF plain_example(1), of 6465 "DefaultConfig\<lparr>cfg_PublicHostname := []\<rparr>" None] by simp
qed

section \<open>The end\<close>

lemma verification_ends: "verification_loop nc waited input how w \<noteq> RetryLater"
  by (auto simp: verification_loop_def finish_announcement_def close_and_continue_def split: sum.split prod.split option.split)

text \<open>The directory greets the announcing server as it must.\<close>

definition greets :: "bytes \<Rightarrow> bytes \<Rightarrow> bool" where
  "greets input rest \<longleftrightarrow> (\<exists>f config. DecodeFrame input = Inr (f, rest) \<and> Frame_Type f = TypeServerConfig \<and>
     ServerConfigMessage_Decode ServerConfigMessage_zero (Frame_Payload f) = (config, None) \<and>
     ServerConfig_ProtocolVersion config = ProtocolVersion)"

lemma announce_round_greeted:
  assumes "greets (dl_input d) rest"
  shows "announce_round nc reg (Some d) waited =
    (case sendMessage (conn_writer nc) TypeRegisterServer (RegisterServerM reg) (dl_conn d) of
       (w, Some e) \<Rightarrow> RetryLater | (w, None) \<Rightarrow> verification_loop nc waited rest (dl_end d) w)"
  using assms by (auto simp: greets_def announce_round_def split: prod.split option.split)

lemma greeted_and_sent:
  assumes "greets (dl_input d) rest"
    and "sendMessage (conn_writer nc) TypeRegisterServer (RegisterServerM reg) (dl_conn d) = (w, None)"
  shows "maintainDirectoryAnnouncement nc reg ((Some d, waited) # dials) = verification_loop nc waited rest (dl_end d) w"
  using verification_ends [of nc waited rest "dl_end d" w] assms
  by (simp add: announce_round_greeted split: announcement.split)


text \<open>A directory that greets, and then refuses.\<close>

definition greeting :: Frame where
  "greeting = \<lparr>Frame_Version = 1, Frame_Type = TypeServerConfig, Frame_Flags = 0,
     Frame_Payload = (case ServerConfigMessage_Encode (ServerConfigMessage_zero\<lparr>ServerConfig_ProtocolVersion := 1\<rparr>) of Inr p \<Rightarrow> p | Inl e \<Rightarrow> [])\<rparr>"

definition refusal :: Frame where
  "refusal = \<lparr>Frame_Version = 1, Frame_Type = TypeError, Frame_Flags = 0, Frame_Payload = [0, 0, 0, 0]\<rparr>"

definition refusing_directory :: "bytes dialled" where
  "refusing_directory = \<lparr>dl_conn = [], dl_input = frame_wire greeting @ frame_wire refusal, dl_end = PeerCloses\<rparr>"

definition byte_conn :: "bytes net_conn" where
  "byte_conn = \<lparr>conn_writer = buffer, conn_Close = (\<lambda>w. w)\<rparr>"

lemma refusing_directory_greets: "greets (dl_input refusing_directory) (frame_wire refusal)"
proof -
  have "length (Frame_Payload greeting) < 100" by code_simp
  then have "frame_fits greeting" by (simp add: frame_fits_def)
  then have "DecodeFrame (dl_input refusing_directory) = Inr (greeting, frame_wire refusal)"
    by (simp add: refusing_directory_def DecodeFrame_wire)
  moreover have "snd (ServerConfigMessage_Decode ServerConfigMessage_zero (Frame_Payload greeting)) = None" by code_simp
  moreover have "ServerConfig_ProtocolVersion (fst (ServerConfigMessage_Decode ServerConfigMessage_zero (Frame_Payload greeting))) = ProtocolVersion"
    by code_simp
  ultimately show ?thesis unfolding greets_def by (metis greeting_def Frame.select_convs(2) prod.collapse)
qed


end
