(* ===== verification/UiState.thy ===== *)
theory UiState imports Protocol ClientFormat ClientAddr "HOL-Library.AList" begin

text \<open>
  The state of the terminal client, "pkg/client/ui": the stack of dialogs ("modal/types.go"), the machine of its initialization
  ("init_state.go"), and the Model with its operations on presence and channels ("model.go").

  The Model is the state between two messages of Bubble Tea. What only draws (the viewports with their contents, the spinner, the
  styles, the size but for the height) is left out. The threads' replies and their cache are slices that may share an array:
  m_repliesCached tells which entry of the cache is the slice threadReplies.
\<close>

section \<open>Kinds of state\<close>

datatype ViewState = ViewSplash | ViewChannelList | ViewThreadList | ViewThreadView | ViewChatChannel | ViewHelp

datatype ConnectionState = StateConnected | StateDisconnected | StateReconnecting

datatype AuthState =
    AuthStateNone | AuthStatePrompting | AuthStateAuthenticating | AuthStateAuthenticated | AuthStateFailed
  | AuthStateAnonymous | AuthStateRegistering

datatype InitState = InitStateConnecting | InitStateAwaitingAuth | InitStateNeedsNickname | InitStateReady

section \<open>Initialization\<close>

record InitStateMachine =
  ism_state :: InitState
  ism_timeout :: gotime
  ism_isSSH :: bool
  ism_nextCheckDelay :: int

definition millisecond :: int where "millisecond = 1000000"

definition NewInitStateMachine :: "bool \<Rightarrow> InitStateMachine" where
  "NewInitStateMachine isSSH = \<lparr>ism_state = InitStateConnecting, ism_timeout = zero_time, ism_isSSH = isSSH,
     ism_nextCheckDelay = 5 * millisecond\<rparr>"

definition OnServerConfig :: "gotime \<Rightarrow> InitStateMachine \<Rightarrow> InitStateMachine" where
  "OnServerConfig now sm =
    (if ism_isSSH sm then sm\<lparr>ism_state := InitStateAwaitingAuth, ism_timeout := now + 5000 * millisecond\<rparr>
     else sm\<lparr>ism_state := InitStateNeedsNickname\<rparr>)"

definition OnAuthResponse :: "InitStateMachine \<Rightarrow> bool \<times> InitStateMachine" where
  "OnAuthResponse sm =
    (if ism_state sm = InitStateAwaitingAuth then (True, sm\<lparr>ism_state := InitStateReady\<rparr>) else (False, sm))"

definition OnTimeout :: "gotime \<Rightarrow> InitStateMachine \<Rightarrow> bool \<times> InitStateMachine" where
  "OnTimeout now sm =
    (if ism_state sm = InitStateAwaitingAuth \<and> now > ism_timeout sm
     then (True, sm\<lparr>ism_state := InitStateNeedsNickname\<rparr>) else (False, sm))"

definition NeedsNickname :: "InitStateMachine \<Rightarrow> bool" where
  "NeedsNickname sm \<longleftrightarrow> ism_state sm = InitStateNeedsNickname"

definition NextCheckDelay :: "InitStateMachine \<Rightarrow> int \<times> InitStateMachine" where
  "NextCheckDelay sm =
    (ism_nextCheckDelay sm, sm\<lparr>ism_nextCheckDelay :=
       (if ism_nextCheckDelay sm * 2 > 200 * millisecond then 200 * millisecond else ism_nextCheckDelay sm * 2)\<rparr>)"

section \<open>Messages, commands and dialogs\<close>

text \<open>A key: the text of "msg.String()", and the runes when its type is KeyRunes.\<close>

record keypress =
  key_String :: gostring
  key_Runes :: "gostring option"

datatype ConnectionMethod = MethodTCP | MethodSSH | MethodWebSocket

datatype ModalType =
    ModalNone | ModalPasswordAuth | ModalRegistration | ModalNicknameChange | ModalDeleteConfirm | ModalHelp | ModalCompose
  | ModalNicknameSetup | ModalCreateChannel | ModalServerSelector | ModalTypePasswordChange | ModalTypeSSHKeyManager
  | ModalConnectionFailed | ModalConnectionMethod | ModalConnecting | ModalRegistrationWarning | ModalConfigError
  | ModalCommandPalette | ModalAdminPanel | ModalBanUser | ModalBanIP | ModalUnban | ModalViewBans | ModalDeleteUser
  | ModalDeleteChannel | ModalListUsers

datatype ComposeMode = ComposeModeNewThread | ComposeModeReply | ComposeModeEdit

text \<open>
  ui_msg is what the program is told, and ui_cmd what an update asks for. The constructors of a command are named after the function that makes
  it: the frames it sends, the message its run comes back with, and the calls on the state file; SendNow is a message sent by the update itself.
  A command that takes the time when it runs, "sendLeaveChannel" and "sendPing", has a constructor of its own; so has one that dereferences
  a nil channel.

  modal is a dialog with what its keys work on. Its callbacks are closures over the Model that opened it, which is a copy by the time
  they run: of that Model a constructor keeps what the callbacks read, and their assignments to it are lost. NicknameChangeModal tells
  whether it was opened to go anonymous, ComposeModal has the current channel, composeParentID and composeMessageID,
  RegistrationWarningModal what onProceed returns. A dialog whose own keys are not modelled is a Dialog of its type.
\<close>

datatype ui_msg =
    KeyMsg "keypress"
  | WindowSizeMsg int int
  | ServerFrameMsg "Frame option"
  | ErrorMsg gostring
  | ConnectedMsg
  | DisconnectedMsg u64
  | ReconnectingMsg int
  | ServerListTimeoutMsg
  | TickMsg gotime
  | VersionCheckMsg gostring bool
  | ForceRenderMsg
  | InitTimeoutCheckMsg
  | NicknameSentMsg gostring bool
  | GoAnonymousMsg gostring
  | ServerSelectedMsg ServerInfo
  | CustomServerInputMsg gostring
  | ServerSelectorCancelledMsg
  | ConnectionFailedRetryMsg
  | ConnectionFailedTryMethodMsg
  | ConnectionFailedSwitchServerMsg
  | ConnectionMethodSelectedMsg ConnectionMethod
  | ConnectionMethodCancelledMsg
  | ConnectionAttemptResultMsg "gostring option" gostring
  | ExecuteCommandMsg gostring
  | PushModalMsg modal "ui_cmd list"

and ui_cmd =
    Listen u64
  | Send u8 ProtocolMessage
  | SendNow u8 ProtocolMessage
  | SetNickname gostring bool
  | LeaveChannel u64
  | Ping
  | After int ui_msg
  | Emit ui_msg
  | AttemptConnection gostring
  | Tick
  | Blink
  | Quit
  | CommandPanics
  | StateSetUserID "u64 option"
  | StateSetLastNickname gostring
  | StateSetConfig gostring gostring
  | StateSetFirstRunComplete
  | StateSetFirstPostWarningDismissed
  | StateSaveSuccessfulConnection gostring gostring
  | DisableAutoReconnect
  | CloseConnection
  | DropConnection
  | CheckForUpdates
  | Notify gostring gostring

and modal =
    PasswordAuthModal (pa_nickname: gostring) (pa_passwordInput: bytes) (pa_errorMessage: gostring) (pa_cooldownUntil: gotime) (pa_isAuthenticating: bool)
  | RegistrationModal gostring bytes bytes bool gostring
  | NicknameChangeModal bool gostring gostring gostring
  | NicknameSetupModal bool gostring gostring
  | DeleteConfirmModal u64 "u64 option"
  | HelpModal
  | ComposeModal ComposeMode gostring "u64 option" "u64 option" "u64 option"
  | RegistrationWarningModal int "ui_cmd list"
  | ServerSelectorModal (ss_servers: "ServerInfo list") (ss_cursor: int) (ss_loading: bool) (ss_errorMessage: gostring)
      (ss_custom: "gostring option")
  | ConnectionFailedModal gostring gostring int
  | ConnectionMethodModal "ConnectionMethod list" int
  | CommandPaletteModal "gostring list" gostring "gostring list" int
  | ViewBansModal "BanEntry list"
  | ListUsersModal "UserListEntry list"
  | SSHKeyManagerModal "SSHKeyInfo list"
  | Dialog ModalType

section \<open>Dialogs\<close>

fun modal_Type :: "modal \<Rightarrow> ModalType" where
  "modal_Type (PasswordAuthModal _ _ _ _ _) = ModalPasswordAuth"
| "modal_Type (RegistrationModal _ _ _ _ _) = ModalRegistration"
| "modal_Type (NicknameChangeModal _ _ _ _) = ModalNicknameChange"
| "modal_Type (NicknameSetupModal _ _ _) = ModalNicknameSetup"
| "modal_Type (DeleteConfirmModal _ _) = ModalDeleteConfirm"
| "modal_Type HelpModal = ModalHelp"
| "modal_Type (ComposeModal _ _ _ _ _) = ModalCompose"
| "modal_Type (RegistrationWarningModal _ _) = ModalRegistrationWarning"
| "modal_Type (ServerSelectorModal _ _ _ _ _) = ModalServerSelector"
| "modal_Type (ConnectionFailedModal _ _ _) = ModalConnectionFailed"
| "modal_Type (ConnectionMethodModal _ _) = ModalConnectionMethod"
| "modal_Type (CommandPaletteModal _ _ _ _) = ModalCommandPalette"
| "modal_Type (ViewBansModal _) = ModalViewBans"
| "modal_Type (ListUsersModal _) = ModalListUsers"
| "modal_Type (SSHKeyManagerModal _) = ModalTypeSSHKeyManager"
| "modal_Type (Dialog t) = t"

text \<open>The stack, its top last as in the slice.\<close>

type_synonym ModalStack = "modal list"

definition removeByType :: "ModalType \<Rightarrow> ModalStack \<Rightarrow> ModalStack" where
  "removeByType t stack = filter (\<lambda>m. modal_Type m \<noteq> t) stack"

definition Push :: "modal \<Rightarrow> ModalStack \<Rightarrow> ModalStack" where
  "Push m stack = removeByType (modal_Type m) stack @ [m]"

definition Pop :: "ModalStack \<Rightarrow> ModalStack" where
  "Pop stack = butlast stack"

definition Top :: "ModalStack \<Rightarrow> modal option" where
  "Top stack = (if stack = [] then None else Some (last stack))"

definition TopType :: "ModalStack \<Rightarrow> ModalType" where
  "TopType stack = (case Top stack of None \<Rightarrow> ModalNone | Some m \<Rightarrow> modal_Type m)"

text \<open>A change of the top dialog in place.\<close>

definition set_top :: "modal \<Rightarrow> ModalStack \<Rightarrow> ModalStack" where
  "set_top m stack = butlast stack @ [m]"

section \<open>The Model\<close>

text \<open>What a connection answers to "GetAddress", "GetRawAddress" and "GetConnectionType".\<close>

record conn_info =
  ci_address :: gostring
  ci_raw :: gostring
  ci_type :: gostring

record presenceEntry =
  pe_SessionID :: u64
  pe_Nickname :: gostring
  pe_IsRegistered :: bool
  pe_UserID :: "u64 option"
  pe_UserFlags :: UserFlags

text \<open>A roster is a map from sessions to entries whose size is asked for.\<close>

type_synonym roster = "(u64 \<times> presenceEntry) list"

record Model =
  m_connectionState :: ConnectionState
  m_reconnectAttempt :: int
  m_switchingMethod :: bool
  m_connGeneration :: u64
  m_directoryMode :: bool
  m_awaitingServerList :: bool
  m_availableServers :: "ServerInfo list"
  m_modalStack :: ModalStack
  m_currentView :: ViewState
  m_serverConfig :: "ServerConfigMessage option"
  m_channels :: "Channel list"
  m_currentChannel :: "Channel option"
  m_threads :: "Message list"
  m_currentThread :: "Message option"
  m_threadReplies :: "Message list"
  m_onlineUsers :: u32
  m_userDirectory :: "gostring \<rightharpoonup> u64"
  m_hasActiveChannel :: bool
  m_activeChannelID :: u64
  m_channelRoster :: "(u64 \<times> roster) list"
  m_serverRoster :: roster
  m_selfSessionID :: "u64 option"
  m_showUserSidebar :: bool
  m_unreadCounts :: "u64 \<rightharpoonup> u32"
  m_loadingChannels :: bool
  m_loadingThreadList :: bool
  m_loadingThreadReplies :: bool
  m_loadingMore :: bool
  m_loadingMoreReplies :: bool
  m_sendingMessage :: bool
  m_allThreadsLoaded :: bool
  m_allRepliesLoaded :: bool
  m_height :: int
  m_channelCursor :: int
  m_threadCursor :: int
  m_replyCursor :: int
  m_threadListHeight :: int
  m_newMessageIDs :: "u64 set"
  m_confirmingDelete :: bool
  m_pendingDeleteID :: u64
  m_chatMessages :: "Message list"
  m_chatTextarea :: gostring
  m_loadingChat :: bool
  m_allChatLoaded :: bool
  m_nickname :: gostring
  m_pendingNickname :: gostring
  m_authTargetNickname :: gostring
  m_nicknameIsRegistered :: bool
  m_userID :: "u64 option"
  m_userFlags :: UserFlags
  m_composeParentID :: "u64 option"
  m_composeMessageID :: "u64 option"
  m_authState :: AuthState
  m_authAttempts :: int
  m_authCooldownUntil :: gotime
  m_authErrorMessage :: gostring
  m_firstPostWarningAsked :: bool
  m_initStateMachine :: InitStateMachine
  m_errorMessage :: gostring
  m_statusMessage :: gostring
  m_serverDisconnectReason :: gostring
  m_firstRun :: bool
  m_latestVersion :: gostring
  m_updateAvailable :: bool
  m_lastPingSent :: gotime
  m_pingInterval :: int
  m_lastInteractionTime :: gotime
  m_threadRepliesCache :: "u64 \<rightharpoonup> Message list"
  m_threadHighestMessageID :: "u64 \<rightharpoonup> u64"
  m_repliesCached :: "u64 option"

definition NewServerSelectorLoading :: modal where
  "NewServerSelectorLoading = ServerSelectorModal [] 0 True [] None"

definition NewModel ::
  "gotime \<Rightarrow> conn_info \<Rightarrow> bool \<Rightarrow> gostring \<Rightarrow> u64 option \<Rightarrow> bool \<Rightarrow> gostring option \<Rightarrow> Model" where
  "NewModel now conn firstRun nickname userID directoryMode initialConnErr =
    (let view = (if firstRun then ViewSplash else ViewChannelList);
         m = \<lparr>m_connectionState = StateConnected, m_reconnectAttempt = 0, m_switchingMethod = False,
           m_connGeneration = 0, m_directoryMode = directoryMode, m_awaitingServerList = False, m_availableServers = [],
           m_modalStack = [], m_currentView = view, m_serverConfig = None, m_channels = [], m_currentChannel = None,
           m_threads = [], m_currentThread = None, m_threadReplies = [], m_onlineUsers = 0, m_userDirectory = Map.empty,
           m_hasActiveChannel = False, m_activeChannelID = 0, m_channelRoster = [], m_serverRoster = [], m_selfSessionID = None,
           m_showUserSidebar = False, m_unreadCounts = Map.empty, m_loadingChannels = False, m_loadingThreadList = False,
           m_loadingThreadReplies = False, m_loadingMore = False, m_loadingMoreReplies = False, m_sendingMessage = False,
           m_allThreadsLoaded = False, m_allRepliesLoaded = False, m_height = 0, m_channelCursor = 0, m_threadCursor = 0,
           m_replyCursor = 0, m_threadListHeight = 0, m_newMessageIDs = {}, m_confirmingDelete = False, m_pendingDeleteID = 0,
           m_chatMessages = [], m_chatTextarea = [], m_loadingChat = False, m_allChatLoaded = False, m_nickname = nickname,
           m_pendingNickname = [], m_authTargetNickname = [], m_nicknameIsRegistered = False, m_userID = userID, m_userFlags = 0,
           m_composeParentID = None, m_composeMessageID = None, m_authState = AuthStateNone, m_authAttempts = 0,
           m_authCooldownUntil = zero_time, m_authErrorMessage = [], m_firstPostWarningAsked = False,
           m_initStateMachine = NewInitStateMachine (HasPrefix (ci_address conn) (lit ''ssh://'')), m_errorMessage = [],
           m_statusMessage = [], m_serverDisconnectReason = [], m_firstRun = firstRun, m_latestVersion = [],
           m_updateAvailable = False, m_lastPingSent = now, m_pingInterval = 18000 * millisecond, m_lastInteractionTime = now,
           m_threadRepliesCache = Map.empty, m_threadHighestMessageID = Map.empty, m_repliesCached = None\<rparr>
     in case initialConnErr of
          Some e \<Rightarrow> m\<lparr>m_modalStack := Push (ConnectionFailedModal (ci_address conn) e 0) [], m_connectionState := StateDisconnected\<rparr>
        | None \<Rightarrow>
            if directoryMode then m\<lparr>m_modalStack := Push NewServerSelectorLoading [], m_awaitingServerList := True\<rparr> else m)"

definition isAdmin_ui :: "Model \<Rightarrow> bool" where
  "isAdmin_ui m \<longleftrightarrow> m_authState m = AuthStateAuthenticated \<and> IsAdmin (m_userFlags m)"

section \<open>Presence\<close>

text \<open>"roster[entry.SessionID] = entry" on a map of the server or of a channel.\<close>

definition upsertChannelPresence :: "u64 \<Rightarrow> presenceEntry \<Rightarrow> Model \<Rightarrow> Model" where
  "upsertChannelPresence channelID entry m =
    (let roster = (case map_of (m_channelRoster m) channelID of None \<Rightarrow> [] | Some r \<Rightarrow> r);
         m = m\<lparr>m_channelRoster := AList.update channelID (AList.update (pe_SessionID entry) entry roster) (m_channelRoster m)\<rparr>
     in if pe_Nickname entry = m_nickname m then m\<lparr>m_selfSessionID := Some (pe_SessionID entry)\<rparr> else m)"

definition removeChannelPresence :: "u64 \<Rightarrow> u64 \<Rightarrow> Model \<Rightarrow> Model" where
  "removeChannelPresence channelID sessionID m =
    (case map_of (m_channelRoster m) channelID of None \<Rightarrow> m
     | Some roster \<Rightarrow>
        (let roster = AList.delete sessionID roster;
             m = m\<lparr>m_channelRoster := (if roster = [] then AList.delete channelID (m_channelRoster m)
               else AList.update channelID roster (m_channelRoster m))\<rparr>
         in if m_selfSessionID m = Some sessionID then m\<lparr>m_selfSessionID := None\<rparr> else m))"

definition upsertServerPresence :: "presenceEntry \<Rightarrow> Model \<Rightarrow> Model" where
  "upsertServerPresence entry m =
    (let m = m\<lparr>m_serverRoster := AList.update (pe_SessionID entry) entry (m_serverRoster m)\<rparr>;
         m = (if pe_Nickname entry = m_nickname m then m\<lparr>m_selfSessionID := Some (pe_SessionID entry)\<rparr> else m)
     in m\<lparr>m_onlineUsers := of_nat (length (m_serverRoster m))\<rparr>)"

definition removeServerPresence :: "u64 \<Rightarrow> Model \<Rightarrow> Model" where
  "removeServerPresence sessionID m =
    (let m = m\<lparr>m_serverRoster := AList.delete sessionID (m_serverRoster m)\<rparr>;
         m = m\<lparr>m_onlineUsers := of_nat (length (m_serverRoster m))\<rparr>;
         m = (if m_selfSessionID m = Some sessionID then m\<lparr>m_selfSessionID := None\<rparr> else m)
     in fold (\<lambda>channelID. removeChannelPresence channelID sessionID) (map fst (m_channelRoster m)) m)"

section \<open>Channels\<close>

text \<open>The first channel with the id, and its new count.\<close>

fun adjust_count :: "u64 \<Rightarrow> int \<Rightarrow> Channel list \<Rightarrow> Channel list \<times> u32 option" where
  "adjust_count channelID delta [] = ([], None)"
| "adjust_count channelID delta (c # cs) =
    (if Channel_ID c = channelID
     then (let newCount = uint (Channel_UserCount c) + delta;
               n = word_of_int (if newCount < 0 then 0 else newCount)
           in (c\<lparr>Channel_UserCount := n\<rparr> # cs, Some n))
     else (case adjust_count channelID delta cs of (cs', n) \<Rightarrow> (c # cs', n)))"

definition adjustChannelUserCount :: "u64 \<Rightarrow> int \<Rightarrow> Model \<Rightarrow> Model" where
  "adjustChannelUserCount channelID delta m =
    (case adjust_count channelID delta (m_channels m) of
       (channels, None) \<Rightarrow> m\<lparr>m_channels := channels\<rparr>
     | (channels, Some n) \<Rightarrow>
        m\<lparr>m_channels := channels,
          m_currentChannel := map_option (\<lambda>c. if Channel_ID c = channelID then c\<lparr>Channel_UserCount := n\<rparr> else c) (m_currentChannel m)\<rparr>)"

definition setActiveChannel :: "u64 \<Rightarrow> Model \<Rightarrow> Model" where
  "setActiveChannel channelID m =
    (if m_hasActiveChannel m \<and> m_activeChannelID m = channelID then m
     else
       (let m = (if m_hasActiveChannel m \<and> m_activeChannelID m \<noteq> channelID then adjustChannelUserCount (m_activeChannelID m) (- 1) m else m);
            m = adjustChannelUserCount channelID 1 m
        in m\<lparr>m_activeChannelID := channelID, m_hasActiveChannel := True\<rparr>))"

definition clearActiveChannel :: "Model \<Rightarrow> Model" where
  "clearActiveChannel m =
    (if \<not> m_hasActiveChannel m then m
     else
       (let m = m\<lparr>m_channelRoster := AList.delete (m_activeChannelID m) (m_channelRoster m)\<rparr>;
            m = adjustChannelUserCount (m_activeChannelID m) (- 1) m
        in m\<lparr>m_hasActiveChannel := False, m_activeChannelID := 0\<rparr>))"

section \<open>The selected message\<close>

text \<open>None is "nil, false"; replyCursor 0 is the thread itself.\<close>

definition selectedMessage :: "Model \<Rightarrow> Message option" where
  "selectedMessage m =
    (case m_currentThread m of None \<Rightarrow> None
     | Some t \<Rightarrow>
        if m_replyCursor m = 0 then Some t
        else if 0 \<le> m_replyCursor m - 1 \<and> m_replyCursor m - 1 < int (length (m_threadReplies m))
        then Some (m_threadReplies m ! nat (m_replyCursor m - 1)) else None)"

definition isDeletedMessageContent :: "gostring \<Rightarrow> bool" where
  "isDeletedMessageContent content \<longleftrightarrow> HasPrefix content (lit ''[deleted'')"

definition markCurrentMessageAsRead :: "Model \<Rightarrow> Model" where
  "markCurrentMessageAsRead m =
    (if m_replyCursor m = 0 \<and> m_currentThread m \<noteq> None
     then m\<lparr>m_newMessageIDs := m_newMessageIDs m - {Message_ID (the (m_currentThread m))}\<rparr>
     else if m_replyCursor m > 0 \<and> m_replyCursor m - 1 < int (length (m_threadReplies m))
     then m\<lparr>m_newMessageIDs := m_newMessageIDs m - {Message_ID (m_threadReplies m ! nat (m_replyCursor m - 1))}\<rparr>
     else m)"

definition isOwnMessage :: "Message \<Rightarrow> Model \<Rightarrow> bool" where
  "isOwnMessage msg m =
    (case (m_userID m, Message_AuthorUserID msg) of
       (Some u, Some a) \<Rightarrow> u = a
     | _ \<Rightarrow> TrimPrefix (Message_AuthorNickname msg) (lit ''~'') = m_nickname m)"

end
