(* ===== verification/UiRequests.thy ===== *)
theory UiRequests imports UiState begin

text \<open>
  The commands of "pkg/client/ui/update.go": what each "send", "request" and "loadMore" function asks for, the frames a command sends
  when it runs, and the message its run comes back with.
\<close>

section \<open>Accounts\<close>

definition sendSetNicknameWith :: "gostring \<Rightarrow> ui_cmd" where
  "sendSetNicknameWith nickname = SetNickname nickname False"

definition sendSetNickname :: "Model \<Rightarrow> ui_cmd" where
  "sendSetNickname m = sendSetNicknameWith (m_nickname m)"

definition sendLogout :: ui_cmd where
  "sendLogout = Send TypeLogout (LogoutM LogoutMessage)"

text \<open>"auth.HashPassword" is a parameter, of the password and the nickname.\<close>

definition sendAuthRequest :: "(gostring \<Rightarrow> gostring \<Rightarrow> gostring) \<Rightarrow> gostring \<Rightarrow> bytes \<Rightarrow> ui_cmd" where
  "sendAuthRequest HashPassword target password = Send TypeAuthRequest
     (AuthRequestM \<lparr>AuthRequest_Nickname = target, AuthRequest_Password = HashPassword password target\<rparr>)"

definition sendRegisterUser :: "(gostring \<Rightarrow> gostring \<Rightarrow> gostring) \<Rightarrow> gostring \<Rightarrow> bytes \<Rightarrow> ui_cmd" where
  "sendRegisterUser HashPassword nickname password = Send TypeRegisterUser
     (RegisterUserM \<lparr>RegisterUser_Password = HashPassword password nickname\<rparr>)"

definition sendGetUserInfo :: "gostring \<Rightarrow> ui_cmd" where
  "sendGetUserInfo nickname = Send TypeGetUserInfo (GetUserInfoM \<lparr>GetUserInfo_Nickname = nickname\<rparr>)"

definition sendChangePassword :: "(gostring \<Rightarrow> gostring \<Rightarrow> gostring) \<Rightarrow> gostring \<Rightarrow> bytes \<Rightarrow> bytes \<Rightarrow> ui_cmd" where
  "sendChangePassword HashPassword nickname old new = Send TypeChangePassword
     (ChangePasswordM \<lparr>ChangePassword_OldPassword = (if old \<noteq> [] then HashPassword old nickname else []),
        ChangePassword_NewPassword = (if new \<noteq> [] then HashPassword new nickname else [])\<rparr>)"

section \<open>Servers and channels\<close>

definition requestChannelList :: ui_cmd where
  "requestChannelList = Send TypeListChannels (ListChannelsM \<lparr>ListChannels_FromChannelID = 0, ListChannels_Limit = 1000\<rparr>)"

definition requestServerList :: "ui_cmd list" where
  "requestServerList = [Send TypeListServers (ListServersM \<lparr>ListServers_Limit = 100\<rparr>), After (5000 * millisecond) ServerListTimeoutMsg]"

definition sendJoinChannel :: "u64 \<Rightarrow> ui_cmd" where
  "sendJoinChannel channelID = Send TypeJoinChannel
     (JoinChannelM \<lparr>JoinChannel_ChannelID = channelID, JoinChannel_SubchannelID = None\<rparr>)"

definition sendLeaveChannel :: "u64 \<Rightarrow> ui_cmd" where
  "sendLeaveChannel channelID = LeaveChannel channelID"

definition sendListChannelUsers :: "u64 \<Rightarrow> ui_cmd" where
  "sendListChannelUsers channelID = Send TypeListChannelUsers
     (ListChannelUsersM \<lparr>ListChannelUsers_ChannelID = channelID, ListChannelUsers_SubchannelID = None\<rparr>)"

definition sendCreateChannel :: "gostring \<Rightarrow> gostring \<Rightarrow> gostring \<Rightarrow> u8 \<Rightarrow> ui_cmd" where
  "sendCreateChannel name displayName description channelType = Send TypeCreateChannel
     (CreateChannelM \<lparr>CreateChannel_Name = name, CreateChannel_DisplayName = displayName,
        CreateChannel_Description = (if description \<noteq> [] then Some description else None),
        CreateChannel_ChannelType = channelType, CreateChannel_RetentionHours = 168\<rparr>)"

definition sendSubscribeChannel :: "u64 \<Rightarrow> ui_cmd" where
  "sendSubscribeChannel channelID = Send TypeSubscribeChannel
     (SubscribeChannelM \<lparr>SubscribeChannel_ChannelID = channelID, SubscribeChannel_SubchannelID = None\<rparr>)"

definition sendUnsubscribeChannel :: "u64 \<Rightarrow> ui_cmd" where
  "sendUnsubscribeChannel channelID = Send TypeUnsubscribeChannel
     (UnsubscribeChannelM \<lparr>UnsubscribeChannel_ChannelID = channelID, UnsubscribeChannel_SubchannelID = None\<rparr>)"

section \<open>SSH keys\<close>

definition sendListSSHKeys :: ui_cmd where
  "sendListSSHKeys = Send TypeListSSHKeys (ListSSHKeysM ListSSHKeysRequest)"

definition sendAddSSHKey :: "gostring \<Rightarrow> gostring \<Rightarrow> ui_cmd" where
  "sendAddSSHKey publicKey label = Send TypeAddSSHKey (AddSSHKeyM \<lparr>AddSSHKey_PublicKey = publicKey, AddSSHKey_Label = label\<rparr>)"

definition sendUpdateSSHKeyLabel :: "u64 \<Rightarrow> gostring \<Rightarrow> ui_cmd" where
  "sendUpdateSSHKeyLabel keyID newLabel = Send TypeUpdateSSHKeyLabel
     (UpdateSSHKeyLabelM \<lparr>UpdateSSHKeyLabel_KeyID = keyID, UpdateSSHKeyLabel_NewLabel = newLabel\<rparr>)"

definition sendDeleteSSHKey :: "u64 \<Rightarrow> ui_cmd" where
  "sendDeleteSSHKey keyID = Send TypeDeleteSSHKey (DeleteSSHKeyM \<lparr>DeleteSSHKey_KeyID = keyID\<rparr>)"

section \<open>Messages\<close>

text \<open>"uint16(m.height - 6)", at least 10; "m.currentChannel.ID" of a nil channel panics.\<close>

definition page_limit :: "Model \<Rightarrow> u16" where
  "page_limit m = (let limit = word_of_int (m_height m - 6) in if limit < 10 then 10 else limit)"

definition list_messages :: "u64 \<Rightarrow> u16 \<Rightarrow> u64 option \<Rightarrow> u64 option \<Rightarrow> u64 option \<Rightarrow> ui_cmd" where
  "list_messages channelID limit beforeID parentID afterID = Send TypeListMessages
     (ListMessagesM \<lparr>ListMessages_ChannelID = channelID, ListMessages_SubchannelID = None, ListMessages_Limit = limit,
        ListMessages_BeforeID = beforeID, ListMessages_ParentID = parentID, ListMessages_AfterID = afterID\<rparr>)"

definition list_current :: "Model \<Rightarrow> u16 \<Rightarrow> u64 option \<Rightarrow> u64 option \<Rightarrow> u64 option \<Rightarrow> ui_cmd" where
  "list_current m limit beforeID parentID afterID =
    (case m_currentChannel m of None \<Rightarrow> CommandPanics
     | Some c \<Rightarrow> list_messages (Channel_ID c) limit beforeID parentID afterID)"

definition requestThreadList :: "u64 \<Rightarrow> Model \<Rightarrow> ui_cmd" where
  "requestThreadList channelID m = list_messages channelID (page_limit m) None None None"

definition requestChatMessages :: "u64 \<Rightarrow> ui_cmd" where
  "requestChatMessages channelID = list_messages channelID 100 None None None"

text \<open>Nothing to ask for is no command.\<close>

definition loadMoreThreads :: "Model \<Rightarrow> ui_cmd list" where
  "loadMoreThreads m =
    (if m_currentChannel m = None \<or> m_threads m = [] then []
     else [list_current m (page_limit m) (Some (Message_ID (last (m_threads m)))) None None])"

definition requestThreadReplies :: "u64 \<Rightarrow> Model \<Rightarrow> ui_cmd" where
  "requestThreadReplies threadID m = list_current m 10 None (Some threadID) None"

definition loadMoreReplies :: "Model \<Rightarrow> ui_cmd list" where
  "loadMoreReplies m =
    (case m_currentThread m of None \<Rightarrow> []
     | Some t \<Rightarrow> if m_threadReplies m = [] then []
         else [list_current m 10 (Some (Message_ID (last (m_threadReplies m)))) (Some (Message_ID t)) None])"

definition requestThreadRepliesAfter :: "u64 \<Rightarrow> u64 \<Rightarrow> Model \<Rightarrow> ui_cmd" where
  "requestThreadRepliesAfter threadID afterID m = list_current m 50 None (Some threadID) (Some afterID)"

definition sendPostMessage :: "u64 \<Rightarrow> u64 option \<Rightarrow> gostring \<Rightarrow> ui_cmd" where
  "sendPostMessage channelID parentID content = Send TypePostMessage
     (PostMessageM \<lparr>PostMessage_ChannelID = channelID, PostMessage_SubchannelID = None, PostMessage_ParentID = parentID,
        PostMessage_Content = content\<rparr>)"

definition sendChatMessageWithContent :: "gostring \<Rightarrow> Model \<Rightarrow> ui_cmd list" where
  "sendChatMessageWithContent content m =
    (case m_currentChannel m of None \<Rightarrow> []
     | Some c \<Rightarrow> if content = [] then [] else [sendPostMessage (Channel_ID c) None content])"

definition sendDeleteMessage :: "u64 \<Rightarrow> ui_cmd" where
  "sendDeleteMessage messageID = Send TypeDeleteMessage (DeleteMessageM \<lparr>DeleteMessage_MessageID = messageID\<rparr>)"

definition sendEditMessage :: "u64 \<Rightarrow> gostring \<Rightarrow> ui_cmd" where
  "sendEditMessage messageID newContent = Send TypeEditMessage
     (EditMessageM \<lparr>EditMessage_MessageID = messageID, EditMessage_NewContent = newContent\<rparr>)"

definition sendPing :: ui_cmd where
  "sendPing = Ping"

definition sendSubscribeThread :: "u64 \<Rightarrow> ui_cmd" where
  "sendSubscribeThread threadID = Send TypeSubscribeThread (SubscribeThreadM \<lparr>SubscribeThread_ThreadID = threadID\<rparr>)"

definition sendUnsubscribeThread :: "u64 \<Rightarrow> ui_cmd" where
  "sendUnsubscribeThread threadID = Send TypeUnsubscribeThread (UnsubscribeThreadM \<lparr>UnsubscribeThread_ThreadID = threadID\<rparr>)"

section \<open>Administration\<close>

definition sendBanUser :: "BanUserMessage \<Rightarrow> ui_cmd" where "sendBanUser msg = Send TypeBanUser (BanUserM msg)"
definition sendBanIP :: "BanIPMessage \<Rightarrow> ui_cmd" where "sendBanIP msg = Send TypeBanIP (BanIPM msg)"
definition sendUnbanUser :: "UnbanUserMessage \<Rightarrow> ui_cmd" where "sendUnbanUser msg = Send TypeUnbanUser (UnbanUserM msg)"
definition sendUnbanIP :: "UnbanIPMessage \<Rightarrow> ui_cmd" where "sendUnbanIP msg = Send TypeUnbanIP (UnbanIPM msg)"
definition sendDeleteUser :: "DeleteUserMessage \<Rightarrow> ui_cmd" where "sendDeleteUser msg = Send TypeDeleteUser (DeleteUserM msg)"
definition sendDeleteChannel :: "DeleteChannelMessage \<Rightarrow> ui_cmd" where "sendDeleteChannel msg = Send TypeDeleteChannel (DeleteChannelM msg)"

definition sendListBans :: "bool \<Rightarrow> ui_cmd" where
  "sendListBans includeExpired = Send TypeListBans (ListBansM \<lparr>ListBans_IncludeExpired = includeExpired\<rparr>)"

definition sendListUsers :: "bool \<Rightarrow> ui_cmd" where
  "sendListUsers includeOffline = Send TypeListUsers (ListUsersM \<lparr>ListUsers_Limit = 500, ListUsers_IncludeOffline = includeOffline\<rparr>)"

section \<open>Running a command\<close>

definition read_state :: "gotime \<Rightarrow> u64 \<Rightarrow> u8 \<times> ProtocolMessage" where
  "read_state now channelID = (TypeUpdateReadState, UpdateReadStateM \<lparr>UpdateReadState_ChannelID = channelID,
     UpdateReadState_SubchannelID = None, UpdateReadState_Timestamp = UnixMilli now\<rparr>)"

text \<open>The messages a command hands to "SendMessage", in order.\<close>

fun sent_by :: "gotime \<Rightarrow> ui_cmd \<Rightarrow> (u8 \<times> ProtocolMessage) list" where
  "sent_by now (Send t msg) = [(t, msg)]"
| "sent_by now (SendNow t msg) = [(t, msg)]"
| "sent_by now (SetNickname nickname goAnonymous) = [(TypeSetNickname, SetNicknameM \<lparr>SetNickname_Nickname = nickname\<rparr>)]"
| "sent_by now (LeaveChannel channelID) =
    (if channelID = 0 then []
     else [read_state now channelID,
       (TypeLeaveChannel, LeaveChannelM \<lparr>LeaveChannel_ChannelID = channelID, LeaveChannel_SubchannelID = None\<rparr>)])"
| "sent_by now Ping = [(TypePing, PingM \<lparr>Ping_Timestamp = UnixMilli now\<rparr>)]"
| "sent_by now _ = []"

text \<open>
  What comes back, where SendMessage gives the text of its error: a failed message as an ErrorMsg, but for the read
  state, whose failure is logged.
\<close>

fun comes_back :: "(u8 \<times> ProtocolMessage \<Rightarrow> gostring option) \<Rightarrow> gotime \<Rightarrow> ui_cmd \<Rightarrow> ui_msg option" where
  "comes_back SendMessage now (SetNickname nickname goAnonymous) =
    (case SendMessage (TypeSetNickname, SetNicknameM \<lparr>SetNickname_Nickname = nickname\<rparr>) of
       Some e \<Rightarrow> Some (ErrorMsg e) | None \<Rightarrow> Some (NicknameSentMsg nickname goAnonymous))"
| "comes_back SendMessage now (Emit msg) = Some msg"
| "comes_back SendMessage now (After d msg) = Some msg"
| "comes_back SendMessage now (SendNow t msg) = None"
| "comes_back SendMessage now cmd =
    (case sent_by now cmd of [] \<Rightarrow> None | x # xs \<Rightarrow> map_option ErrorMsg (SendMessage (last (x # xs))))"

end
