(* ===== verification/UiFrames.thy ===== *)
theory UiFrames imports UiRequests begin

text \<open>
  What the client makes of the frames of the server, "pkg/client/ui/update.go": handleServerFrame and its handlers.

  A handler gives the next Model and what it asks for; it runs like a step of the server (it may panic, and Exhausted is not
  coming back from SortThreadReplies). The clock, what the connection answers, the text of an error, the order sort.Slice gives to equal elements, the outcome
  of a call on the connection or on the state file, and the keys of the dialogs that are not modelled are parameters.
\<close>

record ui_env =
  ue_now :: gotime
  ue_text :: "go_error \<Rightarrow> gostring"
  ue_sort :: "(Message \<Rightarrow> Message \<Rightarrow> bool) \<Rightarrow> Message list \<Rightarrow> Message list"
  ue_ToLower :: "gostring \<Rightarrow> gostring"
  ue_SendMessage :: "u8 \<times> ProtocolMessage \<Rightarrow> gostring option"
  ue_HashPassword :: "gostring \<Rightarrow> gostring \<Rightarrow> gostring"
  ue_dismissed :: bool
  ue_savedServer :: gostring
  ue_SetConfig :: "gostring \<Rightarrow> gostring option"
  ue_history :: "gostring \<Rightarrow> unit + gostring"
  ue_conn :: conn_info
  ue_NewConnection :: "gostring \<Rightarrow> gostring + conn_info"
  ue_Connect :: "conn_info \<Rightarrow> conn_info \<times> gostring option"
  ue_Textarea :: "keypress \<Rightarrow> gostring \<Rightarrow> gostring"
  ue_Dialog :: "keypress \<Rightarrow> modal \<Rightarrow> modal option \<times> ui_cmd list"

type_synonym ui_result = "(Model \<times> ui_cmd list) run"

definition listen :: "Model \<Rightarrow> ui_cmd" where
  "listen m = Listen (m_connGeneration m)"

definition listening :: "ui_cmd list \<Rightarrow> Model \<Rightarrow> ui_result" where
  "listening cmds m = Returns (m, cmds @ [listen m])"

definition on_decoded :: "ui_env \<Rightarrow> gostring \<Rightarrow> 'm \<times> go_error option \<Rightarrow> ('m \<Rightarrow> Model \<Rightarrow> ui_result) \<Rightarrow> Model \<Rightarrow> ui_result" where
  "on_decoded E what r k m =
    (case r of (msg, Some e) \<Rightarrow> listening [] (m\<lparr>m_errorMessage := what @ lit '': '' @ ue_text E e\<rparr>)
     | (msg, None) \<Rightarrow> k msg m)"

definition loaded :: "'a list \<Rightarrow> gostring \<Rightarrow> gostring" where
  "loaded xs what = lit ''Loaded '' @ fmt_d (int (length xs)) @ what"

section \<open>The session\<close>

definition handleServerConfig :: "ui_env \<Rightarrow> Frame \<Rightarrow> Model \<Rightarrow> ui_result" where
  "handleServerConfig E frame = on_decoded E (lit ''Failed to decode SERVER_CONFIG'')
    (ServerConfigMessage_Decode ServerConfigMessage_zero (Frame_Payload frame)) (\<lambda>msg m.
      let m = m\<lparr>m_serverConfig := Some msg,
            m_statusMessage := lit ''Connected (protocol v'' @ fmt_d (uint (ServerConfig_ProtocolVersion msg)) @ lit '')'',
            m_initStateMachine := OnServerConfig (ue_now E) (m_initStateMachine m)\<rparr>
      in if NeedsNickname (m_initStateMachine m) \<and> m_nickname m \<noteq> []
         then listening [sendSetNickname m, sendGetUserInfo (m_nickname m)] m
         else (case NextCheckDelay (m_initStateMachine m) of
           (delay, sm) \<Rightarrow> listening [After delay InitTimeoutCheckMsg] (m\<lparr>m_initStateMachine := sm\<rparr>)))"

definition handleNicknameResponse :: "ui_env \<Rightarrow> Frame \<Rightarrow> Model \<Rightarrow> ui_result" where
  "handleNicknameResponse E frame = on_decoded E (lit ''Failed to decode response'')
    (NicknameResponseMessage_Decode NicknameResponseMessage_zero (Frame_Payload frame)) (\<lambda>msg m.
      if NicknameResponse_Success msg
      then
        (let m = (if m_pendingNickname m \<noteq> [] then m\<lparr>m_nickname := m_pendingNickname m, m_pendingNickname := []\<rparr> else m);
             m = (if m_authState m = AuthStateAuthenticated
               then m\<lparr>m_statusMessage := lit ''Nickname changed to '' @ m_nickname m\<rparr>
               else m\<lparr>m_statusMessage := lit ''Nickname set to '' @ m_nickname m, m_authState := AuthStateAnonymous\<rparr>)
         in listening [] (m\<lparr>m_modalStack := removeByType ModalNicknameSetup (removeByType ModalNicknameChange (m_modalStack m))\<rparr>))
      else listening [] (m\<lparr>m_errorMessage := NicknameResponse_Message msg\<rparr>))"

definition auth_target :: "Model \<Rightarrow> gostring" where
  "auth_target m = (let target = m_authTargetNickname m;
       target = (if target = [] then m_pendingNickname m else target)
     in if target = [] then m_nickname m else target)"

definition showPasswordModal :: "Model \<Rightarrow> Model" where
  "showPasswordModal m =
    (let target = auth_target m in
     m\<lparr>m_authTargetNickname := target, m_authState := AuthStatePrompting,
       m_modalStack := Push (PasswordAuthModal target [] (m_authErrorMessage m) (m_authCooldownUntil m) False) (m_modalStack m)\<rparr>)"

definition handleUserInfo :: "ui_env \<Rightarrow> Frame \<Rightarrow> Model \<Rightarrow> ui_result" where
  "handleUserInfo E frame = on_decoded E (lit ''Failed to decode USER_INFO'')
    (UserInfoMessage_Decode UserInfoMessage_zero (Frame_Payload frame)) (\<lambda>msg m.
      let ours = (UserInfo_Nickname msg = m_nickname m \<or> UserInfo_Nickname msg = m_pendingNickname m);
          m = (if ours then m\<lparr>m_nicknameIsRegistered := UserInfo_IsRegistered msg\<rparr> else m);
          m = (if ours \<and> UserInfo_IsRegistered msg \<and> m_authState m \<noteq> AuthStateAuthenticated \<and> \<not> m_directoryMode m
            then showPasswordModal (m\<lparr>m_authTargetNickname := UserInfo_Nickname msg, m_authErrorMessage := [], m_authAttempts := 0,
              m_authCooldownUntil := zero_time\<rparr>) else m)
      in listening [Emit ForceRenderMsg] m)"

text \<open>"1 << (m.authAttempts - 2)" seconds from the second failure on; the fifth ends the attempts.\<close>

definition auth_failed :: "gotime \<Rightarrow> gostring \<Rightarrow> Model \<Rightarrow> Model" where
  "auth_failed now why m =
    (let m = m\<lparr>m_userFlags := 0, m_authState := AuthStatePrompting, m_authAttempts := m_authAttempts m + 1, m_authErrorMessage := why\<rparr>
     in if m_authAttempts m \<ge> 5
        then m\<lparr>m_errorMessage := lit ''Too many failed attempts. Please restart the application.'', m_authState := AuthStateFailed,
          m_modalStack := removeByType ModalPasswordAuth (m_modalStack m)\<rparr>
        else
          (let m = (if m_authAttempts m \<ge> 2
             then m\<lparr>m_authCooldownUntil := now + 2 ^ nat (m_authAttempts m - 2) * 1000 * millisecond\<rparr> else m)
           in showPasswordModal (m\<lparr>m_modalStack := removeByType ModalPasswordAuth (m_modalStack m)\<rparr>)))"

definition handleAuthResponse :: "ui_env \<Rightarrow> Frame \<Rightarrow> Model \<Rightarrow> ui_result" where
  "handleAuthResponse E frame = on_decoded E (lit ''Failed to decode AUTH_RESPONSE'')
    (AuthResponseMessage_Decode AuthResponseMessage_zero (Frame_Payload frame)) (\<lambda>msg m.
      if AuthResponse_Success msg
      then
        (let m = m\<lparr>m_authState := AuthStateAuthenticated, m_userID := Some (AuthResponse_UserID msg),
               m_userFlags := (case AuthResponse_UserFlags msg of Some f \<Rightarrow> f | None \<Rightarrow> 0),
               m_authAttempts := 0, m_authErrorMessage := [], m_authTargetNickname := [],
               m_initStateMachine := snd (OnAuthResponse (m_initStateMachine m))\<rparr>;
             m = (if AuthResponse_Nickname msg \<noteq> [] then m\<lparr>m_nickname := AuthResponse_Nickname msg\<rparr> else m)
         in listening ((if AuthResponse_Nickname msg \<noteq> [] then [StateSetLastNickname (AuthResponse_Nickname msg)] else []) @
              [StateSetUserID (Some (AuthResponse_UserID msg))])
            (m\<lparr>m_statusMessage := lit ''Authenticated as '' @ m_nickname m,
               m_modalStack := removeByType ModalPasswordAuth (m_modalStack m)\<rparr>))
      else listening [] (auth_failed (ue_now E) (AuthResponse_Message msg) m))"

definition handleRegisterResponse :: "ui_env \<Rightarrow> Frame \<Rightarrow> Model \<Rightarrow> ui_result" where
  "handleRegisterResponse E frame = on_decoded E (lit ''Failed to decode REGISTER_RESPONSE'')
    (RegisterResponseMessage_Decode RegisterResponseMessage_zero (Frame_Payload frame)) (\<lambda>msg m.
      let m = m\<lparr>m_userFlags := 0, m_modalStack := removeByType ModalRegistration (m_modalStack m)\<rparr> in
      if RegisterResponse_Success msg
      then listening [StateSetUserID (Some (RegisterResponse_UserID msg))]
        (m\<lparr>m_authState := AuthStateAuthenticated, m_userID := Some (RegisterResponse_UserID msg),
           m_statusMessage := lit ''Registered as '' @ m_nickname m\<rparr>)
      else listening [] (m\<lparr>m_errorMessage := lit ''Registration failed. Please try again.''\<rparr>))"

definition handleError_ui :: "ui_env \<Rightarrow> Frame \<Rightarrow> Model \<Rightarrow> ui_result" where
  "handleError_ui E frame = on_decoded E (lit ''Failed to decode error'') (ErrorMessage_Decode ErrorMessage_zero (Frame_Payload frame)) (\<lambda>msg m.
      listening [] (m\<lparr>m_errorMessage := lit ''Error '' @ fmt_d (uint (Error_ErrorCode msg)) @ lit '': '' @ Error_Message msg\<rparr>))"

definition handleDisconnect_ui :: "ui_env \<Rightarrow> Frame \<Rightarrow> Model \<Rightarrow> ui_result" where
  "handleDisconnect_ui E frame = on_decoded E (lit ''Failed to decode disconnect message'')
    (DisconnectMessage_Decode DisconnectMessage_zero (Frame_Payload frame)) (\<lambda>msg m.
      listening [DisableAutoReconnect] (m\<lparr>m_serverDisconnectReason :=
        (case Disconnect_Reason msg of Some r \<Rightarrow> if r \<noteq> [] then r else lit ''No reason provided'' | None \<Rightarrow> lit ''No reason provided'')\<rparr>))"

definition handleSubscribeOk :: "ui_env \<Rightarrow> Frame \<Rightarrow> Model \<Rightarrow> ui_result" where
  "handleSubscribeOk E frame = on_decoded E (lit ''Failed to decode subscribe OK'')
    (SubscribeOkMessage_Decode SubscribeOkMessage_zero (Frame_Payload frame)) (\<lambda>msg. listening [])"

section \<open>Channels and servers\<close>

definition handleChannelList :: "ui_env \<Rightarrow> Frame \<Rightarrow> Model \<Rightarrow> ui_result" where
  "handleChannelList E frame m = on_decoded E (lit ''Failed to decode channel list'')
    (ChannelListMessage_Decode ChannelListMessage_zero (Frame_Payload frame)) (\<lambda>msg m.
      let m = m\<lparr>m_channels := ChannelList_Channels msg, m_statusMessage := loaded (ChannelList_Channels msg) (lit '' channels'')\<rparr>;
          unread = GetUnreadCountsM \<lparr>GetUnreadCounts_SinceTimestamp = None,
            GetUnreadCounts_Targets = map (\<lambda>c. \<lparr>UnreadTarget_ChannelID = Channel_ID c, UnreadTarget_SubchannelID = None,
              UnreadTarget_ThreadID = None\<rparr>) (m_channels m)\<rparr>
      in if m_channels m = [] then listening [] m
         else listening [SendNow TypeGetUnreadCounts unread]
           (case ue_SendMessage E (TypeGetUnreadCounts, unread) of None \<Rightarrow> m
            | Some e \<Rightarrow> m\<lparr>m_errorMessage := lit ''Failed to request unread counts: '' @ e\<rparr>))
    (m\<lparr>m_loadingChannels := False\<rparr>)"

text \<open>"SetServers" and "SetError" of the selector; the list it shows ends with the entry for a custom address.\<close>

fun SetServers :: "ServerInfo list \<Rightarrow> modal \<Rightarrow> modal" where
  "SetServers servers (ServerSelectorModal _ cursor _ e custom) =
    ServerSelectorModal servers (if cursor \<ge> int (length servers) + 1 then int (length servers) else cursor) False e custom"
| "SetServers servers m = m"

fun SetError :: "gostring \<Rightarrow> modal \<Rightarrow> modal" where
  "SetError e (ServerSelectorModal servers cursor _ _ custom) = ServerSelectorModal servers cursor False e custom"
| "SetError e m = m"

definition on_selector :: "(modal \<Rightarrow> modal) \<Rightarrow> ModalStack \<Rightarrow> ModalStack" where
  "on_selector f stack =
    (case Top stack of Some m \<Rightarrow> if modal_Type m = ModalServerSelector then set_top (f m) stack else stack | None \<Rightarrow> stack)"

definition handleServerList :: "ui_env \<Rightarrow> Frame \<Rightarrow> Model \<Rightarrow> ui_result" where
  "handleServerList E frame m =
    (case ServerListMessage_Decode ServerListMessage_zero (Frame_Payload frame) of
       (msg, Some e) \<Rightarrow>
        (let why = lit ''Failed to decode server list: '' @ ue_text E e in
         listening [] (m\<lparr>m_errorMessage := why, m_modalStack := on_selector (SetError why) (m_modalStack m)\<rparr>))
     | (msg, None) \<Rightarrow>
        (let m = m\<lparr>m_awaitingServerList := False\<rparr> in
         if TopType (m_modalStack m) = ModalServerSelector
         then listening [] (m\<lparr>m_modalStack := on_selector (SetServers (ServerList_Servers msg)) (m_modalStack m),
           m_statusMessage := (if ServerList_Servers msg = [] then lit ''No servers available''
             else loaded (ServerList_Servers msg) (lit '' servers''))\<rparr>)
         else listening [] m))"

definition handleChannelCreated :: "ui_env \<Rightarrow> Frame \<Rightarrow> Model \<Rightarrow> ui_result" where
  "handleChannelCreated E frame = on_decoded E (lit ''Failed to decode channel created'')
    (ChannelCreatedMessage_Decode ChannelCreatedMessage_zero (Frame_Payload frame)) (\<lambda>msg m.
      if ChannelCreated_Success msg
      then listening [] (m\<lparr>m_modalStack := removeByType ModalCreateChannel (m_modalStack m),
        m_channels := m_channels m @ [\<lparr>Channel_ID = ChannelCreated_ChannelID msg, Channel_Name = ChannelCreated_Name msg,
          Channel_Description = ChannelCreated_Description msg, Channel_UserCount = 0, Channel_IsOperator = True,
          Channel_Type = ChannelCreated_Type msg, Channel_RetentionHours = ChannelCreated_RetentionHours msg\<rparr>],
        m_statusMessage := lit ''Channel '' @ 39 # ChannelCreated_Name msg @ 39 # lit '' created successfully''\<rparr>)
      else listening [] (m\<lparr>m_errorMessage := ChannelCreated_Message msg\<rparr>))"

fun remove_channel :: "u64 \<Rightarrow> Channel list \<Rightarrow> Channel list option" where
  "remove_channel channelID [] = None"
| "remove_channel channelID (c # cs) =
    (if Channel_ID c = channelID then Some cs else map_option ((#) c) (remove_channel channelID cs))"

definition handleChannelDeleted :: "ui_env \<Rightarrow> Frame \<Rightarrow> Model \<Rightarrow> ui_result" where
  "handleChannelDeleted E frame = on_decoded E (lit ''Failed to decode channel deleted'')
    (ChannelDeletedMessage_Decode ChannelDeletedMessage_zero (Frame_Payload frame)) (\<lambda>msg m.
      if ChannelDeleted_Success msg
      then
        (let m = m\<lparr>m_modalStack := removeByType ModalDeleteChannel (m_modalStack m)\<rparr>;
             m = (case remove_channel (ChannelDeleted_ChannelID msg) (m_channels m) of None \<Rightarrow> m
               | Some channels \<Rightarrow>
                  (let m = m\<lparr>m_channels := channels\<rparr> in
                   if map_option Channel_ID (m_currentChannel m) = Some (ChannelDeleted_ChannelID msg)
                   then (clearActiveChannel m)\<lparr>m_currentChannel := None, m_threads := [], m_currentThread := None,
                     m_threadReplies := [], m_repliesCached := None, m_currentView := ViewChannelList\<rparr>
                   else m))
         in listening [] (m\<lparr>m_statusMessage := ChannelDeleted_Message msg\<rparr>))
      else listening [] (m\<lparr>m_errorMessage := ChannelDeleted_Message msg\<rparr>))"

definition handleJoinResponse :: "ui_env \<Rightarrow> Frame \<Rightarrow> Model \<Rightarrow> ui_result" where
  "handleJoinResponse E frame = on_decoded E (lit ''Failed to decode join response'')
    (JoinResponseMessage_Decode JoinResponseMessage_zero (Frame_Payload frame)) (\<lambda>msg m.
      if JoinResponse_Success msg
      then
        (let m = setActiveChannel (JoinResponse_ChannelID msg) (m\<lparr>m_statusMessage := JoinResponse_Message msg\<rparr>) in
         listening (if m_showUserSidebar m then [sendListChannelUsers (JoinResponse_ChannelID msg), Emit ForceRenderMsg] else []) m)
      else listening [] (m\<lparr>m_errorMessage := JoinResponse_Message msg\<rparr>))"

definition handleLeaveResponse :: "ui_env \<Rightarrow> Frame \<Rightarrow> Model \<Rightarrow> ui_result" where
  "handleLeaveResponse E frame = on_decoded E (lit ''Failed to decode leave response'')
    (LeaveResponseMessage_Decode LeaveResponseMessage_zero (Frame_Payload frame)) (\<lambda>msg m.
      if LeaveResponse_Success msg
      then
        (let m = clearActiveChannel (m\<lparr>m_statusMessage := LeaveResponse_Message msg\<rparr>) in
         listening [] (m\<lparr>m_channelRoster := AList.delete (LeaveResponse_ChannelID msg) (m_channelRoster m)\<rparr>))
      else listening [] (m\<lparr>m_errorMessage := LeaveResponse_Message msg\<rparr>))"

definition handleUnreadCounts :: "ui_env \<Rightarrow> Frame \<Rightarrow> Model \<Rightarrow> ui_result" where
  "handleUnreadCounts E frame = on_decoded E (lit ''Failed to decode UNREAD_COUNTS'')
    (UnreadCountsMessage_Decode UnreadCountsMessage_zero (Frame_Payload frame)) (\<lambda>msg m.
      listening [] (m\<lparr>m_unreadCounts := fold (\<lambda>n counts. if UnreadCount_SubchannelID n = None \<and> UnreadCount_ThreadID n = None
        then counts(UnreadCount_ChannelID n \<mapsto> UnreadCount_UnreadCount n) else counts) (UnreadCounts_Counts msg) (m_unreadCounts m)\<rparr>))"

end
