(* ===== verification/UiMessages.thy ===== *)
theory UiMessages imports UiFrames begin

text \<open>
  The rest of the handlers of frames in "pkg/client/ui/update.go": lists of messages, new, edited and deleted messages, presence, keys and
  administration; and handleServerFrame, which chooses the handler.
\<close>

section \<open>Lists\<close>

text \<open>"client.SortThreadReplies", which may not come back.\<close>

definition sorted_then :: "Message list \<Rightarrow> u64 \<Rightarrow> (Message list \<Rightarrow> 'a run) \<Rightarrow> 'a run" where
  "sorted_then replies root k = (case SortThreadReplies replies root of None \<Rightarrow> Exhausted | Some rs \<Rightarrow> k rs)"

definition highest_id :: "Message list \<Rightarrow> u64" where
  "highest_id replies = fold (\<lambda>r h. if Message_ID r > h then Message_ID r else h) replies 0"

text \<open>threadReplies and its entry in the cache become one slice.\<close>

definition cache_replies :: "u64 \<Rightarrow> Message list \<Rightarrow> Model \<Rightarrow> Model" where
  "cache_replies root rs m = m\<lparr>m_threadReplies := rs, m_threadRepliesCache := (m_threadRepliesCache m)(root \<mapsto> rs),
     m_repliesCached := Some root\<rparr>"

definition chat_list :: "ui_env \<Rightarrow> Message list \<Rightarrow> Model \<Rightarrow> Model" where
  "chat_list E messages m =
    (let sorted = ue_sort E (\<lambda>a b. Message_CreatedAt a < Message_CreatedAt b) messages in
     m\<lparr>m_loadingChat := False, m_chatMessages := sorted, m_allChatLoaded := length messages < 100,
       m_statusMessage := loaded sorted (lit '' messages'')\<rparr>)"

definition list_threads :: "Message list \<Rightarrow> Model \<Rightarrow> Model" where
  "list_threads messages m =
    (let m = m\<lparr>m_loadingThreadList := False\<rparr> in
     if m_loadingMore m
     then m\<lparr>m_threads := m_threads m @ messages, m_loadingMore := False,
       m_allThreadsLoaded := (length messages < 25 \<or> m_allThreadsLoaded m), m_statusMessage := loaded messages (lit '' more threads'')\<rparr>
     else m\<lparr>m_threads := messages, m_allThreadsLoaded := length messages < 25, m_statusMessage := loaded messages (lit '' threads'')\<rparr>)"

text \<open>The answer to a list of replies of the thread root: a further page, an addition to the cache, or all of it.\<close>

definition reply_list :: "u64 \<Rightarrow> Message list \<Rightarrow> bool \<Rightarrow> Model \<Rightarrow> Model run" where
  "reply_list root new isLoadingMore m = run_then
    (if isLoadingMore
     then sorted_then (m_threadReplies m @ new) root (\<lambda>rs. Returns
       (cache_replies root rs (m\<lparr>m_allRepliesLoaded := (length new < 10 \<or> m_allRepliesLoaded m),
         m_statusMessage := loaded new (lit '' more replies'')\<rparr>)))
     else if m_threadRepliesCache m root \<noteq> None \<and> new \<noteq> []
     then sorted_then (the (m_threadRepliesCache m root) @ new) root (\<lambda>rs. Returns
       (cache_replies root rs (m\<lparr>m_statusMessage := loaded new (lit '' new replies'')\<rparr>)))
     else sorted_then new root (\<lambda>rs. Returns
       (cache_replies root rs (m\<lparr>m_allRepliesLoaded := length new < 10, m_statusMessage := loaded rs (lit '' replies'')\<rparr>))))
    (\<lambda>m. Returns (if highest_id (m_threadReplies m) > 0
       then m\<lparr>m_threadHighestMessageID := (m_threadHighestMessageID m)(root \<mapsto> highest_id (m_threadReplies m))\<rparr> else m))"

definition handleMessageList :: "ui_env \<Rightarrow> Frame \<Rightarrow> Model \<Rightarrow> ui_result" where
  "handleMessageList E frame m =
    (case MessageListMessage_Decode MessageListMessage_zero (Frame_Payload frame) of
       (msg, Some e) \<Rightarrow> listening [] (m\<lparr>m_errorMessage := lit ''Failed to decode message list: '' @ ue_text E e,
          m_loadingThreadList := False, m_loadingThreadReplies := False, m_loadingMore := False\<rparr>)
     | (msg, None) \<Rightarrow>
        (if MessageList_ParentID msg = None
         then listening [] (if m_currentView m = ViewChatChannel then chat_list E (MessageList_Messages msg) m
           else list_threads (MessageList_Messages msg) m)
         else
           (let isLoadingMore = m_loadingMoreReplies m;
                m = m\<lparr>m_loadingThreadReplies := False, m_loadingMoreReplies := False\<rparr>
            in case m_currentThread m of
                 Some t \<Rightarrow> run_then (reply_list (Message_ID t) (MessageList_Messages msg) isLoadingMore m) (listening [])
               | None \<Rightarrow> listening [] (m\<lparr>m_threadReplies := MessageList_Messages msg, m_repliesCached := None,
                   m_statusMessage := loaded (MessageList_Messages msg) (lit '' replies'')\<rparr>))))"

section \<open>Posts\<close>

definition handleMessagePosted :: "ui_env \<Rightarrow> Frame \<Rightarrow> Model \<Rightarrow> ui_result" where
  "handleMessagePosted E frame m = on_decoded E (lit ''Failed to decode response'')
    (MessagePostedMessage_Decode MessagePostedMessage_zero (Frame_Payload frame)) (\<lambda>msg m.
      listening [] (if MessagePosted_Success msg then m\<lparr>m_statusMessage := lit ''Message posted''\<rparr>
        else m\<lparr>m_errorMessage := MessagePosted_Message msg\<rparr>))
    (m\<lparr>m_sendingMessage := False\<rparr>)"

text \<open>The server puts ~ before the nickname of an anonymous author.\<close>

definition is_own_post :: "Message \<Rightarrow> Model \<Rightarrow> bool" where
  "is_own_post msg m \<longleftrightarrow> Message_AuthorNickname msg =
     (if m_authState m = AuthStateAuthenticated then m_nickname m else lit ''~'' @ m_nickname m)"

definition shouldNotifyForMessage :: "gotime \<Rightarrow> Message \<Rightarrow> Model \<Rightarrow> bool" where
  "shouldNotifyForMessage now msg m \<longleftrightarrow> \<not> isOwnMessage msg m \<and> now - m_lastInteractionTime m \<ge> 5 * 60 * 1000 * millisecond"

definition sendDesktopNotification :: "Message \<Rightarrow> Model \<Rightarrow> ui_cmd" where
  "sendDesktopNotification msg m =
    Notify (case m_currentChannel m of None \<Rightarrow> lit ''SuperChat'' | Some c \<Rightarrow> lit ''SuperChat - '' @ Channel_Name c)
      (Message_AuthorNickname msg @ lit '': '' @
        (if length (Message_Content msg) > 100 then take 97 (Message_Content msg) @ lit ''...'' else Message_Content msg))"

definition notify_if_idle :: "ui_env \<Rightarrow> Message \<Rightarrow> Model \<Rightarrow> ui_cmd list" where
  "notify_if_idle E msg m = (if shouldNotifyForMessage (ue_now E) msg m then [sendDesktopNotification msg m] else [])"

definition index_of :: "u64 \<Rightarrow> Message list \<Rightarrow> int option" where
  "index_of i ms = map_option (\<lambda>n. int n) (List.find (\<lambda>n. Message_ID (ms ! n) = i) [0..<length ms])"

definition new_root :: "ui_env \<Rightarrow> Message \<Rightarrow> Model \<Rightarrow> ui_result" where
  "new_root E msg m =
    (if m_currentView m = ViewChatChannel
     then listening (notify_if_idle E msg m) (m\<lparr>m_chatMessages := m_chatMessages m @ [msg]\<rparr>)
     else
       (let m = m\<lparr>m_threads := ue_sort E (\<lambda>a b. Message_CreatedAt a > Message_CreatedAt b) (msg # m_threads m)\<rparr> in
        listening [] (if m_currentView m = ViewThreadList \<and> is_own_post msg m
          then (case index_of (Message_ID msg) (m_threads m) of Some i \<Rightarrow> m\<lparr>m_threadCursor := i\<rparr> | None \<Rightarrow> m) else m)))"

definition new_reply :: "ui_env \<Rightarrow> Message \<Rightarrow> u64 \<Rightarrow> u64 \<Rightarrow> Model \<Rightarrow> ui_result" where
  "new_reply E msg parent root m =
    (if parent = root \<or> parent \<in> Message_ID ` set (m_threadReplies m)
     then sorted_then (m_threadReplies m @ [msg]) root (\<lambda>rs.
       (let m = cache_replies root rs m;
            m = (if Message_ID msg > (case m_threadHighestMessageID m root of None \<Rightarrow> 0 | Some h \<Rightarrow> h)
              then m\<lparr>m_threadHighestMessageID := (m_threadHighestMessageID m)(root \<mapsto> Message_ID msg)\<rparr> else m)
        in if m_currentView m \<noteq> ViewThreadView then listening [] m
           else if is_own_post msg m
           then listening [] (case index_of (Message_ID msg) (m_threadReplies m) of Some i \<Rightarrow> m\<lparr>m_replyCursor := i + 1\<rparr> | None \<Rightarrow> m)
           else listening (notify_if_idle E msg m) (m\<lparr>m_newMessageIDs := insert (Message_ID msg) (m_newMessageIDs m)\<rparr>)))
     else listening [] m)"

definition handleNewMessage :: "ui_env \<Rightarrow> Frame \<Rightarrow> Model \<Rightarrow> ui_result" where
  "handleNewMessage E frame = on_decoded E (lit ''Failed to decode new message'')
    (NewMessageMessage_Decode NewMessageMessage_zero (Frame_Payload frame)) (\<lambda>msg m.
      if map_option Channel_ID (m_currentChannel m) = Some (Message_ChannelID msg)
      then (case (Message_ParentID msg, m_currentThread m) of
          (None, _) \<Rightarrow> new_root E msg m
        | (Some parent, Some t) \<Rightarrow> new_reply E msg parent (Message_ID t) m
        | (Some parent, None) \<Rightarrow> listening [] m)
      else listening [] m)"

section \<open>Edits and deletions\<close>

text \<open>A change of the messages with an id in threads, in the current thread and in threadReplies, which is a slice of the cache as well.\<close>

definition change_messages :: "u64 \<Rightarrow> (Message \<Rightarrow> Message) \<Rightarrow> Model \<Rightarrow> Model" where
  "change_messages messageID f m =
    (let change = (\<lambda>x. if Message_ID x = messageID then f x else x) in
     m\<lparr>m_threads := map change (m_threads m), m_currentThread := map_option change (m_currentThread m),
       m_threadReplies := map change (m_threadReplies m),
       m_threadRepliesCache := (case m_repliesCached m of None \<Rightarrow> m_threadRepliesCache m
         | Some root \<Rightarrow> (m_threadRepliesCache m)(root := map_option (map change) (m_threadRepliesCache m root)))\<rparr>)"

definition applyMessageDeletion :: "u64 \<Rightarrow> gostring \<Rightarrow> Model \<Rightarrow> Model" where
  "applyMessageDeletion messageID replacement m =
    (let m = (if m_pendingDeleteID m = messageID then m\<lparr>m_pendingDeleteID := 0, m_confirmingDelete := False\<rparr> else m);
         m = change_messages messageID (\<lambda>x. x\<lparr>Message_Content := replacement\<rparr>) m
     in m\<lparr>m_newMessageIDs := m_newMessageIDs m - {messageID}\<rparr>)"

definition applyMessageEdit :: "u64 \<Rightarrow> gostring \<Rightarrow> gotime \<Rightarrow> Model \<Rightarrow> Model" where
  "applyMessageEdit messageID newContent editedAt =
    change_messages messageID (\<lambda>x. x\<lparr>Message_Content := newContent, Message_EditedAt := Some editedAt\<rparr>)"

definition handleMessageDeleted :: "ui_env \<Rightarrow> Frame \<Rightarrow> Model \<Rightarrow> ui_result" where
  "handleMessageDeleted E frame m = on_decoded E (lit ''Failed to decode message deletion'')
    (MessageDeletedMessage_Decode MessageDeletedMessage_zero (Frame_Payload frame)) (\<lambda>msg m.
      listening [] (if MessageDeleted_Success msg
        then (applyMessageDeletion (MessageDeleted_MessageID msg) (MessageDeleted_Message msg) m)\<lparr>m_statusMessage := lit ''Message deleted''\<rparr>
        else m\<lparr>m_errorMessage := MessageDeleted_Message msg\<rparr>))
    (m\<lparr>m_sendingMessage := False\<rparr>)"

definition handleMessageEdited :: "ui_env \<Rightarrow> Frame \<Rightarrow> Model \<Rightarrow> ui_result" where
  "handleMessageEdited E frame m = on_decoded E (lit ''Failed to decode message edit'')
    (MessageEditedMessage_Decode MessageEditedMessage_zero (Frame_Payload frame)) (\<lambda>msg m.
      listening [] (if MessageEdited_Success msg
        then (applyMessageEdit (MessageEdited_MessageID msg) (MessageEdited_NewContent msg) (MessageEdited_EditedAt msg) m)
          \<lparr>m_statusMessage := lit ''Message edited''\<rparr>
        else m\<lparr>m_errorMessage := MessageEdited_Message msg\<rparr>))
    (m\<lparr>m_sendingMessage := False\<rparr>)"

section \<open>Presence\<close>

text \<open>The map of the entries of the users, the last entry of a session counting, and the last session with our nickname.\<close>

definition handleChannelUserList :: "ui_env \<Rightarrow> Frame \<Rightarrow> Model \<Rightarrow> ui_result" where
  "handleChannelUserList E frame = on_decoded E (lit ''Failed to decode CHANNEL_USER_LIST'')
    (ChannelUserListMessage_Decode ChannelUserListMessage_zero (Frame_Payload frame)) (\<lambda>msg m.
      let entry = (\<lambda>u. \<lparr>pe_SessionID = ChannelUserEntry_SessionID u, pe_Nickname = ChannelUserEntry_Nickname u,
            pe_IsRegistered = ChannelUserEntry_IsRegistered u, pe_UserID = ChannelUserEntry_UserID u,
            pe_UserFlags = ChannelUserEntry_UserFlags u\<rparr>);
          roster = fold (\<lambda>u. AList.update (ChannelUserEntry_SessionID u) (entry u)) (ChannelUserList_Users msg) [];
          m = m\<lparr>m_selfSessionID := fold (\<lambda>u self. if ChannelUserEntry_Nickname u = m_nickname m
            then Some (ChannelUserEntry_SessionID u) else self) (ChannelUserList_Users msg) (m_selfSessionID m)\<rparr>
      in listening [Emit ForceRenderMsg] (m\<lparr>m_channelRoster :=
        (if roster = [] then AList.delete (ChannelUserList_ChannelID msg) (m_channelRoster m)
         else AList.update (ChannelUserList_ChannelID msg) roster (m_channelRoster m))\<rparr>))"

definition handleChannelPresence :: "ui_env \<Rightarrow> Frame \<Rightarrow> Model \<Rightarrow> ui_result" where
  "handleChannelPresence E frame = on_decoded E (lit ''Failed to decode CHANNEL_PRESENCE'')
    (ChannelPresenceMessage_Decode ChannelPresenceMessage_zero (Frame_Payload frame)) (\<lambda>msg m.
      let channelID = ChannelPresence_ChannelID msg; sessionID = ChannelPresence_SessionID msg; joined = ChannelPresence_Joined msg;
          entry = \<lparr>pe_SessionID = sessionID, pe_Nickname = ChannelPresence_Nickname msg,
            pe_IsRegistered = ChannelPresence_IsRegistered msg, pe_UserID = ChannelPresence_UserID msg,
            pe_UserFlags = ChannelPresence_UserFlags msg\<rparr>;
          m = (if joined then upsertChannelPresence channelID entry m else removeChannelPresence channelID sessionID m);
          m = (if m_selfSessionID m \<noteq> Some sessionID then adjustChannelUserCount channelID (if joined then 1 else - 1) m else m);
          m = (case m_currentChannel m of None \<Rightarrow> m
            | Some c \<Rightarrow> if m_hasActiveChannel m \<and> m_activeChannelID m = channelID
                then m\<lparr>m_statusMessage := pe_Nickname entry @ lit '' has '' @ (if joined then lit ''joined'' else lit ''left'') @ 32 # Channel_Name c\<rparr>
                else m)
      in listening [Emit ForceRenderMsg] m)"

definition handleServerPresence :: "ui_env \<Rightarrow> Frame \<Rightarrow> Model \<Rightarrow> ui_result" where
  "handleServerPresence E frame = on_decoded E (lit ''Failed to decode SERVER_PRESENCE'')
    (ServerPresenceMessage_Decode ServerPresenceMessage_zero (Frame_Payload frame)) (\<lambda>msg m.
      listening [Emit ForceRenderMsg]
        (if ServerPresence_Online msg
         then upsertServerPresence \<lparr>pe_SessionID = ServerPresence_SessionID msg, pe_Nickname = ServerPresence_Nickname msg,
           pe_IsRegistered = ServerPresence_IsRegistered msg, pe_UserID = ServerPresence_UserID msg,
           pe_UserFlags = ServerPresence_UserFlags msg\<rparr> m
         else removeServerPresence (ServerPresence_SessionID msg) m))"

section \<open>Keys and administration\<close>

definition handleSSHKeyList :: "ui_env \<Rightarrow> Frame \<Rightarrow> Model \<Rightarrow> ui_result" where
  "handleSSHKeyList E frame = on_decoded E (lit ''Failed to decode SSH_KEY_LIST'')
    (SSHKeyListResponse_Decode SSHKeyListResponse_zero (Frame_Payload frame)) (\<lambda>msg m.
      listening [] (m\<lparr>m_modalStack := Push (SSHKeyManagerModal (SSHKeyList_Keys msg)) (m_modalStack m)\<rparr>))"

text \<open>An answer about keys, after which the list is asked for again.\<close>

definition ssh_key_answer :: "bool \<Rightarrow> gostring \<Rightarrow> gostring \<Rightarrow> Model \<Rightarrow> ui_result" where
  "ssh_key_answer success status why m =
    (if success then listening [sendListSSHKeys] (m\<lparr>m_statusMessage := status\<rparr>) else listening [] (m\<lparr>m_errorMessage := why\<rparr>))"

definition handleSSHKeyAdded :: "ui_env \<Rightarrow> Frame \<Rightarrow> Model \<Rightarrow> ui_result" where
  "handleSSHKeyAdded E frame = on_decoded E (lit ''Failed to decode SSH_KEY_ADDED'')
    (SSHKeyAddedResponse_Decode SSHKeyAddedResponse_zero (Frame_Payload frame)) (\<lambda>msg.
      ssh_key_answer (SSHKeyAdded_Success msg) (lit ''SSH key added: '' @ SSHKeyAdded_Fingerprint msg) (SSHKeyAdded_ErrorMessage msg))"

definition handleSSHKeyLabelUpdated :: "ui_env \<Rightarrow> Frame \<Rightarrow> Model \<Rightarrow> ui_result" where
  "handleSSHKeyLabelUpdated E frame = on_decoded E (lit ''Failed to decode SSH_KEY_LABEL_UPDATED'')
    (SSHKeyLabelUpdatedResponse_Decode SSHKeyLabelUpdatedResponse_zero (Frame_Payload frame)) (\<lambda>msg.
      ssh_key_answer (SSHKeyLabelUpdated_Success msg) (lit ''SSH key label updated'') (SSHKeyLabelUpdated_ErrorMessage msg))"

definition handleSSHKeyDeleted :: "ui_env \<Rightarrow> Frame \<Rightarrow> Model \<Rightarrow> ui_result" where
  "handleSSHKeyDeleted E frame = on_decoded E (lit ''Failed to decode SSH_KEY_DELETED'')
    (SSHKeyDeletedResponse_Decode SSHKeyDeletedResponse_zero (Frame_Payload frame)) (\<lambda>msg.
      ssh_key_answer (SSHKeyDeleted_Success msg) (lit ''SSH key deleted'') (SSHKeyDeleted_ErrorMessage msg))"

text \<open>An answer to an administrator: the dialog closes on success.\<close>

definition admin_answer :: "ModalType \<Rightarrow> bool \<Rightarrow> gostring \<Rightarrow> Model \<Rightarrow> ui_result" where
  "admin_answer t success message m =
    listening [] (if success then m\<lparr>m_statusMessage := message, m_modalStack := removeByType t (m_modalStack m)\<rparr>
      else m\<lparr>m_errorMessage := message\<rparr>)"

definition handleUserBanned :: "ui_env \<Rightarrow> Frame \<Rightarrow> Model \<Rightarrow> ui_result" where
  "handleUserBanned E frame = on_decoded E (lit ''Failed to decode USER_BANNED'')
    (UserBannedMessage_Decode UserBannedMessage_zero (Frame_Payload frame)) (\<lambda>msg.
      admin_answer ModalBanUser (UserBanned_Success msg) (UserBanned_Message msg))"

definition handleIPBanned :: "ui_env \<Rightarrow> Frame \<Rightarrow> Model \<Rightarrow> ui_result" where
  "handleIPBanned E frame = on_decoded E (lit ''Failed to decode IP_BANNED'')
    (IPBannedMessage_Decode IPBannedMessage_zero (Frame_Payload frame)) (\<lambda>msg.
      admin_answer ModalBanIP (IPBanned_Success msg) (IPBanned_Message msg))"

definition handleUserUnbanned :: "ui_env \<Rightarrow> Frame \<Rightarrow> Model \<Rightarrow> ui_result" where
  "handleUserUnbanned E frame = on_decoded E (lit ''Failed to decode USER_UNBANNED'')
    (UserUnbannedMessage_Decode UserUnbannedMessage_zero (Frame_Payload frame)) (\<lambda>msg.
      admin_answer ModalUnban (UserUnbanned_Success msg) (UserUnbanned_Message msg))"

definition handleIPUnbanned :: "ui_env \<Rightarrow> Frame \<Rightarrow> Model \<Rightarrow> ui_result" where
  "handleIPUnbanned E frame = on_decoded E (lit ''Failed to decode IP_UNBANNED'')
    (IPUnbannedMessage_Decode IPUnbannedMessage_zero (Frame_Payload frame)) (\<lambda>msg.
      admin_answer ModalUnban (IPUnbanned_Success msg) (IPUnbanned_Message msg))"

definition handleBanList :: "ui_env \<Rightarrow> Frame \<Rightarrow> Model \<Rightarrow> ui_result" where
  "handleBanList E frame = on_decoded E (lit ''Failed to decode BAN_LIST'')
    (BanListMessage_Decode BanListMessage_zero (Frame_Payload frame)) (\<lambda>msg m.
      listening [] (if TopType (m_modalStack m) = ModalViewBans
        then m\<lparr>m_modalStack := set_top (ViewBansModal (BanList_Bans msg)) (m_modalStack m)\<rparr> else m))"

definition handleUserList :: "ui_env \<Rightarrow> Frame \<Rightarrow> Model \<Rightarrow> ui_result" where
  "handleUserList E frame = on_decoded E (lit ''Failed to decode USER_LIST'')
    (UserListMessage_Decode UserListMessage_zero (Frame_Payload frame)) (\<lambda>msg m.
      let directory = fold (\<lambda>u d. case UserListEntry_UserID u of
            Some i \<Rightarrow> if UserListEntry_Nickname u \<noteq> [] then d(ue_ToLower E (UserListEntry_Nickname u) \<mapsto> i) else d
          | None \<Rightarrow> d) (UserList_Users msg) Map.empty;
          m = m\<lparr>m_userDirectory := directory\<rparr>
      in listening [] (if TopType (m_modalStack m) = ModalListUsers
        then m\<lparr>m_modalStack := set_top (ListUsersModal (UserList_Users msg)) (m_modalStack m)\<rparr> else m))"

definition handleUserDeleted :: "ui_env \<Rightarrow> Frame \<Rightarrow> Model \<Rightarrow> ui_result" where
  "handleUserDeleted E frame = on_decoded E (lit ''Failed to decode USER_DELETED'')
    (UserDeletedMessage_Decode UserDeletedMessage_zero (Frame_Payload frame)) (\<lambda>msg m.
      if UserDeleted_Success msg
      then listening [sendListUsers True] (m\<lparr>m_statusMessage := UserDeleted_Message msg,
        m_modalStack := removeByType ModalDeleteUser (m_modalStack m)\<rparr>)
      else listening [] (m\<lparr>m_errorMessage := UserDeleted_Message msg\<rparr>))"

section \<open>The dispatch\<close>

definition frame_handlers :: "(u8 \<times> (ui_env \<Rightarrow> Frame \<Rightarrow> Model \<Rightarrow> ui_result)) list" where
  "frame_handlers =
    [(TypeServerConfig, handleServerConfig), (TypeAuthResponse, handleAuthResponse), (TypeRegisterResponse, handleRegisterResponse),
     (TypeNicknameResponse, handleNicknameResponse), (TypeUserInfo, handleUserInfo), (TypeChannelList, handleChannelList),
     (TypeServerList, handleServerList), (TypeChannelCreated, handleChannelCreated), (TypeChannelDeleted, handleChannelDeleted),
     (TypeJoinResponse, handleJoinResponse), (TypeLeaveResponse, handleLeaveResponse), (TypeMessageList, handleMessageList),
     (TypeMessagePosted, handleMessagePosted), (TypeNewMessage, handleNewMessage), (TypeMessageEdited, handleMessageEdited),
     (TypeMessageDeleted, handleMessageDeleted), (TypeSubscribeOk, handleSubscribeOk), (TypeError, handleError_ui),
     (TypeSSHKeyList, handleSSHKeyList), (TypeSSHKeyAdded, handleSSHKeyAdded), (TypeSSHKeyLabelUpdated, handleSSHKeyLabelUpdated),
     (TypeSSHKeyDeleted, handleSSHKeyDeleted), (TypeUserBanned, handleUserBanned), (TypeIPBanned, handleIPBanned),
     (TypeUserUnbanned, handleUserUnbanned), (TypeIPUnbanned, handleIPUnbanned), (TypeBanList, handleBanList),
     (TypeUserList, handleUserList), (TypeUserDeleted, handleUserDeleted), (TypeDisconnect, handleDisconnect_ui),
     (TypeChannelUserList, handleChannelUserList), (TypeChannelPresence, handleChannelPresence),
     (TypeServerPresence, handleServerPresence), (TypeUnreadCounts, handleUnreadCounts)]"

definition handleServerFrame :: "ui_env \<Rightarrow> Frame option \<Rightarrow> Model \<Rightarrow> ui_result" where
  "handleServerFrame E frame m =
    (case frame of None \<Rightarrow> listening [] m
     | Some f \<Rightarrow> (case map_of frame_handlers (Frame_Type f) of Some handle \<Rightarrow> handle E f m | None \<Rightarrow> listening [] m))"

end
