(* ===== verification/UiModals.thy ===== *)
theory UiModals imports UiMessages begin

text \<open>
  The keys of the dialogs, "pkg/client/ui/modal", and the functions of "model.go" that open them. HandleKey gives whether the key was
  handled, the dialog that is to be there afterwards (None closes it), and a command. Every dialog blocks the keys it does not handle. A text is cut
  and extended by bytes, as the code does.
\<close>

type_synonym key_answer = "bool \<times> modal option \<times> ui_cmd list"

definition stays :: "modal \<Rightarrow> key_answer" where
  "stays m = (True, Some m, [])"

definition closes :: "ui_cmd list \<Rightarrow> key_answer" where
  "closes cmds = (True, None, cmds)"

definition pressed :: "keypress \<Rightarrow> string list \<Rightarrow> bool" where
  "pressed k names \<longleftrightarrow> key_String k \<in> set (map lit names)"

section \<open>Accounts\<close>

definition PasswordAuth_HandleKey :: "ui_env \<Rightarrow> keypress \<Rightarrow> gostring \<Rightarrow> bytes \<Rightarrow> gostring \<Rightarrow> gotime \<Rightarrow> bool \<Rightarrow> key_answer" where
  "PasswordAuth_HandleKey E k nickname input e cooldown busy =
    (if pressed k [''enter'']
     then
       (if ue_now E < cooldown then stays (PasswordAuthModal nickname input e cooldown busy)
        else if input = [] then stays (PasswordAuthModal nickname input (lit ''Password cannot be empty'') cooldown busy)
        else (True, Some (PasswordAuthModal nickname input e cooldown True), [sendAuthRequest (ue_HashPassword E) nickname input]))
     else if pressed k [''esc''] then closes [Emit (GoAnonymousMsg nickname)]
     else if pressed k [''backspace''] then stays (PasswordAuthModal nickname (butlast input) e cooldown busy)
     else if busy then stays (PasswordAuthModal nickname input e cooldown busy)
     else (case key_Runes k of Some r \<Rightarrow> stays (PasswordAuthModal nickname (input @ r) e cooldown busy)
       | None \<Rightarrow> stays (PasswordAuthModal nickname input e cooldown busy)))"

definition Registration_HandleKey :: "ui_env \<Rightarrow> keypress \<Rightarrow> gostring \<Rightarrow> bytes \<Rightarrow> bytes \<Rightarrow> bool \<Rightarrow> gostring \<Rightarrow> key_answer" where
  "Registration_HandleKey E k nickname password confirm confirming e =
    (if pressed k [''tab''] then stays (RegistrationModal nickname password confirm (\<not> confirming) e)
     else if pressed k [''enter'']
     then
       (if length password < 8
        then stays (RegistrationModal nickname password confirm confirming (lit ''Password must be at least 8 characters''))
        else if password \<noteq> confirm
        then stays (RegistrationModal nickname password confirm confirming (lit ''Passwords do not match''))
        else closes [sendRegisterUser (ue_HashPassword E) nickname password])
     else if pressed k [''esc''] then closes []
     else if pressed k [''backspace'']
     then stays (if confirming then RegistrationModal nickname password (butlast confirm) confirming e
       else RegistrationModal nickname (butlast password) confirm confirming e)
     else (case key_Runes k of
         Some r \<Rightarrow> stays (if confirming then RegistrationModal nickname password (confirm @ r) confirming e
           else RegistrationModal nickname (password @ r) confirm confirming e)
       | None \<Rightarrow> stays (RegistrationModal nickname password confirm confirming e)))"

text \<open>The two uses of the dialog for a nickname: to change it, and to go anonymous under a new one.\<close>

definition nickname_confirmed :: "bool \<Rightarrow> gostring \<Rightarrow> ui_cmd list" where
  "nickname_confirmed goAnonymous newNickname =
    (if goAnonymous
     then [StateSetUserID None, StateSetLastNickname newNickname, sendLogout, sendSetNicknameWith newNickname]
     else [StateSetLastNickname newNickname, sendSetNicknameWith newNickname, sendGetUserInfo newNickname])"

definition NicknameChange_HandleKey :: "keypress \<Rightarrow> bool \<Rightarrow> gostring \<Rightarrow> gostring \<Rightarrow> gostring \<Rightarrow> key_answer" where
  "NicknameChange_HandleKey k goAnonymous current input e =
    (if pressed k [''enter'']
     then
       (if input = [] then stays (NicknameChangeModal goAnonymous current input (lit ''Nickname cannot be empty''))
        else if input = current then stays (NicknameChangeModal goAnonymous current input (lit ''That'' @ 39 # lit ''s already your nickname''))
        else closes (nickname_confirmed goAnonymous input))
     else if pressed k [''esc''] then closes []
     else if pressed k [''backspace''] then stays (NicknameChangeModal goAnonymous current (butlast input) e)
     else (case key_Runes k of
         Some r \<Rightarrow> stays (NicknameChangeModal goAnonymous current (if length input < 20 then input @ r else input) e)
       | None \<Rightarrow> stays (NicknameChangeModal goAnonymous current input e)))"

definition NicknameSetup_HandleKey :: "keypress \<Rightarrow> bool \<Rightarrow> gostring \<Rightarrow> gostring \<Rightarrow> key_answer" where
  "NicknameSetup_HandleKey k firstRun input e =
    (if pressed k [''enter'']
     then
       (if length input < 3 then stays (NicknameSetupModal firstRun input (lit ''Nickname must be at least 3 characters''))
        else closes ([StateSetLastNickname input] @ (if firstRun then [StateSetFirstRunComplete] else []) @
          [sendSetNicknameWith input, sendGetUserInfo input]))
     else if pressed k [''esc''] then closes [Quit]
     else if pressed k [''backspace''] then stays (NicknameSetupModal firstRun (butlast input) e)
     else if length (key_String k) = 1 \<and> length input < 20 then stays (NicknameSetupModal firstRun (input @ key_String k) e)
     else stays (NicknameSetupModal firstRun input e))"

section \<open>Messages\<close>

definition DeleteConfirm_HandleKey :: "keypress \<Rightarrow> u64 \<Rightarrow> u64 option \<Rightarrow> key_answer" where
  "DeleteConfirm_HandleKey k messageID listening_at =
    (if pressed k [''y'', ''enter'']
     then closes ((case listening_at of Some g \<Rightarrow> [Listen g] | None \<Rightarrow> []) @ [sendDeleteMessage messageID])
     else if pressed k [''n'', ''esc''] then closes []
     else stays (DeleteConfirmModal messageID listening_at))"

definition compose_sent :: "ComposeMode \<Rightarrow> u64 option \<Rightarrow> u64 option \<Rightarrow> u64 option \<Rightarrow> gostring \<Rightarrow> ui_cmd list" where
  "compose_sent mode channel parent messageID content =
    (if mode = ComposeModeEdit then (case messageID of Some i \<Rightarrow> [sendEditMessage i content] | None \<Rightarrow> [])
     else (case channel of Some c \<Rightarrow> [sendPostMessage c parent content] | None \<Rightarrow> []))"

definition Compose_HandleKey :: "keypress \<Rightarrow> ComposeMode \<Rightarrow> gostring \<Rightarrow> u64 option \<Rightarrow> u64 option \<Rightarrow> u64 option \<Rightarrow> key_answer" where
  "Compose_HandleKey k mode input channel parent messageID =
    (if pressed k [''ctrl+d'', ''ctrl+enter'']
     then (if input = [] then stays (ComposeModal mode input channel parent messageID)
       else closes (compose_sent mode channel parent messageID input))
     else if pressed k [''esc''] then closes []
     else if pressed k [''backspace''] then stays (ComposeModal mode (butlast input) channel parent messageID)
     else if pressed k [''enter''] then stays (ComposeModal mode (input @ [10]) channel parent messageID)
     else if pressed k ['' ''] then stays (ComposeModal mode (input @ [32]) channel parent messageID)
     else (case key_Runes k of Some r \<Rightarrow> stays (ComposeModal mode (input @ r) channel parent messageID)
       | None \<Rightarrow> stays (ComposeModal mode input channel parent messageID)))"

text \<open>What the four options return; a dialog that onProceed or "Register first" opens is opened on the copy.\<close>

definition warning_choice :: "int \<Rightarrow> ui_cmd list \<Rightarrow> ui_cmd list" where
  "warning_choice choice proceed =
    (if choice = 0 then StateSetFirstPostWarningDismissed # proceed else if choice = 1 then proceed else [])"

definition RegistrationWarning_HandleKey :: "keypress \<Rightarrow> int \<Rightarrow> ui_cmd list \<Rightarrow> key_answer" where
  "RegistrationWarning_HandleKey k selected proceed =
    (if pressed k [''up'', ''k''] then stays (RegistrationWarningModal (if selected > 0 then selected - 1 else selected) proceed)
     else if pressed k [''down'', ''j''] then stays (RegistrationWarningModal (if selected < 3 then selected + 1 else selected) proceed)
     else if pressed k [''enter''] then closes (warning_choice selected proceed)
     else if pressed k [''esc''] then closes []
     else if pressed k [''1''] then closes (warning_choice 0 proceed)
     else if pressed k [''2''] then closes (warning_choice 1 proceed)
     else if pressed k [''3''] then closes (warning_choice 2 proceed)
     else stays (RegistrationWarningModal selected proceed))"

section \<open>Servers and connections\<close>

definition custom_server :: ServerInfo where
  "custom_server = \<lparr>ServerInfo_Hostname = lit ''__custom__'', ServerInfo_Port = 0, ServerInfo_Name = lit ''Enter custom server address'',
     ServerInfo_Description = lit ''Connect to a server not listed above'', ServerInfo_UserCount = 0, ServerInfo_MaxUsers = 0,
     ServerInfo_UptimeSeconds = 0, ServerInfo_IsPublic = False, ServerInfo_ChannelCount = 0\<rparr>"

definition ServerSelector_HandleKey :: "keypress \<Rightarrow> ServerInfo list \<Rightarrow> int \<Rightarrow> bool \<Rightarrow> gostring \<Rightarrow> gostring option \<Rightarrow> key_answer" where
  "ServerSelector_HandleKey k servers cursor loading e custom =
    (let same = ServerSelectorModal servers cursor loading e custom; merged = servers @ [custom_server] in
     case custom of
       Some input \<Rightarrow>
        if pressed k [''esc''] then stays (ServerSelectorModal servers cursor loading e None)
        else if pressed k [''enter''] then (if input \<noteq> [] then closes [Emit (CustomServerInputMsg input)] else stays same)
        else if pressed k [''backspace''] then stays (ServerSelectorModal servers cursor loading e (Some (butlast input)))
        else if length (key_String k) = 1 then stays (ServerSelectorModal servers cursor loading e (Some (input @ key_String k)))
        else stays same
     | None \<Rightarrow>
        if pressed k [''esc'', ''q''] then closes [Emit ServerSelectorCancelledMsg]
        else if loading \<or> e \<noteq> []
        then stays (if pressed k [''c''] then ServerSelectorModal servers cursor loading e (Some []) else same)
        else if pressed k [''up'', ''k''] then stays (ServerSelectorModal servers (if cursor > 0 then cursor - 1 else cursor) loading e None)
        else if pressed k [''down'', ''j'']
        then stays (ServerSelectorModal servers (if cursor < int (length merged) - 1 then cursor + 1 else cursor) loading e None)
        else if pressed k [''enter''] \<and> 0 \<le> cursor \<and> cursor < int (length merged)
        then
          (let server = merged ! nat cursor in
           if ServerInfo_Hostname server = lit ''__custom__'' then stays (ServerSelectorModal servers cursor loading e (Some []))
           else closes [Emit (ServerSelectedMsg server)])
        else stays same)"

definition ConnectionFailed_HandleKey :: "keypress \<Rightarrow> gostring \<Rightarrow> gostring \<Rightarrow> int \<Rightarrow> key_answer" where
  "ConnectionFailed_HandleKey k addr e cursor =
    (if pressed k [''up'', ''k''] then stays (ConnectionFailedModal addr e (if cursor > 0 then cursor - 1 else cursor))
     else if pressed k [''down'', ''j''] then stays (ConnectionFailedModal addr e (if cursor < 3 then cursor + 1 else cursor))
     else if pressed k [''r''] \<or> pressed k [''enter''] \<and> cursor = 0 then closes [Emit ConnectionFailedRetryMsg]
     else if pressed k [''m''] \<or> pressed k [''enter''] \<and> cursor = 1 then closes [Emit ConnectionFailedTryMethodMsg]
     else if pressed k [''s'', ''ctrl+l''] \<or> pressed k [''enter''] \<and> cursor = 2 then closes [Emit ConnectionFailedSwitchServerMsg]
     else if pressed k [''q'', ''esc''] \<or> pressed k [''enter''] \<and> cursor = 3 then closes [Quit]
     else stays (ConnectionFailedModal addr e cursor))"

definition NewConnectionMethodModal :: "ConnectionMethod \<Rightarrow> modal" where
  "NewConnectionMethodModal failedMethod = ConnectionMethodModal
    (case failedMethod of MethodTCP \<Rightarrow> [MethodWebSocket, MethodSSH] | MethodSSH \<Rightarrow> [MethodTCP, MethodWebSocket]
     | MethodWebSocket \<Rightarrow> [MethodTCP, MethodSSH]) 0"

definition ConnectionMethod_HandleKey :: "keypress \<Rightarrow> ConnectionMethod list \<Rightarrow> int \<Rightarrow> key_answer" where
  "ConnectionMethod_HandleKey k methods cursor =
    (if pressed k [''up'', ''k''] then stays (ConnectionMethodModal methods (if cursor > 0 then cursor - 1 else cursor))
     else if pressed k [''down'', ''j'']
     then stays (ConnectionMethodModal methods (if cursor < int (length methods) - 1 then cursor + 1 else cursor))
     else if pressed k [''enter''] then closes [Emit (ConnectionMethodSelectedMsg (methods ! nat cursor))]
     else if pressed k [''esc'', ''q''] then closes [Emit ConnectionMethodCancelledMsg]
     else (False, Some (ConnectionMethodModal methods cursor), []))"

section \<open>The palette\<close>

definition updateFilter :: "(gostring \<Rightarrow> gostring) \<Rightarrow> gostring list \<Rightarrow> gostring \<Rightarrow> modal" where
  "updateFilter lower available input =
    (let prefixed = filter (\<lambda>c. HasPrefix (lower c) (lower input)) available in
     CommandPaletteModal available input
       (if input = [] then available else if prefixed \<noteq> [] then prefixed
        else filter (\<lambda>c. strings_Contains (lower c) (lower input)) available) 0)"

definition CommandPalette_HandleKey :: "ui_env \<Rightarrow> keypress \<Rightarrow> gostring list \<Rightarrow> gostring \<Rightarrow> gostring list \<Rightarrow> int \<Rightarrow> key_answer" where
  "CommandPalette_HandleKey E k available input filtered cursor =
    (if pressed k [''enter'']
     then (if filtered \<noteq> [] \<and> cursor < int (length filtered) then closes [Emit (ExecuteCommandMsg (filtered ! nat cursor))] else closes [])
     else if pressed k [''esc''] then closes []
     else if pressed k [''up'', ''ctrl+p''] then stays (CommandPaletteModal available input filtered (if cursor > 0 then cursor - 1 else cursor))
     else if pressed k [''down'', ''ctrl+n'']
     then stays (CommandPaletteModal available input filtered (if cursor < int (length filtered) - 1 then cursor + 1 else cursor))
     else if pressed k [''backspace'']
     then stays (if input \<noteq> [] then updateFilter (ue_ToLower E) available (butlast input) else CommandPaletteModal available input filtered cursor)
     else (case key_Runes k of Some r \<Rightarrow> stays (updateFilter (ue_ToLower E) available (input @ r))
       | None \<Rightarrow> stays (CommandPaletteModal available input filtered cursor)))"

section \<open>Any dialog\<close>

fun HandleKey :: "ui_env \<Rightarrow> keypress \<Rightarrow> modal \<Rightarrow> key_answer" where
  "HandleKey E k (PasswordAuthModal nickname input e cooldown busy) = PasswordAuth_HandleKey E k nickname input e cooldown busy"
| "HandleKey E k (RegistrationModal nickname password confirm confirming e) = Registration_HandleKey E k nickname password confirm confirming e"
| "HandleKey E k (NicknameChangeModal goAnonymous current input e) = NicknameChange_HandleKey k goAnonymous current input e"
| "HandleKey E k (NicknameSetupModal firstRun input e) = NicknameSetup_HandleKey k firstRun input e"
| "HandleKey E k (DeleteConfirmModal messageID g) = DeleteConfirm_HandleKey k messageID g"
| "HandleKey E k HelpModal = (if pressed k [''h'', ''?'', ''esc''] then closes [] else stays HelpModal)"
| "HandleKey E k (ComposeModal mode input channel parent messageID) = Compose_HandleKey k mode input channel parent messageID"
| "HandleKey E k (RegistrationWarningModal selected proceed) = RegistrationWarning_HandleKey k selected proceed"
| "HandleKey E k (ServerSelectorModal servers cursor loading e custom) = ServerSelector_HandleKey k servers cursor loading e custom"
| "HandleKey E k (ConnectionFailedModal addr e cursor) = ConnectionFailed_HandleKey k addr e cursor"
| "HandleKey E k (ConnectionMethodModal methods cursor) = ConnectionMethod_HandleKey k methods cursor"
| "HandleKey E k (CommandPaletteModal available input filtered cursor) = CommandPalette_HandleKey E k available input filtered cursor"
| "HandleKey E k m = (case ue_Dialog E k m of (m', cmds) \<Rightarrow> (True, m', cmds))"

section \<open>Opening a dialog\<close>

definition open_modal :: "modal \<Rightarrow> Model \<Rightarrow> Model" where
  "open_modal d m = m\<lparr>m_modalStack := Push d (m_modalStack m)\<rparr>"

definition showRegistrationModal :: "Model \<Rightarrow> Model" where
  "showRegistrationModal m = open_modal (RegistrationModal (m_nickname m) [] [] False []) m"

definition showNicknameChangeModal :: "Model \<Rightarrow> Model" where
  "showNicknameChangeModal m = open_modal (NicknameChangeModal False (m_nickname m) (m_nickname m) []) m"

definition showGoAnonymousModal :: "Model \<Rightarrow> Model" where
  "showGoAnonymousModal m = open_modal (NicknameChangeModal True [] [] []) m"

definition showComposeModal :: "ComposeMode \<Rightarrow> gostring \<Rightarrow> Model \<Rightarrow> Model" where
  "showComposeModal mode content m = open_modal
    (ComposeModal mode content (map_option Channel_ID (m_currentChannel m)) (m_composeParentID m) (m_composeMessageID m)) m"

definition showNicknameSetupModal :: "Model \<Rightarrow> Model" where
  "showNicknameSetupModal m = open_modal (NicknameSetupModal (m_firstRun m) (m_nickname m) []) m"

definition showSSHKeyManagerModal :: "SSHKeyInfo list \<Rightarrow> Model \<Rightarrow> Model" where
  "showSSHKeyManagerModal keys m = open_modal (SSHKeyManagerModal keys) m"

definition showCreateChannelModal :: "Model \<Rightarrow> Model" where
  "showCreateChannelModal m = open_modal (Dialog ModalCreateChannel) m"

definition showRegistrationWarningModal :: "ui_cmd list \<Rightarrow> Model \<Rightarrow> Model" where
  "showRegistrationWarningModal proceed m = open_modal (RegistrationWarningModal 0 proceed) m"

definition shouldShowRegistrationWarning :: "ui_env \<Rightarrow> Model \<Rightarrow> bool" where
  "shouldShowRegistrationWarning E m \<longleftrightarrow>
    \<not> (m_authState m = AuthStateAuthenticated \<and> m_userID m \<noteq> None) \<and> \<not> ue_dismissed E \<and> \<not> m_firstPostWarningAsked m"

text \<open>onProceed opens the dialog on the copy: nothing comes of it.\<close>

definition showComposeWithWarning :: "ui_env \<Rightarrow> ComposeMode \<Rightarrow> gostring \<Rightarrow> Model \<Rightarrow> Model" where
  "showComposeWithWarning E mode content m =
    (if shouldShowRegistrationWarning E m then showRegistrationWarningModal [] m else showComposeModal mode content m)"

definition showAdminPanel :: "Model \<Rightarrow> Model" where
  "showAdminPanel m = (if isAdmin_ui m then open_modal (Dialog ModalAdminPanel) m else m)"

definition showCommandPalette :: "gostring list \<Rightarrow> Model \<Rightarrow> Model" where
  "showCommandPalette names m = open_modal (CommandPaletteModal names [] names 0) m"

end
