(* ===== verification/UiKeys.thy ===== *)
theory UiKeys imports UiModals begin

text \<open>
  The keys of the terminal client: the commands shared with the graphical client ("pkg/client/commands/shared.go") and their actions
  ("command_executor.go"), the registry of older commands ("model.go", "ui/commands/registry.go"), the handlers of each view, and
  handleKeyPress, which tries them in that order. What a command is called and its help are left out, but for the names the palette
  runs a registered command by.
\<close>

section \<open>Shared actions\<close>

datatype action_id =
    ActionHelp | ActionQuit | ActionServerList | ActionNavigateUp | ActionNavigateDown | ActionSelect | ActionGoBack
  | ActionComposeNewThread | ActionComposeReply | ActionSendMessage | ActionEditMessage | ActionDeleteMessage
  | ActionAdminPanel | ActionCreateChannel

definition navigateUp :: "Model \<Rightarrow> Model" where
  "navigateUp m = (case m_currentView m of
       ViewChannelList \<Rightarrow> if m_channelCursor m > 0 then m\<lparr>m_channelCursor := m_channelCursor m - 1\<rparr> else m
     | ViewThreadList \<Rightarrow> if m_threadCursor m > 0 then m\<lparr>m_threadCursor := m_threadCursor m - 1\<rparr> else m
     | ViewThreadView \<Rightarrow> if m_replyCursor m > 0 then m\<lparr>m_replyCursor := m_replyCursor m - 1\<rparr> else m
     | _ \<Rightarrow> m)"

definition navigateDown :: "Model \<Rightarrow> Model" where
  "navigateDown m = (case m_currentView m of
       ViewChannelList \<Rightarrow> if m_channelCursor m < int (length (m_channels m)) - 1 then m\<lparr>m_channelCursor := m_channelCursor m + 1\<rparr> else m
     | ViewThreadList \<Rightarrow> if m_threadCursor m < int (length (m_threads m)) - 1 then m\<lparr>m_threadCursor := m_threadCursor m + 1\<rparr> else m
     | ViewThreadView \<Rightarrow> if m_replyCursor m < int (length (m_threadReplies m)) then m\<lparr>m_replyCursor := m_replyCursor m + 1\<rparr> else m
     | _ \<Rightarrow> m)"

definition selectCurrentChannel :: "Model \<Rightarrow> Model \<times> ui_cmd list" where
  "selectCurrentChannel m =
    (if 0 \<le> m_channelCursor m \<and> m_channelCursor m < int (length (m_channels m))
     then
       (let ch = m_channels m ! nat (m_channelCursor m);
            m = m\<lparr>m_currentChannel := Some ch, m_currentView := (if Channel_Type ch = 0 then ViewChatChannel else ViewThreadList)\<rparr>
        in (m, [sendJoinChannel (Channel_ID ch), sendSubscribeChannel (Channel_ID ch),
          if Channel_Type ch = 0 then requestChatMessages (Channel_ID ch) else requestThreadList (Channel_ID ch) m]))
     else (m, []))"

definition selectCurrentThread :: "Model \<Rightarrow> Model \<times> ui_cmd list" where
  "selectCurrentThread m =
    (if 0 \<le> m_threadCursor m \<and> m_threadCursor m < int (length (m_threads m))
     then
       (let thread = m_threads m ! nat (m_threadCursor m);
            m = m\<lparr>m_currentThread := Some thread, m_currentView := ViewThreadView, m_replyCursor := 0\<rparr>
        in (m, [requestThreadReplies (Message_ID thread) m]))
     else (m, []))"

definition selectItem :: "Model \<Rightarrow> Model \<times> ui_cmd list" where
  "selectItem m = (case m_currentView m of ViewChannelList \<Rightarrow> selectCurrentChannel m
     | ViewThreadList \<Rightarrow> selectCurrentThread m | _ \<Rightarrow> (m, []))"

definition goBack :: "Model \<Rightarrow> Model \<times> ui_cmd list" where
  "goBack m =
    (if Top (m_modalStack m) \<noteq> None then (m\<lparr>m_modalStack := Pop (m_modalStack m)\<rparr>, [])
     else
       (case m_currentView m of
          ViewThreadView \<Rightarrow> (m\<lparr>m_currentView := ViewThreadList, m_currentThread := None, m_threadReplies := [],
            m_repliesCached := None, m_replyCursor := 0\<rparr>, [])
        | v \<Rightarrow>
          if v = ViewThreadList \<or> v = ViewChatChannel
          then (m\<lparr>m_currentView := ViewChannelList, m_currentChannel := None\<rparr>,
            if m_hasActiveChannel m then [sendLeaveChannel (m_activeChannelID m)] else [])
          else (m, [])))"

definition openNewThreadCompose :: "Model \<Rightarrow> Model" where
  "openNewThreadCompose m =
    (if m_currentChannel m = None then m
     else showComposeModal ComposeModeNewThread [] (m\<lparr>m_composeParentID := None, m_composeMessageID := None\<rparr>))"

definition openReplyCompose :: "Model \<Rightarrow> Model" where
  "openReplyCompose m = (case selectedMessage m of None \<Rightarrow> m
     | Some msg \<Rightarrow> showComposeModal ComposeModeReply [] (m\<lparr>m_composeParentID := Some (Message_ID msg), m_composeMessageID := None\<rparr>))"

definition openEditMessage :: "Model \<Rightarrow> Model" where
  "openEditMessage m = (case selectedMessage m of None \<Rightarrow> m
     | Some msg \<Rightarrow> showComposeModal ComposeModeEdit (Message_Content msg)
         (m\<lparr>m_composeParentID := None, m_composeMessageID := Some (Message_ID msg)\<rparr>))"

definition deleteMessage_ui :: "Model \<Rightarrow> Model" where
  "deleteMessage_ui m = (case selectedMessage m of None \<Rightarrow> m | Some msg \<Rightarrow> open_modal (DeleteConfirmModal (Message_ID msg) None) m)"

text \<open>"IsAdmin" of the executor looks at the flags alone.\<close>

definition ExecuteActionWithReturn :: "action_id \<Rightarrow> Model \<Rightarrow> Model \<times> ui_cmd list" where
  "ExecuteActionWithReturn a m = (case a of
       ActionHelp \<Rightarrow> (open_modal HelpModal m, [])
     | ActionQuit \<Rightarrow> (m, [Quit])
     | ActionServerList \<Rightarrow> (open_modal (ServerSelectorModal (m_availableServers m) 0 False [] None) m, [])
     | ActionNavigateUp \<Rightarrow> (navigateUp m, [])
     | ActionNavigateDown \<Rightarrow> (navigateDown m, [])
     | ActionSelect \<Rightarrow> selectItem m
     | ActionGoBack \<Rightarrow> goBack m
     | ActionComposeNewThread \<Rightarrow> (openNewThreadCompose m, [])
     | ActionComposeReply \<Rightarrow> (openReplyCompose m, [])
     | ActionEditMessage \<Rightarrow> (openEditMessage m, [])
     | ActionDeleteMessage \<Rightarrow> (deleteMessage_ui m, [])
     | ActionAdminPanel \<Rightarrow> (if IsAdmin (m_userFlags m) then showAdminPanel m else m, [])
     | ActionCreateChannel \<Rightarrow> (if IsAdmin (m_userFlags m) then showCreateChannelModal m else m, [])
     | ActionSendMessage \<Rightarrow> (m, []))"

section \<open>Shared commands\<close>

datatype CommandScope = ScopeGlobal | ScopeView | ScopeModal

record CommandDefinition =
  cd_Keys :: "gostring list"
  cd_Scope :: CommandScope
  cd_ViewStates :: "ViewState list"
  cd_ModalStates :: "ModalType list"
  cd_ActionID :: action_id
  cd_IsAvailable :: "Model \<Rightarrow> bool"

text \<open>The dialog as the shared commands know it; the others count as none.\<close>

definition GetActiveModal :: "Model \<Rightarrow> ModalType" where
  "GetActiveModal m = (let t = TopType (m_modalStack m) in
     if t \<in> {ModalCompose, ModalHelp, ModalServerSelector, ModalAdminPanel, ModalCreateChannel, ModalNicknameSetup, ModalPasswordAuth,
       ModalRegistration, ModalDeleteConfirm} then t else ModalNone)"

definition command :: "string list \<Rightarrow> CommandScope \<Rightarrow> ViewState list \<Rightarrow> ModalType list \<Rightarrow> action_id \<Rightarrow> (Model \<Rightarrow> bool) \<Rightarrow> CommandDefinition" where
  "command keys scope views modals action available = \<lparr>cd_Keys = map lit keys, cd_Scope = scope, cd_ViewStates = views,
     cd_ModalStates = modals, cd_ActionID = action, cd_IsAvailable = available\<rparr>"

definition SharedCommands :: "CommandDefinition list" where
  "SharedCommands =
    [command [''h'', ''?''] ScopeGlobal [] [ModalNone] ActionHelp (\<lambda>m. True),
     command [''q''] ScopeGlobal [] [ModalNone] ActionQuit (\<lambda>m. True),
     command [''ctrl+l''] ScopeGlobal [] [] ActionServerList (\<lambda>m. True),
     command [''up'', ''k''] ScopeView [ViewChannelList, ViewThreadList, ViewThreadView] [ModalNone] ActionNavigateUp (\<lambda>m. True),
     command [''down'', ''j''] ScopeView [ViewChannelList, ViewThreadList, ViewThreadView] [ModalNone] ActionNavigateDown (\<lambda>m. True),
     command [''enter''] ScopeView [ViewChannelList, ViewThreadList] [ModalNone] ActionSelect (\<lambda>m. True),
     command [''esc''] ScopeGlobal [] [] ActionGoBack (\<lambda>m. GetActiveModal m \<noteq> ModalNone \<or> m_currentView m \<noteq> ViewChannelList),
     command [''n''] ScopeView [ViewThreadList] [ModalNone] ActionComposeNewThread (\<lambda>m. m_currentChannel m \<noteq> None),
     command [''r''] ScopeView [ViewThreadView] [ModalNone] ActionComposeReply (\<lambda>m. m_currentThread m \<noteq> None),
     command [''ctrl+d'', ''ctrl+enter''] ScopeModal [] [ModalCompose] ActionSendMessage (\<lambda>m. TopType (m_modalStack m) = ModalCompose),
     command [''e''] ScopeView [ViewThreadView] [ModalNone] ActionEditMessage (\<lambda>m. m_currentThread m \<noteq> None),
     command [''d''] ScopeView [ViewThreadView] [ModalNone] ActionDeleteMessage (\<lambda>m. m_currentThread m \<noteq> None),
     command [''a''] ScopeGlobal [] [ModalNone] ActionAdminPanel (\<lambda>m. IsAdmin (m_userFlags m)),
     command [''c''] ScopeView [ViewChannelList] [ModalNone] ActionCreateChannel (\<lambda>m. IsAdmin (m_userFlags m))]"

definition isCommandAvailable :: "CommandDefinition \<Rightarrow> Model \<Rightarrow> bool" where
  "isCommandAvailable cmd m \<longleftrightarrow>
    (cd_ModalStates cmd = [] \<or> GetActiveModal m \<in> set (cd_ModalStates cmd)) \<and>
    (cd_Scope cmd = ScopeView \<longrightarrow> cd_ViewStates cmd = [] \<or> m_currentView m \<in> set (cd_ViewStates cmd)) \<and>
    cd_IsAvailable cmd m"

definition keyMatches :: "(gostring \<Rightarrow> gostring) \<Rightarrow> gostring \<Rightarrow> gostring list \<Rightarrow> bool" where
  "keyMatches lower key keys \<longleftrightarrow> lower key \<in> lower ` set keys"

definition FindCommandForKey :: "(gostring \<Rightarrow> gostring) \<Rightarrow> gostring \<Rightarrow> Model \<Rightarrow> CommandDefinition option" where
  "FindCommandForKey lower key m = List.find (\<lambda>cmd. keyMatches lower key (cd_Keys cmd) \<and> isCommandAvailable cmd m) SharedCommands"

end
