(* ===== verification/UiRegistry.thy ===== *)
theory UiRegistry imports UiKeys "HOL-Library.List_Lexorder" begin

text \<open>
  The registry of commands ("registerCommands" of "pkg/client/ui/model.go", "ui/commands/registry.go"), the keys of each view
  and handleKeyPress ("update.go").
\<close>

section \<open>Moving and opening\<close>

definition reply_up :: "Model \<Rightarrow> Model" where
  "reply_up m = (if m_replyCursor m > 0 then markCurrentMessageAsRead (m\<lparr>m_replyCursor := m_replyCursor m - 1\<rparr>) else m)"

definition reply_down :: "Model \<Rightarrow> Model" where
  "reply_down m = (if m_replyCursor m < int (length (m_threadReplies m))
     then markCurrentMessageAsRead (m\<lparr>m_replyCursor := m_replyCursor m + 1\<rparr>) else m)"

definition reply_down_loading :: "Model \<Rightarrow> Model \<times> ui_cmd list" where
  "reply_down_loading m =
    (let m' = reply_down m in
     if m_replyCursor m < int (length (m_threadReplies m)) \<and> \<not> m_loadingMoreReplies m' \<and> \<not> m_allRepliesLoaded m' \<and>
        m_threadReplies m' \<noteq> [] \<and> int (length (m_threadReplies m')) - m_replyCursor m' \<le> 3
     then (m'\<lparr>m_loadingMoreReplies := True\<rparr>, loadMoreReplies m') else (m', []))"

text \<open>More threads are asked for within 25 of the end.\<close>

definition more_threads :: "Model \<Rightarrow> Model \<times> ui_cmd list" where
  "more_threads m =
    (if \<not> m_loadingMore m \<and> \<not> m_allThreadsLoaded m \<and> m_threads m \<noteq> [] \<and> int (length (m_threads m)) - m_threadCursor m - 1 \<le> 25
     then (m\<lparr>m_loadingMore := True\<rparr>, loadMoreThreads m) else (m, []))"

definition thread_up :: "Model \<Rightarrow> Model" where
  "thread_up m = (if m_threadCursor m > 0 then m\<lparr>m_threadCursor := m_threadCursor m - 1\<rparr> else m)"

definition thread_down :: "Model \<Rightarrow> Model \<times> ui_cmd list" where
  "thread_down m = (if m_threadCursor m < int (length (m_threads m)) - 1
     then more_threads (m\<lparr>m_threadCursor := m_threadCursor m + 1\<rparr>) else (m, []))"

definition page_jump :: "Model \<Rightarrow> int" where
  "page_jump m = max 1 (quot (m_threadListHeight m) 2)"

definition thread_page_up :: "Model \<Rightarrow> Model" where
  "thread_page_up m = m\<lparr>m_threadCursor := max 0 (m_threadCursor m - page_jump m)\<rparr>"

definition thread_page_down :: "Model \<Rightarrow> Model \<times> ui_cmd list" where
  "thread_page_down m =
    (let cursor = m_threadCursor m + page_jump m in
     more_threads (m\<lparr>m_threadCursor := (if cursor \<ge> int (length (m_threads m)) then int (length (m_threads m)) - 1 else cursor)\<rparr>))"

definition channel_up :: "Model \<Rightarrow> Model" where
  "channel_up m = (if m_channelCursor m > 0 then m\<lparr>m_channelCursor := m_channelCursor m - 1\<rparr> else m)"

definition channel_down :: "Model \<Rightarrow> Model" where
  "channel_down m = (if m_channelCursor m < int (length (m_channels m)) - 1 then m\<lparr>m_channelCursor := m_channelCursor m + 1\<rparr> else m)"

text \<open>"if cursor < len(xs) { x := xs[cursor]; ... }": a cursor below 0 panics.\<close>

definition at_cursor :: "int \<Rightarrow> 'a list \<Rightarrow> ('a \<Rightarrow> Model \<times> ui_cmd list) \<Rightarrow> Model \<Rightarrow> ui_result" where
  "at_cursor cursor xs k m =
    (if cursor < int (length xs) then (if cursor < 0 then Panics else Returns (k (xs ! nat cursor))) else Returns (m, []))"

definition open_thread :: "Model \<Rightarrow> ui_result" where
  "open_thread m = at_cursor (m_threadCursor m) (m_threads m) (\<lambda>thread.
    let m = m\<lparr>m_currentThread := Some thread, m_currentView := ViewThreadView, m_replyCursor := 0, m_newMessageIDs := {},
          m_confirmingDelete := False, m_allRepliesLoaded := False\<rparr>
    in case m_threadRepliesCache m (Message_ID thread) of
         Some cached \<Rightarrow> (m\<lparr>m_threadReplies := cached, m_repliesCached := Some (Message_ID thread)\<rparr>,
           [requestThreadRepliesAfter (Message_ID thread)
              (case m_threadHighestMessageID m (Message_ID thread) of None \<Rightarrow> 0 | Some h \<Rightarrow> h) m,
            sendSubscribeThread (Message_ID thread)])
       | None \<Rightarrow> (m\<lparr>m_loadingThreadReplies := True\<rparr>,
           [requestThreadReplies (Message_ID thread) m, sendSubscribeThread (Message_ID thread)])) m"

definition refresh_threads :: "Model \<Rightarrow> Model \<times> ui_cmd list" where
  "refresh_threads m = (case m_currentChannel m of None \<Rightarrow> (m, [])
     | Some c \<Rightarrow> (m\<lparr>m_loadingThreadList := True, m_threads := []\<rparr>, [requestThreadList (Channel_ID c) m]))"

definition select_channel :: "Model \<Rightarrow> ui_result" where
  "select_channel m = at_cursor (m_channelCursor m) (m_channels m) (\<lambda>ch.
    let m = m\<lparr>m_currentChannel := Some ch\<rparr> in
    if Channel_Type ch = 0
    then (m\<lparr>m_currentView := ViewChatChannel, m_loadingChat := True, m_chatMessages := [], m_chatTextarea := []\<rparr>,
      [sendJoinChannel (Channel_ID ch), requestChatMessages (Channel_ID ch), sendSubscribeChannel (Channel_ID ch), Blink])
    else (m\<lparr>m_currentView := ViewThreadList, m_loadingMore := False, m_allThreadsLoaded := False, m_loadingThreadList := True,
        m_threads := []\<rparr>,
      [sendJoinChannel (Channel_ID ch), requestThreadList (Channel_ID ch) m, sendSubscribeChannel (Channel_ID ch)])) m"

section \<open>Going back\<close>

definition back_to_threads :: "Model \<Rightarrow> Model \<times> ui_cmd list" where
  "back_to_threads m =
    (m\<lparr>m_currentView := ViewThreadList, m_threadReplies := [], m_repliesCached := None, m_replyCursor := 0,
       m_confirmingDelete := False, m_pendingDeleteID := 0\<rparr>,
     case m_currentThread m of None \<Rightarrow> [] | Some t \<Rightarrow> [sendUnsubscribeThread (Message_ID t)])"

definition leave_current :: "Model \<Rightarrow> Model \<times> ui_cmd list" where
  "leave_current m =
    (case m_currentChannel m of None \<Rightarrow> (m, [])
     | Some c \<Rightarrow> ((clearActiveChannel m)\<lparr>m_currentChannel := None\<rparr>, [sendLeaveChannel (Channel_ID c), sendUnsubscribeChannel (Channel_ID c)]))"

definition back_to_channels :: "Model \<Rightarrow> Model \<times> ui_cmd list" where
  "back_to_channels m =
    (case leave_current (m\<lparr>m_currentView := ViewChannelList, m_confirmingDelete := False\<rparr>) of
       (m, cmds) \<Rightarrow> (m\<lparr>m_threads := [], m_threadCursor := 0, m_loadingMore := False, m_allThreadsLoaded := False\<rparr>, cmds))"

definition leave_chat :: "Model \<Rightarrow> Model \<times> ui_cmd list" where
  "leave_chat m =
    (case leave_current (m\<lparr>m_currentView := ViewChannelList\<rparr>) of (m, cmds) \<Rightarrow> (m\<lparr>m_chatMessages := [], m_chatTextarea := []\<rparr>, cmds))"

section \<open>The registered commands\<close>

record Command =
  rc_Keys :: "gostring list"
  rc_Names :: "gostring list"
  rc_Views :: "ViewState list"
  rc_Modals :: "ModalType list"
  rc_When :: "Model \<Rightarrow> bool"
  rc_Do :: "ui_env \<Rightarrow> Model \<Rightarrow> ui_result"

text \<open>A command of the given views, or a global one for none.\<close>

definition registered :: "string list \<Rightarrow> string list \<Rightarrow> ViewState list \<Rightarrow> ModalType list \<Rightarrow> (Model \<Rightarrow> bool) \<Rightarrow>
    (ui_env \<Rightarrow> Model \<Rightarrow> ui_result) \<Rightarrow> Command" where
  "registered keys names views modals available act = \<lparr>rc_Keys = map lit keys, rc_Names = map lit names, rc_Views = views,
     rc_Modals = modals, rc_When = available, rc_Do = act\<rparr>"

definition registry_available :: "Command \<Rightarrow> Model \<Rightarrow> bool" where
  "registry_available cmd m \<longleftrightarrow>
    (TopType (m_modalStack m) \<noteq> ModalNone \<longrightarrow> rc_Modals cmd = [] \<or> TopType (m_modalStack m) \<in> set (rc_Modals cmd)) \<and>
    (rc_Views cmd = [] \<or> m_currentView m \<in> set (rc_Views cmd)) \<and> rc_When cmd m"

text \<open>A registered user's own message that is not deleted.\<close>

definition owns_selected :: "Model \<Rightarrow> bool" where
  "owns_selected m = (case selectedMessage m of None \<Rightarrow> False
     | Some msg \<Rightarrow> \<not> isDeletedMessageContent (Message_Content msg) \<and> Message_AuthorUserID msg \<noteq> None \<and>
         m_userID m = Message_AuthorUserID msg)"

definition reply_command :: "ui_env \<Rightarrow> Model \<Rightarrow> Model" where
  "reply_command E m =
    (let parent = (if m_replyCursor m = 0 then (case m_currentThread m of Some t \<Rightarrow> Message_ID t | None \<Rightarrow> 0)
           else if m_replyCursor m - 1 < int (length (m_threadReplies m)) then Message_ID (m_threadReplies m ! nat (m_replyCursor m - 1))
           else 0);
         m = m\<lparr>m_composeParentID := Some parent\<rparr>
     in if m_nickname m = [] then showNicknameSetupModal m else showComposeWithWarning E ComposeModeReply [] m)"

definition edit_command :: "Model \<Rightarrow> Model" where
  "edit_command m = (case selectedMessage m of None \<Rightarrow> m
     | Some msg \<Rightarrow> showComposeModal ComposeModeEdit (Message_Content msg)
         (m\<lparr>m_composeMessageID := Some (Message_ID msg), m_composeParentID := None\<rparr>))"

definition delete_command :: "Model \<Rightarrow> Model" where
  "delete_command m = (case selectedMessage m of None \<Rightarrow> m
     | Some msg \<Rightarrow> (open_modal (DeleteConfirmModal (Message_ID msg) (Some (m_connGeneration m))) m)\<lparr>m_statusMessage := []\<rparr>)"

definition new_thread_command :: "ui_env \<Rightarrow> Model \<Rightarrow> Model" where
  "new_thread_command E m =
    (let m = m\<lparr>m_composeParentID := None\<rparr> in
     if m_nickname m = [] then showNicknameSetupModal m else showComposeWithWarning E ComposeModeNewThread [] m)"

definition sidebar_command :: "Model \<Rightarrow> Model \<times> ui_cmd list" where
  "sidebar_command m =
    (let m = m\<lparr>m_showUserSidebar := \<not> m_showUserSidebar m\<rparr> in
     (m, (if m_showUserSidebar m
       then [case m_currentChannel m of Some c \<Rightarrow> if m_hasActiveChannel m then sendListChannelUsers (Channel_ID c) else sendListUsers False
             | None \<Rightarrow> sendListUsers False] else []) @ [Emit ForceRenderMsg]))"

abbreviation always :: "Model \<Rightarrow> bool" where "always \<equiv> \<lambda>m. True"
abbreviation does :: "(Model \<Rightarrow> Model) \<Rightarrow> ui_env \<Rightarrow> Model \<Rightarrow> ui_result" where "does f \<equiv> \<lambda>E m. Returns (f m, [])"

definition view_commands :: "Command list" where
  "view_commands =
    [registered [''up'', ''k''] [''Navigate''] [ViewThreadView] [] always (does reply_up),
     registered [''down'', ''j''] [''Navigate''] [ViewThreadView] [] always (\<lambda>E m. Returns (reply_down_loading m)),
     registered [''r''] [''Reply''] [ViewThreadView] [] always (\<lambda>E. does (reply_command E) E),
     registered [''e''] [''Edit''] [ViewThreadView] [] owns_selected (does edit_command),
     registered [''d''] [''Delete''] [ViewThreadView] [] owns_selected (does delete_command),
     registered [''esc''] [''Back''] [ViewThreadView] [ModalNone] always (\<lambda>E m. Returns (case back_to_threads m of
       (m, cmds) \<Rightarrow> (m\<lparr>m_allRepliesLoaded := False, m_loadingMoreReplies := False\<rparr>, cmds))),
     registered [''up'', ''k''] [''Navigate''] [ViewThreadList] [] always (does thread_up),
     registered [''down'', ''j''] [''Navigate''] [ViewThreadList] [] always (\<lambda>E m. Returns (thread_down m)),
     registered [''enter''] [''Open''] [ViewThreadList] [] always (\<lambda>E. open_thread),
     registered [''n''] [''New Thread''] [ViewThreadList] [] always (\<lambda>E. does (new_thread_command E) E),
     registered [''r''] [''Refresh''] [ViewThreadList] [] always (\<lambda>E m. Returns (refresh_threads m)),
     registered [''esc''] [''Back''] [ViewThreadList] [] always (\<lambda>E m. Returns (back_to_channels m)),
     registered [''esc''] [''Back''] [ViewChatChannel] [] always (\<lambda>E m. Returns (leave_chat m)),
     registered [''up'', ''k''] [''Navigate''] [ViewChannelList] [] always (does channel_up),
     registered [''down'', ''j''] [''Navigate''] [ViewChannelList] [] always (does channel_down),
     registered [''enter''] [''Select''] [ViewChannelList] [] always (\<lambda>E. select_channel),
     registered [''r''] [''Refresh''] [ViewChannelList] [] always (\<lambda>E m. Returns (m\<lparr>m_loadingChannels := True\<rparr>, [requestChannelList])),
     registered [''c''] [''Create Channel''] [ViewChannelList] []
       (\<lambda>m. m_authState m = AuthStateAuthenticated \<and> m_userID m \<noteq> None) (does showCreateChannelModal)]"

definition global_commands :: "Command list" where
  "global_commands =
    [registered [''q''] [''Quit'', ''Exit''] [] [ModalNone] always (\<lambda>E m. Returns (m, [Quit])),
     registered [''h'', ''?''] [''Help''] [] [ModalNone] always (does (open_modal HelpModal)),
     registered [''ctrl+l''] [''Server List''] [] [ModalNone] always (\<lambda>E m. Returns (open_modal NewServerSelectorLoading m, requestServerList))]"

definition account_commands :: "Command list" where
  "account_commands =
    [registered [''ctrl+r''] [''Register''] [] [] (\<lambda>m. m_authState m = AuthStateAnonymous \<and> m_nickname m \<noteq> [] \<and> \<not> m_nicknameIsRegistered m)
       (does showRegistrationModal),
     registered [''ctrl+s''] [''Sign In''] [] [] (\<lambda>m. m_authState m \<noteq> AuthStateAuthenticated \<and> m_nickname m \<noteq> [] \<and> m_nicknameIsRegistered m)
       (does showPasswordModal),
     registered [''ctrl+a''] [''Go Anonymous''] [] [] (\<lambda>m. m_authState m = AuthStateAuthenticated) (does showGoAnonymousModal),
     registered [''ctrl+n''] [''Change Nick''] [] [] (\<lambda>m. m_nickname m \<noteq> []) (does showNicknameChangeModal),
     registered [''ctrl+k''] [''SSH Keys''] [] [] (\<lambda>m. m_authState m = AuthStateAuthenticated)
       (\<lambda>E m. Returns (showSSHKeyManagerModal [] m, [sendListSSHKeys])),
     registered [''u''] [''Users Sidebar''] [] [ModalNone] always (\<lambda>E m. Returns (sidebar_command m)),
     registered [''A''] [''Admin Panel''] [] [ModalNone] isAdmin_ui (does showAdminPanel)]"

text \<open>The names the palette offers: those of the available commands, sorted; its own command is there when no dialog is open.\<close>

definition GetCommandNames :: "(gostring \<Rightarrow> gostring) \<Rightarrow> Model \<Rightarrow> gostring list" where
  "GetCommandNames lower m =
    (let cmds = filter (\<lambda>c. registry_available c m) (global_commands @ view_commands @ account_commands);
         own = (if TopType (m_modalStack m) = ModalNone then [lit ''Command''] else [])
     in sort (remdups (map lower (concat (map rc_Names cmds) @ own))))"

definition palette_command :: "ui_env \<Rightarrow> Model \<Rightarrow> ui_result" where
  "palette_command E m = Returns (showCommandPalette (GetCommandNames (ue_ToLower E) m) m, [])"

definition registry :: "Command list" where
  "registry = global_commands @ view_commands @ account_commands @
    [registered [''/''] [''Command''] [] [ModalNone] always palette_command,
     registered ['':''] [''Command''] [] [ModalNone] always palette_command]"

definition GetCommand :: "gostring \<Rightarrow> Model \<Rightarrow> Command option" where
  "GetCommand key m = List.find (\<lambda>c. key \<in> set (rc_Keys c) \<and> registry_available c m) registry"

definition GetCommandByName :: "(gostring \<Rightarrow> gostring) \<Rightarrow> gostring \<Rightarrow> Model \<Rightarrow> Command option" where
  "GetCommandByName lower name m = List.find (\<lambda>c. registry_available c m \<and> lower name \<in> lower ` set (rc_Names c)) registry"

section \<open>The keys of a view\<close>

definition handleSplashKeys :: "keypress \<Rightarrow> Model \<Rightarrow> ui_result" where
  "handleSplashKeys k m =
    (if pressed k [''up'', ''k'', ''down'', ''j'', ''pgup'', ''pgdown''] then Returns (m, [])
     else Returns (m\<lparr>m_currentView := ViewChannelList, m_loadingChannels := True\<rparr>, [requestChannelList]))"

definition handleChannelListKeys :: "keypress \<Rightarrow> Model \<Rightarrow> ui_result" where
  "handleChannelListKeys k m =
    (if pressed k [''up'', ''k''] then Returns (channel_up m, [])
     else if pressed k [''down'', ''j''] then Returns (channel_down m, [])
     else if pressed k [''enter'']
     then at_cursor (m_channelCursor m) (m_channels m) (\<lambda>ch.
       let m = m\<lparr>m_currentChannel := Some ch, m_currentView := ViewThreadList, m_loadingMore := False, m_allThreadsLoaded := False\<rparr>
       in (m, [sendJoinChannel (Channel_ID ch), requestThreadList (Channel_ID ch) m, sendSubscribeChannel (Channel_ID ch)])) m
     else if pressed k [''r''] then Returns (m, [requestChannelList])
     else if pressed k [''esc''] then Returns (m, [Quit])
     else Returns (m, []))"

definition handleThreadListKeys :: "keypress \<Rightarrow> Model \<Rightarrow> ui_result" where
  "handleThreadListKeys k m =
    (if pressed k [''up'', ''k''] then Returns (thread_up m, [])
     else if pressed k [''down'', ''j''] then Returns (thread_down m)
     else if pressed k [''pgup''] then Returns (thread_page_up m, [])
     else if pressed k [''pgdown''] then Returns (thread_page_down m)
     else if pressed k [''enter'']
     then at_cursor (m_threadCursor m) (m_threads m) (\<lambda>thread.
       let m = m\<lparr>m_currentThread := Some thread, m_currentView := ViewThreadView, m_replyCursor := 0, m_newMessageIDs := {},
             m_confirmingDelete := False\<rparr>
       in (m, [requestThreadReplies (Message_ID thread) m, sendSubscribeThread (Message_ID thread)])) m
     else if pressed k [''r'']
     then Returns (m, case m_currentChannel m of None \<Rightarrow> [] | Some c \<Rightarrow> [requestThreadList (Channel_ID c) m])
     else if pressed k [''esc''] then Returns (back_to_channels m)
     else Returns (m, []))"

definition handleThreadViewKeys :: "keypress \<Rightarrow> Model \<Rightarrow> ui_result" where
  "handleThreadViewKeys k m =
    (if pressed k [''up'', ''k''] then Returns (reply_up m, [])
     else if pressed k [''down'', ''j''] then Returns (reply_down m, [])
     else if pressed k [''esc''] then Returns (back_to_threads m)
     else Returns (m, []))"

text \<open>onProceed of the warning sends what was typed in the channel it was typed in; "Reset" of the text area happens on the copy.\<close>

definition handleChatChannelKeys :: "ui_env \<Rightarrow> keypress \<Rightarrow> Model \<Rightarrow> ui_result" where
  "handleChatChannelKeys E k m =
    (if pressed k [''esc''] then Returns (leave_chat m)
     else if pressed k [''enter'']
     then
       (let content = TrimSpace (m_chatTextarea m) in
        if content = [] then Returns (m, [])
        else if shouldShowRegistrationWarning E m
        then Returns (showRegistrationWarningModal (sendChatMessageWithContent content m) m, [])
        else Returns (m\<lparr>m_chatTextarea := []\<rparr>, sendChatMessageWithContent content m))
     else if pressed k [''up'', ''down'', ''pgup'', ''pgdown''] then Returns (m, [])
     else Returns (m\<lparr>m_chatTextarea := ue_Textarea E k (m_chatTextarea m)\<rparr>, []))"

definition handleLegacyKeyPress :: "ui_env \<Rightarrow> keypress \<Rightarrow> Model \<Rightarrow> ui_result" where
  "handleLegacyKeyPress E k m = (case m_currentView m of
       ViewSplash \<Rightarrow> handleSplashKeys k m
     | ViewChannelList \<Rightarrow> handleChannelListKeys k m
     | ViewThreadList \<Rightarrow> handleThreadListKeys k m
     | ViewThreadView \<Rightarrow> handleThreadViewKeys k m
     | ViewChatChannel \<Rightarrow> handleChatChannelKeys E k m
     | ViewHelp \<Rightarrow> Returns (m, []))"

section \<open>A key\<close>

text \<open>The key of the dialog on top; a dialog that stays is changed in place.\<close>

definition modal_key :: "ui_env \<Rightarrow> keypress \<Rightarrow> modal \<Rightarrow> Model \<Rightarrow> ui_result" where
  "modal_key E k active m =
    (case HandleKey E k active of (handled, newModal, cmds) \<Rightarrow>
       let stack = (case newModal of None \<Rightarrow> Pop (m_modalStack m)
             | Some d \<Rightarrow> if modal_Type d \<noteq> modal_Type active then Push d (Pop (m_modalStack m)) else set_top d (m_modalStack m))
       in Returns (m\<lparr>m_modalStack := stack\<rparr>, if handled then cmds else []))"

definition view_key :: "ui_env \<Rightarrow> keypress \<Rightarrow> Model \<Rightarrow> ui_result" where
  "view_key E k m =
    (if m_currentView m = ViewChatChannel \<and> \<not> (HasPrefix (key_String k) (lit ''ctrl+'') \<or> HasPrefix (key_String k) (lit ''alt+'') \<or>
        HasPrefix (key_String k) (lit ''shift+''))
     then handleChatChannelKeys E k m
     else
       (case FindCommandForKey (ue_ToLower E) (key_String k) m of
          Some cmd \<Rightarrow> Returns (ExecuteActionWithReturn (cd_ActionID cmd) m)
        | None \<Rightarrow>
           (case GetCommand (key_String k) m of Some cmd \<Rightarrow> rc_Do cmd E m | None \<Rightarrow> handleLegacyKeyPress E k m)))"

definition handleKeyPress :: "ui_env \<Rightarrow> keypress \<Rightarrow> Model \<Rightarrow> ui_result" where
  "handleKeyPress E k m =
    (let m = m\<lparr>m_lastInteractionTime := ue_now E\<rparr> in
     if pressed k [''ctrl+c''] then Returns (m, [Quit])
     else (case Top (m_modalStack m) of Some active \<Rightarrow> modal_key E k active m | None \<Rightarrow> view_key E k m))"

end
