(* ===== verification/UiUpdate.thy ===== *)
theory UiUpdate imports UiRegistry begin

text \<open>
  "Update" of the terminal client, "pkg/client/ui/update.go": every message the program is told, with the handlers of
  connections. After it the state machine of the client: its start and its steps.
\<close>

section \<open>Starting over on a connection\<close>

text \<open>What follows a connection made: the list of channels, and the nickname of a user who is not authenticated.\<close>

definition normal_operation :: "Model \<Rightarrow> ui_cmd list" where
  "normal_operation m = requestChannelList #
     (if m_nickname m \<noteq> [] \<and> m_authState m \<noteq> AuthStateAuthenticated then [sendSetNickname m] else [])"

definition handleReconnected :: "Model \<Rightarrow> ui_result" where
  "handleReconnected m =
    (let m = m\<lparr>m_connectionState := StateConnected, m_reconnectAttempt := 0, m_errorMessage := [],
           m_statusMessage := lit ''Reconnected successfully''\<rparr>;
         account = (if m_nickname m \<noteq> [] \<and> m_authState m \<noteq> AuthStateAuthenticated
             then [sendSetNickname m, sendGetUserInfo (m_nickname m)]
           else if m_authState m = AuthStateAuthenticated then [sendGetUserInfo (m_nickname m)] else []);
         m = m\<lparr>m_loadingChannels := True\<rparr>
     in case m_currentChannel m of
          None \<Rightarrow> Returns (m, listen m # account @ [requestChannelList])
        | Some c \<Rightarrow>
           (let m = m\<lparr>m_loadingThreadList := True, m_threads := []\<rparr>;
                channel = [sendJoinChannel (Channel_ID c), requestThreadList (Channel_ID c) m] @
                  (if m_currentView m = ViewThreadList \<or> m_currentView m = ViewThreadView then [sendSubscribeChannel (Channel_ID c)] else [])
            in case m_currentThread m of
                 Some t \<Rightarrow>
                   if m_currentView m = ViewThreadView
                   then (let m = m\<lparr>m_loadingThreadReplies := True, m_threadReplies := [], m_repliesCached := None\<rparr> in
                     Returns (m, listen m # account @ requestChannelList # channel @
                       [requestThreadReplies (Message_ID t) m, sendSubscribeThread (Message_ID t)]))
                   else Returns (m, listen m # account @ requestChannelList # channel)
               | None \<Rightarrow> Returns (m, listen m # account @ requestChannelList # channel)))"

section \<open>Choosing a server\<close>

text \<open>The scheme of an address whose port is stripped for SSH and WebSocket, and the default scheme.\<close>

definition strip_port :: "gostring \<Rightarrow> gostring \<Rightarrow> gostring option" where
  "strip_port scheme address =
    (if HasPrefix address scheme
     then Some (case ClientAddr.SplitHostPort (drop (length scheme) address) of
       Inr (host, port) \<Rightarrow> scheme @ host | Inl e \<Rightarrow> address) else None)"

definition dial_address :: "gostring \<Rightarrow> gostring" where
  "dial_address address =
    (case strip_port (lit ''ssh://'') address of Some a \<Rightarrow> a
     | None \<Rightarrow>
        (case strip_port (lit ''ws://'') address of Some a \<Rightarrow> a
         | None \<Rightarrow>
            (case strip_port (lit ''wss://'') address of Some a \<Rightarrow> a
             | None \<Rightarrow> if strings_Contains address (lit ''://'') then address else lit ''sc://'' @ address)))"

text \<open>The method that is saved: ws or wss for a WebSocket, by its address.\<close>

definition method_saved :: "conn_info \<Rightarrow> gostring" where
  "method_saved conn =
    (if ci_type conn = lit ''websocket''
     then if HasPrefix (ci_address conn) (lit ''wss://'') then lit ''wss''
       else if HasPrefix (ci_address conn) (lit ''ws://'') then lit ''ws'' else ci_type conn
     else ci_type conn)"

definition handleServerSelected :: "ui_env \<Rightarrow> ServerInfo \<Rightarrow> Model \<Rightarrow> ui_result" where
  "handleServerSelected E server m =
    (let serverAddr = ServerInfo_Hostname server @ 58 # fmt_d (uint (ServerInfo_Port server)) in
     case ue_SetConfig E serverAddr of
       Some e \<Rightarrow> Returns (m\<lparr>m_errorMessage := lit ''Failed to save server address: '' @ e\<rparr>, [])
     | None \<Rightarrow>
        (let save = StateSetConfig (lit ''directory_selected_server'') serverAddr;
             connected = (\<lambda>m. m\<lparr>m_directoryMode := False, m_statusMessage := lit ''Connected to '' @ ServerInfo_Name server,
               m_modalStack := Pop (m_modalStack m), m_loadingChannels := True\<rparr>)
         in if ci_address (ue_conn E) = serverAddr
            then Returns (connected m, save # normal_operation m)
            else
              (case ue_NewConnection E (dial_address (ResolveConnectionMethod (ue_history E) serverAddr)) of
                 Inl e \<Rightarrow> Returns (m\<lparr>m_errorMessage := lit ''Failed to create connection: '' @ e\<rparr>, [save, DropConnection])
               | Inr new \<Rightarrow>
                  (case ue_Connect E new of
                     (conn, Some e) \<Rightarrow> Returns (m\<lparr>m_errorMessage := lit ''Failed to connect to '' @ ServerInfo_Name server @ lit '': '' @ e\<rparr>,
                       [save, DropConnection])
                   | (conn, None) \<Rightarrow>
                      (let m = (connected m)\<lparr>m_connectionState := StateConnected\<rparr> in
                       Returns (m, [save, DropConnection, StateSaveSuccessfulConnection serverAddr (method_saved conn), listen m] @
                         normal_operation m))))))"

text \<open>"strings.Split(s, sep)" for one byte.\<close>

fun split_byte :: "u8 \<Rightarrow> gostring \<Rightarrow> gostring list" where
  "split_byte b [] = [[]]"
| "split_byte b (c # s) = (if c = b then [] # split_byte b s
     else (case split_byte b s of [] \<Rightarrow> [[c]] | w # ws \<Rightarrow> (c # w) # ws))"

definition custom_ServerInfo :: "gostring \<Rightarrow> ServerInfo" where
  "custom_ServerInfo serverAddr =
    (let parts = split_byte 58 serverAddr in
     \<lparr>ServerInfo_Hostname = hd parts,
      ServerInfo_Port = (if length parts = 2 then (case Atoi (parts ! 1) of Some port \<Rightarrow> word_of_int port | None \<Rightarrow> 6465) else 6465),
      ServerInfo_Name = serverAddr, ServerInfo_Description = lit ''Custom server'', ServerInfo_UserCount = 0, ServerInfo_MaxUsers = 0,
      ServerInfo_UptimeSeconds = 0, ServerInfo_IsPublic = False, ServerInfo_ChannelCount = 0\<rparr>)"

definition handleCustomServerInput :: "ui_env \<Rightarrow> gostring \<Rightarrow> Model \<Rightarrow> ui_result" where
  "handleCustomServerInput E address m =
    (let serverAddr = (if 58 \<in> set address then address else address @ lit '':6465'') in
     case ue_SetConfig E serverAddr of
       Some e \<Rightarrow> Returns (m\<lparr>m_errorMessage := lit ''Failed to save server address: '' @ e\<rparr>, [])
     | None \<Rightarrow> run_then (handleServerSelected E (custom_ServerInfo serverAddr) m) (\<lambda>(m, cmds).
         Returns (m, StateSetConfig (lit ''directory_selected_server'') serverAddr # cmds)))"

definition handleSwitchToServerSelector :: "Model \<Rightarrow> ui_result" where
  "handleSwitchToServerSelector m =
    Returns (m\<lparr>m_modalStack := Push NewServerSelectorLoading (Pop (m_modalStack m)), m_awaitingServerList := True,
      m_directoryMode := True\<rparr>, requestServerList)"

section \<open>Trying again\<close>

definition handleConnectionRetry :: "ui_env \<Rightarrow> Model \<Rightarrow> ui_result" where
  "handleConnectionRetry E m =
    (let m = m\<lparr>m_modalStack := Pop (m_modalStack m)\<rparr> in
     case ue_Connect E (ue_conn E) of
       (conn, Some e) \<Rightarrow> Returns (m\<lparr>m_modalStack := Push (ConnectionFailedModal (ci_address conn) e 0) (m_modalStack m),
          m_connectionState := StateDisconnected\<rparr>, [])
     | (conn, None) \<Rightarrow>
        (let m = m\<lparr>m_connectionState := StateConnected, m_statusMessage := lit ''Connected successfully'', m_loadingChannels := True\<rparr>
         in Returns (m, [StateSaveSuccessfulConnection (ci_raw conn) (method_saved conn), listen m] @ normal_operation m)))"

definition handleTryDifferentMethod :: "ui_env \<Rightarrow> Model \<Rightarrow> ui_result" where
  "handleTryDifferentMethod E m =
    (let t = ci_type (ue_conn E);
         failed = (if t = lit ''ssh'' then MethodSSH else if t = lit ''websocket'' then MethodWebSocket else MethodTCP)
     in Returns (m\<lparr>m_modalStack := Push (NewConnectionMethodModal failed) (Pop (m_modalStack m))\<rparr>, []))"

definition method_name :: "ConnectionMethod \<Rightarrow> gostring" where
  "method_name method = (case method of MethodTCP \<Rightarrow> lit ''tcp'' | MethodSSH \<Rightarrow> lit ''ssh'' | MethodWebSocket \<Rightarrow> lit ''websocket'')"

definition method_address :: "ConnectionMethod \<Rightarrow> gostring \<Rightarrow> gostring" where
  "method_address method raw =
    (let host = (case ClientAddr.SplitHostPort raw of Inr (host, port) \<Rightarrow> host | Inl e \<Rightarrow> raw) in
     case method of MethodTCP \<Rightarrow> lit ''sc://'' @ raw | MethodSSH \<Rightarrow> lit ''ssh://'' @ host | MethodWebSocket \<Rightarrow> lit ''ws://'' @ host)"

definition handleConnectionMethodSelected :: "ui_env \<Rightarrow> ConnectionMethod \<Rightarrow> Model \<Rightarrow> ui_result" where
  "handleConnectionMethodSelected E method m =
    (let m = m\<lparr>m_modalStack := Push (Dialog ModalConnecting) (Pop (m_modalStack m)), m_switchingMethod := True\<rparr>;
         raw = ci_raw (ue_conn E)
     in case ue_NewConnection E (method_address method raw) of
          Inl e \<Rightarrow> Returns (m\<lparr>m_modalStack := Push (ConnectionFailedModal raw
              (lit ''Invalid address for '' @ method_name method @ lit '': '' @ e) 0) (removeByType ModalConnecting (m_modalStack m))\<rparr>, [])
        | Inr conn \<Rightarrow> Returns (m\<lparr>m_connGeneration := m_connGeneration m + 1\<rparr>, [CloseConnection, AttemptConnection (method_name method)]))"

definition handleConnectionAttemptResult :: "ui_env \<Rightarrow> gostring option \<Rightarrow> gostring \<Rightarrow> Model \<Rightarrow> ui_result" where
  "handleConnectionAttemptResult E err method m =
    (let m = m\<lparr>m_modalStack := removeByType ModalConnecting (m_modalStack m)\<rparr> in
     case err of
       Some e \<Rightarrow> listening [] (m\<lparr>m_modalStack := Push (ConnectionFailedModal (ci_address (ue_conn E)) e 0) (m_modalStack m),
          m_connectionState := StateDisconnected\<rparr>)
     | None \<Rightarrow>
        (let m = m\<lparr>m_switchingMethod := False, m_connectionState := StateConnected, m_statusMessage := lit ''Connected via '' @ method,
               m_loadingChannels := True\<rparr>
         in Returns (m, [StateSaveSuccessfulConnection (ci_raw (ue_conn E)) method, listen m] @ normal_operation m)))"

section \<open>Update\<close>

definition disconnected :: "ui_env \<Rightarrow> u64 \<Rightarrow> Model \<Rightarrow> ui_result" where
  "disconnected E generation m =
    (if generation < m_connGeneration m then Returns (m, [])
     else
       (let m = m\<lparr>m_connectionState := StateDisconnected, m_errorMessage := []\<rparr>;
            failed = (\<lambda>why m. m\<lparr>m_modalStack := Push (ConnectionFailedModal (ci_address (ue_conn E)) why 0) (m_modalStack m)\<rparr>)
        in listening []
          (if TopType (m_modalStack m) = ModalConnectionFailed \<or> TopType (m_modalStack m) = ModalConnectionMethod then m
           else if m_serverDisconnectReason m \<noteq> [] then (failed (m_serverDisconnectReason m) m)\<lparr>m_serverDisconnectReason := []\<rparr>
           else failed (lit ''Connection lost'') m)))"

definition init_timeout :: "ui_env \<Rightarrow> Model \<Rightarrow> ui_result" where
  "init_timeout E m =
    (case OnTimeout (ue_now E) (m_initStateMachine m) of
       (True, sm) \<Rightarrow>
        (let m = m\<lparr>m_initStateMachine := sm\<rparr> in
         Returns (m, if m_nickname m \<noteq> [] then [sendSetNickname m, sendGetUserInfo (m_nickname m)] else []))
     | (False, sm) \<Rightarrow>
        if ism_state sm = InitStateAwaitingAuth
        then (case NextCheckDelay sm of (delay, sm) \<Rightarrow> Returns (m\<lparr>m_initStateMachine := sm\<rparr>, [After delay InitTimeoutCheckMsg]))
        else Returns (m, []))"

definition go_anonymous :: "Model \<Rightarrow> Model" where
  "go_anonymous m =
    (let m = m\<lparr>m_authState := AuthStateAnonymous, m_authTargetNickname := [], m_authAttempts := 0, m_authErrorMessage := [],
           m_authCooldownUntil := zero_time, m_userID := None, m_userFlags := 0\<rparr>
     in if m_pendingNickname m \<noteq> [] then m\<lparr>m_nickname := m_pendingNickname m, m_pendingNickname := []\<rparr> else m)"

fun Update :: "ui_env \<Rightarrow> ui_msg \<Rightarrow> Model \<Rightarrow> ui_result" where
  "Update E (KeyMsg k) m = handleKeyPress E k m"
| "Update E (WindowSizeMsg width height) m = Returns (m\<lparr>m_height := height, m_threadListHeight := height - 6\<rparr>, [])"
| "Update E (ServerFrameMsg frame) m = handleServerFrame E frame m"
| "Update E (ErrorMsg e) m = listening [] (if e \<noteq> lit ''disconnected from server'' then m\<lparr>m_errorMessage := e\<rparr> else m)"
| "Update E ConnectedMsg m = handleReconnected m"
| "Update E (DisconnectedMsg generation) m = disconnected E generation m"
| "Update E (ReconnectingMsg n) m =
    listening [] (m\<lparr>m_connectionState := StateReconnecting, m_reconnectAttempt := n, m_errorMessage := []\<rparr>)"
| "Update E ServerListTimeoutMsg m = Returns
    (if m_awaitingServerList m
     then m\<lparr>m_awaitingServerList := False,
       m_modalStack := on_selector (SetError (lit ''Directory server not responding (timeout after 5s)'')) (m_modalStack m)\<rparr>
     else m, [])"
| "Update E (TickMsg now) m =
    (if m_connectionState m = StateConnected \<and> now - m_lastPingSent m \<ge> m_pingInterval m
     then Returns (m\<lparr>m_lastPingSent := now\<rparr>, [Tick, sendPing]) else Returns (m, [Tick]))"
| "Update E (VersionCheckMsg latest available) m = Returns (m\<lparr>m_latestVersion := latest, m_updateAvailable := available\<rparr>, [])"
| "Update E ForceRenderMsg m = Returns (m, [])"
| "Update E InitTimeoutCheckMsg m = init_timeout E m"
| "Update E (NicknameSentMsg nickname goAnonymous) m = Returns (m\<lparr>m_pendingNickname := nickname\<rparr>, [])"
| "Update E (GoAnonymousMsg target) m = Returns (go_anonymous m, [StateSetUserID None])"
| "Update E (ServerSelectedMsg server) m = handleServerSelected E server m"
| "Update E (CustomServerInputMsg address) m = handleCustomServerInput E address m"
| "Update E ServerSelectorCancelledMsg m = Returns (m, if m_directoryMode m \<and> ue_savedServer E = [] then [Quit] else [])"
| "Update E ConnectionFailedRetryMsg m = handleConnectionRetry E (m\<lparr>m_switchingMethod := False\<rparr>)"
| "Update E ConnectionFailedTryMethodMsg m = handleTryDifferentMethod E (m\<lparr>m_switchingMethod := True\<rparr>)"
| "Update E ConnectionFailedSwitchServerMsg m = handleSwitchToServerSelector (m\<lparr>m_switchingMethod := False\<rparr>)"
| "Update E (ConnectionMethodSelectedMsg method) m = handleConnectionMethodSelected E method m"
| "Update E ConnectionMethodCancelledMsg m = Returns (m\<lparr>m_modalStack :=
     Push (ConnectionFailedModal (ci_address (ue_conn E)) (lit ''Connection method selection cancelled'') 0) (Pop (m_modalStack m))\<rparr>, [])"
| "Update E (ConnectionAttemptResultMsg err method) m = handleConnectionAttemptResult E err method m"
| "Update E (ExecuteCommandMsg name) m =
    (case GetCommandByName (ue_ToLower E) name m of Some cmd \<Rightarrow> rc_Do cmd E m | None \<Rightarrow> Returns (m, []))"
| "Update E (PushModalMsg d cmds) m = Returns (m\<lparr>m_modalStack := Push d (m_modalStack m)\<rparr>, cmds)"

text \<open>The commands "Init" starts with.\<close>

definition Init_cmds :: "Model \<Rightarrow> ui_cmd list" where
  "Init_cmds m = [listen m, Tick, CheckForUpdates] @
    (if m_directoryMode m then requestServerList else if m_currentView m = ViewChannelList then [requestChannelList] else [])"

section \<open>The client as a state machine\<close>

text \<open>A step is any message in any circumstances; ui_started is a Model that "NewModel" makes.\<close>

inductive ui_step :: "Model \<Rightarrow> ui_cmd list \<Rightarrow> Model \<Rightarrow> bool" where
  update: "Update E msg m = Returns (m', cmds) \<Longrightarrow> ui_step m cmds m'"

inductive ui_reachable :: "Model \<Rightarrow> bool" where
  started: "ui_reachable (NewModel now conn firstRun nickname userID directoryMode err)"
| step: "ui_reachable m \<Longrightarrow> ui_step m cmds m' \<Longrightarrow> ui_reachable m'"

end
