(* ===== verification/UiInv.thy ===== *)
theory UiInv imports UiUpdate begin

text \<open>
  What holds in every state the client reaches: one dialog of a type on the stack, a channel and a thread behind the views that need them, rosters
  that file each session once with their number as onlineUsers, threadReplies the same as its entry of the cache, cursors that are not below
  their lists, and the machine of the initialization.
\<close>

section \<open>The invariant\<close>

definition stack_ok :: "ModalStack \<Rightarrow> bool" where
  "stack_ok stack \<longleftrightarrow> distinct (map modal_Type stack)"

definition view_ok :: "ViewState \<Rightarrow> bool \<Rightarrow> bool \<Rightarrow> bool" where
  "view_ok view no_channel no_thread \<longleftrightarrow>
    (view \<in> {ViewThreadList, ViewThreadView, ViewChatChannel} \<longrightarrow> \<not> no_channel) \<and> (view = ViewThreadView \<longrightarrow> \<not> no_thread)"

definition roster_ok :: "roster \<Rightarrow> bool" where
  "roster_ok r \<longleftrightarrow> distinct (map fst r) \<and> (\<forall>(i, e) \<in> set r. pe_SessionID e = i)"

definition rosters_ok :: "(u64 \<times> roster) list \<Rightarrow> bool" where
  "rosters_ok rs \<longleftrightarrow> distinct (map fst rs) \<and> (\<forall>(c, r) \<in> set rs. roster_ok r \<and> r \<noteq> [])"

definition online_ok :: "roster \<Rightarrow> u32 \<Rightarrow> bool" where
  "online_ok r n \<longleftrightarrow> roster_ok r \<and> n = of_nat (length r)"

definition cache_ok :: "u64 option \<Rightarrow> (u64 \<rightharpoonup> Message list) \<Rightarrow> Message list \<Rightarrow> bool" where
  "cache_ok shared cache replies \<longleftrightarrow> (\<forall>root. shared = Some root \<longrightarrow> cache root = Some replies)"

definition init_ok :: "InitStateMachine \<Rightarrow> bool" where
  "init_ok sm \<longleftrightarrow> 5 * millisecond \<le> ism_nextCheckDelay sm \<and> ism_nextCheckDelay sm \<le> 200 * millisecond \<and>
    (ism_state sm \<in> {InitStateAwaitingAuth, InitStateReady} \<longrightarrow> ism_isSSH sm)"

definition cursors_ok :: "int \<Rightarrow> int \<Rightarrow> int \<Rightarrow> bool" where
  "cursors_ok channel thread reply \<longleftrightarrow> 0 \<le> channel \<and> - 1 \<le> thread \<and> 0 \<le> reply"

definition ui_ok :: "Model \<Rightarrow> bool" where
  "ui_ok m \<longleftrightarrow> stack_ok (m_modalStack m) \<and>
    view_ok (m_currentView m) (m_currentChannel m = None) (m_currentThread m = None) \<and>
    online_ok (m_serverRoster m) (m_onlineUsers m) \<and> rosters_ok (m_channelRoster m) \<and>
    cache_ok (m_repliesCached m) (m_threadRepliesCache m) (m_threadReplies m) \<and>
    cursors_ok (m_channelCursor m) (m_threadCursor m) (m_replyCursor m) \<and> init_ok (m_initStateMachine m)"

lemmas ok_defs = ui_ok_def cursors_ok_def

section \<open>The parts\<close>

lemma stack_ok_removeByType [simp]: "stack_ok s \<Longrightarrow> stack_ok (removeByType t s)"
  by (simp add: stack_ok_def removeByType_def distinct_map_filter)

lemma stack_ok_Push [simp]: "stack_ok s \<Longrightarrow> stack_ok (Push d s)"
  by (auto simp: stack_ok_def Push_def removeByType_def distinct_map_filter)

lemma stack_ok_Pop [simp]: "stack_ok s \<Longrightarrow> stack_ok (Pop s)"
  by (simp add: stack_ok_def Pop_def map_butlast distinct_butlast)

lemma map_set_top: "s \<noteq> [] \<Longrightarrow> modal_Type d = modal_Type (last s) \<Longrightarrow> map modal_Type (set_top d s) = map modal_Type s"
  by (cases s rule: rev_cases) (simp_all add: set_top_def)

lemma stack_ok_set_top [simp]: "stack_ok s \<Longrightarrow> TopType s = modal_Type d \<Longrightarrow> s \<noteq> [] \<Longrightarrow> stack_ok (set_top d s)"
  by (simp add: stack_ok_def map_set_top TopType_def Top_def)

lemma stack_ok_Nil [simp]: "stack_ok []"
  by (simp add: stack_ok_def)

lemma SetServers_Type [simp]: "modal_Type (SetServers servers d) = modal_Type d"
  by (cases d) simp_all

lemma SetError_Type [simp]: "modal_Type (SetError e d) = modal_Type d"
  by (cases d) simp_all

lemma stack_ok_on_selector: "(\<And>d. modal_Type (f d) = modal_Type d) \<Longrightarrow> stack_ok s \<Longrightarrow> stack_ok (on_selector f s)"
  by (auto simp: on_selector_def Top_def stack_ok_def map_set_top split: option.split)

lemma stack_ok_selector [simp]: "stack_ok s \<Longrightarrow> stack_ok (on_selector (SetServers servers) s)" "stack_ok s \<Longrightarrow> stack_ok (on_selector (SetError e) s)"
  by (simp_all add: stack_ok_on_selector)

lemma distinct_delete [simp]: "distinct (map fst xs) \<Longrightarrow> distinct (map fst (AList.delete k xs))"
  by (simp add: AList.delete_eq distinct_map_filter)

lemma set_delete: "set (AList.delete k xs) \<subseteq> set xs"
  by (auto simp: AList.delete_eq)

lemma set_update_subset: "set (AList.update k v xs) \<subseteq> insert (k, v) (set xs)"
  by (induction xs) auto

lemma roster_ok_update [simp]: "roster_ok r \<Longrightarrow> pe_SessionID e = i \<Longrightarrow> roster_ok (AList.update i e r)"
  using set_update_subset [of i e r] by (auto simp: roster_ok_def distinct_update)

lemma roster_ok_delete [simp]: "roster_ok r \<Longrightarrow> roster_ok (AList.delete i r)"
  using set_delete [of i r] by (auto simp: roster_ok_def)

lemma rosters_ok_update [simp]: "rosters_ok rs \<Longrightarrow> roster_ok r \<Longrightarrow> r \<noteq> [] \<Longrightarrow> rosters_ok (AList.update c r rs)"
  using set_update_subset [of c r rs] by (auto simp: rosters_ok_def distinct_update)

lemma rosters_ok_delete [simp]: "rosters_ok rs \<Longrightarrow> rosters_ok (AList.delete c rs)"
  using set_delete [of c rs] by (auto simp: rosters_ok_def)

lemma rosters_ok_lookup: "rosters_ok rs \<Longrightarrow> map_of rs c = Some r \<Longrightarrow> roster_ok r \<and> r \<noteq> []"
  by (auto simp: rosters_ok_def dest: map_of_SomeD)

lemma roster_ok_Nil [simp]: "roster_ok []"
  by (simp add: roster_ok_def)

lemma update_nonempty [simp]: "AList.update k v xs \<noteq> []"
  by (cases xs) auto

lemma rosters_ok_upsert [simp]:
  assumes "rosters_ok rs"
  shows "rosters_ok (AList.update c (AList.update (pe_SessionID e) e (case map_of rs c of None \<Rightarrow> [] | Some r \<Rightarrow> r)) rs)"
  using rosters_ok_lookup [OF assms] assms by (intro rosters_ok_update) (auto split: option.split)

lemma rosters_ok_shrink [simp]:
  assumes "rosters_ok rs" and "map_of rs c = Some r" and "AList.delete i r \<noteq> []"
  shows "rosters_ok (AList.update c (AList.delete i r) rs)"
  using rosters_ok_lookup [OF assms(1,2)] assms(1,3) by (intro rosters_ok_update) simp_all

lemma roster_ok_fold:
  "(\<And>u. pe_SessionID (entry u) = key u) \<Longrightarrow> roster_ok r \<Longrightarrow> roster_ok (fold (\<lambda>u. AList.update (key u) (entry u)) us r)"
  by (induction us arbitrary: r) simp_all

lemma cache_ok_None [simp]: "cache_ok None cache replies"
  by (simp add: cache_ok_def)

lemma cache_ok_Some [simp]: "cache_ok (Some root) cache replies \<longleftrightarrow> cache root = Some replies"
  by (auto simp: cache_ok_def)

section \<open>The operations of the Model\<close>

text \<open>adjustChannelUserCount changes channels and the count of the current channel.\<close>

lemma adjust_current: "map_option f (m_currentChannel (adjustChannelUserCount c d m)) = None \<longleftrightarrow> m_currentChannel m = None"
  by (auto simp: adjustChannelUserCount_def split: prod.split option.split)

lemma ui_ok_adjust [simp]: "ui_ok (adjustChannelUserCount c d m) \<longleftrightarrow> ui_ok m"
  by (simp add: ui_ok_def adjustChannelUserCount_def split: prod.split option.split)

lemma ui_ok_setActive [simp]: "ui_ok m \<Longrightarrow> ui_ok (setActiveChannel c m)"
proof -
  have "ui_ok (m\<lparr>m_activeChannelID := a, m_hasActiveChannel := h\<rparr>) \<longleftrightarrow> ui_ok m" for a h m by (simp add: ui_ok_def)
  then show "ui_ok m \<Longrightarrow> ui_ok (setActiveChannel c m)" by (simp add: setActiveChannel_def Let_def)
qed

lemma ui_ok_clearActive [simp]: "ui_ok m \<Longrightarrow> ui_ok (clearActiveChannel m)"
proof -
  have a: "ui_ok (m\<lparr>m_hasActiveChannel := h, m_activeChannelID := a\<rparr>) \<longleftrightarrow> ui_ok m" for a h m by (simp add: ui_ok_def)
  have "ui_ok m \<Longrightarrow> ui_ok (m\<lparr>m_channelRoster := AList.delete (m_activeChannelID m) (m_channelRoster m)\<rparr>)" by (simp add: ui_ok_def)
  then show "ui_ok m \<Longrightarrow> ui_ok (clearActiveChannel m)" by (simp add: clearActiveChannel_def Let_def a)
qed

lemma ui_ok_upsertChannel [simp]: "ui_ok m \<Longrightarrow> ui_ok (upsertChannelPresence c e m)"
  by (simp add: upsertChannelPresence_def Let_def ui_ok_def)

lemma ui_ok_removeChannel [simp]: "ui_ok m \<Longrightarrow> ui_ok (removeChannelPresence c i m)"
  by (simp add: removeChannelPresence_def Let_def ui_ok_def split: option.split)

lemma ui_ok_upsertServer [simp]: "ui_ok m \<Longrightarrow> ui_ok (upsertServerPresence e m)"
  by (simp add: upsertServerPresence_def Let_def ui_ok_def online_ok_def)

lemma ui_ok_removeServer [simp]: "ui_ok m \<Longrightarrow> ui_ok (removeServerPresence i m)"
proof -
  have "ui_ok m \<Longrightarrow> ui_ok (fold (\<lambda>c. removeChannelPresence c i) cs m)" for cs m
    by (induction cs arbitrary: m) simp_all
  then show "ui_ok m \<Longrightarrow> ui_ok (removeServerPresence i m)"
    by (simp add: removeServerPresence_def Let_def ui_ok_def online_ok_def)
qed

lemma ui_ok_open_modal [simp]: "ui_ok m \<Longrightarrow> ui_ok (open_modal d m)"
  by (simp add: open_modal_def ui_ok_def)

lemma ui_ok_markRead [simp]: "ui_ok (markCurrentMessageAsRead m) \<longleftrightarrow> ui_ok m"
  by (simp add: markCurrentMessageAsRead_def ui_ok_def)

lemma ui_ok_showPassword [simp]: "ui_ok m \<Longrightarrow> ui_ok (showPasswordModal m)"
  by (simp add: showPasswordModal_def Let_def ui_ok_def)

end
