(* ===== verification/UiReach.thy ===== *)
theory UiReach imports UiInv begin

text \<open>Every handler and every key of the client keeps the invariant ui_ok, so it holds in every state the client reaches.\<close>

section \<open>Fields\<close>

text \<open>The fields the invariant does not look at, and what it asks of the others one by one.\<close>

lemma ui_ok_frame [simp]:
  "ui_ok (m\<lparr>m_connectionState := x1\<rparr>) \<longleftrightarrow> ui_ok m"
  "ui_ok (m\<lparr>m_reconnectAttempt := x2\<rparr>) \<longleftrightarrow> ui_ok m"
  "ui_ok (m\<lparr>m_switchingMethod := x3\<rparr>) \<longleftrightarrow> ui_ok m"
  "ui_ok (m\<lparr>m_connGeneration := x4\<rparr>) \<longleftrightarrow> ui_ok m"
  "ui_ok (m\<lparr>m_directoryMode := x5\<rparr>) \<longleftrightarrow> ui_ok m"
  "ui_ok (m\<lparr>m_awaitingServerList := x6\<rparr>) \<longleftrightarrow> ui_ok m"
  "ui_ok (m\<lparr>m_availableServers := x7\<rparr>) \<longleftrightarrow> ui_ok m"
  "ui_ok (m\<lparr>m_serverConfig := x8\<rparr>) \<longleftrightarrow> ui_ok m"
  "ui_ok (m\<lparr>m_channels := x9\<rparr>) \<longleftrightarrow> ui_ok m" "ui_ok (m\<lparr>m_threads := x10\<rparr>) \<longleftrightarrow> ui_ok m"
  "ui_ok (m\<lparr>m_userDirectory := x11\<rparr>) \<longleftrightarrow> ui_ok m"
  "ui_ok (m\<lparr>m_hasActiveChannel := x12\<rparr>) \<longleftrightarrow> ui_ok m"
  "ui_ok (m\<lparr>m_activeChannelID := x13\<rparr>) \<longleftrightarrow> ui_ok m"
  "ui_ok (m\<lparr>m_selfSessionID := x14\<rparr>) \<longleftrightarrow> ui_ok m"
  "ui_ok (m\<lparr>m_showUserSidebar := x15\<rparr>) \<longleftrightarrow> ui_ok m"
  "ui_ok (m\<lparr>m_unreadCounts := x16\<rparr>) \<longleftrightarrow> ui_ok m"
  "ui_ok (m\<lparr>m_loadingChannels := x17\<rparr>) \<longleftrightarrow> ui_ok m"
  "ui_ok (m\<lparr>m_loadingThreadList := x18\<rparr>) \<longleftrightarrow> ui_ok m"
  "ui_ok (m\<lparr>m_loadingThreadReplies := x19\<rparr>) \<longleftrightarrow> ui_ok m"
  "ui_ok (m\<lparr>m_loadingMore := x20\<rparr>) \<longleftrightarrow> ui_ok m"
  "ui_ok (m\<lparr>m_loadingMoreReplies := x21\<rparr>) \<longleftrightarrow> ui_ok m"
  "ui_ok (m\<lparr>m_sendingMessage := x22\<rparr>) \<longleftrightarrow> ui_ok m"
  "ui_ok (m\<lparr>m_allThreadsLoaded := x23\<rparr>) \<longleftrightarrow> ui_ok m"
  "ui_ok (m\<lparr>m_allRepliesLoaded := x24\<rparr>) \<longleftrightarrow> ui_ok m"
  "ui_ok (m\<lparr>m_height := x25\<rparr>) \<longleftrightarrow> ui_ok m"
  "ui_ok (m\<lparr>m_threadListHeight := x26\<rparr>) \<longleftrightarrow> ui_ok m"
  "ui_ok (m\<lparr>m_newMessageIDs := x27\<rparr>) \<longleftrightarrow> ui_ok m"
  "ui_ok (m\<lparr>m_confirmingDelete := x28\<rparr>) \<longleftrightarrow> ui_ok m"
  "ui_ok (m\<lparr>m_pendingDeleteID := x29\<rparr>) \<longleftrightarrow> ui_ok m"
  "ui_ok (m\<lparr>m_chatMessages := x30\<rparr>) \<longleftrightarrow> ui_ok m"
  "ui_ok (m\<lparr>m_chatTextarea := x31\<rparr>) \<longleftrightarrow> ui_ok m"
  "ui_ok (m\<lparr>m_loadingChat := x32\<rparr>) \<longleftrightarrow> ui_ok m"
  "ui_ok (m\<lparr>m_allChatLoaded := x33\<rparr>) \<longleftrightarrow> ui_ok m"
  "ui_ok (m\<lparr>m_nickname := x34\<rparr>) \<longleftrightarrow> ui_ok m"
  "ui_ok (m\<lparr>m_pendingNickname := x35\<rparr>) \<longleftrightarrow> ui_ok m"
  "ui_ok (m\<lparr>m_authTargetNickname := x36\<rparr>) \<longleftrightarrow> ui_ok m"
  "ui_ok (m\<lparr>m_nicknameIsRegistered := x37\<rparr>) \<longleftrightarrow> ui_ok m"
  "ui_ok (m\<lparr>m_userID := x38\<rparr>) \<longleftrightarrow> ui_ok m" "ui_ok (m\<lparr>m_userFlags := x39\<rparr>) \<longleftrightarrow> ui_ok m"
  "ui_ok (m\<lparr>m_composeParentID := x40\<rparr>) \<longleftrightarrow> ui_ok m"
  "ui_ok (m\<lparr>m_composeMessageID := x41\<rparr>) \<longleftrightarrow> ui_ok m"
  "ui_ok (m\<lparr>m_authState := x42\<rparr>) \<longleftrightarrow> ui_ok m"
  "ui_ok (m\<lparr>m_authAttempts := x43\<rparr>) \<longleftrightarrow> ui_ok m"
  "ui_ok (m\<lparr>m_authCooldownUntil := x44\<rparr>) \<longleftrightarrow> ui_ok m"
  "ui_ok (m\<lparr>m_authErrorMessage := x45\<rparr>) \<longleftrightarrow> ui_ok m"
  "ui_ok (m\<lparr>m_firstPostWarningAsked := x46\<rparr>) \<longleftrightarrow> ui_ok m"
  "ui_ok (m\<lparr>m_errorMessage := x47\<rparr>) \<longleftrightarrow> ui_ok m"
  "ui_ok (m\<lparr>m_statusMessage := x48\<rparr>) \<longleftrightarrow> ui_ok m"
  "ui_ok (m\<lparr>m_serverDisconnectReason := x49\<rparr>) \<longleftrightarrow> ui_ok m"
  "ui_ok (m\<lparr>m_firstRun := x50\<rparr>) \<longleftrightarrow> ui_ok m"
  "ui_ok (m\<lparr>m_latestVersion := x51\<rparr>) \<longleftrightarrow> ui_ok m"
  "ui_ok (m\<lparr>m_updateAvailable := x52\<rparr>) \<longleftrightarrow> ui_ok m"
  "ui_ok (m\<lparr>m_lastPingSent := x53\<rparr>) \<longleftrightarrow> ui_ok m"
  "ui_ok (m\<lparr>m_pingInterval := x54\<rparr>) \<longleftrightarrow> ui_ok m"
  "ui_ok (m\<lparr>m_lastInteractionTime := x55\<rparr>) \<longleftrightarrow> ui_ok m"
  "ui_ok (m\<lparr>m_threadHighestMessageID := x56\<rparr>) \<longleftrightarrow> ui_ok m"
  by (simp_all add: ui_ok_def)

lemma ui_ok_stack [simp]: "ui_ok m \<Longrightarrow> stack_ok s \<Longrightarrow> ui_ok (m\<lparr>m_modalStack := s\<rparr>)"
  by (simp add: ui_ok_def)

lemma ui_ok_init [simp]: "ui_ok m \<Longrightarrow> init_ok sm \<Longrightarrow> ui_ok (m\<lparr>m_initStateMachine := sm\<rparr>)"
  by (simp add: ui_ok_def)

lemma ui_ok_rosters [simp]: "ui_ok m \<Longrightarrow> rosters_ok rs \<Longrightarrow> ui_ok (m\<lparr>m_channelRoster := rs\<rparr>)"
  by (simp add: ui_ok_def)

lemma ui_ok_replies [simp]:
  "ui_ok m \<Longrightarrow> ui_ok (m\<lparr>m_threadReplies := rs, m_repliesCached := None\<rparr>)"
  "ui_ok m \<Longrightarrow> ui_ok (m\<lparr>m_threadReplies := rs, m_repliesCached := None, m_statusMessage := t\<rparr>)"
  "ui_ok m \<Longrightarrow> ui_ok (cache_replies root rs m)"
  by (simp_all add: ui_ok_def cache_replies_def)

lemma ui_ok_cursors [simp]:
  "ui_ok m \<Longrightarrow> 0 \<le> c \<Longrightarrow> ui_ok (m\<lparr>m_channelCursor := c\<rparr>)" "ui_ok m \<Longrightarrow> - 1 \<le> c \<Longrightarrow> ui_ok (m\<lparr>m_threadCursor := c\<rparr>)"
  "ui_ok m \<Longrightarrow> 0 \<le> c \<Longrightarrow> ui_ok (m\<lparr>m_replyCursor := c\<rparr>)"
  by (simp_all add: ok_defs)

lemma init_ok_steps [simp]:
  "init_ok sm \<Longrightarrow> init_ok (OnServerConfig now sm)" "init_ok sm \<Longrightarrow> init_ok (snd (OnAuthResponse sm))"
  "init_ok sm \<Longrightarrow> init_ok (snd (OnTimeout now sm))" "init_ok sm \<Longrightarrow> init_ok (snd (NextCheckDelay sm))"
  by (auto simp: init_ok_def OnServerConfig_def OnAuthResponse_def OnTimeout_def NextCheckDelay_def millisecond_def)

lemma ui_ok_parts [simp]:
  assumes "ui_ok m"
  shows "stack_ok (m_modalStack m)" and "cursors_ok (m_channelCursor m) (m_threadCursor m) (m_replyCursor m)"
    and "init_ok (m_initStateMachine m)" and "rosters_ok (m_channelRoster m)"
    and "cache_ok (m_repliesCached m) (m_threadRepliesCache m) (m_threadReplies m)"
  using assms by (simp_all add: ui_ok_def)

section \<open>Results\<close>

definition ui_keeps :: "ui_result \<Rightarrow> bool" where
  "ui_keeps r \<longleftrightarrow> (\<forall>m cmds. r = Returns (m, cmds) \<longrightarrow> ui_ok m)"

lemma keeps_simps [simp]:
  "ui_keeps (Returns r) \<longleftrightarrow> ui_ok (fst r)" "ui_keeps Panics" "ui_keeps Starves" "ui_keeps Exhausted" "ui_keeps (listening cmds m) \<longleftrightarrow> ui_ok m"
  by (cases r) (simp_all add: ui_keeps_def listening_def)

lemma keeps_if [simp]: "ui_keeps (if b then r else r') \<longleftrightarrow> (if b then ui_keeps r else ui_keeps r')"
  by simp

lemma keeps_decoded:
  assumes "ui_ok m" and "\<And>msg. ui_keeps (k msg m)"
  shows "ui_keeps (on_decoded E what r k m)"
  using assms by (auto simp: on_decoded_def split: prod.split option.split)

section \<open>Frames\<close>

lemma ui_ok_auth_failed [simp]: "ui_ok m \<Longrightarrow> ui_ok (auth_failed now why m)"
  by (simp add: auth_failed_def Let_def)

lemma stack_ok_replace [simp]:
  "stack_ok s \<Longrightarrow> TopType s = modal_Type d \<Longrightarrow> TopType s \<noteq> ModalNone \<Longrightarrow> stack_ok (set_top d s)"
  by (rule stack_ok_set_top) (auto simp: TopType_def Top_def split: if_splits)

lemma ui_ok_change [simp]: "ui_ok m \<Longrightarrow> ui_ok (change_messages i f m)"
  by (auto simp: change_messages_def ui_ok_def cache_ok_def Let_def simp del: ui_ok_parts split: option.split)

lemma ui_ok_edit [simp]: "ui_ok m \<Longrightarrow> ui_ok (applyMessageEdit i content t m)"
  by (simp add: applyMessageEdit_def)

lemma ui_ok_deletion [simp]: "ui_ok m \<Longrightarrow> ui_ok (applyMessageDeletion i content m)"
  by (simp add: applyMessageDeletion_def Let_def)

lemma ssh_key_answer_keeps [simp]: "ui_ok m \<Longrightarrow> ui_keeps (ssh_key_answer success status why m)"
  by (simp add: ssh_key_answer_def)

lemma admin_answer_keeps [simp]: "ui_ok m \<Longrightarrow> ui_keeps (admin_answer t success message m)"
  by (simp add: admin_answer_def)

text \<open>The handlers that decode their frame and then change fields or the stack of dialogs.\<close>

lemmas simple_handlers =
  handleServerConfig_def handleNicknameResponse_def handleUserInfo_def handleRegisterResponse_def handleError_ui_def
  handleDisconnect_ui_def handleSubscribeOk_def handleChannelCreated_def handleJoinResponse_def handleLeaveResponse_def
  handleUnreadCounts_def handleChannelPresence_def handleServerPresence_def handleSSHKeyList_def handleSSHKeyAdded_def
  handleSSHKeyLabelUpdated_def handleSSHKeyDeleted_def handleUserBanned_def handleIPBanned_def handleUserUnbanned_def handleIPUnbanned_def
  handleBanList_def handleUserList_def handleUserDeleted_def

lemma keeps_simple_handlers [simp]:
  assumes "ui_ok m"
  shows "ui_keeps (handleServerConfig E f m)" "ui_keeps (handleNicknameResponse E f m)" "ui_keeps (handleUserInfo E f m)"
    "ui_keeps (handleRegisterResponse E f m)" "ui_keeps (handleError_ui E f m)" "ui_keeps (handleDisconnect_ui E f m)"
    "ui_keeps (handleSubscribeOk E f m)" "ui_keeps (handleChannelCreated E f m)" "ui_keeps (handleJoinResponse E f m)"
    "ui_keeps (handleLeaveResponse E f m)" "ui_keeps (handleUnreadCounts E f m)" "ui_keeps (handleChannelPresence E f m)"
    "ui_keeps (handleServerPresence E f m)" "ui_keeps (handleSSHKeyList E f m)" "ui_keeps (handleSSHKeyAdded E f m)"
    "ui_keeps (handleSSHKeyLabelUpdated E f m)" "ui_keeps (handleSSHKeyDeleted E f m)" "ui_keeps (handleUserBanned E f m)"
    "ui_keeps (handleIPBanned E f m)" "ui_keeps (handleUserUnbanned E f m)" "ui_keeps (handleIPUnbanned E f m)"
    "ui_keeps (handleBanList E f m)" "ui_keeps (handleUserList E f m)" "ui_keeps (handleUserDeleted E f m)"
  unfolding simple_handlers by (rule keeps_decoded; simp add: assms Let_def case_prod_beta split: option.split)+

lemma keeps_handleServerList [simp]: "ui_ok m \<Longrightarrow> ui_keeps (handleServerList E f m)"
  by (simp add: handleServerList_def Let_def split: prod.split option.split)

text \<open>Leaving the views of a channel.\<close>

lemma ui_ok_no_channel [simp]:
  "ui_ok m \<Longrightarrow> ui_ok (m\<lparr>m_currentChannel := None, m_threads := ts, m_currentThread := None, m_threadReplies := [],
     m_repliesCached := None, m_currentView := ViewChannelList\<rparr>)"
  by (simp add: ui_ok_def view_ok_def del: ui_ok_parts)

definition keeps_model :: "Model run \<Rightarrow> bool" where
  "keeps_model r \<longleftrightarrow> (\<forall>m. r = Returns m \<longrightarrow> ui_ok m)"

lemma keeps_sorted_then: "(\<And>rs. keeps_model (k rs)) \<Longrightarrow> keeps_model (sorted_then replies root k)"
  by (simp add: sorted_then_def keeps_model_def split: option.split)

lemma keeps_reply_list: "ui_ok m \<Longrightarrow> keeps_model (reply_list root new further m)"
proof -
  assume ok: "ui_ok m"
  have "keeps_model (run_then r k)" if "keeps_model r" "\<And>m. ui_ok m \<Longrightarrow> keeps_model (k m)" for r and k :: "Model \<Rightarrow> Model run"
    using that by (cases r) (auto simp: keeps_model_def)
  moreover have "keeps_model (Returns m)" if "ui_ok m" for m using that by (simp add: keeps_model_def)
  ultimately show ?thesis using ok unfolding reply_list_def by (simp add: keeps_sorted_then)
qed

lemma keeps_handleMessageList [simp]: "ui_ok m \<Longrightarrow> ui_keeps (handleMessageList E f m)"
proof -
  assume ok: "ui_ok m"
  have "ui_keeps (run_then (reply_list root new further m) (listening []))" if "ui_ok m" for root new further m
    using keeps_reply_list [OF that] by (cases "reply_list root new further m") (auto simp: keeps_model_def)
  then show ?thesis using ok
    by (simp add: handleMessageList_def Let_def chat_list_def list_threads_def split: prod.split option.split)
qed

lemma ui_ok_found [simp]: "ui_ok m \<Longrightarrow> index_of i ms = Some n \<Longrightarrow> ui_ok (m\<lparr>m_threadCursor := n\<rparr>)"
    "ui_ok m \<Longrightarrow> index_of i ms = Some n \<Longrightarrow> ui_ok (m\<lparr>m_replyCursor := n + 1\<rparr>)"
  by (auto simp: index_of_def)

lemma keeps_new_root [simp]: "ui_ok m \<Longrightarrow> ui_keeps (new_root E msg m)"
  by (simp add: new_root_def Let_def split: option.split)

lemma keeps_new_reply [simp]: "ui_ok m \<Longrightarrow> ui_keeps (new_reply E msg parent root m)"
  by (simp add: new_reply_def sorted_then_def Let_def split: option.split)

lemmas other_handlers = handleAuthResponse_def handleChannelList_def handleChannelDeleted_def handleMessagePosted_def handleNewMessage_def handleMessageDeleted_def handleMessageEdited_def

lemma keeps_other_handlers [simp]:
  assumes "ui_ok m"
  shows "ui_keeps (handleAuthResponse E f m)" "ui_keeps (handleChannelList E f m)" "ui_keeps (handleChannelDeleted E f m)"
    "ui_keeps (handleMessagePosted E f m)" "ui_keeps (handleNewMessage E f m)" "ui_keeps (handleMessageDeleted E f m)" "ui_keeps (handleMessageEdited E f m)"
  unfolding other_handlers by (rule keeps_decoded; simp add: assms Let_def split: option.split)+

lemma keeps_handleChannelUserList [simp]: "ui_ok m \<Longrightarrow> ui_keeps (handleChannelUserList E f m)"
  unfolding handleChannelUserList_def by (rule keeps_decoded) (simp_all add: Let_def roster_ok_fold)

lemma keeps_handleServerFrame [simp]:
  assumes "ui_ok m"
  shows "ui_keeps (handleServerFrame E f m)"
proof -
  have "\<forall>(t, h) \<in> set frame_handlers. \<forall>E f m. ui_ok m \<longrightarrow> ui_keeps (h E f m)" by (simp add: frame_handlers_def)
  then show ?thesis using assms
    by (auto simp: handleServerFrame_def split: option.split dest!: map_of_SomeD)
qed

section \<open>Keys\<close>

text \<open>What the keys change are fields of the view: the channel, the thread and the cursors.\<close>

lemmas view_defs = ui_ok_def view_ok_def cursors_ok_def

lemma ui_ok_navigate [simp]: "ui_ok m \<Longrightarrow> ui_ok (navigateUp m)" "ui_ok m \<Longrightarrow> ui_ok (navigateDown m)"
  by (auto simp: navigateUp_def navigateDown_def view_defs simp del: ui_ok_parts split: ViewState.split)

lemma ui_ok_selectChannel [simp]: "ui_ok m \<Longrightarrow> ui_ok (fst (selectCurrentChannel m))"
  by (simp add: selectCurrentChannel_def Let_def view_defs del: ui_ok_parts)

lemma ui_ok_selectThread [simp]: "ui_ok m \<Longrightarrow> m_currentView m = ViewThreadList \<Longrightarrow> ui_ok (fst (selectCurrentThread m))"
  by (simp add: selectCurrentThread_def Let_def view_defs del: ui_ok_parts)

lemma ui_ok_selectItem [simp]: "ui_ok m \<Longrightarrow> ui_ok (fst (selectItem m))"
  by (cases "m_currentView m") (simp_all add: selectItem_def)

lemma ui_ok_goBack [simp]: "ui_ok m \<Longrightarrow> ui_ok (fst (goBack m))"
  by (auto simp: goBack_def view_defs simp del: ui_ok_parts split: ViewState.split)

lemma ui_ok_showCompose [simp]: "ui_ok m \<Longrightarrow> ui_ok (showComposeModal mode content m)"
  by (simp add: showComposeModal_def)

lemma ui_ok_show [simp]: "ui_ok m \<Longrightarrow> ui_ok (showRegistrationModal m)" "ui_ok m \<Longrightarrow> ui_ok (showNicknameChangeModal m)"
  "ui_ok m \<Longrightarrow> ui_ok (showGoAnonymousModal m)" "ui_ok m \<Longrightarrow> ui_ok (showNicknameSetupModal m)"
  "ui_ok m \<Longrightarrow> ui_ok (showSSHKeyManagerModal keys m)" "ui_ok m \<Longrightarrow> ui_ok (showCreateChannelModal m)"
  "ui_ok m \<Longrightarrow> ui_ok (showRegistrationWarningModal proceed m)" "ui_ok m \<Longrightarrow> ui_ok (showComposeWithWarning E mode content m)"
  "ui_ok m \<Longrightarrow> ui_ok (showAdminPanel m)" "ui_ok m \<Longrightarrow> ui_ok (showCommandPalette names m)"
  by (simp_all add: showRegistrationModal_def showNicknameChangeModal_def showGoAnonymousModal_def showNicknameSetupModal_def
      showSSHKeyManagerModal_def showCreateChannelModal_def showRegistrationWarningModal_def showComposeWithWarning_def
      showAdminPanel_def showCommandPalette_def)

lemma ui_ok_action [simp]: "ui_ok m \<Longrightarrow> ui_ok (fst (ExecuteActionWithReturn a m))"
  by (cases a) (simp_all add: ExecuteActionWithReturn_def openNewThreadCompose_def openReplyCompose_def openEditMessage_def
      deleteMessage_ui_def split: option.split)

lemma ui_ok_reply_moves [simp]: "ui_ok m \<Longrightarrow> ui_ok (reply_up m)" "ui_ok m \<Longrightarrow> ui_ok (reply_down m)"
proof -
  assume ok: "ui_ok m"
  then have "0 \<le> m_replyCursor m" by (simp add: view_defs del: ui_ok_parts)
  then show "ui_ok (reply_up m)" "ui_ok (reply_down m)" using ok by (simp_all add: reply_up_def reply_down_def)
qed

lemma ui_ok_reply_down_loading [simp]: "ui_ok m \<Longrightarrow> ui_ok (fst (reply_down_loading m))"
  by (simp add: reply_down_loading_def Let_def)

lemma ui_ok_more_threads [simp]: "ui_ok m \<Longrightarrow> ui_ok (fst (more_threads m))"
  by (simp add: more_threads_def)

lemma page_jump_pos: "1 \<le> page_jump m"
  by (simp add: page_jump_def)

lemma ui_ok_thread_moves [simp]: "ui_ok m \<Longrightarrow> ui_ok (thread_up m)" "ui_ok m \<Longrightarrow> ui_ok (fst (thread_down m))"
  "ui_ok m \<Longrightarrow> ui_ok (thread_page_up m)" "ui_ok m \<Longrightarrow> ui_ok (fst (thread_page_down m))"
proof -
  assume ok: "ui_ok m"
  then have "- 1 \<le> m_threadCursor m" by (simp add: view_defs del: ui_ok_parts)
  then show "ui_ok (thread_up m)" "ui_ok (fst (thread_down m))" "ui_ok (thread_page_up m)" "ui_ok (fst (thread_page_down m))"
    using ok page_jump_pos [of m] by (simp_all add: thread_up_def thread_down_def thread_page_up_def thread_page_down_def Let_def)
qed

lemma ui_ok_channel_moves [simp]: "ui_ok m \<Longrightarrow> ui_ok (channel_up m)" "ui_ok m \<Longrightarrow> ui_ok (channel_down m)"
  by (auto simp: channel_up_def channel_down_def view_defs simp del: ui_ok_parts)

lemma keeps_at_cursor: "ui_ok m \<Longrightarrow> (\<And>x. ui_ok (fst (k x))) \<Longrightarrow> ui_keeps (at_cursor cursor xs k m)"
  by (simp add: at_cursor_def)

lemma keeps_open_thread [simp]: "ui_ok m \<Longrightarrow> m_currentView m = ViewThreadList \<Longrightarrow> ui_keeps (open_thread m)"
  unfolding open_thread_def
  by (rule keeps_at_cursor) (auto simp: Let_def view_defs simp del: ui_ok_parts split: option.split)

lemma ui_ok_refresh [simp]: "ui_ok m \<Longrightarrow> ui_ok (fst (refresh_threads m))"
  by (simp add: refresh_threads_def split: option.split)

lemma keeps_select_channel [simp]: "ui_ok m \<Longrightarrow> ui_keeps (select_channel m)"
  unfolding select_channel_def by (rule keeps_at_cursor) (simp_all add: Let_def view_defs del: ui_ok_parts)

lemma ui_ok_back_to_threads [simp]: "ui_ok m \<Longrightarrow> m_currentView m \<in> {ViewThreadList, ViewThreadView} \<Longrightarrow> ui_ok (fst (back_to_threads m))"
  by (auto simp: back_to_threads_def view_defs simp del: ui_ok_parts)

text \<open>clearActiveChannel keeps the view.\<close>

lemma view_clearActive [simp]: "m_currentView (clearActiveChannel m) = m_currentView m" "m_threadCursor (clearActiveChannel m) = m_threadCursor m"
  by (simp_all add: clearActiveChannel_def adjustChannelUserCount_def Let_def split: prod.split option.split)

lemma ui_ok_leave_current: "ui_ok m \<Longrightarrow> m_currentView m = ViewChannelList \<Longrightarrow> ui_ok (fst (leave_current m))"
  using ui_ok_clearActive [of m]
  by (auto simp: leave_current_def view_defs simp del: ui_ok_parts ui_ok_clearActive split: option.split)

lemma ui_ok_to_channels [simp]: "ui_ok m \<Longrightarrow> ui_ok (m\<lparr>m_currentView := ViewChannelList\<rparr>)"
  by (simp add: view_defs del: ui_ok_parts)

lemma ui_ok_back_to_channels [simp]: "ui_ok m \<Longrightarrow> ui_ok (fst (back_to_channels m))"
  using ui_ok_leave_current [of "m\<lparr>m_currentView := ViewChannelList, m_confirmingDelete := False\<rparr>"]
  by (auto simp: back_to_channels_def split: prod.split)

lemma ui_ok_leave_chat [simp]: "ui_ok m \<Longrightarrow> ui_ok (fst (leave_chat m))"
  using ui_ok_leave_current [of "m\<lparr>m_currentView := ViewChannelList\<rparr>"] by (auto simp: leave_chat_def split: prod.split)

section \<open>The registry\<close>

lemma ui_ok_commands [simp]: "ui_ok m \<Longrightarrow> ui_ok (reply_command E m)" "ui_ok m \<Longrightarrow> ui_ok (edit_command m)"
  "ui_ok m \<Longrightarrow> ui_ok (delete_command m)" "ui_ok m \<Longrightarrow> ui_ok (new_thread_command E m)" "ui_ok m \<Longrightarrow> ui_ok (fst (sidebar_command m))"
  by (simp_all add: reply_command_def edit_command_def delete_command_def new_thread_command_def sidebar_command_def Let_def
      split: option.split)

definition keeps_command :: "Command \<Rightarrow> bool" where
  "keeps_command c \<longleftrightarrow> (\<forall>E m. ui_ok m \<longrightarrow> registry_available c m \<longrightarrow> ui_keeps (rc_Do c E m))"

lemma keeps_command_does [simp]: "(\<And>m. ui_ok m \<Longrightarrow> ui_ok (f m)) \<Longrightarrow> keeps_command (registered keys names views modals available (does f))"
  by (simp add: keeps_command_def registered_def)

lemma keeps_command_E [simp]:
  "(\<And>E m. ui_ok m \<Longrightarrow> ui_ok (f E m)) \<Longrightarrow> keeps_command (registered keys names views modals available (\<lambda>E m. Returns (f E m, [])))"
  "(\<And>E m. ui_ok m \<Longrightarrow> ui_ok (fst (g E m))) \<Longrightarrow> keeps_command (registered keys names views modals available (\<lambda>E m. Returns (g E m)))"
  by (simp_all add: keeps_command_def registered_def)

lemma keeps_view_commands: "\<forall>c \<in> set view_commands. keeps_command c"
  unfolding view_commands_def by (simp add: keeps_command_def registered_def registry_available_def split_beta)

lemma keeps_global_commands: "\<forall>c \<in> set global_commands. keeps_command c"
  unfolding global_commands_def by (simp add: keeps_command_def registered_def)

lemma keeps_account_commands: "\<forall>c \<in> set account_commands. keeps_command c"
  unfolding account_commands_def by (simp add: keeps_command_def registered_def)

lemma keeps_registry: "c \<in> set registry \<Longrightarrow> keeps_command c"
  using keeps_view_commands keeps_global_commands keeps_account_commands
  by (auto simp: registry_def) (simp_all add: keeps_command_def registered_def palette_command_def)

lemma keeps_found:
  assumes "ui_ok m"
  shows "GetCommand key m = Some c \<Longrightarrow> ui_keeps (rc_Do c E m)" and "GetCommandByName lower name m = Some c \<Longrightarrow> ui_keeps (rc_Do c E m)"
  using assms keeps_registry [of c] by (auto simp: GetCommand_def GetCommandByName_def keeps_command_def find_Some_iff)

lemma keeps_chat_keys [simp]: "ui_ok m \<Longrightarrow> ui_keeps (handleChatChannelKeys E k m)"
  by (simp add: handleChatChannelKeys_def Let_def)

lemma keeps_list_keys [simp]:
  assumes "ui_ok m" and "m_currentView m = ViewThreadList"
  shows "ui_keeps (handleThreadListKeys k m)"
proof -
  have "ui_keeps (at_cursor (m_threadCursor m) (m_threads m) (\<lambda>thread. (m\<lparr>m_currentThread := Some thread, m_currentView := ViewThreadView,
      m_replyCursor := 0, m_newMessageIDs := {}, m_confirmingDelete := False\<rparr>, cmds thread)) m)" for cmds
    using assms by (intro keeps_at_cursor) (simp_all add: view_defs del: ui_ok_parts)
  then show ?thesis using assms(1) by (simp add: handleThreadListKeys_def Let_def)
qed

lemma keeps_channel_keys [simp]:
  assumes "ui_ok m"
  shows "ui_keeps (handleChannelListKeys k m)"
proof -
  have "ui_keeps (at_cursor (m_channelCursor m) (m_channels m) (\<lambda>ch. (m\<lparr>m_currentChannel := Some ch, m_currentView := ViewThreadList,
      m_loadingMore := False, m_allThreadsLoaded := False\<rparr>, cmds ch)) m)" for cmds
    using assms by (intro keeps_at_cursor) (simp_all add: view_defs del: ui_ok_parts)
  then show ?thesis using assms by (simp add: handleChannelListKeys_def Let_def)
qed

lemma keeps_legacy [simp]: "ui_ok m \<Longrightarrow> ui_keeps (handleLegacyKeyPress E k m)"
  by (cases "m_currentView m") (simp_all add: handleLegacyKeyPress_def handleSplashKeys_def handleThreadViewKeys_def)

lemma keeps_view_key [simp]: "ui_ok m \<Longrightarrow> ui_keeps (view_key E k m)"
  by (simp add: view_key_def keeps_found split: option.split)

lemma keeps_modal_key [simp]: "ui_ok m \<Longrightarrow> Top (m_modalStack m) = Some active \<Longrightarrow> ui_keeps (modal_key E k active m)"
  by (auto simp: modal_key_def Let_def TopType_def Top_def split: prod.split option.split if_splits)

lemma keeps_handleKeyPress [simp]: "ui_ok m \<Longrightarrow> ui_keeps (handleKeyPress E k m)"
  by (simp add: handleKeyPress_def Let_def split: option.split)

section \<open>Every message\<close>

lemma keeps_handleReconnected [simp]: "ui_ok m \<Longrightarrow> ui_keeps (handleReconnected m)"
  by (auto simp: handleReconnected_def Let_def view_defs simp del: ui_ok_parts split: option.split)

lemma keeps_handleServerSelected [simp]: "ui_ok m \<Longrightarrow> ui_keeps (handleServerSelected E server m)"
  by (simp add: handleServerSelected_def Let_def split: option.split sum.split prod.split)

lemma keeps_handleCustomServerInput [simp]: "ui_ok m \<Longrightarrow> ui_keeps (handleCustomServerInput E address m)"
  using keeps_handleServerSelected [of m E "custom_ServerInfo (if 58 \<in> set address then address else address @ lit '':6465'')"]
  by (cases "handleServerSelected E (custom_ServerInfo (if 58 \<in> set address then address else address @ lit '':6465'')) m")
    (auto simp: handleCustomServerInput_def Let_def simp del: keeps_handleServerSelected split: option.split prod.split)

lemma keeps_connection_handlers [simp]: "ui_ok m \<Longrightarrow> ui_keeps (handleSwitchToServerSelector m)" "ui_ok m \<Longrightarrow> ui_keeps (handleConnectionRetry E m)"
  "ui_ok m \<Longrightarrow> ui_keeps (handleTryDifferentMethod E m)" "ui_ok m \<Longrightarrow> ui_keeps (handleConnectionMethodSelected E method m)"
  "ui_ok m \<Longrightarrow> ui_keeps (handleConnectionAttemptResult E err name m)" "ui_ok m \<Longrightarrow> ui_keeps (disconnected E g m)"
  by (simp_all add: handleSwitchToServerSelector_def handleConnectionRetry_def handleTryDifferentMethod_def handleConnectionMethodSelected_def
      handleConnectionAttemptResult_def disconnected_def Let_def split: option.split sum.split prod.split)

lemma keeps_init_timeout [simp]: "ui_ok m \<Longrightarrow> ui_keeps (init_timeout E m)"
proof -
  assume ok: "ui_ok m"
  then have *: "init_ok (snd (OnTimeout (ue_now E) (m_initStateMachine m)))" by simp
  moreover have "init_ok (snd (NextCheckDelay (snd (OnTimeout (ue_now E) (m_initStateMachine m)))))" using * by simp
  ultimately show ?thesis using ok
    by (cases "OnTimeout (ue_now E) (m_initStateMachine m)") (simp add: init_timeout_def Let_def split_beta split: bool.split del: init_ok_steps)
qed

lemma keeps_Update:
  assumes "ui_ok m"
  shows "ui_keeps (Update E msg m)"
  using assms by (cases msg) (simp_all add: go_anonymous_def Let_def keeps_found split: option.split)

lemma ui_ok_NewModel: "ui_ok (NewModel now conn firstRun nickname userID directoryMode err)"
  by (simp add: NewModel_def Let_def view_defs init_ok_def NewInitStateMachine_def millisecond_def online_ok_def rosters_ok_def
      roster_ok_def Push_def stack_ok_def removeByType_def split: option.split del: ui_ok_parts)

text \<open>A step that returns keeps the invariant.\<close>

lemma ui_step_ok: "ui_ok m \<Longrightarrow> ui_step m cmds m' \<Longrightarrow> ui_ok m'"
  using keeps_Update [of m] by (auto elim!: ui_step.cases simp: ui_keeps_def)

lemma reachable_ui_ok: "ui_reachable m \<Longrightarrow> ui_ok m"
  by (induction rule: ui_reachable.induct) (auto simp: ui_ok_NewModel ui_step_ok)

end
