(* ===== verification/UiSample.thy ===== *)
theory UiSample imports UiReach begin

text \<open>
  Frames and keys as the client meets them: a frame of a type and payload, a series of frames each in its circumstances, which shared command
  a key finds when strings.ToLower does to ASCII what it is documented to do; and a client on which the properties are evaluated.
\<close>

section \<open>Frames\<close>

definition frame_with :: "u8 \<Rightarrow> bytes \<Rightarrow> Frame" where
  "frame_with t p = \<lparr>Frame_Version = 1, Frame_Type = t, Frame_Flags = 0, Frame_Payload = p\<rparr>"

fun handle_frames :: "(ui_env \<times> Frame) list \<Rightarrow> Model \<Rightarrow> Model run" where
  "handle_frames [] m = Returns m"
| "handle_frames ((E, f) # fs) m = run_then (handleServerFrame E (Some f) m) (\<lambda>(m, cmds). handle_frames fs m)"

lemma handle_frames_append: "handle_frames (fs @ gs) m = run_then (handle_frames fs m) (handle_frames gs)"
proof (induction fs arbitrary: m)
  case (Cons f fs)
  then show ?case by (cases f; cases "handleServerFrame (fst f) (Some (snd f)) m") auto
qed simp

lemma frames_ok: "ui_ok m \<Longrightarrow> handle_frames fs m = Returns m' \<Longrightarrow> ui_ok m'"
proof (induction fs arbitrary: m)
  case (Cons f fs)
  then show ?case using keeps_handleServerFrame [OF Cons.prems(1), of "fst f" "Some (snd f)"]
    by (cases f; cases "handleServerFrame (fst f) (Some (snd f)) m") (auto simp: ui_keeps_def)
qed simp

text \<open>The handler of a type.\<close>

lemma dispatched [simp]:
  "Frame_Type f = TypeAuthResponse \<Longrightarrow> handleServerFrame E (Some f) m = handleAuthResponse E f m"
  "Frame_Type f = TypeNicknameResponse \<Longrightarrow> handleServerFrame E (Some f) m = handleNicknameResponse E f m"
  "Frame_Type f = TypeMessageList \<Longrightarrow> handleServerFrame E (Some f) m = handleMessageList E f m"
  "Frame_Type f = TypeServerPresence \<Longrightarrow> handleServerFrame E (Some f) m = handleServerPresence E f m"
  by (simp_all add: handleServerFrame_def frame_handlers_def type_code)

lemma frame_with_simps [simp]: "Frame_Type (frame_with t p) = t" "Frame_Payload (frame_with t p) = p"
  by (simp_all add: frame_with_def)

section \<open>Keys\<close>

text \<open>Keys are compared as text.\<close>

declare lit_chars [simp del]

definition ascii_lower :: "(gostring \<Rightarrow> gostring) \<Rightarrow> bool" where
  "ascii_lower lower \<longleftrightarrow> (\<forall>s. (\<forall>c \<in> set s. c < 128) \<longrightarrow> lower s = ClientAddr.ToLower s)"

definition plain :: "string \<Rightarrow> bool" where
  "plain s \<longleftrightarrow> (\<forall>c \<in> set s. (of_char c :: nat) < 128 \<and> \<not> (65 \<le> (of_char c :: nat) \<and> (of_char c :: nat) \<le> 90))"

lemma unat_of_char: "unat (of_char c :: u8) = of_char c"
proof -
  have "(of_char c :: u8) = of_nat (of_char c)" by (simp add: of_nat_of_char)
  moreover have "(of_char c :: nat) < 256" by (rule nat_of_char_less_256)
  ultimately show ?thesis by (simp add: unat_of_nat)
qed

lemma lit_inject [simp]: "lit s = lit t \<longleftrightarrow> s = t"
proof -
  have "c = d" if "(of_char c :: u8) = of_char d" for c d
    using that by (metis unat_of_char char_of_char)
  then show ?thesis by (auto simp: lit_def inj_map_eq_map inj_on_def)
qed

lemma byte_le [simp]: "(n :: u8) \<le> of_char c \<longleftrightarrow> unat n \<le> of_char c" "of_char c \<le> (n :: u8) \<longleftrightarrow> of_char c \<le> unat n" "of_char c < (n :: u8) \<longleftrightarrow> of_char c < unat n"
  by (simp_all add: word_le_nat_alt word_less_nat_alt unat_of_char)

lemma lower_plain:
  assumes "ascii_lower lower" and "plain s"
  shows "lower (lit s) = lit s"
proof -
  have "\<forall>c \<in> set (lit s). c < 128" using assms(2) by (auto simp: plain_def lit_def)
  then have "lower (lit s) = ClientAddr.ToLower (lit s)" using assms(1) by (simp add: ascii_lower_def)
  also have "\<dots> = lit s" using assms(2) by (auto simp: ClientAddr.ToLower_def lit_def plain_def)
  finally show ?thesis .
qed

lemma shared_keys_plain: "\<forall>cmd \<in> set SharedCommands. \<forall>k \<in> set (cd_Keys cmd). \<exists>s. k = lit s \<and> plain s"
  by (simp add: SharedCommands_def command_def plain_def)

lemma keyMatches_plain:
  assumes "ascii_lower lower" and "plain k" and "cmd \<in> set SharedCommands"
  shows "keyMatches lower (lit k) (cd_Keys cmd) \<longleftrightarrow> lit k \<in> set (cd_Keys cmd)"
proof -
  have "lower x = x" if "x \<in> set (cd_Keys cmd)" for x using shared_keys_plain assms(1,3) that lower_plain by fastforce
  then show ?thesis by (auto simp: keyMatches_def lower_plain [OF assms(1,2)] image_iff)
qed

text \<open>The shared command of a plain key.\<close>

definition shared_command :: "string \<Rightarrow> Model \<Rightarrow> CommandDefinition option" where
  "shared_command k m = List.find (\<lambda>cmd. lit k \<in> set (cd_Keys cmd) \<and> isCommandAvailable cmd m) SharedCommands"

lemma find_cong_on: "(\<And>x. x \<in> set xs \<Longrightarrow> P x = Q x) \<Longrightarrow> List.find P xs = List.find Q xs"
  by (induction xs) auto

lemma FindCommandForKey_plain:
  assumes "ascii_lower lower" and "plain k"
  shows "FindCommandForKey lower (lit k) m = shared_command k m"
  unfolding FindCommandForKey_def shared_command_def by (intro find_cong_on) (simp add: keyMatches_plain [OF assms])

text \<open>A view key of a client without a dialog, by the action it finds.\<close>

definition key_named :: "string \<Rightarrow> keypress" where
  "key_named k = \<lparr>key_String = lit k, key_Runes = None\<rparr>"

definition at_time :: "ui_env \<Rightarrow> Model \<Rightarrow> Model" where
  "at_time E m = m\<lparr>m_lastInteractionTime := ue_now E\<rparr>"

lemma at_time_simps [simp]: "m_modalStack (at_time E m) = m_modalStack m" "m_currentView (at_time E m) = m_currentView m"
  "m_threadCursor (at_time E m) = m_threadCursor m" "m_threads (at_time E m) = m_threads m"
  "m_threadRepliesCache (at_time E m) = m_threadRepliesCache m" "m_loadingMoreReplies (at_time E m) = m_loadingMoreReplies m"
  "m_currentChannel (at_time E m) = m_currentChannel m"
  by (simp_all add: at_time_def)

lemmas no_dialog = GetActiveModal_def TopType_def Top_def

lemma shared_enter: "m_modalStack m = [] \<Longrightarrow> m_currentView m = ViewThreadList \<Longrightarrow> map_option cd_ActionID (shared_command ''enter'' m) = Some ActionSelect"
  by (simp add: shared_command_def SharedCommands_def command_def isCommandAvailable_def no_dialog)

lemma shared_esc: "m_modalStack m = [] \<Longrightarrow> m_currentView m = ViewThreadView \<Longrightarrow> map_option cd_ActionID (shared_command ''esc'' m) = Some ActionGoBack"
  by (simp add: shared_command_def SharedCommands_def command_def isCommandAvailable_def no_dialog)

lemma shared_pgdown: "shared_command ''pgdown'' m = None"
  by (simp add: shared_command_def SharedCommands_def command_def)

lemma shared_key:
  assumes "ascii_lower (ue_ToLower E)" and "plain k" and "k \<noteq> ''ctrl+c''" and "m_modalStack m = []" and "m_currentView m \<noteq> ViewChatChannel"
    and "map_option cd_ActionID (shared_command k (at_time E m)) = Some a"
  shows "handleKeyPress E (key_named k) m = Returns (ExecuteActionWithReturn a (at_time E m))"
  using assms by (auto simp: handleKeyPress_def Let_def at_time_def [symmetric] pressed_def key_named_def Top_def view_key_def
      FindCommandForKey_plain)

section \<open>A client\<close>

text \<open>strings.ToLower on ASCII, a stable sort, and connections that are made.\<close>

fun put_in_order :: "(Message \<Rightarrow> Message \<Rightarrow> bool) \<Rightarrow> Message \<Rightarrow> Message list \<Rightarrow> Message list" where
  "put_in_order before x [] = [x]"
| "put_in_order before x (y # ys) = (if before y x then y # put_in_order before x ys else x # y # ys)"

definition sample_conn :: conn_info where
  "sample_conn = \<lparr>ci_address = lit ''localhost:6465'', ci_raw = lit ''localhost:6465'', ci_type = lit ''tcp''\<rparr>"

definition sample_env :: "gotime \<Rightarrow> ui_env" where
  "sample_env now = \<lparr>ue_now = now, ue_text = (\<lambda>e. []), ue_sort = (\<lambda>before xs. foldr (put_in_order before) xs []), ue_ToLower = ClientAddr.ToLower,
     ue_SendMessage = (\<lambda>x. None), ue_HashPassword = (\<lambda>p n. p @ n), ue_dismissed = False, ue_savedServer = [],
     ue_SetConfig = (\<lambda>a. None), ue_history = (\<lambda>a. Inr []), ue_conn = sample_conn, ue_NewConnection = (\<lambda>a. Inr sample_conn),
     ue_Connect = (\<lambda>c. (c, None)), ue_Textarea = (\<lambda>k t. t @ key_String k), ue_Dialog = (\<lambda>k d. (Some d, []))\<rparr>"

lemma sample_env_simps [simp]: "ue_ToLower (sample_env now) = ClientAddr.ToLower" "ue_now (sample_env now) = now"
  by (simp_all add: sample_env_def)

lemma sample_lower [simp]: "ascii_lower ClientAddr.ToLower"
  by (simp add: ascii_lower_def)

definition sample_start :: "bool \<Rightarrow> Model" where
  "sample_start firstRun = NewModel 0 sample_conn firstRun (lit ''ann'') None False None"

text \<open>Its forum channel, a thread and replies.\<close>

definition sample_channel :: Channel where
  "sample_channel = \<lparr>Channel_ID = 1, Channel_Name = lit ''general'', Channel_Description = [], Channel_UserCount = 0,
     Channel_IsOperator = False, Channel_Type = 1, Channel_RetentionHours = 0\<rparr>"

definition sample_message :: "u64 \<Rightarrow> u64 option \<Rightarrow> Message" where
  "sample_message i parent = \<lparr>Message_ID = i, Message_ChannelID = 1, Message_SubchannelID = None, Message_ParentID = parent,
     Message_AuthorUserID = None, Message_AuthorNickname = lit ''~bob'', Message_Content = lit ''hi'', Message_CreatedAt = 0,
     Message_EditedAt = None, Message_ReplyCount = 0\<rparr>"

definition sample_list :: "u64 option \<Rightarrow> Message list \<Rightarrow> MessageListMessage" where
  "sample_list parent ms = \<lparr>MessageList_ChannelID = 1, MessageList_SubchannelID = None, MessageList_ParentID = parent, MessageList_Messages = ms\<rparr>"

text \<open>A message list is encoded, and decoded as it was.\<close>

lemma sample_carried [simp]: "Message_carried (sample_message i parent) = sample_message i parent"
  by (simp add: Message_carried_def sample_message_def trunc_millis_def time_of_millis_def UnixMilli_def)

lemma sample_list_arrives:
  assumes "\<forall>x \<in> set ms. \<exists>i p. x = sample_message i p" and "length ms < 2 ^ 16"
  shows "\<exists>b. MessageListMessage_Encode (sample_list parent ms) = Inr b \<and>
    MessageListMessage_Decode MessageListMessage_zero b = (sample_list parent ms, None)"
proof -
  have ok: "\<forall>x \<in> set ms. Message_ok x"
    using assms(1) by (auto simp: Message_ok_def sample_message_def string_ok_def lit_def)
  have same: "map Message_carried ms = ms" using assms(1) by (intro map_idI) auto
  have "\<exists>b. MessageListMessage_Encode (sample_list parent ms) = Inr b"
    using ok by (simp add: msg_def codec sample_list_def list_all_iff)
  then show ?thesis using MessageListMessage_roundtrip [of "sample_list parent ms"] assms(2) same
    by (fastforce simp: MessageListMessage_sendable_def sample_list_def)
qed

end
