(* ===== verification/UiFrameProps.thy ===== *)
theory UiFrameProps imports UiSample begin

text \<open>
  What the client does with the frames of the server: it goes on listening after each, its roster is the set of the sessions online, how long
  it waits between passwords, and when it takes a list for complete.
\<close>

section \<open>Listening\<close>

fun is_listen :: "ui_cmd \<Rightarrow> bool" where
  "is_listen (Listen g) = True"
| "is_listen c = False"

definition ui_listens :: "ui_result \<Rightarrow> bool" where
  "ui_listens r \<longleftrightarrow> r \<noteq> Panics \<and> r \<noteq> Starves \<and> (\<forall>m cmds. r = Returns (m, cmds) \<longrightarrow> filter is_listen cmds = [listen m])"

lemma listens_simps [simp]: "ui_listens (listening cmds m) \<longleftrightarrow> \<not> list_ex is_listen cmds" "ui_listens Exhausted" "\<not> ui_listens Panics" "\<not> ui_listens Starves"
  by (auto simp: ui_listens_def listening_def listen_def filter_empty_conv list_ex_iff)

lemma listens_decoded:
  assumes "\<And>msg m. ui_listens (k msg m)"
  shows "ui_listens (on_decoded E what r k m)"
  using assms by (auto simp: on_decoded_def split: prod.split option.split)

lemma listens_answers [simp]: "ui_listens (ssh_key_answer success status why m)" "ui_listens (admin_answer t success message m)"
  by (simp_all add: ssh_key_answer_def sendListSSHKeys_def admin_answer_def)

lemma listens_posts [simp]: "ui_listens (new_root E msg m)" "ui_listens (new_reply E msg parent root m)"
  by (auto simp: new_root_def new_reply_def notify_if_idle_def sendDesktopNotification_def sorted_then_def Let_def split: option.split)

lemmas sent_commands = sendSetNickname_def sendSetNicknameWith_def sendGetUserInfo_def sendListChannelUsers_def sendListUsers_def

lemma listens_decoding_handlers:
  "ui_listens (handleServerConfig E f m)" "ui_listens (handleNicknameResponse E f m)" "ui_listens (handleUserInfo E f m)"
  "ui_listens (handleRegisterResponse E f m)" "ui_listens (handleError_ui E f m)" "ui_listens (handleDisconnect_ui E f m)"
  "ui_listens (handleSubscribeOk E f m)" "ui_listens (handleChannelCreated E f m)" "ui_listens (handleJoinResponse E f m)"
  "ui_listens (handleLeaveResponse E f m)" "ui_listens (handleUnreadCounts E f m)" "ui_listens (handleChannelPresence E f m)"
  "ui_listens (handleServerPresence E f m)" "ui_listens (handleSSHKeyList E f m)" "ui_listens (handleSSHKeyAdded E f m)"
  "ui_listens (handleSSHKeyLabelUpdated E f m)" "ui_listens (handleSSHKeyDeleted E f m)" "ui_listens (handleUserBanned E f m)"
  "ui_listens (handleIPBanned E f m)" "ui_listens (handleUserUnbanned E f m)" "ui_listens (handleIPUnbanned E f m)"
  "ui_listens (handleBanList E f m)" "ui_listens (handleUserList E f m)" "ui_listens (handleUserDeleted E f m)"
  unfolding simple_handlers by (rule listens_decoded; simp add: Let_def case_prod_beta sent_commands split: option.split)+

lemma listens_other_handlers:
  "ui_listens (handleAuthResponse E f m)" "ui_listens (handleChannelList E f m)" "ui_listens (handleChannelDeleted E f m)"
  "ui_listens (handleMessagePosted E f m)" "ui_listens (handleNewMessage E f m)" "ui_listens (handleMessageDeleted E f m)"
  "ui_listens (handleMessageEdited E f m)" "ui_listens (handleChannelUserList E f m)"
  unfolding other_handlers handleChannelUserList_def by (rule listens_decoded; simp add: Let_def split: option.split)+

lemma reply_list_runs: "reply_list root new further m \<noteq> Panics" "reply_list root new further m \<noteq> Starves"
  by (auto simp: reply_list_def sorted_then_def run_then_def split: run.split option.split)

lemma listens_list_handlers: "ui_listens (handleServerList E f m)" "ui_listens (handleMessageList E f m)"
proof -
  show "ui_listens (handleServerList E f m)" by (simp add: handleServerList_def Let_def split: prod.split option.split)
  have "ui_listens (run_then (reply_list root new further m) (listening []))" for root new further m
    using reply_list_runs [of root new further m] by (cases "reply_list root new further m") simp_all
  then show "ui_listens (handleMessageList E f m)" by (simp add: handleMessageList_def Let_def split: prod.split option.split)
qed

lemma listens_handlers: "\<forall>(t, h) \<in> set frame_handlers. \<forall>E f m. ui_listens (h E f m)"
  by (simp add: frame_handlers_def listens_decoding_handlers listens_other_handlers listens_list_handlers)


section \<open>Who is online\<close>

definition entry_of :: "ServerPresenceMessage \<Rightarrow> presenceEntry" where
  "entry_of p = \<lparr>pe_SessionID = ServerPresence_SessionID p, pe_Nickname = ServerPresence_Nickname p,
     pe_IsRegistered = ServerPresence_IsRegistered p, pe_UserID = ServerPresence_UserID p, pe_UserFlags = ServerPresence_UserFlags p\<rparr>"

text \<open>The abstract directory of sessions, and what a presence message means to it.\<close>

definition online_after :: "ServerPresenceMessage \<Rightarrow> (u64 \<rightharpoonup> presenceEntry) \<Rightarrow> u64 \<rightharpoonup> presenceEntry" where
  "online_after p online = online(ServerPresence_SessionID p := if ServerPresence_Online p then Some (entry_of p) else None)"

definition presence_frames :: "ServerPresenceMessage list \<Rightarrow> (ui_env \<times> Frame) list \<Rightarrow> bool" where
  "presence_frames ps fs \<longleftrightarrow>
    list_all2 (\<lambda>p (E, f). \<exists>b. ServerPresenceMessage_Encode p = Inr b \<and> f = frame_with TypeServerPresence b) ps fs"

lemma removeChannel_server [simp]: "m_serverRoster (fold (\<lambda>c. removeChannelPresence c i) cs m) = m_serverRoster m"
  by (induction cs arbitrary: m) (simp_all add: removeChannelPresence_def Let_def split: option.split)

lemma map_of_delete: "map_of (AList.delete k xs) = (map_of xs)(k := None)"
  by (simp add: delete_conv')

lemma map_of_update: "map_of (AList.update k v xs) = (map_of xs)(k \<mapsto> v)"
  by (simp add: update_conv')

lemma presence_handled:
  assumes "ServerPresenceMessage_Encode p = Inr b"
  shows "\<exists>m' cmds. handleServerFrame E (Some (frame_with TypeServerPresence b)) m = Returns (m', cmds) \<and>
     map_of (m_serverRoster m') = online_after p (map_of (m_serverRoster m))"
  using ServerPresenceMessage_roundtrip [OF assms]
  by (simp add: handleServerPresence_def on_decoded_def listening_def
      online_after_def entry_of_def upsertServerPresence_def removeServerPresence_def Let_def map_of_delete map_of_update)

lemma presence_run:
  assumes "presence_frames ps fs"
  shows "\<exists>m'. handle_frames fs m = Returns m' \<and> map_of (m_serverRoster m') = fold online_after ps (map_of (m_serverRoster m))"
  using assms unfolding presence_frames_def
proof (induction ps fs arbitrary: m rule: list_all2_induct)
  case (Cons p ps f fs)
  then obtain E b where b: "ServerPresenceMessage_Encode p = Inr b" "f = (E, frame_with TypeServerPresence b)" by (cases f) auto
  from presence_handled [OF b(1), of E m] obtain m1 cmds where
    "handleServerFrame E (Some (frame_with TypeServerPresence b)) m = Returns (m1, cmds)"
      "map_of (m_serverRoster m1) = online_after p (map_of (m_serverRoster m))" by blast
  then show ?case using Cons.IH [of m1] b(2) by simp
qed simp

text \<open>C18. The list of users is the set of the sessions online: from any state the client reaches, a series of SERVER_PRESENCE messages as the
  server encodes them leaves in serverRoster the directory in which each session has the entry of its last arrival unless it has left since, and
  onlineUsers is the size of that directory modulo 2^32.\<close>

theorem roster_refines_directory:
  assumes "ui_reachable m" and "presence_frames ps fs"
  shows "\<exists>m'. handle_frames fs m = Returns m' \<and> map_of (m_serverRoster m') = fold online_after ps (map_of (m_serverRoster m)) \<and>
    m_onlineUsers m' = of_nat (card (dom (map_of (m_serverRoster m'))))"
proof -
  obtain m' where m': "handle_frames fs m = Returns m'" "map_of (m_serverRoster m') = fold online_after ps (map_of (m_serverRoster m))"
    using presence_run [OF assms(2)] by blast
  have "online_ok (m_serverRoster m') (m_onlineUsers m')"
    using frames_ok [OF reachable_ui_ok [OF assms(1)] m'(1)] by (simp add: ui_ok_def del: ui_ok_parts)
  then have "m_onlineUsers m' = of_nat (card (dom (map_of (m_serverRoster m'))))"
    by (simp add: online_ok_def roster_ok_def dom_map_of_conv_image_fst) (metis distinct_card length_map set_map)
  then show ?thesis using m' by blast
qed

section \<open>Passwords\<close>

text \<open>AUTH_RESPONSE frames that refuse, with their reasons and when they come.\<close>

definition refusal_of :: "gostring \<Rightarrow> AuthResponseMessage" where
  "refusal_of why = AuthResponseMessage_zero\<lparr>AuthResponse_Message := why\<rparr>"

definition refusal_frames :: "(gotime \<times> gostring) list \<Rightarrow> (ui_env \<times> Frame) list \<Rightarrow> bool" where
  "refusal_frames rs fs \<longleftrightarrow> list_all2 (\<lambda>(t, why) (E, f). ue_now E = t \<and>
     (\<exists>b. AuthResponseMessage_Encode (refusal_of why) = Inr b \<and> f = frame_with TypeAuthResponse b)) rs fs"

lemma refusal_handled:
  assumes "AuthResponseMessage_Encode (refusal_of why) = Inr b"
  shows "handleAuthResponse E (frame_with TypeAuthResponse b) m = Returns (auth_failed (ue_now E) why m, [listen (auth_failed (ue_now E) why m)])"
  using AuthResponseMessage_roundtrip [OF assms, of AuthResponseMessage_zero]
  by (simp add: handleAuthResponse_def on_decoded_def listening_def AuthResponseMessage_received_def refusal_of_def AuthResponseMessage_zero_def)

lemma refusals_run:
  assumes "refusal_frames rs fs"
  shows "handle_frames fs m = Returns (fold (\<lambda>(t, why). auth_failed t why) rs m)"
  using assms unfolding refusal_frames_def
proof (induction rs fs arbitrary: m rule: list_all2_induct)
  case (Cons r rs f fs)
  then obtain E b where "AuthResponseMessage_Encode (refusal_of (snd r)) = Inr b" "f = (E, frame_with TypeAuthResponse b)" "ue_now E = fst r"
    by (cases f; cases r) auto
  then show ?case using Cons.IH by (simp add: refusal_handled split_beta)
qed simp

lemma auth_failed_attempts: "m_authAttempts (auth_failed t why m) = m_authAttempts m + 1"
  by (simp add: auth_failed_def showPasswordModal_def Let_def)

lemma attempts_run: "m_authAttempts (fold (\<lambda>(t, why). auth_failed t why) rs m) = m_authAttempts m + int (length rs)"
  by (induction rs arbitrary: m) (auto simp: auth_failed_attempts)

text \<open>The dialog that asks again: for whom, why, and from when on it takes a password.\<close>

definition asks_again :: "gostring \<Rightarrow> gotime \<Rightarrow> Model \<Rightarrow> bool" where
  "asks_again why cooldown m \<longleftrightarrow> m_authState m = AuthStatePrompting \<and>
     (\<exists>nickname. Top (m_modalStack m) = Some (PasswordAuthModal nickname [] why cooldown False))"

lemma asks_again_step:
  assumes "m_authAttempts m + 1 = int n" and "n < 5"
  shows "asks_again why (if n \<ge> 2 then t + 2 ^ (n - 2) * 1000 * millisecond else m_authCooldownUntil m) (auth_failed t why m)"
proof -
  have "nat (m_authAttempts m - 1) = n - 2" if "n \<ge> 2" using assms(1) that by (simp add: nat_eq_iff)
  then show ?thesis using assms by (auto simp: asks_again_def auth_failed_def showPasswordModal_def Let_def Top_def Push_def)
qed


lemma sample_refusal: "\<exists>b. AuthResponseMessage_Encode (refusal_of [110, 111]) = Inr b"
  by (simp add: refusal_of_def AuthResponseMessage_zero_def msg_def codec string_ok_def)


section \<open>Pages\<close>

text \<open>C39. A full page is taken for the last one: on a terminal of 6 to 30 lines the list of threads asks for height - 6 threads (at least 10), and
  an answer with all of them, being shorter than 25, marks the list as complete: from then on no cursor makes the client ask for more.\<close>

theorem full_page_taken_for_last:
  assumes "sent_by now (requestThreadList channelID m) = [(TypeListMessages, ListMessagesM request)]" and "6 \<le> m_height m" and "m_height m \<le> 30"
    and "m_currentView m \<noteq> ViewChatChannel" and "\<not> m_loadingMore m" and "Frame_Type f = TypeMessageList"
    and "MessageListMessage_Decode MessageListMessage_zero (Frame_Payload f) = (answer, None)" and "MessageList_ParentID answer = None"
    and "length (MessageList_Messages answer) = unat (ListMessages_Limit request)"
  shows "\<exists>m'. handleServerFrame E (Some f) m = Returns (m', [listen m']) \<and> m_threads m' = MessageList_Messages answer \<and>
    (\<forall>c. snd (more_threads (m'\<lparr>m_threadCursor := c\<rparr>)) = [])"
proof -
  have limit: "ListMessages_Limit request = page_limit m" using assms(1) by (auto simp: requestThreadList_def list_messages_def)
  have "unat (word_of_int k :: u16) < 25" if "0 \<le> k" and "k < 25" for k
    using that by (simp only: unat_eq_nat_uint) (simp add: uint_word_of_int)
  from this [of "m_height m - 6"] have "unat (word_of_int (m_height m - 6) :: u16) < 25" using assms(2,3) by linarith
  then have "unat (page_limit m) < 25" by (auto simp: page_limit_def Let_def split: if_splits)
  then show ?thesis using assms(4-9) limit
    by (simp add: handleMessageList_def listening_def list_threads_def listen_def more_threads_def Let_def)
qed

section \<open>Opening a thread again\<close>

fun updates :: "ui_env \<Rightarrow> ui_msg list \<Rightarrow> Model \<Rightarrow> Model run" where
  "updates E [] m = Returns m"
| "updates E (x # xs) m = run_then (Update E x m) (\<lambda>(m, cmds). updates E xs m)"

lemma updates_append: "updates E (xs @ ys) m = run_then (updates E xs m) (updates E ys)"
  by (induction xs arbitrary: m) (auto simp: run_then_def split: run.split)

lemma traverse_flat: "(\<And>c. c \<in> set cs \<Longrightarrow> kids (Message_ID c) = []) \<Longrightarrow> traverse kids cs = Some cs"
  by (induction cs) (simp_all add: traverse.simps)

text \<open>The direct replies to the root come back sorted, however often each is there.\<close>

definition direct_replies :: "u64 \<Rightarrow> Message list \<Rightarrow> bool" where
  "direct_replies root rs \<longleftrightarrow> (\<forall>r \<in> set rs. Message_ParentID r = Some root \<and> Message_ID r \<noteq> root)"

lemma sort_direct:
  assumes "direct_replies root rs"
  shows "\<exists>ys. SortThreadReplies rs root = Some ys \<and> mset ys = mset rs"
proof -
  have all: "mset (sorted_kids rs root) = mset rs"
    using assms by (simp add: sorted_kids_def sort_children_sorts(1) childrenMap_slice direct_replies_def cong: filter_cong)
  have "sorted_kids rs (Message_ID c) = []" if "c \<in> set rs" for c
  proof -
    have "set (sorted_kids rs (Message_ID c)) = {}" using assms that unfolding sorted_kids_facts(1) direct_replies_def by force
    then show ?thesis by simp
  qed
  moreover have "set (sorted_kids rs root) = set rs" using all by (metis set_mset_mset)
  ultimately have "traverse (sorted_kids rs) (sorted_kids rs root) = Some (sorted_kids rs root)" by (intro traverse_flat) simp
  then show ?thesis using all by (simp add: SortThreadReplies_def)
qed

lemma direct_mset: "mset ys = mset rs \<Longrightarrow> direct_replies root ys \<longleftrightarrow> direct_replies root rs"
  by (metis direct_replies_def set_mset_mset)

text \<open>The list of replies of the open thread, with and without an entry in the cache.\<close>

lemma replies_handled:
  assumes "Frame_Type f = TypeMessageList" and "MessageListMessage_Decode MessageListMessage_zero (Frame_Payload f) = (answer, None)"
    and "MessageList_ParentID answer = Some root" and "m_currentThread m = Some t" and "Message_ID t = root" and "\<not> m_loadingMoreReplies m"
    and "MessageList_Messages answer \<noteq> []"
    and "direct_replies root (MessageList_Messages answer)" and "\<And>c. m_threadRepliesCache m root = Some c \<Longrightarrow> direct_replies root c"
  shows "\<exists>m' cmds rs. handleServerFrame E (Some f) m = Returns (m', cmds) \<and> m_threadReplies m' = rs \<and> m_threadRepliesCache m' root = Some rs \<and>
    mset rs = (case m_threadRepliesCache m root of None \<Rightarrow> {#} | Some c \<Rightarrow> mset c) + mset (MessageList_Messages answer) \<and>
    m_currentView m' = m_currentView m \<and> m_threadCursor m' = m_threadCursor m \<and> m_threads m' = m_threads m \<and>
    m_modalStack m' = m_modalStack m \<and> \<not> m_loadingMoreReplies m'"
proof (cases "m_threadRepliesCache m root")
  case None
  with sort_direct [OF assms(8)] assms(1-7) show ?thesis
    by (auto simp: handleMessageList_def reply_list_def sorted_then_def cache_replies_def listening_def Let_def)
next
  case (Some c)
  have "direct_replies root (c @ MessageList_Messages answer)" using assms(8) assms(9) [OF Some] by (auto simp: direct_replies_def)
  from sort_direct [OF this] Some assms(1-7) show ?thesis
    by (auto simp: handleMessageList_def reply_list_def sorted_then_def cache_replies_def listening_def Let_def)
qed

text \<open>The thread under the cursor of a list without a dialog, opened with Enter and left with Esc.\<close>

definition at_thread :: "Message \<Rightarrow> Model \<Rightarrow> bool" where
  "at_thread t m \<longleftrightarrow> m_modalStack m = [] \<and> m_currentView m = ViewThreadList \<and> 0 \<le> m_threadCursor m \<and>
     m_threadCursor m < int (length (m_threads m)) \<and> m_threads m ! nat (m_threadCursor m) = t \<and> \<not> m_loadingMoreReplies m"

definition in_thread :: "Message \<Rightarrow> Model \<Rightarrow> bool" where
  "in_thread t m \<longleftrightarrow> m_modalStack m = [] \<and> m_currentView m = ViewThreadView \<and> 0 \<le> m_threadCursor m \<and>
     m_threadCursor m < int (length (m_threads m)) \<and> m_threads m ! nat (m_threadCursor m) = t \<and> \<not> m_loadingMoreReplies m"

lemma enter_opens:
  assumes "ascii_lower (ue_ToLower E)" and "at_thread t m"
  shows "\<exists>m'. Update E (KeyMsg (key_named ''enter'')) m = Returns (m', [requestThreadReplies (Message_ID t) m']) \<and>
    in_thread t m' \<and> m_currentThread m' = Some t \<and> m_threadRepliesCache m' = m_threadRepliesCache m \<and> m_currentChannel m' = m_currentChannel m"
  using assms by (simp add: shared_key shared_enter plain_def at_thread_def in_thread_def ExecuteActionWithReturn_def selectItem_def
      selectCurrentThread_def Let_def requestThreadReplies_def list_current_def)

lemma esc_leaves:
  assumes "ascii_lower (ue_ToLower E)" and "in_thread t m"
  shows "\<exists>m'. Update E (KeyMsg (key_named ''esc'')) m = Returns (m', []) \<and> at_thread t m' \<and> m_threadRepliesCache m' = m_threadRepliesCache m"
  using assms by (simp add: shared_key shared_esc plain_def at_thread_def in_thread_def ExecuteActionWithReturn_def goBack_def Top_def)

text \<open>One visit: Enter, the answer of the server.\<close>

lemma visit:
  assumes "ascii_lower (ue_ToLower E)" and "at_thread t m" and "Frame_Type f = TypeMessageList"
    and "MessageListMessage_Decode MessageListMessage_zero (Frame_Payload f) = (answer, None)"
    and "MessageList_ParentID answer = Some (Message_ID t)" and "MessageList_Messages answer \<noteq> []"
    and "direct_replies (Message_ID t) (MessageList_Messages answer)"
    and "\<And>c. m_threadRepliesCache m (Message_ID t) = Some c \<Longrightarrow> direct_replies (Message_ID t) c"
  shows "\<exists>m' rs. updates E [KeyMsg (key_named ''enter''), ServerFrameMsg (Some f)] m = Returns m' \<and> in_thread t m' \<and> m_threadReplies m' = rs \<and>
    m_threadRepliesCache m' (Message_ID t) = Some rs \<and>
    mset rs = (case m_threadRepliesCache m (Message_ID t) of None \<Rightarrow> {#} | Some c \<Rightarrow> mset c) + mset (MessageList_Messages answer)"
proof -
  obtain m1 where m1: "Update E (KeyMsg (key_named ''enter'')) m = Returns (m1, [requestThreadReplies (Message_ID t) m1])"
    "in_thread t m1" "m_currentThread m1 = Some t" "m_threadRepliesCache m1 = m_threadRepliesCache m"
    using enter_opens [OF assms(1,2)] by blast
  have "\<not> m_loadingMoreReplies m1" using m1(2) by (simp add: in_thread_def)
  from replies_handled [OF assms(3,4,5) m1(3) refl this assms(6,7), of E] assms(8) m1(4) obtain m' cmds rs where
    "handleServerFrame E (Some f) m1 = Returns (m', cmds)" "m_threadReplies m' = rs" "m_threadRepliesCache m' (Message_ID t) = Some rs"
    "mset rs = (case m_threadRepliesCache m (Message_ID t) of None \<Rightarrow> {#} | Some c \<Rightarrow> mset c) + mset (MessageList_Messages answer)"
    "m_currentView m' = m_currentView m1" "m_threadCursor m' = m_threadCursor m1" "m_threads m' = m_threads m1"
    "m_modalStack m' = m_modalStack m1" "\<not> m_loadingMoreReplies m'"
    by auto
  then show ?thesis using m1(1,2) by (simp add: in_thread_def del: Update.simps(1) dispatched)
qed

text \<open>C37. A thread visited twice shows its replies twice: when Enter opens a thread the client has not seen, the server answers with direct replies, and
  the user goes back with Esc and opens the thread again, the same answer is merged with the cached replies as if it were new, and every reply is listed twice.\<close>

theorem reopened_thread_doubles:
  assumes "ascii_lower (ue_ToLower E)" and "at_thread t m" and "m_threadRepliesCache m (Message_ID t) = None" and "Frame_Type f = TypeMessageList"
    and "MessageListMessage_Decode MessageListMessage_zero (Frame_Payload f) = (answer, None)"
    and "MessageList_ParentID answer = Some (Message_ID t)" and "MessageList_Messages answer \<noteq> []"
    and "direct_replies (Message_ID t) (MessageList_Messages answer)"
  shows "\<exists>m'. updates E [KeyMsg (key_named ''enter''), ServerFrameMsg (Some f), KeyMsg (key_named ''esc''),
      KeyMsg (key_named ''enter''), ServerFrameMsg (Some f)] m = Returns m' \<and>
    m_currentView m' = ViewThreadView \<and> mset (m_threadReplies m') = mset (MessageList_Messages answer) + mset (MessageList_Messages answer)"
proof -
  note answer = assms(4-8)
  let ?visit = "[KeyMsg (key_named ''enter''), ServerFrameMsg (Some f)]"
  obtain m1 rs where m1: "updates E ?visit m = Returns m1" "in_thread t m1" "m_threadRepliesCache m1 (Message_ID t) = Some rs"
    "mset rs = mset (MessageList_Messages answer)"
    using visit [OF assms(1,2) answer] assms(3) by auto
  obtain m2 where m2: "Update E (KeyMsg (key_named ''esc'')) m1 = Returns (m2, [])" "at_thread t m2"
    "m_threadRepliesCache m2 = m_threadRepliesCache m1"
    using esc_leaves [OF assms(1) m1(2)] by blast
  have "direct_replies (Message_ID t) rs" using m1(4) assms(8) direct_mset by blast
  then obtain m3 where m3: "updates E ?visit m2 = Returns m3" "in_thread t m3"
    "mset (m_threadReplies m3) = mset rs + mset (MessageList_Messages answer)"
    using visit [OF assms(1) m2(2) answer] m1(3) m2(3) by auto
  have "updates E (?visit @ KeyMsg (key_named ''esc'') # ?visit) m = Returns m3"
    unfolding updates_append m1(1) by (simp add: m2(1) m3(1) del: Update.simps updates.simps(2) add: updates.simps(2) [of E "KeyMsg (key_named ''esc'')"])
  then show ?thesis using m1(4) m3 by (simp add: in_thread_def del: updates.simps)
qed

text \<open>The witnesses of the properties above.\<close>

lemma sample_started [simp]: "ui_reachable (sample_start firstRun)"
  unfolding sample_start_def by (rule ui_reachable.started)

definition sample_presence :: "bool \<Rightarrow> ServerPresenceMessage" where
  "sample_presence online = ServerPresenceMessage_zero\<lparr>ServerPresence_SessionID := 7, ServerPresence_Nickname := [98], ServerPresence_Online := online\<rparr>"

lemma sample_presence_encodes: "\<exists>b. ServerPresenceMessage_Encode (sample_presence online) = Inr b"
  by (simp add: sample_presence_def ServerPresenceMessage_zero_def msg_def codec string_ok_def)


lemma roster_refines_directory_witness:
  "\<exists>fs m'. handle_frames fs (sample_start True) = Returns m' \<and> length fs = 2 \<and> map_of (m_serverRoster m') 7 = None"
proof -
  obtain b b' where "ServerPresenceMessage_Encode (sample_presence True) = Inr b" "ServerPresenceMessage_Encode (sample_presence False) = Inr b'"
    using sample_presence_encodes by metis
  then have "presence_frames [sample_presence True, sample_presence False]
      [(sample_env 0, frame_with TypeServerPresence b), (sample_env 0, frame_with TypeServerPresence b')]" (is "presence_frames _ ?fs")
    by (simp add: presence_frames_def)
  from roster_refines_directory [OF sample_started [of True] this]
  have "\<exists>m'. handle_frames ?fs (sample_start True) = Returns m' \<and> map_of (m_serverRoster m') 7 = None"
    by (auto simp: online_after_def sample_presence_def simp del: handle_frames.simps)
  moreover have "length ?fs = 2" by simp
  ultimately show ?thesis by blast
qed

text \<open>A list of ten threads on a terminal of sixteen lines; a thread with one reply.\<close>

definition sample_forum :: Model where
  "sample_forum = (sample_start False)\<lparr>m_height := 16, m_currentChannel := Some sample_channel, m_currentView := ViewThreadList,
     m_threads := [sample_message 5 None]\<rparr>"

lemma sample_forum_simps [simp]: "m_height sample_forum = 16" "m_currentView sample_forum = ViewThreadList" "\<not> m_loadingMore sample_forum"
  "m_modalStack sample_forum = []" "m_threads sample_forum = [sample_message 5 None]" "m_threadCursor sample_forum = 0"
  "\<not> m_loadingMoreReplies sample_forum" "m_threadRepliesCache sample_forum = Map.empty"
  by (simp_all add: sample_forum_def sample_start_def NewModel_def)

lemma full_page_taken_for_last_witness:
  "\<exists>f m'. handleServerFrame (sample_env 0) (Some f) sample_forum = Returns (m', [listen m']) \<and> length (m_threads m') = 10 \<and> snd (more_threads m') = []"
proof -
  let ?ms = "map (\<lambda>i. sample_message i None) [1, 2, 3, 4, 5, 6, 7, 8, 9, 10]"
  obtain b where b: "MessageListMessage_Decode MessageListMessage_zero b = (sample_list None ?ms, None)"
    using sample_list_arrives [of ?ms None] by auto
  let ?r = "\<lparr>ListMessages_ChannelID = 1, ListMessages_SubchannelID = None, ListMessages_Limit = 10,
     ListMessages_BeforeID = None, ListMessages_ParentID = None, ListMessages_AfterID = None\<rparr>"
  have "sent_by 0 (requestThreadList 1 sample_forum) = [(TypeListMessages, ListMessagesM ?r)]"
    by (simp add: requestThreadList_def list_messages_def page_limit_def)
  from full_page_taken_for_last [OF this, of "frame_with TypeMessageList b" "sample_list None ?ms" "sample_env 0"] b
  obtain m' where r: "handleServerFrame (sample_env 0) (Some (frame_with TypeMessageList b)) sample_forum = Returns (m', [listen m'])"
    "length (m_threads m') = 10" "\<forall>c. snd (more_threads (m'\<lparr>m_threadCursor := c\<rparr>)) = []"
    by (auto simp: sample_list_def simp del: dispatched)
  have "m'\<lparr>m_threadCursor := m_threadCursor m'\<rparr> = m'" by simp
  then have "snd (more_threads m') = []" using r(3) by metis
  then show ?thesis using r(1,2) by blast
qed

lemma reopened_thread_doubles_witness:
  "\<exists>f m'. updates (sample_env 0) [KeyMsg (key_named ''enter''), ServerFrameMsg (Some f), KeyMsg (key_named ''esc''),
      KeyMsg (key_named ''enter''), ServerFrameMsg (Some f)] sample_forum = Returns m' \<and>
    mset (m_threadReplies m') = {#sample_message 6 (Some 5), sample_message 6 (Some 5)#}"
proof -
  let ?ms = "[sample_message 6 (Some 5)]"
  obtain b where b: "MessageListMessage_Decode MessageListMessage_zero b = (sample_list (Some 5) ?ms, None)"
    using sample_list_arrives [of ?ms "Some 5"] by auto
  have "at_thread (sample_message 5 None) sample_forum" by (simp add: at_thread_def)
  from reopened_thread_doubles [OF _ this, of "sample_env 0" "frame_with TypeMessageList b" "sample_list (Some 5) ?ms"] b
  show ?thesis by (auto simp: sample_list_def sample_message_def direct_replies_def simp del: updates.simps)
qed

end
