(* ===== verification/UiKeyProps.thy ===== *)
theory UiKeyProps imports UiFrameProps begin

text \<open>
  What the keys of the client do: the invariant in every reachable state, what a dialog keeps from the rest, and what the keys no longer reach since
  the commands shared with the graphical client come first.
\<close>

text \<open>C12. In every state the client reaches, by any messages in any circumstances: each type of dialog is on the stack once; a list of threads or a chat has
  its channel and an open thread its message; rosters file each session once, onlineUsers counts them; the replies shown are those of the
  cache entry they share; no cursor is below its list but the thread cursor, which may be -1; and the initialization polls every 5 to 200 ms.\<close>

theorem reachable_invariant:
  assumes "ui_reachable m"
  shows "ui_ok m"
  using assms by (rule reachable_ui_ok)

lemma splash_left: "ui_step (sample_start True) [requestChannelList]
    ((at_time (sample_env 5) (sample_start True))\<lparr>m_currentView := ViewChannelList, m_loadingChannels := True\<rparr>)"
proof -
  have "shared_command ''x'' m = None" for m by (simp add: shared_command_def SharedCommands_def command_def)
  then have "Update (sample_env 5) (KeyMsg (key_named ''x'')) (sample_start True) =
      Returns ((at_time (sample_env 5) (sample_start True))\<lparr>m_currentView := ViewChannelList, m_loadingChannels := True\<rparr>, [requestChannelList])"
    using FindCommandForKey_plain [OF sample_lower, of "''x''"]
    by (simp add: sample_start_def NewModel_def handleKeyPress_def Let_def pressed_def key_named_def Top_def view_key_def plain_def
        GetCommand_def registry_def global_commands_def view_commands_def account_commands_def registered_def handleLegacyKeyPress_def
        handleSplashKeys_def at_time_def)
  then show ?thesis by (rule ui_step.update)
qed

lemma reachable_invariant_witness: "\<exists>m. ui_reachable m \<and> m_currentView m = ViewChannelList \<and> m_loadingChannels m \<and> ui_ok m"
proof -
  let ?m = "(at_time (sample_env 5) (sample_start True))\<lparr>m_currentView := ViewChannelList, m_loadingChannels := True\<rparr>"
  have r: "ui_reachable ?m" using ui_reachable.step [OF sample_started splash_left] .
  moreover have "m_currentView ?m = ViewChannelList" "m_loadingChannels ?m" by simp_all
  ultimately show ?thesis using reachable_invariant [OF r] by blast
qed

section \<open>Dialogs\<close>



section \<open>What no key asks for\<close>

fun subscribes_thread :: "ui_cmd \<Rightarrow> bool" where
  "subscribes_thread (Send t msg) = (t = TypeSubscribeThread)"
| "subscribes_thread c = False"

fun pages_replies :: "ui_cmd \<Rightarrow> bool" where
  "pages_replies (Send t (ListMessagesM r)) = (ListMessages_ParentID r \<noteq> None \<and> ListMessages_BeforeID r \<noteq> None)"
| "pages_replies c = False"

definition ordinary :: "ui_cmd list \<Rightarrow> bool" where
  "ordinary cmds \<longleftrightarrow> \<not> list_ex subscribes_thread cmds \<and> \<not> list_ex pages_replies cmds"

lemma ordinary_simps [simp]: "ordinary []" "ordinary (c # cmds) \<longleftrightarrow> \<not> subscribes_thread c \<and> \<not> pages_replies c \<and> ordinary cmds"
  "ordinary (xs @ ys) \<longleftrightarrow> ordinary xs \<and> ordinary ys"
  by (auto simp: ordinary_def)

lemmas key_commands = sendJoinChannel_def sendSubscribeChannel_def requestChatMessages_def requestThreadList_def list_messages_def
  requestThreadReplies_def list_current_def sendLeaveChannel_def sendUnsubscribeThread_def sendUnsubscribeChannel_def loadMoreThreads_def
  sendPostMessage_def sendChatMessageWithContent_def requestChannelList_def requestServerList_def sendListSSHKeys_def sendListUsers_def sendListChannelUsers_def

lemma ordinary_list_current: "\<not> subscribes_thread (list_current m l b p a)" "pages_replies (list_current m l b p a) \<longleftrightarrow> m_currentChannel m \<noteq> None \<and> p \<noteq> None \<and> b \<noteq> None"
  by (simp_all add: list_current_def list_messages_def type_code split: option.split)

lemma ordinary_action: "ordinary (snd (ExecuteActionWithReturn a m))"
  by (cases a; cases "m_currentView m") (simp_all add: ExecuteActionWithReturn_def selectItem_def selectCurrentChannel_def selectCurrentThread_def goBack_def
      key_commands type_code Let_def split: option.split)

text \<open>A view command that subscribes is "enter" of the thread list, one that pages is "down" of the thread view.\<close>

definition ordinary_command :: "Command \<Rightarrow> bool" where
  "ordinary_command c \<longleftrightarrow> (\<forall>E m m' cmds. rc_Do c E m = Returns (m', cmds) \<longrightarrow> ordinary cmds)"

lemma ordinary_does [simp]: "ordinary_command (registered keys names views modals available (does f))"
  "ordinary_command (registered keys names views modals available (\<lambda>E. does (g E) E))"
  by (simp_all add: ordinary_command_def registered_def)

lemma ordinary_returns:
  "(\<And>m. ordinary (snd (f m))) \<Longrightarrow> ordinary_command (registered keys names views modals available (\<lambda>E m. Returns (f m)))"
  by (auto simp: ordinary_command_def registered_def) (metis snd_conv)

lemma ordinary_moves: "ordinary (snd (thread_down m))" "ordinary (snd (thread_page_down m))" "ordinary (snd (more_threads m))" "ordinary (snd (refresh_threads m))"
  "ordinary (snd (back_to_threads m))" "ordinary (snd (back_to_channels m))" "ordinary (snd (leave_chat m))" "ordinary (snd (sidebar_command m))"
  by (auto simp: thread_down_def thread_page_down_def more_threads_def refresh_threads_def back_to_threads_def back_to_channels_def leave_current_def leave_chat_def
      sidebar_command_def key_commands type_code Let_def split: option.split prod.split)

lemma ordinary_select: "select_channel m = Returns (m', cmds) \<Longrightarrow> ordinary cmds"
  by (auto simp: select_channel_def at_cursor_def key_commands type_code Let_def split: if_splits)

definition shadowed :: "Command \<Rightarrow> bool" where
  "shadowed c \<longleftrightarrow> rc_Keys c = map lit [''enter''] \<and> rc_Views c = [ViewThreadList] \<or> rc_Keys c = map lit [''down'', ''j''] \<and> rc_Views c = [ViewThreadView]"

lemma ordinary_back: "ordinary_command (registered k n v d a (\<lambda>E m. Returns (case back_to_threads m of (m, cmds) \<Rightarrow> (f m, cmds))))"
  by (rule ordinary_returns) (simp add: split_beta ordinary_moves)

lemma ordinary_selects: "ordinary_command (registered k n v d a (\<lambda>E. select_channel))"
  by (auto simp: ordinary_command_def registered_def ordinary_select)

lemmas ordinary_rules = ordinary_returns ordinary_moves ordinary_back ordinary_selects

lemma ordinary_view_commands: "\<forall>c \<in> set view_commands. ordinary_command c \<or> shadowed c"
  unfolding view_commands_def by (simp add: ordinary_rules requestChannelList_def type_code) (simp add: shadowed_def registered_def)

lemma ordinary_other_commands: "\<forall>c \<in> set (global_commands @ account_commands). ordinary_command c"
  by (simp add: global_commands_def account_commands_def ordinary_rules requestServerList_def sendListSSHKeys_def type_code)

lemma ordinary_palette: "ordinary_command (registered k n v d a palette_command)"
  by (simp add: ordinary_command_def registered_def palette_command_def)

lemma ordinary_registry: "c \<in> set registry \<Longrightarrow> ordinary_command c \<or> shadowed c"
  using ordinary_view_commands ordinary_other_commands ordinary_palette by (auto simp: registry_def)

text \<open>The shared commands take the keys of the shadowed ones first, whatever "strings.ToLower" does.\<close>

lemma shadowed_unreachable:
  assumes "m_modalStack m = []" and "GetCommand key m = Some c" and "shadowed c"
  shows "FindCommandForKey lower key m \<noteq> None"
proof -
  have c: "key \<in> set (rc_Keys c)" "registry_available c m" using assms(2) by (auto simp: GetCommand_def find_Some_iff)
  have "\<exists>cmd \<in> set SharedCommands. key \<in> set (cd_Keys cmd) \<and> isCommandAvailable cmd m"
    using assms(1,3) c unfolding shadowed_def
    by (elim disjE conjE) (simp_all add: registry_available_def SharedCommands_def command_def isCommandAvailable_def no_dialog)
  then show ?thesis unfolding FindCommandForKey_def find_None_iff keyMatches_def by blast
qed

lemma enter_found: "m_modalStack m = [] \<Longrightarrow> m_currentView m = ViewThreadList \<Longrightarrow> FindCommandForKey lower (lit ''enter'') m \<noteq> None"
  by (auto simp: FindCommandForKey_def find_None_iff keyMatches_def SharedCommands_def command_def isCommandAvailable_def no_dialog)

lemma ordinary_legacy:
  assumes "handleLegacyKeyPress E k m = Returns (m', cmds)" and "m_currentView m = ViewThreadList \<Longrightarrow> key_String k \<noteq> lit ''enter''"
  shows "ordinary cmds"
  using assms ordinary_moves
  by (cases "m_currentView m")
    (auto simp: handleLegacyKeyPress_def handleSplashKeys_def handleChannelListKeys_def handleThreadListKeys_def handleThreadViewKeys_def handleChatChannelKeys_def
      at_cursor_def pressed_def key_commands type_code Let_def split: if_splits option.splits dest!: arg_cong [of _ _ snd])

lemma ordinary_chat: "handleChatChannelKeys E k m = Returns (m', cmds) \<Longrightarrow> ordinary cmds"
  using ordinary_moves(7) [of m]
  by (auto simp: handleChatChannelKeys_def key_commands type_code Let_def split: if_splits option.splits)

lemma ordinary_key:
  assumes "m_modalStack m = []" and "handleKeyPress E k m = Returns (m', cmds)"
  shows "ordinary cmds"
proof -
  let ?m = "at_time E m"
  consider "cmds = [Quit]" | "view_key E k ?m = Returns (m', cmds)"
    using assms by (auto simp: handleKeyPress_def at_time_def Let_def Top_def split: if_splits)
  then show ?thesis
  proof cases
    case 2
    then consider (chat) "handleChatChannelKeys E k ?m = Returns (m', cmds)" | (shared) a where "ExecuteActionWithReturn a ?m = (m', cmds)"
      | (registered) c where "FindCommandForKey (ue_ToLower E) (key_String k) ?m = None" "GetCommand (key_String k) ?m = Some c" "rc_Do c E ?m = Returns (m', cmds)"
      | (legacy) "FindCommandForKey (ue_ToLower E) (key_String k) ?m = None" "handleLegacyKeyPress E k ?m = Returns (m', cmds)"
      by (auto simp: view_key_def split: if_splits option.splits)
    then show ?thesis
    proof cases
      case shared
      then show ?thesis using ordinary_action [of a ?m] by simp
    next
      case registered
      then have "\<not> shadowed c" using shadowed_unreachable [of ?m] assms(1) by fastforce
      then have "ordinary_command c" using registered(2) ordinary_registry [of c] by (auto simp: GetCommand_def find_Some_iff)
      then show ?thesis using registered(3) by (auto simp: ordinary_command_def)
    next
      case legacy
      then show ?thesis using ordinary_legacy enter_found [of ?m] assms(1) by (metis at_time_simps(1))
    qed (rule ordinary_chat)
  qed simp
qed


text \<open>By name a command is found by its first entry: the first "Navigate" of the thread view is its "up", the second pages.\<close>

definition first_named :: "Command list" where
  "first_named = global_commands @ hd view_commands # drop 2 view_commands @ drop (length (global_commands @ view_commands)) registry"

lemma find_same: "P a = P b \<Longrightarrow> List.find P (xs @ a # b # ys) = List.find P (xs @ a # ys)"
  by (induction xs) auto

lemma GetCommandByName_first: "GetCommandByName lower name m = List.find (\<lambda>c. registry_available c m \<and> lower name \<in> lower ` set (rc_Names c)) first_named"
proof -
  obtain a b rest where v: "view_commands = a # b # rest" "rc_Names a = rc_Names b" "\<And>m. registry_available a m = registry_available b m"
    by (simp add: view_commands_def registered_def registry_available_def)
  show ?thesis unfolding GetCommandByName_def first_named_def registry_def v(1)
    using find_same [of "\<lambda>c. registry_available c m \<and> lower name \<in> lower ` set (rc_Names c)" a b global_commands] v(2,3) by simp
qed

definition never_pages :: "Command \<Rightarrow> bool" where
  "never_pages c \<longleftrightarrow> (\<forall>E m m' cmds. rc_Do c E m = Returns (m', cmds) \<longrightarrow> \<not> list_ex pages_replies cmds)"

lemma never_pages_ordinary: "ordinary_command c \<Longrightarrow> never_pages c"
  by (auto simp: ordinary_command_def never_pages_def ordinary_def)

lemma never_pages_open: "never_pages (registered k n v d a (\<lambda>E. open_thread))"
  by (auto simp: never_pages_def registered_def open_thread_def at_cursor_def requestThreadRepliesAfter_def requestThreadReplies_def ordinary_list_current
      sendSubscribeThread_def Let_def split: if_splits option.splits)

lemma never_pages_named: "\<forall>c \<in> set first_named. never_pages c"
proof -
  have "\<forall>c \<in> set (hd view_commands # drop 2 view_commands). never_pages c"
    by (simp add: view_commands_def never_pages_open never_pages_ordinary ordinary_rules requestChannelList_def type_code)
  then show ?thesis using ordinary_other_commands ordinary_palette
    by (auto simp: first_named_def registry_def intro: never_pages_ordinary)
qed


section \<open>Rights that stay\<close>


section \<open>The end of an empty list\<close>

text \<open>The names of the registered commands, in lower case.\<close>

lemma names_lower:
  assumes "ascii_lower lower" and "c \<in> set registry" and "n \<in> set (rc_Names c)"
  shows "lower n = lit ''open'' \<longleftrightarrow> n = lit ''Open''"
proof -
  have "\<forall>c \<in> set registry. \<forall>n \<in> set (rc_Names c). (\<forall>b \<in> set n. b < 128) \<and> (ClientAddr.ToLower n = lit ''open'' \<longleftrightarrow> n = lit ''Open'')"
    by (simp add: registry_def global_commands_def view_commands_def account_commands_def registered_def lit_chars ClientAddr.ToLower_def)
  then show ?thesis using assms by (auto simp: ascii_lower_def)
qed

lemma find_open:
  assumes "ascii_lower lower" and "m_modalStack m = []" and "m_currentView m = ViewThreadList"
  shows "\<exists>c. GetCommandByName lower (lit ''open'') m = Some c \<and> rc_Do c E m = open_thread m" and "lit ''open'' \<in> set (GetCommandNames lower m)"
proof -
  have low: "lower (lit ''open'') = lit ''open''" using assms(1) by (rule lower_plain) (simp add: plain_def)
  have "lit ''open'' \<in> lower ` set (rc_Names c) \<longleftrightarrow> lit ''Open'' \<in> set (rc_Names c)" if "c \<in> set registry" for c
  proof -
    have "lit ''open'' \<in> lower ` set (rc_Names c) \<longleftrightarrow> (\<exists>n \<in> set (rc_Names c). lower n = lit ''open'')" by force
    then show ?thesis by (simp add: names_lower [OF assms(1) that] cong: bex_cong)
  qed
  then have "GetCommandByName lower (lit ''open'') m = List.find (\<lambda>c. registry_available c m \<and> lit ''Open'' \<in> set (rc_Names c)) registry"
    unfolding GetCommandByName_def low by (intro find_cong_on) auto
  then show "\<exists>c. GetCommandByName lower (lit ''open'') m = Some c \<and> rc_Do c E m = open_thread m"
    using assms(2,3) by (simp add: registry_def global_commands_def view_commands_def registered_def registry_available_def TopType_def Top_def)
  have "\<exists>c \<in> set view_commands. registry_available c m \<and> lit ''Open'' \<in> set (rc_Names c)"
    using assms(2,3) by (simp add: view_commands_def registered_def registry_available_def TopType_def Top_def)
  then obtain c where c: "c \<in> set view_commands" "registry_available c m" "lit ''Open'' \<in> set (rc_Names c)" by blast
  have "lower (lit ''Open'') = lit ''open''" using c names_lower [OF assms(1), of c] by (auto simp: registry_def)
  moreover have "lit ''Open'' \<in> set (concat (map rc_Names (filter (\<lambda>c. registry_available c m) (global_commands @ view_commands @ account_commands))))"
    using c by auto
  ultimately show "lit ''open'' \<in> set (GetCommandNames lower m)"
    unfolding GetCommandNames_def Let_def set_sort set_remdups set_map set_append by (intro image_eqI [where x = "lit ''Open''"] UnI1) simp_all
qed

text \<open>C40. Page down in an empty list crashes the client: with no threads the key puts the cursor at -1, the palette then offers "open", and running it
  indexes the list with -1 and panics.\<close>

theorem page_down_crashes:
  assumes "ascii_lower (ue_ToLower E)" and "m_modalStack m = []" and "m_currentView m = ViewThreadList" and "m_threads m = []" and "- 1 \<le> m_threadCursor m"
  shows "\<exists>m'. Update E (KeyMsg (key_named ''pgdown'')) m = Returns (m', []) \<and> m_threadCursor m' = - 1 \<and>
    lit ''open'' \<in> set (GetCommandNames (ue_ToLower E) m') \<and> Update E (ExecuteCommandMsg (lit ''open'')) m' = Panics"
proof -
  let ?m = "(at_time E m)\<lparr>m_threadCursor := - 1\<rparr>"
  have "GetCommand (lit ''pgdown'') (at_time E m) = None"
    by (simp add: GetCommand_def registry_def global_commands_def view_commands_def account_commands_def registered_def)
  moreover have "FindCommandForKey (ue_ToLower E) (lit ''pgdown'') (at_time E m) = None"
    using FindCommandForKey_plain [OF assms(1), of "''pgdown''"] by (simp add: plain_def shared_pgdown)
  moreover have "thread_page_down (at_time E m) = (?m, [])"
    using assms(4,5) page_jump_pos [of "at_time E m"] by (simp add: thread_page_down_def more_threads_def Let_def)
  ultimately have "Update E (KeyMsg (key_named ''pgdown'')) m = Returns (?m, [])"
    using assms(2,3) by (simp add: handleKeyPress_def Let_def pressed_def key_named_def Top_def at_time_def [symmetric] view_key_def
        handleLegacyKeyPress_def handleThreadListKeys_def)
  moreover have "open_thread ?m = Panics" using assms(4) by (simp add: open_thread_def at_cursor_def)
  ultimately show ?thesis using find_open(1) [OF assms(1), of ?m E] find_open(2) [OF assms(1), of ?m] assms(2,3) by auto
qed

section \<open>Witnesses\<close>

lemma page_down_crashes_witness:
  "\<exists>m'. Update (sample_env 9) (KeyMsg (key_named ''pgdown'')) (sample_forum\<lparr>m_threads := []\<rparr>) = Returns (m', []) \<and>
     Update (sample_env 9) (ExecuteCommandMsg (lit ''open'')) m' = Panics"
  using page_down_crashes [of "sample_env 9" "sample_forum\<lparr>m_threads := []\<rparr>"] by auto




end
