(* ===== verification/Spec2Isabelle.thy ===== *)
theory Spec2Isabelle imports WireProps MemLife SrvRefine SrvSSHProps ClientFormat WriteBufProps ClientConnProps BitStreamProps SrvAnnounceProps UiKeyProps begin

text \<open>
  A verification development for SuperChat, a chat server written in Go: the binary protocol, the in-memory store
  of messages, and the server that connects them. Paths are relative to the repository.

  The program. A client sends frames over a connection ("pkg/protocol/frame.go"); the payload of each is one of 77
  message types ("pkg/protocol/messages.go"), written with the codecs of "pkg/protocol/types.go". The server keeps a session
  per connection ("pkg/server/session.go"), reads its frames one after another ("pkg/server/server.go"), and hands each to the
  handler of its type ("pkg/server/handlers.go"). The handlers read and change the store MemDB ("pkg/database/memdb.go"), which
  holds channels, messages and sessions in memory, draws ids from a Snowflake generator ("pkg/database/snowflake.go"), and saves
  what changed to SQLite from time to time. A handler answers its session and broadcasts to the sessions that
  follow the channel or the thread; a session whose connection fails is removed, and its removal announced.

  Which theory models what.
  \<^item> Prelude, GoIO, GoRun: words, byte strings, errors; io.Writer and io.Reader with their contract as the locale
    writer_contract; how a step of the server runs (it returns, panics, waits for the clock, or
    exhausts its bound), net.Conn, and the order of a range over a map.
  \<^item> WireTypes, Frame, UserFlags: "types.go", "frame.go" and "user_flags.go".
  \<^item> MsgAuth, MsgChannel, MsgMessage, MsgSession, MsgUsers, MsgSSH, MsgAdmin, MsgDiscovery, MsgUnread, Protocol:
    the message types, each a record with its EncodeTo, Encode and Decode and an interpretation of the locale
    message_codec, and the protocol as a whole.
  \<^item> Snowflake: the generator, alone and shared by goroutines.
  \<^item> MemState, MemMessages, MemSessions, MemSnapshot: the state and the operations of MemDB.
  \<^item> SrvSession, SrvState, SrvBroadcast: the session manager with its reverse indexes of subscribers; the
    state of the server and how it sends; presence, broadcasts and the removal of sessions.
  \<^item> SrvAuth, SrvChannels, SrvMessages, SrvUsers, SrvAdmin, SrvDiscovery, SrvLoop: the handlers, the dispatch
    and the loop of a connection.
  \<^item> SrvSSH: "ssh.go", from the key a client offers (authenticateSSHKey) to the session of a channel.
  \<^item> SrvAnnounce: how a server registers with a directory (AnnounceToDirectory, maintainDirectoryAnnouncement).
  \<^item> SrvSystem: the server as a state machine (NewServer, server_step), whose steps are a connection accepted, a key offered and
    a session opened over SSH, a frame handled, a connection that ends, the sweep of stale sessions, the notice of a shutdown, the directory switched on or off, a
    snapshot, the removal of old messages, and any change of SQLite.
  \<^item> WriteBuf: the write buffer of "pkg/database/write_buffer.go", which batches statements and answers the goroutines that wait.
  \<^item> ClientFormat: what the client makes of a thread, "pkg/client/format.go": its title, the order and the depths of its replies.
  \<^item> ClientAddr, ClientConn: the addresses a client dials, "connection_helpers.go" and the parsing in "connection.go", and
    its connection, "connection.go": Connect with its fallback to WebSocket, readLoop, writeLoop, reconnectLoop.
  \<^item> UiState, UiRequests, UiFrames, UiMessages: the terminal client, "pkg/client/ui": its Model with the stack of dialogs and the machine of its
    initialization ("model.go", "modal/types.go", "init_state.go"), what its commands send, and its handlers of frames ("update.go").
  \<^item> UiModals, UiKeys, UiRegistry, UiUpdate: the keys of its dialogs ("modal"), the commands shared with the graphical client ("commands/shared.go",
    "command_executor.go"), the registry of older commands, the keys of the views, and Update; ui_step and ui_reachable are the client as a
    state machine, whose steps are any message in any circumstances.
  \<^item> BitStream: the writer and the reader of bits under the generated codecs, "tools/binschema/go/runtime/bitstream.go".

  What is proved where.
  \<^item> FrameProps, WireProps: which bytes are frames, what reaches a writer that may fail, and that a conversation
    of messages is read back as it was sent.
  \<^item> Snowflake: ids are distinct in every interleaving, increase while the clock does not step back, and repeat when it does.
  \<^item> MemPosting, MemThreads, MemSystem, MemStore, MemProps, MemLife: the well-formedness of MemDB in every reachable state, the effect of
    its operations, the walk of a thread against its specification, snapshots and the removal of old messages.
  \<^item> SrvIndex, SrvRefine: the two reverse indexes share the contract subscriber_index, and the session manager implements the
    abstract relation of who follows what.
  \<^item> SrvGood, SrvRemoval, SrvSafety: every handler keeps the invariant server_ok and returns; removing sessions terminates.
  \<^item> SrvDelivery, SrvPosting, SrvRules: who receives a message, what a post does from its frame to its readers,
    and what the handlers refuse.
  \<^item> RateLimit: the contract rate_limiter of a sliding window, kept by the limit on requests to the directory (SrvRules) and the
    limit on registrations over SSH (SrvSSHProps).
  \<^item> SrvSSHProps: a key logs in as its owner, with the id and the flags that travel as text; what an unknown key does, and how often.
  \<^item> SrvAnnounceProps: the name under which a server registers, and that a refused registration is not repeated.
  \<^item> SrvSystem: server_ok holds in every state the server reaches, and its steps never panic.
  \<^item> ClientFormat: SortThreadReplies returns each reply below the root once, as a tree in time order, and which replies make it
    and CalculateThreadDepths recurse for ever.
  \<^item> WriteBufProps: every flush answers every waiting goroutine with the outcome of its own row, the sizes of its statements, and what
    a failing Begin and a failing Commit do.
  \<^item> ClientAddr, ClientConnProps: an address is dialed at its own host and port; when Connect succeeds and what it leaves; the
    delays between attempts; what the client writes is what the server reads; how a connection gets stuck and writers pile up.
  \<^item> BitStreamProps: every pair of a write and a read keeps the contract bit_codec, so a sequence of values of any kinds is read
    back from any bit position, and a stream that lacks bytes is never taken for complete.
  \<^item> UiInv, UiReach: every operation of the terminal client keeps the invariant ui_ok, which holds in every state it reaches.
  \<^item> UiFrameProps, UiKeyProps: the client goes on listening after any frame, its roster is the directory of the sessions online, how
    it slows down passwords, what dialogs keep to themselves; and what goes wrong with threads opened twice, pages, subscriptions, rights and an empty list.
  \<^item> UiSample, SrvSample: frames, keys and a small client; a small server on which the properties are evaluated.

  Bounds. removeSession gives remove_session a depth of one more than the number of registered
  sessions, which is always enough (removeSession_returns). ListThreadReplies takes a depth for the walk; more than the
  number of stored messages is enough (list_thread_replies). The clock is a finite list of readings: a call that uses it up
  is Starves, or None in the store, and has not returned; snowflake_call_returns says what lets an id be drawn. The
  loops over frames are bounded by the bytes received.

  Parameters. A connection is any writer that can be closed. The order of a range over a map is any order that lists each key once. The
  methods of the SQLite store, bcrypt, the parser of SSH keys and the printing of a time are arguments, of which nothing is
  assumed but, for the write buffer, that a statement executed without an error is part of its transaction (tx_keeps). The address of a new variable is a fresh number. Each handler and each operation of the store is one
  step, as its lock makes it; the workers of a broadcast write in the order of their chunks, and the errors that
  are only logged keep no text. For the terminal client the record ui_env holds the clock, the text of an error, the order sort.Slice gives to equal elements,
  strings.ToLower (ascii_lower says what it does to ASCII, where that is needed), the password hash, the connections that can be made, the text area and the
  keys of the dialogs that are not modelled; a callback of a dialog works on the copy of the Model that opened it.

  Not modelled. The SQL of "database.go" and "migrations.go", whose meaning is SQLite's; the state file of the
  client, its dial over SSH and its counters of bytes ("pkg/client/state.go"), what it draws ("view.go", "styles.go" and the Render methods of the dialogs), the
  keys of the dialogs for administration, SSH keys, passwords and new channels, and the graphical client ("cmd/client-gui"); the listeners for SSH and WebSocket, the host key, configuration files, metrics and
  logging, which call third-party libraries; the updater, the load
  tester, the code generator under "tools/binschema" and the web clients.
\<close>

end
